(* ===== verification/Prelude.thy ===== *)
theory Prelude
  imports Complex_Main "HOL-Library.AList"
begin

text \<open>
  Shared vocabulary of the development: Python values (JSON documents, dicts,
  exceptions), the clock, the result type of fallible operations, the lemma
  collections the component theories extend, and the generic facts about
  dictionaries, sums and lists that their proofs share.

  Conventions.  Python's unbounded integers are \<open>int\<close>, floats are exact
  rationals (rounding, overflow to infinity and NaN are outside the model),
  strings are \<open>string\<close>, and an aware datetime is an \<open>instant\<close>: the number of
  microseconds since the epoch.  A dict is an association list in insertion
  order whose update is \<open>AList.update\<close>, as in Python: an existing key keeps its
  position, a new key is appended.  An operation that reads the clock takes a
  function \<open>nat \<Rightarrow> instant\<close>, whose value at i is the result of its i-th read.
\<close>

named_theorems op_defs \<open>definitions of the modelled operations, unfolded by the component proofs\<close>

type_synonym instant = int
type_synonym clock = "nat \<Rightarrow> instant"

definition seconds :: "int \<Rightarrow> int" where
  "seconds n = n * 1000000"

text \<open>JSON documents, as the JSON columns and job payloads hold them.\<close>

datatype json =
    JNull
  | JBool bool
  | JInt int
  | JFloat rat
  | JStr string
  | JList "json list"
  | JDict "(string \<times> json) list"

type_synonym dict = "(string \<times> json) list"

text \<open>Python truth values of the shapes that the code tests with \<open>if x\<close> or \<open>x or y\<close>.\<close>

fun json_truthy :: "json \<Rightarrow> bool" where
  "json_truthy JNull = False"
| "json_truthy (JBool b) = b"
| "json_truthy (JInt i) = (i \<noteq> 0)"
| "json_truthy (JFloat q) = (q \<noteq> 0)"
| "json_truthy (JStr s) = (s \<noteq> [])"
| "json_truthy (JList xs) = (xs \<noteq> [])"
| "json_truthy (JDict d) = (d \<noteq> [])"

definition truthy_list :: "'a list option \<Rightarrow> bool" where
  "truthy_list x = (case x of None \<Rightarrow> False | Some s \<Rightarrow> s \<noteq> [])"

lemma truthy_list_simps [simp]:
  "\<not> truthy_list None"
  "truthy_list (Some s) \<longleftrightarrow> s \<noteq> []"
  by (simp_all add: truthy_list_def)

lemma truthy_list_iff: "truthy_list x \<longleftrightarrow> (\<exists>s. x = Some s \<and> s \<noteq> [])"
  by (cases x) simp_all

definition or_list :: "'a list option \<Rightarrow> 'a list \<Rightarrow> 'a list" where
  "or_list x d = (if truthy_list x then the x else d)"

lemma or_list_simps [simp]:
  "or_list None d = d"
  "or_list (Some []) d = d"
  "s \<noteq> [] \<Longrightarrow> or_list (Some s) d = s"
  by (simp_all add: or_list_def)

text \<open>An exception as the handlers of the code see it: its message \<open>str(exc)\<close> and
  the attribute \<open>error_code\<close>, when it has one.\<close>

record exn =
  exn_message :: string
  exn_code :: "string option"

section \<open>Results\<close>

text \<open>A fallible operation returns \<open>Inl\<close> of the error it raises or \<open>Inr\<close> of its value.\<close>

definition bind_sum :: "'e + 'a \<Rightarrow> ('a \<Rightarrow> 'e + 'b) \<Rightarrow> 'e + 'b" where
  "bind_sum r f = (case r of Inl e \<Rightarrow> Inl e | Inr v \<Rightarrow> f v)"

lemma bind_sum_simps [simp]:
  "bind_sum (Inl e) f = Inl e"
  "bind_sum (Inr v) f = f v"
  by (simp_all add: bind_sum_def)

lemma bind_sum_Inr_iff: "bind_sum r f = Inr y \<longleftrightarrow> (\<exists>v. r = Inr v \<and> f v = Inr y)"
  by (cases r) simp_all

definition is_ok :: "'e + 'a \<Rightarrow> bool" where
  "is_ok r = (case r of Inl _ \<Rightarrow> False | Inr _ \<Rightarrow> True)"

lemma is_ok_simps [simp]: "\<not> is_ok (Inl e)" "is_ok (Inr v)"
  by (simp_all add: is_ok_def)

section \<open>Dictionaries\<close>

definition dict_get :: "('k \<times> 'v) list \<Rightarrow> 'k \<Rightarrow> 'v \<Rightarrow> 'v" where
  "dict_get d k dflt = (case map_of d k of None \<Rightarrow> dflt | Some v \<Rightarrow> v)"

lemma dict_get_update [simp]:
  "dict_get (AList.update k v d) k' dflt = (if k = k' then v else dict_get d k' dflt)"
  by (simp add: dict_get_def AList.update_conv')

lemma map_of_update [simp]:
  "map_of (AList.update k v d) k' = (if k = k' then Some v else map_of d k')"
  by (simp add: AList.update_conv')

lemma dict_get_Nil [simp]: "dict_get [] k dflt = dflt"
  by (simp add: dict_get_def)

lemma dict_get_Some: "map_of d k = Some v \<Longrightarrow> dict_get d k dflt = v"
  by (simp add: dict_get_def)

lemma dict_get_None: "map_of d k = None \<Longrightarrow> dict_get d k dflt = dflt"
  by (simp add: dict_get_def)

lemma update_not_Nil [simp]: "AList.update k v d \<noteq> []"
  by (cases d) (auto split: prod.splits)

section \<open>Lists\<close>

lemma find_Some_index:
  "List.find P xs = Some x \<Longrightarrow> \<exists>i < length xs. xs ! i = x \<and> P x \<and> (\<forall>j < i. \<not> P (xs ! j))"
  by (auto simp: find_Some_iff)

lemma find_map_distinct:
  "\<lbrakk> distinct (map f xs); i < length xs \<rbrakk> \<Longrightarrow> List.find (\<lambda>x. f x = f (xs ! i)) xs = Some (xs ! i)"
proof (induction xs arbitrary: i)
  case (Cons x xs)
  show ?case
  proof (cases i)
    case (Suc j)
    with Cons.prems have "f (xs ! j) \<noteq> f x" by (metis distinct.simps(2) length_Cons
          list.simps(9) nth_mem Suc_less_eq image_eqI set_map)
    with Suc Cons show ?thesis by auto
  qed simp
qed simp

lemma ex_less_Suc_split: "(\<exists>j < Suc n. P j) \<longleftrightarrow> P 0 \<or> (\<exists>j < n. P (Suc j))"
  using less_Suc_eq_0_disj by auto

lemma all_less_Suc_split: "(\<forall>j < Suc n. P j) \<longleftrightarrow> P 0 \<and> (\<forall>j < n. P (Suc j))"
  using less_Suc_eq_0_disj by auto

section \<open>Numbers as text\<close>

fun show_nat :: "nat \<Rightarrow> string" where
  "show_nat n = (if n < 10 then [char_of (48 + n)] else show_nat (n div 10) @ [char_of (48 + n mod 10)])"

declare show_nat.simps [simp del]

text \<open>\<open>str\<close> of an int.\<close>

definition show_int :: "int \<Rightarrow> string" where
  "show_int i = (if i < 0 then ''-'' @ show_nat (nat (- i)) else show_nat (nat i))"

text \<open>\<open>repr\<close> of a string without quotes, backslashes or unprintable characters.\<close>

definition py_quote :: "string \<Rightarrow> string" where
  "py_quote s = [CHR 0x27] @ s @ [CHR 0x27]"

text \<open>\<open>str\<close> of a JSON value; that of a float, list or dict is an argument.\<close>

definition json_str :: "(json \<Rightarrow> string) \<Rightarrow> json \<Rightarrow> string" where
  "json_str rep j = (case j of JStr s \<Rightarrow> s | JInt i \<Rightarrow> show_int i | JNull \<Rightarrow> ''None''
     | JBool b \<Rightarrow> (if b then ''True'' else ''False'') | _ \<Rightarrow> rep j)"

section \<open>Letters and fields of a text\<close>

text \<open>\<open>lower\<close> and \<open>upper\<close> of an ASCII character, \<open>split\<close> at every occurrence of a
  separator character, and \<open>partition\<close> at the first one (without the separator).\<close>

definition char_lower :: "char \<Rightarrow> char" where
  "char_lower c = (let n = of_char c :: nat in if 65 \<le> n \<and> n \<le> 90 then char_of (n + 32) else c)"

definition char_upper :: "char \<Rightarrow> char" where
  "char_upper c = (let n = of_char c :: nat in if 97 \<le> n \<and> n \<le> 122 then char_of (n - 32) else c)"

fun split_at :: "char \<Rightarrow> string \<Rightarrow> string list" where
  "split_at sep [] = [[]]"
| "split_at sep (c # s) = (if c = sep then [] # split_at sep s
     else (case split_at sep s of [] \<Rightarrow> [[c]] | w # ws \<Rightarrow> (c # w) # ws))"

definition partition_at :: "char \<Rightarrow> string \<Rightarrow> string \<times> string" where
  "partition_at sep s = (takeWhile (\<lambda>c. c \<noteq> sep) s, drop 1 (dropWhile (\<lambda>c. c \<noteq> sep) s))"

lemma split_at_not_Nil [simp]: "split_at sep s \<noteq> []"
  by (induction s) (auto split: list.split)

lemma hd_split_at: "hd (split_at sep s) = takeWhile (\<lambda>c. c \<noteq> sep) s"
  by (induction s) (auto split: list.split dest: arg_cong[of _ _ hd])

text \<open>\<open>hmac.compare_digest\<close> of two strings raises a \<open>TypeError\<close> unless both are ASCII.\<close>

definition is_ascii :: "string \<Rightarrow> bool" where
  "is_ascii s = list_all (\<lambda>c. (of_char c :: nat) < 128) s"

definition compare_digest :: "string \<Rightarrow> string \<Rightarrow> bool option" where
  "compare_digest a b = (if is_ascii a \<and> is_ascii b then Some (a = b) else None)"

section \<open>Powers of rationals\<close>

text \<open>Rounding to the nearest integer, ties to the even one.\<close>

definition round_half_even :: "rat \<Rightarrow> int" where
  "round_half_even q = (let k = \<lfloor>q\<rfloor>; d = q - of_int k in if d < 1 / 2 \<or> d = 1 / 2 \<and> even k then k else k + 1)"

lemma round_half_even_of_int [simp]: "round_half_even (of_int k) = k"
  by (simp add: round_half_even_def)

lemma rat_bernoulli:
  fixes g :: rat
  assumes "1 \<le> g"
  shows "1 + of_nat n * (g - 1) \<le> g ^ n"
proof (induction n)
  case (Suc n)
  have "0 \<le> (g ^ n - 1) * (g - 1)"
    using assms one_le_power[OF assms, of n] by (intro mult_nonneg_nonneg) simp_all
  with Suc show ?case by (simp add: algebra_simps)
qed simp

lemma capped_step:
  fixes x g c :: rat
  assumes "0 \<le> c" "1 \<le> g"
  shows "min (min x c * g) c = min (x * g) c"
proof (cases "x \<le> c")
  case False
  have "c \<le> c * g" using assms by (simp add: mult_le_cancel_left1)
  moreover have "c * g \<le> x * g" using False assms by (intro mult_right_mono) auto
  ultimately show ?thesis using False by simp
qed simp

lemma rat_power_unbounded:
  fixes g x :: rat
  assumes "1 < g"
  shows "\<exists>n. x < g ^ n"
proof -
  obtain n where "x < of_nat n * (g - 1)"
    using ex_less_of_nat_mult[of "g - 1" x] assms by auto
  then have "x < 1 + of_nat n * (g - 1)" by simp
  also have "\<dots> \<le> g ^ n" using assms by (intro rat_bernoulli) simp
  finally show ?thesis ..
qed

section \<open>Unique keys\<close>

text \<open>
  The contract of everything that stores a value under a unique key: a value whose
  key is free is stored under it, as its row, and changes that key only; a value whose
  key is taken is refused.  \<open>store_all\<close> stores values one after the other.
\<close>

locale unique_ledger =
  fixes store :: "'st \<Rightarrow> 'v \<Rightarrow> 'e + 'st"
    and lookup :: "'st \<Rightarrow> 'k \<Rightarrow> 'r option"
    and key_of :: "'v \<Rightarrow> 'k"
    and row_of :: "'v \<Rightarrow> 'r"
  assumes store_fresh: "lookup st (key_of v) = None \<Longrightarrow>
      \<exists>st'. store st v = Inr st' \<and> (\<forall>k. lookup st' k = (if k = key_of v then Some (row_of v) else lookup st k))"
    and store_taken: "lookup st (key_of v) \<noteq> None \<Longrightarrow> \<exists>e. store st v = Inl e"
begin

lemma store_ok_iff: "is_ok (store st v) \<longleftrightarrow> lookup st (key_of v) = None"
  using store_fresh[of st v] store_taken[of st v] by fastforce

lemma store_lookup:
  assumes "store st v = Inr st'"
  shows "lookup st' k = (if k = key_of v then Some (row_of v) else lookup st k)"
proof -
  have "lookup st (key_of v) = None"
    using store_taken[of st v] assms by fastforce
  from store_fresh[OF this] assms show ?thesis by auto
qed

lemma store_twice:
  assumes "store st v = Inr st'" and "key_of v' = key_of v"
  shows "\<exists>e. store st' v' = Inl e"
  using store_lookup[OF assms(1), of "key_of v"] assms(2) by (intro store_taken) simp

lemma stored_stays:
  assumes "store st v = Inr st'" and "lookup st k = Some u"
  shows "lookup st' k = Some u"
  using store_lookup[OF assms(1)] store_taken[of st v] assms by (metis Inr_Inl_False option.distinct(1))

fun store_all :: "'st \<Rightarrow> 'v list \<Rightarrow> 'e + 'st" where
  "store_all st [] = Inr st"
| "store_all st (v # vs) = bind_sum (store st v) (\<lambda>st'. store_all st' vs)"

text \<open>A run of stores goes through exactly when its keys are distinct and free.\<close>

lemma store_all_ok_iff:
  "is_ok (store_all st vs) \<longleftrightarrow> distinct (map key_of vs) \<and> (\<forall>v \<in> set vs. lookup st (key_of v) = None)"
proof (induction vs arbitrary: st)
  case (Cons v vs)
  show ?case
  proof (cases "store st v")
    case (Inl e)
    then show ?thesis using store_ok_iff[of st v] by simp
  next
    case (Inr st')
    then have "lookup st (key_of v) = None" using store_ok_iff[of st v] by simp
    moreover have "lookup st' (key_of u) = None \<longleftrightarrow> key_of u \<noteq> key_of v \<and> lookup st (key_of u) = None" for u
      using store_lookup[OF Inr, of "key_of u"] by simp
    moreover have "key_of v \<notin> key_of ` set vs \<longleftrightarrow> (\<forall>u \<in> set vs. key_of u \<noteq> key_of v)"
      by (simp add: image_iff) metis
    ultimately show ?thesis using Cons.IH[of st'] Inr by auto
  qed
qed simp

lemma store_all_lookup:
  assumes "store_all st vs = Inr st'"
  shows "lookup st' k = (case List.find (\<lambda>v. key_of v = k) vs of Some v \<Rightarrow> Some (row_of v) | None \<Rightarrow> lookup st k)"
  using assms
proof (induction vs arbitrary: st)
  case (Cons v vs)
  then obtain st1 where st1: "store st v = Inr st1" "store_all st1 vs = Inr st'"
    by (auto simp: bind_sum_Inr_iff)
  have "lookup st1 (key_of v) \<noteq> None" using store_lookup[OF st1(1)] by simp
  then have "List.find (\<lambda>u. key_of u = key_of v) vs = None"
    using store_all_ok_iff[of st1 vs] st1(2) by (force simp: find_None_iff)
  then show ?case using Cons.IH[OF st1(2)] store_lookup[OF st1(1)] by (auto split: option.split)
qed simp

end

text \<open>A module-level registry (a dict from a unique name to a definition) is the ledger
  whose rows are the registered values.\<close>

locale registry =
  fixes register :: "'st \<Rightarrow> 'v \<Rightarrow> 'e + 'st"
    and lookup :: "'st \<Rightarrow> 'k \<Rightarrow> 'v option"
    and name_of :: "'v \<Rightarrow> 'k"
  assumes register_fresh: "lookup st (name_of v) = None \<Longrightarrow>
      \<exists>st'. register st v = Inr st' \<and> (\<forall>k. lookup st' k = (if k = name_of v then Some v else lookup st k))"
    and register_taken: "lookup st (name_of v) \<noteq> None \<Longrightarrow> \<exists>e. register st v = Inl e"

sublocale registry \<subseteq> ledger: unique_ledger register lookup name_of "\<lambda>v. v"
  using register_fresh register_taken by unfold_locales auto

section \<open>Tables\<close>

text \<open>
  A database table with an autoincremented key and, where the model declares a
  \<open>UniqueConstraint\<close>, the key function of its columns: an INSERT of a row whose key is
  taken raises \<open>IntegrityError\<close> and leaves the table as it was.  Rows are kept in the
  order of their insertion.
\<close>

record 'r table =
  tb_next :: int
  tb_rows :: "(int \<times> 'r) list"

datatype integrity_error = IntegrityError

definition insert_row :: "'r \<Rightarrow> 'r table \<Rightarrow> int \<times> 'r table" where
  "insert_row r t = (tb_next t, t\<lparr> tb_next := tb_next t + 1, tb_rows := tb_rows t @ [(tb_next t, r)] \<rparr>)"

definition find_row :: "('r \<Rightarrow> 'k) \<Rightarrow> 'r table \<Rightarrow> 'k \<Rightarrow> 'r option" where
  "find_row key t k = map_option snd (List.find (\<lambda>row. key (snd row) = k) (tb_rows t))"

definition insert_unique :: "('r \<Rightarrow> 'k) \<Rightarrow> 'r \<Rightarrow> 'r table \<Rightarrow> integrity_error + int \<times> 'r table" where
  "insert_unique key r t = (if find_row key t (key r) \<noteq> None then Inl IntegrityError else Inr (insert_row r t))"

lemma find_append: "List.find P (xs @ ys) = (case List.find P xs of None \<Rightarrow> List.find P ys | Some x \<Rightarrow> Some x)"
  by (induction xs) auto

lemma insert_row_simps [simp]:
  "fst (insert_row r t) = tb_next t"
  "tb_rows (snd (insert_row r t)) = tb_rows t @ [(tb_next t, r)]"
  by (simp_all add: insert_row_def)

lemma find_row_insert: "find_row key (snd (insert_row r t)) k =
    (case find_row key t k of None \<Rightarrow> if key r = k then Some r else None | Some x \<Rightarrow> Some x)"
  by (simp add: find_row_def find_append split: option.split)

lemma find_row_None_iff: "find_row key t k = None \<longleftrightarrow> (\<forall>row \<in> set (tb_rows t). key (snd row) \<noteq> k)"
  by (force simp: find_row_def find_None_iff)

text \<open>An operation that builds a row and inserts it is a ledger.\<close>

lemma insert_unique_ledger:
  assumes "\<And>t v. store t v = map_sum id snd (insert_unique key (row_of v) t)" and "\<And>v. key (row_of v) = key_of v"
  shows "unique_ledger store (find_row key) key_of row_of"
proof
  show "\<exists>st'. store st v = Inr st' \<and>
      (\<forall>k. find_row key st' k = (if k = key_of v then Some (row_of v) else find_row key st k))"
    if "find_row key st (key_of v) = None" for st v
    using that assms by (auto simp: insert_unique_def find_row_insert split: option.split)
  show "\<exists>e. store st v = Inl e" if "find_row key st (key_of v) \<noteq> None" for st v
    using that assms by (simp add: insert_unique_def)
qed

section \<open>Tables whose registration overwrites\<close>

locale keyed_table =
  fixes put :: "'st \<Rightarrow> 'v \<Rightarrow> 'st"
    and look :: "'st \<Rightarrow> string \<Rightarrow> 'v option"
    and key_of :: "'v \<Rightarrow> string"
  assumes look_put: "look (put st v) k = (if k = key_of v then Some v else look st k)"
begin

fun put_all :: "'st \<Rightarrow> 'v list \<Rightarrow> 'st" where
  "put_all st [] = st"
| "put_all st (v # vs) = put_all (put st v) vs"

text \<open>The last registration of a key is the one that counts.\<close>

lemma look_put_all:
  "look (put_all st vs) k = (case List.find (\<lambda>v. key_of v = k) (rev vs) of Some v \<Rightarrow> Some v | None \<Rightarrow> look st k)"
  by (induction vs arbitrary: st) (auto simp: look_put find_append split: option.split)

lemma look_put_all_distinct:
  assumes "distinct (map key_of vs)" "v \<in> set vs"
  shows "look (put_all st vs) (key_of v) = Some v"
proof -
  obtain i where i: "i < length (rev vs)" "rev vs ! i = v" using assms(2) by (metis in_set_conv_nth set_rev)
  have "distinct (map key_of (rev vs))" using assms(1) by (metis distinct_rev rev_map)
  from find_map_distinct[OF this i(1)] i(2) show ?thesis by (simp add: look_put_all)
qed

end

section \<open>ISO dates\<close>

text \<open>\<open>isoformat\<close> of a UTC datetime: the civil date of a day number (days since
  1970-01-01, in the proleptic Gregorian calendar), the time of day, microseconds when
  there are any, and the offset.\<close>

definition civil_date :: "int \<Rightarrow> int \<times> int \<times> int" where
  "civil_date days =
     (let z = days + 719468; era = z div 146097; doe = z mod 146097;
          yoe = (doe - doe div 1460 + doe div 36524 - doe div 146096) div 365;
          doy = doe - (365 * yoe + yoe div 4 - yoe div 100);
          mp = (5 * doy + 2) div 153;
          m = (if mp < 10 then mp + 3 else mp - 9)
      in (yoe + era * 400 + (if m \<le> 2 then 1 else 0), m, doy - (153 * mp + 2) div 5 + 1))"

definition pad :: "nat \<Rightarrow> int \<Rightarrow> string" where
  "pad n i = (let s = show_int i in replicate (n - length s) (CHR ''0'') @ s)"

definition isoformat :: "instant \<Rightarrow> string" where
  "isoformat t =
     (let micro = t mod 1000000; secs = t div 1000000; sod = secs mod 86400
      in (case civil_date (secs div 86400) of (y, m, d) \<Rightarrow>
            pad 4 y @ ''-'' @ pad 2 m @ ''-'' @ pad 2 d @ ''T'' @ pad 2 (sod div 3600) @ '':'' @
            pad 2 (sod mod 3600 div 60) @ '':'' @ pad 2 (sod mod 60) @
            (if micro = 0 then [] else ''.'' @ pad 6 micro) @ ''+00:00''))"

end
