(* ===== verification/Request_Context.thy ===== *)
theory Request_Context
  imports Prelude
begin

text \<open>
  core/request_context.py: the request and correlation identifiers that jobs,
  outbound calls and logs share.  \<open>str.strip\<close> removes the whitespace characters
  of code point at most 255; the structured-log context is a dict argument, a
  fresh \<open>uuid4\<close> string is an argument, and a value that is not a string is
  represented by another constructor of \<open>json\<close>.
\<close>

definition is_py_space :: "char \<Rightarrow> bool" where
  "is_py_space c \<longleftrightarrow> (let n = of_char c :: nat in (9 \<le> n \<and> n \<le> 13) \<or> (28 \<le> n \<and> n \<le> 32) \<or> n = 133 \<or> n = 160)"

definition py_strip :: "string \<Rightarrow> string" where
  "py_strip s = rev (dropWhile is_py_space (rev (dropWhile is_py_space s)))"

definition normalize_header_value :: "json option \<Rightarrow> string option" where
  "normalize_header_value value =
     (case value of
        Some (JStr s) \<Rightarrow> (let normalized = py_strip s in if normalized = [] then None else Some normalized)
      | _ \<Rightarrow> None)"

definition or_else :: "'a option \<Rightarrow> 'a option \<Rightarrow> 'a option" where
  "or_else x y = (case x of None \<Rightarrow> y | Some v \<Rightarrow> Some v)"

lemma or_else_simps [simp]: "or_else None y = y" "or_else (Some v) y = Some v" "or_else x None = x"
  by (simp_all add: or_else_def split: option.split)

record request_context =
  rc_request_id :: string
  rc_correlation_id :: string

definition REQUEST_ID_HEADER :: string where "REQUEST_ID_HEADER = ''X-Request-ID''"
definition CORRELATION_ID_HEADER :: string where "CORRELATION_ID_HEADER = ''X-Correlation-ID''"

definition response_headers :: "request_context \<Rightarrow> (string \<times> string) list" where
  "response_headers c = [(REQUEST_ID_HEADER, rc_request_id c), (CORRELATION_ID_HEADER, rc_correlation_id c)]"

definition build_request_context :: "string \<Rightarrow> (string \<times> string) list \<Rightarrow> request_context" where
  "build_request_context uuid headers =
     (let get = (\<lambda>h. normalize_header_value (map_option JStr (map_of headers h)));
          request_id = (case get REQUEST_ID_HEADER of None \<Rightarrow> uuid | Some r \<Rightarrow> r);
          correlation_id = (case get CORRELATION_ID_HEADER of None \<Rightarrow> request_id | Some c \<Rightarrow> c)
      in \<lparr> rc_request_id = request_id, rc_correlation_id = correlation_id \<rparr>)"

definition get_current_request_id :: "dict \<Rightarrow> string option" where
  "get_current_request_id ctxvars = normalize_header_value (map_of ctxvars ''request_id'')"

definition get_current_correlation_id :: "dict \<Rightarrow> string option" where
  "get_current_correlation_id ctxvars =
     (case normalize_header_value (map_of ctxvars ''correlation_id'') of
        Some c \<Rightarrow> Some c
      | None \<Rightarrow> get_current_request_id ctxvars)"

definition resolve_correlation_id :: "dict \<Rightarrow> string option \<Rightarrow> string option" where
  "resolve_correlation_id ctxvars correlation_id =
     or_else (normalize_header_value (map_option JStr correlation_id)) (get_current_correlation_id ctxvars)"

definition build_correlation_headers ::
  "dict \<Rightarrow> string option \<Rightarrow> string option \<Rightarrow> (string \<times> string) list" where
  "build_correlation_headers ctxvars request_id correlation_id =
     (let resolved_request_id = or_else (normalize_header_value (map_option JStr request_id)) (get_current_request_id ctxvars);
          resolved_correlation_id = or_else (resolve_correlation_id ctxvars correlation_id) resolved_request_id
      in (case resolved_request_id of None \<Rightarrow> [] | Some r \<Rightarrow> [(REQUEST_ID_HEADER, r)]) @
         (case resolved_correlation_id of None \<Rightarrow> [] | Some c \<Rightarrow> [(CORRELATION_ID_HEADER, c)]))"

fun set_defaults :: "(string \<times> string) list \<Rightarrow> (string \<times> string) list \<Rightarrow> (string \<times> string) list" where
  "set_defaults merged [] = merged"
| "set_defaults merged ((name, value) # rest) =
     set_defaults (if map_of merged name = None then AList.update name value merged else merged) rest"

definition merge_correlation_headers ::
  "dict \<Rightarrow> (string \<times> string) list option \<Rightarrow> string option \<Rightarrow> string option \<Rightarrow> (string \<times> string) list" where
  "merge_correlation_headers ctxvars headers request_id correlation_id =
     set_defaults (or_list headers []) (build_correlation_headers ctxvars request_id correlation_id)"

record request_state =
  rs_request_context :: "request_context option"
  rs_request_id :: "json option"
  rs_correlation_id :: "json option"

definition attach_request_context_to_scope :: "request_state \<Rightarrow> request_context \<Rightarrow> request_state" where
  "attach_request_context_to_scope state c = state
     \<lparr> rs_request_context := Some c, rs_request_id := Some (JStr (rc_request_id c)),
       rs_correlation_id := Some (JStr (rc_correlation_id c)) \<rparr>"

definition get_request_context :: "request_state \<Rightarrow> request_context option" where
  "get_request_context state =
     (case rs_request_context state of
        Some c \<Rightarrow> Some c
      | None \<Rightarrow>
         (case (normalize_header_value (rs_request_id state), normalize_header_value (rs_correlation_id state)) of
            (Some r, Some c) \<Rightarrow> Some \<lparr> rc_request_id = r, rc_correlation_id = c \<rparr>
          | _ \<Rightarrow> None))"

definition get_request_id :: "request_state \<Rightarrow> string option" where
  "get_request_id state = map_option rc_request_id (get_request_context state)"

definition get_correlation_id :: "request_state \<Rightarrow> string option" where
  "get_correlation_id state = map_option rc_correlation_id (get_request_context state)"

section \<open>Lemmas\<close>

lemma dropWhile_hd: "xs = [] \<or> \<not> P (hd xs) \<Longrightarrow> dropWhile P xs = xs"
  by (cases xs) auto

lemma py_strip_ends: "py_strip s = [] \<or> (\<not> is_py_space (hd (py_strip s)) \<and> \<not> is_py_space (last (py_strip s)))"
proof -
  let ?d = "dropWhile is_py_space s" and ?r = "dropWhile is_py_space (rev (dropWhile is_py_space s))"
  have l: "?r = [] \<or> \<not> is_py_space (hd ?r)" by (metis hd_dropWhile)
  have "?r \<noteq> [] \<Longrightarrow> last ?r = hd ?d"
  proof -
    assume ne: "?r \<noteq> []"
    obtain pre where pre: "rev ?d = pre @ ?r" by (metis takeWhile_dropWhile_id)
    then have "last (rev ?d) = last ?r" using ne by (metis last_appendR)
    then show "last ?r = hd ?d" by (simp add: last_rev)
  qed
  moreover have "?r \<noteq> [] \<Longrightarrow> ?d \<noteq> []" by (metis dropWhile.simps(1) rev.simps(1))
  moreover have "?d \<noteq> [] \<Longrightarrow> \<not> is_py_space (hd ?d)" by (metis hd_dropWhile)
  ultimately show ?thesis using l unfolding py_strip_def by (metis hd_rev last_rev rev_is_Nil_conv)
qed

lemma py_strip_idem [simp]: "py_strip (py_strip s) = py_strip s"
proof -
  let ?t = "py_strip s"
  consider "?t = []" | "?t \<noteq> []" "\<not> is_py_space (hd ?t)" "\<not> is_py_space (last ?t)" using py_strip_ends by blast
  then show ?thesis
  proof cases
    case 2
    have "dropWhile is_py_space ?t = ?t" using 2 by (intro dropWhile_hd) simp
    moreover have "dropWhile is_py_space (rev ?t) = rev ?t" using 2 by (intro dropWhile_hd) (simp add: hd_rev)
    ultimately show ?thesis by (subst py_strip_def) simp
  next
    case 1
    have "py_strip [] = []" by (simp add: py_strip_def)
    with 1 show ?thesis by metis
  qed
qed

lemma normalized_strip: "normalize_header_value v = Some s \<Longrightarrow> s \<noteq> [] \<and> py_strip s = s"
  by (auto simp: normalize_header_value_def Let_def split: option.splits json.splits if_splits)

lemma set_defaults_keeps: "map_of merged k = Some v \<Longrightarrow> map_of (set_defaults merged ds) k = Some v"
  by (induction merged ds rule: set_defaults.induct) (auto split: if_splits)

lemma set_defaults_lookup:
  "map_of (set_defaults merged ds) k = (case map_of merged k of Some v \<Rightarrow> Some v | None \<Rightarrow> map_of ds k)"
  by (induction merged ds rule: set_defaults.induct) (auto split: option.splits)

end
