(* ===== verification/Http_Errors.thy ===== *)
theory Http_Errors
  imports Request_Context
begin

text \<open>
  integrations/http_client/exceptions.py and rate_limit.py: the exception classes
  with their retryability, the classification of status codes, and the parsing of
  rate-limit headers.  An exception object is a record with its class; the
  constructors fix \<open>is_retryable\<close> as the classes do.  \<open>int\<close> and \<open>float\<close> of a string are
  modelled for decimal notation (sign, digits with single underscores, fraction,
  exponent), letter case is changed for ASCII; \<open>inf\<close> and \<open>nan\<close> are not rationals and count as unparsable.
\<close>

section \<open>Exceptions\<close>

datatype http_error_class =
    HttpClientError | HttpTimeoutError | HttpConnectionError | HttpServerError | HttpRateLimitError
  | HttpAuthenticationError | HttpAuthorizationError | HttpNotFoundError | HttpConflictError
  | HttpClientBadRequestError | HttpCircuitOpenError | NonRetryableHttpError

record http_response_summary =
  hs_status_code :: int
  hs_headers :: "(string \<times> string) list"
  hs_reason_phrase :: string
  hs_url :: string
  hs_method :: string

record http_error =
  he_class :: http_error_class
  he_message :: string
  he_response_summary :: "http_response_summary option"
  he_is_retryable :: bool
  he_error_code :: "string option"
  he_retry_after_seconds :: "rat option"

text \<open>What the constructor of a class passes to its base class as \<open>is_retryable\<close>.\<close>

fun class_is_retryable :: "http_error_class \<Rightarrow> bool" where
  "class_is_retryable HttpClientError = True"
| "class_is_retryable HttpTimeoutError = True"
| "class_is_retryable HttpConnectionError = True"
| "class_is_retryable HttpServerError = True"
| "class_is_retryable HttpRateLimitError = True"
| "class_is_retryable HttpAuthenticationError = False"
| "class_is_retryable HttpAuthorizationError = False"
| "class_is_retryable HttpNotFoundError = False"
| "class_is_retryable HttpConflictError = False"
| "class_is_retryable HttpClientBadRequestError = False"
| "class_is_retryable HttpCircuitOpenError = True"
| "class_is_retryable NonRetryableHttpError = False"

definition make_http_error ::
  "http_error_class \<Rightarrow> string \<Rightarrow> http_response_summary option \<Rightarrow> rat option \<Rightarrow> http_error" where
  "make_http_error c msg summary retry_after = \<lparr> he_class = c, he_message = msg, he_response_summary = summary,
     he_is_retryable = class_is_retryable c, he_error_code = None,
     he_retry_after_seconds = (if c = HttpRateLimitError then retry_after else None) \<rparr>"

definition classify_status_code :: "int \<Rightarrow> http_error_class" where
  "classify_status_code status_code =
     (if status_code = 400 then HttpClientBadRequestError
      else if status_code = 401 then HttpAuthenticationError
      else if status_code = 403 then HttpAuthorizationError
      else if status_code = 404 then HttpNotFoundError
      else if status_code = 409 then HttpConflictError
      else if status_code = 429 then HttpRateLimitError
      else if 500 \<le> status_code \<and> status_code < 600 then HttpServerError
      else if 400 \<le> status_code \<and> status_code < 500 then NonRetryableHttpError
      else HttpClientError)"

section \<open>Numbers in headers\<close>

definition digit_value :: "char \<Rightarrow> int option" where
  "digit_value c = (let n = int (of_char c) in if 48 \<le> n \<and> n \<le> 57 then Some (n - 48) else None)"

text \<open>Decimal digits with single underscores between them: the value and the number of
  digits read, and the rest of the text.\<close>

fun read_digits :: "int \<Rightarrow> nat \<Rightarrow> string \<Rightarrow> int \<times> nat \<times> string" where
  "read_digits acc k [] = (acc, k, [])"
| "read_digits acc k (c # cs) =
     (case digit_value c of
        Some v \<Rightarrow> read_digits (10 * acc + v) (Suc k) cs
      | None \<Rightarrow>
          (if c = CHR ''_'' \<and> 0 < k
           then (case cs of
                   c' # cs' \<Rightarrow> (case digit_value c' of
                      Some v \<Rightarrow> read_digits (10 * acc + v) (Suc k) cs'
                    | None \<Rightarrow> (acc, k, c # cs))
                 | [] \<Rightarrow> (acc, k, c # cs))
           else (acc, k, c # cs)))"

fun read_sign :: "string \<Rightarrow> int \<times> string" where
  "read_sign (c # cs) = (if c = CHR ''-'' then (-1, cs) else if c = CHR ''+'' then (1, cs) else (1, c # cs))"
| "read_sign [] = (1, [])"

definition py_int :: "string \<Rightarrow> int option" where
  "py_int s = (case read_sign (py_strip s) of (sg, t) \<Rightarrow>
     (case read_digits 0 0 t of (v, k, rest) \<Rightarrow> if 0 < k \<and> rest = [] then Some (sg * v) else None))"

definition read_exponent :: "rat \<Rightarrow> string \<Rightarrow> rat option" where
  "read_exponent m t = (case t of
     [] \<Rightarrow> Some m
   | c # cs \<Rightarrow>
      if c = CHR ''e'' \<or> c = CHR ''E''
      then (case read_sign cs of (sg, u) \<Rightarrow>
             (case read_digits 0 0 u of (v, k, rest) \<Rightarrow>
                if 0 < k \<and> rest = [] then Some (m * power_int 10 (sg * v)) else None))
      else None)"

definition py_float :: "string \<Rightarrow> rat option" where
  "py_float s = (case read_sign (py_strip s) of (sg, t) \<Rightarrow>
     (case read_digits 0 0 t of (v, k, rest) \<Rightarrow>
        (case rest of
           c # cs \<Rightarrow>
             if c = CHR ''.''
             then (case read_digits 0 0 cs of (fr, j, rest') \<Rightarrow>
                    if 0 < k + j then read_exponent (of_int sg * (of_int v + of_int fr / 10 ^ j)) rest' else None)
             else if 0 < k then read_exponent (of_int (sg * v)) rest else None
         | [] \<Rightarrow> if 0 < k then Some (of_int (sg * v)) else None)))"

section \<open>Rate-limit headers\<close>

record rate_limit_info =
  rl_limit :: "int option"
  rl_remaining :: "int option"
  rl_reset_seconds :: "rat option"
  rl_retry_after_seconds :: "rat option"

definition is_exhausted :: "rate_limit_info \<Rightarrow> bool" where
  "is_exhausted i = (case rl_remaining i of Some r \<Rightarrow> r \<le> 0 | None \<Rightarrow> False)"

definition is_approaching_limit :: "rate_limit_info \<Rightarrow> bool" where
  "is_approaching_limit i =
     (case (rl_limit i, rl_remaining i) of
        (Some l, Some r) \<Rightarrow> if l > 0 then (of_int r / of_int l :: rat) < 1 / 10 else False
      | _ \<Rightarrow> False)"

definition safe_int :: "string option \<Rightarrow> int option" where
  "safe_int v = Option.bind v py_int"

definition safe_float :: "string option \<Rightarrow> rat option" where
  "safe_float v = Option.bind v py_float"

text \<open>Python's \<open>a or b\<close> on optional numbers: 0 is false.\<close>

definition or_num :: "('n::zero) option \<Rightarrow> 'n option \<Rightarrow> 'n option" where
  "or_num a b = (case a of None \<Rightarrow> b | Some n \<Rightarrow> if n = 0 then b else Some n)"

fun lower_keys :: "(string \<times> string) list \<Rightarrow> (string \<times> string) list \<Rightarrow> (string \<times> string) list" where
  "lower_keys acc [] = acc"
| "lower_keys acc ((k, v) # rest) = lower_keys (AList.update (map char_lower k) v acc) rest"

definition parse_rate_limit_headers :: "(string \<times> string) list \<Rightarrow> rate_limit_info" where
  "parse_rate_limit_headers headers =
     (let header_map = lower_keys [] headers;
          limit = or_num (safe_int (map_of header_map ''x-ratelimit-limit'')) (safe_int (map_of header_map ''ratelimit-limit''));
          remaining = or_num (safe_int (map_of header_map ''x-ratelimit-remaining''))
                             (safe_int (map_of header_map ''ratelimit-remaining''));
          reset_value = or_num (safe_float (map_of header_map ''x-ratelimit-reset''))
                               (safe_float (map_of header_map ''ratelimit-reset''));
          retry_after = safe_float (map_of header_map ''retry-after'')
      in \<lparr> rl_limit = limit, rl_remaining = remaining, rl_reset_seconds = reset_value,
           rl_retry_after_seconds = retry_after \<rparr>)"

definition compute_rate_limit_delay :: "rate_limit_info \<Rightarrow> rat \<Rightarrow> rat" where
  "compute_rate_limit_delay i default_delay =
     (case rl_retry_after_seconds i of
        Some s \<Rightarrow> if s > 0 then s else (case rl_reset_seconds i of Some t \<Rightarrow> if t > 0 then t else default_delay | None \<Rightarrow> default_delay)
      | None \<Rightarrow> (case rl_reset_seconds i of Some t \<Rightarrow> if t > 0 then t else default_delay | None \<Rightarrow> default_delay))"

section \<open>Lemmas\<close>

lemma make_http_error_sel [simp]:
  "he_class (make_http_error c m s ra) = c" "he_is_retryable (make_http_error c m s ra) = class_is_retryable c"
  "he_message (make_http_error c m s ra) = m" "he_response_summary (make_http_error c m s ra) = s"
  "he_retry_after_seconds (make_http_error c m s ra) = (if c = HttpRateLimitError then ra else None)"
  by (simp_all add: make_http_error_def)

lemma classify_retryable:
  "class_is_retryable (classify_status_code s) \<longleftrightarrow> \<not> (400 \<le> s \<and> s < 500) \<or> s = 429"
  by (auto simp: classify_status_code_def)

lemma classify_own:
  "classify_status_code s = HttpClientBadRequestError \<longleftrightarrow> s = 400"
  "classify_status_code s = HttpAuthenticationError \<longleftrightarrow> s = 401"
  "classify_status_code s = HttpAuthorizationError \<longleftrightarrow> s = 403"
  "classify_status_code s = HttpNotFoundError \<longleftrightarrow> s = 404"
  "classify_status_code s = HttpConflictError \<longleftrightarrow> s = 409"
  "classify_status_code s = HttpRateLimitError \<longleftrightarrow> s = 429"
  "classify_status_code s = HttpServerError \<longleftrightarrow> 500 \<le> s \<and> s < 600"
  by (simp_all add: classify_status_code_def)

lemma classify_values:
  "classify_status_code 400 = HttpClientBadRequestError" "classify_status_code 401 = HttpAuthenticationError"
  "classify_status_code 403 = HttpAuthorizationError" "classify_status_code 404 = HttpNotFoundError"
  "classify_status_code 409 = HttpConflictError" "classify_status_code 429 = HttpRateLimitError"
  by (simp_all add: classify_status_code_def)

text \<open>The class chosen for a status code decides about retries by its range: a 4xx
  error is final except 429, every other status that reaches the classification is
  retryable; and the class determines the status back for the codes that have a
  class of their own.\<close>

theorem status_code_retryability:
  "he_is_retryable (make_http_error (classify_status_code s) msg summary ra) = (if 400 \<le> s \<and> s < 500 then s = 429 else True) \<and>
   (classify_status_code s = HttpServerError) = (500 \<le> s \<and> s < 600) \<and>
   map classify_status_code [400, 401, 403, 404, 409, 429] =
     [HttpClientBadRequestError, HttpAuthenticationError, HttpAuthorizationError, HttpNotFoundError, HttpConflictError, HttpRateLimitError] \<and>
   (classify_status_code s = classify_status_code t \<and> classify_status_code s \<notin> {HttpServerError, NonRetryableHttpError, HttpClientError}) =
     (s = t \<and> s \<in> {400, 401, 403, 404, 409, 429})"
proof -
  have "he_is_retryable (make_http_error (classify_status_code s) msg summary ra) = (if 400 \<le> s \<and> s < 500 then s = 429 else True)"
    by (simp add: classify_retryable)
  moreover have "(classify_status_code s = HttpServerError) = (500 \<le> s \<and> s < 600)"
    by (simp add: classify_own)
  moreover have "map classify_status_code [400, 401, 403, 404, 409, 429] =
     [HttpClientBadRequestError, HttpAuthenticationError, HttpAuthorizationError, HttpNotFoundError, HttpConflictError, HttpRateLimitError]"
    by (simp add: classify_status_code_def)
  moreover have "classify_status_code s = classify_status_code t \<longleftrightarrow> s = t" if "s \<in> {400, 401, 403, 404, 409, 429}"
    using that by (elim insertE emptyE; simp add: classify_values classify_own eq_commute [of _ "classify_status_code t"])
  moreover have "classify_status_code s \<notin> {HttpServerError, NonRetryableHttpError, HttpClientError} \<longleftrightarrow>
      s \<in> {400, 401, 403, 404, 409, 429}"
    by (simp add: classify_status_code_def)
  ultimately show ?thesis by (simp only: simp_thms) blast
qed

text \<open>A provider that reports an exhausted quota in the usual header is not seen as
  exhausted.  When \<open>X-RateLimit-Remaining\<close> is any text that denotes 0 and there is no
  \<open>RateLimit-Remaining\<close>, the parsed information carries no remaining count at all, so
  \<open>is_exhausted\<close> and \<open>is_approaching_limit\<close> are false; any other count is kept.\<close>

theorem exhausted_quota_is_lost:
  assumes "map_of (lower_keys [] headers) ''x-ratelimit-remaining'' = Some v" "py_int v = Some n"
    and "map_of (lower_keys [] headers) ''ratelimit-remaining'' = None"
  shows "rl_remaining (parse_rate_limit_headers headers) = (if n = 0 then None else Some n) \<and>
    (n = 0 \<longrightarrow> \<not> is_exhausted (parse_rate_limit_headers headers) \<and>
       \<not> is_approaching_limit (parse_rate_limit_headers headers))"
  using assms
  by (simp add: parse_rate_limit_headers_def safe_int_def or_num_def is_exhausted_def is_approaching_limit_def Let_def
      split: option.split)

theorem exhausted_quota_is_lost_witness:
  "\<not> is_exhausted (parse_rate_limit_headers [(''X-RateLimit-Limit'', ''100''), (''X-RateLimit-Remaining'', '' 0 '')]) \<and>
   py_int '' 0 '' = Some 0"
proof -
  let ?h = "[(''X-RateLimit-Limit'', ''100''), (''X-RateLimit-Remaining'', '' 0 '')]"
  have h: "map_of (lower_keys [] ?h) ''x-ratelimit-remaining'' = Some '' 0 ''"
    "map_of (lower_keys [] ?h) ''ratelimit-remaining'' = None" and n: "py_int '' 0 '' = Some 0"
    by code_simp+
  show ?thesis using exhausted_quota_is_lost[OF h(1) n h(2)] n by simp
qed

end
