(* ===== verification/Circuit_Breaker.thy ===== *)
theory Circuit_Breaker
  imports Http_Errors
begin

text \<open>
  integrations/http_client/circuit_breaker.py.  Every operation takes the value of
  \<open>time.monotonic()\<close> at its call, in seconds; reading the property \<open>state\<close> may change
  the state.  The second part relates the breaker to the history of calls and
  results it has seen.
\<close>

section \<open>The breaker\<close>

datatype circuit_state = CLOSED | OPEN | HALF_OPEN

record circuit_breaker_config =
  cf_failure_threshold :: int
  cf_recovery_timeout_seconds :: rat
  cf_name :: string

record circuit_breaker =
  cb_config :: circuit_breaker_config
  cb_state :: circuit_state
  cb_failure_count :: int
  cb_last_failure_time :: rat

definition new_breaker :: "circuit_breaker_config \<Rightarrow> circuit_breaker" where
  "new_breaker cfg = \<lparr> cb_config = cfg, cb_state = CLOSED, cb_failure_count = 0, cb_last_failure_time = 0 \<rparr>"

definition default_breaker_config :: circuit_breaker_config where
  "default_breaker_config = \<lparr> cf_failure_threshold = 5, cf_recovery_timeout_seconds = 30, cf_name = ''default'' \<rparr>"

definition build_circuit_breaker_config_from_settings ::
  "int option \<Rightarrow> rat option \<Rightarrow> string \<Rightarrow> circuit_breaker_config" where
  "build_circuit_breaker_config_from_settings threshold timeout name =
     \<lparr> cf_failure_threshold = (case threshold of None \<Rightarrow> 5 | Some t \<Rightarrow> t),
       cf_recovery_timeout_seconds = (case timeout of None \<Rightarrow> 30 | Some t \<Rightarrow> t), cf_name = name \<rparr>"

definition read_state :: "rat \<Rightarrow> circuit_breaker \<Rightarrow> circuit_state \<times> circuit_breaker" where
  "read_state now b =
     (let b' = (if cb_state b = OPEN \<and> now - cb_last_failure_time b \<ge> cf_recovery_timeout_seconds (cb_config b)
                then b\<lparr> cb_state := HALF_OPEN \<rparr> else b)
      in (cb_state b', b'))"

text \<open>\<open>None\<close>: the request may go out.\<close>

definition check :: "rat \<Rightarrow> circuit_breaker \<Rightarrow> http_error option \<times> circuit_breaker" where
  "check now b = (case read_state now b of (current_state, b') \<Rightarrow>
     (if current_state = OPEN
      then Some (make_http_error HttpCircuitOpenError
                   (''Circuit breaker '' @ py_quote (cf_name (cb_config b')) @ '' is open after '' @
                      show_int (cb_failure_count b') @ '' consecutive failures'') None None)
      else None, b'))"

definition record_success :: "circuit_breaker \<Rightarrow> circuit_breaker" where
  "record_success b = b\<lparr> cb_failure_count := 0, cb_state := CLOSED \<rparr>"

definition record_failure :: "rat \<Rightarrow> circuit_breaker \<Rightarrow> circuit_breaker" where
  "record_failure now b =
     (let b1 = b\<lparr> cb_failure_count := cb_failure_count b + 1, cb_last_failure_time := now \<rparr>
      in if cb_state b1 = HALF_OPEN then b1\<lparr> cb_state := OPEN \<rparr>
         else if cb_failure_count b1 \<ge> cf_failure_threshold (cb_config b1) then b1\<lparr> cb_state := OPEN \<rparr>
         else b1)"

definition reset :: "circuit_breaker \<Rightarrow> circuit_breaker" where
  "reset b = b\<lparr> cb_state := CLOSED, cb_failure_count := 0, cb_last_failure_time := 0 \<rparr>"

section \<open>Histories\<close>

datatype breaker_event = Check rat | Success | Failure rat | Reset

fun apply_event :: "breaker_event \<Rightarrow> circuit_breaker \<Rightarrow> circuit_breaker" where
  "apply_event (Check t) b = snd (check t b)"
| "apply_event Success b = record_success b"
| "apply_event (Failure t) b = record_failure t b"
| "apply_event Reset b = reset b"

text \<open>Histories are kept latest event first.\<close>

fun breaker_after :: "circuit_breaker_config \<Rightarrow> breaker_event list \<Rightarrow> circuit_breaker" where
  "breaker_after cfg [] = new_breaker cfg"
| "breaker_after cfg (ev # evs) = apply_event ev (breaker_after cfg evs)"

text \<open>The failures since the last success or reset, and the time of the latest.\<close>

fun failures_in_a_row :: "breaker_event list \<Rightarrow> rat list" where
  "failures_in_a_row [] = []"
| "failures_in_a_row (Failure t # evs) = t # failures_in_a_row evs"
| "failures_in_a_row (Check t # evs) = failures_in_a_row evs"
| "failures_in_a_row (Success # evs) = []"
| "failures_in_a_row (Reset # evs) = []"

fun event_time :: "breaker_event \<Rightarrow> rat option" where
  "event_time (Check t) = Some t"
| "event_time (Failure t) = Some t"
| "event_time _ = None"

text \<open>The clock is monotonic: no event is later than \<open>now\<close>, recursively.\<close>

fun timed_until :: "rat \<Rightarrow> breaker_event list \<Rightarrow> bool" where
  "timed_until now [] = True"
| "timed_until now (ev # evs) = (case event_time ev of
     Some t \<Rightarrow> t \<le> now \<and> timed_until t evs | None \<Rightarrow> timed_until now evs)"

text \<open>The specification: requests are refused while the threshold is reached and the
  latest failure is younger than the recovery time.\<close>

definition refuses :: "circuit_breaker_config \<Rightarrow> breaker_event list \<Rightarrow> rat \<Rightarrow> bool" where
  "refuses cfg evs now = (case failures_in_a_row evs of
     [] \<Rightarrow> False
   | t # ts \<Rightarrow> cf_failure_threshold cfg \<le> int (Suc (length ts)) \<and> now - t < cf_recovery_timeout_seconds cfg)"

lemma apply_event_config: "cb_config (apply_event ev b) = cb_config b"
  by (cases ev) (simp_all add: check_def read_state_def record_success_def record_failure_def reset_def Let_def
      split: prod.split)

lemma breaker_config [simp]: "cb_config (breaker_after cfg evs) = cfg"
  by (induction cfg evs rule: breaker_after.induct) (simp_all add: new_breaker_def apply_event_config)

lemma timed_mono: "timed_until now evs \<Longrightarrow> now \<le> now' \<Longrightarrow> timed_until now' evs"
  by (induction evs) (auto split: option.splits)

lemma breaker_after_inv:
  assumes "timed_until now evs" "0 < cf_failure_threshold cfg"
  shows "cb_failure_count (breaker_after cfg evs) = int (length (failures_in_a_row evs)) \<and>
    (failures_in_a_row evs \<noteq> [] \<longrightarrow> cb_last_failure_time (breaker_after cfg evs) = hd (failures_in_a_row evs)) \<and>
    (cb_state (breaker_after cfg evs) = CLOSED \<longleftrightarrow> int (length (failures_in_a_row evs)) < cf_failure_threshold cfg) \<and>
    (cb_state (breaker_after cfg evs) = HALF_OPEN \<longrightarrow>
       cf_recovery_timeout_seconds cfg \<le> now - cb_last_failure_time (breaker_after cfg evs))"
  using assms(1)
proof (induction evs arbitrary: now)
  case Nil
  then show ?case using assms(2) by (simp add: new_breaker_def)
next
  case (Cons ev evs)
  let ?b = "breaker_after cfg evs"
  show ?case
  proof (cases ev)
    case (Check t)
    then have t: "t \<le> now" "timed_until t evs" using Cons.prems by auto
    note ih = Cons.IH[OF t(2)]
    have "cb_state ?b = HALF_OPEN \<Longrightarrow> cf_recovery_timeout_seconds cfg \<le> now - cb_last_failure_time ?b"
      using ih t(1) by linarith
    with ih t(1) Check show ?thesis by (auto simp: check_def read_state_def Let_def)
  next
    case (Failure t)
    then have "timed_until t evs" using Cons.prems by auto
    from Cons.IH[OF this] show ?thesis
      using Failure assms(2) by (cases "cb_state ?b") (auto simp: record_failure_def Let_def)
  qed (use assms(2) in \<open>auto simp: record_success_def reset_def\<close>)
qed

lemma check_refuses_iff:
  assumes "timed_until now evs" "0 < cf_failure_threshold cfg"
  shows "fst (check now (breaker_after cfg evs)) \<noteq> None \<longleftrightarrow> refuses cfg evs now"
proof -
  let ?b = "breaker_after cfg evs"
  note inv = breaker_after_inv[OF assms]
  show ?thesis
  proof (cases "failures_in_a_row evs")
    case Nil
    then show ?thesis using inv assms(2) by (simp add: check_def read_state_def refuses_def)
  next
    case (Cons t ts)
    then show ?thesis using inv by (cases "cb_state ?b") (auto simp: check_def read_state_def refuses_def Let_def)
  qed
qed

text \<open>C4: The circuit breaker does what its history says.  After any sequence of checks,
  successes, failures and resets on a monotonic clock, its counter is the number of
  failures since the last success or reset, and a check is refused, with a retryable
  error, exactly when that number has reached the threshold and the latest of these
  failures is less than the recovery timeout ago.\<close>

theorem breaker_refuses_by_history:
  assumes "timed_until now evs" "0 < cf_failure_threshold cfg"
  shows "cb_failure_count (breaker_after cfg evs) = int (length (failures_in_a_row evs)) \<and>
    (case fst (check now (breaker_after cfg evs)) of
       Some err \<Rightarrow> refuses cfg evs now \<and> he_class err = HttpCircuitOpenError \<and> he_is_retryable err
     | None \<Rightarrow> \<not> refuses cfg evs now)"
  using check_refuses_iff[OF assms] breaker_after_inv[OF assms]
  by (auto simp: check_def split: option.split prod.split if_splits)

theorem breaker_refuses_by_history_witness:
  "case fst (check 20 (breaker_after (default_breaker_config\<lparr> cf_failure_threshold := 2 \<rparr>) [Failure 9, Check 8, Failure 4, Success, Failure 1])) of
     Some err \<Rightarrow> he_class err = HttpCircuitOpenError | None \<Rightarrow> False"
proof -
  let ?cfg = "default_breaker_config\<lparr> cf_failure_threshold := 2 \<rparr>"
  let ?evs = "[Failure 9, Check 8, Failure 4, Success, Failure 1]"
  have t: "timed_until 20 ?evs" and c: "0 < cf_failure_threshold ?cfg"
    and r: "refuses ?cfg ?evs 20"
    by (simp_all add: refuses_def default_breaker_config_def)
  from breaker_refuses_by_history[OF t c] r show ?thesis by (auto split: option.splits)
qed

text \<open>A half-open circuit is not limited to one probe.  Once the recovery timeout
  has passed, any number of checks in a row are let through before the first result
  is recorded, and only then does a failure close the gate again for a full timeout.\<close>

theorem half_open_admits_many_probes:
  assumes "timed_until t evs" "0 < cf_failure_threshold cfg" "\<not> refuses cfg evs t"
    and "0 < cf_recovery_timeout_seconds cfg" "cf_failure_threshold cfg \<le> int (length (failures_in_a_row evs))"
  shows "fst (check t (breaker_after cfg (replicate n (Check t) @ evs))) = None \<and>
    fst (check t (breaker_after cfg (Failure t # replicate n (Check t) @ evs))) \<noteq> None"
proof -
  have f: "failures_in_a_row (replicate n (Check t) @ evs) = failures_in_a_row evs" by (induction n) auto
  have t: "timed_until t (replicate n (Check t) @ evs)" using assms(1) by (induction n) auto
  have "\<not> refuses cfg (replicate n (Check t) @ evs) t" using assms(3) by (simp add: refuses_def f)
  moreover have "refuses cfg (Failure t # replicate n (Check t) @ evs) t" using assms(4,5) by (simp add: refuses_def f)
  moreover have "timed_until t (Failure t # replicate n (Check t) @ evs)" using t by simp
  ultimately show ?thesis using check_refuses_iff[OF t assms(2)] check_refuses_iff[OF _ assms(2)] by blast
qed

theorem half_open_admits_many_probes_witness:
  "fst (check 40 (breaker_after (default_breaker_config\<lparr> cf_failure_threshold := 1 \<rparr>) (replicate 100 (Check 40) @ [Failure 9]))) = None"
proof -
  let ?cfg = "default_breaker_config\<lparr> cf_failure_threshold := 1 \<rparr>"
  have "timed_until 40 [Failure 9]" "0 < cf_failure_threshold ?cfg" "\<not> refuses ?cfg [Failure 9] 40"
    "0 < cf_recovery_timeout_seconds ?cfg" "cf_failure_threshold ?cfg \<le> int (length (failures_in_a_row [Failure 9]))"
    by (simp_all add: refuses_def default_breaker_config_def)
  from half_open_admits_many_probes[OF this] show ?thesis by blast
qed

end
