(* ===== verification/Retry.thy ===== *)
theory Retry
  imports Prelude
begin

text \<open>
  core/worker/retry.py: exponential back-off, its policy object, the failure
  categories and the logging alert hook.  \<open>random.uniform(a, b)\<close> is
  \<open>a + (b - a) * r\<close> for the number r that the generator yields, an argument of
  the operation.  The locale \<open>backoff_curve\<close> states what every capped
  exponential delay of the program promises; its lemmas are used by the worker
  and by the HTTP client.
\<close>

section \<open>The contract of a capped exponential delay\<close>

locale backoff_curve =
  fixes valid :: "'p \<Rightarrow> bool"
    and base :: "'p \<Rightarrow> rat"
    and growth :: "'p \<Rightarrow> rat"
    and cap :: "'p \<Rightarrow> rat"
    and delay :: "'p \<Rightarrow> nat \<Rightarrow> rat"
  assumes base_nonneg: "valid p \<Longrightarrow> 0 \<le> base p"
    and base_le_cap: "valid p \<Longrightarrow> base p \<le> cap p"
    and growth_pos: "valid p \<Longrightarrow> 0 < growth p"
    and delay_first: "valid p \<Longrightarrow> delay p 0 = base p"
    and delay_next: "valid p \<Longrightarrow> 1 \<le> growth p \<Longrightarrow> delay p (Suc n) = min (delay p n * growth p) (cap p)"
    and delay_cap: "valid p \<Longrightarrow> delay p n \<le> cap p"
    and delay_pos: "valid p \<Longrightarrow> 0 \<le> delay p n"
begin

lemma delay_closed:
  assumes "valid p" "1 \<le> growth p"
  shows "delay p n = min (base p * growth p ^ n) (cap p)"
proof (induction n)
  case 0
  then show ?case using delay_first base_le_cap assms by (simp add: min_absorb1)
next
  case (Suc n)
  have "0 \<le> cap p" using base_nonneg base_le_cap assms by (meson order_trans)
  then show ?case
    using Suc delay_next[OF assms, of n] capped_step[of "cap p" "growth p" "base p * growth p ^ n"] assms(2)
    by (simp add: ac_simps)
qed

lemma delay_mono_Suc:
  assumes "valid p" "1 \<le> growth p"
  shows "delay p n \<le> delay p (Suc n)"
  using delay_next[OF assms, of n] delay_cap[OF assms(1), of n] delay_pos[OF assms(1), of n] assms
  by (simp add: mult_le_cancel_left1)

lemma delay_mono:
  assumes "valid p" "1 \<le> growth p" "m \<le> n"
  shows "delay p m \<le> delay p n"
  using assms(3) by (induction rule: dec_induct) (auto intro: order_trans delay_mono_Suc[OF assms(1,2)])

lemma delay_saturates:
  assumes "valid p" "1 < growth p" "0 < base p"
  shows "\<exists>k. \<forall>n \<ge> k. delay p n = cap p"
proof -
  have g: "1 \<le> growth p" using assms by simp
  obtain k where k: "cap p / base p < growth p ^ k"
    using rat_power_unbounded[OF assms(2)] by blast
  have "cap p \<le> base p * growth p ^ k"
    using k assms(3) by (simp add: field_simps)
  then have "delay p k = cap p" using delay_closed[OF assms(1) g] by (simp add: min_absorb2)
  then have "\<forall>n \<ge> k. delay p n = cap p"
    using delay_mono[OF assms(1) g] delay_cap[OF assms(1)] by (metis order_antisym)
  then show ?thesis ..
qed

end

section \<open>Delay functions\<close>

datatype backoff_error =
    Base_Delay_Negative rat
  | Max_Below_Base rat rat
  | Attempt_Negative int
  | Multiplier_Not_Positive rat

definition uniform :: "rat \<Rightarrow> rat \<Rightarrow> rat \<Rightarrow> rat" where
  "uniform r a b = a + (b - a) * r"

definition calculate_backoff_delay :: "rat \<Rightarrow> rat \<Rightarrow> int \<Rightarrow> rat \<Rightarrow> backoff_error + rat" where
  "calculate_backoff_delay r base_delay attempt max_delay =
     (if base_delay < 0 then Inl (Base_Delay_Negative base_delay)
      else if max_delay < base_delay then Inl (Max_Below_Base max_delay base_delay)
      else if attempt < 0 then Inl (Attempt_Negative attempt)
      else
        let exponential_delay = base_delay * power_int 2 attempt;
            capped_delay = min exponential_delay max_delay
        in Inr (uniform r 0 capped_delay))"

definition calculate_backoff_delay_deterministic :: "rat \<Rightarrow> int \<Rightarrow> rat \<Rightarrow> backoff_error + rat" where
  "calculate_backoff_delay_deterministic base_delay attempt max_delay =
     (if base_delay < 0 then Inl (Base_Delay_Negative base_delay)
      else if max_delay < base_delay then Inl (Max_Below_Base max_delay base_delay)
      else if attempt < 0 then Inl (Attempt_Negative attempt)
      else
        let exponential_delay = base_delay * power_int 2 attempt
        in Inr (min exponential_delay max_delay))"

section \<open>BackoffPolicy\<close>

record backoff_policy =
  base_delay_seconds :: rat
  max_delay_seconds :: rat
  multiplier :: rat
  jitter :: bool

text \<open>The validation of \<open>__post_init__\<close>, on the policy the constructor has filled in.\<close>

definition backoff_policy_post_init :: "backoff_policy \<Rightarrow> backoff_error + backoff_policy" where
  "backoff_policy_post_init p =
     (if base_delay_seconds p < 0 then Inl (Base_Delay_Negative (base_delay_seconds p))
      else if max_delay_seconds p < base_delay_seconds p
      then Inl (Max_Below_Base (max_delay_seconds p) (base_delay_seconds p))
      else if multiplier p \<le> 0 then Inl (Multiplier_Not_Positive (multiplier p))
      else Inr p)"

definition delay_for_attempt :: "rat \<Rightarrow> backoff_policy \<Rightarrow> int \<Rightarrow> rat" where
  "delay_for_attempt r p attempt =
     (if jitter p
      then let exponential_delay = base_delay_seconds p * power_int (multiplier p) attempt;
               capped_delay = min exponential_delay (max_delay_seconds p)
           in uniform r 0 capped_delay
      else let exponential_delay = base_delay_seconds p * power_int (multiplier p) attempt
           in min exponential_delay (max_delay_seconds p))"

definition BACKOFF_FAST :: backoff_policy where
  "BACKOFF_FAST = \<lparr> base_delay_seconds = 1, max_delay_seconds = 30, multiplier = 2, jitter = True \<rparr>"

definition BACKOFF_STANDARD :: backoff_policy where
  "BACKOFF_STANDARD = \<lparr> base_delay_seconds = 5, max_delay_seconds = 300, multiplier = 2, jitter = True \<rparr>"

definition BACKOFF_SLOW :: backoff_policy where
  "BACKOFF_SLOW = \<lparr> base_delay_seconds = 30, max_delay_seconds = 1800, multiplier = 2, jitter = True \<rparr>"

definition valid_policy :: "backoff_policy \<Rightarrow> bool" where
  "valid_policy p \<longleftrightarrow> is_ok (backoff_policy_post_init p)"

lemma valid_policy_iff:
  "valid_policy p \<longleftrightarrow> 0 \<le> base_delay_seconds p \<and> base_delay_seconds p \<le> max_delay_seconds p \<and> 0 < multiplier p"
  by (auto simp: valid_policy_def backoff_policy_post_init_def)

lemma predefined_valid [simp]:
  "valid_policy BACKOFF_FAST" "valid_policy BACKOFF_STANDARD" "valid_policy BACKOFF_SLOW"
  by (simp_all add: valid_policy_iff BACKOFF_FAST_def BACKOFF_STANDARD_def BACKOFF_SLOW_def)

section \<open>Bounds\<close>

lemma uniform_bounds:
  assumes "0 \<le> r" "r \<le> 1" "0 \<le> b"
  shows "0 \<le> uniform r 0 b" "uniform r 0 b \<le> b"
  using assms by (simp_all add: uniform_def mult_left_le)

lemma delay_for_attempt_bounds:
  assumes "valid_policy p" "0 \<le> r" "r \<le> 1"
  shows "0 \<le> delay_for_attempt r p n"
    and "delay_for_attempt r p n \<le> max_delay_seconds p"
    and "delay_for_attempt r p n \<le> base_delay_seconds p * power_int (multiplier p) n"
proof -
  let ?e = "base_delay_seconds p * power_int (multiplier p) n"
  let ?c = "min ?e (max_delay_seconds p)"
  have v: "0 \<le> base_delay_seconds p" "base_delay_seconds p \<le> max_delay_seconds p" "0 < multiplier p"
    using assms(1) by (simp_all add: valid_policy_iff)
  have c: "0 \<le> ?c" using v by simp
  note u = uniform_bounds[OF assms(2,3) c]
  show "0 \<le> delay_for_attempt r p n" using u c by (simp add: delay_for_attempt_def)
  have le: "delay_for_attempt r p n \<le> ?c" using u by (auto simp: delay_for_attempt_def Let_def)
  then show "delay_for_attempt r p n \<le> max_delay_seconds p" "delay_for_attempt r p n \<le> ?e"
    by simp_all
qed

lemma jitter_below_deterministic:
  assumes "valid_policy p" "0 \<le> r" "r \<le> 1"
  shows "delay_for_attempt r p n \<le> delay_for_attempt r (p\<lparr>jitter := False\<rparr>) n"
  using delay_for_attempt_bounds(2,3)[OF assms, of n] by (simp add: delay_for_attempt_def)

text \<open>The two deterministic delays of the worker satisfy the contract.\<close>

definition policy_curve :: "backoff_policy \<Rightarrow> nat \<Rightarrow> rat" where
  "policy_curve p n = delay_for_attempt 0 p (int n)"

interpretation policy: backoff_curve
  "\<lambda>p. valid_policy p \<and> \<not> jitter p" base_delay_seconds multiplier max_delay_seconds policy_curve
proof
  fix p and n :: nat
  assume v: "valid_policy p \<and> \<not> jitter p"
  then have v': "0 \<le> base_delay_seconds p" "base_delay_seconds p \<le> max_delay_seconds p" "0 < multiplier p"
    by (simp_all add: valid_policy_iff)
  show "0 \<le> base_delay_seconds p" "base_delay_seconds p \<le> max_delay_seconds p" "0 < multiplier p"
    by (fact v')+
  show "policy_curve p 0 = base_delay_seconds p" using v v' by (simp add: policy_curve_def delay_for_attempt_def)
  show "policy_curve p n \<le> max_delay_seconds p" "0 \<le> policy_curve p n"
    using delay_for_attempt_bounds[of p 0 "int n"] v by (simp_all add: policy_curve_def)
  show "policy_curve p (Suc n) = min (policy_curve p n * multiplier p) (max_delay_seconds p)"
    if "1 \<le> multiplier p"
    using v v' capped_step[of "max_delay_seconds p" "multiplier p" "base_delay_seconds p * multiplier p ^ n"] that
    by (simp add: ac_simps policy_curve_def delay_for_attempt_def power_int_def nat_add_distrib)
qed

definition deterministic_curve :: "rat \<times> rat \<Rightarrow> nat \<Rightarrow> rat" where
  "deterministic_curve bm n = (case calculate_backoff_delay_deterministic (fst bm) (int n) (snd bm) of Inr d \<Rightarrow> d | Inl _ \<Rightarrow> 0)"

lemma deterministic_ok_iff:
  "is_ok (calculate_backoff_delay_deterministic b n m) \<longleftrightarrow> 0 \<le> b \<and> b \<le> m \<and> 0 \<le> n"
  by (auto simp: calculate_backoff_delay_deterministic_def Let_def)

lemma deterministic_curve_eq:
  "0 \<le> fst bm \<Longrightarrow> fst bm \<le> snd bm \<Longrightarrow> deterministic_curve bm n = min (fst bm * 2 ^ n) (snd bm)"
  by (simp add: deterministic_curve_def calculate_backoff_delay_deterministic_def power_int_def)

interpretation deterministic: backoff_curve
  "\<lambda>bm. 0 \<le> fst bm \<and> fst bm \<le> snd bm" fst "\<lambda>_. 2" snd deterministic_curve
proof
  fix bm :: "rat \<times> rat" and n :: nat
  assume v: "0 \<le> fst bm \<and> fst bm \<le> snd bm"
  then show "0 \<le> fst bm" "fst bm \<le> snd bm" by simp_all
  show "deterministic_curve bm 0 = fst bm" "deterministic_curve bm n \<le> snd bm" "0 \<le> deterministic_curve bm n"
    using v by (simp_all add: deterministic_curve_eq)
  show "deterministic_curve bm (Suc n) = min (deterministic_curve bm n * 2) (snd bm)"
    using v capped_step[of "snd bm" 2 "fst bm * 2 ^ n"] by (simp add: deterministic_curve_eq ac_simps)
qed simp

lemma full_jitter_bounds:
  assumes "calculate_backoff_delay r b n m = Inr d" "0 \<le> r" "r \<le> 1"
  shows "0 \<le> d" "d \<le> m" "calculate_backoff_delay_deterministic b n m = Inr d' \<Longrightarrow> d \<le> d'"
proof -
  have ok: "0 \<le> b" "b \<le> m" "0 \<le> n" and d: "d = uniform r 0 (min (b * power_int 2 n) m)"
    using assms(1) by (auto simp: calculate_backoff_delay_def Let_def split: if_splits)
  have c: "0 \<le> min (b * power_int 2 n) m" using ok by simp
  note u = uniform_bounds[OF assms(2,3) c]
  show "0 \<le> d" using u d by simp
  show "d \<le> m" using u d by simp
  show "d \<le> d'" if "calculate_backoff_delay_deterministic b n m = Inr d'"
    using that u d ok by (auto simp: calculate_backoff_delay_deterministic_def Let_def)
qed

section \<open>Failure categories\<close>

datatype job_failure_category =
  TRANSIENT | RATE_LIMITED | INVALID_PAYLOAD | AUTHENTICATION | AUTHORIZATION
  | NOT_FOUND | CONFLICT | PROVIDER_ERROR | INTERNAL | UNKNOWN

fun category_value :: "job_failure_category \<Rightarrow> string" where
  "category_value TRANSIENT = ''transient''"
| "category_value RATE_LIMITED = ''rate_limited''"
| "category_value INVALID_PAYLOAD = ''invalid_payload''"
| "category_value AUTHENTICATION = ''authentication''"
| "category_value AUTHORIZATION = ''authorization''"
| "category_value NOT_FOUND = ''not_found''"
| "category_value CONFLICT = ''conflict''"
| "category_value PROVIDER_ERROR = ''provider_error''"
| "category_value INTERNAL = ''internal''"
| "category_value UNKNOWN = ''unknown''"

definition NON_RETRYABLE_CATEGORIES :: "string list" where
  "NON_RETRYABLE_CATEGORIES =
     map category_value [INVALID_PAYLOAD, AUTHENTICATION, AUTHORIZATION, NOT_FOUND, CONFLICT]"

definition is_retryable_category :: "string \<Rightarrow> bool" where
  "is_retryable_category category \<longleftrightarrow> category \<notin> set NON_RETRYABLE_CATEGORIES"

lemma category_value_inj [simp]: "category_value a = category_value b \<longleftrightarrow> a = b"
  by (cases a; cases b; simp)

lemma is_retryable_category_iff:
  "is_retryable_category (category_value c) \<longleftrightarrow>
     c \<in> {TRANSIENT, RATE_LIMITED, PROVIDER_ERROR, INTERNAL, UNKNOWN}"
  by (cases c) (simp_all add: is_retryable_category_def NON_RETRYABLE_CATEGORIES_def)

record non_retryable_job_error =
  nr_message :: string
  nr_error_category :: string
  nr_error_code :: "string option"

definition NonRetryableJobError :: "string \<Rightarrow> string option \<Rightarrow> string option \<Rightarrow> non_retryable_job_error" where
  "NonRetryableJobError message error_category error_code =
     \<lparr> nr_message = message, nr_error_category = or_list error_category (category_value UNKNOWN),
       nr_error_code = error_code \<rparr>"

section \<open>Alert hooks\<close>

record job_failure_notice =
  jf_job_name :: string
  jf_envelope_data :: dict
  jf_attempt :: int
  jf_max_attempts :: int
  jf_error_category :: "string option"
  jf_error_message :: string
  jf_is_final_attempt :: bool

datatype log_level = Log_Info | Log_Warning | Log_Error

text \<open>\<open>LoggingAlertHook\<close> writes one event to its logger, here a list of events.\<close>

definition LoggingAlertHook_on_job_failure ::
  "job_failure_notice \<Rightarrow> (log_level \<times> string \<times> job_failure_notice) list \<Rightarrow>
   (log_level \<times> string \<times> job_failure_notice) list" where
  "LoggingAlertHook_on_job_failure n events =
     events @ [(if jf_is_final_attempt n then Log_Error else Log_Warning, ''job_failure'', n)]"

end
