(* ===== verification/Http_Client.thy ===== *)
theory Http_Client
  imports Circuit_Breaker Retry
begin

text \<open>
  integrations/http_client/retry.py and client.py: the retry policy of outbound
  calls and the request method of the shared client.  The transport (httpx) is an
  argument: a function of the request and the world to a response or the exception
  it raises, by the handler that catches it.  Hooks are functions of the world too.
\<close>

section \<open>Retry policy\<close>

definition IDEMPOTENT_METHODS :: "string list" where
  "IDEMPOTENT_METHODS = [''GET'', ''HEAD'', ''OPTIONS'', ''PUT'', ''DELETE'']"

record http_retry_policy =
  hp_max_attempts :: int
  hp_backoff_base_seconds :: rat
  hp_backoff_max_seconds :: rat
  hp_backoff_multiplier :: rat
  hp_jitter :: bool
  hp_retry_on_timeout :: bool
  hp_retry_on_connection_error :: bool
  hp_retry_on_server_error :: bool
  hp_retry_on_rate_limit :: bool
  hp_idempotent_methods_only :: bool

definition default_http_retry_policy :: http_retry_policy where
  "default_http_retry_policy = \<lparr> hp_max_attempts = 3, hp_backoff_base_seconds = 1, hp_backoff_max_seconds = 30,
     hp_backoff_multiplier = 2, hp_jitter = True, hp_retry_on_timeout = True, hp_retry_on_connection_error = True,
     hp_retry_on_server_error = True, hp_retry_on_rate_limit = True, hp_idempotent_methods_only = True \<rparr>"

definition http_delay_for_attempt :: "rat \<Rightarrow> http_retry_policy \<Rightarrow> int \<Rightarrow> rat" where
  "http_delay_for_attempt r p attempt =
     (let exponential_delay = hp_backoff_base_seconds p * power_int (hp_backoff_multiplier p) attempt;
          capped_delay = min exponential_delay (hp_backoff_max_seconds p)
      in if hp_jitter p then uniform r 0 capped_delay else capped_delay)"

definition or_default :: "'a option \<Rightarrow> 'a \<Rightarrow> 'a" where
  "or_default x d = (case x of None \<Rightarrow> d | Some v \<Rightarrow> v)"

record http_retry_settings =
  HTTP_CLIENT_RETRY_MAX_ATTEMPTS :: "int option"
  HTTP_CLIENT_RETRY_BACKOFF_BASE_SECONDS :: "rat option"
  HTTP_CLIENT_RETRY_BACKOFF_MAX_SECONDS :: "rat option"
  HTTP_CLIENT_RETRY_BACKOFF_MULTIPLIER :: "rat option"
  HTTP_CLIENT_RETRY_BACKOFF_JITTER :: "bool option"

definition build_retry_policy_from_settings :: "http_retry_settings \<Rightarrow> http_retry_policy" where
  "build_retry_policy_from_settings cfg = default_http_retry_policy
     \<lparr> hp_max_attempts := or_default (HTTP_CLIENT_RETRY_MAX_ATTEMPTS cfg) 3,
       hp_backoff_base_seconds := or_default (HTTP_CLIENT_RETRY_BACKOFF_BASE_SECONDS cfg) 1,
       hp_backoff_max_seconds := or_default (HTTP_CLIENT_RETRY_BACKOFF_MAX_SECONDS cfg) 30,
       hp_backoff_multiplier := or_default (HTTP_CLIENT_RETRY_BACKOFF_MULTIPLIER cfg) 2,
       hp_jitter := or_default (HTTP_CLIENT_RETRY_BACKOFF_JITTER cfg) True \<rparr>"

definition is_retryable_error :: "http_error \<Rightarrow> http_retry_policy \<Rightarrow> bool" where
  "is_retryable_error e p =
     (if \<not> he_is_retryable e then False
      else if he_class e = HttpTimeoutError \<and> hp_retry_on_timeout p then True
      else if he_class e = HttpConnectionError \<and> hp_retry_on_connection_error p then True
      else if he_class e = HttpServerError \<and> hp_retry_on_server_error p then True
      else if he_class e = HttpRateLimitError \<and> hp_retry_on_rate_limit p then True
      else False)"

definition should_retry_method :: "string \<Rightarrow> http_retry_policy \<Rightarrow> bool" where
  "should_retry_method meth p =
     (if \<not> hp_idempotent_methods_only p then True else map char_upper meth \<in> set IDEMPOTENT_METHODS)"

definition resolve_retry_delay :: "rat \<Rightarrow> http_error \<Rightarrow> int \<Rightarrow> http_retry_policy \<Rightarrow> rat" where
  "resolve_retry_delay r e attempt p =
     (case (he_class e, he_retry_after_seconds e) of
        (HttpRateLimitError, Some s) \<Rightarrow> min s (hp_backoff_max_seconds p)
      | _ \<Rightarrow> http_delay_for_attempt r p attempt)"

text \<open>The policy is not validated by its constructor; these are the values for which its
  delays form a back-off curve.\<close>

definition sane_http_policy :: "http_retry_policy \<Rightarrow> bool" where
  "sane_http_policy p \<longleftrightarrow> 0 \<le> hp_backoff_base_seconds p \<and> hp_backoff_base_seconds p \<le> hp_backoff_max_seconds p \<and>
     0 < hp_backoff_multiplier p"

definition http_curve :: "http_retry_policy \<Rightarrow> nat \<Rightarrow> rat" where
  "http_curve p n = http_delay_for_attempt 0 p (int n)"

lemma http_delay_as_policy:
  "http_delay_for_attempt r p n = delay_for_attempt r
     \<lparr> base_delay_seconds = hp_backoff_base_seconds p, max_delay_seconds = hp_backoff_max_seconds p,
       multiplier = hp_backoff_multiplier p, jitter = hp_jitter p \<rparr> n"
  by (simp add: http_delay_for_attempt_def delay_for_attempt_def Let_def)

lemma http_delay_bounds:
  assumes "sane_http_policy p" "0 \<le> r" "r \<le> 1"
  shows "0 \<le> http_delay_for_attempt r p n" "http_delay_for_attempt r p n \<le> hp_backoff_max_seconds p"
  using assms delay_for_attempt_bounds(1,2)[of "\<lparr> base_delay_seconds = hp_backoff_base_seconds p,
      max_delay_seconds = hp_backoff_max_seconds p, multiplier = hp_backoff_multiplier p, jitter = hp_jitter p \<rparr>" r n]
  by (simp_all add: http_delay_as_policy sane_http_policy_def valid_policy_iff)

interpretation http_policy: backoff_curve
  "\<lambda>p. sane_http_policy p \<and> \<not> hp_jitter p" hp_backoff_base_seconds hp_backoff_multiplier hp_backoff_max_seconds http_curve
proof
  fix p and n :: nat
  assume v: "sane_http_policy p \<and> \<not> hp_jitter p"
  then show "0 \<le> hp_backoff_base_seconds p" "hp_backoff_base_seconds p \<le> hp_backoff_max_seconds p"
    "0 < hp_backoff_multiplier p"
    by (simp_all add: sane_http_policy_def)
  then show "http_curve p 0 = hp_backoff_base_seconds p" using v
    by (simp add: http_curve_def http_delay_for_attempt_def)
  show "http_curve p n \<le> hp_backoff_max_seconds p" "0 \<le> http_curve p n"
    using http_delay_bounds[of p 0] v by (simp_all add: http_curve_def)
  show "http_curve p (Suc n) = min (http_curve p n * hp_backoff_multiplier p) (hp_backoff_max_seconds p)"
    if "1 \<le> hp_backoff_multiplier p"
    using v capped_step[of "hp_backoff_max_seconds p" "hp_backoff_multiplier p"
        "hp_backoff_base_seconds p * hp_backoff_multiplier p ^ n"] that
    by (simp add: ac_simps http_curve_def http_delay_for_attempt_def sane_http_policy_def power_int_def nat_add_distrib)
qed

section \<open>The client\<close>

record http_client_config =
  hc_base_url :: string
  hc_timeout_seconds :: rat
  hc_connect_timeout_seconds :: rat
  hc_read_timeout_seconds :: rat
  hc_write_timeout_seconds :: rat
  hc_pool_max_connections :: int
  hc_pool_max_keepalive :: int
  hc_default_headers :: "(string \<times> string) list"
  hc_propagate_correlation :: bool
  hc_follow_redirects :: bool
  hc_retry_enabled :: bool
  hc_retry_max_attempts :: int
  hc_retry_backoff_base_seconds :: rat
  hc_retry_backoff_max_seconds :: rat
  hc_retry_backoff_multiplier :: rat
  hc_retry_backoff_jitter :: bool
  hc_circuit_breaker_enabled :: bool
  hc_circuit_breaker_failure_threshold :: int
  hc_circuit_breaker_recovery_timeout_seconds :: rat
  hc_log_request_body :: bool
  hc_log_response_body :: bool

record http_response =
  hr_status_code :: int
  hr_headers :: "(string \<times> string) list"
  hr_reason_phrase :: string
  hr_url :: string
  hr_method :: string
  hr_content :: string

datatype httpx_exn =
    Httpx_Timeout string
  | Httpx_Connect string
  | Httpx_Status http_response string
  | Httpx_Other string
  | Not_Httpx exn

record http_request =
  rq_method :: string
  rq_url :: string
  rq_headers :: "(string \<times> string) list"
  rq_params :: dict
  rq_json :: "json option"
  rq_content :: "string option"
  rq_data :: dict

record after_response_call =
  ar_method :: string
  ar_url :: string
  ar_status_code :: int
  ar_headers :: "(string \<times> string) list"
  ar_content :: "string option"
  ar_error :: "http_error option"

type_synonym 'w request_hook =
  "string \<Rightarrow> string \<Rightarrow> (string \<times> string) list \<Rightarrow> string option \<Rightarrow> 'w \<Rightarrow> (exn + (string \<times> string) list) \<times> 'w"
type_synonym 'w response_hook = "after_response_call \<Rightarrow> 'w \<Rightarrow> exn option \<times> 'w"

definition build_response_summary :: "http_response \<Rightarrow> http_response_summary" where
  "build_response_summary r = \<lparr> hs_status_code = hr_status_code r, hs_headers = hr_headers r,
     hs_reason_phrase = hr_reason_phrase r, hs_url = hr_url r, hs_method = hr_method r \<rparr>"

text \<open>Header look-up of a response is case-insensitive.\<close>

definition parse_retry_after :: "http_response \<Rightarrow> rat option" where
  "parse_retry_after r = Option.bind (map_of (lower_keys [] (hr_headers r)) ''retry-after'') py_float"

definition raise_for_status :: "http_response \<Rightarrow> http_error option" where
  "raise_for_status r =
     (if 200 \<le> hr_status_code r \<and> hr_status_code r \<le> 299 then None
      else let summary = build_response_summary r;
               error_class = classify_status_code (hr_status_code r)
           in if error_class = HttpRateLimitError
              then Some (make_http_error HttpRateLimitError (''Rate limited: '' @ show_int (hr_status_code r)) (Some summary) (parse_retry_after r))
              else Some (make_http_error error_class (''HTTP '' @ show_int (hr_status_code r) @ '': '' @ or_list (Some (hr_reason_phrase r)) ''error'')
                           (Some summary) None))"

fun run_request_hooks ::
  "'w request_hook list \<Rightarrow> string \<Rightarrow> string \<Rightarrow> string option \<Rightarrow> (string \<times> string) list \<Rightarrow> 'w
   \<Rightarrow> (exn + (string \<times> string) list) \<times> 'w" where
  "run_request_hooks [] meth url content headers w = (Inr headers, w)"
| "run_request_hooks (hook # hooks) meth url content headers w =
     (case hook meth url headers content w of
        (Inl exc, w') \<Rightarrow> (Inl exc, w')
      | (Inr headers', w') \<Rightarrow> run_request_hooks hooks meth url content headers' w')"

fun run_response_hooks :: "'w response_hook list \<Rightarrow> after_response_call \<Rightarrow> 'w \<Rightarrow> 'w" where
  "run_response_hooks [] c w = w"
| "run_response_hooks (hook # hooks) c w =
     (case hook c w of (Some exc, w') \<Rightarrow> run_response_hooks hooks c w' | (None, w') \<Rightarrow> run_response_hooks hooks c w')"

datatype request_failure = Http_Failure http_error | Foreign_Failure exn

fun update_all :: "(string \<times> string) list \<Rightarrow> (string \<times> string) list \<Rightarrow> (string \<times> string) list" where
  "update_all d [] = d"
| "update_all d ((k, v) # rest) = update_all (AList.update k v d) rest"

definition merge_request_headers ::
  "http_client_config \<Rightarrow> dict \<Rightarrow> (string \<times> string) list \<Rightarrow> (string \<times> string) list" where
  "merge_request_headers cfg ctxvars headers =
     (let merged = update_all (hc_default_headers cfg) headers
      in if hc_propagate_correlation cfg
         then set_defaults merged (build_correlation_headers ctxvars None None) else merged)"

text \<open>The \<open>try\<close> block and its handlers: the result of the call, the response that has
  been received, and the local variable \<open>error\<close> that the \<open>finally\<close> block hands to the
  response hooks.\<close>

definition try_request ::
  "bool \<Rightarrow> httpx_exn + http_response \<Rightarrow> (request_failure + http_response) \<times> http_response option \<times> http_error option" where
  "try_request raise_for_status_codes outcome =
     (case outcome of
        Inr response \<Rightarrow>
          (if raise_for_status_codes
           then (case raise_for_status response of
                   None \<Rightarrow> (Inr response, Some response, None)
                 | Some err \<Rightarrow> (Inl (Http_Failure err), Some response, None))
           else (Inr response, Some response, None))
      | Inl (Httpx_Timeout msg) \<Rightarrow>
          (let err = make_http_error HttpTimeoutError msg None None in (Inl (Http_Failure err), None, Some err))
      | Inl (Httpx_Connect msg) \<Rightarrow>
          (let err = make_http_error HttpConnectionError msg None None in (Inl (Http_Failure err), None, Some err))
      | Inl (Httpx_Status resp msg) \<Rightarrow>
          (let err = make_http_error HttpClientError msg (Some (build_response_summary resp)) None
           in (Inl (Http_Failure err), None, Some err))
      | Inl (Httpx_Other msg) \<Rightarrow>
          (let err = make_http_error HttpClientError msg None None in (Inl (Http_Failure err), None, Some err))
      | Inl (Not_Httpx exc) \<Rightarrow> (Inl (Foreign_Failure exc), None, None))"

definition send_request ::
  "http_client_config \<Rightarrow> 'w request_hook list \<Rightarrow> 'w response_hook list
   \<Rightarrow> (http_request \<Rightarrow> 'w \<Rightarrow> (httpx_exn + http_response) \<times> 'w) \<Rightarrow> dict \<Rightarrow> bool \<Rightarrow> http_request \<Rightarrow> 'w
   \<Rightarrow> (request_failure + http_response) \<times> 'w" where
  "send_request cfg req_hooks resp_hooks transport ctxvars raise_codes rq w =
     (let merged_headers = merge_request_headers cfg ctxvars (rq_headers rq);
          request_content = (case rq_json rq of None \<Rightarrow> rq_content rq | Some _ \<Rightarrow> None)
      in (case run_request_hooks req_hooks (rq_method rq) (rq_url rq) request_content merged_headers w of
            (Inl exc, w1) \<Rightarrow> (Inl (Foreign_Failure exc), w1)
          | (Inr headers, w1) \<Rightarrow>
              (case transport (rq\<lparr> rq_headers := headers \<rparr>) w1 of
                 (outcome, w2) \<Rightarrow>
                   (case try_request raise_codes outcome of
                      (result, response, err) \<Rightarrow>
                        (result, run_response_hooks resp_hooks
                           \<lparr> ar_method = rq_method rq, ar_url = rq_url rq,
                             ar_status_code = (case response of None \<Rightarrow> 0 | Some r \<Rightarrow> hr_status_code r),
                             ar_headers = (case response of None \<Rightarrow> [] | Some r \<Rightarrow> hr_headers r),
                             ar_content = (case response of None \<Rightarrow> None
                                | Some r \<Rightarrow> if hc_log_response_body cfg then Some (hr_content r) else None),
                             ar_error = err \<rparr> w2)))))"

lemma run_response_hooks_fold: "run_response_hooks hooks c w = fold (\<lambda>hook w. snd (hook c w)) hooks w"
  by (induction hooks c w rule: run_response_hooks.induct) (auto split: prod.split option.split)

lemma update_all_keeps: "k \<notin> set (map fst rest) \<Longrightarrow> map_of (update_all d rest) k = map_of d k"
  by (induction d rest rule: update_all.induct) auto

end
