(* ===== verification/Http_Theorems.thy ===== *)
theory Http_Theorems
  imports Http_Client
begin

text \<open>The properties of the outbound HTTP layer.\<close>

text \<open>The delay before a retry of an outbound call never exceeds the policy's
  maximum, also when the provider asks for more with a Retry-After header, and it
  is not negative unless the header's number is; only timeouts, connection errors,
  5xx and 429 are retried by the default policy, and only for idempotent methods.\<close>

theorem http_retry_decisions:
  assumes "sane_http_policy p" "0 \<le> r" "r \<le> 1"
  shows "resolve_retry_delay r e n p \<le> hp_backoff_max_seconds p \<and>
    (case he_retry_after_seconds e of Some s \<Rightarrow> min s 0 \<le> resolve_retry_delay r e n p | None \<Rightarrow> 0 \<le> resolve_retry_delay r e n p) \<and>
    is_retryable_error (make_http_error c msg summary ra) default_http_retry_policy =
      (c \<in> {HttpTimeoutError, HttpConnectionError, HttpServerError, HttpRateLimitError}) \<and>
    map (\<lambda>m. should_retry_method m default_http_retry_policy) [''get'', ''PUT'', ''Delete'', ''post'', ''PATCH''] =
      [True, True, True, False, False]"
proof -
  note b = http_delay_bounds[OF assms, of n]
  have "0 \<le> hp_backoff_max_seconds p" using assms(1) by (simp add: sane_http_policy_def)
  then have "resolve_retry_delay r e n p \<le> hp_backoff_max_seconds p \<and>
    (case he_retry_after_seconds e of Some s \<Rightarrow> min s 0 \<le> resolve_retry_delay r e n p | None \<Rightarrow> 0 \<le> resolve_retry_delay r e n p)"
    using b by (cases "he_class e") (auto simp: resolve_retry_delay_def split: option.split)
  moreover have "is_retryable_error (make_http_error c msg summary ra) default_http_retry_policy =
      (c \<in> {HttpTimeoutError, HttpConnectionError, HttpServerError, HttpRateLimitError})"
    by (cases c) (simp_all add: is_retryable_error_def default_http_retry_policy_def)
  moreover have "map (\<lambda>m. should_retry_method m default_http_retry_policy) [''get'', ''PUT'', ''Delete'', ''post'', ''PATCH''] =
      [True, True, True, False, False]"
    by code_simp
  ultimately show ?thesis by blast
qed

theorem http_retry_decisions_witness:
  "resolve_retry_delay (1/2) (make_http_error HttpRateLimitError ''slow'' None (Some 120)) 0 default_http_retry_policy \<le> 30"
proof -
  have p: "sane_http_policy default_http_retry_policy" "(0::rat) \<le> 1/2" "(1/2::rat) \<le> 1"
    "hp_backoff_max_seconds default_http_retry_policy = 30"
    by (simp_all add: sane_http_policy_def default_http_retry_policy_def)
  show ?thesis using http_retry_decisions[OF p(1-3)] p(4) by metis
qed

text \<open>Response hooks are not told about error responses.  When the transport
  delivers a response outside 2xx, the caller gets the typed error for its status
  code, with the response's summary, but every response hook is called with no
  error, exactly as for a successful call; when the transport itself fails, hooks
  and caller get the same error.  All hooks run, also after one that raises.\<close>

theorem response_hooks_miss_status_errors:
  assumes "run_request_hooks req_hooks (rq_method rq) (rq_url rq) content (merge_request_headers cfg vars (rq_headers rq)) w = (Inr hs, w1)"
    and "content = (case rq_json rq of None \<Rightarrow> rq_content rq | Some _ \<Rightarrow> None)"
    and "transport (rq\<lparr> rq_headers := hs \<rparr>) w1 = (Inr resp, w2)"
    and "hr_status_code resp < 200 \<or> 300 \<le> hr_status_code resp"
  shows "\<exists>err call. send_request cfg req_hooks resp_hooks transport vars True rq w =
      (Inl (Http_Failure err), fold (\<lambda>hook w. snd (hook call w)) resp_hooks w2) \<and>
    he_class err = classify_status_code (hr_status_code resp) \<and>
    he_response_summary err = Some (build_response_summary resp) \<and>
    ar_error call = None \<and> ar_status_code call = hr_status_code resp"
proof -
  define call where "call = \<lparr> ar_method = rq_method rq, ar_url = rq_url rq, ar_status_code = hr_status_code resp,
    ar_headers = hr_headers resp, ar_content = (if hc_log_response_body cfg then Some (hr_content resp) else None),
    ar_error = (None :: http_error option) \<rparr>"
  have "\<exists>err. raise_for_status resp = Some err \<and> he_class err = classify_status_code (hr_status_code resp) \<and>
    he_response_summary err = Some (build_response_summary resp)"
    using assms(4) by (auto simp: raise_for_status_def Let_def)
  then obtain err where err: "raise_for_status resp = Some err"
    "he_class err = classify_status_code (hr_status_code resp)"
    "he_response_summary err = Some (build_response_summary resp)" by blast
  have "send_request cfg req_hooks resp_hooks transport vars True rq w =
      (Inl (Http_Failure err), fold (\<lambda>hook w. snd (hook call w)) resp_hooks w2)"
    using assms(1-3) err(1) by (simp add: send_request_def try_request_def run_response_hooks_fold call_def)
  with err show ?thesis by (auto simp: call_def)
qed

definition demo_http_config :: http_client_config where
  "demo_http_config = \<lparr> hc_base_url = [], hc_timeout_seconds = 30, hc_connect_timeout_seconds = 10,
     hc_read_timeout_seconds = 30, hc_write_timeout_seconds = 30, hc_pool_max_connections = 100,
     hc_pool_max_keepalive = 20, hc_default_headers = [], hc_propagate_correlation = False,
     hc_follow_redirects = True, hc_retry_enabled = True, hc_retry_max_attempts = 3,
     hc_retry_backoff_base_seconds = 1, hc_retry_backoff_max_seconds = 30, hc_retry_backoff_multiplier = 2,
     hc_retry_backoff_jitter = True, hc_circuit_breaker_enabled = False, hc_circuit_breaker_failure_threshold = 5,
     hc_circuit_breaker_recovery_timeout_seconds = 30, hc_log_request_body = False, hc_log_response_body = False \<rparr>"

definition demo_request :: http_request where
  "demo_request = \<lparr> rq_method = ''GET'', rq_url = ''/orders'', rq_headers = [], rq_params = [], rq_json = None,
     rq_content = None, rq_data = [] \<rparr>"

definition demo_response :: http_response where
  "demo_response = \<lparr> hr_status_code = 503, hr_headers = [], hr_reason_phrase = ''busy'', hr_url = ''/orders'',
     hr_method = ''GET'', hr_content = [] \<rparr>"

theorem response_hooks_miss_status_errors_witness:
  "\<exists>err. send_request demo_http_config [] [\<lambda>c w. (None, w @ [ar_error c])] (\<lambda>rq w. (Inr demo_response, w)) [] True demo_request [] =
     (Inl (Http_Failure err), [None]) \<and> he_class err = HttpServerError"
proof -
  have p: "run_request_hooks [] (rq_method demo_request) (rq_url demo_request) None
      (merge_request_headers demo_http_config [] (rq_headers demo_request)) ([] :: http_error option list) = (Inr [], [])"
    "None = (case rq_json demo_request of None \<Rightarrow> rq_content demo_request | Some _ \<Rightarrow> None)"
    "hr_status_code demo_response < 200 \<or> 300 \<le> hr_status_code demo_response"
    by (simp_all add: merge_request_headers_def demo_http_config_def demo_request_def demo_response_def)
  have c: "classify_status_code (hr_status_code demo_response) = HttpServerError"
    by (simp add: classify_status_code_def demo_response_def)
  show ?thesis
    using response_hooks_miss_status_errors[where transport = "\<lambda>rq w. (Inr demo_response, w)" and resp = demo_response
        and resp_hooks = "[\<lambda>c w. (None, w @ [ar_error c])]", OF p(1,2) refl p(3)] c
    by auto
qed

text \<open>Header precedence of an outbound call: a header given by the caller wins over
  the client's default, a default over the propagated identifier, and an identifier
  that is bound in the log context reaches the wire when neither names it.\<close>

theorem request_header_precedence:
  assumes "distinct (map fst headers)"
  shows "map_of (merge_request_headers cfg vars headers) k =
    (case map_of headers k of Some v \<Rightarrow> Some v
     | None \<Rightarrow> (case map_of (hc_default_headers cfg) k of Some v \<Rightarrow> Some v
       | None \<Rightarrow> if hc_propagate_correlation cfg then map_of (build_correlation_headers vars None None) k else None))"
proof -
  have "map_of (update_all d headers) k = (case map_of headers k of Some v \<Rightarrow> Some v | None \<Rightarrow> map_of d k)" for d
    using assms
  proof (induction headers arbitrary: d)
    case (Cons kv rest)
    obtain k' v where kv: "kv = (k', v)" by force
    have "map_of rest k' = None" using Cons.prems kv by (simp add: map_of_eq_None_iff)
    then show ?case
      using Cons.IH[of "AList.update k' v d"] Cons.prems kv by (auto split: option.split)
  qed simp
  then show ?thesis
    by (simp add: merge_request_headers_def set_defaults_lookup Let_def split: option.split)
qed

theorem request_header_precedence_witness:
  "map_of (merge_request_headers (demo_http_config\<lparr> hc_propagate_correlation := True,
       hc_default_headers := [(''Accept'', ''json''), (''X-Request-ID'', ''fixed'')] \<rparr>)
     [(''request_id'', JStr '' r1 '')] [(''Accept'', ''xml'')]) ''X-Request-ID'' = Some ''fixed''"
proof -
  have d: "distinct (map fst [(''Accept'', ''xml'')])" by simp
  show ?thesis using request_header_precedence[OF d] by (simp add: demo_http_config_def)
qed

end
