(* ===== verification/Integration_Errors.thy ===== *)
theory Integration_Errors
  imports Http_Errors
begin

text \<open>
  integrations/contracts/errors.py and results.py: the integration error classes,
  the mapping of HTTP errors to them, and the result objects of adapters.  An error
  object is a record with its class; its cause is the HTTP error or the exception
  that it wraps.
\<close>

datatype integration_error_class =
    IntegrationError | IntegrationAuthError | IntegrationNotFoundError | IntegrationRateLimitError
  | IntegrationTimeoutError | IntegrationConnectionError | IntegrationValidationError | IntegrationServerError
  | IntegrationConfigError | IntegrationUnavailableError | IntegrationDisabledError | IntegrationModeError
  | IntegrationCredentialError | IntegrationProductionValidationError

datatype error_cause = No_Cause | Caused_By_Http http_error | Caused_By exn

record integration_error =
  ie_class :: integration_error_class
  ie_message :: string
  ie_provider_name :: string
  ie_operation :: string
  ie_detail :: "string option"
  ie_cause :: error_cause
  ie_retry_after_seconds :: "rat option"

definition wrap_http_error :: "integration_error_class \<Rightarrow> string \<Rightarrow> string \<Rightarrow> http_error \<Rightarrow> integration_error" where
  "wrap_http_error c provider_name op e = \<lparr> ie_class = c, ie_message = he_message e, ie_provider_name = provider_name,
     ie_operation = op, ie_detail = Some (he_message e), ie_cause = Caused_By_Http e,
     ie_retry_after_seconds = (if c = IntegrationRateLimitError then he_retry_after_seconds e else None) \<rparr>"

fun integration_class_of :: "http_error_class \<Rightarrow> integration_error_class" where
  "integration_class_of HttpAuthenticationError = IntegrationAuthError"
| "integration_class_of HttpAuthorizationError = IntegrationAuthError"
| "integration_class_of HttpNotFoundError = IntegrationNotFoundError"
| "integration_class_of HttpRateLimitError = IntegrationRateLimitError"
| "integration_class_of HttpTimeoutError = IntegrationTimeoutError"
| "integration_class_of HttpConnectionError = IntegrationConnectionError"
| "integration_class_of HttpClientBadRequestError = IntegrationValidationError"
| "integration_class_of HttpServerError = IntegrationServerError"
| "integration_class_of HttpCircuitOpenError = IntegrationUnavailableError"
| "integration_class_of _ = IntegrationError"

definition classify_http_error :: "string \<Rightarrow> string \<Rightarrow> http_error \<Rightarrow> integration_error" where
  "classify_http_error provider_name op e = wrap_http_error (integration_class_of (he_class e)) provider_name op e"

definition is_retryable_integration_error :: "integration_error \<Rightarrow> bool" where
  "is_retryable_integration_error e \<longleftrightarrow>
     ie_class e \<notin> {IntegrationAuthError, IntegrationNotFoundError, IntegrationValidationError, IntegrationConfigError}"

section \<open>Results\<close>

record 'a integration_result =
  ir_success :: bool
  ir_data :: "'a option"
  ir_error :: "integration_error option"
  ir_provider :: string
  ir_operation :: string
  ir_duration_ms :: "rat option"
  ir_request_id :: "string option"

definition result_ok :: "'a \<Rightarrow> string \<Rightarrow> string \<Rightarrow> rat option \<Rightarrow> string option \<Rightarrow> 'a integration_result" where
  "result_ok data provider op duration_ms request_id = \<lparr> ir_success = True, ir_data = Some data, ir_error = None,
     ir_provider = provider, ir_operation = op, ir_duration_ms = duration_ms, ir_request_id = request_id \<rparr>"

definition result_fail ::
  "integration_error \<Rightarrow> string option \<Rightarrow> string option \<Rightarrow> rat option \<Rightarrow> string option \<Rightarrow> 'a integration_result" where
  "result_fail err provider op duration_ms request_id = \<lparr> ir_success = False, ir_data = None, ir_error = Some err,
     ir_provider = or_list provider (ie_provider_name err), ir_operation = or_list op (ie_operation err),
     ir_duration_ms = duration_ms, ir_request_id = request_id \<rparr>"

definition result_is_retryable :: "'a integration_result \<Rightarrow> bool" where
  "result_is_retryable r =
     (if ir_success r then False
      else case ir_error r of None \<Rightarrow> False | Some e \<Rightarrow> is_retryable_integration_error e)"

record 'a paginated_result = "'a integration_result" +
  pr_cursor :: "string option"
  pr_has_more :: bool
  pr_total_count :: "int option"

definition paginated_ok ::
  "'a \<Rightarrow> string \<Rightarrow> string \<Rightarrow> rat option \<Rightarrow> string option \<Rightarrow> string option \<Rightarrow> bool \<Rightarrow> int option \<Rightarrow> 'a paginated_result" where
  "paginated_ok data provider op duration_ms request_id cursor has_more total_count =
     integration_result.extend (result_ok data provider op duration_ms request_id)
       \<lparr> pr_cursor = cursor, pr_has_more = has_more, pr_total_count = total_count \<rparr>"

record 'a bulk_result =
  bk_succeeded :: "'a list"
  bk_failed :: "'a integration_result list"
  bk_total :: int

definition success_count :: "'a bulk_result \<Rightarrow> nat" where
  "success_count b = length (bk_succeeded b)"

definition failure_count :: "'a bulk_result \<Rightarrow> nat" where
  "failure_count b = length (bk_failed b)"

definition partial_success :: "'a bulk_result \<Rightarrow> bool" where
  "partial_success b \<longleftrightarrow> success_count b > 0 \<and> failure_count b > 0"

text \<open>Wrapping an HTTP error does not preserve whether it may be retried.  The
  wrapped error keeps provider, operation, message and (for 429) the Retry-After
  delay, and its retryability is that of the HTTP error for every class except a
  conflict and an explicitly non-retryable error, which are not retryable as HTTP
  errors and become retryable integration errors.\<close>

theorem http_classification_retryability:
  "is_retryable_integration_error (classify_http_error provider op (make_http_error c msg summary ra)) =
     (class_is_retryable c \<or> c = HttpConflictError \<or> c = NonRetryableHttpError) \<and>
   ie_retry_after_seconds (classify_http_error provider op (make_http_error c msg summary ra)) =
     (if c = HttpRateLimitError then ra else None) \<and>
   ie_detail (classify_http_error provider op (make_http_error c msg summary ra)) = Some msg \<and>
   ie_provider_name (classify_http_error provider op (make_http_error c msg summary ra)) = provider \<and>
   \<not> he_is_retryable (make_http_error HttpConflictError msg summary ra)"
  by (cases c) (simp_all add: is_retryable_integration_error_def classify_http_error_def wrap_http_error_def)

end
