(* ===== verification/Resilience.thy ===== *)
theory Resilience
  imports Integration_Errors
begin

text \<open>
  integrations/contracts/resilience.py: fallbacks, bulk operations with partial
  failure, compensating actions and deferred retries.  Operations of the caller are
  functions of the world \<open>'w\<close>; each returns its result or the exception it raises.
\<close>

section \<open>The contract of undoing in reverse order\<close>

text \<open>\<open>undo_one\<close> attempts one action and always yields a result; \<open>undo_all\<close> handles a
  list of actions in order of registration, the latest first.\<close>

locale reverse_undo =
  fixes undo_one :: "'a \<Rightarrow> 'w \<Rightarrow> 'r \<times> 'w"
    and undo_all :: "'a list \<Rightarrow> 'w \<Rightarrow> 'r list \<times> 'w"
  assumes undo_none: "undo_all [] w = ([], w)"
    and undo_latest: "undo_all (acts @ [a]) w =
      (case undo_one a w of (r, w1) \<Rightarrow> (case undo_all acts w1 of (rs, w2) \<Rightarrow> (r # rs, w2)))"
begin

lemma undo_all_length: "length (fst (undo_all acts w)) = length acts"
  by (induction acts arbitrary: w rule: rev_induct) (simp_all add: undo_none undo_latest case_prod_beta)

lemma undo_all_world: "snd (undo_all acts w) = fold (\<lambda>a w. snd (undo_one a w)) (rev acts) w"
  by (induction acts arbitrary: w rule: rev_induct) (simp_all add: undo_none undo_latest case_prod_beta)

lemma undo_all_nth:
  "i < length acts \<Longrightarrow> fst (undo_all acts w) ! i =
     fst (undo_one (rev acts ! i) (fold (\<lambda>a w. snd (undo_one a w)) (take i (rev acts)) w))"
proof (induction acts arbitrary: w i rule: rev_induct)
  case (snoc a acts)
  then show ?case
    by (cases i) (simp_all add: undo_latest case_prod_beta)
qed simp

end

section \<open>Fallback\<close>

datatype result_source = SRC_PRIMARY | SRC_FALLBACK | SRC_DEFAULT | SRC_NONE

record 'a resilient_result =
  rr_data :: "'a option"
  rr_source :: result_source
  rr_primary_error :: "integration_error option"
  rr_degraded :: bool

definition rr_available :: "'a resilient_result \<Rightarrow> bool" where
  "rr_available r \<longleftrightarrow> rr_data r \<noteq> None"

definition from_primary :: "'a option \<Rightarrow> 'a resilient_result" where
  "from_primary data = \<lparr> rr_data = data, rr_source = SRC_PRIMARY, rr_primary_error = None, rr_degraded = False \<rparr>"

definition from_fallback :: "'a \<Rightarrow> integration_error \<Rightarrow> 'a resilient_result" where
  "from_fallback data e = \<lparr> rr_data = Some data, rr_source = SRC_FALLBACK, rr_primary_error = Some e, rr_degraded = True \<rparr>"

definition from_default :: "'a \<Rightarrow> integration_error \<Rightarrow> 'a resilient_result" where
  "from_default data e = \<lparr> rr_data = Some data, rr_source = SRC_DEFAULT, rr_primary_error = Some e, rr_degraded = True \<rparr>"

definition unavailable :: "integration_error \<Rightarrow> 'a resilient_result" where
  "unavailable e = \<lparr> rr_data = None, rr_source = SRC_NONE, rr_primary_error = Some e, rr_degraded = True \<rparr>"

text \<open>An exception that is not an \<open>IntegrationError\<close> is not caught.\<close>

datatype op_exn = Integration_Failure integration_error | Unexpected exn

definition with_fallback ::
  "('w \<Rightarrow> (op_exn + 'a option) \<times> 'w) \<Rightarrow> (string \<Rightarrow> dict \<Rightarrow> 'w \<Rightarrow> (exn + 'a option) \<times> 'w) option \<Rightarrow> 'a option
   \<Rightarrow> string \<Rightarrow> dict option \<Rightarrow> 'w \<Rightarrow> (exn + 'a resilient_result) \<times> 'w" where
  "with_fallback primary fallback dflt op context w =
     (let ctx = or_list context []
      in (case primary w of
            (Inr data, w1) \<Rightarrow> (Inr (from_primary data), w1)
          | (Inl (Unexpected exc), w1) \<Rightarrow> (Inl exc, w1)
          | (Inl (Integration_Failure e), w1) \<Rightarrow>
              if \<not> is_retryable_integration_error e then (Inr (unavailable e), w1)
              else
                let try_default = (\<lambda>w2. case dflt of
                      Some d \<Rightarrow> (Inr (from_default d e), w2) | None \<Rightarrow> (Inr (unavailable e), w2))
                in (case fallback of
                      None \<Rightarrow> try_default w1
                    | Some get_fallback \<Rightarrow>
                        (case get_fallback op ctx w1 of
                           (Inr (Some data), w2) \<Rightarrow> (Inr (from_fallback data e), w2)
                         | (Inr None, w2) \<Rightarrow> try_default w2
                         | (Inl exc, w2) \<Rightarrow> try_default w2))))"

section \<open>Partial failure\<close>

record partial_failure_policy =
  pf_max_failure_ratio :: rat
  pf_fail_fast_on_auth :: bool
  pf_fail_fast_on_config :: bool
  pf_collect_errors :: bool

definition default_partial_failure_policy :: partial_failure_policy where
  "default_partial_failure_policy = \<lparr> pf_max_failure_ratio = 1 / 2, pf_fail_fast_on_auth = True,
     pf_fail_fast_on_config = True, pf_collect_errors = True \<rparr>"

definition partial_failure_policy_post_init :: "partial_failure_policy \<Rightarrow> string + partial_failure_policy" where
  "partial_failure_policy_post_init p =
     (if \<not> (0 \<le> pf_max_failure_ratio p \<and> pf_max_failure_ratio p \<le> 1)
      then Inl ''max_failure_ratio must be 0.0-1.0'' else Inr p)"

datatype partial_failure_outcome = ALL_SUCCEEDED | PARTIAL_SUCCESS | ALL_FAILED | ABORTED

record ('i, 'a) partial_failure_result =
  pf_outcome :: partial_failure_outcome
  pf_succeeded :: "'a list"
  pf_failed :: "('i \<times> integration_error) list"
  pf_aborted_at :: "nat option"
  pf_total :: nat

definition failure_ratio :: "('i, 'a) partial_failure_result \<Rightarrow> rat" where
  "failure_ratio r = (if pf_total r = 0 then 0 else of_nat (length (pf_failed r)) / of_nat (pf_total r))"

definition retryable_failures :: "('i, 'a) partial_failure_result \<Rightarrow> ('i \<times> integration_error) list" where
  "retryable_failures r = filter (\<lambda>ie. is_retryable_integration_error (snd ie)) (pf_failed r)"

definition is_auth_error :: "integration_error \<Rightarrow> bool" where
  "is_auth_error e \<longleftrightarrow> ie_class e \<in> {IntegrationAuthError, IntegrationCredentialError}"

definition is_config_error :: "integration_error \<Rightarrow> bool" where
  "is_config_error e \<longleftrightarrow> ie_class e \<in> {IntegrationConfigError, IntegrationValidationError, IntegrationModeError}"

text \<open>Whether the loop stops after a failure at index idx, n failures counted with it.\<close>

definition stops_after :: "partial_failure_policy \<Rightarrow> nat \<Rightarrow> nat \<Rightarrow> integration_error \<Rightarrow> bool" where
  "stops_after pol idx n err =
     (if pf_fail_fast_on_auth pol \<and> is_auth_error err then True
      else if pf_fail_fast_on_config pol \<and> is_config_error err then True
      else if (of_nat n / of_nat (idx + 1) :: rat) > pf_max_failure_ratio pol then True
      else \<not> pf_collect_errors pol)"

fun partial_loop ::
  "partial_failure_policy \<Rightarrow> ('i \<Rightarrow> 'w \<Rightarrow> (op_exn + 'a) \<times> 'w) \<Rightarrow> nat \<Rightarrow> 'i list \<Rightarrow> 'a list \<Rightarrow> ('i \<times> integration_error) list \<Rightarrow> 'w
   \<Rightarrow> (exn + 'a list \<times> ('i \<times> integration_error) list \<times> nat option) \<times> 'w" where
  "partial_loop pol op idx [] ok bad w = (Inr (ok, bad, None), w)"
| "partial_loop pol op idx (item # items) ok bad w =
     (case op item w of
        (Inr r, w1) \<Rightarrow> partial_loop pol op (Suc idx) items (ok @ [r]) bad w1
      | (Inl (Unexpected exc), w1) \<Rightarrow> (Inl exc, w1)
      | (Inl (Integration_Failure err), w1) \<Rightarrow>
          let bad' = bad @ [(item, err)]
          in if stops_after pol idx (length bad') err then (Inr (ok, bad', Some idx), w1)
             else partial_loop pol op (Suc idx) items ok bad' w1)"

definition execute_with_partial_failure ::
  "'i list \<Rightarrow> ('i \<Rightarrow> 'w \<Rightarrow> (op_exn + 'a) \<times> 'w) \<Rightarrow> partial_failure_policy option \<Rightarrow> 'w
   \<Rightarrow> (exn + ('i, 'a) partial_failure_result) \<times> 'w" where
  "execute_with_partial_failure items op policy w =
     (let pol = (case policy of None \<Rightarrow> default_partial_failure_policy | Some p \<Rightarrow> p)
      in (case partial_loop pol op 0 items [] [] w of
            (Inl exc, w1) \<Rightarrow> (Inl exc, w1)
          | (Inr (succeeded, failed, aborted_at), w1) \<Rightarrow>
              (Inr \<lparr> pf_outcome = (if aborted_at \<noteq> None then ABORTED
                                  else if length failed = 0 then ALL_SUCCEEDED
                                  else if length succeeded = 0 then ALL_FAILED
                                  else PARTIAL_SUCCESS),
                     pf_succeeded = succeeded, pf_failed = failed, pf_aborted_at = aborted_at,
                     pf_total = length items \<rparr>, w1)))"

section \<open>Compensating actions\<close>

record compensating_action_result =
  ar_success :: bool
  ar_action_description :: string
  ar_detail :: "string option"
  ar_exn :: "exn option"

record 'w compensating_action =
  ca_description :: string
  ca_can_compensate :: "'w \<Rightarrow> (exn + bool) \<times> 'w"
  ca_execute :: "'w \<Rightarrow> (exn + compensating_action_result) \<times> 'w"

text \<open>One iteration of the two loops, which differ in the texts of their details.\<close>

definition attempt_compensation ::
  "string \<Rightarrow> string \<Rightarrow> 'w compensating_action \<Rightarrow> 'w \<Rightarrow> compensating_action_result \<times> 'w" where
  "attempt_compensation cannot_text error_prefix action w =
     (let caught = (\<lambda>exc. \<lparr> ar_success = False, ar_action_description = ca_description action,
                            ar_detail = Some (error_prefix @ exn_message exc), ar_exn = Some exc \<rparr>)
      in (case ca_can_compensate action w of
            (Inl exc, w1) \<Rightarrow> (caught exc, w1)
          | (Inr can, w1) \<Rightarrow>
              if \<not> can
              then (\<lparr> ar_success = False, ar_action_description = ca_description action,
                      ar_detail = Some cannot_text, ar_exn = None \<rparr>, w1)
              else (case ca_execute action w1 of
                      (Inl exc, w2) \<Rightarrow> (caught exc, w2)
                    | (Inr r, w2) \<Rightarrow> (r, w2))))"

fun compensation_loop ::
  "string \<Rightarrow> string \<Rightarrow> 'w compensating_action list \<Rightarrow> 'w \<Rightarrow> compensating_action_result list \<times> 'w" where
  "compensation_loop ct ep [] w = ([], w)"
| "compensation_loop ct ep (a # acts) w =
     (case attempt_compensation ct ep a w of (r, w1) \<Rightarrow>
       (case compensation_loop ct ep acts w1 of (rs, w2) \<Rightarrow> (r # rs, w2)))"

definition register_action :: "'w compensating_action \<Rightarrow> 'w compensating_action list \<Rightarrow> 'w compensating_action list" where
  "register_action action acts = acts @ [action]"

definition compensate_all :: "'w compensating_action list \<Rightarrow> 'w \<Rightarrow> compensating_action_result list \<times> 'w" where
  "compensate_all acts w = compensation_loop ''action cannot compensate'' ''unexpected error: '' (rev acts) w"

text \<open>Leaving the context manager runs nothing.\<close>

definition aexit_context :: "'w compensating_action list \<Rightarrow> op_exn option \<Rightarrow> 'w \<Rightarrow> 'w" where
  "aexit_context acts exc w = w"

interpretation context_undo: reverse_undo
  "attempt_compensation ''action cannot compensate'' ''unexpected error: ''" compensate_all
  by unfold_locales (simp_all add: compensate_all_def)

record compensation_outcome =
  co_completed_steps :: nat
  co_total_steps :: nat
  co_success :: bool
  co_failure_error :: "integration_error option"
  co_compensation_results :: "compensating_action_result list"

fun run_steps ::
  "string \<Rightarrow> string \<Rightarrow> ('w \<Rightarrow> op_exn option \<times> 'w) list \<Rightarrow> nat \<Rightarrow> 'w \<Rightarrow> nat \<times> integration_error option \<times> 'w" where
  "run_steps provider op [] completed w = (completed, None, w)"
| "run_steps provider op (step # steps) completed w =
     (case step w of
        (None, w1) \<Rightarrow> run_steps provider op steps (Suc completed) w1
      | (Some (Integration_Failure err), w1) \<Rightarrow> (completed, Some err, w1)
      | (Some (Unexpected exc), w1) \<Rightarrow>
          (completed, Some \<lparr> ie_class = IntegrationError, ie_message = exn_message exc, ie_provider_name = provider,
             ie_operation = op, ie_detail = None, ie_cause = Caused_By exc, ie_retry_after_seconds = None \<rparr>, w1))"

text \<open>The loop \<open>for idx in range(completed - 1, -1, -1)\<close> over the compensations.\<close>

definition undo_completed :: "'w compensating_action list \<Rightarrow> 'w \<Rightarrow> compensating_action_result list \<times> 'w" where
  "undo_completed acts w = compensation_loop ''cannot compensate'' ''error: '' (rev acts) w"

interpretation steps_undo: reverse_undo "attempt_compensation ''cannot compensate'' ''error: ''" undo_completed
  by unfold_locales (simp_all add: undo_completed_def)

definition with_compensation ::
  "('w \<Rightarrow> op_exn option \<times> 'w) list \<Rightarrow> 'w compensating_action list \<Rightarrow> string \<Rightarrow> string \<Rightarrow> 'w
   \<Rightarrow> (string + compensation_outcome) \<times> 'w" where
  "with_compensation steps compensations provider op w =
     (if length steps \<noteq> length compensations
      then (Inl ''steps and compensations must have the same length'', w)
      else (case run_steps provider op steps 0 w of
              (completed, failure_error, w1) \<Rightarrow>
                (case (if failure_error \<noteq> None then undo_completed (take completed compensations) w1 else ([], w1)) of
                   (results, w2) \<Rightarrow>
                     (Inr \<lparr> co_completed_steps = completed, co_total_steps = length steps,
                            co_success = (failure_error = None), co_failure_error = failure_error,
                            co_compensation_results = rev results \<rparr>, w2))))"

section \<open>Deferred retries\<close>

record deferred_retry_request =
  dr_provider_name :: string
  dr_operation :: string
  dr_payload :: dict
  dr_error_category :: string
  dr_attempt :: int
  dr_max_attempts :: int
  dr_backoff_policy :: string
  dr_correlation_id :: "string option"

definition next_attempt :: "deferred_retry_request \<Rightarrow> int" where
  "next_attempt r = dr_attempt r + 1"

definition has_attempts_remaining :: "deferred_retry_request \<Rightarrow> bool" where
  "has_attempts_remaining r \<longleftrightarrow> next_attempt r < dr_max_attempts r"

definition should_defer_retry :: "integration_error \<Rightarrow> int \<Rightarrow> int \<Rightarrow> bool" where
  "should_defer_retry e current_attempt max_attempts =
     (if \<not> is_retryable_integration_error e then False
      else if current_attempt + 1 \<ge> max_attempts then False else True)"

definition classify_error_for_deferred_retry :: "integration_error \<Rightarrow> string" where
  "classify_error_for_deferred_retry e =
     (case ie_class e of
        IntegrationTimeoutError \<Rightarrow> ''timeout''
      | IntegrationConnectionError \<Rightarrow> ''connection''
      | IntegrationServerError \<Rightarrow> ''server_error''
      | IntegrationRateLimitError \<Rightarrow> ''rate_limited''
      | IntegrationUnavailableError \<Rightarrow> ''unavailable''
      | _ \<Rightarrow> ''unknown'')"

definition build_deferred_retry_request ::
  "string \<Rightarrow> string \<Rightarrow> dict \<Rightarrow> integration_error \<Rightarrow> int \<Rightarrow> int \<Rightarrow> string \<Rightarrow> string option \<Rightarrow> deferred_retry_request" where
  "build_deferred_retry_request provider op payload e attempt max_attempts backoff_name correlation_id =
     \<lparr> dr_provider_name = provider, dr_operation = op, dr_payload = payload,
       dr_error_category = classify_error_for_deferred_retry e, dr_attempt = attempt,
       dr_max_attempts = max_attempts, dr_backoff_policy = backoff_name, dr_correlation_id = correlation_id \<rparr>"

section \<open>Lemmas\<close>

text \<open>The outcomes of the items that the bulk loop has processed, in order.\<close>

fun item_results :: "('i \<Rightarrow> 'w \<Rightarrow> (op_exn + 'a) \<times> 'w) \<Rightarrow> 'i list \<Rightarrow> 'w \<Rightarrow> (op_exn + 'a) list" where
  "item_results op [] w = []"
| "item_results op (i # items) w = (case op i w of (r, w1) \<Rightarrow> r # item_results op items w1)"

definition successes :: "(op_exn + 'a) list \<Rightarrow> 'a list" where
  "successes rs = List.map_filter (\<lambda>r. case r of Inr a \<Rightarrow> Some a | Inl _ \<Rightarrow> None) rs"

definition failures :: "'i list \<Rightarrow> (op_exn + 'a) list \<Rightarrow> ('i \<times> integration_error) list" where
  "failures items rs = List.map_filter (\<lambda>(i, r). case r of Inl (Integration_Failure e) \<Rightarrow> Some (i, e) | _ \<Rightarrow> None) (zip items rs)"

lemma results_Nil [simp]: "successes [] = []" "failures [] [] = []" "failures is [] = []" "failures [] rs = []"
  by (simp_all add: successes_def failures_def)

lemma results_Cons [simp]:
  "successes (Inr a # rs) = a # successes rs" "successes (Inl x # rs) = successes rs"
  "failures (i # items) (Inr a # rs) = failures items rs"
  "failures (i # items) (Inl (Integration_Failure e) # rs) = (i, e) # failures items rs"
  by (simp_all add: successes_def failures_def)

lemma item_results_length [simp]: "length (item_results op items w) = length items"
  by (induction items arbitrary: w) (auto split: prod.split)

lemma partial_loop_spec:
  assumes "partial_loop pol op idx items ok bad w = (Inr (ok', bad', ab), w')"
  shows "\<exists>n \<le> length items. let rs = item_results op (take n items) w in
    ok' = ok @ successes rs \<and> bad' = bad @ failures (take n items) rs \<and>
    n = length (successes rs) + length (failures (take n items) rs) \<and>
    (case ab of None \<Rightarrow> n = length items | Some k \<Rightarrow> n = Suc (k - idx) \<and> idx \<le> k \<and>
       bad' \<noteq> [] \<and> stops_after pol k (length bad') (snd (last bad')))"
  using assms
proof (induction items arbitrary: idx ok bad w)
  case (Cons item items)
  obtain r w1 where r: "op item w = (r, w1)" by force
  show ?case
  proof (cases r)
    case (Inr a)
    with Cons.prems r have "partial_loop pol op (Suc idx) items (ok @ [a]) bad w1 = (Inr (ok', bad', ab), w')" by simp
    from Cons.IH[OF this] r Inr show ?thesis
      by (elim exE conjE) (rule_tac x = "Suc n" in exI, auto simp: Let_def split: option.splits)
  next
    case (Inl x)
    show ?thesis
    proof (cases x)
      case (Unexpected exc)
      with Cons.prems r Inl show ?thesis by simp
    next
      case (Integration_Failure err)
      let ?b = "bad @ [(item, err)]"
      show ?thesis
      proof (cases "stops_after pol idx (length ?b) err")
        case True
        with Cons.prems r Inl Integration_Failure show ?thesis by (intro exI[of _ 1]) (auto simp: Let_def)
      next
        case False
        with Cons.prems r Inl Integration_Failure
        have "partial_loop pol op (Suc idx) items ok ?b w1 = (Inr (ok', bad', ab), w')" by (simp add: Let_def)
        from Cons.IH[OF this] r Inl Integration_Failure show ?thesis
          by (elim exE conjE) (rule_tac x = "Suc n" in exI, auto simp: Let_def split: option.splits)
      qed
    qed
  qed
qed simp

lemma run_steps_spec:
  assumes "run_steps provider op steps k w = (completed, err, w')"
  shows "k \<le> completed \<and> completed \<le> k + length steps \<and> (err = None \<longleftrightarrow> completed = k + length steps)"
  using assms
  by (induction provider op steps k w rule: run_steps.induct)
    (force split: prod.splits option.splits op_exn.splits)+

end
