(* ===== verification/Resilience_Theorems.thy ===== *)
theory Resilience_Theorems
  imports Resilience
begin

text \<open>The properties of the resilience helpers.\<close>

text \<open>A bulk operation accounts for every item it has processed.  It processes a
  prefix of the items in order, each exactly once; the results of the successful
  ones and the failed items with their errors are exactly those of the prefix, in
  order.  Without an abort the prefix is everything and the outcome tells whether
  all, some or none succeeded; with an abort at index k the prefix ends there, and the
  item at k failed with an error that the policy stops at.\<close>

theorem bulk_accounts_for_items:
  assumes "execute_with_partial_failure items op (Some pol) w = (Inr res, w')"
  shows "\<exists>n rs. n \<le> length items \<and> rs = item_results op (take n items) w \<and>
    pf_succeeded res = successes rs \<and> pf_failed res = failures (take n items) rs \<and>
    length (pf_succeeded res) + length (pf_failed res) = n \<and> pf_total res = length items \<and>
    (case pf_aborted_at res of
       None \<Rightarrow> n = length items \<and> pf_outcome res \<noteq> ABORTED \<and>
         (pf_outcome res = ALL_SUCCEEDED) = (pf_failed res = []) \<and>
         (pf_outcome res = ALL_FAILED) = (pf_succeeded res = [] \<and> items \<noteq> [])
     | Some k \<Rightarrow> n = Suc k \<and> pf_outcome res = ABORTED \<and> pf_failed res \<noteq> [] \<and>
         stops_after pol k (length (pf_failed res)) (snd (last (pf_failed res))))"
proof -
  obtain ok bad ab where loop: "partial_loop pol op 0 items [] [] w = (Inr (ok, bad, ab), w')"
    and res: "pf_succeeded res = ok" "pf_failed res = bad" "pf_aborted_at res = ab" "pf_total res = length items"
      "pf_outcome res = (if ab \<noteq> None then ABORTED else if length bad = 0 then ALL_SUCCEEDED
        else if length ok = 0 then ALL_FAILED else PARTIAL_SUCCESS)"
    using assms by (auto simp: execute_with_partial_failure_def split: prod.splits sum.splits)
  from partial_loop_spec[OF loop] obtain n where n: "n \<le> length items"
    "ok = successes (item_results op (take n items) w)"
    "bad = failures (take n items) (item_results op (take n items) w)"
    "n = length (successes (item_results op (take n items) w)) + length (failures (take n items) (item_results op (take n items) w))"
    "case ab of None \<Rightarrow> n = length items | Some k \<Rightarrow> n = Suc (k - 0) \<and> 0 \<le> k \<and> bad \<noteq> [] \<and> stops_after pol k (length bad) (snd (last bad))"
    unfolding Let_def append_Nil by blast
  have len: "n = length ok + length bad" unfolding n(2,3) by (rule n(4))
  have "case ab of
       None \<Rightarrow> n = length items \<and> pf_outcome res \<noteq> ABORTED \<and>
         (pf_outcome res = ALL_SUCCEEDED) = (bad = []) \<and> (pf_outcome res = ALL_FAILED) = (ok = [] \<and> items \<noteq> [])
     | Some k \<Rightarrow> n = Suc k \<and> pf_outcome res = ABORTED \<and> bad \<noteq> [] \<and> stops_after pol k (length bad) (snd (last bad))"
  proof (cases ab)
    case None
    have n_all: "n = length items" using n(5) unfolding None option.case .
    have "items = [] \<longleftrightarrow> ok = [] \<and> bad = []" using len unfolding n_all by (metis add_is_0 length_0_conv)
    with n_all res(5) show ?thesis unfolding None option.case by auto
  next
    case (Some k)
    show ?thesis using n(5) res(5) unfolding Some option.case by simp
  qed
  then show ?thesis
    using n(1-3) len unfolding res(1-4)[symmetric] by metis
qed

definition demo_err :: "integration_error_class \<Rightarrow> integration_error" where
  "demo_err c = \<lparr> ie_class = c, ie_message = ''no'', ie_provider_name = ''stripe'', ie_operation = ''create'',
     ie_detail = None, ie_cause = No_Cause, ie_retry_after_seconds = None \<rparr>"

definition demo_op :: "int \<Rightarrow> int list \<Rightarrow> (op_exn + int) \<times> int list" where
  "demo_op i w = (if i < 0 then Inl (Integration_Failure (demo_err IntegrationTimeoutError)) else Inr (2 * i), w @ [i])"

definition bulk_of :: "int list \<Rightarrow> (int, int) partial_failure_result" where
  "bulk_of items = (case fst (execute_with_partial_failure items demo_op (Some default_partial_failure_policy) []) of
     Inr r \<Rightarrow> r | Inl _ \<Rightarrow> \<lparr> pf_outcome = ABORTED, pf_succeeded = [], pf_failed = [], pf_aborted_at = None, pf_total = 0 \<rparr>)"

theorem bulk_accounts_for_items_witness:
  "pf_outcome (bulk_of [1, 2, -1, 3]) = PARTIAL_SUCCESS \<and> pf_succeeded (bulk_of [1, 2, -1, 3]) = [2, 4, 6] \<and>
   length (pf_succeeded (bulk_of [1, 2, -1, 3])) + length (pf_failed (bulk_of [1, 2, -1, 3])) = 4"
proof -
  let ?b = "execute_with_partial_failure [1, 2, -1, 3] demo_op (Some default_partial_failure_policy) []"
  have v: "pf_outcome (bulk_of [1, 2, -1, 3]) = PARTIAL_SUCCESS" "pf_succeeded (bulk_of [1, 2, -1, 3]) = [2, 4, 6]"
    "pf_aborted_at (bulk_of [1, 2, -1, 3]) = None" and ok: "is_ok (fst ?b)"
    by code_simp+
  have r: "?b = (Inr (bulk_of [1, 2, -1, 3]), snd ?b)"
    using ok by (cases ?b; cases "fst ?b") (simp_all add: bulk_of_def)
  from bulk_accounts_for_items[OF r] obtain n where
    "length (pf_succeeded (bulk_of [1, 2, -1, 3])) + length (pf_failed (bulk_of [1, 2, -1, 3])) = n" "n = length [1::int, 2, -1, 3]"
    unfolding v(3) option.case by blast
  with v(1,2) show ?thesis by simp
qed

text \<open>The failure ratio is a running one.  Under any policy whose maximum is below 1
  a bulk operation whose first item fails is aborted at that item, however many
  items follow and however often they would succeed; nothing else is processed.\<close>

theorem first_failure_aborts:
  assumes "pf_max_failure_ratio pol < 1" "op i w = (Inl (Integration_Failure err), w')"
  shows "execute_with_partial_failure (i # items) op (Some pol) w =
    (Inr \<lparr> pf_outcome = ABORTED, pf_succeeded = [], pf_failed = [(i, err)], pf_aborted_at = Some 0,
           pf_total = Suc (length items) \<rparr>, w')"
  using assms by (simp add: execute_with_partial_failure_def stops_after_def Let_def)

theorem first_failure_aborts_witness:
  "\<exists>res. execute_with_partial_failure (-1 # map int [0..<1000]) demo_op (Some default_partial_failure_policy) [] =
     (Inr res, [-1]) \<and> pf_outcome res = ABORTED"
proof -
  have p: "pf_max_failure_ratio default_partial_failure_policy < 1"
    "demo_op (-1) [] = (Inl (Integration_Failure (demo_err IntegrationTimeoutError)), [-1])"
    by (simp_all add: default_partial_failure_policy_def demo_op_def)
  show ?thesis using first_failure_aborts[where op = demo_op, OF p, of "map int [0..<1000]"] by simp
qed


definition demo_action :: "string \<Rightarrow> bool \<Rightarrow> string list compensating_action" where
  "demo_action nm fails = \<lparr> ca_description = nm, ca_can_compensate = (\<lambda>w. (Inr True, w)),
     ca_execute = (\<lambda>w. (if fails then Inl \<lparr> exn_message = ''x'', exn_code = None \<rparr>
       else Inr \<lparr> ar_success = True, ar_action_description = nm, ar_detail = None, ar_exn = None \<rparr>, w @ [nm])) \<rparr>"


text \<open>The compensations registered in a \<open>CompensationContext\<close> run only when
  \<open>compensate_all\<close> is called: then each registered action is attempted once, the
  latest first, and yields one result.  Leaving the context does nothing, also when the
  block has raised, although the class documents the opposite.\<close>

theorem context_exit_compensates_nothing:
  "aexit_context acts exc w = w \<and>
   length (fst (compensate_all acts w)) = length acts \<and>
   snd (compensate_all (register_action a acts) w) =
     snd (compensate_all acts (snd (attempt_compensation ''action cannot compensate'' ''unexpected error: '' a w))) \<and>
   map ar_action_description (fst (compensate_all (map (\<lambda>nm. demo_action nm False) names) v)) = rev names"
proof -
  have "map ar_action_description (fst (compensate_all (map (\<lambda>nm. demo_action nm False) names) v)) = rev names" for v
    by (induction names arbitrary: v rule: rev_induct)
      (simp_all add: context_undo.undo_none context_undo.undo_latest case_prod_beta attempt_compensation_def demo_action_def)
  then show ?thesis
    by (simp add: aexit_context_def register_action_def context_undo.undo_all_length context_undo.undo_latest case_prod_beta)
qed

text \<open>Fallback data is used only for retryable failures.  The result says where its
  data comes from: the primary call when it succeeds; for a retryable integration error
  the fallback provider if it has data, else the default, else nothing; for any other
  integration error nothing, without asking the fallback; and the fallback's own
  exceptions are never raised.  Every result that is not the primary's is marked as
  degraded and carries the primary's error.\<close>

theorem fallback_only_when_retryable:
  "case primary w of
     (Inr data, w1) \<Rightarrow> with_fallback primary fallback dflt op context w = (Inr (from_primary data), w1)
   | (Inl (Unexpected exc), w1) \<Rightarrow> with_fallback primary fallback dflt op context w = (Inl exc, w1)
   | (Inl (Integration_Failure e), w1) \<Rightarrow>
       (case with_fallback primary fallback dflt op context w of
          (Inl _, _) \<Rightarrow> False
        | (Inr res, w2) \<Rightarrow>
            rr_degraded res \<and> rr_primary_error res = Some e \<and> rr_source res \<noteq> SRC_PRIMARY \<and>
            (rr_available res = (rr_source res \<noteq> SRC_NONE)) \<and>
            (if is_retryable_integration_error e
             then (case rr_source res of SRC_FALLBACK \<Rightarrow> fallback \<noteq> None | SRC_DEFAULT \<Rightarrow> rr_data res = dflt | _ \<Rightarrow> dflt = None)
             else rr_source res = SRC_NONE \<and> w2 = w1))"
  by (auto simp: with_fallback_def from_fallback_def from_default_def unavailable_def rr_available_def Let_def
      split: prod.split sum.split op_exn.split option.split)

text \<open>The chain of attempts that deferred retries make: each failure with a retryable
  error is enqueued again with the next attempt number.\<close>

fun attempts_made :: "nat \<Rightarrow> integration_error \<Rightarrow> deferred_retry_request \<Rightarrow> nat" where
  "attempts_made 0 e r = 0"
| "attempts_made (Suc fuel) e r =
     (if should_defer_retry e (dr_attempt r) (dr_max_attempts r)
      then Suc (attempts_made fuel e (r\<lparr> dr_attempt := next_attempt r \<rparr>)) else 1)"

text \<open>Deferred retries are bounded: an operation that keeps failing with a retryable
  error is attempted exactly \<open>max_attempts\<close> times in all, and one that fails with an
  authentication, not-found, validation or configuration error once; deferring and
  the request's own \<open>has_attempts_remaining\<close> agree on every attempt.\<close>

theorem deferred_retries_are_bounded:
  assumes "r = build_deferred_retry_request provider op payload e 0 (int n) bp cid" "0 < n" "n \<le> fuel"
  shows "attempts_made fuel e r = (if is_retryable_integration_error e then n else 1) \<and>
    should_defer_retry e (dr_attempt r) (dr_max_attempts r) = (is_retryable_integration_error e \<and> has_attempts_remaining r)"
proof -
  have "attempts_made fuel e r = (if is_retryable_integration_error e then nat (dr_max_attempts r - dr_attempt r) else 1)"
    if "dr_attempt r < dr_max_attempts r" "nat (dr_max_attempts r - dr_attempt r) \<le> fuel" for fuel and r :: deferred_retry_request
    using that
    by (induction fuel e r rule: attempts_made.induct) (auto simp: should_defer_retry_def next_attempt_def)
  from this[of r fuel] assms show ?thesis
    by (auto simp: build_deferred_retry_request_def should_defer_retry_def has_attempts_remaining_def next_attempt_def)
qed

theorem deferred_retries_are_bounded_witness:
  "attempts_made 9 (demo_err IntegrationTimeoutError)
     (build_deferred_retry_request ''stripe'' ''charge'' [] (demo_err IntegrationTimeoutError) 0 (int 5) ''standard'' None) = 5"
  using deferred_retries_are_bounded[OF refl, of 5 9 "demo_err IntegrationTimeoutError" "''stripe''" "''charge''" "[]" "''standard''" None]
  by (simp add: is_retryable_integration_error_def demo_err_def)

end
