(* ===== verification/Workflow_Model.thy ===== *)
theory Workflow_Model
  imports Retry
begin

text \<open>
  The data of core/worker/workflow.py and core/db/workflow_execution.py: step
  results and per-step states, the execution row, the context a step sees, steps
  and definitions with their look-ups.

  \<open>'w\<close> is the world outside the program that steps act on.  A step is a function
  from the context object and the world to its result or the exception it
  raises, the context object as it leaves it, and the new world.  The
  dictionary \<open>execution_context\<close> is a record with one field for each key the
  runner owns (\<open>None\<close>: the key is absent) and the association list of all others.
\<close>

section \<open>Status values\<close>

datatype step_status = SS_SUCCEEDED | SS_FAILED | SS_WAITING | SS_SKIPPED

datatype execution_status =
  WE_PENDING | WE_RUNNING | WE_WAITING | WE_SUCCEEDED | WE_FAILED | WE_CANCELED

fun execution_status_value :: "execution_status \<Rightarrow> string" where
  "execution_status_value WE_PENDING = ''pending''"
| "execution_status_value WE_RUNNING = ''running''"
| "execution_status_value WE_WAITING = ''waiting''"
| "execution_status_value WE_SUCCEEDED = ''succeeded''"
| "execution_status_value WE_FAILED = ''failed''"
| "execution_status_value WE_CANCELED = ''canceled''"

section \<open>Step states\<close>

text \<open>A \<open>TypedDict(total=False)\<close>: the outer option tells whether the key is present.
  Dates are kept as the instants that their ISO strings denote.\<close>

record step_state =
  ss_status :: "step_status option"
  ss_started_at :: "instant option"
  ss_completed_at :: "instant option option"
  ss_attempt_count :: "int option"
  ss_output :: "dict option option"
  ss_error_message :: "string option option"
  ss_error_code :: "string option option"
  ss_wait_until :: "instant option option"

definition empty_step_state :: step_state where
  "empty_step_state = \<lparr> ss_status = None, ss_started_at = None, ss_completed_at = None,
     ss_attempt_count = None, ss_output = None, ss_error_message = None, ss_error_code = None,
     ss_wait_until = None \<rparr>"

definition prefer_new :: "'a option \<Rightarrow> 'a option \<Rightarrow> 'a option" where
  "prefer_new new old = (case new of None \<Rightarrow> old | Some v \<Rightarrow> Some v)"

lemma prefer_new_simps [simp]: "prefer_new None x = x" "prefer_new (Some v) x = Some v"
  by (simp_all add: prefer_new_def)

text \<open>\<open>old.update(new)\<close>\<close>

definition merge_step_state :: "step_state \<Rightarrow> step_state \<Rightarrow> step_state" where
  "merge_step_state old new = \<lparr>
     ss_status = prefer_new (ss_status new) (ss_status old),
     ss_started_at = prefer_new (ss_started_at new) (ss_started_at old),
     ss_completed_at = prefer_new (ss_completed_at new) (ss_completed_at old),
     ss_attempt_count = prefer_new (ss_attempt_count new) (ss_attempt_count old),
     ss_output = prefer_new (ss_output new) (ss_output old),
     ss_error_message = prefer_new (ss_error_message new) (ss_error_message old),
     ss_error_code = prefer_new (ss_error_code new) (ss_error_code old),
     ss_wait_until = prefer_new (ss_wait_until new) (ss_wait_until old) \<rparr>"

lemma merge_step_state_sel [simp]:
  "ss_status (merge_step_state old new) = prefer_new (ss_status new) (ss_status old)"
  "ss_started_at (merge_step_state old new) = prefer_new (ss_started_at new) (ss_started_at old)"
  "ss_completed_at (merge_step_state old new) = prefer_new (ss_completed_at new) (ss_completed_at old)"
  "ss_attempt_count (merge_step_state old new) = prefer_new (ss_attempt_count new) (ss_attempt_count old)"
  "ss_output (merge_step_state old new) = prefer_new (ss_output new) (ss_output old)"
  "ss_error_message (merge_step_state old new) = prefer_new (ss_error_message new) (ss_error_message old)"
  "ss_error_code (merge_step_state old new) = prefer_new (ss_error_code new) (ss_error_code old)"
  "ss_wait_until (merge_step_state old new) = prefer_new (ss_wait_until new) (ss_wait_until old)"
  by (simp_all add: merge_step_state_def)

lemma empty_step_state_sel [simp]:
  "ss_status empty_step_state = None" "ss_started_at empty_step_state = None"
  "ss_completed_at empty_step_state = None" "ss_attempt_count empty_step_state = None"
  "ss_output empty_step_state = None" "ss_error_message empty_step_state = None"
  "ss_error_code empty_step_state = None" "ss_wait_until empty_step_state = None"
  by (simp_all add: empty_step_state_def)

section \<open>Retry policy and result of a step\<close>

record step_retry_policy =
  rp_max_attempts :: int
  rp_backoff :: "backoff_policy option"

definition step_retry_policy_post_init :: "step_retry_policy \<Rightarrow> string + step_retry_policy" where
  "step_retry_policy_post_init p =
     (if rp_max_attempts p < 1 then Inl ''Step retry policy max_attempts must be at least 1'' else Inr p)"

definition default_step_retry_policy :: step_retry_policy where
  "default_step_retry_policy = \<lparr> rp_max_attempts = 3, rp_backoff = None \<rparr>"

record step_result =
  sr_status :: step_status
  sr_output :: "dict option"
  sr_error_message :: "string option"
  sr_error_code :: "string option"
  sr_wait_until :: "instant option"
  sr_next_step_override :: "string option"

text \<open>The constructor with its defaults.\<close>

definition StepResult :: "step_status \<Rightarrow> step_result" where
  "StepResult st = \<lparr> sr_status = st, sr_output = None, sr_error_message = None, sr_error_code = None,
     sr_wait_until = None, sr_next_step_override = None \<rparr>"

lemma StepResult_sel [simp]:
  "sr_status (StepResult st) = st" "sr_output (StepResult st) = None"
  "sr_error_message (StepResult st) = None" "sr_error_code (StepResult st) = None"
  "sr_wait_until (StepResult st) = None" "sr_next_step_override (StepResult st) = None"
  by (simp_all add: StepResult_def)

section \<open>The execution row\<close>

record compensation_entry =
  ce_step :: string
  ce_succeeded :: bool
  ce_error :: "string option"
  ce_timestamp :: instant

record execution_context =
  ec_step_states :: "(string \<times> step_state) list option"
  ec_completed_steps :: "string list option"
  ec_compensation_log :: "compensation_entry list option"
  ec_step_outputs :: "(string \<times> dict) list option"
  ec_shared :: dict

definition empty_context :: execution_context where
  "empty_context = \<lparr> ec_step_states = None, ec_completed_steps = None, ec_compensation_log = None,
     ec_step_outputs = None, ec_shared = [] \<rparr>"

lemma empty_context_sel [simp]:
  "ec_step_states empty_context = None" "ec_completed_steps empty_context = None"
  "ec_compensation_log empty_context = None" "ec_step_outputs empty_context = None"
  "ec_shared empty_context = []"
  by (simp_all add: empty_context_def)

text \<open>The last field is no column: it says whether the attribute \<open>execution_context\<close> has
  been assigned since the row was loaded or flushed, which is what the ORM notices; a
  change of the dictionary in place is not an assignment.\<close>

record execution =
  we_id :: int
  we_workflow_name :: string
  we_trigger_source :: string
  we_workflow_version :: "string option"
  we_status :: execution_status
  we_trigger_reference :: "string option"
  we_run_key :: "string option"
  we_correlation_id :: "string option"
  we_current_step :: "string option"
  we_attempt_count :: int
  we_max_attempts :: "int option"
  we_scheduled_at :: instant
  we_started_at :: "instant option"
  we_completed_at :: "instant option"
  we_last_transition_at :: instant
  we_input_payload :: "dict option"
  we_execution_context :: "execution_context option"
  we_output_payload :: "dict option"
  we_status_metadata :: "dict option"
  we_error_code :: "string option"
  we_error_detail :: "string option"
  we_context_assigned :: bool

section \<open>Context, steps, definitions\<close>

record workflow_context =
  wc_workflow_execution_id :: int
  wc_workflow_name :: string
  wc_current_step :: string
  wc_input_payload :: dict
  wc_step_outputs :: "(string \<times> dict) list"
  wc_execution_context :: execution_context
  wc_correlation_id :: "string option"
  wc_tenant_id :: "string option"
  wc_organization_id :: "string option"
  wc_attempt_count :: int

record 'w workflow_step =
  st_step_name :: string
  st_timeout_seconds :: "rat option"
  st_retry_policy :: "step_retry_policy option"
  st_execute :: "workflow_context \<Rightarrow> 'w \<Rightarrow> (exn + step_result) \<times> workflow_context \<times> 'w"
  st_compensate :: "(workflow_context \<Rightarrow> 'w \<Rightarrow> exn option \<times> workflow_context \<times> 'w) option"

text \<open>\<open>isinstance(step, CompensatingStep)\<close>: the protocol asks for a \<open>compensate\<close> method.\<close>

definition is_compensating :: "'w workflow_step \<Rightarrow> bool" where
  "is_compensating s \<longleftrightarrow> st_compensate s \<noteq> None"

record 'w workflow_definition =
  wd_name :: string
  wd_steps :: "'w workflow_step list"
  wd_version :: string
  wd_max_attempts :: int

definition get_step :: "'w workflow_definition \<Rightarrow> string \<Rightarrow> 'w workflow_step option" where
  "get_step d nm = List.find (\<lambda>s. st_step_name s = nm) (wd_steps d)"

fun index_from :: "nat \<Rightarrow> 'w workflow_step list \<Rightarrow> string \<Rightarrow> nat option" where
  "index_from i [] nm = None"
| "index_from i (s # ss) nm = (if st_step_name s = nm then Some i else index_from (Suc i) ss nm)"

definition get_step_index :: "'w workflow_definition \<Rightarrow> string \<Rightarrow> nat option" where
  "get_step_index d nm = index_from 0 (wd_steps d) nm"

definition get_next_step :: "'w workflow_definition \<Rightarrow> string \<Rightarrow> 'w workflow_step option" where
  "get_next_step d current =
     (case get_step_index d current of
        None \<Rightarrow> None
      | Some idx \<Rightarrow>
          if int idx \<ge> int (length (wd_steps d)) - 1 then None else Some (wd_steps d ! (idx + 1)))"

text \<open>\<open>for i in range(idx, -1, -1)\<close>: the indices idx, ..., 0.\<close>

fun collect_down :: "'w workflow_step list \<Rightarrow> nat \<Rightarrow> 'w workflow_step list" where
  "collect_down steps 0 = (if is_compensating (steps ! 0) then [steps ! 0] else [])"
| "collect_down steps (Suc i) =
     (if is_compensating (steps ! Suc i) then [steps ! Suc i] else []) @ collect_down steps i"

definition get_steps_for_compensation :: "'w workflow_definition \<Rightarrow> string \<Rightarrow> 'w workflow_step list" where
  "get_steps_for_compensation d up_to =
     (case get_step_index d up_to of None \<Rightarrow> [] | Some idx \<Rightarrow> collect_down (wd_steps d) idx)"

section \<open>Look-ups\<close>

definition step_names :: "'w workflow_definition \<Rightarrow> string list" where
  "step_names d = map st_step_name (wd_steps d)"

lemma index_from_Some:
  "index_from i ss nm = Some k \<longleftrightarrow>
     (\<exists>j < length ss. k = i + j \<and> st_step_name (ss ! j) = nm \<and> (\<forall>m < j. st_step_name (ss ! m) \<noteq> nm))"
proof (induction ss arbitrary: i)
  case (Cons s ss)
  show ?case
  proof (cases "st_step_name s = nm")
    case True
    then show ?thesis by (auto intro: exI[of _ 0]) (metis gr0I nth_Cons_0)
  next
    case False
    with Cons.IH[of "Suc i"] show ?thesis
      by (simp only: length_Cons ex_less_Suc_split index_from.simps if_False)
        (simp add: all_less_Suc_split)
  qed
qed simp

lemma index_from_None: "index_from i ss nm = None \<longleftrightarrow> nm \<notin> st_step_name ` set ss"
  by (induction ss arbitrary: i) auto

lemma get_step_index_Some:
  "get_step_index d nm = Some k \<longleftrightarrow>
     k < length (wd_steps d) \<and> st_step_name (wd_steps d ! k) = nm \<and> (\<forall>m < k. st_step_name (wd_steps d ! m) \<noteq> nm)"
  by (auto simp: get_step_index_def index_from_Some)

lemma get_step_index_None: "get_step_index d nm = None \<longleftrightarrow> nm \<notin> set (step_names d)"
  by (simp add: get_step_index_def index_from_None step_names_def)

lemma get_step_Some:
  "get_step d nm = Some s \<longleftrightarrow> (\<exists>k. get_step_index d nm = Some k \<and> s = wd_steps d ! k)"
  by (auto simp: get_step_def find_Some_iff get_step_index_Some)

lemma get_step_None: "get_step d nm = None \<longleftrightarrow> nm \<notin> set (step_names d)"
  by (auto simp: get_step_def find_None_iff step_names_def)

lemma get_step_name: "get_step d nm = Some s \<Longrightarrow> st_step_name s = nm"
  by (auto simp: get_step_Some get_step_index_Some)

lemma get_step_in: "get_step d nm = Some s \<Longrightarrow> s \<in> set (wd_steps d)"
  by (auto simp: get_step_Some get_step_index_Some)

lemma get_next_step_in: "get_next_step d nm = Some s \<Longrightarrow> s \<in> set (wd_steps d)"
  by (auto simp: get_next_step_def split: option.splits if_splits)

lemma collect_down_eq:
  "i < length steps \<Longrightarrow> collect_down steps i = rev (filter is_compensating (take (Suc i) steps))"
  by (induction i) (simp_all add: take_Suc_conv_app_nth)

lemma compensation_steps:
  "get_step_index d nm = Some k \<Longrightarrow>
     get_steps_for_compensation d nm = rev (filter is_compensating (take (Suc k) (wd_steps d)))"
  by (simp add: get_steps_for_compensation_def collect_down_eq) (simp add: get_step_index_Some collect_down_eq)

lemma compensation_steps_unknown:
  "get_step_index d nm = None \<Longrightarrow> get_steps_for_compensation d nm = []"
  by (simp add: get_steps_for_compensation_def)

lemma get_step_index_nth:
  assumes "distinct (step_names d)" "i < length (wd_steps d)"
  shows "get_step_index d (st_step_name (wd_steps d ! i)) = Some i"
  using assms by (auto simp: get_step_index_Some step_names_def distinct_conv_nth)

lemma get_step_nth:
  assumes "distinct (step_names d)" "i < length (wd_steps d)"
  shows "get_step d (st_step_name (wd_steps d ! i)) = Some (wd_steps d ! i)"
  using get_step_index_nth[OF assms] by (simp add: get_step_Some)

lemma get_next_step_nth:
  assumes "distinct (step_names d)" "i < length (wd_steps d)"
  shows "get_next_step d (st_step_name (wd_steps d ! i)) =
    (if Suc i < length (wd_steps d) then Some (wd_steps d ! Suc i) else None)"
  using get_step_index_nth[OF assms] assms by (auto simp: get_next_step_def)

end
