(* ===== verification/Workflow_Runner.thy ===== *)
theory Workflow_Runner
  imports Workflow_Model
begin

text \<open>
  \<open>WorkflowRunner\<close> of core/worker/workflow.py, method by method.  An operation
  takes the definition, the execution row and the world, and returns the error it
  raises (\<open>None\<close>: it returns normally), the row as it is then, and the world.

  Aliasing.  \<open>_build_context\<close> hands a step the row's own dictionary when it is
  neither null nor empty, and a fresh one otherwise; \<open>aliases\<close> says which of the
  two it was, \<open>view\<close> is what the step sees through the context object at the time
  of the call and \<open>write_back\<close> what its mutations do to the row.  What a step
  function returns in \<open>wc_execution_context\<close> is the content, after the call, of the
  dictionary it was handed, the key \<open>step_outputs\<close> included: a step that mutates
  \<open>context.step_outputs\<close> in place returns both fields changed, one that replaces or
  deletes the key of the dictionary returns only that one changed.
\<close>

datatype workflow_error =
    No_Steps string
  | No_Current_Step
  | Step_Not_Found string
  | Cannot_Resume execution_status
  | Key_Missing string

section \<open>Context and step states\<close>

definition ctx_or_empty :: "execution_context option \<Rightarrow> execution_context" where
  "ctx_or_empty c = (case c of None \<Rightarrow> empty_context | Some x \<Rightarrow> x)"

definition build_context :: "'w workflow_definition \<Rightarrow> execution \<Rightarrow> 'w workflow_step \<Rightarrow> workflow_context" where
  "build_context d e step =
     (let execution_context = ctx_or_empty (we_execution_context e);
          step_outputs = (case ec_step_outputs execution_context of None \<Rightarrow> [] | Some so \<Rightarrow> so)
      in \<lparr> wc_workflow_execution_id = we_id e,
           wc_workflow_name = wd_name d,
           wc_current_step = st_step_name step,
           wc_input_payload = or_list (we_input_payload e) [],
           wc_step_outputs = step_outputs,
           wc_execution_context = execution_context,
           wc_correlation_id = we_correlation_id e,
           wc_tenant_id = None,
           wc_organization_id = None,
           wc_attempt_count = we_attempt_count e \<rparr>)"

definition aliases :: "execution \<Rightarrow> bool" where
  "aliases e \<longleftrightarrow> ctx_or_empty (we_execution_context e) \<noteq> empty_context"

definition view :: "bool \<Rightarrow> execution \<Rightarrow> workflow_context \<Rightarrow> workflow_context" where
  "view al e ctx =
     (if al then ctx\<lparr> wc_execution_context := ctx_or_empty (we_execution_context e) \<rparr> else ctx)"

definition write_back :: "bool \<Rightarrow> workflow_context \<Rightarrow> execution \<Rightarrow> execution" where
  "write_back al ctx e = (if al then e\<lparr> we_execution_context := Some (wc_execution_context ctx) \<rparr> else e)"

definition get_step_states :: "execution \<Rightarrow> (string \<times> step_state) list" where
  "get_step_states e =
     (case we_execution_context e of
        None \<Rightarrow> []
      | Some c \<Rightarrow> (case ec_step_states c of None \<Rightarrow> [] | Some s \<Rightarrow> s))"

text \<open>\<open>if execution.execution_context is None: execution.execution_context = {}\<close>, followed
  by changes of the dictionary in place that leave the content \<open>c\<close>: the attribute is
  assigned only when it was null.\<close>

definition put_context :: "execution \<Rightarrow> execution_context \<Rightarrow> execution" where
  "put_context e c = e\<lparr> we_execution_context := Some c,
     we_context_assigned := (we_context_assigned e \<or> we_execution_context e = None) \<rparr>"

declare put_context_def [simp]

definition update_step_state :: "string \<Rightarrow> step_state \<Rightarrow> execution \<Rightarrow> execution" where
  "update_step_state nm new e =
     (let c = ctx_or_empty (we_execution_context e);
          states = (case ec_step_states c of None \<Rightarrow> [] | Some s \<Rightarrow> s);
          old = dict_get states nm empty_step_state
      in put_context e (c\<lparr> ec_step_states := Some (AList.update nm (merge_step_state old new) states) \<rparr>))"

definition step_state_of :: "execution \<Rightarrow> string \<Rightarrow> step_state" where
  "step_state_of e nm = dict_get (get_step_states e) nm empty_step_state"

definition attempts_of :: "execution \<Rightarrow> string \<Rightarrow> int" where
  "attempts_of e nm = (case ss_attempt_count (step_state_of e nm) of None \<Rightarrow> 0 | Some n \<Rightarrow> n)"

section \<open>start\<close>

record workflow_table =
  wt_next_id :: int
  wt_rows :: "(int \<times> execution) list"

definition start ::
  "'w workflow_definition \<Rightarrow> clock \<Rightarrow> dict \<Rightarrow> string \<Rightarrow> string option \<Rightarrow> string option \<Rightarrow> string option
   \<Rightarrow> string option \<Rightarrow> workflow_table \<Rightarrow> workflow_error + execution \<times> workflow_table" where
  "start d clk input_payload trigger_source correlation_id tenant_id organization_id run_key t =
     (case wd_steps d of
        [] \<Rightarrow> Inl (No_Steps (wd_name d))
      | first # _ \<Rightarrow>
          let now = clk 0;
              e = \<lparr> we_id = wt_next_id t,
                    we_workflow_name = wd_name d,
                    we_trigger_source = trigger_source,
                    we_workflow_version = Some (wd_version d),
                    we_status = WE_RUNNING,
                    we_trigger_reference = run_key,
                    we_run_key = run_key,
                    we_correlation_id = correlation_id,
                    we_current_step = Some (st_step_name first),
                    we_attempt_count = 1,
                    we_max_attempts = Some (wd_max_attempts d),
                    we_scheduled_at = now,
                    we_started_at = Some now,
                    we_completed_at = None,
                    we_last_transition_at = now,
                    we_input_payload = Some input_payload,
                    we_execution_context = Some (empty_context
                       \<lparr> ec_step_states := Some [], ec_completed_steps := Some [], ec_compensation_log := Some [] \<rparr>),
                    we_output_payload = None,
                    we_status_metadata = None,
                    we_error_code = None,
                    we_error_detail = None,
                    we_context_assigned = False \<rparr>
          in Inr (e, \<lparr> wt_next_id = wt_next_id t + 1, wt_rows = wt_rows t @ [(we_id e, e)] \<rparr>))"

section \<open>execute_step\<close>

definition start_state :: "instant \<Rightarrow> int \<Rightarrow> step_state" where
  "start_state now attempt_count = empty_step_state
     \<lparr> ss_status := Some SS_SUCCEEDED, ss_started_at := Some now, ss_attempt_count := Some attempt_count \<rparr>"

definition end_state :: "instant \<Rightarrow> int \<Rightarrow> step_result \<Rightarrow> step_state" where
  "end_state now attempt_count r = empty_step_state
     \<lparr> ss_status := Some (sr_status r), ss_completed_at := Some (Some now),
       ss_attempt_count := Some attempt_count, ss_output := Some (sr_output r),
       ss_error_message := Some (sr_error_message r), ss_error_code := Some (sr_error_code r),
       ss_wait_until := Some (sr_wait_until r) \<rparr>"

definition error_state :: "instant \<Rightarrow> int \<Rightarrow> exn \<Rightarrow> step_state" where
  "error_state now attempt_count exc = empty_step_state
     \<lparr> ss_status := Some SS_FAILED, ss_completed_at := Some (Some now),
       ss_attempt_count := Some attempt_count,
       ss_error_message := Some (Some (exn_message exc)), ss_error_code := Some (exn_code exc) \<rparr>"

definition execute_step ::
  "'w workflow_definition \<Rightarrow> clock \<Rightarrow> execution \<Rightarrow> 'w workflow_step \<Rightarrow> 'w \<Rightarrow> step_result \<times> execution \<times> 'w" where
  "execute_step d clk e step w =
     (let context = build_context d e step;
          al = aliases e;
          attempt_count = attempts_of e (st_step_name step) + 1;
          e1 = update_step_state (st_step_name step) (start_state (clk 0) attempt_count) e
      in case st_execute step (view al e1 context) w of
           (outcome, context', w') \<Rightarrow>
             let e2 = write_back al context' e1
             in (case outcome of
                  Inr result \<Rightarrow>
                    (result, update_step_state (st_step_name step) (end_state (clk 1) attempt_count result) e2, w')
                | Inl exc \<Rightarrow>
                    ((StepResult SS_FAILED)\<lparr> sr_error_message := Some (exn_message exc), sr_error_code := exn_code exc \<rparr>,
                     update_step_state (st_step_name step) (error_state (clk 1) attempt_count exc) e2, w')))"

section \<open>compensate\<close>

text \<open>\<open>execution.execution_context["_compensation_log"].append(entry)\<close>, which fails
  when a step has removed the key.\<close>

definition append_log :: "compensation_entry \<Rightarrow> execution \<Rightarrow> workflow_error option \<times> execution" where
  "append_log entry e =
     (let c = ctx_or_empty (we_execution_context e)
      in case ec_compensation_log c of
           None \<Rightarrow> (Some (Key_Missing ''_compensation_log''), e)
         | Some l \<Rightarrow> (None, e\<lparr> we_execution_context := Some (c\<lparr> ec_compensation_log := Some (l @ [entry]) \<rparr>) \<rparr>))"

text \<open>The loop; the first argument is the clock from the current iteration on.  One
  context object, \<open>ctx\<close>, is shared by all compensations.\<close>

fun compensate_loop ::
  "clock \<Rightarrow> bool \<Rightarrow> workflow_context \<Rightarrow> 'w workflow_step list \<Rightarrow> execution \<Rightarrow> 'w
   \<Rightarrow> workflow_error option \<times> execution \<times> 'w" where
  "compensate_loop clk al ctx [] e w = (None, e, w)"
| "compensate_loop clk al ctx (cs # rest) e w =
     (case st_compensate cs of
        None \<Rightarrow> compensate_loop clk al ctx rest e w
      | Some f \<Rightarrow>
         (case f (view al e ctx) w of
            (exc, ctx', w') \<Rightarrow>
              let e' = write_back al ctx' e;
                  entry = \<lparr> ce_step = st_step_name cs, ce_succeeded = (exc = None),
                            ce_error = map_option exn_message exc, ce_timestamp = clk 0 \<rparr>
              in (case append_log entry e' of
                   (Some err, e'') \<Rightarrow> (Some err, e'', w')
                 | (None, e'') \<Rightarrow> compensate_loop (\<lambda>i. clk (Suc i)) al ctx' rest e'' w')))"

definition compensate ::
  "'w workflow_definition \<Rightarrow> clock \<Rightarrow> execution \<Rightarrow> string \<Rightarrow> 'w \<Rightarrow> workflow_error option \<times> execution \<times> 'w" where
  "compensate d clk e failed_step w =
     (let compensating_steps = get_steps_for_compensation d failed_step
      in if compensating_steps = [] then (None, e, w)
         else case get_step d failed_step of
                None \<Rightarrow> (None, e, w)
              | Some failed_step_obj \<Rightarrow>
                  let context = build_context d e failed_step_obj;
                      al = aliases e;
                      c = ctx_or_empty (we_execution_context e);
                      e1 = put_context e (case ec_compensation_log c of
                               None \<Rightarrow> c\<lparr> ec_compensation_log := Some [] \<rparr> | Some _ \<Rightarrow> c)
                  in compensate_loop clk al context compensating_steps e1 w)"

section \<open>handle_step_failure\<close>

definition effective_policy :: "'w workflow_step \<Rightarrow> step_retry_policy" where
  "effective_policy step = (case st_retry_policy step of None \<Rightarrow> default_step_retry_policy | Some p \<Rightarrow> p)"

text \<open>The delay that is computed for the log entry.\<close>

definition retry_defer_seconds :: "rat \<Rightarrow> step_retry_policy \<Rightarrow> int \<Rightarrow> rat" where
  "retry_defer_seconds r p attempt_count =
     (case rp_backoff p of None \<Rightarrow> 5 | Some b \<Rightarrow> delay_for_attempt r b (attempt_count - 1))"

definition ensure_step_states :: "execution \<Rightarrow> execution" where
  "ensure_step_states e =
     (let c = ctx_or_empty (we_execution_context e)
      in put_context e (case ec_step_states c of
              None \<Rightarrow> c\<lparr> ec_step_states := Some [] \<rparr> | Some _ \<Rightarrow> c))"

definition handle_step_failure ::
  "'w workflow_definition \<Rightarrow> clock \<Rightarrow> execution \<Rightarrow> 'w workflow_step \<Rightarrow> step_result \<Rightarrow> 'w
   \<Rightarrow> workflow_error option \<times> execution \<times> 'w" where
  "handle_step_failure d clk e step result w =
     (let attempt_count = attempts_of e (st_step_name step);
          max_attempts = rp_max_attempts (effective_policy step)
      in if attempt_count < max_attempts
         then let retry_time = clk 0;
                  e1 = update_step_state (st_step_name step)
                         (empty_step_state\<lparr> ss_wait_until := Some (Some retry_time) \<rparr>) (ensure_step_states e)
              in (None, e1\<lparr> we_status := WE_WAITING, we_last_transition_at := clk 1 \<rparr>, w)
         else case compensate d clk e (st_step_name step) w of
                (Some err, e1, w1) \<Rightarrow> (Some err, e1, w1)
              | (None, e1, w1) \<Rightarrow>
                  let n = length (get_steps_for_compensation d (st_step_name step))
                  in (None, e1\<lparr> we_status := WE_FAILED, we_error_code := sr_error_code result,
                               we_error_detail := sr_error_message result,
                               we_completed_at := Some (clk n), we_last_transition_at := clk (Suc n) \<rparr>, w1))"

section \<open>advance\<close>

definition record_step_success :: "string \<Rightarrow> step_result \<Rightarrow> execution \<Rightarrow> execution" where
  "record_step_success nm result e =
     (let e1 = update_step_state nm (empty_step_state\<lparr> ss_status := Some SS_SUCCEEDED \<rparr>) e;
          c = ctx_or_empty (we_execution_context e1);
          completed = (case ec_completed_steps c of None \<Rightarrow> [] | Some l \<Rightarrow> l);
          c1 = c\<lparr> ec_completed_steps := Some (completed @ [nm]) \<rparr>;
          c2 = (if truthy_list (sr_output result)
                then let outs = (case ec_step_outputs c1 of None \<Rightarrow> [] | Some so \<Rightarrow> so)
                     in c1\<lparr> ec_step_outputs := Some (AList.update nm (the (sr_output result)) outs) \<rparr>
                else c1)
      in put_context e1 c2)"

definition next_step_of :: "'w workflow_definition \<Rightarrow> string \<Rightarrow> step_result \<Rightarrow> 'w workflow_step option" where
  "next_step_of d nm result =
     (if truthy_list (sr_next_step_override result)
      then get_step d (the (sr_next_step_override result))
      else get_next_step d nm)"

text \<open>The transition at the end of the SUCCEEDED and of the SKIPPED branch.\<close>

definition move_on :: "clock \<Rightarrow> 'w workflow_step option \<Rightarrow> execution \<Rightarrow> execution" where
  "move_on clk next_step e =
     (case next_step of
        Some s \<Rightarrow> e\<lparr> we_current_step := Some (st_step_name s), we_status := WE_RUNNING, we_last_transition_at := clk 0 \<rparr>
      | None \<Rightarrow> e\<lparr> we_status := WE_SUCCEEDED, we_completed_at := Some (clk 0), we_last_transition_at := clk 1 \<rparr>)"

definition advance ::
  "'w workflow_definition \<Rightarrow> clock \<Rightarrow> execution \<Rightarrow> 'w \<Rightarrow> workflow_error option \<times> execution \<times> 'w" where
  "advance d clk e w =
     (case we_current_step e of
        None \<Rightarrow> (Some No_Current_Step, e, w)
      | Some nm \<Rightarrow>
         (case get_step d nm of
            None \<Rightarrow> (Some (Step_Not_Found nm), e, w)
          | Some current_step \<Rightarrow>
             (case execute_step d clk e current_step w of
                (result, e1, w1) \<Rightarrow>
                  let clk' = (\<lambda>i. clk (i + 2))
                  in (case sr_status result of
                       SS_SUCCEEDED \<Rightarrow>
                         (None, move_on clk' (next_step_of d (st_step_name current_step) result)
                                  (record_step_success (st_step_name current_step) result e1), w1)
                     | SS_WAITING \<Rightarrow>
                         (None, e1\<lparr> we_status := WE_WAITING, we_last_transition_at := clk' 0 \<rparr>, w1)
                     | SS_SKIPPED \<Rightarrow>
                         (None, move_on clk' (next_step_of d (st_step_name current_step) result) e1, w1)
                     | SS_FAILED \<Rightarrow> handle_step_failure d clk' e1 current_step result w1))))"

section \<open>resume\<close>

definition resume ::
  "'w workflow_definition \<Rightarrow> clock \<Rightarrow> execution \<Rightarrow> 'w \<Rightarrow> workflow_error option \<times> execution \<times> 'w" where
  "resume d clk e w =
     (if we_status e \<noteq> WE_RUNNING \<and> we_status e \<noteq> WE_WAITING then (Some (Cannot_Resume (we_status e)), e, w)
      else case we_current_step e of
        None \<Rightarrow> (Some No_Current_Step, e, w)
      | Some nm \<Rightarrow>
         (case get_step d nm of
            None \<Rightarrow> (Some (Step_Not_Found nm), e, w)
          | Some _ \<Rightarrow>
             (case ss_wait_until (step_state_of e nm) of
                Some (Some wait_until) \<Rightarrow>
                  if we_status e = WE_WAITING
                  then if clk 0 < wait_until then (None, e, w) else advance d (\<lambda>i. clk (Suc i)) e w
                  else advance d clk e w
              | _ \<Rightarrow> advance d clk e w)))"

section \<open>The registry\<close>

type_synonym 'w workflow_registry = "(string \<times> 'w workflow_definition) list"

definition register_workflow ::
  "'w workflow_registry \<Rightarrow> 'w workflow_definition \<Rightarrow> string + 'w workflow_registry" where
  "register_workflow reg d =
     (if map_of reg (wd_name d) \<noteq> None then Inl (wd_name d) else Inr (AList.update (wd_name d) d reg))"

definition get_workflow :: "'w workflow_registry \<Rightarrow> string \<Rightarrow> 'w workflow_definition option" where
  "get_workflow reg nm = map_of reg nm"

interpretation workflows: registry register_workflow get_workflow wd_name
  by unfold_locales (auto simp: register_workflow_def get_workflow_def)

end
