(* ===== verification/Workflow_Props.thy ===== *)
theory Workflow_Props
  imports Workflow_Runner
begin

text \<open>
  What each operation of the runner does to the parts of an execution row that
  the runner owns, and the refinement of the runner by an abstract saga machine:
  a status, a current step, a number of attempts per step, the completed steps
  and the compensated steps, with neither dictionaries nor clocks nor aliasing.
\<close>

section \<open>Views of a row\<close>

definition completed_of :: "execution \<Rightarrow> string list" where
  "completed_of e = (case ec_completed_steps (ctx_or_empty (we_execution_context e)) of None \<Rightarrow> [] | Some l \<Rightarrow> l)"

definition log_of :: "execution \<Rightarrow> compensation_entry list" where
  "log_of e = (case ec_compensation_log (ctx_or_empty (we_execution_context e)) of None \<Rightarrow> [] | Some l \<Rightarrow> l)"

definition outputs_of :: "execution \<Rightarrow> (string \<times> dict) list" where
  "outputs_of e = (case ec_step_outputs (ctx_or_empty (we_execution_context e)) of None \<Rightarrow> [] | Some l \<Rightarrow> l)"

definition row_frame :: "execution \<Rightarrow> execution" where
  "row_frame e = e\<lparr> we_execution_context := None, we_context_assigned := False \<rparr>"

lemma row_frame_ctx [simp]:
  "row_frame (e\<lparr> we_execution_context := c \<rparr>) = row_frame e"
  "row_frame (e\<lparr> we_context_assigned := a \<rparr>) = row_frame e"
  "row_frame (e\<lparr> we_execution_context := c, we_context_assigned := a \<rparr>) = row_frame e"
  by (simp_all add: row_frame_def)

lemma row_frame_fields:
  assumes "row_frame e' = row_frame e"
  shows "we_id e' = we_id e" "we_status e' = we_status e" "we_current_step e' = we_current_step e"
    "we_completed_at e' = we_completed_at e" "we_error_code e' = we_error_code e"
    "we_error_detail e' = we_error_detail e" "we_workflow_name e' = we_workflow_name e"
  using assms by (cases e; cases e'; simp add: row_frame_def)+

lemma ctx_or_empty_simps [simp]: "ctx_or_empty (Some c) = c" "ctx_or_empty None = empty_context"
  by (simp_all add: ctx_or_empty_def)

lemma get_step_states_ctx:
  "get_step_states e = (case ec_step_states (ctx_or_empty (we_execution_context e)) of None \<Rightarrow> [] | Some s \<Rightarrow> s)"
  by (auto simp: get_step_states_def ctx_or_empty_def split: option.splits)

text \<open>The runner-owned part of a row, by which lemmas on views are transported.\<close>

definition owned :: "execution \<Rightarrow> (string \<times> step_state) list \<times> string list \<times> compensation_entry list" where
  "owned e = (get_step_states e, completed_of e, log_of e)"

lemma owned_eqD:
  assumes "owned e' = owned e"
  shows "get_step_states e' = get_step_states e" "completed_of e' = completed_of e" "log_of e' = log_of e"
    "step_state_of e' nm = step_state_of e nm" "attempts_of e' nm = attempts_of e nm"
  using assms by (simp_all add: owned_def step_state_of_def attempts_of_def)

lemma views_of_other_fields [simp]:
  "get_step_states (e\<lparr> we_status := s \<rparr>) = get_step_states e"
  "get_step_states (e\<lparr> we_last_transition_at := t \<rparr>) = get_step_states e"
  "get_step_states (e\<lparr> we_current_step := c \<rparr>) = get_step_states e"
  "get_step_states (e\<lparr> we_completed_at := t' \<rparr>) = get_step_states e"
  "get_step_states (e\<lparr> we_error_code := x \<rparr>) = get_step_states e"
  "get_step_states (e\<lparr> we_error_detail := x \<rparr>) = get_step_states e"
  "get_step_states (e\<lparr> we_context_assigned := a \<rparr>) = get_step_states e"
  by (simp_all add: get_step_states_def)

section \<open>Steps that leave the runner's keys alone\<close>

text \<open>The keys that start with an underscore are the runner's; a step may change
  every other key and the outputs.\<close>

definition keeps_runner_keys :: "execution_context \<Rightarrow> execution_context \<Rightarrow> bool" where
  "keeps_runner_keys c c' \<longleftrightarrow> ec_step_states c' = ec_step_states c \<and>
     ec_completed_steps c' = ec_completed_steps c \<and> ec_compensation_log c' = ec_compensation_log c"

definition execute_respects :: "'w workflow_step \<Rightarrow> bool" where
  "execute_respects s \<longleftrightarrow> (\<forall>ctx w.
     keeps_runner_keys (wc_execution_context ctx) (wc_execution_context (fst (snd (st_execute s ctx w)))))"

definition compensate_respects :: "'w workflow_step \<Rightarrow> bool" where
  "compensate_respects s \<longleftrightarrow> (\<forall>f. st_compensate s = Some f \<longrightarrow> (\<forall>ctx w.
     keeps_runner_keys (wc_execution_context ctx) (wc_execution_context (fst (snd (f ctx w))))))"

definition steps_respect :: "'w workflow_definition \<Rightarrow> bool" where
  "steps_respect d \<longleftrightarrow> (\<forall>s \<in> set (wd_steps d). execute_respects s \<and> compensate_respects s)"

lemma execute_respectsD:
  "execute_respects s \<Longrightarrow> st_execute s ctx w = (r, ctx', w') \<Longrightarrow>
     keeps_runner_keys (wc_execution_context ctx) (wc_execution_context ctx')"
  unfolding execute_respects_def by (metis fst_conv snd_conv)

lemma compensate_respectsD:
  "compensate_respects s \<Longrightarrow> st_compensate s = Some f \<Longrightarrow> f ctx w = (r, ctx', w') \<Longrightarrow>
     keeps_runner_keys (wc_execution_context ctx) (wc_execution_context ctx')"
  unfolding compensate_respects_def by (metis fst_conv snd_conv)

section \<open>Elementary updates\<close>

lemma row_frame_write_back [simp]: "row_frame (write_back al ctx e) = row_frame e"
  by (simp add: write_back_def)

lemma row_frame_update [simp]: "row_frame (update_step_state nm st e) = row_frame e"
  by (simp add: update_step_state_def Let_def)

lemma step_state_update [simp]:
  "step_state_of (update_step_state nm st e) nm' =
     (if nm' = nm then merge_step_state (step_state_of e nm) st else step_state_of e nm')"
  by (simp add: step_state_of_def update_step_state_def get_step_states_ctx Let_def)

lemma attempts_update [simp]:
  "attempts_of (update_step_state nm st e) nm' =
     (if nm' = nm then (case ss_attempt_count st of None \<Rightarrow> attempts_of e nm | Some k \<Rightarrow> k) else attempts_of e nm')"
  by (auto simp: attempts_of_def split: option.split)

lemma views_update [simp]:
  "completed_of (update_step_state nm st e) = completed_of e"
  "log_of (update_step_state nm st e) = log_of e"
  "outputs_of (update_step_state nm st e) = outputs_of e"
  by (simp_all add: completed_of_def log_of_def outputs_of_def update_step_state_def Let_def)

lemma context_update [simp]: "\<exists>c. we_execution_context (update_step_state nm st e) = Some c"
  by (simp add: update_step_state_def Let_def)

lemma owned_write_back:
  assumes "keeps_runner_keys (wc_execution_context (view al e ctx)) (wc_execution_context ctx')"
  shows "owned (write_back al ctx' e) = owned e"
  using assms
  by (simp add: owned_def get_step_states_ctx completed_of_def log_of_def write_back_def view_def
      keeps_runner_keys_def Let_def)

lemma view_context: "al \<Longrightarrow> wc_execution_context (view al e ctx) = ctx_or_empty (we_execution_context e)"
  by (simp add: view_def)

section \<open>execute_step\<close>

lemma execute_step_row:
  assumes "execute_step d clk e s w = (r, e', w')"
  shows "row_frame e' = row_frame e" "we_execution_context e' \<noteq> None"
    "attempts_of e' (st_step_name s) = attempts_of e (st_step_name s) + 1"
    "ss_status (step_state_of e' (st_step_name s)) = Some (sr_status r)"
  using assms
  by (auto simp: execute_step_def Let_def start_state_def end_state_def error_state_def split: prod.splits sum.splits)

lemma execute_step_owned:
  assumes "execute_step d clk e s w = (r, e', w')" and "execute_respects s"
  shows "completed_of e' = completed_of e" "log_of e' = log_of e"
    "nm \<noteq> st_step_name s \<Longrightarrow> step_state_of e' nm = step_state_of e nm"
proof -
  define al where "al = aliases e"
  define e1 where "e1 = update_step_state (st_step_name s) (start_state (clk 0) (attempts_of e (st_step_name s) + 1)) e"
  obtain out ctx' w1 where run: "st_execute s (view al e1 (build_context d e s)) w = (out, ctx', w1)"
    by (metis prod_cases3)
  then have o: "owned (write_back al ctx' e1) = owned e1"
    by (intro owned_write_back execute_respectsD[OF assms(2)])
  have e': "\<exists>st. e' = update_step_state (st_step_name s) st (write_back al ctx' e1)"
    using assms(1) run by (auto simp: execute_step_def al_def e1_def Let_def split: sum.splits)
  show "completed_of e' = completed_of e" "log_of e' = log_of e"
    "nm \<noteq> st_step_name s \<Longrightarrow> step_state_of e' nm = step_state_of e nm"
    using e' owned_eqD[OF o] by (auto simp: e1_def)
qed

lemma execute_step_attempts:
  assumes "execute_step d clk e s w = (r, e', w')" and "execute_respects s"
  shows "attempts_of e' nm = (if nm = st_step_name s then attempts_of e nm + 1 else attempts_of e nm)"
  using execute_step_row[OF assms(1)] execute_step_owned(3)[OF assms, of nm] by (simp add: attempts_of_def)

section \<open>compensate\<close>

lemma append_log_ok:
  assumes "ec_compensation_log (ctx_or_empty (we_execution_context e)) = Some l" "append_log entry e = (err, e')"
  shows "err = None" "row_frame e' = row_frame e" "log_of e' = l @ [entry]" "completed_of e' = completed_of e"
    "get_step_states e' = get_step_states e" "we_execution_context e' \<noteq> None"
    "ec_compensation_log (ctx_or_empty (we_execution_context e')) = Some (l @ [entry])"
  using assms by (auto simp: append_log_def Let_def log_of_def completed_of_def get_step_states_ctx)

text \<open>What a run of compensations does to the world.  \<open>undone steps ctx w entries w'\<close>:
  each of the steps is called once, in this order, the first in the context \<open>ctx\<close> and
  each later one in the context the one before it left (the compensation log aside,
  which the runner extends between the calls); the worlds are threaded from \<open>w\<close> to
  \<open>w'\<close>; and the i-th entry names the i-th step and records whether it raised.\<close>

definition sans_log :: "workflow_context \<Rightarrow> workflow_context" where
  "sans_log ctx = ctx\<lparr> wc_execution_context := (wc_execution_context ctx)\<lparr> ec_compensation_log := None \<rparr> \<rparr>"

inductive undone ::
  "'w workflow_step list \<Rightarrow> workflow_context \<Rightarrow> 'w \<Rightarrow> compensation_entry list \<Rightarrow> 'w \<Rightarrow> bool" where
  undone_none: "undone [] ctx w [] w"
| undone_step: "\<lbrakk> st_compensate s = Some f; sans_log seen = sans_log ctx; f seen w = (exc, ctx', w1);
     ce_step x = st_step_name s; ce_succeeded x = (exc = None); ce_error x = map_option exn_message exc;
     undone ss ctx' w1 xs w' \<rbrakk> \<Longrightarrow> undone (s # ss) ctx w (x # xs) w'"

lemma append_log_context:
  assumes "append_log entry e = (None, e')"
  shows "(ctx_or_empty (we_execution_context e'))\<lparr> ec_compensation_log := None \<rparr> =
    (ctx_or_empty (we_execution_context e))\<lparr> ec_compensation_log := None \<rparr>"
  using assms by (auto simp: append_log_def Let_def split: option.splits)

lemma compensate_loop_log:
  assumes "compensate_loop clk al ctx steps e w = (err, e', w')"
    and "\<forall>s \<in> set steps. is_compensating s \<and> compensate_respects s"
    and "ec_compensation_log (ctx_or_empty (we_execution_context e)) = Some l"
  shows "err = None \<and> row_frame e' = row_frame e \<and> completed_of e' = completed_of e \<and>
    get_step_states e' = get_step_states e \<and>
    (\<exists>entries. log_of e' = l @ entries \<and> map ce_step entries = map st_step_name steps \<and>
       map ce_timestamp entries = map clk [0..<length steps] \<and>
       (\<forall>x \<in> set entries. ce_succeeded x \<longleftrightarrow> ce_error x = None))"
  using assms
proof (induction steps arbitrary: clk ctx e w l)
  case Nil
  then show ?case by (auto simp: log_of_def)
next
  case (Cons cs rest)
  from Cons.prems obtain f where f: "st_compensate cs = Some f" by (auto simp: is_compensating_def)
  obtain exc ctx' w1 where run: "f (view al e ctx) w = (exc, ctx', w1)" by (metis prod_cases3)
  define e1 where "e1 = write_back al ctx' e"
  define entry where "entry = \<lparr> ce_step = st_step_name cs, ce_succeeded = (exc = None),
    ce_error = map_option exn_message exc, ce_timestamp = clk 0 \<rparr>"
  obtain err2 e2 where app: "append_log entry e1 = (err2, e2)" by force
  have keep: "keeps_runner_keys (wc_execution_context (view al e ctx)) (wc_execution_context ctx')"
    using compensate_respectsD[OF _ f run] Cons.prems(2) by simp
  have log1: "ec_compensation_log (ctx_or_empty (we_execution_context e1)) = Some l"
    using keep Cons.prems(3)
    by (cases al) (simp_all add: e1_def write_back_def view_context keeps_runner_keys_def)
  note a = append_log_ok[OF log1 app]
  have "compensate_loop (\<lambda>i. clk (Suc i)) al ctx' rest e2 w1 = (err, e', w')"
    using Cons.prems(1) f run app a(1) by (simp add: e1_def entry_def Let_def)
  from Cons.IH[OF this _ a(7)] Cons.prems(2) obtain entries where ih:
    "err = None" "row_frame e' = row_frame e2" "completed_of e' = completed_of e2"
    "get_step_states e' = get_step_states e2" "log_of e' = (l @ [entry]) @ entries"
    "map ce_step entries = map st_step_name rest"
    "map ce_timestamp entries = map (\<lambda>i. clk (Suc i)) [0..<length rest]"
    "\<forall>x \<in> set entries. ce_succeeded x \<longleftrightarrow> ce_error x = None"
    by auto
  have o: "owned e1 = owned e" unfolding e1_def by (rule owned_write_back[OF keep])
  have ts: "map ce_timestamp (entry # entries) = map clk [0..<length (cs # rest)]"
    using ih(7) by (simp add: entry_def upt_conv_Cons map_Suc_upt[symmetric] del: upt_Suc)
  have "log_of e' = l @ (entry # entries) \<and> map ce_step (entry # entries) = map st_step_name (cs # rest) \<and>
      (\<forall>x \<in> set (entry # entries). ce_succeeded x \<longleftrightarrow> ce_error x = None)"
    using ih by (auto simp: entry_def)
  with ih(1-4) a(2,4,5) o ts show ?case
    by (auto simp: e1_def dest: owned_eqD(1,2) intro!: exI[of _ "entry # entries"])
qed

lemma compensate_loop_undone:
  assumes "compensate_loop clk al ctx steps e w = (err, e', w')"
    and "\<forall>s \<in> set steps. is_compensating s \<and> compensate_respects s"
    and "ec_compensation_log (ctx_or_empty (we_execution_context e)) = Some l"
    and "sans_log (view al e ctx) = sans_log ctx0"
  shows "\<exists>entries. log_of e' = l @ entries \<and> undone steps ctx0 w entries w'"
  using assms
proof (induction steps arbitrary: clk ctx e w l ctx0)
  case Nil
  then show ?case by (auto simp: log_of_def intro: undone_none)
next
  case (Cons cs rest)
  from Cons.prems obtain f where f: "st_compensate cs = Some f" by (auto simp: is_compensating_def)
  obtain exc ctx' w1 where run: "f (view al e ctx) w = (exc, ctx', w1)" by (metis prod_cases3)
  define e1 where "e1 = write_back al ctx' e"
  define entry where "entry = \<lparr> ce_step = st_step_name cs, ce_succeeded = (exc = None),
    ce_error = map_option exn_message exc, ce_timestamp = clk 0 \<rparr>"
  obtain err2 e2 where app: "append_log entry e1 = (err2, e2)" by force
  have keep: "keeps_runner_keys (wc_execution_context (view al e ctx)) (wc_execution_context ctx')"
    using compensate_respectsD[OF _ f run] Cons.prems(2) by simp
  have log1: "ec_compensation_log (ctx_or_empty (we_execution_context e1)) = Some l"
    using keep Cons.prems(3)
    by (cases al) (simp_all add: e1_def write_back_def view_context keeps_runner_keys_def)
  note a = append_log_ok[OF log1 app]
  have "compensate_loop (\<lambda>i. clk (Suc i)) al ctx' rest e2 w1 = (err, e', w')"
    using Cons.prems(1) f run app a(1) by (simp add: e1_def entry_def Let_def)
  moreover have "sans_log (view al e2 ctx') = sans_log ctx'"
    using append_log_context[of entry e1 e2] app a(1) by (simp add: sans_log_def view_def e1_def write_back_def)
  ultimately obtain entries where ih: "log_of e' = (l @ [entry]) @ entries" "undone rest ctx' w1 entries w'"
    using Cons.IH[of "\<lambda>i. clk (Suc i)" ctx' e2 w1 "l @ [entry]" ctx'] Cons.prems(2) a(7) by auto
  have "undone (cs # rest) ctx0 w (entry # entries) w'"
    by (rule undone_step[OF f Cons.prems(4) run _ _ _ ih(2)]) (simp_all add: entry_def)
  with ih(1) show ?case by (intro exI[of _ "entry # entries"]) simp
qed

definition compensation_names :: "'w workflow_definition \<Rightarrow> string \<Rightarrow> string list" where
  "compensation_names d nm = map st_step_name (get_steps_for_compensation d nm)"

lemma get_steps_for_compensation_set:
  "s \<in> set (get_steps_for_compensation d nm) \<Longrightarrow> is_compensating s \<and> s \<in> set (wd_steps d)"
  by (cases "get_step_index d nm")
    (auto simp: compensation_steps compensation_steps_unknown dest: in_set_takeD)

lemma compensate_effect:
  assumes "compensate d clk e nm w = (err, e', w')" and "steps_respect d" and "get_step d nm = Some s"
  shows "err = None \<and> row_frame e' = row_frame e \<and> completed_of e' = completed_of e \<and>
    get_step_states e' = get_step_states e \<and>
    (\<exists>entries. log_of e' = log_of e @ entries \<and> map ce_step entries = compensation_names d nm \<and>
       map ce_timestamp entries = map clk [0..<length (get_steps_for_compensation d nm)] \<and>
       (\<forall>x \<in> set entries. ce_succeeded x \<longleftrightarrow> ce_error x = None))"
proof (cases "get_steps_for_compensation d nm = []")
  case True
  then show ?thesis using assms(1) by (auto simp: compensate_def compensation_names_def)
next
  case False
  define c where "c = ctx_or_empty (we_execution_context e)"
  define e1 where "e1 = put_context e (case ec_compensation_log c of
                               None \<Rightarrow> c\<lparr> ec_compensation_log := Some [] \<rparr> | Some _ \<Rightarrow> c)"
  have loop: "compensate_loop clk (aliases e) (build_context d e s) (get_steps_for_compensation d nm) e1 w = (err, e', w')"
    using assms(1,3) False by (simp add: compensate_def e1_def c_def Let_def cong: option.case_cong)
  have e1: "ec_compensation_log (ctx_or_empty (we_execution_context e1)) = Some (log_of e)"
    "row_frame e1 = row_frame e" "completed_of e1 = completed_of e" "get_step_states e1 = get_step_states e"
    by (auto simp: e1_def c_def log_of_def completed_of_def get_step_states_ctx split: option.splits)
  have "\<forall>s \<in> set (get_steps_for_compensation d nm). is_compensating s \<and> compensate_respects s"
    using assms(2) get_steps_for_compensation_set unfolding steps_respect_def by blast
  from compensate_loop_log[OF loop this e1(1)] e1 show ?thesis by (simp add: compensation_names_def)
qed

lemma compensate_undone:
  assumes "compensate d clk e nm w = (err, e', w')" and "steps_respect d" and "get_step d nm = Some s"
  shows "\<exists>entries. log_of e' = log_of e @ entries \<and>
    undone (get_steps_for_compensation d nm) (build_context d e s) w entries w'"
proof (cases "get_steps_for_compensation d nm = []")
  case True
  then show ?thesis using assms(1) by (auto simp: compensate_def intro: undone_none)
next
  case False
  define c where "c = ctx_or_empty (we_execution_context e)"
  define e1 where "e1 = put_context e (case ec_compensation_log c of
                               None \<Rightarrow> c\<lparr> ec_compensation_log := Some [] \<rparr> | Some _ \<Rightarrow> c)"
  have loop: "compensate_loop clk (aliases e) (build_context d e s) (get_steps_for_compensation d nm) e1 w = (err, e', w')"
    using assms(1,3) False by (simp add: compensate_def e1_def c_def Let_def cong: option.case_cong)
  have e1: "ec_compensation_log (ctx_or_empty (we_execution_context e1)) = Some (log_of e)"
    by (auto simp: e1_def c_def log_of_def split: option.splits)
  have v: "sans_log (view (aliases e) e1 (build_context d e s)) = sans_log (build_context d e s)"
    by (auto simp: sans_log_def view_def e1_def c_def build_context_def Let_def split: option.splits)
  have "\<forall>s \<in> set (get_steps_for_compensation d nm). is_compensating s \<and> compensate_respects s"
    using assms(2) get_steps_for_compensation_set unfolding steps_respect_def by blast
  from compensate_loop_undone[OF loop this e1 v] show ?thesis .
qed

end
