(* ===== verification/Workflow_Saga.thy ===== *)
theory Workflow_Saga
  imports Workflow_Props
begin

text \<open>
  The abstract saga machine, the simulation of \<open>advance\<close> by it, the reachable rows
  of a workflow driven by \<open>resume\<close>, and the properties of whole runs.
\<close>

section \<open>The abstract machine\<close>

datatype saga_outcome = O_Done "string option" | O_Skipped "string option" | O_Waiting | O_Failed

definition outcome_of :: "step_result \<Rightarrow> saga_outcome" where
  "outcome_of r = (case sr_status r of
     SS_SUCCEEDED \<Rightarrow> O_Done (sr_next_step_override r)
   | SS_SKIPPED \<Rightarrow> O_Skipped (sr_next_step_override r)
   | SS_WAITING \<Rightarrow> O_Waiting
   | SS_FAILED \<Rightarrow> O_Failed)"

record saga =
  sg_status :: execution_status
  sg_current :: "string option"
  sg_attempts :: "string \<Rightarrow> int"
  sg_completed :: "string list"
  sg_compensated :: "string list"

definition saga_of :: "execution \<Rightarrow> saga" where
  "saga_of e = \<lparr> sg_status = we_status e, sg_current = we_current_step e, sg_attempts = attempts_of e,
     sg_completed = completed_of e, sg_compensated = map ce_step (log_of e) \<rparr>"

definition saga_next :: "'w workflow_definition \<Rightarrow> string \<Rightarrow> string option \<Rightarrow> string option" where
  "saga_next d nm override =
     map_option st_step_name (if truthy_list override then get_step d (the override) else get_next_step d nm)"

definition saga_goto :: "string option \<Rightarrow> saga \<Rightarrow> saga" where
  "saga_goto next_step g = (case next_step of
     Some nm \<Rightarrow> g\<lparr> sg_status := WE_RUNNING, sg_current := Some nm \<rparr>
   | None \<Rightarrow> g\<lparr> sg_status := WE_SUCCEEDED \<rparr>)"

definition max_attempts_of :: "'w workflow_step \<Rightarrow> int" where
  "max_attempts_of s = rp_max_attempts (effective_policy s)"

definition saga_step :: "'w workflow_definition \<Rightarrow> 'w workflow_step \<Rightarrow> saga_outcome \<Rightarrow> saga \<Rightarrow> saga" where
  "saga_step d s out g =
     (let nm = st_step_name s;
          n = sg_attempts g nm + 1;
          g1 = g\<lparr> sg_attempts := (sg_attempts g)(nm := n) \<rparr>
      in case out of
           O_Done override \<Rightarrow> saga_goto (saga_next d nm override) (g1\<lparr> sg_completed := sg_completed g @ [nm] \<rparr>)
         | O_Skipped override \<Rightarrow> saga_goto (saga_next d nm override) g1
         | O_Waiting \<Rightarrow> g1\<lparr> sg_status := WE_WAITING \<rparr>
         | O_Failed \<Rightarrow>
             if n < max_attempts_of s then g1\<lparr> sg_status := WE_WAITING \<rparr>
             else g1\<lparr> sg_status := WE_FAILED, sg_compensated := sg_compensated g @ compensation_names d nm \<rparr>)"

section \<open>Simulation\<close>

lemma saga_of_sel [simp]:
  "sg_status (saga_of e) = we_status e" "sg_current (saga_of e) = we_current_step e"
  "sg_attempts (saga_of e) nm = attempts_of e nm" "sg_completed (saga_of e) = completed_of e"
  "sg_compensated (saga_of e) = map ce_step (log_of e)"
  by (simp_all add: saga_of_def)

lemma saga_eqI:
  fixes g h :: saga
  assumes "sg_status g = sg_status h" "sg_current g = sg_current h" "\<And>nm. sg_attempts g nm = sg_attempts h nm"
    "sg_completed g = sg_completed h" "sg_compensated g = sg_compensated h"
  shows "g = h"
  using assms by (cases g; cases h) auto

lemma views_record_update [simp]:
  "attempts_of (e\<lparr> we_status := s \<rparr>) = attempts_of e" "completed_of (e\<lparr> we_status := s \<rparr>) = completed_of e"
  "log_of (e\<lparr> we_status := s \<rparr>) = log_of e"
  "attempts_of (e\<lparr> we_last_transition_at := t \<rparr>) = attempts_of e"
  "completed_of (e\<lparr> we_last_transition_at := t \<rparr>) = completed_of e"
  "log_of (e\<lparr> we_last_transition_at := t \<rparr>) = log_of e"
  "attempts_of (e\<lparr> we_current_step := c \<rparr>) = attempts_of e"
  "completed_of (e\<lparr> we_current_step := c \<rparr>) = completed_of e"
  "log_of (e\<lparr> we_current_step := c \<rparr>) = log_of e"
  "attempts_of (e\<lparr> we_completed_at := c' \<rparr>) = attempts_of e"
  "completed_of (e\<lparr> we_completed_at := c' \<rparr>) = completed_of e"
  "log_of (e\<lparr> we_completed_at := c' \<rparr>) = log_of e"
  "attempts_of (e\<lparr> we_error_code := x \<rparr>) = attempts_of e" "completed_of (e\<lparr> we_error_code := x \<rparr>) = completed_of e"
  "log_of (e\<lparr> we_error_code := x \<rparr>) = log_of e"
  "attempts_of (e\<lparr> we_error_detail := x \<rparr>) = attempts_of e"
  "completed_of (e\<lparr> we_error_detail := x \<rparr>) = completed_of e"
  "log_of (e\<lparr> we_error_detail := x \<rparr>) = log_of e"
  by (simp_all add: attempts_of_def step_state_of_def completed_of_def log_of_def fun_eq_iff)

lemma saga_of_update [simp]:
  "saga_of (e\<lparr> we_status := s \<rparr>) = (saga_of e)\<lparr> sg_status := s \<rparr>"
  "saga_of (e\<lparr> we_current_step := c \<rparr>) = (saga_of e)\<lparr> sg_current := c \<rparr>"
  "saga_of (e\<lparr> we_last_transition_at := t \<rparr>) = saga_of e"
  "saga_of (e\<lparr> we_completed_at := c' \<rparr>) = saga_of e"
  "saga_of (e\<lparr> we_error_code := x \<rparr>) = saga_of e"
  "saga_of (e\<lparr> we_error_detail := x \<rparr>) = saga_of e"
  by (simp_all add: saga_of_def)

lemma record_step_success_views:
  "row_frame (record_step_success nm r e) = row_frame e"
  "completed_of (record_step_success nm r e) = completed_of e @ [nm]"
  "log_of (record_step_success nm r e) = log_of e"
  "get_step_states (record_step_success nm r e) =
     get_step_states (update_step_state nm (empty_step_state\<lparr> ss_status := Some SS_SUCCEEDED \<rparr>) e)"
  by (simp_all add: record_step_success_def update_step_state_def completed_of_def log_of_def get_step_states_ctx Let_def)

lemma record_step_success_attempts: "attempts_of (record_step_success nm r e) nm' = attempts_of e nm'"
proof -
  have "attempts_of (record_step_success nm r e) nm' =
      attempts_of (update_step_state nm (empty_step_state\<lparr> ss_status := Some SS_SUCCEEDED \<rparr>) e) nm'"
    by (simp add: attempts_of_def step_state_of_def record_step_success_views del: attempts_update step_state_update)
  then show ?thesis by simp
qed

lemma record_step_success_outputs:
  "outputs_of (record_step_success nm r e) =
     (if truthy_list (sr_output r) then AList.update nm (the (sr_output r)) (outputs_of e) else outputs_of e)"
  by (simp add: record_step_success_def update_step_state_def outputs_of_def Let_def)

lemma move_on_saga:
  "saga_of (move_on clk next_step e) = saga_goto (map_option st_step_name next_step) (saga_of e)"
  by (cases next_step) (simp_all add: move_on_def saga_goto_def saga_of_def)

lemma next_step_saga: "map_option st_step_name (next_step_of d nm r) = saga_next d nm (sr_next_step_override r)"
  by (simp add: next_step_of_def saga_next_def)

lemma ensure_step_states_views [simp]:
  "row_frame (ensure_step_states e) = row_frame e" "completed_of (ensure_step_states e) = completed_of e"
  "log_of (ensure_step_states e) = log_of e" "step_state_of (ensure_step_states e) nm = step_state_of e nm"
  "attempts_of (ensure_step_states e) nm = attempts_of e nm"
  by (auto simp: ensure_step_states_def completed_of_def log_of_def attempts_of_def step_state_of_def
      get_step_states_ctx Let_def split: option.splits)

lemma handle_failure_retry:
  assumes "attempts_of e (st_step_name s) < max_attempts_of s"
  shows "\<exists>e1. handle_step_failure d clk e s r w = (None, e1, w) \<and>
    saga_of e1 = (saga_of e)\<lparr> sg_status := WE_WAITING \<rparr> \<and>
    ss_wait_until (step_state_of e1 (st_step_name s)) = Some (Some (clk 0)) \<and>
    we_completed_at e1 = we_completed_at e \<and> we_error_code e1 = we_error_code e \<and>
    we_error_detail e1 = we_error_detail e"
proof -
  define e2 where "e2 = update_step_state (st_step_name s)
      (empty_step_state\<lparr> ss_wait_until := Some (Some (clk 0)) \<rparr>) (ensure_step_states e)"
  have run: "handle_step_failure d clk e s r w = (None, e2\<lparr> we_status := WE_WAITING, we_last_transition_at := clk 1 \<rparr>, w)"
    using assms by (simp add: handle_step_failure_def e2_def max_attempts_of_def Let_def)
  have fr: "row_frame e2 = row_frame e" by (simp add: e2_def)
  have at: "attempts_of e2 nm = attempts_of e nm" for nm by (simp add: e2_def)
  have "saga_of e2 = saga_of e"
    using row_frame_fields[OF fr] by (intro saga_eqI) (simp_all add: at, simp_all add: e2_def)
  moreover have "ss_wait_until (step_state_of e2 (st_step_name s)) = Some (Some (clk 0))"
    by (simp add: e2_def)
  ultimately show ?thesis
    unfolding run using row_frame_fields[OF fr] by (simp add: step_state_of_def)
qed

lemma handle_failure_final:
  assumes "max_attempts_of s \<le> attempts_of e (st_step_name s)" "steps_respect d"
    and "get_step d nm = Some s"
  shows "\<exists>e1 w1. handle_step_failure d clk e s r w = (None, e1, w1) \<and>
    saga_of e1 = (saga_of e)\<lparr> sg_status := WE_FAILED,
       sg_compensated := sg_compensated (saga_of e) @ compensation_names d (st_step_name s) \<rparr> \<and>
    we_completed_at e1 = Some (clk (length (get_steps_for_compensation d (st_step_name s)))) \<and>
    we_error_code e1 = sr_error_code r \<and> we_error_detail e1 = sr_error_message r"
proof -
  have s: "get_step d (st_step_name s) = Some s" using assms(3) get_step_name by blast
  obtain err e1 w1 where c: "compensate d clk e (st_step_name s) w = (err, e1, w1)" by (metis prod_cases3)
  note eff = compensate_effect[OF c assms(2) s]
  from eff have "err = None" and fr: "row_frame e1 = row_frame e"
    and v: "completed_of e1 = completed_of e" "get_step_states e1 = get_step_states e"
    and l: "map ce_step (log_of e1) = map ce_step (log_of e) @ compensation_names d (st_step_name s)"
    by auto
  have "attempts_of e1 = attempts_of e" using v(2) by (simp add: attempts_of_def step_state_of_def fun_eq_iff)
  with c \<open>err = None\<close> v l row_frame_fields[OF fr] assms(1) show ?thesis
    by (auto simp: handle_step_failure_def max_attempts_of_def Let_def intro!: saga_eqI)
qed

lemma execute_step_saga:
  assumes "execute_step d clk e s w = (r, e1, w1)" and "execute_respects s"
  shows "saga_of e1 = (saga_of e)\<lparr> sg_attempts := (sg_attempts (saga_of e))(st_step_name s := attempts_of e (st_step_name s) + 1) \<rparr>"
  using row_frame_fields[OF execute_step_row(1)[OF assms(1)]] execute_step_owned(1,2)[OF assms]
    execute_step_attempts[OF assms]
  by (intro saga_eqI) auto

lemma advance_unfold:
  assumes "we_current_step e = Some nm" "get_step d nm = Some s" "execute_step d clk e s w = (r, e1, w1)"
  shows "advance d clk e w = (case sr_status r of
      SS_SUCCEEDED \<Rightarrow> (None, move_on (\<lambda>i. clk (i + 2)) (next_step_of d nm r) (record_step_success nm r e1), w1)
    | SS_WAITING \<Rightarrow> (None, e1\<lparr> we_status := WE_WAITING, we_last_transition_at := clk 2 \<rparr>, w1)
    | SS_SKIPPED \<Rightarrow> (None, move_on (\<lambda>i. clk (i + 2)) (next_step_of d nm r) e1, w1)
    | SS_FAILED \<Rightarrow> handle_step_failure d (\<lambda>i. clk (i + 2)) e1 s r w1)"
  using assms get_step_name[OF assms(2)] by (simp add: advance_def Let_def numeral_2_eq_2 split: step_status.split)

lemma advance_saga:
  assumes "we_current_step e = Some nm" "get_step d nm = Some s" "execute_step d clk e s w = (r, e1, w1)"
    and "steps_respect d"
  shows "\<exists>e' w'. advance d clk e w = (None, e', w') \<and> saga_of e' = saga_step d s (outcome_of r) (saga_of e)"
proof -
  have er: "execute_respects s" using assms(2,4) get_step_in unfolding steps_respect_def by blast
  have nm: "st_step_name s = nm" using get_step_name[OF assms(2)] .
  note ex = execute_step_saga[OF assms(3) er]
  have att: "attempts_of e1 nm = attempts_of e nm + 1" using execute_step_row(3)[OF assms(3)] nm by simp
  have rs: "saga_of (record_step_success nm r e1) = (saga_of e1)\<lparr> sg_completed := completed_of e1 @ [nm] \<rparr>"
    using row_frame_fields[OF record_step_success_views(1)[of nm r e1]]
    by (intro saga_eqI) (simp_all add: record_step_success_attempts record_step_success_views)
  have comp: "completed_of e1 = completed_of e" using execute_step_owned(1)[OF assms(3) er] .
  show ?thesis
  proof (cases "sr_status r")
    case SS_FAILED
    show ?thesis
    proof (cases "attempts_of e1 (st_step_name s) < max_attempts_of s")
      case True
      from handle_failure_retry[OF this, of d "\<lambda>i. clk (i + 2)" r w1] SS_FAILED ex att nm True show ?thesis
        by (auto simp: advance_unfold[OF assms(1-3)] saga_step_def outcome_of_def Let_def)
    next
      case False
      then have "max_attempts_of s \<le> attempts_of e1 (st_step_name s)" by simp
      from handle_failure_final[OF this assms(4,2), of "\<lambda>i. clk (i + 2)" r w1] SS_FAILED ex att nm False
      show ?thesis
        by (auto simp: advance_unfold[OF assms(1-3)] saga_step_def outcome_of_def Let_def)
    qed
  next
    case SS_WAITING
    with ex nm show ?thesis
      by (auto simp: advance_unfold[OF assms(1-3)] saga_step_def outcome_of_def Let_def)
  qed (use ex nm rs comp in \<open>auto simp: advance_unfold[OF assms(1-3)] saga_step_def outcome_of_def move_on_saga
       next_step_saga Let_def\<close>)
qed

end
