(* ===== verification/Workflow_Runs.thy ===== *)
theory Workflow_Runs
  imports Workflow_Saga
begin

text \<open>
  Runs of a workflow: the rows reachable from \<open>start\<close> by \<open>resume\<close>, their
  invariant, repeated calls of \<open>advance\<close>, and the properties of the runner.  The
  workflow \<open>demo\<close> (reserve, charge, notify; charge always raises) is the concrete
  input of the witnesses.
\<close>

section \<open>Reachable rows\<close>

inductive wf_step :: "'w workflow_definition \<Rightarrow> execution \<Rightarrow> execution \<Rightarrow> bool" for d where
  resumed: "resume d clk e w = (None, e', w') \<Longrightarrow> wf_step d e e'"

inductive_cases wf_stepE: "wf_step d e e'"

inductive wf_reach :: "'w workflow_definition \<Rightarrow> execution \<Rightarrow> bool" for d where
  started: "start d clk p src cid tid oid key t = Inr (e, t') \<Longrightarrow> wf_reach d e"
| continued: "wf_reach d e \<Longrightarrow> wf_step d e e' \<Longrightarrow> wf_reach d e'"

definition terminal :: "execution \<Rightarrow> bool" where
  "terminal e \<longleftrightarrow> we_status e \<noteq> WE_RUNNING \<and> we_status e \<noteq> WE_WAITING"

text \<open>A saga state is sound when its current and its completed steps exist, and
  when nothing has been compensated unless the saga has failed: then all attempts of
  the current step are used and exactly the compensations up to it have run.\<close>

definition saga_ok :: "'w workflow_definition \<Rightarrow> saga \<Rightarrow> bool" where
  "saga_ok d g \<longleftrightarrow> (case sg_current g of None \<Rightarrow> False | Some nm \<Rightarrow>
     (case get_step d nm of None \<Rightarrow> False | Some s \<Rightarrow>
       sg_status g \<in> {WE_RUNNING, WE_WAITING, WE_SUCCEEDED, WE_FAILED} \<and>
       (if sg_status g = WE_FAILED
        then sg_compensated g = compensation_names d nm \<and> max_attempts_of s \<le> sg_attempts g nm
        else sg_compensated g = []) \<and>
       set (sg_completed g) \<subseteq> set (step_names d)))"

definition saga_inv :: "'w workflow_definition \<Rightarrow> execution \<Rightarrow> bool" where
  "saga_inv d e \<longleftrightarrow> saga_ok d (saga_of e) \<and> (we_completed_at e \<noteq> None \<longleftrightarrow> terminal e) \<and>
     (we_status e = WE_FAILED \<or> (we_error_code e = None \<and> we_error_detail e = None))"

lemma start_row:
  assumes "start d clk p src cid tid oid key t = Inr (e, t')"
  shows "we_status e = WE_RUNNING" "\<exists>s ss. wd_steps d = s # ss \<and> we_current_step e = Some (st_step_name s)"
    "we_completed_at e = None" "completed_of e = []" "log_of e = []" "attempts_of e nm = 0"
    "we_error_code e = None" "we_error_detail e = None" "outputs_of e = []" "we_id e = wt_next_id t"
  using assms
  by (auto simp: start_def Let_def completed_of_def log_of_def outputs_of_def attempts_of_def step_state_of_def
      get_step_states_ctx split: list.splits)

lemma resume_advance:
  assumes "resume d clk e w = (None, e', w')"
  shows "(e' = e \<and> w' = w) \<or> (\<not> terminal e \<and> (\<exists>clk'. advance d clk' e w = (None, e', w')))"
  using assms
  by (auto simp: resume_def terminal_def split: if_splits option.splits)

lemma resume_terminal: "terminal e \<Longrightarrow> resume d clk e w = (Some (Cannot_Resume (we_status e)), e, w)"
  by (auto simp: resume_def terminal_def)

text \<open>The fields of the row that the saga machine does not carry.\<close>

lemma move_on_fields:
  "we_completed_at (move_on clk s e) = (if s = None then Some (clk 0) else we_completed_at e)"
  "we_error_code (move_on clk s e) = we_error_code e" "we_error_detail (move_on clk s e) = we_error_detail e"
  "we_status (move_on clk s e) = (if s = None then WE_SUCCEEDED else WE_RUNNING)"
  "we_current_step (move_on clk s e) = (case s of None \<Rightarrow> we_current_step e | Some x \<Rightarrow> Some (st_step_name x))"
  by (auto simp: move_on_def split: option.splits)

lemma advance_fields:
  assumes "we_current_step e = Some nm" "get_step d nm = Some s" "steps_respect d"
    and "advance d clk e w = (err, e', w')" "we_completed_at e = None"
  shows "(we_completed_at e' \<noteq> None \<longleftrightarrow> terminal e') \<and>
    (we_status e' = WE_FAILED \<or> (we_error_code e' = we_error_code e \<and> we_error_detail e' = we_error_detail e))"
proof -
  obtain r e1 w1 where ex: "execute_step d clk e s w = (r, e1, w1)" by (metis prod_cases3)
  note fr = row_frame_fields[OF execute_step_row(1)[OF ex]]
  note fs = row_frame_fields[OF record_step_success_views(1)[of nm r e1]]
  note adv = advance_unfold[OF assms(1,2) ex]
  show ?thesis
  proof (cases "sr_status r")
    case SS_FAILED
    let ?c = "\<lambda>i. clk (i + 2)"
    show ?thesis
    proof (cases "attempts_of e1 (st_step_name s) < max_attempts_of s")
      case True
      from handle_failure_retry[OF this, of d ?c r w1] obtain e2 where
        h: "handle_step_failure d ?c e1 s r w1 = (None, e2, w1)" "saga_of e2 = (saga_of e1)\<lparr> sg_status := WE_WAITING \<rparr>"
          "we_completed_at e2 = we_completed_at e1" "we_error_code e2 = we_error_code e1" "we_error_detail e2 = we_error_detail e1"
        by blast
      have "we_status e2 = WE_WAITING" using arg_cong[OF h(2), of sg_status] by simp
      with h adv SS_FAILED assms(4,5) fr show ?thesis by (simp add: terminal_def)
    next
      case False
      then have "max_attempts_of s \<le> attempts_of e1 (st_step_name s)" by simp
      from handle_failure_final[OF this assms(3,2), of ?c r w1] obtain e2 w2 t where
        h: "handle_step_failure d ?c e1 s r w1 = (None, e2, w2)" "sg_status (saga_of e2) = WE_FAILED"
          "we_completed_at e2 = Some t"
        by fastforce
      with adv SS_FAILED assms(4) show ?thesis by (simp add: terminal_def)
    qed
  qed (use assms(4,5) adv fr fs in \<open>auto simp: move_on_fields terminal_def split: if_splits\<close>)
qed

lemma saga_next_known: "saga_next d nm override = Some nm' \<Longrightarrow> get_step d nm' \<noteq> None"
proof -
  assume "saga_next d nm override = Some nm'"
  then obtain s where "s \<in> set (wd_steps d)" "nm' = st_step_name s"
    unfolding saga_next_def map_option_eq_Some using get_step_in get_next_step_in by (metis (full_types))
  then show ?thesis by (auto simp: get_step_None step_names_def)
qed

lemma saga_step_ok:
  assumes "saga_ok d g" "sg_status g \<noteq> WE_FAILED" "sg_current g = Some nm" "get_step d nm = Some s"
  shows "saga_ok d (saga_step d s out g)"
proof -
  have nm: "st_step_name s = nm" using get_step_name[OF assms(4)] .
  have known: "nm \<in> set (step_names d)" using assms(4) get_step_None[of d nm] by auto
  have next_known: "\<exists>s'. get_step d nm' = Some s'" if "saga_next d x ov = Some nm'" for x ov nm'
    using saga_next_known[OF that] by auto
  show ?thesis
    using assms nm known
    by (cases out) (auto simp: saga_ok_def saga_step_def saga_goto_def Let_def
        split: option.split dest!: next_known)
qed

lemma advance_inv:
  assumes "steps_respect d" "saga_inv d e" "\<not> terminal e" "advance d clk e w = (None, e', w')"
  shows "saga_inv d e'"
proof -
  from assms(2) obtain nm s where cur: "we_current_step e = Some nm" "get_step d nm = Some s"
    by (auto simp: saga_inv_def saga_ok_def split: option.splits)
  from assms(2,3) have e: "we_completed_at e = None" "we_status e \<noteq> WE_FAILED" "saga_ok d (saga_of e)"
      "we_error_code e = None" "we_error_detail e = None"
    by (auto simp: saga_inv_def terminal_def)
  obtain r e1 w1 where ex: "execute_step d clk e s w = (r, e1, w1)" by (metis prod_cases3)
  from advance_saga[OF cur ex assms(1)] assms(4) have "saga_of e' = saga_step d s (outcome_of r) (saga_of e)" by simp
  with saga_step_ok[OF e(3), of nm s] cur e(2) have "saga_ok d (saga_of e')" by simp
  with advance_fields[OF cur assms(1) assms(4) e(1)] e(4,5) show ?thesis by (simp add: saga_inv_def)
qed

lemma start_inv:
  assumes "start d clk p src cid tid oid key t = Inr (e, t')"
  shows "saga_inv d e"
  using start_row[OF assms]
  by (auto simp: saga_inv_def saga_ok_def terminal_def get_step_def)

lemma reach_inv:
  assumes "steps_respect d" "wf_reach d e"
  shows "saga_inv d e"
  using assms(2)
proof induction
  case (started clk p src cid tid oid key t e t')
  then show ?case by (rule start_inv)
next
  case (continued e e')
  from continued(2) show ?case
    by (cases rule: wf_step.cases) (metis resume_advance advance_inv[OF assms(1)] continued.IH)
qed

section \<open>Repeated advances\<close>

text \<open>\<open>drive\<close> calls \<open>advance\<close> n times on the row in memory; \<open>clks i\<close> is the clock of
  the i-th call.  \<open>settle\<close> stops as soon as the row is terminal.\<close>

fun drive :: "'w workflow_definition \<Rightarrow> (nat \<Rightarrow> clock) \<Rightarrow> nat \<Rightarrow> execution \<Rightarrow> 'w \<Rightarrow> workflow_error option \<times> execution \<times> 'w" where
  "drive d clks 0 e w = (None, e, w)"
| "drive d clks (Suc n) e w = (case drive d clks n e w of
     (Some err, e1, w1) \<Rightarrow> (Some err, e1, w1)
   | (None, e1, w1) \<Rightarrow> advance d (clks n) e1 w1)"

fun settle :: "'w workflow_definition \<Rightarrow> (nat \<Rightarrow> clock) \<Rightarrow> nat \<Rightarrow> execution \<Rightarrow> 'w \<Rightarrow> workflow_error option \<times> execution \<times> 'w" where
  "settle d clks 0 e w = (None, e, w)"
| "settle d clks (Suc n) e w =
     (if terminal e then (None, e, w)
      else case advance d (clks 0) e w of
        (Some err, e1, w1) \<Rightarrow> (Some err, e1, w1)
      | (None, e1, w1) \<Rightarrow> settle d (\<lambda>i. clks (Suc i)) n e1 w1)"

text \<open>Conditions on the steps, in every context and world.\<close>

definition always_fails :: "'w workflow_step \<Rightarrow> bool" where
  "always_fails s \<longleftrightarrow> (\<forall>ctx w. case fst (st_execute s ctx w) of Inl _ \<Rightarrow> True | Inr r \<Rightarrow> sr_status r = SS_FAILED)"

definition always_succeeds :: "'w workflow_step \<Rightarrow> bool" where
  "always_succeeds s \<longleftrightarrow> (\<forall>ctx w. case fst (st_execute s ctx w) of Inl _ \<Rightarrow> False
     | Inr r \<Rightarrow> sr_status r = SS_SUCCEEDED \<and> \<not> truthy_list (sr_next_step_override r))"

definition linear_step :: "'w workflow_step \<Rightarrow> bool" where
  "linear_step s \<longleftrightarrow> (\<forall>ctx w. case fst (st_execute s ctx w) of Inl _ \<Rightarrow> True
     | Inr r \<Rightarrow> sr_status r \<noteq> SS_WAITING \<and> \<not> truthy_list (sr_next_step_override r))"

lemma execute_step_result:
  assumes "execute_step d clk e s w = (r, e1, w1)"
  shows "\<exists>ctx out. fst (st_execute s ctx w) = out \<and> r = (case out of Inr r' \<Rightarrow> r' | Inl exc \<Rightarrow>
    (StepResult SS_FAILED)\<lparr> sr_error_message := Some (exn_message exc), sr_error_code := exn_code exc \<rparr>)"
proof -
  define ctx where "ctx = view (aliases e)
    (update_step_state (st_step_name s) (start_state (clk 0) (attempts_of e (st_step_name s) + 1)) e) (build_context d e s)"
  obtain out ctx' w1 where run: "st_execute s ctx w = (out, ctx', w1)" by (metis prod_cases3)
  have "r = (case out of Inr r' \<Rightarrow> r' | Inl exc \<Rightarrow>
    (StepResult SS_FAILED)\<lparr> sr_error_message := Some (exn_message exc), sr_error_code := exn_code exc \<rparr>)"
    using assms run by (auto simp: execute_step_def ctx_def Let_def split: sum.splits)
  with run show ?thesis by (intro exI[of _ ctx] exI[of _ out]) simp
qed

lemma always_fails_status:
  "always_fails s \<Longrightarrow> execute_step d clk e s w = (r, e1, w1) \<Longrightarrow> sr_status r = SS_FAILED"
  by (drule execute_step_result) (auto simp: always_fails_def split: sum.splits dest: spec)

lemma always_succeeds_status:
  "always_succeeds s \<Longrightarrow> execute_step d clk e s w = (r, e1, w1) \<Longrightarrow>
     sr_status r = SS_SUCCEEDED \<and> \<not> truthy_list (sr_next_step_override r)"
  by (drule execute_step_result) (auto simp: always_succeeds_def split: sum.splits dest: spec)

lemma linear_step_status:
  "linear_step s \<Longrightarrow> execute_step d clk e s w = (r, e1, w1) \<Longrightarrow>
     sr_status r \<noteq> SS_WAITING \<and> \<not> truthy_list (sr_next_step_override r)"
  by (drule execute_step_result) (auto simp: linear_step_def split: sum.splits dest: spec)

section \<open>Retries\<close>

lemma advance_failing:
  assumes "steps_respect d" "get_step d nm = Some s" "always_fails s" "we_current_step e = Some nm"
  shows "\<exists>e' w'. advance d clk e w = (None, e', w') \<and> saga_of e' = saga_step d s O_Failed (saga_of e)"
proof -
  obtain r e1 w1 where ex: "execute_step d clk e s w = (r, e1, w1)" by (metis prod_cases3)
  have "outcome_of r = O_Failed" using always_fails_status[OF assms(3) ex] by (simp add: outcome_of_def)
  with advance_saga[OF assms(4,2) ex assms(1)] show ?thesis by simp
qed

lemma drive_failing:
  assumes "steps_respect d" "get_step d nm = Some s" "always_fails s" "we_current_step e = Some nm"
    and "attempts_of e nm = 0" "int k \<le> max_attempts_of s"
  shows "\<exists>e' w'. drive d clks k e w = (None, e', w') \<and> we_current_step e' = Some nm \<and> attempts_of e' nm = int k \<and>
    completed_of e' = completed_of e \<and>
    (0 < k \<longrightarrow> we_status e' = (if int k < max_attempts_of s then WE_WAITING else WE_FAILED)) \<and>
    map ce_step (log_of e') = map ce_step (log_of e) @
      (if 0 < k \<and> int k = max_attempts_of s then compensation_names d nm else [])"
  using assms(6)
proof (induction k)
  case 0
  then show ?case using assms by simp
next
  case (Suc k)
  then obtain e1 w1 where e1: "drive d clks k e w = (None, e1, w1)" "we_current_step e1 = Some nm"
    "attempts_of e1 nm = int k" "completed_of e1 = completed_of e" "map ce_step (log_of e1) = map ce_step (log_of e)"
    by auto
  obtain e2 w2 where e2: "advance d (clks k) e1 w1 = (None, e2, w2)"
    "saga_of e2 = saga_step d s O_Failed (saga_of e1)"
    using advance_failing[OF assms(1-3) e1(2)] by blast
  have nm: "st_step_name s = nm" using get_step_name[OF assms(2)] .
  have "sg_current (saga_of e2) = Some nm \<and> sg_attempts (saga_of e2) nm = int (Suc k) \<and>
      sg_completed (saga_of e2) = completed_of e \<and>
      sg_status (saga_of e2) = (if int (Suc k) < max_attempts_of s then WE_WAITING else WE_FAILED) \<and>
      sg_compensated (saga_of e2) = map ce_step (log_of e) @
        (if int (Suc k) = max_attempts_of s then compensation_names d nm else [])"
    unfolding e2(2) using e1 nm Suc.prems by (auto simp: saga_step_def Let_def)
  with e1(1) e2(1) show ?case by simp
qed

section \<open>Termination\<close>

text \<open>The attempts that a linear workflow has left from its current step on.\<close>

definition remaining :: "'w workflow_definition \<Rightarrow> saga \<Rightarrow> nat \<Rightarrow> nat" where
  "remaining d g i = (\<Sum>j \<in> {i..<length (wd_steps d)}.
     nat (max_attempts_of (wd_steps d ! j) - sg_attempts g (st_step_name (wd_steps d ! j))))"

definition at_step :: "'w workflow_definition \<Rightarrow> saga \<Rightarrow> nat \<Rightarrow> bool" where
  "at_step d g i \<longleftrightarrow> i < length (wd_steps d) \<and> sg_current g = Some (st_step_name (wd_steps d ! i)) \<and>
     (\<forall>j. i \<le> j \<longrightarrow> j < length (wd_steps d) \<longrightarrow>
        sg_attempts g (st_step_name (wd_steps d ! j)) < max_attempts_of (wd_steps d ! j))"

lemma remaining_head:
  "i < length (wd_steps d) \<Longrightarrow> remaining d g i =
     nat (max_attempts_of (wd_steps d ! i) - sg_attempts g (st_step_name (wd_steps d ! i))) + remaining d g (Suc i)"
  by (simp add: remaining_def sum.atLeast_Suc_lessThan)

lemma remaining_pos: "at_step d g i \<Longrightarrow> 0 < remaining d g i"
  by (auto simp: at_step_def remaining_head)

lemma remaining_cong:
  assumes "\<And>j. i \<le> j \<Longrightarrow> j < length (wd_steps d) \<Longrightarrow>
    sg_attempts g' (st_step_name (wd_steps d ! j)) = sg_attempts g (st_step_name (wd_steps d ! j))"
  shows "remaining d g' i = remaining d g i"
  unfolding remaining_def using assms by (intro sum.cong) auto

lemma saga_step_progress:
  assumes "distinct (step_names d)" "at_step d g i" "s = wd_steps d ! i"
    and "out = O_Failed \<or> (\<exists>ov. \<not> truthy_list ov \<and> (out = O_Done ov \<or> out = O_Skipped ov))"
  shows "sg_status (saga_step d s out g) \<in> {WE_SUCCEEDED, WE_FAILED} \<or>
    (\<exists>i'. at_step d (saga_step d s out g) i' \<and> remaining d (saga_step d s out g) i' < remaining d g i)"
proof -
  let ?g' = "saga_step d s out g"
  have i: "i < length (wd_steps d)" using assms(2) by (simp add: at_step_def)
  have diff: "st_step_name (wd_steps d ! j) \<noteq> st_step_name s" if "Suc i \<le> j" "j < length (wd_steps d)" for j
    using assms(1,3) that i by (auto simp: step_names_def distinct_conv_nth)
  have att: "sg_attempts ?g' nm = (if nm = st_step_name s then sg_attempts g nm + 1 else sg_attempts g nm)" for nm
    by (auto simp: saga_step_def saga_goto_def Let_def split: saga_outcome.split option.split)
  have tail: "remaining d ?g' (Suc i) = remaining d g (Suc i)"
    by (intro remaining_cong) (simp add: att diff)
  note hd = remaining_head[OF i]
  consider (fail) "out = O_Failed"
    | (go) ov where "\<not> truthy_list ov" "out = O_Done ov \<or> out = O_Skipped ov"
    using assms(4) by blast
  then show ?thesis
  proof cases
    case fail
    show ?thesis
    proof (cases "sg_attempts g (st_step_name s) + 1 < max_attempts_of s")
      case True
      have cur: "sg_current ?g' = Some (st_step_name s)"
        using fail True assms(2,3) by (simp add: saga_step_def at_step_def Let_def)
      have "at_step d ?g' i"
        unfolding at_step_def
      proof (intro conjI allI impI)
        fix j assume "i \<le> j" "j < length (wd_steps d)"
        then show "sg_attempts ?g' (st_step_name (wd_steps d ! j)) < max_attempts_of (wd_steps d ! j)"
          using True diff[of j] assms(2) by (cases "j = i") (auto simp: att at_step_def assms(3)[symmetric])
      qed (use i cur assms(3) in simp_all)
      moreover have "remaining d ?g' i < remaining d g i" using hd tail True by (simp add: att assms(3)[symmetric])
      ultimately show ?thesis by blast
    next
      case False
      with fail show ?thesis by (simp add: saga_step_def Let_def)
    qed
  next
    case go
    have nx: "saga_next d (st_step_name s) ov =
        (if Suc i < length (wd_steps d) then Some (st_step_name (wd_steps d ! Suc i)) else None)"
      using go(1) assms(3) get_next_step_nth[OF assms(1) i] by (simp add: saga_next_def)
    show ?thesis
    proof (cases "Suc i < length (wd_steps d)")
      case True
      have cur: "sg_current ?g' = Some (st_step_name (wd_steps d ! Suc i))"
        using go(2) nx True by (auto simp: saga_step_def saga_goto_def Let_def)
      have "at_step d ?g' (Suc i)"
        using True cur diff assms(2) by (auto simp: at_step_def att)
      moreover have "remaining d ?g' (Suc i) < remaining d g i"
        using hd[of g] tail assms(2) i by (auto simp: at_step_def assms(3)[symmetric])
      ultimately show ?thesis by blast
    next
      case False
      with go(2) nx show ?thesis by (auto simp: saga_step_def saga_goto_def Let_def)
    qed
  qed
qed

lemma settle_terminates:
  assumes "steps_respect d" "distinct (step_names d)" "\<forall>s \<in> set (wd_steps d). linear_step s"
    and "terminal e \<or> (\<exists>i. at_step d (saga_of e) i \<and> remaining d (saga_of e) i \<le> n)"
  shows "\<exists>e' w'. settle d clks n e w = (None, e', w') \<and> terminal e'"
  using assms(4)
proof (induction n arbitrary: clks e w)
  case 0
  then show ?case using remaining_pos by fastforce
next
  case (Suc n)
  show ?case
  proof (cases "terminal e")
    case False
    then obtain i where i: "at_step d (saga_of e) i" "remaining d (saga_of e) i \<le> Suc n" using Suc.prems by blast
    define s where "s = wd_steps d ! i"
    have len: "i < length (wd_steps d)" using i(1) by (simp add: at_step_def)
    have cur: "we_current_step e = Some (st_step_name s)" "get_step d (st_step_name s) = Some s"
      using i(1) get_step_nth[OF assms(2) len] by (simp_all add: at_step_def s_def)
    obtain r e1 w1 where ex: "execute_step d (clks 0) e s w = (r, e1, w1)" by (metis prod_cases3)
    have "linear_step s" using assms(3) len by (simp add: s_def)
    then have out: "outcome_of r = O_Failed \<or>
        (\<exists>ov. \<not> truthy_list ov \<and> (outcome_of r = O_Done ov \<or> outcome_of r = O_Skipped ov))"
      using linear_step_status[OF _ ex] by (cases "sr_status r") (auto simp: outcome_of_def)
    obtain e2 w2 where adv: "advance d (clks 0) e w = (None, e2, w2)"
      "saga_of e2 = saga_step d s (outcome_of r) (saga_of e)"
      using advance_saga[OF cur ex assms(1)] by blast
    have "terminal e2 \<or> (\<exists>i'. at_step d (saga_of e2) i' \<and> remaining d (saga_of e2) i' \<le> n)"
      using saga_step_progress[OF assms(2) i(1) s_def out] i(2) unfolding adv(2)[symmetric]
      by (fastforce simp: terminal_def)
    from Suc.IH[OF this, of "\<lambda>i. clks (Suc i)" w2] adv(1) False show ?thesis by simp
  qed simp
qed

lemma start_at_step:
  assumes "start d clk p src cid tid oid key t = Inr (e, t')" "\<forall>s \<in> set (wd_steps d). 1 \<le> max_attempts_of s"
  shows "at_step d (saga_of e) 0"
    "remaining d (saga_of e) 0 = sum_list (map (\<lambda>s. nat (max_attempts_of s)) (wd_steps d))"
proof -
  have a: "attempts_of e nm = 0" for nm using start_row(6)[OF assms(1)] .
  obtain s ss where st: "wd_steps d = s # ss" "we_current_step e = Some (st_step_name s)"
    using start_row(2)[OF assms(1)] by blast
  have "max_attempts_of (wd_steps d ! j) \<ge> 1" if "j < length (wd_steps d)" for j
    using assms(2) that nth_mem by blast
  then show "at_step d (saga_of e) 0" using st by (auto simp: at_step_def a int_one_le_iff_zero_less)
  show "remaining d (saga_of e) 0 = sum_list (map (\<lambda>s. nat (max_attempts_of s)) (wd_steps d))"
    by (simp add: remaining_def a sum_list_sum_nth atLeast0LessThan)
qed

lemma settle_inv:
  assumes "steps_respect d"
  shows "saga_inv d e \<Longrightarrow> settle d clks n e w = (None, e', w') \<Longrightarrow> saga_inv d e'"
proof (induction n arbitrary: clks e w)
  case (Suc n)
  then show ?case
    using Suc.IH[OF advance_inv[OF assms Suc.prems(1)]] by (auto split: if_splits prod.splits option.splits)
qed simp

lemma terminal_status: "saga_inv d e \<Longrightarrow> terminal e \<Longrightarrow> we_status e \<in> {WE_SUCCEEDED, WE_FAILED}"
  by (auto simp: saga_inv_def saga_ok_def terminal_def split: option.splits)

section \<open>Linear success\<close>

lemma drive_succeeding:
  assumes "steps_respect d" "distinct (step_names d)" "\<forall>s \<in> set (wd_steps d). always_succeeds s"
    and "start d clk p src cid tid oid key t = Inr (e, t')" "k \<le> length (wd_steps d)"
  shows "\<exists>e' w'. drive d clks k e w = (None, e', w') \<and> completed_of e' = take k (step_names d) \<and> log_of e' = [] \<and>
    (if k < length (wd_steps d)
     then we_status e' = WE_RUNNING \<and> we_current_step e' = Some (step_names d ! k)
     else we_status e' = WE_SUCCEEDED)"
  using assms(5)
proof (induction k)
  case 0
  then show ?case using start_row[OF assms(4)] by (auto simp: step_names_def)
next
  case (Suc k)
  then have k: "k < length (wd_steps d)" by simp
  from Suc obtain e1 w1 where e1: "drive d clks k e w = (None, e1, w1)" "completed_of e1 = take k (step_names d)"
    "log_of e1 = []" "we_status e1 = WE_RUNNING" "we_current_step e1 = Some (st_step_name (wd_steps d ! k))"
    by (auto simp: step_names_def)
  define s where "s = wd_steps d ! k"
  have nm: "step_names d ! k = st_step_name s" using k by (simp add: step_names_def s_def)
  have gs: "get_step d (st_step_name s) = Some s" using get_step_nth[OF assms(2) k] by (simp add: s_def)
  obtain r e2 w2 where ex: "execute_step d (clks k) e1 s w1 = (r, e2, w2)" by (metis prod_cases3)
  have "always_succeeds s" using assms(3) k by (simp add: s_def)
  note st = always_succeeds_status[OF this ex]
  obtain e3 w3 where e3: "advance d (clks k) e1 w1 = (None, e3, w3)"
    "saga_of e3 = saga_step d s (outcome_of r) (saga_of e1)"
    using advance_saga[OF _ gs ex assms(1)] e1(5) by (auto simp: s_def)
  have out: "outcome_of r = O_Done (sr_next_step_override r)" using st by (simp add: outcome_of_def)
  have nx: "saga_next d (st_step_name s) (sr_next_step_override r) =
      (if Suc k < length (wd_steps d) then Some (st_step_name (wd_steps d ! Suc k)) else None)"
    using st get_next_step_nth[OF assms(2) k] by (simp add: saga_next_def s_def)
  have tk: "take (Suc k) (step_names d) = take k (step_names d) @ [st_step_name s]"
    using k nm by (simp add: take_Suc_conv_app_nth step_names_def)
  have "sg_completed (saga_of e3) = take (Suc k) (step_names d) \<and> sg_compensated (saga_of e3) = [] \<and>
    (if Suc k < length (wd_steps d)
     then sg_status (saga_of e3) = WE_RUNNING \<and> sg_current (saga_of e3) = Some (step_names d ! Suc k)
     else sg_status (saga_of e3) = WE_SUCCEEDED)"
    unfolding e3(2) out using e1 nx tk by (auto simp: saga_step_def saga_goto_def Let_def step_names_def)
  with e1(1) e3(1) show ?case by auto
qed

end
