(* ===== verification/Workflow_Theorems.thy ===== *)
theory Workflow_Theorems
  imports Workflow_Runs
begin

text \<open>The properties of the workflow runner, each with a concrete instance.\<close>

section \<open>A concrete workflow\<close>

text \<open>The world is the list of the effects performed so far.\<close>

definition demo_step ::
  "string \<Rightarrow> exn + step_result \<Rightarrow> exn option option \<Rightarrow> step_retry_policy option \<Rightarrow> string list workflow_step" where
  "demo_step nm out undo pol = \<lparr> st_step_name = nm, st_timeout_seconds = None, st_retry_policy = pol,
     st_execute = (\<lambda>ctx w. (out, ctx, w @ [nm])),
     st_compensate = map_option (\<lambda>c ctx w. (c, ctx, w @ [''undo '' @ nm])) undo \<rparr>"

definition demo_exn :: exn where
  "demo_exn = \<lparr> exn_message = ''declined'', exn_code = Some ''card'' \<rparr>"

definition demo_policy :: step_retry_policy where
  "demo_policy = \<lparr> rp_max_attempts = 2, rp_backoff = Some BACKOFF_STANDARD \<rparr>"

definition demo :: "string list workflow_definition" where
  "demo = \<lparr> wd_name = ''order'', wd_steps =
      [demo_step ''reserve'' (Inr (StepResult SS_SUCCEEDED)) (Some (Some demo_exn)) None,
       demo_step ''charge'' (Inl demo_exn) (Some None) (Some demo_policy),
       demo_step ''notify'' (Inr (StepResult SS_SUCCEEDED)) None None],
    wd_version = ''1'', wd_max_attempts = 3 \<rparr>"

definition happy :: "string list workflow_definition" where
  "happy = demo\<lparr> wd_steps :=
      [demo_step ''reserve'' (Inr (StepResult SS_SUCCEEDED)) (Some None) None,
       demo_step ''notify'' (Inr (StepResult SS_SUCCEEDED)) None None] \<rparr>"

definition demo_table :: workflow_table where
  "demo_table = \<lparr> wt_next_id = 1, wt_rows = [] \<rparr>"

definition demo_start :: "string list workflow_definition \<Rightarrow> execution" where
  "demo_start d = (case start d (\<lambda>i. int i) [] ''api'' None None None None demo_table of Inr (e, t) \<Rightarrow> e)"

lemma demo_step_sel [simp]:
  "st_step_name (demo_step nm out undo pol) = nm" "st_retry_policy (demo_step nm out undo pol) = pol"
  "st_execute (demo_step nm out undo pol) = (\<lambda>ctx w. (out, ctx, w @ [nm]))"
  "st_compensate (demo_step nm out undo pol) = map_option (\<lambda>c ctx w. (c, ctx, w @ [''undo '' @ nm])) undo"
  by (simp_all add: demo_step_def)

lemma demo_step_respects: "execute_respects (demo_step nm out undo pol)" "compensate_respects (demo_step nm out undo pol)"
  by (auto simp: execute_respects_def compensate_respects_def keeps_runner_keys_def)

lemma demo_respects: "steps_respect demo" "steps_respect happy"
  by (simp_all add: steps_respect_def demo_def happy_def demo_step_respects)

lemma demo_started: "start d (\<lambda>i. int i) [] ''api'' None None None None demo_table = Inr (e, t) \<Longrightarrow> demo_start d = e"
  by (simp add: demo_start_def)

lemma demo_start_ok:
  "wd_steps d \<noteq> [] \<Longrightarrow> \<exists>t. start d (\<lambda>i. int i) [] ''api'' None None None None demo_table = Inr (demo_start d, t)"
  by (auto simp: start_def demo_start_def Let_def split: list.splits)

lemma demo_steps_nonempty [simp]: "wd_steps demo \<noteq> []" "wd_steps happy \<noteq> []"
  by (simp_all add: demo_def happy_def)

lemma demo_reach: "wf_reach demo (demo_start demo)"
  using demo_start_ok[of demo] wf_reach.started by fastforce

lemma demo_distinct: "distinct (step_names demo)" "distinct (step_names happy)"
  by (simp_all add: step_names_def demo_def happy_def)

section \<open>Reachable rows\<close>

text \<open>C3: In every row that a workflow reaches from \<open>start\<close> by any sequence of \<open>resume\<close>
  calls at any times, the current step and the completed steps are steps of the
  definition, \<open>completed_at\<close> is set exactly in a terminal status, error fields are
  set and compensations have run only when the workflow has FAILED, and a FAILED
  row has used all attempts of its current step and has run each compensation up
  to that step once, last step first.  The steps may do anything but touch the
  runner's own keys.\<close>

theorem reachable_rows_sound:
  assumes "steps_respect d" and "wf_reach d e"
  shows "saga_inv d e"
  using assms by (rule reach_inv)

fun demo_resumes :: "nat \<Rightarrow> execution \<times> string list" where
  "demo_resumes 0 = (demo_start demo, [])"
| "demo_resumes (Suc n) = (case demo_resumes n of (e, w) \<Rightarrow> snd (resume demo (\<lambda>i. 100 * int (Suc n) + int i) e w))"

lemma demo_resumes_reach:
  "wf_reach demo (fst (demo_resumes 0))" "wf_reach demo (fst (demo_resumes 1))"
  "wf_reach demo (fst (demo_resumes 2))" "wf_reach demo (fst (demo_resumes 3))"
proof -
  have step: "wf_reach demo (fst (demo_resumes (Suc n)))"
    if "wf_reach demo (fst (demo_resumes n))"
      "fst (resume demo (\<lambda>i. 100 * int (Suc n) + int i) (fst (demo_resumes n)) (snd (demo_resumes n))) = None" for n
    using that wf_reach.continued[OF that(1) wf_step.resumed[of demo _ "fst (demo_resumes n)" "snd (demo_resumes n)"]]
    by (auto split: prod.splits) (metis prod.collapse)
  have ok: "fst (resume demo (\<lambda>i. 100 * int (Suc n) + int i) (fst (demo_resumes n)) (snd (demo_resumes n))) = None"
    if "n \<in> {0, 1, 2}" for n
    using that by (elim insertE) (simp_all only:, code_simp+)
  show 0: "wf_reach demo (fst (demo_resumes 0))" by (simp add: demo_reach)
  show 1: "wf_reach demo (fst (demo_resumes 1))" unfolding One_nat_def by (rule step[OF 0 ok]) simp
  show 2: "wf_reach demo (fst (demo_resumes 2))" unfolding numeral_2_eq_2 using step[OF 1 ok] by simp
  show "wf_reach demo (fst (demo_resumes 3))" unfolding numeral_3_eq_3 using step[OF 2 ok] by (simp add: numeral_2_eq_2)
qed

theorem reachable_rows_sound_witness:
  "we_status (fst (demo_resumes 3)) = WE_FAILED \<and> saga_inv demo (fst (demo_resumes 3))"
  using reachable_rows_sound[OF demo_respects(1) demo_resumes_reach(4)] by code_simp

section \<open>Refinement\<close>

text \<open>C1: \<open>advance\<close> implements the abstract saga machine.  Whatever the steps do with the
  context (short of the runner's keys), it returns normally and the row it leaves
  abstracts to the abstract step for the outcome of the executed step: attempts
  counted, completion recorded, retry or compensation chosen by the step's policy.\<close>

theorem advance_refines_saga:
  assumes "steps_respect d" "we_current_step e = Some nm" "get_step d nm = Some s"
    and "execute_step d clk e s w = (r, e1, w1)"
  shows "\<exists>e' w'. advance d clk e w = (None, e', w') \<and> saga_of e' = saga_step d s (outcome_of r) (saga_of e)"
  using assms by (intro advance_saga)

theorem advance_refines_saga_witness:
  "\<exists>e' w'. advance demo int (demo_start demo) [] = (None, e', w') \<and>
     saga_of e' = saga_step demo (hd (wd_steps demo)) (O_Done None) (saga_of (demo_start demo))"
proof -
  have out: "outcome_of (fst (execute_step demo int (demo_start demo) (hd (wd_steps demo)) [])) = O_Done None"
    by code_simp
  have cur: "we_current_step (demo_start demo) = Some ''reserve''" by code_simp
  have st: "get_step demo ''reserve'' = Some (hd (wd_steps demo))" by (simp add: get_step_def demo_def)
  show ?thesis
    using advance_refines_saga[OF demo_respects(1) cur st, of int "[]"] out by (metis prod.collapse)
qed

section \<open>Termination\<close>

text \<open>C6: A workflow whose steps never wait and never branch finishes.  From a fresh
  execution, at most as many calls of \<open>advance\<close> as its steps have attempts in total
  leave the row SUCCEEDED or FAILED, whatever the steps return or raise and whatever
  the clock reads.\<close>

theorem linear_workflow_terminates:
  assumes "steps_respect d" "distinct (step_names d)"
    and "\<forall>s \<in> set (wd_steps d). linear_step s \<and> 1 \<le> max_attempts_of s"
    and "start d clk p src cid tid oid key t = Inr (e, t')"
    and "sum_list (map (\<lambda>s. nat (max_attempts_of s)) (wd_steps d)) \<le> n"
  shows "\<exists>e' w'. settle d clks n e w = (None, e', w') \<and> we_status e' \<in> {WE_SUCCEEDED, WE_FAILED}"
proof -
  have m: "\<forall>s \<in> set (wd_steps d). 1 \<le> max_attempts_of s" and l: "\<forall>s \<in> set (wd_steps d). linear_step s"
    using assms(3) by simp_all
  note at = start_at_step[OF assms(4) m]
  then obtain e' w' where e': "settle d clks n e w = (None, e', w')" "terminal e'"
    using settle_terminates[OF assms(1,2) l, of e n clks w] assms(5) by (metis at)
  with terminal_status[OF settle_inv[OF assms(1) start_inv[OF assms(4)] e'(1)]] show ?thesis by blast
qed

theorem linear_workflow_terminates_witness:
  "\<exists>e' w'. settle demo (\<lambda>i j. 10 * int i + int j) 8 (demo_start demo) [] = (None, e', w') \<and>
     we_status e' \<in> {WE_SUCCEEDED, WE_FAILED}"
proof -
  have "\<forall>s \<in> set (wd_steps demo). linear_step s \<and> 1 \<le> max_attempts_of s"
    by (simp add: demo_def linear_step_def max_attempts_of_def effective_policy_def default_step_retry_policy_def
        demo_policy_def)
  moreover have "sum_list (map (\<lambda>s. nat (max_attempts_of s)) (wd_steps demo)) \<le> 8"
    by (simp add: demo_def max_attempts_of_def effective_policy_def default_step_retry_policy_def demo_policy_def)
  ultimately show ?thesis
    using linear_workflow_terminates[OF demo_respects(1) demo_distinct(1)] demo_start_ok[of demo] demo_steps_nonempty(1)
    by metis
qed

section \<open>Success\<close>

text \<open>When every step succeeds and none branches, k advances of a fresh execution
  have completed exactly the first k steps, in order, the row is RUNNING at step
  k + 1, and after the last step it is SUCCEEDED; nothing is ever compensated.\<close>

theorem linear_success_in_order:
  assumes "steps_respect d" "distinct (step_names d)" "\<forall>s \<in> set (wd_steps d). always_succeeds s"
    and "start d clk p src cid tid oid key t = Inr (e, t')" "k \<le> length (wd_steps d)"
  shows "\<exists>e' w'. drive d clks k e w = (None, e', w') \<and> completed_of e' = take k (step_names d) \<and> log_of e' = [] \<and>
    (if k < length (wd_steps d)
     then we_status e' = WE_RUNNING \<and> we_current_step e' = Some (step_names d ! k)
     else we_status e' = WE_SUCCEEDED)"
  using assms by (rule drive_succeeding)

theorem linear_success_in_order_witness:
  "\<exists>e' w'. drive happy (\<lambda>i j. 10 * int i + int j) 2 (demo_start happy) [] = (None, e', w') \<and>
     completed_of e' = [''reserve'', ''notify''] \<and> log_of e' = [] \<and> we_status e' = WE_SUCCEEDED"
proof -
  have a: "\<forall>s \<in> set (wd_steps happy). always_succeeds s" by (simp add: happy_def always_succeeds_def)
  have n: "step_names happy = [''reserve'', ''notify'']" "length (wd_steps happy) = 2"
    by (simp_all add: step_names_def happy_def)
  obtain t where t: "start happy (\<lambda>i. int i) [] ''api'' None None None None demo_table = Inr (demo_start happy, t)"
    using demo_start_ok[OF demo_steps_nonempty(2)] by blast
  show ?thesis
    using linear_success_in_order[OF demo_respects(2) demo_distinct(2) a t, of 2 "\<lambda>i j. 10 * int i + int j" "[]"] n
    by simp
qed

section \<open>Retries\<close>

text \<open>C13: A step that always fails is attempted exactly \<open>max_attempts\<close> times.  After the
  k-th failed attempt the row is WAITING at the same step with k attempts counted,
  and the attempt that reaches the maximum runs the compensations up to that step
  and leaves the row FAILED; the completed steps never change.\<close>

theorem failing_step_exhausts_attempts:
  assumes "steps_respect d" "get_step d nm = Some s" "always_fails s" "we_current_step e = Some nm"
    and "attempts_of e nm = 0" "0 < k" "int k \<le> max_attempts_of s"
  shows "\<exists>e' w'. drive d clks k e w = (None, e', w') \<and> we_current_step e' = Some nm \<and> attempts_of e' nm = int k \<and>
    completed_of e' = completed_of e \<and>
    we_status e' = (if int k < max_attempts_of s then WE_WAITING else WE_FAILED) \<and>
    map ce_step (log_of e') = map ce_step (log_of e) @ (if int k = max_attempts_of s then compensation_names d nm else [])"
  using drive_failing[OF assms(1-5,7), of clks w] assms(6) by auto

theorem failing_step_exhausts_attempts_witness:
  "\<exists>e' w'. drive demo (\<lambda>i j. 10 * int i + int j) 2 (fst (demo_resumes 1)) [''reserve''] = (None, e', w') \<and>
     attempts_of e' ''charge'' = 2 \<and> we_status e' = WE_FAILED \<and>
     map ce_step (log_of e') = [''charge'', ''reserve'']"
proof -
  let ?s = "wd_steps demo ! 1"
  have s: "get_step demo ''charge'' = Some ?s" "always_fails ?s" "max_attempts_of ?s = 2"
    by (simp_all add: get_step_def demo_def always_fails_def max_attempts_of_def effective_policy_def demo_policy_def)
  have e: "we_current_step (fst (demo_resumes 1)) = Some ''charge''" "attempts_of (fst (demo_resumes 1)) ''charge'' = 0"
    "log_of (fst (demo_resumes 1)) = []"
    by code_simp+
  have c: "compensation_names demo ''charge'' = [''charge'', ''reserve'']" by code_simp
  show ?thesis
    using failing_step_exhausts_attempts[OF demo_respects(1) s(1,2) e(1,2), of 2 "\<lambda>i j. 10 * int i + int j" "[''reserve'']"]
      s(3) e(3) c
    by (auto simp del: demo_resumes.simps One_nat_def)
qed

section \<open>Compensation\<close>

text \<open>C11: Compensation is best effort and last-in first-out.  Compensating after the
  failure of a step really calls the \<open>compensate\<close> of each compensating step at or
  before it in the definition, the failed step included, once each and in reverse
  order, whether or not that step had succeeded and whether or not an earlier
  compensation raised: the first call gets the context of the failed step, each later
  call the context and the world the call before it left, and the world at the end
  is the one the last call left.  One log entry per call is appended, in the same
  order, which names the step, is marked as succeeded exactly when the call raised
  nothing and carries the message of what it raised; the time stamps are successive
  clock reads, nothing is raised and no other part of the row changes.\<close>

theorem compensation_is_best_effort_lifo:
  assumes "steps_respect d" "get_step_index d nm = Some k" "compensate d clk e nm w = (err, e', w')"
  shows "err = None \<and> row_frame e' = row_frame e \<and> completed_of e' = completed_of e \<and>
    (\<exists>entries. log_of e' = log_of e @ entries \<and>
       undone (rev (filter is_compensating (take (Suc k) (wd_steps d)))) (build_context d e (wd_steps d ! k)) w entries w' \<and>
       map ce_step entries = map st_step_name (rev (filter is_compensating (take (Suc k) (wd_steps d)))) \<and>
       map ce_timestamp entries = map clk [0..<length entries] \<and>
       list_all (\<lambda>x. ce_succeeded x \<longleftrightarrow> ce_error x = None) entries)"
proof -
  have s: "get_step d nm = Some (wd_steps d ! k)" using assms(2) by (simp add: get_step_Some)
  from compensate_effect[OF assms(3,1) s] obtain entries where
    e: "err = None" "row_frame e' = row_frame e" "completed_of e' = completed_of e"
      "log_of e' = log_of e @ entries" "map ce_step entries = compensation_names d nm"
      "map ce_timestamp entries = map clk [0..<length (get_steps_for_compensation d nm)]"
      "\<forall>x \<in> set entries. ce_succeeded x \<longleftrightarrow> ce_error x = None"
    by auto
  from compensate_undone[OF assms(3,1) s] e(4)
  have "undone (get_steps_for_compensation d nm) (build_context d e (wd_steps d ! k)) w entries w'" by auto
  moreover have "length entries = length (get_steps_for_compensation d nm)"
    using arg_cong[OF e(5), of length] by (simp add: compensation_names_def)
  ultimately show ?thesis using e
    by (auto simp: compensation_names_def compensation_steps[OF assms(2)] list_all_iff)
qed

theorem compensation_is_best_effort_lifo_witness:
  "case compensate demo int (fst (demo_resumes 2)) ''charge'' [] of (err, e', w') \<Rightarrow>
     err = None \<and> row_frame e' = row_frame (fst (demo_resumes 2)) \<and>
     map (\<lambda>x. (ce_step x, ce_succeeded x)) (log_of e') = [(''charge'', True), (''reserve'', False)] \<and>
     w' = [''undo charge'', ''undo reserve'']"
proof -
  let ?c = "compensate demo int (fst (demo_resumes 2)) ''charge'' []"
  have k: "get_step_index demo ''charge'' = Some 1" by code_simp
  have v: "map (\<lambda>x. (ce_step x, ce_succeeded x)) (log_of (fst (snd ?c))) = [(''charge'', True), (''reserve'', False)]"
    "snd (snd ?c) = [''undo charge'', ''undo reserve'']"
    by code_simp+
  obtain err e' w' where c: "?c = (err, e', w')" by (metis prod_cases3)
  show ?thesis
    using compensation_is_best_effort_lifo[OF demo_respects(1) k c] v unfolding c by simp
qed

section \<open>Resumption\<close>

text \<open>\<open>resumes\<close> calls \<open>resume\<close> n times; \<open>clks i\<close> is the clock of the i-th call.\<close>

fun resumes :: "'w workflow_definition \<Rightarrow> (nat \<Rightarrow> clock) \<Rightarrow> nat \<Rightarrow> execution \<Rightarrow> 'w \<Rightarrow> workflow_error option \<times> execution \<times> 'w" where
  "resumes d clks 0 e w = (None, e, w)"
| "resumes d clks (Suc n) e w = (case resumes d clks n e w of
     (Some err, e1, w1) \<Rightarrow> (Some err, e1, w1)
   | (None, e1, w1) \<Rightarrow> resume d (clks n) e1 w1)"

text \<open>A waiting step is not run before its time.  However often \<open>resume\<close> is called
  at instants before the stored wait time, the row and the world stay as they
  are; the first call at or after it executes the step, and a call on a row that is
  neither RUNNING nor WAITING is refused without any effect.\<close>

theorem resume_waits_until_due:
  assumes "we_current_step e = Some nm" "get_step d nm = Some s"
    and "ss_wait_until (step_state_of e nm) = Some (Some t)" "we_status e = WE_WAITING"
    and "\<forall>i < n. clks i 0 < t" "t \<le> clks n 0"
  shows "resumes d clks n e w = (None, e, w) \<and>
    resumes d clks (Suc n) e w = advance d (\<lambda>i. clks n (Suc i)) e w \<and>
    (\<forall>st \<in> {WE_PENDING, WE_SUCCEEDED, WE_FAILED, WE_CANCELED}.
       resume d (clks n) (e\<lparr> we_status := st \<rparr>) w = (Some (Cannot_Resume st), e\<lparr> we_status := st \<rparr>, w))"
proof -
  have "m \<le> n \<Longrightarrow> resumes d clks m e w = (None, e, w)" for m
    using assms by (induction m) (auto simp: resume_def)
  then have "resumes d clks n e w = (None, e, w)" by simp
  with assms show ?thesis by (auto simp: resume_def)
qed

theorem resume_waits_until_due_witness:
  "resumes demo (\<lambda>i j. 150 + 100 * int i + int j) 1 (fst (demo_resumes 2)) [] = (None, fst (demo_resumes 2), []) \<and>
   resumes demo (\<lambda>i j. 150 + 100 * int i + int j) (Suc 1) (fst (demo_resumes 2)) [] =
     advance demo (\<lambda>i. 150 + 100 * int 1 + int (Suc i)) (fst (demo_resumes 2)) []"
proof -
  have e: "we_current_step (fst (demo_resumes 2)) = Some ''charge''" "we_status (fst (demo_resumes 2)) = WE_WAITING"
    "ss_wait_until (step_state_of (fst (demo_resumes 2)) ''charge'') = Some (Some 202)"
    by code_simp+
  have s: "get_step demo ''charge'' = Some (wd_steps demo ! 1)" by (simp add: get_step_def demo_def)
  have before: "\<forall>i < 1. (150 + 100 * int i + int 0) < 202" and due: "202 \<le> (150 + 100 * int 1 + int 0)" by simp_all
  show ?thesis
    using resume_waits_until_due[where clks = "\<lambda>i j. 150 + 100 * int i + int j" and n = 1 and w = "[]",
        OF e(1) s e(3,2)] before due
    by blast
qed

text \<open>The back-off of a step's retry policy is never applied.  Whatever policy the
  step has, a failed attempt that will be retried stores as wait time the instant
  of the failure itself, so a \<open>resume\<close> at any later instant executes the step
  again at once, although the computed delay is positive.\<close>

theorem retry_backoff_is_not_applied:
  assumes "steps_respect d" "get_step d nm = Some s" "always_fails s" "we_current_step e = Some nm"
    and "attempts_of e nm + 1 < max_attempts_of s" "clk 2 \<le> clk' 0"
  shows "\<exists>e1 w1. advance d clk e w = (None, e1, w1) \<and> we_status e1 = WE_WAITING \<and>
    ss_wait_until (step_state_of e1 nm) = Some (Some (clk 2)) \<and>
    resume d clk' e1 w1 = advance d (\<lambda>i. clk' (Suc i)) e1 w1"
proof -
  obtain r e1 w1 where ex: "execute_step d clk e s w = (r, e1, w1)" by (metis prod_cases3)
  have nm: "st_step_name s = nm" using get_step_name[OF assms(2)] .
  have st: "sr_status r = SS_FAILED" using always_fails_status[OF assms(3) ex] .
  have "attempts_of e1 (st_step_name s) < max_attempts_of s" using execute_step_row(3)[OF ex] assms(5) nm by simp
  from handle_failure_retry[OF this, of d "\<lambda>i. clk (i + 2)" r w1] obtain e2 where
    h: "handle_step_failure d (\<lambda>i. clk (i + 2)) e1 s r w1 = (None, e2, w1)"
      "saga_of e2 = (saga_of e1)\<lparr> sg_status := WE_WAITING \<rparr>"
      "ss_wait_until (step_state_of e2 nm) = Some (Some (clk 2))"
    using nm by (auto simp: numeral_2_eq_2)
  have "we_status e2 = WE_WAITING" "we_current_step e2 = we_current_step e1"
    using arg_cong[OF h(2), of sg_status] arg_cong[OF h(2), of sg_current] by simp_all
  moreover have "we_current_step e1 = Some nm" using row_frame_fields(3)[OF execute_step_row(1)[OF ex]] assms(4) by simp
  ultimately show ?thesis
    using h advance_unfold[OF assms(4,2) ex] st assms(2,6) by (auto simp: resume_def)
qed

theorem retry_backoff_is_not_applied_witness:
  "\<exists>e1 w1. advance demo (\<lambda>i. int i) (fst (demo_resumes 1)) [] = (None, e1, w1) \<and> we_status e1 = WE_WAITING \<and>
     ss_wait_until (step_state_of e1 ''charge'') = Some (Some 2) \<and>
     resume demo (\<lambda>i. int i + 3) e1 w1 = advance demo (\<lambda>i. int (Suc i) + 3) e1 w1 \<and>
     retry_defer_seconds 1 demo_policy 1 = 5"
proof -
  let ?s = "wd_steps demo ! 1"
  have s: "get_step demo ''charge'' = Some ?s" "always_fails ?s" "max_attempts_of ?s = 2"
    by (simp_all add: get_step_def demo_def always_fails_def max_attempts_of_def effective_policy_def demo_policy_def)
  have e: "we_current_step (fst (demo_resumes 1)) = Some ''charge''" "attempts_of (fst (demo_resumes 1)) ''charge'' = 0"
    by code_simp+
  have r: "retry_defer_seconds 1 demo_policy 1 = 5"
    by (simp add: retry_defer_seconds_def demo_policy_def delay_for_attempt_def BACKOFF_STANDARD_def uniform_def)
  show ?thesis
    using retry_backoff_is_not_applied[OF demo_respects(1) s(1,2) e(1), of "\<lambda>i. int i" "\<lambda>i. int i + 3" "[]"] s(3) e(2) r
    by (auto simp del: demo_resumes.simps One_nat_def)
qed

section \<open>Missing guards\<close>

text \<open>\<open>advance\<close> does not look at the status.  On a finished workflow, whose current
  step is still its last one, it executes that step again: the world sees the
  step's effects a second time and the step is recorded as completed twice.\<close>

theorem advance_reruns_finished_step:
  assumes "steps_respect d" "we_status e = WE_SUCCEEDED" "we_current_step e = Some nm" "get_step d nm = Some s"
    and "always_succeeds s"
  shows "\<exists>e' w' ctx. advance d clk e w = (None, e', w') \<and> completed_of e' = completed_of e @ [nm] \<and>
    attempts_of e' nm = attempts_of e nm + 1 \<and> w' = snd (snd (st_execute s ctx w))"
proof -
  obtain r e1 w1 where ex: "execute_step d clk e s w = (r, e1, w1)" by (metis prod_cases3)
  have nm: "st_step_name s = nm" using get_step_name[OF assms(4)] .
  note st = always_succeeds_status[OF assms(5) ex]
  have w1: "\<exists>ctx. w1 = snd (snd (st_execute s ctx w))"
    using ex by (auto simp: execute_step_def Let_def split: prod.splits sum.splits) (metis snd_conv)+
  obtain e' w' where adv: "advance d clk e w = (None, e', w')"
    "saga_of e' = saga_step d s (O_Done (sr_next_step_override r)) (saga_of e)"
    using advance_saga[OF assms(3,4) ex assms(1)] st by (auto simp: outcome_of_def)
  have "w' = w1" using adv(1) advance_unfold[OF assms(3,4) ex] st by simp
  moreover have "sg_completed (saga_of e') = completed_of e @ [nm]" "sg_attempts (saga_of e') nm = attempts_of e nm + 1"
    unfolding adv(2) using nm by (simp_all add: saga_step_def saga_goto_def Let_def split: option.split)
  ultimately show ?thesis using adv(1) w1 by auto
qed

theorem advance_reruns_finished_step_witness:
  "we_status (fst (snd (drive happy (\<lambda>i j. 10 * int i + int j) 2 (demo_start happy) []))) = WE_SUCCEEDED \<and>
   (\<exists>e' w'. advance happy int (fst (snd (drive happy (\<lambda>i j. 10 * int i + int j) 2 (demo_start happy) []))) [] =
      (None, e', w') \<and> completed_of e' = [''reserve'', ''notify'', ''notify''])"
proof -
  let ?e = "fst (snd (drive happy (\<lambda>i j. 10 * int i + int j) 2 (demo_start happy) []))"
  let ?s = "wd_steps happy ! 1"
  have s: "get_step happy ''notify'' = Some ?s" "always_succeeds ?s"
    by (simp_all add: get_step_def happy_def always_succeeds_def)
  have e: "we_status ?e = WE_SUCCEEDED" "we_current_step ?e = Some ''notify''"
    "completed_of ?e = [''reserve'', ''notify'']"
    by code_simp+
  show ?thesis
    using advance_reruns_finished_step[OF demo_respects(2) e(1,2) s, of int "[]"] e(1,3) by auto
qed

end
