(* ===== verification/Jobs.thy ===== *)
theory Jobs
  imports Retry Request_Context
begin

text \<open>
  core/worker/jobs.py and the log context of core/worker/logging.py: the job
  envelope, the retry policy, and \<open>WorkerJob.execute\<close>, which turns the outcome of a
  job's \<open>run\<close> into a result, a raised exception or a \<open>Retry\<close> with its delay, after
  notifying the alert hooks.  A job class is a record whose \<open>run\<close> is a function of
  the worker context, the envelope and the world \<open>'w\<close>; the settings and the queue
  are arguments.
\<close>

section \<open>Policies and envelopes\<close>

record job_retry_policy =
  jp_max_tries :: int
  jp_defer_seconds :: rat

definition job_retry_policy_post_init :: "job_retry_policy \<Rightarrow> string + job_retry_policy" where
  "job_retry_policy_post_init p =
     (if jp_max_tries p < 1 then Inl ''Job retry policy max_tries must be at least 1''
      else if jp_defer_seconds p < 0 then Inl ''Job retry policy defer_seconds cannot be negative''
      else Inr p)"

record worker_settings =
  WORKER_JOB_MAX_TRIES :: int
  WORKER_JOB_RETRY_DELAY_SECONDS :: rat
  WORKER_KEEP_RESULT_SECONDS :: rat
  WORKER_KEEP_RESULT_FOREVER :: bool

definition build_default_job_retry_policy :: "worker_settings \<Rightarrow> string + job_retry_policy" where
  "build_default_job_retry_policy cfg = job_retry_policy_post_init
     \<lparr> jp_max_tries = WORKER_JOB_MAX_TRIES cfg, jp_defer_seconds = WORKER_JOB_RETRY_DELAY_SECONDS cfg \<rparr>"

definition get_default_keep_result_seconds :: "worker_settings \<Rightarrow> rat" where
  "get_default_keep_result_seconds cfg = WORKER_KEEP_RESULT_SECONDS cfg"

definition get_default_keep_result_forever :: "worker_settings \<Rightarrow> bool" where
  "get_default_keep_result_forever cfg = WORKER_KEEP_RESULT_FOREVER cfg"

record job_tenant_context =
  tc_tenant_id :: "string option"
  tc_organization_id :: "string option"

record job_envelope =
  en_payload :: dict
  en_correlation_id :: "string option"
  en_tenant_context :: job_tenant_context
  en_retry_count :: int
  en_metadata :: dict

definition validate_retry_count :: "job_envelope \<Rightarrow> string + job_envelope" where
  "validate_retry_count env =
     (if en_retry_count env < 0 then Inl ''Job envelope retry_count cannot be negative'' else Inr env)"

definition with_retry_count :: "int \<Rightarrow> job_envelope \<Rightarrow> job_envelope" where
  "with_retry_count n env = env\<lparr> en_retry_count := n \<rparr>"

text \<open>The worker context of the queue: the only key that is read, when it is an int.\<close>

record worker_context =
  cx_job_try :: "int option"
  cx_job_id :: "string option"

section \<open>Job classes\<close>

text \<open>Exceptions of a job run, by the handler of \<open>execute\<close> that catches them; the last
  component of a retryable error is its attribute \<open>error_category\<close>, if it has one.\<close>

datatype job_exn =
    Non_Retryable non_retryable_job_error
  | Retryable string "rat option" "string option"
  | Other_Exception exn

record ('w, 'r) worker_job =
  wj_job_name :: string
  wj_retry_policy :: "job_retry_policy option"
  wj_backoff_policy :: "backoff_policy option"
  wj_timeout_seconds :: "rat option"
  wj_keep_result_seconds :: "rat option"
  wj_keep_result_forever :: "bool option"
  wj_alert_hooks :: "(job_failure_notice \<Rightarrow> 'w \<Rightarrow> exn option \<times> 'w) list"
  wj_run :: "worker_context \<Rightarrow> job_envelope \<Rightarrow> 'w \<Rightarrow> (job_exn + 'r) \<times> 'w"

definition resolved_retry_policy :: "worker_settings \<Rightarrow> ('w, 'r) worker_job \<Rightarrow> string + job_retry_policy" where
  "resolved_retry_policy cfg job =
     (case wj_retry_policy job of None \<Rightarrow> build_default_job_retry_policy cfg | Some p \<Rightarrow> Inr p)"

definition resolved_keep_result_seconds :: "worker_settings \<Rightarrow> ('w, 'r) worker_job \<Rightarrow> rat" where
  "resolved_keep_result_seconds cfg job =
     (case wj_keep_result_seconds job of None \<Rightarrow> get_default_keep_result_seconds cfg | Some s \<Rightarrow> s)"

definition resolved_keep_result_forever :: "worker_settings \<Rightarrow> ('w, 'r) worker_job \<Rightarrow> bool" where
  "resolved_keep_result_forever cfg job =
     (case wj_keep_result_forever job of None \<Rightarrow> get_default_keep_result_forever cfg | Some b \<Rightarrow> b)"

record job_definition =
  jd_name :: string
  jd_timeout :: "rat option"
  jd_keep_result :: "rat option"
  jd_keep_result_forever :: bool
  jd_max_tries :: int
  jd_retry_policy :: job_retry_policy

definition job_definition_of :: "worker_settings \<Rightarrow> ('w, 'r) worker_job \<Rightarrow> string + job_definition" where
  "job_definition_of cfg job =
     (case resolved_retry_policy cfg job of
        Inl e \<Rightarrow> Inl e
      | Inr retry_policy \<Rightarrow>
          let keep_result_forever = resolved_keep_result_forever cfg job;
              keep_result_seconds = (if keep_result_forever then None else Some (resolved_keep_result_seconds cfg job))
          in Inr \<lparr> jd_name = wj_job_name job, jd_timeout = wj_timeout_seconds job,
                   jd_keep_result = keep_result_seconds, jd_keep_result_forever = keep_result_forever,
                   jd_max_tries = jp_max_tries retry_policy, jd_retry_policy = retry_policy \<rparr>)"

definition build_envelope ::
  "dict \<Rightarrow> dict \<Rightarrow> string option \<Rightarrow> string option \<Rightarrow> string option \<Rightarrow> dict option \<Rightarrow> int \<Rightarrow> string + job_envelope" where
  "build_envelope ctxvars payload correlation_id tenant_id organization_id metadata retry_count =
     validate_retry_count \<lparr> en_payload = payload,
       en_correlation_id = resolve_correlation_id ctxvars correlation_id,
       en_tenant_context = \<lparr> tc_tenant_id = tenant_id, tc_organization_id = organization_id \<rparr>,
       en_retry_count = retry_count, en_metadata = or_list metadata [] \<rparr>"

text \<open>Enqueueing hands the queue the job's name and its envelope; the queue (ARQ) is a
  list of such messages.\<close>

definition enqueue ::
  "worker_settings \<Rightarrow> ('w, 'r) worker_job \<Rightarrow> dict \<Rightarrow> dict \<Rightarrow> string option \<Rightarrow> string option \<Rightarrow> string option
   \<Rightarrow> dict option \<Rightarrow> (string \<times> job_envelope) list \<Rightarrow> string + (string \<times> job_envelope) list" where
  "enqueue cfg job ctxvars payload correlation_id tenant_id organization_id metadata pool =
     bind_sum (build_envelope ctxvars payload correlation_id tenant_id organization_id metadata 0) (\<lambda>env.
     bind_sum (job_definition_of cfg job) (\<lambda>jd. Inr (pool @ [(jd_name jd, env)])))"

definition retry_count_from_context :: "worker_context \<Rightarrow> int \<Rightarrow> int" where
  "retry_count_from_context ctx fallback =
     (case cx_job_try ctx of Some job_try \<Rightarrow> max (job_try - 1) 0 | None \<Rightarrow> fallback)"

definition envelope_data :: "job_envelope \<Rightarrow> dict" where
  "envelope_data env =
     (let opt = (\<lambda>x. case x of None \<Rightarrow> JNull | Some s \<Rightarrow> JStr s)
      in [(''payload'', JDict (en_payload env)),
          (''correlation_id'', opt (en_correlation_id env)),
          (''tenant_context'', JDict [(''tenant_id'', opt (tc_tenant_id (en_tenant_context env))),
                                     (''organization_id'', opt (tc_organization_id (en_tenant_context env)))]),
          (''retry_count'', JInt (en_retry_count env)),
          (''metadata'', JDict (en_metadata env))])"

fun fire_alert_hooks ::
  "(job_failure_notice \<Rightarrow> 'w \<Rightarrow> exn option \<times> 'w) list \<Rightarrow> job_failure_notice \<Rightarrow> 'w \<Rightarrow> 'w" where
  "fire_alert_hooks [] n w = w"
| "fire_alert_hooks (hook # hooks) n w =
     (case hook n w of (Some exc, w') \<Rightarrow> fire_alert_hooks hooks n w' | (None, w') \<Rightarrow> fire_alert_hooks hooks n w')"

datatype 'r job_outcome =
    Job_Returned 'r
  | Job_Raised job_exn
  | Job_Retry rat
  | Job_Misconfigured string

text \<open>\<open>r\<close> is the random number the back-off policy draws.  The envelope comes either as
  an object or as the dumped dict, which is validated again.\<close>

datatype envelope_arg = Envelope job_envelope | Envelope_Dict job_envelope

definition parse_envelope :: "envelope_arg \<Rightarrow> string + job_envelope" where
  "parse_envelope a = (case a of Envelope e \<Rightarrow> Inr e | Envelope_Dict e \<Rightarrow> validate_retry_count e)"

definition failure_notice ::
  "('w, 'r) worker_job \<Rightarrow> job_envelope \<Rightarrow> int \<Rightarrow> int \<Rightarrow> string option \<Rightarrow> string \<Rightarrow> bool \<Rightarrow> job_failure_notice" where
  "failure_notice job env attempt max_attempts category msg final =
     \<lparr> jf_job_name = wj_job_name job, jf_envelope_data = envelope_data env, jf_attempt = attempt,
       jf_max_attempts = max_attempts, jf_error_category = category, jf_error_message = msg,
       jf_is_final_attempt = final \<rparr>"

definition execute ::
  "rat \<Rightarrow> worker_settings \<Rightarrow> ('w, 'r) worker_job \<Rightarrow> worker_context \<Rightarrow> envelope_arg \<Rightarrow> 'w \<Rightarrow> 'r job_outcome \<times> 'w" where
  "execute r cfg job ctx envelope w =
     (case parse_envelope envelope of
        Inl msg \<Rightarrow> (Job_Misconfigured msg, w)
      | Inr parsed \<Rightarrow>
          let retry_count = retry_count_from_context ctx (en_retry_count parsed);
              runtime_envelope = with_retry_count retry_count parsed
          in (case resolved_retry_policy cfg job of
                Inl msg \<Rightarrow> (Job_Misconfigured msg, w)
              | Inr retry_policy \<Rightarrow>
                  let max_attempts = jp_max_tries retry_policy;
                      current_attempt = retry_count + 1;
                      is_final_attempt = (current_attempt \<ge> max_attempts)
                  in (case wj_run job ctx runtime_envelope w of
                        (Inr v, w1) \<Rightarrow> (Job_Returned v, w1)
                      | (Inl (Non_Retryable exc), w1) \<Rightarrow>
                          (Job_Raised (Non_Retryable exc),
                           fire_alert_hooks (wj_alert_hooks job)
                             (failure_notice job runtime_envelope current_attempt max_attempts
                                (Some (nr_error_category exc)) (nr_message exc) True) w1)
                      | (Inl (Retryable msg exc_defer category), w1) \<Rightarrow>
                          let defer_seconds = (case wj_backoff_policy job of
                                Some backoff \<Rightarrow> delay_for_attempt r backoff retry_count
                              | None \<Rightarrow> (case exc_defer of Some s \<Rightarrow> s | None \<Rightarrow> jp_defer_seconds retry_policy))
                          in (Job_Retry defer_seconds,
                              fire_alert_hooks (wj_alert_hooks job)
                                (failure_notice job runtime_envelope current_attempt max_attempts
                                   category msg is_final_attempt) w1)
                      | (Inl (Other_Exception exc), w1) \<Rightarrow> (Job_Raised (Other_Exception exc), w1))))"

section \<open>The probe job\<close>

definition worker_probe_run :: "worker_context \<Rightarrow> job_envelope \<Rightarrow> 'w \<Rightarrow> (job_exn + dict) \<times> 'w" where
  "worker_probe_run ctx env w =
     (Inr [(''status'', JStr ''ok''), (''job_name'', JStr ''platform.jobs.worker_probe''),
           (''correlation_id'', case en_correlation_id env of None \<Rightarrow> JNull | Some c \<Rightarrow> JStr c),
           (''metadata'', JDict (en_metadata env))], w)"

text \<open>It inherits the logging alert hook; the world is the log.\<close>

definition WorkerProbeJob :: "((log_level \<times> string \<times> job_failure_notice) list, dict) worker_job" where
  "WorkerProbeJob = \<lparr> wj_job_name = ''platform.jobs.worker_probe'',
     wj_retry_policy = Some \<lparr> jp_max_tries = 1, jp_defer_seconds = 0 \<rparr>, wj_backoff_policy = None,
     wj_timeout_seconds = None, wj_keep_result_seconds = Some 60, wj_keep_result_forever = None,
     wj_alert_hooks = [\<lambda>n events. (None, LoggingAlertHook_on_job_failure n events)], wj_run = worker_probe_run \<rparr>"

section \<open>Log context\<close>

text \<open>The fields of \<open>build_job_log_context\<close> that are not null, in the code's order, for a
  job context and an envelope that may each be missing; an envelope object has
  neither a workflow nor a provider event id.\<close>

definition filter_none :: "(string \<times> 'v option) list \<Rightarrow> (string \<times> 'v) list" where
  "filter_none fs = map (\<lambda>kv. (fst kv, the (snd kv))) (filter (\<lambda>kv. snd kv \<noteq> None) fs)"

definition build_job_log_context ::
  "string option \<Rightarrow> worker_context option \<Rightarrow> job_envelope option \<Rightarrow> dict" where
  "build_job_log_context job_name ctx env =
     (let str = map_option JStr;
          tenant = map_option en_tenant_context env;
          job_try = Option.bind ctx cx_job_try;
          retry_count = (case job_try of Some t \<Rightarrow> Some (max (t - 1) 0) | None \<Rightarrow> map_option en_retry_count env)
      in filter_none
          [(''job_id'', str (Option.bind ctx cx_job_id)),
           (''job_name'', str job_name),
           (''correlation_id'', str (Option.bind env en_correlation_id)),
           (''tenant_id'', str (Option.bind tenant tc_tenant_id)),
           (''organization_id'', str (Option.bind tenant tc_organization_id)),
           (''retry_count'', map_option JInt retry_count),
           (''job_metadata'', map_option (\<lambda>e. JDict (en_metadata e)) env)])"

definition JOB_LOG_CONTEXT_KEYS :: "string list" where
  "JOB_LOG_CONTEXT_KEYS = [''job_id'', ''job_name'', ''correlation_id'', ''tenant_id'', ''organization_id'',
     ''retry_count'', ''job_metadata'', ''workflow_id'', ''provider_event_id'']"

fun bind_contextvars :: "dict \<Rightarrow> dict \<Rightarrow> dict" where
  "bind_contextvars [] vars = vars"
| "bind_contextvars ((k, v) # fs) vars = bind_contextvars fs (AList.update k v vars)"

definition bind_job_log_context ::
  "string option \<Rightarrow> worker_context option \<Rightarrow> job_envelope option \<Rightarrow> dict \<Rightarrow> dict \<times> dict" where
  "bind_job_log_context job_name ctx env vars =
     (let fs = build_job_log_context job_name ctx env
      in (fs, if fs \<noteq> [] then bind_contextvars fs vars else vars))"

definition clear_job_log_context :: "dict \<Rightarrow> dict" where
  "clear_job_log_context vars = filter (\<lambda>kv. fst kv \<notin> set JOB_LOG_CONTEXT_KEYS) vars"

section \<open>Lemmas\<close>

lemma retry_count_nonneg: "0 \<le> fb \<Longrightarrow> 0 \<le> retry_count_from_context ctx fb"
  by (simp add: retry_count_from_context_def split: option.split)

lemma filter_none_keys: "set (map fst (filter_none fs)) \<subseteq> set (map fst fs)"
  by (auto simp: filter_none_def)

lemma log_context_keys: "set (map fst (build_job_log_context nm ctx env)) \<subseteq> set JOB_LOG_CONTEXT_KEYS"
  unfolding build_job_log_context_def Let_def
  by (rule subset_trans[OF filter_none_keys]) (simp add: JOB_LOG_CONTEXT_KEYS_def)

lemma bind_contextvars_outside:
  "k \<notin> set (map fst fs) \<Longrightarrow> map_of (bind_contextvars fs vars) k = map_of vars k"
  by (induction fs vars rule: bind_contextvars.induct) auto

lemma clear_outside:
  "map_of (clear_job_log_context vars) k = (if k \<in> set JOB_LOG_CONTEXT_KEYS then None else map_of vars k)"
  unfolding clear_job_log_context_def by (induction vars) auto

text \<open>Every hook is called with the same notice, in order, even after one that raises:
  a hook is a state transformer whose exception is dropped.\<close>

lemma fire_alert_hooks_fold: "fire_alert_hooks hooks n w = fold (\<lambda>hook w. snd (hook n w)) hooks w"
  by (induction hooks n w rule: fire_alert_hooks.induct) (auto split: prod.split option.split)

end
