(* ===== verification/Job_Theorems.thy ===== *)
theory Job_Theorems
  imports Jobs
begin

text \<open>The properties of the worker's job wrapper and of the back-off policies.\<close>

section \<open>Back-off\<close>

text \<open>A validated back-off policy always yields a delay between 0 and its maximum
  and never above the exponential \<open>base * multiplier ^ n\<close>; jitter only shortens the
  deterministic delay.  Without jitter and with a multiplier above 1 the delays of
  successive attempts never decrease, and after finitely many attempts they stay at
  the maximum when the base delay is positive.\<close>

theorem backoff_policy_delays:
  assumes "backoff_policy_post_init p = Inr q" "0 \<le> r" "r \<le> 1" "1 < multiplier q" "0 < base_delay_seconds q"
  shows "(\<forall>n. 0 \<le> delay_for_attempt r q n \<and> delay_for_attempt r q n \<le> max_delay_seconds q \<and>
        delay_for_attempt r q n \<le> base_delay_seconds q * power_int (multiplier q) n \<and>
        delay_for_attempt r q n \<le> delay_for_attempt r (q\<lparr> jitter := False \<rparr>) n) \<and>
    (\<not> jitter q \<longrightarrow> (\<forall>m n. m \<le> n \<longrightarrow> delay_for_attempt r q (int m) \<le> delay_for_attempt r q (int n)) \<and>
       (\<exists>k. \<forall>n \<ge> k. delay_for_attempt r q (int n) = max_delay_seconds q))"
proof -
  have "q = p" using assms(1) by (auto simp: backoff_policy_post_init_def split: if_splits)
  then have v: "valid_policy q" using assms(1) by (simp add: valid_policy_def)
  have curve: "delay_for_attempt r q (int n) = policy_curve q n" if "\<not> jitter q" for n
    using that by (simp add: policy_curve_def delay_for_attempt_def)
  show ?thesis
    using delay_for_attempt_bounds[OF v assms(2,3)] jitter_below_deterministic[OF v assms(2,3)]
      policy.delay_mono[of q] policy.delay_saturates[of q] v assms(4,5)
    by (simp add: curve less_imp_le)
qed

theorem backoff_policy_delays_witness:
  "backoff_policy_post_init BACKOFF_SLOW = Inr BACKOFF_SLOW \<and>
   0 \<le> delay_for_attempt (1/2) BACKOFF_SLOW 7 \<and> delay_for_attempt (1/2) BACKOFF_SLOW 7 \<le> 1800"
proof -
  have p: "backoff_policy_post_init BACKOFF_SLOW = Inr BACKOFF_SLOW"
    by (simp add: backoff_policy_post_init_def BACKOFF_SLOW_def)
  have m: "1 < multiplier BACKOFF_SLOW" "0 < base_delay_seconds BACKOFF_SLOW" "max_delay_seconds BACKOFF_SLOW = 1800"
    by (simp_all add: BACKOFF_SLOW_def)
  show ?thesis using backoff_policy_delays[OF p, of "1/2"] p m by simp
qed

section \<open>Execution of a job\<close>

text \<open>C12: The outcome of a failed job run.  A retryable failure always ends in a
  \<open>Retry\<close>, also on the last attempt; its delay is the back-off policy's when there is
  one, else the exception's own, else the retry policy's, and with a back-off policy
  it lies between 0 and the policy's maximum.  The hooks are all called in order
  with the attempt number \<open>max (job_try - 1) 0 + 1\<close>, a hook that raises hides
  nothing from the next one, and the notice is final exactly on the last attempt.\<close>

theorem retryable_failure_is_retried:
  assumes "wj_retry_policy job = Some pol" "cx_job_try ctx = Some t" "0 \<le> r" "r \<le> 1"
    and "case wj_backoff_policy job of None \<Rightarrow> True | Some b \<Rightarrow> valid_policy b"
    and "env' = with_retry_count (max (t - 1) 0) env"
    and "wj_run job ctx env' w = (Inl (Retryable msg dfr cat), w1)"
  shows "\<exists>delay. execute r cfg job ctx (Envelope env) w =
      (Job_Retry delay, fold (\<lambda>hook w. snd (hook
         (failure_notice job env' (max t 1) (jp_max_tries pol) cat msg (jp_max_tries pol \<le> max t 1)) w)) (wj_alert_hooks job) w1) \<and>
    delay = (case wj_backoff_policy job of Some b \<Rightarrow> delay_for_attempt r b (max (t - 1) 0)
             | None \<Rightarrow> (case dfr of Some s \<Rightarrow> s | None \<Rightarrow> jp_defer_seconds pol)) \<and>
    (case wj_backoff_policy job of Some b \<Rightarrow> 0 \<le> delay \<and> delay \<le> max_delay_seconds b | None \<Rightarrow> True)"
proof -
  have n: "max (t - 1) 0 + 1 = max t 1" by simp
  show ?thesis
    using assms delay_for_attempt_bounds(1,2)[of _ r]
    by (simp add: execute_def parse_envelope_def retry_count_from_context_def resolved_retry_policy_def
        fire_alert_hooks_fold Let_def n split: option.split option.split_asm)
qed

definition demo_hook :: "exn option \<Rightarrow> job_failure_notice \<Rightarrow> (int \<times> bool) list \<Rightarrow> exn option \<times> (int \<times> bool) list" where
  "demo_hook exc n w = (exc, w @ [(jf_attempt n, jf_is_final_attempt n)])"

definition demo_job :: "job_exn + dict \<Rightarrow> ((int \<times> bool) list, dict) worker_job" where
  "demo_job out = \<lparr> wj_job_name = ''client.email'',
     wj_retry_policy = Some \<lparr> jp_max_tries = 3, jp_defer_seconds = 5 \<rparr>, wj_backoff_policy = Some BACKOFF_FAST,
     wj_timeout_seconds = None, wj_keep_result_seconds = None, wj_keep_result_forever = None,
     wj_alert_hooks = [demo_hook (Some \<lparr> exn_message = ''pager down'', exn_code = None \<rparr>), demo_hook None],
     wj_run = (\<lambda>_ _ w. (out, w)) \<rparr>"

definition demo_envelope :: job_envelope where
  "demo_envelope = \<lparr> en_payload = [], en_correlation_id = None,
     en_tenant_context = \<lparr> tc_tenant_id = None, tc_organization_id = None \<rparr>, en_retry_count = 0, en_metadata = [] \<rparr>"

definition demo_settings :: worker_settings where
  "demo_settings = \<lparr> WORKER_JOB_MAX_TRIES = 3, WORKER_JOB_RETRY_DELAY_SECONDS = 5,
     WORKER_KEEP_RESULT_SECONDS = 60, WORKER_KEEP_RESULT_FOREVER = False \<rparr>"

theorem retryable_failure_is_retried_witness:
  "execute 1 demo_settings (demo_job (Inl (Retryable ''503'' (Some 9) None)))
      \<lparr> cx_job_try = Some 3, cx_job_id = None \<rparr> (Envelope demo_envelope) [] = (Job_Retry 4, [(3, True), (3, True)])"
proof -
  let ?job = "demo_job (Inl (Retryable ''503'' (Some 9) None))"
  let ?ctx = "\<lparr> cx_job_try = Some 3, cx_job_id = None \<rparr>"
  have p: "wj_retry_policy ?job = Some \<lparr> jp_max_tries = 3, jp_defer_seconds = 5 \<rparr>" "cx_job_try ?ctx = Some 3"
    "(0::rat) \<le> 1" "(1::rat) \<le> 1" "case wj_backoff_policy ?job of None \<Rightarrow> True | Some b \<Rightarrow> valid_policy b"
    "with_retry_count 2 demo_envelope = with_retry_count (max (3 - 1) 0) demo_envelope"
    "wj_run ?job ?ctx (with_retry_count 2 demo_envelope) [] = (Inl (Retryable ''503'' (Some 9) None), [])"
    by (simp_all add: demo_job_def)
  have d: "delay_for_attempt 1 BACKOFF_FAST 2 = 4"
    by (simp add: delay_for_attempt_def BACKOFF_FAST_def uniform_def power_int_def)
  show ?thesis
    using retryable_failure_is_retried[OF p, of demo_settings] d
    by (simp add: demo_job_def demo_hook_def failure_notice_def)
qed

text \<open>A non-retryable failure is raised unchanged, whatever the attempt number,
  and its notice is marked as final with the category \<open>unknown\<close> when the error was
  built without one; every other exception is raised without any notice.\<close>

theorem permanent_failure_is_raised:
  assumes "wj_retry_policy job = Some pol" "0 \<le> en_retry_count env"
    and "n = retry_count_from_context ctx (en_retry_count env)"
    and "wj_run job ctx (with_retry_count n env) w = (Inl exc, w1)"
  shows "0 \<le> n \<and>
    (case exc of
       Non_Retryable x \<Rightarrow> execute r cfg job ctx (Envelope_Dict env) w =
         (Job_Raised exc, fold (\<lambda>hook w. snd (hook
            (failure_notice job (with_retry_count n env) (n + 1) (jp_max_tries pol)
               (Some (nr_error_category x)) (nr_message x) True) w)) (wj_alert_hooks job) w1)
     | Other_Exception _ \<Rightarrow> execute r cfg job ctx (Envelope_Dict env) w = (Job_Raised exc, w1)
     | Retryable _ _ _ \<Rightarrow> \<exists>delay w2. execute r cfg job ctx (Envelope_Dict env) w = (Job_Retry delay, w2)) \<and>
    nr_error_category (NonRetryableJobError msg None code) = ''unknown''"
  using assms retry_count_nonneg[OF assms(2), of ctx]
  by (cases exc) (simp_all add: execute_def parse_envelope_def validate_retry_count_def resolved_retry_policy_def
      fire_alert_hooks_fold NonRetryableJobError_def Let_def)

theorem permanent_failure_is_raised_witness:
  "execute 0 demo_settings (demo_job (Inl (Non_Retryable (NonRetryableJobError ''bad'' None None))))
      \<lparr> cx_job_try = Some 1, cx_job_id = None \<rparr> (Envelope_Dict demo_envelope) [] =
      (Job_Raised (Non_Retryable (NonRetryableJobError ''bad'' None None)), [(1, True), (1, True)])"
proof -
  let ?x = "Non_Retryable (NonRetryableJobError ''bad'' None None)"
  let ?job = "demo_job (Inl ?x)" and ?ctx = "\<lparr> cx_job_try = Some 1, cx_job_id = None \<rparr>"
  have p: "wj_retry_policy ?job = Some \<lparr> jp_max_tries = 3, jp_defer_seconds = 5 \<rparr>" "0 \<le> en_retry_count demo_envelope"
    "0 = retry_count_from_context ?ctx (en_retry_count demo_envelope)"
    "wj_run ?job ?ctx (with_retry_count 0 demo_envelope) [] = (Inl ?x, [])"
    by (simp_all add: demo_job_def demo_envelope_def retry_count_from_context_def)
  show ?thesis
    using permanent_failure_is_raised[OF p, of 0 demo_settings] by (simp add: demo_job_def demo_hook_def failure_notice_def)
qed

end
