(* ===== verification/Workflow_Job.thy ===== *)
theory Workflow_Job
  imports Workflow_Theorems Job_Theorems
begin

text \<open>
  \<open>WorkflowStepJob\<close> of core/worker/workflow.py: one queue job loads an execution row,
  advances it once and commits.  What a commit stores is the ORM's business
  (SQLAlchemy is not part of the sources): \<open>persist loaded row\<close> is the row that a
  later load sees when \<open>row\<close> is committed after \<open>loaded\<close> was read.  The hypothesis
  \<open>tracks_assignments\<close> states the documented behaviour for a column declared as plain
  JSON, as \<open>execution_context\<close> is (core/db/workflow_execution.py): when the attribute
  has been assigned its value is stored, and otherwise the column keeps the value that was
  loaded, since a change of the dictionary in place is not noticed.  Where the runner
  assigns the attribute is part of its model (\<open>put_context\<close>): only when it was null.
\<close>

section \<open>The job\<close>

type_synonym execution_rows = "(int \<times> execution) list"

record workflow_job_result =
  wr_execution_id :: int
  wr_workflow_status :: execution_status
  wr_current_step :: "string option"

datatype step_job_error = Execution_Id_Missing | Advance_Failed string

text \<open>\<open>str\<close> of the errors that the runner raises.\<close>

definition workflow_error_text :: "workflow_error \<Rightarrow> string" where
  "workflow_error_text err = (case err of
     No_Steps nm \<Rightarrow> ''Workflow '' @ nm @ '' has no steps''
   | No_Current_Step \<Rightarrow> ''Execution has no current_step set''
   | Step_Not_Found nm \<Rightarrow> ''Step '' @ nm @ '' not found in workflow definition''
   | Cannot_Resume st \<Rightarrow> ''Cannot resume workflow in '' @ execution_status_value st @ '' status; must be RUNNING or WAITING''
   | Key_Missing k \<Rightarrow> py_quote k)"

text \<open>An identifier that is not an integer is the key of no row; the driver's error for it
  is represented by the text of a missing row.\<close>

definition step_job_run ::
  "(execution \<Rightarrow> execution \<Rightarrow> execution) \<Rightarrow> 'w workflow_registry \<Rightarrow> clock \<Rightarrow> job_envelope \<Rightarrow> execution_rows \<Rightarrow> 'w
   \<Rightarrow> (step_job_error + workflow_job_result) \<times> execution_rows \<times> 'w" where
  "step_job_run persist reg clk env rows w =
     (case map_of (en_payload env) ''execution_id'' of
        None \<Rightarrow> (Inl Execution_Id_Missing, rows, w)
      | Some execution_id \<Rightarrow>
          if \<not> json_truthy execution_id then (Inl Execution_Id_Missing, rows, w)
          else (case execution_id of
            JInt i \<Rightarrow>
              (case map_of rows i of
                 None \<Rightarrow> (Inl (Advance_Failed (''WorkflowExecution '' @ show_int i @ '' not found'')), rows, w)
               | Some e \<Rightarrow>
                   (case get_workflow reg (we_workflow_name e) of
                      None \<Rightarrow> (Inl (Advance_Failed (''Workflow '' @ we_workflow_name e @ '' not registered'')), rows, w)
                    | Some d \<Rightarrow>
                        (case advance d clk e w of
                           (Some err, e', w') \<Rightarrow> (Inl (Advance_Failed (workflow_error_text err)), rows, w')
                         | (None, e', w') \<Rightarrow>
                             (Inr \<lparr> wr_execution_id = we_id e', wr_workflow_status = we_status e',
                                    wr_current_step = we_current_step e' \<rparr>,
                              AList.update i (persist e e') rows, w'))))
          | _ \<Rightarrow> (Inl (Advance_Failed ''WorkflowExecution not found''), rows, w)))"

text \<open>The exception of \<open>run\<close> as the job wrapper classifies it: the missing identifier is
  raised outside the \<open>try\<close>, everything else becomes a retryable error.\<close>

definition step_job_exn :: "step_job_error \<Rightarrow> job_exn" where
  "step_job_exn err = (case err of
     Execution_Id_Missing \<Rightarrow>
       Other_Exception \<lparr> exn_message = ''WorkflowStepJob requires execution_id in payload'', exn_code = None \<rparr>
   | Advance_Failed msg \<Rightarrow> Retryable (''Failed to advance workflow: '' @ msg) None None)"

definition enqueue_step ::
  "worker_settings \<Rightarrow> ('w, 'r) worker_job \<Rightarrow> dict \<Rightarrow> int \<Rightarrow> string option \<Rightarrow> string option \<Rightarrow> string option
   \<Rightarrow> (string \<times> job_envelope) list \<Rightarrow> string + (string \<times> job_envelope) list" where
  "enqueue_step cfg job ctxvars execution_id correlation_id tenant_id organization_id pool =
     enqueue cfg job ctxvars [(''execution_id'', JInt execution_id)] correlation_id tenant_id organization_id None pool"

section \<open>Persistence\<close>

definition tracks_assignments :: "(execution \<Rightarrow> execution \<Rightarrow> execution) \<Rightarrow> bool" where
  "tracks_assignments persist \<longleftrightarrow> (\<forall>loaded row. persist loaded row = row
     \<lparr> we_execution_context := (if we_context_assigned row then we_execution_context row else we_execution_context loaded),
       we_context_assigned := False \<rparr>)"

definition plain_json_column :: "execution \<Rightarrow> execution \<Rightarrow> execution" where
  "plain_json_column loaded row = row
     \<lparr> we_execution_context := we_execution_context (if we_context_assigned row then row else loaded),
       we_context_assigned := False \<rparr>"

lemma plain_json_column_tracks: "tracks_assignments plain_json_column"
  by (simp add: tracks_assignments_def plain_json_column_def)

text \<open>An operation that found a dictionary in the attribute leaves one there and has not
  assigned the attribute.\<close>

definition in_place :: "execution \<Rightarrow> execution \<Rightarrow> bool" where
  "in_place e e' \<longleftrightarrow> (we_execution_context e \<noteq> None \<longrightarrow>
     we_execution_context e' \<noteq> None \<and> we_context_assigned e' = we_context_assigned e)"

lemma in_place_trans: "in_place e e1 \<Longrightarrow> in_place e1 e2 \<Longrightarrow> in_place e e2"
  by (auto simp: in_place_def)

lemma in_place_basic [simp]:
  "in_place e e" "in_place e (put_context e c)" "in_place e (write_back al ctx e)" "in_place e (update_step_state nm st e)"
  "in_place e (ensure_step_states e)" "in_place e (record_step_success nm r e)" "in_place e (move_on clk s e)"
  by (auto simp: in_place_def write_back_def update_step_state_def ensure_step_states_def record_step_success_def
      move_on_def Let_def split: option.splits)

lemma in_place_fields [simp]:
  "in_place e (e'\<lparr> we_status := a \<rparr>) = in_place e e'" "in_place e (e'\<lparr> we_last_transition_at := t \<rparr>) = in_place e e'"
  "in_place e (e'\<lparr> we_error_code := x \<rparr>) = in_place e e'" "in_place e (e'\<lparr> we_error_detail := x \<rparr>) = in_place e e'"
  "in_place e (e'\<lparr> we_completed_at := c \<rparr>) = in_place e e'"
  by (simp_all add: in_place_def)

lemma execute_step_in_place: "execute_step d clk e s w = (r, e', w') \<Longrightarrow> in_place e e'"
  by (auto simp: execute_step_def Let_def split: prod.splits sum.splits
      intro: in_place_trans[OF in_place_trans[OF in_place_basic(4) in_place_basic(3)] in_place_basic(4)])

lemma append_log_in_place: "append_log entry e = (err, e') \<Longrightarrow> in_place e e'"
  by (auto simp: append_log_def in_place_def Let_def split: option.splits)

lemma compensate_loop_in_place: "compensate_loop clk al ctx steps e w = (err, e', w') \<Longrightarrow> in_place e e'"
proof (induction clk al ctx steps e w rule: compensate_loop.induct)
  case (2 clk al ctx cs rest e w)
  show ?case
  proof (cases "st_compensate cs")
    case (Some f)
    obtain exc ctx' w1 where run: "f (view al e ctx) w = (exc, ctx', w1)" by (metis prod_cases3)
    let ?entry = "\<lparr> ce_step = st_step_name cs, ce_succeeded = (exc = None),
      ce_error = map_option exn_message exc, ce_timestamp = clk 0 \<rparr>"
    obtain err2 e2 where app: "append_log ?entry (write_back al ctx' e) = (err2, e2)" by force
    note step = in_place_trans[OF in_place_basic(3) append_log_in_place[OF app]]
    show ?thesis
    proof (cases err2)
      case None
      with "2.IH"(2)[OF Some run[symmetric] refl refl refl] "2.prems" Some run app step show ?thesis
        by (fastforce intro: in_place_trans)
    qed (use "2.prems" Some run app step in simp)
  qed (use 2 in simp)
qed simp

lemma compensate_in_place: "compensate d clk e nm w = (err, e', w') \<Longrightarrow> in_place e e'"
  by (auto simp: compensate_def Let_def simp del: put_context_def split: if_splits option.splits
      dest!: compensate_loop_in_place intro: in_place_trans[OF in_place_basic(2)])

lemma handle_failure_in_place:
  assumes "handle_step_failure d clk e s r w = (err, e', w')"
  shows "in_place e e'"
proof (cases "attempts_of e (st_step_name s) < rp_max_attempts (effective_policy s)")
  case True
  with assms show ?thesis
    by (auto simp: handle_step_failure_def Let_def intro: in_place_trans[OF in_place_basic(5) in_place_basic(4)])
next
  case False
  obtain err1 e1 w1 where c: "compensate d clk e (st_step_name s) w = (err1, e1, w1)" by (metis prod_cases3)
  with assms False compensate_in_place[OF c] show ?thesis
    by (cases err1) (auto simp: handle_step_failure_def Let_def)
qed

lemma advance_in_place:
  assumes "we_current_step e = Some nm" "get_step d nm = Some s" "advance d clk e w = (err, e', w')"
  shows "in_place e e'"
proof -
  obtain r e1 w1 where ex: "execute_step d clk e s w = (r, e1, w1)" by (metis prod_cases3)
  note e1 = execute_step_in_place[OF ex]
  have "in_place e1 e'"
    using assms(3) advance_unfold[OF assms(1,2) ex] handle_failure_in_place
    by (cases "sr_status r") (auto intro: in_place_trans[OF in_place_basic(6) in_place_basic(7)])
  with e1 show ?thesis by (rule in_place_trans)
qed

text \<open>n step jobs for the same execution, one after the other.\<close>

fun run_jobs ::
  "(execution \<Rightarrow> execution \<Rightarrow> execution) \<Rightarrow> 'w workflow_registry \<Rightarrow> (nat \<Rightarrow> clock) \<Rightarrow> job_envelope \<Rightarrow> nat
   \<Rightarrow> execution_rows \<Rightarrow> 'w \<Rightarrow> execution_rows \<times> 'w" where
  "run_jobs persist reg clks env 0 rows w = (rows, w)"
| "run_jobs persist reg clks env (Suc n) rows w =
     (case run_jobs persist reg clks env n rows w of (rows1, w1) \<Rightarrow> snd (step_job_run persist reg (clks n) env rows1 w1))"

lemma step_job_run_ok:
  assumes "map_of (en_payload env) ''execution_id'' = Some (JInt i)" "i \<noteq> 0" "map_of rows i = Some e"
    and "get_workflow reg (we_workflow_name e) = Some d" "advance d clk e w = (None, e', w')"
  shows "snd (step_job_run persist reg clk env rows w) = (AList.update i (persist e e') rows, w')"
  using assms by (simp add: step_job_run_def)

lemma persist_views:
  assumes "tracks_assignments persist"
  shows "\<not> we_context_assigned e' \<Longrightarrow> we_execution_context (persist e e') = we_execution_context e"
    "we_status (persist e e') = we_status e'" "we_current_step (persist e e') = we_current_step e'"
    "we_workflow_name (persist e e') = we_workflow_name e'" "\<not> we_context_assigned (persist e e')"
  using assms by (simp_all add: tracks_assignments_def)

lemma attempts_of_context: "we_execution_context e' = we_execution_context e \<Longrightarrow> attempts_of e' = attempts_of e"
  by (simp add: attempts_of_def step_state_of_def get_step_states_def fun_eq_iff)

lemma advance_name:
  assumes "we_current_step e = Some nm" "get_step d nm = Some s" "always_fails s" "steps_respect d"
    and "attempts_of e nm + 1 < max_attempts_of s" "advance d clk e w = (err, e', w')"
  shows "we_workflow_name e' = we_workflow_name e"
proof -
  obtain r e1 w1 where ex: "execute_step d clk e s w = (r, e1, w1)" by (metis prod_cases3)
  have nm: "st_step_name s = nm" using get_step_name[OF assms(2)] .
  have at: "attempts_of e1 (st_step_name s) < max_attempts_of s" using execute_step_row(3)[OF ex] assms(5) nm by simp
  have st: "sr_status r = SS_FAILED" using always_fails_status[OF assms(3) ex] .
  define e2 where "e2 = update_step_state nm (empty_step_state\<lparr> ss_wait_until := Some (Some (clk 2)) \<rparr>) (ensure_step_states e1)"
  have "e' = e2\<lparr> we_status := WE_WAITING, we_last_transition_at := clk 3 \<rparr>"
    using assms(6) advance_unfold[OF assms(1,2) ex] st at nm
    by (simp add: handle_step_failure_def max_attempts_of_def e2_def Let_def numeral_2_eq_2 numeral_3_eq_3)
  moreover have "we_workflow_name e2 = we_workflow_name e1" by (rule row_frame_fields) (simp add: e2_def)
  moreover have "we_workflow_name e1 = we_workflow_name e" by (rule row_frame_fields) (rule execute_step_row[OF ex])
  ultimately show ?thesis by simp
qed

text \<open>C20: With the execution context in a plain JSON column, the attempts of a step do
  not survive a job.  On a row loaded with a dictionary in that column, the runner
  changes the dictionary in place and never assigns the attribute, so the column is not
  written: however many step jobs run a step that always fails and may be attempted
  twice or more, the stored row is WAITING at that step with the attempt count that was
  stored before the first job.  The workflow is retried for ever, is never marked FAILED
  and its compensations never run.\<close>

theorem stored_attempts_are_lost:
  assumes "tracks_assignments persist" "steps_respect d" "get_workflow reg (we_workflow_name e) = Some d"
    and "map_of (en_payload env) ''execution_id'' = Some (JInt i)" "i \<noteq> 0" "map_of rows i = Some e"
    and "we_current_step e = Some nm" "get_step d nm = Some s" "always_fails s"
    and "we_execution_context e \<noteq> None" "\<not> we_context_assigned e" "attempts_of e nm + 1 < max_attempts_of s" "0 < n"
  shows "\<exists>e'. map_of (fst (run_jobs persist reg clks env n rows w)) i = Some e' \<and> we_status e' = WE_WAITING \<and>
    we_current_step e' = Some nm \<and> attempts_of e' nm = attempts_of e nm \<and>
    we_execution_context e' = we_execution_context e"
proof -
  have "\<exists>e' rows' w'. run_jobs persist reg clks env m rows w = (rows', w') \<and> map_of rows' i = Some e' \<and>
     (0 < m \<longrightarrow> we_status e' = WE_WAITING) \<and> we_current_step e' = Some nm \<and>
     we_workflow_name e' = we_workflow_name e \<and> we_execution_context e' = we_execution_context e \<and>
     \<not> we_context_assigned e'" for m
  proof (induction m)
    case 0
    then show ?case using assms(6,7,11) by simp
  next
    case (Suc m)
    then obtain e1 rows1 w1 where e1: "run_jobs persist reg clks env m rows w = (rows1, w1)" "map_of rows1 i = Some e1"
      "we_current_step e1 = Some nm" "we_workflow_name e1 = we_workflow_name e"
      "we_execution_context e1 = we_execution_context e" "\<not> we_context_assigned e1" by blast
    have nm: "st_step_name s = nm" using get_step_name[OF assms(8)] .
    have at: "attempts_of e1 nm + 1 < max_attempts_of s" using assms(12) attempts_of_context[OF e1(5)] by simp
    obtain e2 w2 where adv: "advance d (clks m) e1 w1 = (None, e2, w2)"
      "saga_of e2 = saga_step d s O_Failed (saga_of e1)"
      using advance_failing[OF assms(2,8,9) e1(3)] by blast
    have "sg_status (saga_of e2) = WE_WAITING" "sg_current (saga_of e2) = Some nm"
      unfolding adv(2) using at nm e1(3) by (simp_all add: saga_step_def Let_def)
    moreover have "we_workflow_name e2 = we_workflow_name e"
      using advance_name[OF e1(3) assms(8,9,2) at adv(1)] e1(4) by simp
    moreover have "snd (step_job_run persist reg (clks m) env rows1 w1) = (AList.update i (persist e1 e2) rows1, w2)"
      using assms(3) e1(4) by (intro step_job_run_ok[OF assms(4,5) e1(2) _ adv(1)]) simp
    moreover have "\<not> we_context_assigned e2"
      using advance_in_place[OF e1(3) assms(8) adv(1)] e1(5,6) assms(10) by (simp add: in_place_def)
    ultimately show ?case using e1(1,5) persist_views[OF assms(1), where e = e1 and e' = e2] by simp
  qed
  from this[of n] obtain e' rows' w' where e': "run_jobs persist reg clks env n rows w = (rows', w')"
    "map_of rows' i = Some e'" "we_status e' = WE_WAITING" "we_current_step e' = Some nm"
    "we_execution_context e' = we_execution_context e"
    using assms(13) by blast
  with attempts_of_context[OF e'(5)] show ?thesis by simp
qed

definition demo_job_envelope :: job_envelope where
  "demo_job_envelope = demo_envelope\<lparr> en_payload := [(''execution_id'', JInt 1)] \<rparr>"

theorem stored_attempts_are_lost_witness:
  "\<exists>e'. map_of (fst (run_jobs plain_json_column [(''order'', demo)] (\<lambda>i j. 10 * int i + int j) demo_job_envelope 100
        [(1, fst (demo_resumes 1))] [])) 1 = Some e' \<and> we_status e' = WE_WAITING \<and> attempts_of e' ''charge'' = 0"
proof -
  let ?e = "fst (demo_resumes 1)" and ?s = "wd_steps demo ! 1"
  have s: "get_step demo ''charge'' = Some ?s" "always_fails ?s" "max_attempts_of ?s = 2"
    by (simp_all add: get_step_def demo_def always_fails_def max_attempts_of_def effective_policy_def demo_policy_def)
  have e: "we_current_step ?e = Some ''charge''" "attempts_of ?e ''charge'' = 0" "we_execution_context ?e \<noteq> None"
    "\<not> we_context_assigned ?e" "we_workflow_name ?e = ''order''"
    by code_simp+
  have g: "get_workflow [(''order'', demo)] (we_workflow_name ?e) = Some demo"
    "map_of (en_payload demo_job_envelope) ''execution_id'' = Some (JInt 1)" "(1::int) \<noteq> 0"
    "map_of [(1, ?e)] (1::int) = Some ?e"
    unfolding e(5) by (simp_all add: get_workflow_def demo_job_envelope_def)
  have at: "attempts_of ?e ''charge'' + 1 < max_attempts_of ?s" using e(2) s(3) by simp
  show ?thesis
    using stored_attempts_are_lost[OF plain_json_column_tracks demo_respects(1) g e(1) s(1,2) e(3,4) at, of 100
        "\<lambda>i j. 10 * int i + int j" "[]"] e(2)
    by auto
qed

section \<open>The job's errors\<close>

text \<open>A step job either commits exactly one advance or changes no row.  When it
  returns, the workflow of the stored execution was registered, the row was advanced
  once and no other row changed; every failure leaves all rows as they were, and is
  retried by the queue unless the payload names no execution.\<close>

theorem step_job_all_or_nothing:
  "(case step_job_run persist reg clk env rows w of
      (Inr res, rows', w') \<Rightarrow> \<exists>i e d e'. map_of (en_payload env) ''execution_id'' = Some (JInt i) \<and> map_of rows i = Some e \<and>
        get_workflow reg (we_workflow_name e) = Some d \<and> advance d clk e w = (None, e', w') \<and>
        wr_workflow_status res = we_status e' \<and> wr_current_step res = we_current_step e' \<and>
        map_of rows' = (map_of rows)(i \<mapsto> persist e e')
    | (Inl err, rows', w') \<Rightarrow> rows' = rows \<and>
        (case step_job_exn err of
           Retryable _ dfr _ \<Rightarrow> dfr = None \<and> (\<exists>v. map_of (en_payload env) ''execution_id'' = Some v \<and> json_truthy v)
         | Other_Exception _ \<Rightarrow> (case map_of (en_payload env) ''execution_id'' of None \<Rightarrow> True | Some v \<Rightarrow> \<not> json_truthy v)
         | Non_Retryable _ \<Rightarrow> False))"
  by (auto simp: step_job_run_def step_job_exn_def AList.update_conv split: option.splits json.splits prod.splits)

end
