(* ===== verification/Webhook_Model.thy ===== *)
theory Webhook_Model
  imports Request_Context
begin

text \<open>
  core/db/webhook_event.py, the request and event records of webhooks/ingestion.py and
  webhooks/signatures.py, and webhooks/persistence.py: the inbox table of webhook
  deliveries, the store that writes it, and the status changes of a row.

  The standard library functions that the code calls on the payload are gathered in a
  record that the definitions take as an argument: the hex digest of SHA-256, the
  decoding of bytes under a named charset with errors replaced (which raises for an
  unknown charset), the JSON parser, and \<open>repr\<close> of a JSON value that is not a scalar.
  A byte is a \<open>char\<close>.  The state of the HTTP request that the code reads is its headers
  (Starlette's case-insensitive lookup) and its request-context state.
\<close>

type_synonym bytes = string

record stdlib =
  lib_sha256 :: "bytes \<Rightarrow> string"
  lib_decode :: "string \<Rightarrow> bytes \<Rightarrow> exn + string"
  lib_loads :: "bytes \<Rightarrow> exn + json"
  lib_repr :: "json \<Rightarrow> string"

text \<open>\<open>str\<close> of a JSON value.\<close>

definition py_str :: "stdlib \<Rightarrow> json \<Rightarrow> string" where
  "py_str lib j = (case j of JStr s \<Rightarrow> s | JInt i \<Rightarrow> show_int i | JNull \<Rightarrow> ''None''
     | JBool b \<Rightarrow> (if b then ''True'' else ''False'') | _ \<Rightarrow> lib_repr lib j)"

section \<open>Requests and validated events\<close>

record ingestion_request =
  iq_headers :: "string \<Rightarrow> string option"
  iq_state :: request_state
  iq_raw_body :: bytes
  iq_content_type :: "string option"

definition payload_size_bytes :: "ingestion_request \<Rightarrow> int" where
  "payload_size_bytes q = int (length (iq_raw_body q))"

definition none_if_empty :: "'a list \<Rightarrow> 'a list option" where
  "none_if_empty xs = (if xs = [] then None else Some xs)"

definition media_type :: "ingestion_request \<Rightarrow> string option" where
  "media_type q =
     (if \<not> truthy_list (iq_content_type q) then None
      else none_if_empty (map char_lower (py_strip (hd (split_at (CHR '';'') (the (iq_content_type q)))))))"

definition is_quote :: "char \<Rightarrow> bool" where
  "is_quote c \<longleftrightarrow> c = CHR 0x22 \<or> c = CHR 0x27"

fun find_charset :: "string list \<Rightarrow> string option" where
  "find_charset [] = None"
| "find_charset (component # rest) =
     (case partition_at (CHR ''='') component of (name, value) \<Rightarrow>
        if map char_lower (py_strip name) \<noteq> ''charset'' then find_charset rest
        else none_if_empty (rev (dropWhile is_quote (rev (dropWhile is_quote (py_strip value))))))"

definition charset :: "ingestion_request \<Rightarrow> string option" where
  "charset q =
     (if \<not> truthy_list (iq_content_type q) then None
      else find_charset (tl (split_at (CHR '';'') (the (iq_content_type q)))))"

definition request_text :: "stdlib \<Rightarrow> ingestion_request \<Rightarrow> exn + string" where
  "request_text lib q = lib_decode lib (or_list (charset q) ''utf-8'') (iq_raw_body q)"

record validated_event =
  ve_event_type :: string
  ve_event_id :: "string option"
  ve_delivery_id :: "string option"
  ve_normalized_payload :: "dict option"
  ve_processing_metadata :: "dict option"

definition validated_event_post_init :: "validated_event \<Rightarrow> string + validated_event" where
  "validated_event_post_init v =
     (if py_strip (ve_event_type v) = [] then Inl ''Webhook validated event_type must not be empty'' else Inr v)"

record signature_context =
  sc_provider :: string
  sc_endpoint_key :: string
  sc_request :: ingestion_request
  sc_signature_max_age_seconds :: "int option"
  sc_received_at :: instant

record signature_result =
  sv_provider :: string
  sv_endpoint_key :: string
  sv_verified_at :: instant
  sv_signature :: "string option"
  sv_algorithm :: "string option"
  sv_key_id :: "string option"
  sv_signed_at :: "instant option"

section \<open>The inbox table\<close>

datatype webhook_status = WH_RECEIVED | WH_ACKNOWLEDGED | WH_REJECTED | WH_ENQUEUED | WH_PROCESSED | WH_FAILED

fun webhook_status_value :: "webhook_status \<Rightarrow> string" where
  "webhook_status_value WH_RECEIVED = ''received''"
| "webhook_status_value WH_ACKNOWLEDGED = ''acknowledged''"
| "webhook_status_value WH_REJECTED = ''rejected''"
| "webhook_status_value WH_ENQUEUED = ''enqueued''"
| "webhook_status_value WH_PROCESSED = ''processed''"
| "webhook_status_value WH_FAILED = ''failed''"

definition all_webhook_statuses :: "webhook_status list" where
  "all_webhook_statuses = [WH_RECEIVED, WH_ACKNOWLEDGED, WH_REJECTED, WH_ENQUEUED, WH_PROCESSED, WH_FAILED]"

record webhook_event =
  ev_source :: string
  ev_endpoint_key :: string
  ev_event_type :: string
  ev_status :: webhook_status
  ev_delivery_id :: "string option"
  ev_event_id :: "string option"
  ev_signature_verified :: "bool option"
  ev_payload_content_type :: "string option"
  ev_payload_sha256 :: "string option"
  ev_payload_size_bytes :: "int option"
  ev_received_at :: instant
  ev_acknowledged_at :: "instant option"
  ev_processed_at :: "instant option"
  ev_raw_payload :: "string option"
  ev_normalized_payload :: "dict option"
  ev_processing_metadata :: "dict option"
  ev_processing_error :: "string option"

type_synonym webhook_table = "webhook_event table"

definition update_row :: "int \<Rightarrow> ('r \<Rightarrow> 'r) \<Rightarrow> 'r table \<Rightarrow> 'r table" where
  "update_row i f t = t\<lparr> tb_rows := map (\<lambda>row. if fst row = i then (i, f (snd row)) else row) (tb_rows t) \<rparr>"

section \<open>Persistence\<close>

datatype status_like = Status webhook_status | Status_Text string

record persistence_request =
  pq_source :: string
  pq_endpoint_key :: string
  pq_event_type :: string
  pq_request :: ingestion_request
  pq_delivery_id :: "string option"
  pq_event_id :: "string option"
  pq_normalized_payload :: "dict option"
  pq_processing_metadata :: "dict option"
  pq_signature_verification :: "signature_result option"
  pq_signature_verified :: "bool option"
  pq_status :: status_like
  pq_store_raw_payload :: bool
  pq_raw_payload_text :: "string option"
  pq_received_at :: "instant option"

definition coerce_webhook_event_status :: "status_like \<Rightarrow> string + webhook_status" where
  "coerce_webhook_event_status status =
     (case status of
        Status st \<Rightarrow> Inr st
      | Status_Text s \<Rightarrow>
          (case List.find (\<lambda>st. webhook_status_value st = map char_lower (py_strip s)) all_webhook_statuses of
             None \<Rightarrow> Inl (''Unsupported webhook event status: '' @ s)
           | Some st \<Rightarrow> Inr st))"

definition copy_mapping :: "dict option \<Rightarrow> dict option" where
  "copy_mapping value = Option.bind value none_if_empty"

definition resolve_signature_verified :: "persistence_request \<Rightarrow> bool option" where
  "resolve_signature_verified q =
     (case pq_signature_verified q of
        Some b \<Rightarrow> Some b
      | None \<Rightarrow> if pq_signature_verification q \<noteq> None then Some True else None)"

definition opt_field :: "string \<Rightarrow> json option \<Rightarrow> dict" where
  "opt_field k v = (case v of None \<Rightarrow> [] | Some x \<Rightarrow> [(k, x)])"

definition build_signature_metadata :: "signature_result option \<Rightarrow> dict option" where
  "build_signature_metadata verification =
     (case verification of
        None \<Rightarrow> None
      | Some v \<Rightarrow> Some ([(''verified_at'', JStr (isoformat (sv_verified_at v)))]
          @ opt_field ''algorithm'' (map_option JStr (sv_algorithm v))
          @ opt_field ''key_id'' (map_option JStr (sv_key_id v))
          @ opt_field ''signed_at'' (map_option (\<lambda>t. JStr (isoformat t)) (sv_signed_at v))))"

fun dict_update :: "dict \<Rightarrow> dict \<Rightarrow> dict" where
  "dict_update d [] = d"
| "dict_update d ((k, v) # rest) = dict_update (AList.update k v d) rest"

definition build_processing_metadata :: "persistence_request \<Rightarrow> dict option" where
  "build_processing_metadata q =
     (let metadata = copy_mapping (pq_processing_metadata q)
      in (case build_signature_metadata (pq_signature_verification q) of
            None \<Rightarrow> metadata
          | Some signature_metadata \<Rightarrow>
              let combined = or_list metadata [];
                  existing = (case map_of combined ''signature'' of Some (JDict d) \<Rightarrow> d | _ \<Rightarrow> [])
              in none_if_empty (AList.update ''signature'' (JDict (dict_update existing signature_metadata)) combined)))"

definition render_raw_payload :: "stdlib \<Rightarrow> persistence_request \<Rightarrow> exn + string option" where
  "render_raw_payload lib q =
     (if \<not> pq_store_raw_payload q then Inr None
      else (case pq_raw_payload_text q of
              Some s \<Rightarrow> Inr (Some s)
            | None \<Rightarrow> map_sum id Some (request_text lib (pq_request q))))"

text \<open>The first component of a failed build is the \<open>ValueError\<close> text or the decoder's exception.\<close>

definition build_event :: "stdlib \<Rightarrow> instant \<Rightarrow> persistence_request \<Rightarrow> exn + webhook_event" where
  "build_event lib now q =
     (case coerce_webhook_event_status (pq_status q) of
        Inl msg \<Rightarrow> Inl \<lparr> exn_message = msg, exn_code = None \<rparr>
      | Inr status \<Rightarrow>
          bind_sum (render_raw_payload lib q) (\<lambda>raw_payload.
            Inr \<lparr> ev_source = pq_source q, ev_endpoint_key = pq_endpoint_key q, ev_event_type = pq_event_type q,
                  ev_status = status, ev_delivery_id = pq_delivery_id q, ev_event_id = pq_event_id q,
                  ev_signature_verified = resolve_signature_verified q,
                  ev_payload_content_type = iq_content_type (pq_request q),
                  ev_payload_sha256 = Some (lib_sha256 lib (iq_raw_body (pq_request q))),
                  ev_payload_size_bytes = Some (payload_size_bytes (pq_request q)),
                  ev_received_at = (case pq_received_at q of None \<Rightarrow> now | Some t \<Rightarrow> t),
                  ev_acknowledged_at = None, ev_processed_at = None, ev_raw_payload = raw_payload,
                  ev_normalized_payload = copy_mapping (pq_normalized_payload q),
                  ev_processing_metadata = build_processing_metadata q, ev_processing_error = None \<rparr>))"

definition persist_event :: "stdlib \<Rightarrow> instant \<Rightarrow> persistence_request \<Rightarrow> webhook_table \<Rightarrow> (exn + int \<times> webhook_event) \<times> webhook_table" where
  "persist_event lib now q t =
     (case build_event lib now q of
        Inl exc \<Rightarrow> (Inl exc, t)
      | Inr event \<Rightarrow> (case insert_row event t of (i, t') \<Rightarrow> (Inr (i, event), t')))"

section \<open>Status changes\<close>

definition merge_processing_metadata :: "dict option \<Rightarrow> dict option \<Rightarrow> dict option" where
  "merge_processing_metadata existing updates =
     (if existing = None \<and> updates = None then None
      else none_if_empty (dict_update (or_list existing []) (or_list updates [])))"

definition set_status ::
  "webhook_status \<Rightarrow> instant option \<Rightarrow> instant option \<Rightarrow> string option \<Rightarrow> dict option \<Rightarrow> dict option \<Rightarrow> webhook_event \<Rightarrow> webhook_event" where
  "set_status status acknowledged_at processed_at processing_error normalized_payload processing_metadata e =
     (let e1 = e\<lparr> ev_status := status \<rparr>;
          e2 = (if acknowledged_at \<noteq> None then e1\<lparr> ev_acknowledged_at := acknowledged_at \<rparr> else e1);
          e3 = (if processed_at \<noteq> None then e2\<lparr> ev_processed_at := processed_at \<rparr> else e2);
          e4 = (if processing_error \<noteq> None then e3\<lparr> ev_processing_error := processing_error \<rparr> else e3);
          e5 = (if normalized_payload \<noteq> None then e4\<lparr> ev_normalized_payload := normalized_payload \<rparr> else e4);
          merged = merge_processing_metadata (ev_processing_metadata e5) processing_metadata
      in if merged \<noteq> None \<or> ev_processing_metadata e5 \<noteq> None then e5\<lparr> ev_processing_metadata := merged \<rparr> else e5)"

definition instant_or :: "instant \<Rightarrow> instant option \<Rightarrow> instant" where
  "instant_or now t = (case t of None \<Rightarrow> now | Some x \<Rightarrow> x)"

definition mark_acknowledged :: "instant \<Rightarrow> instant option \<Rightarrow> dict option \<Rightarrow> webhook_event \<Rightarrow> webhook_event" where
  "mark_acknowledged now acknowledged_at md =
     set_status WH_ACKNOWLEDGED (Some (instant_or now acknowledged_at)) None None None md"

definition mark_enqueued :: "dict option \<Rightarrow> webhook_event \<Rightarrow> webhook_event" where
  "mark_enqueued md = set_status WH_ENQUEUED None None None None md"

definition mark_processed :: "instant \<Rightarrow> instant option \<Rightarrow> dict option \<Rightarrow> dict option \<Rightarrow> webhook_event \<Rightarrow> webhook_event" where
  "mark_processed now processed_at normalized_payload md =
     set_status WH_PROCESSED None (Some (instant_or now processed_at)) None normalized_payload md"

definition mark_rejected :: "instant \<Rightarrow> instant option \<Rightarrow> string option \<Rightarrow> dict option \<Rightarrow> webhook_event \<Rightarrow> webhook_event" where
  "mark_rejected now processed_at processing_error md =
     set_status WH_REJECTED None (Some (instant_or now processed_at)) processing_error None md"

definition mark_failed :: "instant \<Rightarrow> instant option \<Rightarrow> string option \<Rightarrow> dict option \<Rightarrow> webhook_event \<Rightarrow> webhook_event" where
  "mark_failed now processed_at processing_error md =
     set_status WH_FAILED None (Some (instant_or now processed_at)) processing_error None md"

end
