(* ===== verification/Webhook_Guards.thy ===== *)
theory Webhook_Guards
  imports Webhook_Model
begin

text \<open>
  The checks that a delivery passes: webhooks/replay.py (replay protection on the inbox
  table), webhooks/idempotency.py with core/db/idempotency_key.py (the idempotency
  ledger), and the HMAC verifier of webhooks/providers/base.py.  The MAC of a message
  under a secret (the text that \<open>_compute_signature\<close> renders with the configured
  algorithm and encoding) is an argument.
\<close>

section \<open>Replay protection\<close>

datatype replay_key_kind = DELIVERY_ID | EVENT_ID | PAYLOAD_SHA256

record replay_check =
  rk_source :: string
  rk_endpoint_key :: string
  rk_request :: ingestion_request
  rk_event :: validated_event
  rk_window_seconds :: int
  rk_checked_at :: instant

definition replay_check_post_init :: "replay_check \<Rightarrow> string + replay_check" where
  "replay_check_post_init q =
     (if py_strip (rk_source q) = [] then Inl ''Webhook replay protection source must not be empty''
      else if py_strip (rk_endpoint_key q) = [] then Inl ''Webhook replay protection endpoint_key must not be empty''
      else if rk_window_seconds q < 1 then Inl ''Webhook replay window must be at least 1 second''
      else Inr q)"

definition rk_payload_sha256 :: "stdlib \<Rightarrow> replay_check \<Rightarrow> string" where
  "rk_payload_sha256 lib q = lib_sha256 lib (iq_raw_body (rk_request q))"

definition replay_window_started_at :: "replay_check \<Rightarrow> instant" where
  "replay_window_started_at q = rk_checked_at q - seconds (rk_window_seconds q)"

definition primary_key_kind :: "replay_check \<Rightarrow> replay_key_kind" where
  "primary_key_kind q =
     (if ve_delivery_id (rk_event q) \<noteq> None then DELIVERY_ID
      else if ve_event_id (rk_event q) \<noteq> None then EVENT_ID else PAYLOAD_SHA256)"

definition primary_key_value :: "stdlib \<Rightarrow> replay_check \<Rightarrow> string" where
  "primary_key_value lib q =
     (case primary_key_kind q of
        DELIVERY_ID \<Rightarrow> or_list (ve_delivery_id (rk_event q)) (rk_payload_sha256 lib q)
      | EVENT_ID \<Rightarrow> or_list (ve_event_id (rk_event q)) (rk_payload_sha256 lib q)
      | PAYLOAD_SHA256 \<Rightarrow> rk_payload_sha256 lib q)"

record replay_result =
  rr_source :: string
  rr_endpoint_key :: string
  rr_event_type :: string
  rr_key_kind :: replay_key_kind
  rr_key_value :: string
  rr_payload_sha256 :: string
  rr_window_seconds :: int
  rr_checked_at :: instant
  rr_delivery_id :: "string option"
  rr_event_id :: "string option"

fun replay_key_kind_value :: "replay_key_kind \<Rightarrow> string" where
  "replay_key_kind_value DELIVERY_ID = ''delivery_id''"
| "replay_key_kind_value EVENT_ID = ''event_id''"
| "replay_key_kind_value PAYLOAD_SHA256 = ''payload_sha256''"

definition replay_metadata :: "replay_result \<Rightarrow> dict" where
  "replay_metadata r = [(''replay_protection'', JDict
     ([(''checked_at'', JStr (isoformat (rr_checked_at r))),
       (''key_kind'', JStr (replay_key_kind_value (rr_key_kind r))),
       (''key_value'', JStr (rr_key_value r)),
       (''payload_sha256'', JStr (rr_payload_sha256 r)),
       (''window_seconds'', JInt (rr_window_seconds r))]
      @ opt_field ''delivery_id'' (map_option JStr (rr_delivery_id r))
      @ opt_field ''event_id'' (map_option JStr (rr_event_id r))))]"

record replay_match =
  rm_source :: string
  rm_endpoint_key :: string
  rm_matched_on :: "replay_key_kind list"
  rm_existing_event_id :: int
  rm_existing_status :: webhook_status
  rm_existing_received_at :: instant
  rm_existing_payload_sha256 :: "string option"
  rm_candidate_payload_sha256 :: string
  rm_delivery_id :: "string option"
  rm_event_id :: "string option"

text \<open>The rows that the query selects; a null column equals nothing.\<close>

definition replay_filter :: "stdlib \<Rightarrow> replay_check \<Rightarrow> webhook_event \<Rightarrow> bool" where
  "replay_filter lib q e \<longleftrightarrow>
     ev_source e = rk_source q \<and> ev_endpoint_key e = rk_endpoint_key q \<and>
     ev_received_at e \<ge> replay_window_started_at q \<and>
     (let d = ve_delivery_id (rk_event q); i = ve_event_id (rk_event q)
      in if d \<noteq> None \<or> i \<noteq> None
         then (d \<noteq> None \<and> ev_delivery_id e = d) \<or> (i \<noteq> None \<and> ev_event_id e = i)
         else ev_event_type e = ve_event_type (rk_event q) \<and> ev_payload_sha256 e = Some (rk_payload_sha256 lib q))"

text \<open>The first row of a selection ordered by an instant and then the id, both descending.\<close>

fun latest :: "('r \<Rightarrow> instant) \<Rightarrow> (int \<times> 'r) list \<Rightarrow> (int \<times> 'r) option" where
  "latest time_of [] = None"
| "latest time_of (row # rows) =
     (case latest time_of rows of
        None \<Rightarrow> Some row
      | Some best \<Rightarrow>
          if time_of (snd row) > time_of (snd best) \<or> (time_of (snd row) = time_of (snd best) \<and> fst row > fst best)
          then Some row else Some best)"

definition find_existing_event :: "stdlib \<Rightarrow> replay_check \<Rightarrow> webhook_table \<Rightarrow> (int \<times> webhook_event) option" where
  "find_existing_event lib q t = latest ev_received_at (filter (\<lambda>row. replay_filter lib q (snd row)) (tb_rows t))"

definition build_replay_match :: "stdlib \<Rightarrow> replay_check \<Rightarrow> int \<times> webhook_event \<Rightarrow> replay_match" where
  "build_replay_match lib q row =
     (case row of (i, e) \<Rightarrow>
        let d = ve_delivery_id (rk_event q); v = ve_event_id (rk_event q);
            by_id = (if d \<noteq> None \<and> d = ev_delivery_id e then [DELIVERY_ID] else [])
                    @ (if v \<noteq> None \<and> v = ev_event_id e then [EVENT_ID] else []);
            matched_on = (if by_id = [] \<and> Some (rk_payload_sha256 lib q) = ev_payload_sha256 e
                          then [PAYLOAD_SHA256] else by_id)
        in \<lparr> rm_source = rk_source q, rm_endpoint_key = rk_endpoint_key q,
             rm_matched_on = (if matched_on = [] then [primary_key_kind q] else matched_on),
             rm_existing_event_id = i, rm_existing_status = ev_status e, rm_existing_received_at = ev_received_at e,
             rm_existing_payload_sha256 = ev_payload_sha256 e, rm_candidate_payload_sha256 = rk_payload_sha256 lib q,
             rm_delivery_id = d, rm_event_id = v \<rparr>)"

definition replay_fingerprint_mismatch :: "replay_match \<Rightarrow> bool" where
  "replay_fingerprint_mismatch m =
     (if PAYLOAD_SHA256 \<in> set (rm_matched_on m) then False
      else (case rm_existing_payload_sha256 m of None \<Rightarrow> False | Some h \<Rightarrow> h \<noteq> rm_candidate_payload_sha256 m))"

datatype replay_error = Replay_Detected replay_match | Replay_Fingerprint_Mismatch replay_match

definition replay_protect :: "stdlib \<Rightarrow> replay_check \<Rightarrow> webhook_table \<Rightarrow> replay_error + replay_result" where
  "replay_protect lib q t =
     (case find_existing_event lib q t of
        Some row \<Rightarrow>
          let m = build_replay_match lib q row
          in Inl (if replay_fingerprint_mismatch m then Replay_Fingerprint_Mismatch m else Replay_Detected m)
      | None \<Rightarrow>
          Inr \<lparr> rr_source = rk_source q, rr_endpoint_key = rk_endpoint_key q, rr_event_type = ve_event_type (rk_event q),
                rr_key_kind = primary_key_kind q, rr_key_value = primary_key_value lib q,
                rr_payload_sha256 = rk_payload_sha256 lib q, rr_window_seconds = rk_window_seconds q,
                rr_checked_at = rk_checked_at q, rr_delivery_id = ve_delivery_id (rk_event q),
                rr_event_id = ve_event_id (rk_event q) \<rparr>)"

section \<open>Idempotency\<close>

datatype idempotency_status = IK_RECEIVED | IK_PROCESSING | IK_COMPLETED | IK_FAILED | IK_EXPIRED

record idempotency_record =
  ik_scope :: string
  ik_key :: string
  ik_status :: idempotency_status
  ik_request_fingerprint :: "string option"
  ik_recovery_point :: "string option"
  ik_locked_until :: "instant option"
  ik_expires_at :: "instant option"
  ik_first_seen_at :: instant
  ik_last_seen_at :: instant
  ik_hit_count :: int
  ik_completed_at :: "instant option"
  ik_processing_metadata :: "dict option"
  ik_error_code :: "string option"
  ik_error_detail :: "string option"

definition uq_idempotency :: "idempotency_record \<Rightarrow> string \<times> string" where
  "uq_idempotency r = (ik_scope r, ik_key r)"

record idempotency_check =
  ic_source :: string
  ic_endpoint_key :: string
  ic_request :: ingestion_request
  ic_event :: validated_event
  ic_window_seconds :: int
  ic_checked_at :: instant

definition idempotency_check_post_init :: "idempotency_check \<Rightarrow> string + idempotency_check" where
  "idempotency_check_post_init q =
     (if py_strip (ic_source q) = [] then Inl ''Webhook idempotency source must not be empty''
      else if py_strip (ic_endpoint_key q) = [] then Inl ''Webhook idempotency endpoint_key must not be empty''
      else if ic_window_seconds q < 1 then Inl ''Webhook idempotency window must be at least 1 second''
      else Inr q)"

definition idempotency_scope :: "idempotency_check \<Rightarrow> string" where
  "idempotency_scope q = ''webhook:'' @ ic_source q @ '':'' @ ic_endpoint_key q"

definition request_fingerprint :: "stdlib \<Rightarrow> idempotency_check \<Rightarrow> string" where
  "request_fingerprint lib q = lib_sha256 lib (iq_raw_body (ic_request q))"

definition idempotency_key :: "stdlib \<Rightarrow> idempotency_check \<Rightarrow> string" where
  "idempotency_key lib q =
     (case ve_event_id (ic_event q) of
        Some i \<Rightarrow> ''event_id:'' @ i
      | None \<Rightarrow> (case ve_delivery_id (ic_event q) of
                  Some d \<Rightarrow> ''delivery_id:'' @ d
                | None \<Rightarrow> ''payload_sha256:'' @ request_fingerprint lib q))"

definition window_started_at :: "idempotency_check \<Rightarrow> instant" where
  "window_started_at q = ic_checked_at q - seconds (ic_window_seconds q)"

record idempotency_result =
  ir_scope :: string
  ir_key :: string
  ir_fingerprint :: string
  ir_window_seconds :: int
  ir_checked_at :: instant
  ir_event_id :: "string option"
  ir_delivery_id :: "string option"

record idempotency_match =
  im_scope :: string
  im_key :: string
  im_existing_record_id :: int
  im_existing_status :: idempotency_status
  im_existing_first_seen_at :: instant
  im_existing_hit_count :: int
  im_request_fingerprint :: "string option"
  im_candidate_fingerprint :: string

datatype idempotency_error = Idempotency_Violation idempotency_match | Idempotency_Fingerprint_Mismatch idempotency_match

definition find_existing_record ::
  "stdlib \<Rightarrow> idempotency_check \<Rightarrow> idempotency_record table \<Rightarrow> (int \<times> idempotency_record) option" where
  "find_existing_record lib q t = latest ik_first_seen_at
     (filter (\<lambda>row. ik_scope (snd row) = idempotency_scope q \<and> ik_key (snd row) = idempotency_key lib q
                    \<and> ik_first_seen_at (snd row) \<ge> window_started_at q) (tb_rows t))"

definition idempotency_fingerprint_mismatch :: "idempotency_match \<Rightarrow> bool" where
  "idempotency_fingerprint_mismatch m =
     (case im_request_fingerprint m of None \<Rightarrow> False | Some f \<Rightarrow> f \<noteq> im_candidate_fingerprint m)"

definition touch_record :: "instant \<Rightarrow> idempotency_record \<Rightarrow> idempotency_record" where
  "touch_record checked_at r =
     r\<lparr> ik_hit_count := (if ik_hit_count r = 0 then 1 else ik_hit_count r) + 1, ik_last_seen_at := checked_at \<rparr>"

definition build_idempotency_match :: "stdlib \<Rightarrow> idempotency_check \<Rightarrow> int \<times> idempotency_record \<Rightarrow> idempotency_match" where
  "build_idempotency_match lib q row =
     \<lparr> im_scope = idempotency_scope q, im_key = idempotency_key lib q, im_existing_record_id = fst row,
       im_existing_status = ik_status (snd row), im_existing_first_seen_at = ik_first_seen_at (snd row),
       im_existing_hit_count = ik_hit_count (snd row), im_request_fingerprint = ik_request_fingerprint (snd row),
       im_candidate_fingerprint = request_fingerprint lib q \<rparr>"

definition idempotency_protect ::
  "stdlib \<Rightarrow> idempotency_check \<Rightarrow> idempotency_record table
   \<Rightarrow> (idempotency_error + idempotency_result) \<times> idempotency_record table" where
  "idempotency_protect lib q t =
     (case find_existing_record lib q t of
        Some (i, r) \<Rightarrow>
          let r' = touch_record (ic_checked_at q) r;
              m = build_idempotency_match lib q (i, r')
          in (Inl (if idempotency_fingerprint_mismatch m then Idempotency_Fingerprint_Mismatch m else Idempotency_Violation m),
              update_row i (touch_record (ic_checked_at q)) t)
      | None \<Rightarrow>
          (Inr \<lparr> ir_scope = idempotency_scope q, ir_key = idempotency_key lib q,
                 ir_fingerprint = request_fingerprint lib q, ir_window_seconds = ic_window_seconds q,
                 ir_checked_at = ic_checked_at q, ir_event_id = ve_event_id (ic_event q),
                 ir_delivery_id = ve_delivery_id (ic_event q) \<rparr>, t))"

definition idempotency_row :: "stdlib \<Rightarrow> dict option \<Rightarrow> idempotency_check \<Rightarrow> idempotency_record" where
  "idempotency_row lib processing_metadata q =
     \<lparr> ik_scope = idempotency_scope q, ik_key = idempotency_key lib q, ik_status = IK_PROCESSING,
       ik_request_fingerprint = Some (request_fingerprint lib q), ik_recovery_point = None, ik_locked_until = None,
       ik_expires_at = Some (ic_checked_at q + seconds (ic_window_seconds q)),
       ik_first_seen_at = ic_checked_at q, ik_last_seen_at = ic_checked_at q, ik_hit_count = 1,
       ik_completed_at = None, ik_processing_metadata = processing_metadata, ik_error_code = None, ik_error_detail = None \<rparr>"

definition record_idempotency_key ::
  "stdlib \<Rightarrow> dict option \<Rightarrow> idempotency_check \<Rightarrow> idempotency_record table
   \<Rightarrow> integrity_error + int \<times> idempotency_record table" where
  "record_idempotency_key lib processing_metadata q t =
     insert_unique uq_idempotency (idempotency_row lib processing_metadata q) t"

definition store_key ::
  "stdlib \<Rightarrow> dict option \<Rightarrow> idempotency_record table \<Rightarrow> idempotency_check \<Rightarrow> integrity_error + idempotency_record table" where
  "store_key lib md t q = map_sum id snd (record_idempotency_key lib md q t)"

interpretation idempotency_ledger: unique_ledger "store_key lib md" "find_row uq_idempotency"
    "\<lambda>q. (idempotency_scope q, idempotency_key lib q)" "idempotency_row lib md" for lib md
  by (rule insert_unique_ledger)
    (simp_all add: store_key_def record_idempotency_key_def uq_idempotency_def idempotency_row_def)

section \<open>HMAC signatures\<close>

record provider_config =
  pc_source :: string
  pc_endpoint_key :: string
  pc_signing_secret :: "string option"
  pc_signature_header :: "string option"
  pc_signature_algorithm :: string
  pc_signature_encoding :: string
  pc_signature_prefix :: string
  pc_timestamp_header :: "string option"
  pc_max_age_seconds :: "int option"
  pc_enabled :: bool

datatype signature_error =
    Missing_Signature string
  | Invalid_Signature string
  | Stale_Signature string
  | Signature_Type_Error
  | Signature_Value_Error string

definition hmac_verifier_init :: "provider_config \<Rightarrow> signature_error + provider_config" where
  "hmac_verifier_init c =
     (if pc_signing_secret c = None then Inl (Signature_Value_Error (''WebhookProviderConfig for '' @ py_quote (pc_source c) @
        '' must include a signing_secret when using HmacWebhookVerifier''))
      else if pc_signature_header c = None then Inl (Signature_Value_Error (''WebhookProviderConfig for '' @ py_quote (pc_source c) @
        '' must include a signature_header when using HmacWebhookVerifier''))
      else Inr c)"

definition get_header :: "signature_context \<Rightarrow> string \<Rightarrow> bool \<Rightarrow> signature_error + string option" where
  "get_header ctx name required =
     (case iq_headers (sc_request ctx) name of
        None \<Rightarrow> if required then Inl (Missing_Signature (''Missing required webhook signature header: '' @ name)) else Inr None
      | Some v \<Rightarrow> Inr (Some v))"

fun first_header :: "signature_context \<Rightarrow> string list \<Rightarrow> string option" where
  "first_header ctx [] = None"
| "first_header ctx (name # names) =
     (case iq_headers (sc_request ctx) name of Some v \<Rightarrow> Some v | None \<Rightarrow> first_header ctx names)"

definition extract_signature :: "provider_config \<Rightarrow> signature_context \<Rightarrow> signature_error + string" where
  "extract_signature c ctx =
     (case get_header ctx (the (pc_signature_header c)) True of
        Inl e \<Rightarrow> Inl e
      | Inr raw_value \<Rightarrow>
          let signature = py_strip (the raw_value); prefix = pc_signature_prefix c
          in Inr (py_strip (if prefix \<noteq> [] \<and> take (length prefix) signature = prefix
                            then drop (length prefix) signature else signature)))"

definition hmac_verify ::
  "(string \<Rightarrow> string \<Rightarrow> string \<Rightarrow> bytes \<Rightarrow> string) \<Rightarrow> instant \<Rightarrow> provider_config \<Rightarrow> signature_context \<Rightarrow> signature_error + signature_result" where
  "hmac_verify mac now c ctx =
     bind_sum (extract_signature c ctx) (\<lambda>received_signature.
       let signing_input = iq_raw_body (sc_request ctx);
           expected_signature = mac (pc_signature_algorithm c) (pc_signature_encoding c) (the (pc_signing_secret c)) signing_input
       in (case compare_digest received_signature expected_signature of
             None \<Rightarrow> Inl Signature_Type_Error
           | Some False \<Rightarrow> Inl (Invalid_Signature (''Webhook signature mismatch for provider '' @ py_quote (pc_source c)))
           | Some True \<Rightarrow>
               Inr \<lparr> sv_provider = pc_source c, sv_endpoint_key = pc_endpoint_key c, sv_verified_at = now,
                     sv_signature = Some received_signature, sv_algorithm = Some (''hmac-'' @ pc_signature_algorithm c),
                     sv_key_id = None, sv_signed_at = None \<rparr>))"

end
