(* ===== verification/Dead_Letters.thy ===== *)
theory Dead_Letters
  imports Jobs
begin

text \<open>
  core/db/dead_letter_record.py, core/worker/dead_letter.py and core/worker/replay.py:
  the dead-letter table with its unique constraint on namespace and key, the store that
  moves a failed job into it, its triage operations, and the tool that puts a
  dead-lettered job back into the queue.  The queue (ARQ) is an argument: it takes a
  message (function name, positional and keyword arguments, queue name) and either
  accepts it or raises.
\<close>

section \<open>The table\<close>

datatype dead_letter_status = DL_PENDING | DL_RETRYING | DL_DEAD_LETTERED | DL_RESOLVED | DL_ARCHIVED

record dead_letter_record =
  dl_dead_letter_namespace :: string
  dl_dead_letter_key :: string
  dl_message_type :: string
  dl_status :: dead_letter_status
  dl_source_system :: "string option"
  dl_source_reference :: "string option"
  dl_correlation_id :: "string option"
  dl_failure_category :: "string option"
  dl_attempt_count :: int
  dl_first_seen_at :: instant
  dl_last_seen_at :: instant
  dl_dead_lettered_at :: "instant option"
  dl_next_retry_at :: "instant option"
  dl_resolved_at :: "instant option"
  dl_archived_at :: "instant option"
  dl_payload_snapshot :: "dict option"
  dl_failure_context :: "dict option"
  dl_error_code :: "string option"
  dl_error_detail :: "string option"

definition uq_dead_letter :: "dead_letter_record \<Rightarrow> string \<times> string" where
  "uq_dead_letter r = (dl_dead_letter_namespace r, dl_dead_letter_key r)"

text \<open>An exception with the name of its class, its message and its attribute \<open>code\<close>.\<close>

record raised_error =
  re_type :: string
  re_message :: string
  re_code :: "string option"

section \<open>Dead-lettering a job\<close>

definition JOB_DEAD_LETTER_NAMESPACE :: string where "JOB_DEAD_LETTER_NAMESPACE = ''jobs''"

record job_dead_letter_request =
  jq_job_name :: string
  jq_queue_name :: string
  jq_correlation_id :: "string option"
  jq_failure_category :: "string option"
  jq_error_code :: "string option"
  jq_error_detail :: "string option"
  jq_attempt_count :: int
  jq_max_attempts :: int
  jq_payload_snapshot :: "dict option"
  jq_failure_context :: "dict option"

definition job_dead_letter_key :: "job_dead_letter_request \<Rightarrow> string" where
  "job_dead_letter_key q =
     jq_job_name q @ '':'' @ or_list (jq_correlation_id q) ''no-correlation'' @ '':'' @ show_int (jq_attempt_count q)"

definition job_message_type :: "job_dead_letter_request \<Rightarrow> string" where
  "job_message_type q = ''job.'' @ jq_job_name q"

record job_dead_letter_result =
  jr_dead_letter_record_id :: int
  jr_job_name :: string
  jr_dead_letter_key :: string
  jr_dead_lettered_at :: instant

text \<open>The correlation id of a dumped envelope is a string or null (\<open>JobEnvelope\<close>).\<close>

definition str_value :: "dict \<Rightarrow> string \<Rightarrow> string option" where
  "str_value d k = (case map_of d k of Some (JStr s) \<Rightarrow> Some s | _ \<Rightarrow> None)"

definition build_dead_letter_request_from_job ::
  "string \<Rightarrow> string \<Rightarrow> dict option \<Rightarrow> raised_error \<Rightarrow> int \<Rightarrow> int \<Rightarrow> string option \<Rightarrow> job_dead_letter_request" where
  "build_dead_letter_request_from_job job_name queue_name envelope error attempt max_attempts error_category =
     (let base = [(''job_name'', JStr job_name), (''queue_name'', JStr queue_name)];
          payload_snapshot = (case envelope of None \<Rightarrow> base | Some e \<Rightarrow> AList.update ''envelope'' (JDict e) base);
          correlation_id = (case envelope of None \<Rightarrow> None | Some e \<Rightarrow> str_value e ''correlation_id'');
          failure_context = [(''error_type'', JStr (re_type error)), (''attempt_number'', JInt attempt),
                             (''max_attempts'', JInt max_attempts)]
      in \<lparr> jq_job_name = job_name, jq_queue_name = queue_name, jq_correlation_id = correlation_id,
           jq_failure_category = error_category, jq_error_code = re_code error,
           jq_error_detail = Some (re_message error), jq_attempt_count = attempt, jq_max_attempts = max_attempts,
           jq_payload_snapshot = Some payload_snapshot, jq_failure_context = Some failure_context \<rparr>)"

definition job_dead_letter_row :: "instant \<Rightarrow> job_dead_letter_request \<Rightarrow> dead_letter_record" where
  "job_dead_letter_row now q =
     \<lparr> dl_dead_letter_namespace = JOB_DEAD_LETTER_NAMESPACE, dl_dead_letter_key = job_dead_letter_key q,
       dl_message_type = job_message_type q, dl_status = DL_DEAD_LETTERED,
       dl_source_system = Some (jq_queue_name q), dl_source_reference = Some (jq_job_name q),
       dl_correlation_id = jq_correlation_id q, dl_failure_category = jq_failure_category q,
       dl_attempt_count = jq_attempt_count q, dl_first_seen_at = now, dl_last_seen_at = now,
       dl_dead_lettered_at = Some now, dl_next_retry_at = None, dl_resolved_at = None, dl_archived_at = None,
       dl_payload_snapshot = jq_payload_snapshot q, dl_failure_context = jq_failure_context q,
       dl_error_code = jq_error_code q, dl_error_detail = jq_error_detail q \<rparr>"

definition job_dead_letter ::
  "instant \<Rightarrow> job_dead_letter_request \<Rightarrow> dead_letter_record table
   \<Rightarrow> integrity_error + job_dead_letter_result \<times> dead_letter_record table" where
  "job_dead_letter now q t =
     (case insert_unique uq_dead_letter (job_dead_letter_row now q) t of
        Inl e \<Rightarrow> Inl e
      | Inr (i, t') \<Rightarrow> Inr (\<lparr> jr_dead_letter_record_id = i, jr_job_name = jq_job_name q,
                             jr_dead_letter_key = job_dead_letter_key q, jr_dead_lettered_at = now \<rparr>, t'))"

text \<open>The store as a ledger: one record per namespace and key.\<close>

definition store_job :: "instant \<Rightarrow> dead_letter_record table \<Rightarrow> job_dead_letter_request \<Rightarrow> integrity_error + dead_letter_record table" where
  "store_job now t q = map_sum id snd (job_dead_letter now q t)"

interpretation job_ledger: unique_ledger "store_job now" "find_row uq_dead_letter"
    "\<lambda>q. (JOB_DEAD_LETTER_NAMESPACE, job_dead_letter_key q)" "job_dead_letter_row now" for now
  by (rule insert_unique_ledger)
    (auto simp: store_job_def job_dead_letter_def uq_dead_letter_def job_dead_letter_row_def split: sum.split prod.split)

lemma job_dead_letter_store: "job_dead_letter now q t = Inr (res, t') \<Longrightarrow> store_job now t q = Inr t'"
  by (simp add: store_job_def)

lemma job_dead_letter_refused_iff: "job_dead_letter now q t = Inl IntegrityError \<longleftrightarrow> \<not> is_ok (store_job now t q)"
  by (cases "job_dead_letter now q t") (auto simp: store_job_def intro: integrity_error.exhaust)

section \<open>Triage\<close>

definition job_mark_retrying :: "instant \<Rightarrow> instant option \<Rightarrow> dead_letter_record \<Rightarrow> dead_letter_record" where
  "job_mark_retrying now next_retry_at r =
     (let r1 = r\<lparr> dl_status := DL_RETRYING, dl_last_seen_at := now \<rparr>
      in (case next_retry_at of None \<Rightarrow> r1 | Some t \<Rightarrow> r1\<lparr> dl_next_retry_at := Some t \<rparr>))"

definition job_mark_resolved :: "instant \<Rightarrow> dead_letter_record \<Rightarrow> dead_letter_record" where
  "job_mark_resolved now r = r\<lparr> dl_status := DL_RESOLVED, dl_resolved_at := Some now \<rparr>"

definition job_mark_archived :: "instant \<Rightarrow> dead_letter_record \<Rightarrow> dead_letter_record" where
  "job_mark_archived now r = r\<lparr> dl_status := DL_ARCHIVED, dl_archived_at := Some now \<rparr>"

section \<open>Replay\<close>

record job_replay_request =
  rp_dead_letter_record_id :: int
  rp_job_name :: string
  rp_payload :: json
  rp_correlation_id :: "string option"
  rp_tenant_id :: "json option"
  rp_organization_id :: "json option"
  rp_metadata :: "json option"
  rp_override_queue :: "string option"

record job_replay_result =
  ro_dead_letter_record_id :: int
  ro_job_name :: string
  ro_replayed_at :: instant
  ro_enqueued :: bool
  ro_error_message :: "string option"

text \<open>\<open>dict.get\<close> of a key that may be missing or null.\<close>

definition get_value :: "dict \<Rightarrow> string \<Rightarrow> json option" where
  "get_value d k = (case map_of d k of None \<Rightarrow> None | Some JNull \<Rightarrow> None | Some v \<Rightarrow> Some v)"

definition remove_prefix :: "string \<Rightarrow> string \<Rightarrow> string" where
  "remove_prefix p s = (if take (length p) s = p then drop (length p) s else s)"

text \<open>An envelope that is not a dict has no \<open>get\<close>: \<open>Inl\<close> is the \<open>AttributeError\<close>.\<close>

definition build_replay_request_from_dead_letter ::
  "int \<Rightarrow> dead_letter_record \<Rightarrow> string + job_replay_request" where
  "build_replay_request_from_dead_letter i r =
     (let payload_snapshot = or_list (dl_payload_snapshot r) []
      in (case dict_get payload_snapshot ''envelope'' (JDict []) of
            JDict envelope \<Rightarrow>
              Inr \<lparr> rp_dead_letter_record_id = i,
                    rp_job_name = remove_prefix ''job.'' (dl_message_type r),
                    rp_payload = dict_get envelope ''payload'' (JDict []),
                    rp_correlation_id = dl_correlation_id r,
                    rp_tenant_id = get_value payload_snapshot ''tenant_id'',
                    rp_organization_id = get_value payload_snapshot ''organization_id'',
                    rp_metadata = get_value payload_snapshot ''metadata'',
                    rp_override_queue = None \<rparr>
          | _ \<Rightarrow> Inl ''AttributeError''))"

record queue_message =
  qm_function :: string
  qm_args :: "json list"
  qm_kwargs :: dict
  qm_queue_name :: "string option"

definition replay_message :: "job_replay_request \<Rightarrow> queue_message" where
  "replay_message q =
     (let opt = (\<lambda>k v. case v of None \<Rightarrow> [] | Some x \<Rightarrow> [(k, x)])
      in \<lparr> qm_function = rp_job_name q, qm_args = [],
           qm_kwargs = [(''payload'', rp_payload q)]
             @ opt ''correlation_id'' (map_option JStr (rp_correlation_id q))
             @ opt ''tenant_id'' (rp_tenant_id q)
             @ opt ''organization_id'' (rp_organization_id q)
             @ opt ''metadata'' (rp_metadata q),
           qm_queue_name = rp_override_queue q \<rparr>)"

definition replay_dead_lettered_job ::
  "(queue_message \<Rightarrow> 'w \<Rightarrow> raised_error option \<times> 'w) \<Rightarrow> instant \<Rightarrow> job_replay_request \<Rightarrow> 'w \<Rightarrow> job_replay_result \<times> 'w" where
  "replay_dead_lettered_job enqueue_job now q w =
     (case enqueue_job (replay_message q) w of
        (None, w1) \<Rightarrow>
          (\<lparr> ro_dead_letter_record_id = rp_dead_letter_record_id q, ro_job_name = rp_job_name q,
             ro_replayed_at = now, ro_enqueued = True, ro_error_message = None \<rparr>, w1)
      | (Some exc, w1) \<Rightarrow>
          (\<lparr> ro_dead_letter_record_id = rp_dead_letter_record_id q, ro_job_name = rp_job_name q,
             ro_replayed_at = now, ro_enqueued = False,
             ro_error_message = Some (re_type exc @ '': '' @ re_message exc) \<rparr>, w1))"

text \<open>The message of \<open>WorkerJob.enqueue\<close>, and Python's binding of a message to the
  parameters of the job's entry point \<open>execute(ctx, envelope)\<close>, which the queue calls
  with the worker context first: anything but exactly the one argument \<open>envelope\<close> is a
  \<open>TypeError\<close> (None).\<close>

definition enqueue_message :: "string \<Rightarrow> job_envelope \<Rightarrow> queue_message" where
  "enqueue_message job_name env =
     \<lparr> qm_function = job_name, qm_args = [JDict (envelope_data env)], qm_kwargs = [], qm_queue_name = None \<rparr>"

definition bind_execute :: "queue_message \<Rightarrow> json option" where
  "bind_execute msg =
     (case (qm_args msg, qm_kwargs msg) of
        ([envelope], []) \<Rightarrow> Some envelope
      | ([], [(k, envelope)]) \<Rightarrow> if k = ''envelope'' then Some envelope else None
      | _ \<Rightarrow> None)"

end
