(* ===== verification/Webhook_Ingestion.thy ===== *)
theory Webhook_Ingestion
  imports Webhook_Guards Dead_Letters
begin

text \<open>
  webhooks/ingestion.py: the JSON event validator and \<open>ingest_webhook_event\<close>, the flow
  that verifies, validates, protects, persists, acknowledges and enqueues a delivery.
  The verifier, the validator and the enqueuer that the route supplies are functions of
  their input and the world \<open>'w\<close>; they do not touch the inbox table, which is the
  session's view of it and is passed explicitly: what of it is committed is the
  business of the caller's transaction (\<open>receive_webhook\<close> in Webhook_Theorems).  The reads of the clock are the ones of
  the verification context (0), the replay check (1), the row (2), the acknowledgement
  (3) and the failure (4).
\<close>

section \<open>Validating a JSON event\<close>

definition value_error :: "string \<Rightarrow> exn" where
  "value_error msg = \<lparr> exn_message = msg, exn_code = None \<rparr>"

definition validate_json_webhook_event :: "stdlib \<Rightarrow> ingestion_request \<Rightarrow> exn + validated_event" where
  "validate_json_webhook_event lib q =
     bind_sum (lib_loads lib (iq_raw_body q)) (\<lambda>parsed.
       case parsed of
         JDict payload \<Rightarrow>
           (case map_of payload ''type'' of
              Some (JStr raw_event_type) \<Rightarrow>
                if py_strip raw_event_type = []
                then Inl (value_error (''Webhook payload must include a non-empty '' @ py_quote ''type'' @ '' field''))
                else
                  let event_id = (case get_value payload ''id'' of None \<Rightarrow> None | Some v \<Rightarrow> none_if_empty (py_strip (py_str lib v)))
                  in Inr \<lparr> ve_event_type = py_strip raw_event_type, ve_event_id = event_id, ve_delivery_id = None,
                           ve_normalized_payload = Some payload, ve_processing_metadata = None \<rparr>
            | _ \<Rightarrow> Inl (value_error (''Webhook payload must include a non-empty '' @ py_quote ''type'' @ '' field'')))
       | _ \<Rightarrow> Inl (value_error ''Webhook JSON payload must be an object''))"

section \<open>Enqueueing\<close>

record enqueue_result =
  er_job_name :: "string option"
  er_queue_name :: "string option"
  er_job_id :: "string option"
  er_processing_metadata :: "dict option"

record enqueue_request =
  eq_source :: string
  eq_endpoint_key :: string
  eq_webhook_request :: ingestion_request
  eq_persisted_event :: "int \<times> webhook_event"
  eq_validated_event :: validated_event
  eq_signature_verification :: "signature_result option"
  eq_replay_protection :: "replay_result option"
  eq_correlation_id :: "string option"

definition build_enqueue_processing_metadata :: "enqueue_result option \<Rightarrow> dict" where
  "build_enqueue_processing_metadata r =
     (case r of
        None \<Rightarrow> [(''enqueue'', JDict [(''status'', JStr ''queued'')])]
      | Some e \<Rightarrow>
          let base = opt_field ''job_name'' (map_option JStr (er_job_name e))
                     @ opt_field ''queue_name'' (map_option JStr (er_queue_name e))
                     @ opt_field ''job_id'' (map_option JStr (er_job_id e))
                     @ [(''status'', JStr ''queued'')];
              additional = or_list (er_processing_metadata e) [];
              enqueue_metadata = (case map_of additional ''enqueue'' of
                                    Some (JDict existing) \<Rightarrow> dict_update existing base | _ \<Rightarrow> base)
          in AList.update ''enqueue'' (JDict enqueue_metadata) (filter (\<lambda>kv. fst kv \<noteq> ''enqueue'') additional))"

fun merge_metadata_into :: "dict \<Rightarrow> dict option list \<Rightarrow> dict" where
  "merge_metadata_into acc [] = acc"
| "merge_metadata_into acc (None # rest) = merge_metadata_into acc rest"
| "merge_metadata_into acc (Some d # rest) = merge_metadata_into (dict_update acc d) rest"

definition merge_metadata :: "dict option list \<Rightarrow> dict option" where
  "merge_metadata mappings = none_if_empty (merge_metadata_into [] mappings)"

definition format_exception_message :: "raised_error \<Rightarrow> string" where
  "format_exception_message exc = (let m = py_strip (re_message exc) in if m \<noteq> [] then m else re_type exc)"

section \<open>The flow\<close>

record webhook_settings =
  WEBHOOK_SIGNATURE_VERIFICATION_ENABLED :: bool
  WEBHOOK_SIGNATURE_MAX_AGE_SECONDS :: int
  WEBHOOK_REPLAY_PROTECTION_ENABLED :: bool
  WEBHOOK_REPLAY_WINDOW_SECONDS :: int
  WEBHOOK_STORE_RAW_PAYLOADS :: bool

record ingest_options =
  io_signature_max_age_seconds :: "int option"
  io_replay_window_seconds :: "int option"
  io_store_raw_payload :: "bool option"
  io_processing_metadata :: "dict option"

datatype ingest_error =
    Verifier_Required
  | Not_Verified signature_error
  | Not_Validated exn
  | Bad_Replay_Request string
  | Replayed replay_error
  | Not_Persisted exn
  | Not_Enqueued raised_error

record ingest_result =
  ig_persisted_id :: int
  ig_validated_event :: validated_event
  ig_signature_verification :: "signature_result option"
  ig_enqueue_result :: "enqueue_result option"
  ig_correlation_id :: "string option"
  ig_replay_protection :: "replay_result option"

type_synonym 'w verifier = "signature_context \<Rightarrow> 'w \<Rightarrow> (signature_error + signature_result) \<times> 'w"
type_synonym 'w validator = "ingestion_request \<Rightarrow> signature_result option \<Rightarrow> 'w \<Rightarrow> (exn + validated_event) \<times> 'w"
type_synonym 'w enqueuer = "enqueue_request \<Rightarrow> 'w \<Rightarrow> (raised_error + enqueue_result option) \<times> 'w"

definition verify_step ::
  "webhook_settings \<Rightarrow> ingest_options \<Rightarrow> instant \<Rightarrow> 'w verifier option \<Rightarrow> string \<Rightarrow> string \<Rightarrow> ingestion_request \<Rightarrow> 'w
   \<Rightarrow> (ingest_error + signature_result option) \<times> 'w" where
  "verify_step cfg opts now verifier source endpoint_key q w =
     (case verifier of
        Some verify \<Rightarrow>
          (case verify \<lparr> sc_provider = source, sc_endpoint_key = endpoint_key, sc_request = q,
                         sc_signature_max_age_seconds = Some (case io_signature_max_age_seconds opts of
                             None \<Rightarrow> WEBHOOK_SIGNATURE_MAX_AGE_SECONDS cfg | Some s \<Rightarrow> s),
                         sc_received_at = now \<rparr> w of
             (Inl e, w1) \<Rightarrow> (Inl (Not_Verified e), w1)
           | (Inr v, w1) \<Rightarrow> (Inr (Some v), w1))
      | None \<Rightarrow> if WEBHOOK_SIGNATURE_VERIFICATION_ENABLED cfg then (Inl Verifier_Required, w) else (Inr None, w))"

definition replay_step ::
  "stdlib \<Rightarrow> webhook_settings \<Rightarrow> ingest_options \<Rightarrow> instant \<Rightarrow> string \<Rightarrow> string \<Rightarrow> ingestion_request \<Rightarrow> validated_event \<Rightarrow> webhook_table
   \<Rightarrow> ingest_error + replay_result option" where
  "replay_step lib cfg opts now source endpoint_key q validated t =
     (if \<not> WEBHOOK_REPLAY_PROTECTION_ENABLED cfg then Inr None
      else (case replay_check_post_init
                   \<lparr> rk_source = source, rk_endpoint_key = endpoint_key, rk_request = q, rk_event = validated,
                     rk_window_seconds = (case io_replay_window_seconds opts of
                        None \<Rightarrow> WEBHOOK_REPLAY_WINDOW_SECONDS cfg | Some s \<Rightarrow> s),
                     rk_checked_at = now \<rparr> of
              Inl msg \<Rightarrow> Inl (Bad_Replay_Request msg)
            | Inr check \<Rightarrow> map_sum Replayed Some (replay_protect lib check t)))"

definition persistence_request_of ::
  "webhook_settings \<Rightarrow> ingest_options \<Rightarrow> string \<Rightarrow> string \<Rightarrow> ingestion_request \<Rightarrow> signature_result option \<Rightarrow> validated_event
   \<Rightarrow> string option \<Rightarrow> replay_result option \<Rightarrow> persistence_request" where
  "persistence_request_of cfg opts source endpoint_key q verification validated correlation_id replay =
     \<lparr> pq_source = source, pq_endpoint_key = endpoint_key, pq_event_type = ve_event_type validated, pq_request = q,
       pq_delivery_id = ve_delivery_id validated, pq_event_id = ve_event_id validated,
       pq_normalized_payload = ve_normalized_payload validated,
       pq_processing_metadata = merge_metadata [io_processing_metadata opts, ve_processing_metadata validated,
          map_option (\<lambda>c. [(''correlation_id'', JStr c)]) correlation_id, map_option replay_metadata replay],
       pq_signature_verification = verification, pq_signature_verified = None, pq_status = Status WH_RECEIVED,
       pq_store_raw_payload = (case io_store_raw_payload opts of None \<Rightarrow> WEBHOOK_STORE_RAW_PAYLOADS cfg | Some b \<Rightarrow> b),
       pq_raw_payload_text = None, pq_received_at = None \<rparr>"

definition ingest_webhook_event ::
  "stdlib \<Rightarrow> webhook_settings \<Rightarrow> ingest_options \<Rightarrow> clock \<Rightarrow> 'w verifier option \<Rightarrow> 'w validator \<Rightarrow> 'w enqueuer
   \<Rightarrow> string \<Rightarrow> string \<Rightarrow> ingestion_request \<Rightarrow> webhook_table \<Rightarrow> 'w
   \<Rightarrow> (ingest_error + ingest_result) \<times> webhook_table \<times> 'w" where
  "ingest_webhook_event lib cfg opts clk verifier validate enqueuer source endpoint_key q t w =
     (case verify_step cfg opts (clk 0) verifier source endpoint_key q w of
        (Inl e, w1) \<Rightarrow> (Inl e, t, w1)
      | (Inr verification, w1) \<Rightarrow>
      (case validate q verification w1 of
        (Inl exc, w2) \<Rightarrow> (Inl (Not_Validated exc), t, w2)
      | (Inr validated, w2) \<Rightarrow>
          let correlation_id = get_correlation_id (iq_state q)
          in (case replay_step lib cfg opts (clk 1) source endpoint_key q validated t of
                Inl e \<Rightarrow> (Inl e, t, w2)
              | Inr replay \<Rightarrow>
              (case persist_event lib (clk 2)
                      (persistence_request_of cfg opts source endpoint_key q verification validated correlation_id replay) t of
                (Inl exc, t1) \<Rightarrow> (Inl (Not_Persisted exc), t1, w2)
              | (Inr (i, event), t1) \<Rightarrow>
                  let acknowledged = mark_acknowledged (clk 3) None None event;
                      t2 = update_row i (mark_acknowledged (clk 3) None None) t1;
                      request = \<lparr> eq_source = source, eq_endpoint_key = endpoint_key, eq_webhook_request = q,
                                  eq_persisted_event = (i, acknowledged), eq_validated_event = validated,
                                  eq_signature_verification = verification, eq_replay_protection = replay,
                                  eq_correlation_id = correlation_id \<rparr>
                  in (case enqueuer request w2 of
                        (Inl exc, w3) \<Rightarrow>
                          (Inl (Not_Enqueued exc),
                           update_row i (mark_failed (clk 4) None (Some (format_exception_message exc))
                             (Some [(''enqueue'', JDict [(''status'', JStr ''failed'')])])) t2, w3)
                      | (Inr enqueued, w3) \<Rightarrow>
                          (Inr \<lparr> ig_persisted_id = i, ig_validated_event = validated,
                                 ig_signature_verification = verification, ig_enqueue_result = enqueued,
                                 ig_correlation_id = correlation_id, ig_replay_protection = replay \<rparr>,
                           update_row i (mark_enqueued (Some (build_enqueue_processing_metadata enqueued))) t2, w3))))))"

end
