(* ===== verification/Webhook_Lemmas.thy ===== *)
theory Webhook_Lemmas
  imports Webhook_Ingestion
begin

text \<open>The lemmas on tables, selections and status changes that the properties of the
  webhook components share, and the flow of one ingestion as an inductive predicate.\<close>

section \<open>Selections\<close>

lemma latest_None_iff [simp]: "latest f rows = None \<longleftrightarrow> rows = []"
  by (cases rows) (auto split: option.split)

lemma latest_mem: "latest f rows = Some r \<Longrightarrow> r \<in> set rows"
  by (induction rows arbitrary: r) (auto split: option.split_asm if_splits)

lemma latest_greatest:
  "\<lbrakk> latest f rows = Some r; r' \<in> set rows \<rbrakk> \<Longrightarrow> f (snd r') < f (snd r) \<or> (f (snd r') = f (snd r) \<and> fst r' \<le> fst r)"
proof (induction rows arbitrary: r r')
  case (Cons row rows)
  show ?case
  proof (cases "latest f rows")
    case None
    with Cons.prems show ?thesis by simp
  next
    case (Some best)
    have "f (snd r') < f (snd best) \<or> (f (snd r') = f (snd best) \<and> fst r' \<le> fst best)" if "r' \<in> set rows"
      using Cons.IH[OF Some that] .
    with Cons.prems Some show ?thesis by (force split: if_splits)
  qed
qed simp

lemma latest_singleton: "latest f [r] = Some r"
  by simp

lemma replay_protect_ok_iff:
  "is_ok (replay_protect lib q t) \<longleftrightarrow> (\<forall>row \<in> set (tb_rows t). \<not> replay_filter lib q (snd row))"
proof -
  have "find_existing_event lib q t = None \<longleftrightarrow> (\<forall>row \<in> set (tb_rows t). \<not> replay_filter lib q (snd row))"
    by (simp add: find_existing_event_def filter_empty_conv)
  then show ?thesis by (auto simp: replay_protect_def Let_def split: option.split)
qed

section \<open>Rows\<close>

definition fresh_ids :: "'r table \<Rightarrow> bool" where
  "fresh_ids t \<longleftrightarrow> (\<forall>row \<in> set (tb_rows t). fst row < tb_next t)"

lemma fresh_ids_insert [simp]: "fresh_ids t \<Longrightarrow> fresh_ids (snd (insert_row r t))"
  by (auto simp: fresh_ids_def insert_row_def)

lemma update_row_next [simp]: "tb_next (update_row i f t) = tb_next t"
  by (simp add: update_row_def)

lemma update_row_ids: "map fst (tb_rows (update_row i f t)) = map fst (tb_rows t)"
  by (simp add: update_row_def)

lemma fresh_ids_update [simp]: "fresh_ids (update_row i f t) \<longleftrightarrow> fresh_ids t"
proof -
  have "fresh_ids s \<longleftrightarrow> (\<forall>i \<in> set (map fst (tb_rows s)). i < tb_next s)" for s :: "'a table"
    by (simp add: fresh_ids_def)
  then show ?thesis by (metis update_row_ids update_row_next)
qed

lemma update_row_inserted:
  assumes "fresh_ids t"
  shows "tb_rows (update_row (tb_next t) f (snd (insert_row r t))) = tb_rows t @ [(tb_next t, f r)]"
proof -
  have "map (\<lambda>row. if fst row = tb_next t then (tb_next t, f (snd row)) else row) (tb_rows t) = tb_rows t"
    using assms by (intro map_idI) (auto simp: fresh_ids_def)
  then show ?thesis by (simp add: update_row_def)
qed

lemma update_row_twice: "update_row i g (update_row i f t) = update_row i (g \<circ> f) t"
  by (simp add: update_row_def)

section \<open>Status changes\<close>

lemma set_status_frame [simp]:
  "ev_source (set_status st a p err n md e) = ev_source e"
  "ev_endpoint_key (set_status st a p err n md e) = ev_endpoint_key e"
  "ev_event_type (set_status st a p err n md e) = ev_event_type e"
  "ev_delivery_id (set_status st a p err n md e) = ev_delivery_id e"
  "ev_event_id (set_status st a p err n md e) = ev_event_id e"
  "ev_signature_verified (set_status st a p err n md e) = ev_signature_verified e"
  "ev_payload_sha256 (set_status st a p err n md e) = ev_payload_sha256 e"
  "ev_received_at (set_status st a p err n md e) = ev_received_at e"
  "ev_raw_payload (set_status st a p err n md e) = ev_raw_payload e"
  by (simp_all add: set_status_def Let_def)

lemma set_status_sets [simp]:
  "ev_status (set_status st a p err n md e) = st"
  "ev_acknowledged_at (set_status st a p err n md e) = (if a = None then ev_acknowledged_at e else a)"
  "ev_processed_at (set_status st a p err n md e) = (if p = None then ev_processed_at e else p)"
  "ev_processing_error (set_status st a p err n md e) = (if err = None then ev_processing_error e else err)"
  by (simp_all add: set_status_def Let_def)

lemmas mark_defs = mark_acknowledged_def mark_enqueued_def mark_processed_def mark_rejected_def mark_failed_def

lemma instant_or_simps [simp]: "instant_or now None = now" "instant_or now (Some t) = t"
  by (simp_all add: instant_or_def)

section \<open>One ingestion\<close>

text \<open>The stages of a flow that reaches the enqueuer, and what it leaves behind.\<close>

definition row_of_flow ::
  "stdlib \<Rightarrow> webhook_settings \<Rightarrow> ingest_options \<Rightarrow> clock \<Rightarrow> string \<Rightarrow> string \<Rightarrow> ingestion_request \<Rightarrow> signature_result option
   \<Rightarrow> validated_event \<Rightarrow> replay_result option \<Rightarrow> webhook_event \<Rightarrow> bool" where
  "row_of_flow lib cfg opts clk source endpoint_key q verification validated replay e \<longleftrightarrow>
     build_event lib (clk 2) (persistence_request_of cfg opts source endpoint_key q verification validated
       (get_correlation_id (iq_state q)) replay) = Inr e"

lemma persist_event_cases:
  "persist_event lib now q t = (case build_event lib now q of
     Inl exc \<Rightarrow> (Inl exc, t) | Inr e \<Rightarrow> (Inr (tb_next t, e), snd (insert_row e t)))"
  by (auto simp: persist_event_def insert_row_def split: sum.split)

inductive reaches_enqueuer for lib cfg opts clk verifier validate source endpoint_key q t w where
  "\<lbrakk> verify_step cfg opts (clk 0) verifier source endpoint_key q w = (Inr verification, w1);
     validate q verification w1 = (Inr validated, w2);
     replay_step lib cfg opts (clk 1) source endpoint_key q validated t = Inr replay;
     row_of_flow lib cfg opts clk source endpoint_key q verification validated replay e \<rbrakk>
   \<Longrightarrow> reaches_enqueuer lib cfg opts clk verifier validate source endpoint_key q t w verification validated replay e w2"

inductive_cases reaches_enqueuerE:
  "reaches_enqueuer lib cfg opts clk verifier validate source endpoint_key q t w verification validated replay e w2"

lemma map_sum_Inl_iff: "map_sum f g x = Inl e \<longleftrightarrow> (\<exists>y. x = Inl y \<and> e = f y)"
  by (cases x) auto

lemma early_errors:
  "verify_step cfg opts now verifier source endpoint_key q w = (Inl e, w1) \<Longrightarrow> \<forall>exc. e \<noteq> Not_Enqueued exc"
  "replay_step lib cfg opts now source endpoint_key q validated t = Inl e \<Longrightarrow> \<forall>exc. e \<noteq> Not_Enqueued exc"
  by (auto simp: verify_step_def replay_step_def map_sum_Inl_iff split: option.splits sum.splits prod.splits if_splits)

lemma verify_step_signed:
  assumes "verify_step cfg opts now verifier source endpoint_key q w = (Inr verification, w1)"
    and "WEBHOOK_SIGNATURE_VERIFICATION_ENABLED cfg"
  shows "verification \<noteq> None \<and> (\<exists>verify ctx v. verifier = Some verify \<and> sc_request ctx = q \<and> fst (verify ctx w) = Inr v)"
proof (cases verifier)
  case (Some verify)
  let ?ctx = "\<lparr> sc_provider = source, sc_endpoint_key = endpoint_key, sc_request = q,
      sc_signature_max_age_seconds = Some (case io_signature_max_age_seconds opts of
        None \<Rightarrow> WEBHOOK_SIGNATURE_MAX_AGE_SECONDS cfg | Some s \<Rightarrow> s), sc_received_at = now \<rparr>"
  obtain a w2 where c: "verify ?ctx w = (a, w2)" by fastforce
  with assms Some obtain v where "a = Inr v" "verification = Some v"
    by (cases a) (auto simp: verify_step_def)
  moreover have "sc_request ?ctx = q" by simp
  ultimately show ?thesis using Some c by (metis fst_conv option.distinct(1))
qed (use assms in \<open>simp add: verify_step_def\<close>)

lemma ingest_failed_early:
  assumes r: "ingest_webhook_event lib cfg opts clk verifier validate enq source endpoint_key q t w = (r, t', w')"
    and n: "\<nexists>verification validated replay e w2.
      reaches_enqueuer lib cfg opts clk verifier validate source endpoint_key q t w verification validated replay e w2"
  shows "t' = t \<and> (\<exists>err. r = Inl err \<and> (\<forall>exc. err \<noteq> Not_Enqueued exc))"
proof -
  note defs = ingest_webhook_event_def persist_event_cases Let_def
  obtain a w1 where v: "verify_step cfg opts (clk 0) verifier source endpoint_key q w = (a, w1)" by fastforce
  consider e where "a = Inl e" | verification where "a = Inr verification" by (cases a)
  then show ?thesis
  proof cases
    case 1
    with r v early_errors(1)[of cfg opts "clk 0" verifier source endpoint_key q w] show ?thesis by (auto simp: defs)
  next
    case (2 verification)
    obtain b w2 where val: "validate q verification w1 = (b, w2)" by fastforce
    consider e where "b = Inl e" | validated where "b = Inr validated" by (cases b)
    then show ?thesis
    proof cases
      case 1
      with r v 2 val show ?thesis by (auto simp: defs)
    next
      case (2 validated)
      note st = v \<open>a = Inr verification\<close> val 2
      consider e where "replay_step lib cfg opts (clk 1) source endpoint_key q validated t = Inl e"
        | replay where "replay_step lib cfg opts (clk 1) source endpoint_key q validated t = Inr replay"
        by (meson sum.exhaust)
      then show ?thesis
      proof cases
        case (1 e)
        with r st early_errors(2)[OF 1] show ?thesis by (auto simp: defs simp del: One_nat_def)
      next
        case (2 replay)
        then obtain exc where "build_event lib (clk 2) (persistence_request_of cfg opts source endpoint_key q verification
            validated (get_correlation_id (iq_state q)) replay) = Inl exc"
          using n st by (metis reaches_enqueuer.intros row_of_flow_def sum.exhaust)
        with r st 2 show ?thesis by (auto simp: defs simp del: One_nat_def)
      qed
    qed
  qed
qed

lemma ingest_reaching:
  assumes "reaches_enqueuer lib cfg opts clk verifier validate source endpoint_key q t w verification validated replay e w2"
    and "fresh_ids t"
    and "ingest_webhook_event lib cfg opts clk verifier validate enq source endpoint_key q t w = (r, t', w')"
  shows "fresh_ids t' \<and> tb_next t' = tb_next t + 1 \<and>
    (case r of
       Inr res \<Rightarrow> ig_persisted_id res = tb_next t \<and> ig_validated_event res = validated \<and> ig_signature_verification res = verification \<and>
         tb_rows t' = tb_rows t @ [(tb_next t, mark_enqueued (Some (build_enqueue_processing_metadata (ig_enqueue_result res)))
            (mark_acknowledged (clk 3) None None e))]
     | Inl err \<Rightarrow> \<exists>exc. err = Not_Enqueued exc \<and>
         tb_rows t' = tb_rows t @ [(tb_next t, mark_failed (clk 4) None (Some (format_exception_message exc))
            (Some [(''enqueue'', JDict [(''status'', JStr ''failed'')])]) (mark_acknowledged (clk 3) None None e))])"
proof -
  obtain w1 where st: "verify_step cfg opts (clk 0) verifier source endpoint_key q w = (Inr verification, w1)"
    "validate q verification w1 = (Inr validated, w2)"
    "replay_step lib cfg opts (clk 1) source endpoint_key q validated t = Inr replay"
    "build_event lib (clk 2) (persistence_request_of cfg opts source endpoint_key q verification validated
       (get_correlation_id (iq_state q)) replay) = Inr e"
    using assms(1) by (elim reaches_enqueuerE) (auto simp: row_of_flow_def)
  have next1: "tb_next (snd (insert_row e t)) = tb_next t + 1" by (simp add: insert_row_def)
  show ?thesis
    using assms(3) fresh_ids_insert[OF assms(2), of e] update_row_inserted[OF assms(2), of _ e] next1
    by (auto simp: ingest_webhook_event_def st persist_event_cases update_row_twice Let_def
        simp del: One_nat_def split: prod.splits sum.splits)
qed

lemma row_of_flow_fields:
  assumes "row_of_flow lib cfg opts clk source endpoint_key q verification validated replay e"
  shows "ev_source e = source" "ev_endpoint_key e = endpoint_key" "ev_event_type e = ve_event_type validated"
    "ev_delivery_id e = ve_delivery_id validated" "ev_event_id e = ve_event_id validated"
    "ev_payload_sha256 e = Some (lib_sha256 lib (iq_raw_body q))" "ev_received_at e = clk 2"
    "ev_signature_verified e = (if verification = None then None else Some True)"
    "ev_status e = WH_RECEIVED" "ev_acknowledged_at e = None" "ev_processed_at e = None" "ev_processing_error e = None"
  using assms by (auto simp: row_of_flow_def build_event_def bind_sum_Inr_iff persistence_request_of_def
      coerce_webhook_event_status_def resolve_signature_verified_def split: sum.splits)

end
