(* ===== verification/Db_Sessions.thy ===== *)
theory Db_Sessions
  imports Retry
begin

text \<open>
  core/db/sessions.py: session scopes and their policies, the transaction boundary and the
  bounded retry of a database operation.  SQLAlchemy's sessions and exceptions are not in the
  sources: a session is a record of its calls on a state of any type, an exception is its
  class with the flag the code reads.
\<close>

section \<open>Scopes\<close>

datatype session_scope = API_REQUEST | BACKGROUND_JOB | SCRIPT

definition session_scope_value :: "session_scope \<Rightarrow> string" where
  "session_scope_value s = (case s of
     API_REQUEST \<Rightarrow> ''api_request'' | BACKGROUND_JOB \<Rightarrow> ''background_job'' | SCRIPT \<Rightarrow> ''script'')"

record session_policy =
  dp_scope :: session_scope
  dp_description :: string
  dp_recommended_boundary :: string
  dp_session_notes :: "string list"

definition DATABASE_SESSION_POLICIES :: "(session_scope \<times> session_policy) list" where
  "DATABASE_SESSION_POLICIES =
     [(API_REQUEST, \<lparr> dp_scope = API_REQUEST,
        dp_description = ''One session per inbound request so request work stays isolated and easy to reason about.'',
        dp_recommended_boundary =
          ''Use the request session for a single API call and wrap multi-step writes in a transaction helper.'',
        dp_session_notes = [''Keep the session request-scoped.'',
          ''Prefer explicit transaction blocks for writes that span multiple repository calls.''] \<rparr>),
      (BACKGROUND_JOB, \<lparr> dp_scope = BACKGROUND_JOB,
        dp_description = ''One session per background job so retries do not leak state across jobs.'',
        dp_recommended_boundary = ''Use the job session for a single job execution and dispose it after the job settles.'',
        dp_session_notes = [''Keep each job isolated.'',
          ''Retry the job, not the session state, when the work is transiently interrupted.''] \<rparr>),
      (SCRIPT, \<lparr> dp_scope = SCRIPT,
        dp_description = ''One session per CLI or maintenance script so the script owns the full unit of work.'',
        dp_recommended_boundary =
          ''Use the script session for one command or batch step and commit only when the batch is complete.'',
        dp_session_notes = [''Keep the session script-scoped.'',
          ''Use explicit transaction helpers around each batch or maintenance step.''] \<rparr>)]"

definition get_database_session_policy :: "session_scope \<Rightarrow> session_policy option" where
  "get_database_session_policy scope = map_of DATABASE_SESSION_POLICIES scope"

text \<open>Every scope has a policy, its own, so that the look-up never fails.\<close>

lemma session_policy_total: "\<exists>p. get_database_session_policy scope = Some p \<and> dp_scope p = scope"
  by (cases scope) (simp_all add: get_database_session_policy_def DATABASE_SESSION_POLICIES_def)

text \<open>The metadata that an opened session carries.\<close>

definition open_database_session :: "session_scope \<Rightarrow> (string \<times> string) list \<Rightarrow> (string \<times> string) list" where
  "open_database_session scope info =
     AList.update ''database_session_policy'' (dp_description (the (get_database_session_policy scope)))
       (AList.update ''database_session_scope'' (session_scope_value scope) info)"

section \<open>Errors\<close>

datatype db_class =
    Db_IntegrityError
  | Db_OperationalError
  | Db_InterfaceError
  | Db_DBAPIError
  | Db_DisconnectionError
  | Db_TimeoutError
  | Db_ValueError
  | Other_Exception

record db_exn =
  dx_class :: db_class
  dx_connection_invalidated :: bool
  dx_message :: string

text \<open>The classes that derive from \<open>DBAPIError\<close>.\<close>

definition is_dbapi :: "db_class \<Rightarrow> bool" where
  "is_dbapi c \<longleftrightarrow> c \<in> {Db_IntegrityError, Db_OperationalError, Db_InterfaceError, Db_DBAPIError}"

definition is_retryable_database_error :: "db_exn \<Rightarrow> bool" where
  "is_retryable_database_error e =
     (if dx_class e = Db_IntegrityError then False
      else if is_dbapi (dx_class e) \<and> dx_connection_invalidated e then True
      else dx_class e \<in> {Db_DisconnectionError, Db_InterfaceError, Db_OperationalError, Db_TimeoutError})"

section \<open>Transactions\<close>

record ('s, 'e) db_session =
  ds_commit :: "'s \<Rightarrow> ('e + unit) \<times> 's"
  ds_rollback :: "'s \<Rightarrow> ('e + unit) \<times> 's"

text \<open>The body of the \<open>with\<close> block, the commit, and the rollback of either's failure, whatever
  exceptions \<open>'e\<close> the body and the session raise.\<close>

definition database_transaction :: "('s, 'e) db_session \<Rightarrow> ('s \<Rightarrow> ('e + 'a) \<times> 's) \<Rightarrow> 's \<Rightarrow> ('e + 'a) \<times> 's" where
  "database_transaction session body s =
     (let attempt = (case body s of
            (Inl e, s1) \<Rightarrow> (Inl e, s1)
          | (Inr v, s1) \<Rightarrow> (case ds_commit session s1 of (Inl e, s2) \<Rightarrow> (Inl e, s2) | (Inr _, s2) \<Rightarrow> (Inr v, s2)))
      in case attempt of
           (Inr v, s2) \<Rightarrow> (Inr v, s2)
         | (Inl e, s2) \<Rightarrow> (case ds_rollback session s2 of (Inl e', s3) \<Rightarrow> (Inl e', s3) | (Inr _, s3) \<Rightarrow> (Inl e, s3)))"

section \<open>Retry\<close>

text \<open>The result, the delays that were slept, and the state.\<close>

fun retry_attempts ::
  "('s \<Rightarrow> (db_exn + 'a) \<times> 's) \<Rightarrow> rat \<Rightarrow> nat \<Rightarrow> rat \<Rightarrow> 's \<Rightarrow> (db_exn + 'a) \<times> rat list \<times> 's" where
  "retry_attempts operation max_delay 0 delay s = (Inl \<lparr> dx_class = Other_Exception, dx_connection_invalidated = False, dx_message = [] \<rparr>, [], s)"
| "retry_attempts operation max_delay (Suc left) delay s =
     (case operation s of
        (Inr v, s1) \<Rightarrow> (Inr v, [], s1)
      | (Inl e, s1) \<Rightarrow>
          if left = 0 \<or> \<not> is_retryable_database_error e then (Inl e, [], s1)
          else (case retry_attempts operation max_delay left (min (delay * 2) max_delay) s1 of
                  (r, slept, s2) \<Rightarrow> (r, delay # slept, s2)))"

definition value_error :: "string \<Rightarrow> db_exn" where
  "value_error m = \<lparr> dx_class = Db_ValueError, dx_connection_invalidated = False, dx_message = m \<rparr>"

definition retry_database_operation ::
  "('s \<Rightarrow> (db_exn + 'a) \<times> 's) \<Rightarrow> int \<Rightarrow> rat \<Rightarrow> rat \<Rightarrow> 's \<Rightarrow> (db_exn + 'a) \<times> rat list \<times> 's" where
  "retry_database_operation operation attempts initial_delay max_delay s =
     (if attempts < 1 then (Inl (value_error ''attempts must be at least 1''), [], s)
      else if initial_delay < 0 then (Inl (value_error ''initial_delay_seconds must not be negative''), [], s)
      else if max_delay < initial_delay
      then (Inl (value_error ''max_delay_seconds must be greater than or equal to initial_delay_seconds''), [], s)
      else retry_attempts operation max_delay (nat attempts) initial_delay s)"

section \<open>Delays\<close>

text \<open>The delays follow the curve that the other back-off policies follow.\<close>

record retry_delays =
  rt_initial :: rat
  rt_max :: rat

definition retry_valid :: "retry_delays \<Rightarrow> bool" where
  "retry_valid p \<longleftrightarrow> 0 \<le> rt_initial p \<and> rt_initial p \<le> rt_max p"

fun retry_delay :: "retry_delays \<Rightarrow> nat \<Rightarrow> rat" where
  "retry_delay p 0 = rt_initial p"
| "retry_delay p (Suc n) = min (retry_delay p n * 2) (rt_max p)"

lemma retry_delay_bounds: "retry_valid p \<Longrightarrow> 0 \<le> retry_delay p n \<and> retry_delay p n \<le> rt_max p"
  by (induction n) (auto simp: retry_valid_def)

interpretation database_retry: backoff_curve retry_valid rt_initial "\<lambda>_. 2" rt_max retry_delay
  by unfold_locales (auto simp: retry_delay_bounds, auto simp: retry_valid_def)

text \<open>The sequence of runs: each failed and was retryable, but the last.\<close>

fun runs :: "('s \<Rightarrow> (db_exn + 'a) \<times> 's) \<Rightarrow> nat \<Rightarrow> 's \<Rightarrow> 's" where
  "runs operation 0 s = s"
| "runs operation (Suc n) s = runs operation n (snd (operation s))"

definition retried :: "('s \<Rightarrow> (db_exn + 'a) \<times> 's) \<Rightarrow> 's \<Rightarrow> bool" where
  "retried operation s = (case fst (operation s) of Inr _ \<Rightarrow> False | Inl e \<Rightarrow> is_retryable_database_error e)"

lemma retry_attempts_shape:
  assumes "retry_attempts operation (rt_max p) (Suc left) (retry_delay p k) s = (r, slept, s')"
  shows "\<exists>n \<le> left. slept = map (\<lambda>i. retry_delay p (k + i)) [0..<n] \<and>
    (\<forall>i < n. retried operation (runs operation i s)) \<and>
    operation (runs operation n s) = (r, s') \<and> (n < left \<longrightarrow> \<not> retried operation (runs operation n s))"
  using assms
proof (induction left arbitrary: k s slept r s')
  case 0
  then show ?case by (intro exI[of _ 0]) (auto split: sum.splits prod.splits)
next
  case (Suc left)
  obtain x s1 where x: "operation s = (x, s1)" by (cases "operation s")
  show ?case
  proof (cases "retried operation s")
    case False
    then have "slept = []" "r = x" "s' = s1" using Suc.prems x by (auto simp: retried_def split: sum.splits)
    then show ?thesis using x False by (intro exI[of _ 0]) simp
  next
    case True
    then obtain e where e: "x = Inl e" "is_retryable_database_error e" using x by (auto simp: retried_def split: sum.splits)
    obtain r2 sl2 s2 where rec: "retry_attempts operation (rt_max p) (Suc left) (retry_delay p (Suc k)) s1 = (r2, sl2, s2)"
      by (metis prod_cases3)
    have eq: "r = r2" "slept = retry_delay p k # sl2" "s' = s2" using Suc.prems x e rec by simp_all
    from Suc.IH[OF rec] obtain n where n: "n \<le> left" "sl2 = map (\<lambda>i. retry_delay p (Suc k + i)) [0..<n]"
      "\<forall>i < n. retried operation (runs operation i s1)" "operation (runs operation n s1) = (r2, s2)"
      "n < left \<longrightarrow> \<not> retried operation (runs operation n s1)" by blast
    have "slept = map (\<lambda>i. retry_delay p (k + i)) [0..<Suc n]"
      unfolding eq(2) n(2) by (simp add: upt_conv_Cons map_Suc_upt[symmetric] del: upt_Suc)
    moreover have "\<forall>i < Suc n. retried operation (runs operation i s)"
      using n(3) True x by (auto simp: all_less_Suc_split)
    ultimately show ?thesis using n eq x by (intro exI[of _ "Suc n"]) auto
  qed
qed

text \<open>C27: A retried database operation runs at most \<open>attempts\<close> times: again exactly as long as
  the run before failed with a transient error and attempts are left.  The result is that of
  the last run, and between the runs it sleeps for delays that double up to the maximum.\<close>

theorem database_retry_is_bounded:
  assumes "1 \<le> attempts" "0 \<le> initial" "initial \<le> maximum"
    and "retry_database_operation operation attempts initial maximum s = (r, slept, s')"
  shows "\<exists>n < nat attempts. operation (runs operation n s) = (r, s') \<and>
    (\<forall>i < n. retried operation (runs operation i s)) \<and>
    (Suc n < nat attempts \<longrightarrow> \<not> retried operation (runs operation n s)) \<and>
    slept = map (\<lambda>i. min (initial * 2 ^ i) maximum) [0..<n]"
proof -
  let ?p = "\<lparr> rt_initial = initial, rt_max = maximum \<rparr>"
  obtain left where left: "nat attempts = Suc left" using assms(1) by (cases "nat attempts") auto
  have "retry_attempts operation (rt_max ?p) (Suc left) (retry_delay ?p 0) s = (r, slept, s')"
    using assms left by (simp add: retry_database_operation_def)
  from retry_attempts_shape[OF this] obtain n where n: "n \<le> left" "slept = map (retry_delay ?p) [0..<n]"
    "\<forall>i < n. retried operation (runs operation i s)" "operation (runs operation n s) = (r, s')"
    "n < left \<longrightarrow> \<not> retried operation (runs operation n s)" by auto
  have "retry_delay ?p i = min (initial * 2 ^ i) maximum" for i
    using database_retry.delay_closed[of ?p i] assms by (simp add: retry_valid_def)
  with n left show ?thesis by (intro exI[of _ n]) simp
qed

definition flaky :: "nat \<Rightarrow> (db_exn + nat) \<times> nat" where
  "flaky n = (if n < 2 then (Inl \<lparr> dx_class = Db_OperationalError, dx_connection_invalidated = False, dx_message = ''gone'' \<rparr>, Suc n)
              else (Inr n, n))"

lemma database_retry_is_bounded_witness:
  "retry_database_operation flaky 3 (1 / 10) 1 0 = (Inr 2, [1 / 10, 1 / 5], 2) \<and>
   (\<exists>n < nat 3. flaky (runs flaky n 0) = (Inr 2, 2))"
proof -
  have r: "retry_database_operation flaky 3 (1 / 10) 1 0 = (Inr 2, [1 / 10, 1 / 5], 2)"
    by (simp add: retry_database_operation_def flaky_def is_retryable_database_error_def is_dbapi_def numeral_3_eq_3)
  from database_retry_is_bounded[OF _ _ _ r] have "\<exists>n < nat 3. flaky (runs flaky n 0) = (Inr 2, 2)" by auto
  with r show ?thesis by simp
qed

text \<open>A transaction whose rollback works ends either committed, with the result of its body,
  or with what was committed before.\<close>

lemma transaction_all_or_nothing:
  assumes commit: "\<And>s. case ds_commit session s of (Inr _, s') \<Rightarrow> committed s' = working s | (Inl e, s') \<Rightarrow> committed s' = committed s"
    and rollback: "\<And>s. case ds_rollback session s of (x, s') \<Rightarrow> committed s' = committed s"
    and body: "\<And>s. committed (snd (body s)) = committed s"
    and run: "database_transaction session body s = (r, s')"
  shows "case r of Inr v \<Rightarrow> body s = (Inr v, snd (body s)) \<and> committed s' = working (snd (body s))
    | Inl e \<Rightarrow> committed s' = committed s"
proof -
  obtain x s1 where b: "body s = (x, s1)" by (cases "body s")
  have c1: "committed s1 = committed s" using body[of s] b by simp
  obtain y s2 where c: "ds_commit session s1 = (y, s2)" by (cases "ds_commit session s1")
  obtain z s3 where ro: "ds_rollback session (if is_ok x then s2 else s1) = (z, s3)"
    by (cases "ds_rollback session (if is_ok x then s2 else s1)")
  have c3: "committed s3 = committed (if is_ok x then s2 else s1)" using rollback[of "if is_ok x then s2 else s1"] ro by simp
  show ?thesis
    using run b c ro c1 c3 commit[of s1] by (cases x; cases y; cases z) (auto simp: database_transaction_def Let_def)
qed

end
