(* ===== verification/Webhook_Theorems.thy ===== *)
theory Webhook_Theorems
  imports Webhook_Lemmas Db_Sessions
begin

text \<open>The properties of webhook intake: the outcomes of an ingestion, replay protection
  over a sequence of deliveries, the idempotency ledger and HMAC signatures.\<close>

section \<open>Outcomes of an ingestion\<close>

text \<open>C5: An ingestion has one of three effects on the inbox table.  When it succeeds, it
  appends exactly one row, acknowledged and then enqueued, with the identifiers of the
  validated event; if signatures are required, the verifier has accepted this request and
  the row says so.  When only the enqueuer fails, the same row is appended with status
  failed and the error's text.  Every earlier failure leaves the table as it was.\<close>

theorem ingestion_outcomes:
  assumes "fresh_ids t"
    and "ingest_webhook_event lib cfg opts clk verifier validate enq source endpoint_key q t w = (r, t', w')"
  shows "fresh_ids t' \<and>
    (case r of
       Inr res \<Rightarrow> \<exists>e. tb_rows t' = tb_rows t @ [(ig_persisted_id res, e)] \<and> ig_persisted_id res = tb_next t \<and>
         ev_status e = WH_ENQUEUED \<and> ev_acknowledged_at e = Some (clk 3) \<and> ev_processed_at e = None \<and>
         ev_source e = source \<and> ev_endpoint_key e = endpoint_key \<and>
         ev_event_id e = ve_event_id (ig_validated_event res) \<and> ev_delivery_id e = ve_delivery_id (ig_validated_event res) \<and>
         (WEBHOOK_SIGNATURE_VERIFICATION_ENABLED cfg \<longrightarrow> ev_signature_verified e = Some True \<and>
            (\<exists>verify ctx v. verifier = Some verify \<and> sc_request ctx = q \<and> fst (verify ctx w) = Inr v))
     | Inl (Not_Enqueued exc) \<Rightarrow> \<exists>e. tb_rows t' = tb_rows t @ [(tb_next t, e)] \<and> ev_status e = WH_FAILED \<and>
         ev_acknowledged_at e = Some (clk 3) \<and> ev_processed_at e = Some (clk 4) \<and>
         ev_processing_error e = Some (format_exception_message exc)
     | Inl err \<Rightarrow> t' = t)"
proof (cases "\<exists>verification validated replay e w2.
    reaches_enqueuer lib cfg opts clk verifier validate source endpoint_key q t w verification validated replay e w2")
  case False
  from ingest_failed_early[OF assms(2) False] assms(1) show ?thesis
    by (auto split: sum.split ingest_error.split)
next
  case True
  then obtain verification validated replay e w2 where reach:
    "reaches_enqueuer lib cfg opts clk verifier validate source endpoint_key q t w verification validated replay e w2" by blast
  then have flow: "row_of_flow lib cfg opts clk source endpoint_key q verification validated replay e"
    by (elim reaches_enqueuerE) auto
  have signed: "verification \<noteq> None \<and> (\<exists>verify ctx v. verifier = Some verify \<and> sc_request ctx = q \<and> fst (verify ctx w) = Inr v)"
    if "WEBHOOK_SIGNATURE_VERIFICATION_ENABLED cfg"
    using reach by (elim reaches_enqueuerE) (erule verify_step_signed[OF _ that])
  show ?thesis
    using ingest_reaching[OF reach assms(1,2)] row_of_flow_fields[OF flow] signed
    by (cases r) (auto simp: mark_defs)
qed

section \<open>Replay protection\<close>

text \<open>A sequence of deliveries, each with its own clock, processed one after the other; each finds
  the table that the one before it left in its session.  A caller that rolls back after an error
  leaves fewer rows.\<close>

record 'w delivery =
  dv_options :: ingest_options
  dv_clock :: clock
  dv_verifier :: "'w verifier option"
  dv_validator :: "'w validator"
  dv_enqueuer :: "'w enqueuer"
  dv_source :: string
  dv_endpoint_key :: string
  dv_request :: ingestion_request

fun ingest_all :: "stdlib \<Rightarrow> webhook_settings \<Rightarrow> 'w delivery list \<Rightarrow> webhook_table \<Rightarrow> 'w \<Rightarrow> webhook_table \<times> 'w" where
  "ingest_all lib cfg [] t w = (t, w)"
| "ingest_all lib cfg (d # ds) t w =
     (case ingest_webhook_event lib cfg (dv_options d) (dv_clock d) (dv_verifier d) (dv_validator d) (dv_enqueuer d)
             (dv_source d) (dv_endpoint_key d) (dv_request d) t w of (_, t', w') \<Rightarrow> ingest_all lib cfg ds t' w')"

text \<open>A later event repeats an earlier one when it has an identifier and shares it, or has
  none and the same type and payload digest.\<close>

definition repeats :: "webhook_event \<Rightarrow> webhook_event \<Rightarrow> bool" where
  "repeats e e' \<longleftrightarrow> ev_source e = ev_source e' \<and> ev_endpoint_key e = ev_endpoint_key e' \<and>
     (if ev_delivery_id e' \<noteq> None \<or> ev_event_id e' \<noteq> None
      then (ev_delivery_id e' \<noteq> None \<and> ev_delivery_id e = ev_delivery_id e') \<or>
           (ev_event_id e' \<noteq> None \<and> ev_event_id e = ev_event_id e')
      else ev_event_type e = ev_event_type e' \<and> ev_payload_sha256 e = ev_payload_sha256 e')"

definition spaced :: "int \<Rightarrow> (int \<times> webhook_event) list \<Rightarrow> bool" where
  "spaced window = sorted_wrt (\<lambda>a b. repeats (snd a) (snd b) \<longrightarrow>
     seconds window < ev_received_at (snd b) - ev_received_at (snd a))"

lemma repeats_status [simp]:
  "repeats e (set_status st a p err n md e') = repeats e e'"
  by (simp add: repeats_def)

lemma ingest_keeps_spaced:
  assumes "WEBHOOK_REPLAY_PROTECTION_ENABLED cfg" "io_replay_window_seconds opts = None" "clk 1 \<le> clk 2"
    and "fresh_ids t" "spaced (WEBHOOK_REPLAY_WINDOW_SECONDS cfg) (tb_rows t)"
    and "ingest_webhook_event lib cfg opts clk verifier validate enq source endpoint_key q t w = (r, t', w')"
  shows "fresh_ids t' \<and> spaced (WEBHOOK_REPLAY_WINDOW_SECONDS cfg) (tb_rows t')"
proof (cases "\<exists>verification validated replay e w2.
    reaches_enqueuer lib cfg opts clk verifier validate source endpoint_key q t w verification validated replay e w2")
  case False
  from ingest_failed_early[OF assms(6) False] assms(4,5) show ?thesis by simp
next
  case True
  then obtain verification validated replay e w2 where reach:
    "reaches_enqueuer lib cfg opts clk verifier validate source endpoint_key q t w verification validated replay e w2" by blast
  then have flow: "row_of_flow lib cfg opts clk source endpoint_key q verification validated replay e"
    and rep: "replay_step lib cfg opts (clk 1) source endpoint_key q validated t = Inr replay"
    by (elim reaches_enqueuerE; simp)+
  note row = row_of_flow_fields[OF flow]
  let ?chk = "\<lparr> rk_source = source, rk_endpoint_key = endpoint_key, rk_request = q, rk_event = validated,
      rk_window_seconds = WEBHOOK_REPLAY_WINDOW_SECONDS cfg, rk_checked_at = clk 1 \<rparr>"
  have "is_ok (replay_protect lib ?chk t)"
    using rep assms(1,2) by (cases "replay_protect lib ?chk t")
      (auto simp: replay_step_def replay_check_post_init_def split: if_splits)
  then have none: "\<forall>row \<in> set (tb_rows t). \<not> replay_filter lib ?chk (snd row)" by (simp add: replay_protect_ok_iff)
  have gap: "seconds (WEBHOOK_REPLAY_WINDOW_SECONDS cfg) < ev_received_at e - ev_received_at (snd a)"
    if "a \<in> set (tb_rows t)" "repeats (snd a) e" for a
  proof -
    have "\<not> replay_filter lib ?chk (snd a)" using none that(1) by blast
    then have "ev_received_at (snd a) < clk 1 - seconds (WEBHOOK_REPLAY_WINDOW_SECONDS cfg)"
      using that(2) row by (auto simp: replay_filter_def repeats_def replay_window_started_at_def
          rk_payload_sha256_def Let_def split: if_splits)
    then show ?thesis using row(7) assms(3) by linarith
  qed
  obtain e' where "fresh_ids t' \<and> tb_rows t' = tb_rows t @ [(tb_next t, e')]"
      "ev_received_at e' = ev_received_at e" "\<forall>a. repeats a e' = repeats a e"
    using ingest_reaching[OF reach assms(4,6)] by (cases r) (auto simp: mark_defs)
  then show ?thesis using assms(5) gap by (simp add: spaced_def sorted_wrt_append)
qed

text \<open>C2: With replay protection enabled, processing any sequence of deliveries leaves an
  inbox in which an event that repeats an earlier one of the same source and endpoint was
  received more than a replay window after it, whatever the verifiers, validators and
  enqueuers do: within a window at most one delivery of an event is accepted.\<close>

theorem replay_window_separates_deliveries:
  assumes "WEBHOOK_REPLAY_PROTECTION_ENABLED cfg"
    and "\<forall>d \<in> set ds. dv_clock d 1 \<le> dv_clock d 2 \<and> io_replay_window_seconds (dv_options d) = None"
    and "fresh_ids t" "spaced (WEBHOOK_REPLAY_WINDOW_SECONDS cfg) (tb_rows t)"
    and "ingest_all lib cfg ds t w = (t', w')"
    and "i < j" "j < length (tb_rows t')" "repeats (snd (tb_rows t' ! i)) (snd (tb_rows t' ! j))"
  shows "seconds (WEBHOOK_REPLAY_WINDOW_SECONDS cfg) < ev_received_at (snd (tb_rows t' ! j)) - ev_received_at (snd (tb_rows t' ! i))"
proof -
  have "spaced (WEBHOOK_REPLAY_WINDOW_SECONDS cfg) (tb_rows t')"
    using assms(2-5)
  proof (induction ds arbitrary: t w)
    case (Cons d ds)
    obtain r t1 w1 where one: "ingest_webhook_event lib cfg (dv_options d) (dv_clock d) (dv_verifier d) (dv_validator d)
        (dv_enqueuer d) (dv_source d) (dv_endpoint_key d) (dv_request d) t w = (r, t1, w1)" by (metis prod_cases3)
    have "fresh_ids t1 \<and> spaced (WEBHOOK_REPLAY_WINDOW_SECONDS cfg) (tb_rows t1)"
      using Cons.prems by (intro ingest_keeps_spaced[OF assms(1) _ _ _ _ one]) auto
    with Cons.prems one show ?case by (intro Cons.IH[of t1 w1]) auto
  qed simp
  then show ?thesis using assms(6-8) by (simp add: spaced_def sorted_wrt_iff_nth_less)
qed

section \<open>A failed hand-off\<close>

text \<open>How a receiving route runs an ingestion, by the documentation and by the examples: inside
  \<open>database_transaction\<close>, on a session of its own.  The state is the table that is committed, the
  table as the session sees it and the world; \<open>commits_and_rolls_back\<close> is what the session
  promises, an exception of its own leaving what was committed.\<close>

record 'w intake =
  in_committed :: webhook_table
  in_working :: webhook_table
  in_world :: 'w

datatype 'd route_error = Ingest_Raised ingest_error | Database_Raised 'd

definition receive_webhook ::
  "('w intake, 'd route_error) db_session \<Rightarrow> stdlib \<Rightarrow> webhook_settings \<Rightarrow> ingest_options \<Rightarrow> clock \<Rightarrow> 'w verifier option
   \<Rightarrow> 'w validator \<Rightarrow> 'w enqueuer \<Rightarrow> string \<Rightarrow> string \<Rightarrow> ingestion_request \<Rightarrow> 'w intake
   \<Rightarrow> ('d route_error + ingest_result) \<times> 'w intake" where
  "receive_webhook session lib cfg opts clk verifier validate enq source endpoint_key q =
     database_transaction session (\<lambda>s.
       case ingest_webhook_event lib cfg opts clk verifier validate enq source endpoint_key q (in_working s) (in_world s) of
         (r, t', w') \<Rightarrow> (map_sum Ingest_Raised id r, s\<lparr> in_working := t', in_world := w' \<rparr>))"

definition new_session :: "webhook_table \<Rightarrow> 'w \<Rightarrow> 'w intake" where
  "new_session t w = \<lparr> in_committed = t, in_working = t, in_world = w \<rparr>"

definition commits_and_rolls_back :: "('w intake, 'd route_error) db_session \<Rightarrow> bool" where
  "commits_and_rolls_back session \<longleftrightarrow> (\<forall>s.
     (case ds_commit session s of
        (Inr _, s') \<Rightarrow> s' = s\<lparr> in_committed := in_working s \<rparr>
      | (Inl e, s') \<Rightarrow> (\<exists>d. e = Database_Raised d) \<and> in_committed s' = in_committed s) \<and>
     (case ds_rollback session s of
        (Inr _, s') \<Rightarrow> s' = s\<lparr> in_working := in_committed s \<rparr>
      | (Inl e, s') \<Rightarrow> (\<exists>d. e = Database_Raised d) \<and> in_committed s' = in_committed s))"

text \<open>What a route leaves committed.\<close>

lemma receive_webhook_commits:
  assumes c: "commits_and_rolls_back session"
    and i: "ingest_webhook_event lib cfg opts clk verifier validate enq source endpoint_key q t w = (r, t', w')"
    and run: "receive_webhook session lib cfg opts clk verifier validate enq source endpoint_key q (new_session t w) = (x, s)"
  shows "case x of
      Inr res \<Rightarrow> r = Inr res \<and> in_committed s = t'
    | Inl (Ingest_Raised err) \<Rightarrow> r = Inl err \<and> in_committed s = t \<and> in_world s = w'
    | Inl (Database_Raised d) \<Rightarrow> in_committed s = t"
proof -
  let ?s = "\<lparr> in_committed = t, in_working = t', in_world = w' \<rparr>"
  obtain y s1 where cm: "ds_commit session ?s = (y, s1)" by fastforce
  obtain z s2 where rb: "ds_rollback session ?s = (z, s2)" by fastforce
  obtain z' s3 where rb': "ds_rollback session s1 = (z', s3)" by fastforce
  have "case y of Inr _ \<Rightarrow> s1 = ?s\<lparr> in_committed := t' \<rparr> | Inl e \<Rightarrow> (\<exists>d. e = Database_Raised d) \<and> in_committed s1 = t"
    using c[unfolded commits_and_rolls_back_def, THEN spec[of _ ?s]] cm by (cases y) simp_all
  moreover have "case z of Inr _ \<Rightarrow> s2 = ?s\<lparr> in_working := t \<rparr> | Inl e \<Rightarrow> (\<exists>d. e = Database_Raised d) \<and> in_committed s2 = t"
    using c[unfolded commits_and_rolls_back_def, THEN spec[of _ ?s]] rb by (cases z) simp_all
  moreover have "case z' of Inr _ \<Rightarrow> s3 = s1\<lparr> in_working := in_committed s1 \<rparr>
      | Inl e \<Rightarrow> (\<exists>d. e = Database_Raised d) \<and> in_committed s3 = in_committed s1"
    using c[unfolded commits_and_rolls_back_def, THEN spec[of _ s1]] rb' by (cases z') simp_all
  ultimately show ?thesis
    using run by (cases r; cases y; cases z; cases z')
      (auto simp: receive_webhook_def database_transaction_def new_session_def i cm rb rb' Let_def)
qed

text \<open>Replay protection only forgets with time, and whether a row can be built from a request does
  not depend on the clock, the signature or the replay record.\<close>

lemma replay_step_later:
  assumes "replay_step lib cfg opts now source endpoint_key q validated t = Inr replay" "now \<le> now'"
  shows "\<exists>replay'. replay_step lib cfg opts now' source endpoint_key q validated t = Inr replay'"
proof (cases "WEBHOOK_REPLAY_PROTECTION_ENABLED cfg")
  case True
  let ?chk = "\<lambda>now. \<lparr> rk_source = source, rk_endpoint_key = endpoint_key, rk_request = q, rk_event = validated,
      rk_window_seconds = (case io_replay_window_seconds opts of None \<Rightarrow> WEBHOOK_REPLAY_WINDOW_SECONDS cfg | Some s \<Rightarrow> s),
      rk_checked_at = now \<rparr>"
  have init: "replay_check_post_init (?chk n) = Inr (?chk n)" for n
    using assms(1) True by (auto simp: replay_step_def replay_check_post_init_def split: if_splits)
  have "is_ok (replay_protect lib (?chk now) t)"
    using assms(1) True init by (cases "replay_protect lib (?chk now) t") (auto simp: replay_step_def)
  then have "\<forall>row \<in> set (tb_rows t). \<not> replay_filter lib (?chk now) (snd row)" by (simp add: replay_protect_ok_iff)
  moreover have "replay_filter lib (?chk now') e \<Longrightarrow> replay_filter lib (?chk now) e" for e
    using assms(2) by (auto simp: replay_filter_def replay_window_started_at_def rk_payload_sha256_def Let_def split: if_splits)
  ultimately have "is_ok (replay_protect lib (?chk now') t)" by (auto simp: replay_protect_ok_iff)
  then obtain p where "replay_protect lib (?chk now') t = Inr p" by (cases "replay_protect lib (?chk now') t") auto
  then show ?thesis using True init by (simp add: replay_step_def)
qed (simp add: replay_step_def)

lemma row_of_flow_again:
  assumes "row_of_flow lib cfg opts clk source endpoint_key q verification validated replay e"
  shows "\<exists>e'. row_of_flow lib cfg opts clk' source endpoint_key q verification' validated replay' e'"
  using assms by (auto simp: row_of_flow_def build_event_def bind_sum_Inr_iff persistence_request_of_def
      coerce_webhook_event_status_def render_raw_payload_def split: sum.splits if_splits)

text \<open>C22: A failed hand-off to the queue does not lose the delivery, and leaves no trace of it.  The
  ingestion marks the row it has added as failed and raises; the transaction of the receiving
  route is rolled back, so what is committed is the table as it was, without that row and its
  error text.  When the provider delivers the event again, at any later time, and the verifier
  accepts it, it is not refused as a replay: it is stored and enqueued as a first delivery,
  unless the hand-off or the database fails again.\<close>

theorem failed_handoff_is_forgotten:
  assumes "commits_and_rolls_back session" "fresh_ids t" "validate = (\<lambda>q v w. (parse q, w))"
    and "ingest_webhook_event lib cfg opts clk verifier validate enq source endpoint_key q t w = (Inl (Not_Enqueued exc), t1, w1)"
    and "receive_webhook session lib cfg opts clk verifier validate enq source endpoint_key q (new_session t w) = (r1, s1)"
    and "verify_step cfg opts (clk' 0) verifier source endpoint_key q w2 = (Inr v, w3)" "clk 1 \<le> clk' 1"
    and "receive_webhook session lib cfg opts clk' verifier validate enq' source endpoint_key q (new_session (in_committed s1) w2) = (r2, s2)"
  shows "(\<exists>e. tb_rows t1 = tb_rows t @ [(tb_next t, e)] \<and> ev_status e = WH_FAILED \<and>
        ev_processing_error e = Some (format_exception_message exc)) \<and>
     \<not> is_ok r1 \<and> in_committed s1 = t \<and>
     (case r2 of
        Inr res \<Rightarrow> \<exists>e. tb_rows (in_committed s2) = tb_rows t @ [(tb_next t, e)] \<and> ev_status e = WH_ENQUEUED \<and>
          ig_persisted_id res = tb_next t
      | Inl (Ingest_Raised err) \<Rightarrow> \<exists>exc'. err = Not_Enqueued exc'
      | Inl (Database_Raised d) \<Rightarrow> in_committed s2 = t)"
proof -
  obtain verification validated replay e u where reach:
    "reaches_enqueuer lib cfg opts clk verifier validate source endpoint_key q t w verification validated replay e u"
    using ingest_failed_early[OF assms(4)] by blast
  then have flow: "row_of_flow lib cfg opts clk source endpoint_key q verification validated replay e"
    and parse: "parse q = Inr validated"
    and rep: "replay_step lib cfg opts (clk 1) source endpoint_key q validated t = Inr replay"
    using assms(3) by (elim reaches_enqueuerE; simp)+
  have marked: "\<exists>e. tb_rows t1 = tb_rows t @ [(tb_next t, e)] \<and> ev_status e = WH_FAILED \<and>
      ev_processing_error e = Some (format_exception_message exc)"
    using ingest_reaching[OF reach assms(2,4)] by (auto simp: mark_defs)
  have first: "\<not> is_ok r1 \<and> in_committed s1 = t"
    using receive_webhook_commits[OF assms(1,4,5)] by (auto split: sum.splits route_error.splits)
  obtain replay' where rep': "replay_step lib cfg opts (clk' 1) source endpoint_key q validated t = Inr replay'"
    using replay_step_later[OF rep assms(7)] by blast
  obtain e' where flow': "row_of_flow lib cfg opts clk' source endpoint_key q v validated replay' e'"
    using row_of_flow_again[OF flow] by blast
  have reach': "reaches_enqueuer lib cfg opts clk' verifier validate source endpoint_key q t w2 v validated replay' e' w3"
    by (rule reaches_enqueuer.intros[OF assms(6) _ rep' flow']) (simp add: assms(3) parse)
  obtain r t2 w4 where again: "ingest_webhook_event lib cfg opts clk' verifier validate enq' source endpoint_key q t w2 = (r, t2, w4)"
    by (metis prod_cases3)
  note I = ingest_reaching[OF reach' assms(2) again]
  have run: "receive_webhook session lib cfg opts clk' verifier validate enq' source endpoint_key q (new_session t w2) = (r2, s2)"
    using assms(8) first by simp
  note R = receive_webhook_commits[OF assms(1) again run]
  have "case r2 of
        Inr res \<Rightarrow> \<exists>e. tb_rows (in_committed s2) = tb_rows t @ [(tb_next t, e)] \<and> ev_status e = WH_ENQUEUED \<and>
          ig_persisted_id res = tb_next t
      | Inl (Ingest_Raised err) \<Rightarrow> \<exists>exc'. err = Not_Enqueued exc'
      | Inl (Database_Raised d) \<Rightarrow> in_committed s2 = t"
    using R I by (auto simp: mark_defs split: sum.splits route_error.splits)
  with marked first show ?thesis by blast
qed

section \<open>A demonstration provider\<close>

definition demo_lib :: stdlib where
  "demo_lib = \<lparr> lib_sha256 = (\<lambda>b. b), lib_decode = (\<lambda>_ b. Inr b),
     lib_loads = (\<lambda>b. Inr (JDict [(''type'', JStr ''order.paid''), (''id'', JStr b)])), lib_repr = (\<lambda>_. []) \<rparr>"

definition demo_cfg :: webhook_settings where
  "demo_cfg = \<lparr> WEBHOOK_SIGNATURE_VERIFICATION_ENABLED = True, WEBHOOK_SIGNATURE_MAX_AGE_SECONDS = 300,
     WEBHOOK_REPLAY_PROTECTION_ENABLED = True, WEBHOOK_REPLAY_WINDOW_SECONDS = 300, WEBHOOK_STORE_RAW_PAYLOADS = False \<rparr>"

definition demo_opts :: ingest_options where
  "demo_opts = \<lparr> io_signature_max_age_seconds = None, io_replay_window_seconds = None, io_store_raw_payload = None,
     io_processing_metadata = None \<rparr>"

definition demo_signature :: signature_result where
  "demo_signature = \<lparr> sv_provider = ''p'', sv_endpoint_key = ''default'', sv_verified_at = 0, sv_signature = None,
     sv_algorithm = None, sv_key_id = None, sv_signed_at = None \<rparr>"

definition demo_verifier :: "unit verifier" where
  "demo_verifier = (\<lambda>ctx w. (Inr demo_signature, w))"

definition demo_validator :: "unit validator" where
  "demo_validator = (\<lambda>q v w. (validate_json_webhook_event demo_lib q, w))"

definition demo_enqueuer :: "bool \<Rightarrow> unit enqueuer" where
  "demo_enqueuer up = (\<lambda>r w. (if up then Inr None else Inl \<lparr> re_type = ''ConnectionError'', re_message = '' '', re_code = None \<rparr>, w))"

definition demo_webhook :: ingestion_request where
  "demo_webhook = \<lparr> iq_headers = (\<lambda>_. None), iq_state = \<lparr> rs_request_context = None, rs_request_id = None, rs_correlation_id = None \<rparr>,
     iq_raw_body = ''e-1'', iq_content_type = None \<rparr>"

definition demo_ingest :: "bool \<Rightarrow> instant \<Rightarrow> webhook_table \<Rightarrow> (ingest_error + ingest_result) \<times> webhook_table \<times> unit" where
  "demo_ingest up now t = ingest_webhook_event demo_lib demo_cfg demo_opts (\<lambda>_. now) (Some demo_verifier) demo_validator
     (demo_enqueuer up) ''p'' ''default'' demo_webhook t ()"

definition demo_event :: validated_event where
  "demo_event = \<lparr> ve_event_type = ''order.paid'', ve_event_id = Some ''e-1'', ve_delivery_id = None,
     ve_normalized_payload = Some [(''type'', JStr ''order.paid''), (''id'', JStr ''e-1'')], ve_processing_metadata = None \<rparr>"

lemma demo_validates: "validate_json_webhook_event demo_lib demo_webhook = Inr demo_event"
  by (simp add: validate_json_webhook_event_def demo_lib_def demo_webhook_def demo_event_def get_value_def py_str_def
      py_strip_def is_py_space_def none_if_empty_def)

lemma demo_verifies: "verify_step demo_cfg demo_opts now (Some demo_verifier) src ep q () = (Inr (Some demo_signature), ())"
  by (simp add: verify_step_def demo_verifier_def)

lemma demo_cfg_simps [simp]:
  "WEBHOOK_SIGNATURE_VERIFICATION_ENABLED demo_cfg" "WEBHOOK_REPLAY_PROTECTION_ENABLED demo_cfg"
  "WEBHOOK_REPLAY_WINDOW_SECONDS demo_cfg = 300" "io_replay_window_seconds demo_opts = None"
  "\<not> WEBHOOK_STORE_RAW_PAYLOADS demo_cfg" "io_store_raw_payload demo_opts = None"
  by (simp_all add: demo_cfg_def demo_opts_def)

lemma demo_outcome:
  assumes "\<forall>row \<in> set (tb_rows t). ev_received_at (snd row) + seconds 300 < now"
  shows "\<exists>r t'. demo_ingest up now t = (r, t', ()) \<and> (if up then is_ok r else \<exists>exc. r = Inl (Not_Enqueued exc))"
proof -
  let ?chk = "\<lparr> rk_source = ''p'', rk_endpoint_key = ''default'', rk_request = demo_webhook, rk_event = demo_event,
      rk_window_seconds = 300, rk_checked_at = now \<rparr>"
  have "\<not> replay_filter demo_lib ?chk (snd row)" if "row \<in> set (tb_rows t)" for row
    using assms that by (fastforce simp: replay_filter_def replay_window_started_at_def)
  then have "is_ok (replay_protect demo_lib ?chk t)" by (simp add: replay_protect_ok_iff)
  then obtain rep where "replay_protect demo_lib ?chk t = Inr rep" by (cases "replay_protect demo_lib ?chk t") auto
  moreover have "replay_check_post_init ?chk = Inr ?chk"
    by (simp add: replay_check_post_init_def py_strip_def is_py_space_def)
  ultimately have rep: "replay_step demo_lib demo_cfg demo_opts now ''p'' ''default'' demo_webhook demo_event t = Inr (Some rep)"
    by (simp add: replay_step_def)
  show ?thesis
    by (simp add: demo_ingest_def ingest_webhook_event_def demo_verifies demo_validator_def demo_validates rep persist_event_def
        build_event_def persistence_request_of_def coerce_webhook_event_status_def render_raw_payload_def
        demo_enqueuer_def insert_row_def Let_def)
qed

definition empty_inbox :: webhook_table where
  "empty_inbox = \<lparr> tb_next = 1, tb_rows = [] \<rparr>"

lemma empty_inbox_simps [simp]: "tb_rows empty_inbox = []" "fresh_ids empty_inbox" "tb_next empty_inbox = 1"
  by (simp_all add: empty_inbox_def fresh_ids_def)

theorem ingestion_outcomes_witness:
  "\<exists>res t' e. demo_ingest True 7 empty_inbox = (Inr res, t', ()) \<and> tb_rows t' = [(1, e)] \<and> ev_status e = WH_ENQUEUED \<and>
     ev_signature_verified e = Some True"
proof -
  obtain r t' where d: "demo_ingest True 7 empty_inbox = (r, t', ())" "is_ok r"
    using demo_outcome[of empty_inbox 7 True] by auto
  then obtain res where "r = Inr res" by (cases r) auto
  with ingestion_outcomes[OF _ d(1)[unfolded demo_ingest_def]] d(1) show ?thesis by auto
qed

definition demo_db :: "(unit intake, unit route_error) db_session" where
  "demo_db = \<lparr> ds_commit = (\<lambda>s. (Inr (), s\<lparr> in_committed := in_working s \<rparr>)),
     ds_rollback = (\<lambda>s. (Inr (), s\<lparr> in_working := in_committed s \<rparr>)) \<rparr>"

definition demo_route :: "bool \<Rightarrow> instant \<Rightarrow> webhook_table \<Rightarrow> (unit route_error + ingest_result) \<times> unit intake" where
  "demo_route up now t = receive_webhook demo_db demo_lib demo_cfg demo_opts (\<lambda>_. now) (Some demo_verifier) demo_validator
     (demo_enqueuer up) ''p'' ''default'' demo_webhook (new_session t ())"

theorem failed_handoff_is_forgotten_witness:
  "in_committed (snd (demo_route False 7 empty_inbox)) = empty_inbox \<and>
   (\<exists>res s e. demo_route True 8 (in_committed (snd (demo_route False 7 empty_inbox))) = (Inr res, s) \<and>
     tb_rows (in_committed s) = [(1, e)] \<and> ev_status e = WH_ENQUEUED)"
proof -
  have db: "commits_and_rolls_back demo_db" by (simp add: commits_and_rolls_back_def demo_db_def)
  obtain exc t1 where d: "demo_ingest False 7 empty_inbox = (Inl (Not_Enqueued exc), t1, ())"
    using demo_outcome[of empty_inbox 7 False] by auto
  obtain r1 s1 where a: "demo_route False 7 empty_inbox = (r1, s1)" by fastforce
  obtain r2 s2 where b: "demo_route True 8 (in_committed s1) = (r2, s2)" by fastforce
  have later: "(\<lambda>_. 7) (1::nat) \<le> (\<lambda>_. 8::instant) (1::nat)" by simp
  note F = failed_handoff_is_forgotten[OF db _ demo_validator_def d[unfolded demo_ingest_def] a[unfolded demo_route_def]
      demo_verifies later b[unfolded demo_route_def]]
  then have s1: "in_committed s1 = empty_inbox" by simp
  obtain r t2 where up: "demo_ingest True 8 empty_inbox = (r, t2, ())" "is_ok r"
    using demo_outcome[of empty_inbox 8 True] by auto
  have "is_ok r2"
    using b up by (cases r) (auto simp: s1 demo_route_def demo_ingest_def receive_webhook_def database_transaction_def new_session_def demo_db_def)
  with F a b s1 show ?thesis by (cases r2) auto
qed

lemma demo_row:
  assumes "demo_ingest True now t = (Inr res, t', ())" "fresh_ids t"
  shows "\<exists>e. tb_rows t' = tb_rows t @ [(tb_next t, e)] \<and> fresh_ids t' \<and> tb_next t' = tb_next t + 1 \<and>
    ev_received_at e = now \<and> ev_source e = ''p'' \<and> ev_endpoint_key e = ''default'' \<and> ev_event_id e = Some ''e-1''"
proof -
  obtain verification validated replay e w2 where reach: "reaches_enqueuer demo_lib demo_cfg demo_opts (\<lambda>_. now) (Some demo_verifier)
      demo_validator ''p'' ''default'' demo_webhook t () verification validated replay e w2"
    using ingest_failed_early[OF assms(1)[unfolded demo_ingest_def]] by blast
  then have "validated = demo_event"
    and "row_of_flow demo_lib demo_cfg demo_opts (\<lambda>_. now) ''p'' ''default'' demo_webhook verification validated replay e"
    by (elim reaches_enqueuerE; simp add: demo_validator_def demo_validates)+
  with ingest_reaching[OF reach assms(2) assms(1)[unfolded demo_ingest_def]] row_of_flow_fields[OF this(2)] show ?thesis
    by (auto simp: mark_defs demo_event_def)
qed

definition demo_delivery :: "instant \<Rightarrow> unit delivery" where
  "demo_delivery now = \<lparr> dv_options = demo_opts, dv_clock = (\<lambda>_. now), dv_verifier = Some demo_verifier,
     dv_validator = demo_validator, dv_enqueuer = demo_enqueuer True, dv_source = ''p'', dv_endpoint_key = ''default'',
     dv_request = demo_webhook \<rparr>"

theorem replay_window_separates_deliveries_witness:
  "\<exists>t' e e'. ingest_all demo_lib demo_cfg [demo_delivery 0, demo_delivery (seconds 400)] empty_inbox () = (t', ()) \<and>
     tb_rows t' = [(1, e), (2, e')] \<and> seconds 300 < ev_received_at e' - ev_received_at e"
proof -
  obtain r1 t1 where d1: "demo_ingest True 0 empty_inbox = (r1, t1, ())" "is_ok r1"
    using demo_outcome[of empty_inbox 0 True] by auto
  then obtain res1 where r1: "r1 = Inr res1" by (cases r1) auto
  obtain e where e: "tb_rows t1 = [(1, e)]" "fresh_ids t1" "tb_next t1 = 2" "ev_received_at e = 0"
      "ev_source e = ''p''" "ev_endpoint_key e = ''default''" "ev_event_id e = Some ''e-1''"
    using demo_row[OF d1(1)[unfolded r1]] by auto
  obtain r2 t2 where d2: "demo_ingest True (seconds 400) t1 = (r2, t2, ())" "is_ok r2"
    using demo_outcome[of t1 "seconds 400" True] e by (auto simp: seconds_def)
  then obtain res2 where r2: "r2 = Inr res2" by (cases r2) auto
  obtain e' where e': "tb_rows t2 = [(1, e), (2, e')]" "ev_received_at e' = seconds 400"
      "ev_source e' = ''p''" "ev_endpoint_key e' = ''default''" "ev_event_id e' = Some ''e-1''"
    using demo_row[OF d2(1)[unfolded r2] e(2)] e by auto
  have run: "ingest_all demo_lib demo_cfg [demo_delivery 0, demo_delivery (seconds 400)] empty_inbox () = (t2, ())"
    using d1(1) d2(1) by (simp add: demo_delivery_def demo_ingest_def)
  have "repeats (snd (tb_rows t2 ! 0)) (snd (tb_rows t2 ! 1))" by (simp add: e' e repeats_def)
  moreover have "\<forall>d \<in> set [demo_delivery 0, demo_delivery (seconds 400)].
      dv_clock d 1 \<le> dv_clock d 2 \<and> io_replay_window_seconds (dv_options d) = None" by (simp add: demo_delivery_def)
  moreover have "spaced (WEBHOOK_REPLAY_WINDOW_SECONDS demo_cfg) (tb_rows empty_inbox)" by (simp add: spaced_def)
  ultimately show ?thesis
    using replay_window_separates_deliveries[OF _ _ _ _ run, of 0 1] run e' by auto
qed

end
