(* ===== verification/Webhook_Processing.thy ===== *)
theory Webhook_Processing
  imports Webhook_Model Dead_Letters Http_Errors
begin

text \<open>
  webhooks/processing.py and webhooks/dead_letter.py: the acknowledgement response, the
  payload snapshot, the job request that carries an event to the worker, the retry
  decision after a failed attempt, and the store that moves a failed event into the
  shared dead-letter table.
\<close>

section \<open>Acknowledgement and snapshot\<close>

datatype ack_policy = ACK_IMMEDIATE | ACK_DEFERRED

record ack_result =
  ak_status :: string
  ak_event_id :: "int option"
  ak_correlation_id :: "string option"
  ak_policy :: ack_policy
  ak_acknowledged_at :: instant

definition as_response_body :: "ack_result \<Rightarrow> dict" where
  "as_response_body a = [(''status'', JStr (ak_status a))]
     @ opt_field ''event_id'' (map_option JInt (ak_event_id a))
     @ opt_field ''correlation_id'' (map_option JStr (ak_correlation_id a))"

definition build_webhook_ack_response :: "instant \<Rightarrow> int \<Rightarrow> string option \<Rightarrow> ack_policy \<Rightarrow> ack_result" where
  "build_webhook_ack_response now i correlation_id policy =
     \<lparr> ak_status = ''accepted'', ak_event_id = Some i, ak_correlation_id = correlation_id, ak_policy = policy,
       ak_acknowledged_at = now \<rparr>"

record payload_snapshot =
  ps_raw_payload :: "string option"
  ps_normalized_payload :: "dict option"
  ps_content_type :: "string option"
  ps_payload_sha256 :: "string option"
  ps_payload_size_bytes :: "int option"
  ps_stored_at :: instant

definition build_payload_snapshot :: "instant \<Rightarrow> webhook_event \<Rightarrow> payload_snapshot" where
  "build_payload_snapshot now e =
     \<lparr> ps_raw_payload = ev_raw_payload e, ps_normalized_payload = copy_mapping (ev_normalized_payload e),
       ps_content_type = ev_payload_content_type e, ps_payload_sha256 = ev_payload_sha256 e,
       ps_payload_size_bytes = ev_payload_size_bytes e, ps_stored_at = now \<rparr>"

section \<open>Job requests\<close>

record processing_job_request =
  pj_webhook_event_id :: int
  pj_source :: string
  pj_endpoint_key :: string
  pj_event_type :: string
  pj_correlation_id :: "string option"
  pj_delivery_id :: "string option"
  pj_event_id :: "string option"
  pj_payload_sha256 :: "string option"
  pj_processing_metadata :: "dict option"

definition as_job_payload :: "processing_job_request \<Rightarrow> dict" where
  "as_job_payload q =
     [(''webhook_event_id'', JInt (pj_webhook_event_id q)), (''source'', JStr (pj_source q)),
      (''endpoint_key'', JStr (pj_endpoint_key q)), (''event_type'', JStr (pj_event_type q))]
     @ opt_field ''correlation_id'' (map_option JStr (pj_correlation_id q))
     @ opt_field ''delivery_id'' (map_option JStr (pj_delivery_id q))
     @ opt_field ''event_id'' (map_option JStr (pj_event_id q))
     @ opt_field ''payload_sha256'' (map_option JStr (pj_payload_sha256 q))
     @ opt_field ''processing_metadata'' (map_option JDict (pj_processing_metadata q))"

text \<open>\<open>int\<close> of a JSON value (None is a \<open>ValueError\<close> or \<open>TypeError\<close>).\<close>

definition int_of_json :: "json \<Rightarrow> int option" where
  "int_of_json j = (case j of
     JInt i \<Rightarrow> Some i
   | JBool b \<Rightarrow> Some (if b then 1 else 0)
   | JFloat q \<Rightarrow> Some (if q < 0 then - \<lfloor>- q\<rfloor> else \<lfloor>q\<rfloor>)
   | JStr s \<Rightarrow> py_int s
   | _ \<Rightarrow> None)"

text \<open>An optional value is kept when it is absent, null or of its declared type; the
  dataclass does not check the type, so other values are outside the model (None of the
  outer option, as are a \<open>KeyError\<close> and a failing \<open>int\<close>).\<close>

definition optional_str :: "dict \<Rightarrow> string \<Rightarrow> string option option" where
  "optional_str d k = (case get_value d k of None \<Rightarrow> Some None | Some (JStr s) \<Rightarrow> Some (Some s) | Some _ \<Rightarrow> None)"

definition optional_dict :: "dict \<Rightarrow> string \<Rightarrow> dict option option" where
  "optional_dict d k = (case get_value d k of None \<Rightarrow> Some None | Some (JDict m) \<Rightarrow> Some (Some m) | Some _ \<Rightarrow> None)"

definition from_job_payload :: "stdlib \<Rightarrow> dict \<Rightarrow> processing_job_request option" where
  "from_job_payload lib d =
     Option.bind (Option.bind (map_of d ''webhook_event_id'') int_of_json) (\<lambda>i.
     Option.bind (map_of d ''source'') (\<lambda>src.
     Option.bind (map_of d ''endpoint_key'') (\<lambda>ep.
     Option.bind (map_of d ''event_type'') (\<lambda>ty.
     Option.bind (optional_str d ''correlation_id'') (\<lambda>corr.
     Option.bind (optional_str d ''delivery_id'') (\<lambda>dlv.
     Option.bind (optional_str d ''event_id'') (\<lambda>evid.
     Option.bind (optional_str d ''payload_sha256'') (\<lambda>sha.
     Option.bind (optional_dict d ''processing_metadata'') (\<lambda>md.
       Some \<lparr> pj_webhook_event_id = i, pj_source = py_str lib src, pj_endpoint_key = py_str lib ep,
              pj_event_type = py_str lib ty, pj_correlation_id = corr, pj_delivery_id = dlv,
              pj_event_id = evid, pj_payload_sha256 = sha, pj_processing_metadata = md \<rparr>)))))))))"

definition build_processing_job_request ::
  "int \<Rightarrow> webhook_event \<Rightarrow> string option \<Rightarrow> dict option \<Rightarrow> processing_job_request" where
  "build_processing_job_request i e correlation_id extra_metadata =
     \<lparr> pj_webhook_event_id = i, pj_source = ev_source e, pj_endpoint_key = ev_endpoint_key e,
       pj_event_type = ev_event_type e, pj_correlation_id = correlation_id, pj_delivery_id = ev_delivery_id e,
       pj_event_id = ev_event_id e, pj_payload_sha256 = ev_payload_sha256 e,
       pj_processing_metadata = copy_mapping extra_metadata \<rparr>"

section \<open>Attempts and retry decisions\<close>

datatype processing_status = PS_STARTED | PS_SUCCEEDED | PS_FAILED_RETRYABLE | PS_FAILED_PERMANENT | PS_DEAD_LETTERED

fun processing_status_value :: "processing_status \<Rightarrow> string" where
  "processing_status_value PS_STARTED = ''started''"
| "processing_status_value PS_SUCCEEDED = ''succeeded''"
| "processing_status_value PS_FAILED_RETRYABLE = ''failed_retryable''"
| "processing_status_value PS_FAILED_PERMANENT = ''failed_permanent''"
| "processing_status_value PS_DEAD_LETTERED = ''dead_lettered''"

datatype retry_decision = RETRY | DEAD_LETTER | DISCARD

fun retry_decision_value :: "retry_decision \<Rightarrow> string" where
  "retry_decision_value RETRY = ''retry''"
| "retry_decision_value DEAD_LETTER = ''dead_letter''"
| "retry_decision_value DISCARD = ''discard''"

record processing_attempt =
  pa_webhook_event_id :: int
  pa_attempt_number :: int
  pa_max_attempts :: int
  pa_started_at :: instant
  pa_source :: string
  pa_event_type :: string
  pa_correlation_id :: "string option"

definition processing_attempt_post_init :: "processing_attempt \<Rightarrow> string + processing_attempt" where
  "processing_attempt_post_init a =
     (if pa_attempt_number a < 1 then Inl ''Processing attempt_number must be at least 1''
      else if pa_max_attempts a < 1 then Inl ''Processing max_attempts must be at least 1''
      else Inr a)"

definition is_final_attempt :: "processing_attempt \<Rightarrow> bool" where
  "is_final_attempt a \<longleftrightarrow> pa_attempt_number a \<ge> pa_max_attempts a"

definition remaining_attempts :: "processing_attempt \<Rightarrow> int" where
  "remaining_attempts a = max (pa_max_attempts a - pa_attempt_number a) 0"

record processing_outcome =
  po_attempt :: processing_attempt
  po_status :: processing_status
  po_retry_decision :: "retry_decision option"
  po_error_message :: "string option"
  po_error_category :: "string option"
  po_completed_at :: instant
  po_processing_metadata :: "dict option"

definition po_succeeded :: "processing_outcome \<Rightarrow> bool" where
  "po_succeeded o1 \<longleftrightarrow> po_status o1 = PS_SUCCEEDED"

definition should_retry :: "processing_outcome \<Rightarrow> bool" where
  "should_retry o1 \<longleftrightarrow> po_retry_decision o1 = Some RETRY"

definition should_dead_letter :: "processing_outcome \<Rightarrow> bool" where
  "should_dead_letter o1 \<longleftrightarrow> po_retry_decision o1 = Some DEAD_LETTER"

definition outcome_metadata :: "processing_outcome \<Rightarrow> dict" where
  "outcome_metadata o1 = [(''processing'', JDict
     ([(''status'', JStr (processing_status_value (po_status o1))),
       (''attempt_number'', JInt (pa_attempt_number (po_attempt o1))),
       (''max_attempts'', JInt (pa_max_attempts (po_attempt o1))),
       (''started_at'', JStr (isoformat (pa_started_at (po_attempt o1)))),
       (''completed_at'', JStr (isoformat (po_completed_at o1)))]
      @ opt_field ''retry_decision'' (map_option (\<lambda>d. JStr (retry_decision_value d)) (po_retry_decision o1))
      @ opt_field ''error_message'' (map_option JStr (po_error_message o1))
      @ opt_field ''error_category'' (map_option JStr (po_error_category o1))))]"

text \<open>\<open>isinstance\<close> of the error against a tuple of exception classes: the classes of the
  error, its own and its ancestors', are an argument; a tuple is a list of class names.\<close>

definition isinstance_of :: "string list \<Rightarrow> string list \<Rightarrow> bool" where
  "isinstance_of mro classes \<longleftrightarrow> (\<exists>c \<in> set classes. c \<in> set mro)"

definition decide_retry ::
  "instant \<Rightarrow> processing_attempt \<Rightarrow> raised_error \<Rightarrow> string list \<Rightarrow> string list \<Rightarrow> string list \<Rightarrow> processing_outcome" where
  "decide_retry now attempt error mro retryable_errors permanent_errors =
     (let error_message = or_list (Some (py_strip (re_message error))) (re_type error);
          outcome = (\<lambda>status decision. \<lparr> po_attempt = attempt, po_status = status, po_retry_decision = Some decision,
             po_error_message = Some error_message, po_error_category = Some (re_type error), po_completed_at = now,
             po_processing_metadata = None \<rparr>)
      in if permanent_errors \<noteq> [] \<and> isinstance_of mro permanent_errors
         then outcome PS_FAILED_PERMANENT DEAD_LETTER
         else if is_final_attempt attempt then outcome PS_FAILED_RETRYABLE DEAD_LETTER
         else if retryable_errors = [] \<or> isinstance_of mro retryable_errors
         then outcome PS_FAILED_RETRYABLE RETRY
         else outcome PS_FAILED_PERMANENT DEAD_LETTER)"

definition build_success_outcome :: "instant \<Rightarrow> processing_attempt \<Rightarrow> processing_outcome" where
  "build_success_outcome now attempt =
     \<lparr> po_attempt = attempt, po_status = PS_SUCCEEDED, po_retry_decision = None, po_error_message = None,
       po_error_category = None, po_completed_at = now, po_processing_metadata = None \<rparr>"

section \<open>Dead-lettering an event\<close>

definition WEBHOOK_DEAD_LETTER_NAMESPACE :: string where "WEBHOOK_DEAD_LETTER_NAMESPACE = ''webhooks''"

record webhook_dead_letter_request =
  wl_webhook_event_id :: int
  wl_source :: string
  wl_endpoint_key :: string
  wl_event_type :: string
  wl_failure_category :: "string option"
  wl_error_code :: "string option"
  wl_error_detail :: "string option"
  wl_correlation_id :: "string option"
  wl_attempt_count :: int
  wl_payload_snapshot :: "dict option"
  wl_failure_context :: "dict option"

definition webhook_dead_letter_key :: "webhook_dead_letter_request \<Rightarrow> string" where
  "webhook_dead_letter_key q = wl_source q @ '':'' @ wl_endpoint_key q @ '':'' @ show_int (wl_webhook_event_id q)"

definition webhook_message_type :: "webhook_dead_letter_request \<Rightarrow> string" where
  "webhook_message_type q = ''webhook.'' @ wl_source q @ ''.'' @ wl_event_type q"

record webhook_dead_letter_result =
  wd_dead_letter_record_id :: int
  wd_webhook_event_id :: int
  wd_dead_letter_key :: string
  wd_dead_lettered_at :: instant

definition dead_letter_metadata :: "webhook_dead_letter_result \<Rightarrow> dict" where
  "dead_letter_metadata r = [(''dead_letter'', JDict
     [(''record_id'', JInt (wd_dead_letter_record_id r)), (''key'', JStr (wd_dead_letter_key r)),
      (''dead_lettered_at'', JStr (isoformat (wd_dead_lettered_at r)))])]"

definition build_dead_letter_request_from_outcome ::
  "int \<Rightarrow> webhook_event \<Rightarrow> processing_outcome \<Rightarrow> string option \<Rightarrow> webhook_dead_letter_request" where
  "build_dead_letter_request_from_outcome i e outcome correlation_id =
     (let payload_snapshot =
            [(''event_type'', JStr (ev_event_type e)), (''source'', JStr (ev_source e)), (''endpoint_key'', JStr (ev_endpoint_key e))]
            @ opt_field ''normalized_payload'' (map_option JDict (ev_normalized_payload e))
            @ opt_field ''payload_sha256'' (map_option JStr (ev_payload_sha256 e));
          failure_context = dict_update (or_list (po_processing_metadata outcome) [])
            [(''final_status'', JStr (processing_status_value (po_status outcome))),
             (''attempt_number'', JInt (pa_attempt_number (po_attempt outcome))),
             (''max_attempts'', JInt (pa_max_attempts (po_attempt outcome)))]
      in \<lparr> wl_webhook_event_id = i, wl_source = ev_source e, wl_endpoint_key = ev_endpoint_key e,
           wl_event_type = ev_event_type e, wl_failure_category = po_error_category outcome,
           wl_error_code = po_error_category outcome, wl_error_detail = po_error_message outcome,
           wl_correlation_id = correlation_id, wl_attempt_count = pa_attempt_number (po_attempt outcome),
           wl_payload_snapshot = Some payload_snapshot, wl_failure_context = Some failure_context \<rparr>)"

definition webhook_dead_letter_row :: "instant \<Rightarrow> webhook_dead_letter_request \<Rightarrow> dead_letter_record" where
  "webhook_dead_letter_row now q =
     \<lparr> dl_dead_letter_namespace = WEBHOOK_DEAD_LETTER_NAMESPACE, dl_dead_letter_key = webhook_dead_letter_key q,
       dl_message_type = webhook_message_type q, dl_status = DL_DEAD_LETTERED, dl_source_system = Some (wl_source q),
       dl_source_reference = Some (show_int (wl_webhook_event_id q)), dl_correlation_id = wl_correlation_id q,
       dl_failure_category = wl_failure_category q, dl_attempt_count = wl_attempt_count q, dl_first_seen_at = now,
       dl_last_seen_at = now, dl_dead_lettered_at = Some now, dl_next_retry_at = None, dl_resolved_at = None,
       dl_archived_at = None, dl_payload_snapshot = wl_payload_snapshot q, dl_failure_context = wl_failure_context q,
       dl_error_code = wl_error_code q, dl_error_detail = wl_error_detail q \<rparr>"

definition webhook_dead_letter ::
  "instant \<Rightarrow> webhook_dead_letter_request \<Rightarrow> dead_letter_record table
   \<Rightarrow> integrity_error + webhook_dead_letter_result \<times> dead_letter_record table" where
  "webhook_dead_letter now q t =
     (case insert_unique uq_dead_letter (webhook_dead_letter_row now q) t of
        Inl e \<Rightarrow> Inl e
      | Inr (i, t') \<Rightarrow> Inr (\<lparr> wd_dead_letter_record_id = i, wd_webhook_event_id = wl_webhook_event_id q,
                             wd_dead_letter_key = webhook_dead_letter_key q, wd_dead_lettered_at = now \<rparr>, t'))"

definition webhook_mark_resolved :: "instant \<Rightarrow> dead_letter_record \<Rightarrow> dead_letter_record" where
  "webhook_mark_resolved now r = r\<lparr> dl_status := DL_RESOLVED, dl_resolved_at := Some now \<rparr>"

definition webhook_mark_archived :: "instant \<Rightarrow> dead_letter_record \<Rightarrow> dead_letter_record" where
  "webhook_mark_archived now r = r\<lparr> dl_status := DL_ARCHIVED, dl_archived_at := Some now \<rparr>"

definition store_webhook ::
  "instant \<Rightarrow> dead_letter_record table \<Rightarrow> webhook_dead_letter_request \<Rightarrow> integrity_error + dead_letter_record table" where
  "store_webhook now t q = map_sum id snd (webhook_dead_letter now q t)"

interpretation webhook_ledger: unique_ledger "store_webhook now" "find_row uq_dead_letter"
    "\<lambda>q. (WEBHOOK_DEAD_LETTER_NAMESPACE, webhook_dead_letter_key q)" "webhook_dead_letter_row now" for now
  by (rule insert_unique_ledger)
    (auto simp: store_webhook_def webhook_dead_letter_def uq_dead_letter_def webhook_dead_letter_row_def split: sum.split prod.split)

lemma webhook_dead_letter_store: "webhook_dead_letter now q t = Inr (res, t') \<Longrightarrow> store_webhook now t q = Inr t'"
  by (simp add: store_webhook_def)

lemma webhook_dead_letter_refused_iff:
  "webhook_dead_letter now q t = Inl IntegrityError \<longleftrightarrow> \<not> is_ok (store_webhook now t q)"
  by (cases "webhook_dead_letter now q t") (auto simp: store_webhook_def intro: integrity_error.exhaust)

section \<open>Lemmas\<close>

lemma job_payload_fields:
  "map_of (as_job_payload q) ''webhook_event_id'' = Some (JInt (pj_webhook_event_id q))"
  "map_of (as_job_payload q) ''source'' = Some (JStr (pj_source q))"
  "map_of (as_job_payload q) ''endpoint_key'' = Some (JStr (pj_endpoint_key q))"
  "map_of (as_job_payload q) ''event_type'' = Some (JStr (pj_event_type q))"
  "optional_str (as_job_payload q) ''correlation_id'' = Some (pj_correlation_id q)"
  "optional_str (as_job_payload q) ''delivery_id'' = Some (pj_delivery_id q)"
  "optional_str (as_job_payload q) ''event_id'' = Some (pj_event_id q)"
  "optional_str (as_job_payload q) ''payload_sha256'' = Some (pj_payload_sha256 q)"
  "optional_dict (as_job_payload q) ''processing_metadata'' = Some (pj_processing_metadata q)"
  by (simp_all add: as_job_payload_def optional_str_def optional_dict_def get_value_def opt_field_def
      map_add_def split: option.split)

lemma job_payload_roundtrip: "from_job_payload lib (as_job_payload q) = Some q"
  by (simp add: from_job_payload_def job_payload_fields int_of_json_def py_str_def)

lemma decide_retry_decision:
  "po_retry_decision (decide_retry now a err mro ok bad) =
     Some (if isinstance_of mro bad \<or> is_final_attempt a \<or> (ok \<noteq> [] \<and> \<not> isinstance_of mro ok) then DEAD_LETTER else RETRY)"
  by (auto simp: decide_retry_def isinstance_of_def Let_def)

end
