(* ===== verification/Webhook_Operations.thy ===== *)
theory Webhook_Operations
  imports Webhook_Model Workflow_Model
begin

text \<open>
  The operations of the inbox table after intake: webhooks/retention.py (scrubbing of raw
  payloads and purging of old events), webhooks/replay_tooling.py (selection of events
  and their reset for another run) and webhooks/correlation.py (the link between an event
  and the workflow execution it starts).  A statement that updates or deletes rows is the
  map or filter of the rows its WHERE clause selects, and returns their number.
\<close>

section \<open>Retention\<close>

record retention_policy =
  rt_retention_days :: int
  rt_archive_days :: int
  rt_scrub_statuses :: "webhook_status list"
  rt_batch_size :: int

definition retention_policy_post_init :: "retention_policy \<Rightarrow> string + retention_policy" where
  "retention_policy_post_init p =
     (if rt_retention_days p < 0 then Inl ''Retention days cannot be negative''
      else if rt_archive_days p < rt_retention_days p
      then Inl ''Archive days must be greater than or equal to retention days''
      else if rt_batch_size p < 1 then Inl ''Batch size must be at least 1''
      else Inr p)"

definition build_retention_policy :: "int \<Rightarrow> string + retention_policy" where
  "build_retention_policy WEBHOOK_PAYLOAD_RETENTION_DAYS = retention_policy_post_init
     \<lparr> rt_retention_days = WEBHOOK_PAYLOAD_RETENTION_DAYS, rt_archive_days = 90,
       rt_scrub_statuses = [WH_PROCESSED, WH_FAILED, WH_REJECTED], rt_batch_size = 500 \<rparr>"

definition days :: "int \<Rightarrow> int" where
  "days n = seconds (86400 * n)"

definition scrub_selects :: "retention_policy \<Rightarrow> instant \<Rightarrow> webhook_event \<Rightarrow> bool" where
  "scrub_selects p now e \<longleftrightarrow> ev_received_at e < now - days (rt_retention_days p) \<and> ev_raw_payload e \<noteq> None
     \<and> ev_status e \<in> set (rt_scrub_statuses p)"

definition count_expired_payloads :: "instant \<Rightarrow> retention_policy \<Rightarrow> webhook_table \<Rightarrow> nat" where
  "count_expired_payloads now p t =
     (if rt_retention_days p \<le> 0 then 0 else length (filter (\<lambda>row. scrub_selects p now (snd row)) (tb_rows t)))"

definition scrub_expired_payloads :: "instant \<Rightarrow> retention_policy \<Rightarrow> webhook_table \<Rightarrow> nat \<times> webhook_table" where
  "scrub_expired_payloads now p t =
     (if rt_retention_days p \<le> 0 then (0, t)
      else (length (filter (\<lambda>row. scrub_selects p now (snd row)) (tb_rows t)),
            t\<lparr> tb_rows := map (\<lambda>row. if scrub_selects p now (snd row)
                                      then (fst row, (snd row)\<lparr> ev_raw_payload := None \<rparr>) else row) (tb_rows t) \<rparr>))"

definition purge_selects :: "retention_policy \<Rightarrow> instant \<Rightarrow> webhook_event \<Rightarrow> bool" where
  "purge_selects p now e \<longleftrightarrow> ev_received_at e < now - days (rt_archive_days p) \<and> ev_status e \<in> set (rt_scrub_statuses p)"

definition count_purgeable_events :: "instant \<Rightarrow> retention_policy \<Rightarrow> webhook_table \<Rightarrow> nat" where
  "count_purgeable_events now p t = length (filter (\<lambda>row. purge_selects p now (snd row)) (tb_rows t))"

definition purge_archived_events :: "instant \<Rightarrow> retention_policy \<Rightarrow> webhook_table \<Rightarrow> nat \<times> webhook_table" where
  "purge_archived_events now p t =
     (length (filter (\<lambda>row. purge_selects p now (snd row)) (tb_rows t)),
      t\<lparr> tb_rows := filter (\<lambda>row. \<not> purge_selects p now (snd row)) (tb_rows t) \<rparr>)"

record retention_result =
  rs_payloads_scrubbed :: nat
  rs_events_purged :: nat
  rs_started_at :: instant
  rs_completed_at :: "instant option"

definition run_full_cleanup ::
  "int \<Rightarrow> clock \<Rightarrow> retention_policy option \<Rightarrow> webhook_table \<Rightarrow> (string + retention_result) \<times> webhook_table" where
  "run_full_cleanup WEBHOOK_PAYLOAD_RETENTION_DAYS clk policy t =
     (case (case policy of None \<Rightarrow> build_retention_policy WEBHOOK_PAYLOAD_RETENTION_DAYS | Some p \<Rightarrow> Inr p) of
        Inl msg \<Rightarrow> (Inl msg, t)
      | Inr p \<Rightarrow>
          (case scrub_expired_payloads (clk 1) p t of (payloads_scrubbed, t1) \<Rightarrow>
           (case purge_archived_events (clk 2) p t1 of (events_purged, t2) \<Rightarrow>
             (Inr \<lparr> rs_payloads_scrubbed = payloads_scrubbed, rs_events_purged = events_purged,
                    rs_started_at = clk 0, rs_completed_at = Some (clk 3) \<rparr>, t2))))"

section \<open>Replay tooling\<close>

record event_filter =
  rf_source :: "string option"
  rf_endpoint_key :: "string option"
  rf_event_type :: "string option"
  rf_status :: "webhook_status option"
  rf_statuses :: "webhook_status list option"
  rf_received_after :: "instant option"
  rf_received_before :: "instant option"
  rf_max_results :: int

definition event_filter_post_init :: "event_filter \<Rightarrow> string + event_filter" where
  "event_filter_post_init f =
     (if rf_max_results f < 1 then Inl ''Replay filter max_results must be at least 1''
      else if rf_max_results f > 1000 then Inl ''Replay filter max_results must not exceed 1000''
      else Inr f)"

definition unset_or :: "('a \<Rightarrow> bool) \<Rightarrow> 'a option \<Rightarrow> bool" where
  "unset_or P x = (case x of None \<Rightarrow> True | Some v \<Rightarrow> P v)"

definition filter_selects :: "event_filter \<Rightarrow> webhook_event \<Rightarrow> bool" where
  "filter_selects f e \<longleftrightarrow>
     unset_or (\<lambda>s. ev_source e = s) (rf_source f) \<and>
     unset_or (\<lambda>s. ev_endpoint_key e = s) (rf_endpoint_key f) \<and>
     unset_or (\<lambda>s. ev_event_type e = s) (rf_event_type f) \<and>
     unset_or (\<lambda>s. ev_status e = s) (rf_status f) \<and>
     unset_or (\<lambda>ss. ev_status e \<in> set ss) (rf_statuses f) \<and>
     unset_or (\<lambda>t. ev_received_at e \<ge> t) (rf_received_after f) \<and>
     unset_or (\<lambda>t. ev_received_at e \<le> t) (rf_received_before f)"

text \<open>ORDER BY \<open>received_at\<close> and then \<open>id\<close>, both descending.\<close>

definition find_replayable_events :: "event_filter \<Rightarrow> webhook_table \<Rightarrow> (int \<times> webhook_event) list" where
  "find_replayable_events f t = take (nat (rf_max_results f))
     (rev (sort_key (\<lambda>row. ev_received_at (snd row)) (sort_key fst (filter (\<lambda>row. filter_selects f (snd row)) (tb_rows t)))))"

record event_replay_request =
  xr_webhook_event_id :: int
  xr_reason :: string
  xr_replayed_by :: "string option"
  xr_replayed_at :: instant

definition event_replay_metadata :: "event_replay_request \<Rightarrow> dict" where
  "event_replay_metadata r = [(''replay'', JDict
     ([(''reason'', JStr (xr_reason r)), (''replayed_at'', JStr (isoformat (xr_replayed_at r)))]
      @ opt_field ''replayed_by'' (map_option JStr (xr_replayed_by r))))]"

record event_replay_result =
  xo_webhook_event_id :: int
  xo_previous_status :: webhook_status
  xo_new_status :: webhook_status
  xo_replayed_at :: instant
  xo_reason :: string

definition was_replayed :: "event_replay_result \<Rightarrow> bool" where
  "was_replayed r \<longleftrightarrow> xo_new_status r = WH_ENQUEUED"

definition prepare_for_replay ::
  "int \<times> webhook_event \<Rightarrow> event_replay_request \<Rightarrow> event_replay_result \<times> webhook_event" where
  "prepare_for_replay row r =
     (case row of (i, e) \<Rightarrow>
        (\<lparr> xo_webhook_event_id = i, xo_previous_status = ev_status e, xo_new_status = WH_ENQUEUED,
           xo_replayed_at = xr_replayed_at r, xo_reason = xr_reason r \<rparr>,
         e\<lparr> ev_status := WH_ENQUEUED, ev_processed_at := None, ev_processing_error := None,
            ev_processing_metadata := Some (dict_update (or_list (ev_processing_metadata e) []) (event_replay_metadata r)) \<rparr>))"

definition find_failed_events ::
  "instant \<Rightarrow> string option \<Rightarrow> int \<Rightarrow> int \<Rightarrow> webhook_table \<Rightarrow> string + (int \<times> webhook_event) list" where
  "find_failed_events now source hours max_results t =
     bind_sum (event_filter_post_init
       \<lparr> rf_source = source, rf_endpoint_key = None, rf_event_type = None, rf_status = Some WH_FAILED,
         rf_statuses = None, rf_received_after = Some (now - seconds (3600 * hours)), rf_received_before = None,
         rf_max_results = max_results \<rparr>)
       (\<lambda>f. Inr (find_replayable_events f t))"

section \<open>Correlation with a workflow execution\<close>

record workflow_correlation =
  wc_webhook_event_id :: int
  wc_workflow_execution_id :: int
  wc_source :: string
  wc_event_type :: string
  wc_workflow_name :: string
  wc_correlation_id :: "string option"
  wc_delivery_id :: "string option"
  wc_event_id :: "string option"
  wc_correlated_at :: instant

definition as_webhook_processing_metadata :: "workflow_correlation \<Rightarrow> dict" where
  "as_webhook_processing_metadata c = [(''workflow_correlation'', JDict
     ([(''workflow_execution_id'', JInt (wc_workflow_execution_id c)), (''workflow_name'', JStr (wc_workflow_name c)),
       (''correlated_at'', JStr (isoformat (wc_correlated_at c)))]
      @ opt_field ''correlation_id'' (map_option JStr (wc_correlation_id c))))]"

definition as_workflow_execution_context :: "workflow_correlation \<Rightarrow> dict" where
  "as_workflow_execution_context c = [(''webhook_trigger'', JDict
     ([(''webhook_event_id'', JInt (wc_webhook_event_id c)), (''source'', JStr (wc_source c)),
       (''event_type'', JStr (wc_event_type c)), (''correlated_at'', JStr (isoformat (wc_correlated_at c)))]
      @ opt_field ''delivery_id'' (map_option JStr (wc_delivery_id c))
      @ opt_field ''event_id'' (map_option JStr (wc_event_id c))
      @ opt_field ''correlation_id'' (map_option JStr (wc_correlation_id c))))]"

definition build_webhook_workflow_correlation ::
  "instant \<Rightarrow> int \<Rightarrow> webhook_event \<Rightarrow> execution \<Rightarrow> string option \<Rightarrow> workflow_correlation" where
  "build_webhook_workflow_correlation now i e x correlation_id =
     \<lparr> wc_webhook_event_id = i, wc_workflow_execution_id = we_id x, wc_source = ev_source e,
       wc_event_type = ev_event_type e, wc_workflow_name = we_workflow_name x, wc_correlation_id = correlation_id,
       wc_delivery_id = ev_delivery_id e, wc_event_id = ev_event_id e, wc_correlated_at = now \<rparr>"

definition apply_correlation_to_webhook_event :: "webhook_event \<Rightarrow> workflow_correlation \<Rightarrow> webhook_event" where
  "apply_correlation_to_webhook_event e c = e\<lparr> ev_processing_metadata :=
     Some (dict_update (or_list (ev_processing_metadata e) []) (as_webhook_processing_metadata c)) \<rparr>"

definition build_workflow_input_from_webhook :: "int \<Rightarrow> webhook_event \<Rightarrow> dict option \<Rightarrow> dict" where
  "build_workflow_input_from_webhook i e extra_context =
     [(''webhook_event_id'', JInt i), (''source'', JStr (ev_source e)), (''endpoint_key'', JStr (ev_endpoint_key e)),
      (''event_type'', JStr (ev_event_type e))]
     @ opt_field ''delivery_id'' (map_option JStr (ev_delivery_id e))
     @ opt_field ''event_id'' (map_option JStr (ev_event_id e))
     @ opt_field ''normalized_payload'' (map_option JDict (ev_normalized_payload e))
     @ opt_field ''extra_context'' (map_option JDict (copy_mapping extra_context))"

section \<open>Lemmas\<close>

lemma scrub_rows:
  "0 < rt_retention_days p \<Longrightarrow> tb_rows (snd (scrub_expired_payloads now p t)) =
     map (\<lambda>row. if scrub_selects p now (snd row) then (fst row, (snd row)\<lparr> ev_raw_payload := None \<rparr>) else row) (tb_rows t)"
  by (simp add: scrub_expired_payloads_def)

lemma scrubbed_not_selected [simp]: "\<not> scrub_selects p now (e\<lparr> ev_raw_payload := None \<rparr>)"
  by (simp add: scrub_selects_def)

lemma purge_of_scrubbed [simp]: "purge_selects p now (e\<lparr> ev_raw_payload := None \<rparr>) = purge_selects p now e"
  by (simp add: purge_selects_def)

lemma scrub_idempotent:
  "scrub_expired_payloads now p (snd (scrub_expired_payloads now p t)) = (0, snd (scrub_expired_payloads now p t))"
proof (cases "rt_retention_days p \<le> 0")
  case False
  then show ?thesis
    by (auto simp: scrub_expired_payloads_def filter_empty_conv split: if_splits)
qed (simp add: scrub_expired_payloads_def)

end
