(* ===== verification/Webhook_Validation.thy ===== *)
theory Webhook_Validation
  imports Webhook_Ingestion
begin

text \<open>
  webhooks/validation.py, the dispatch map of webhooks/providers/base.py and the example
  provider of webhooks/providers/example.py: the checks on content type, body and event
  type, the registry of known event types, and the table from event types to handlers.
  Both tables are dicts whose registration overwrites, the contract \<open>keyed_table\<close>.
\<close>

section \<open>Errors\<close>

datatype validation_error_kind =
    MALFORMED_CONTENT_TYPE | EMPTY_PAYLOAD | INVALID_JSON | INVALID_JSON_STRUCTURE
  | UNKNOWN_EVENT_TYPE | MISSING_EVENT_TYPE | POISON_PAYLOAD

fun validation_error_kind_value :: "validation_error_kind \<Rightarrow> string" where
  "validation_error_kind_value MALFORMED_CONTENT_TYPE = ''malformed_content_type''"
| "validation_error_kind_value EMPTY_PAYLOAD = ''empty_payload''"
| "validation_error_kind_value INVALID_JSON = ''invalid_json''"
| "validation_error_kind_value INVALID_JSON_STRUCTURE = ''invalid_json_structure''"
| "validation_error_kind_value UNKNOWN_EVENT_TYPE = ''unknown_event_type''"
| "validation_error_kind_value MISSING_EVENT_TYPE = ''missing_event_type''"
| "validation_error_kind_value POISON_PAYLOAD = ''poison_payload''"

record validation_error =
  vx_kind :: validation_error_kind
  vx_message :: string
  vx_source :: "string option"
  vx_endpoint_key :: "string option"
  vx_details :: dict

definition validation_error_metadata :: "validation_error \<Rightarrow> dict" where
  "validation_error_metadata x = [(''validation_error'', JDict
     ([(''kind'', JStr (validation_error_kind_value (vx_kind x))), (''message'', JStr (vx_message x))]
      @ opt_field ''source'' (map_option JStr (vx_source x))
      @ opt_field ''endpoint_key'' (map_option JStr (vx_endpoint_key x))
      @ opt_field ''details'' (if vx_details x = [] then None else Some (JDict (vx_details x)))))]"

definition UnknownEventTypeError ::
  "string \<Rightarrow> string option \<Rightarrow> string option \<Rightarrow> string list option \<Rightarrow> validation_error" where
  "UnknownEventTypeError event_type source endpoint_key allowed_types =
     \<lparr> vx_kind = UNKNOWN_EVENT_TYPE, vx_message = ''Unknown webhook event type: '' @ event_type,
       vx_source = source, vx_endpoint_key = endpoint_key,
       vx_details = (''event_type'', JStr event_type) #
         opt_field ''allowed_types_count'' (map_option (\<lambda>ts. JInt (int (length (remdups ts)))) allowed_types) \<rparr>"

definition PoisonPayloadError ::
  "string \<Rightarrow> int option \<Rightarrow> int option \<Rightarrow> string option \<Rightarrow> string option \<Rightarrow> string option \<Rightarrow> string option \<Rightarrow> validation_error" where
  "PoisonPayloadError message failure_count max_failures source endpoint_key event_type payload_sha256 =
     \<lparr> vx_kind = POISON_PAYLOAD, vx_message = message, vx_source = source, vx_endpoint_key = endpoint_key,
       vx_details = opt_field ''failure_count'' (map_option JInt failure_count)
         @ opt_field ''max_failures'' (map_option JInt max_failures)
         @ opt_field ''event_type'' (map_option JStr event_type)
         @ opt_field ''payload_sha256'' (map_option JStr payload_sha256) \<rparr>"

section \<open>Checks\<close>

definition validate_webhook_content_type :: "string option \<Rightarrow> string list option \<Rightarrow> validation_error + string option" where
  "validate_webhook_content_type content_type allowed_media_types =
     (let resolved_allowed = (case allowed_media_types of None \<Rightarrow> [''application/json''] | Some a \<Rightarrow> a)
      in (case content_type of
            None \<Rightarrow> Inr None
          | Some ct \<Rightarrow>
              let mt = map char_lower (py_strip (hd (split_at (CHR '';'') ct)))
              in if mt = [] then Inr None
                 else if mt \<notin> set resolved_allowed
                 then Inl \<lparr> vx_kind = MALFORMED_CONTENT_TYPE, vx_message = ''Unsupported webhook content type: '' @ mt,
                            vx_source = None, vx_endpoint_key = None,
                            vx_details = [(''content_type'', JStr ct), (''media_type'', JStr mt)] \<rparr>
                 else Inr (Some mt)))"

fun type_name :: "json \<Rightarrow> string" where
  "type_name JNull = ''NoneType''"
| "type_name (JBool _) = ''bool''"
| "type_name (JInt _) = ''int''"
| "type_name (JFloat _) = ''float''"
| "type_name (JStr _) = ''str''"
| "type_name (JList _) = ''list''"
| "type_name (JDict _) = ''dict''"

definition validate_webhook_payload_json :: "stdlib \<Rightarrow> bytes \<Rightarrow> bool \<Rightarrow> validation_error + json" where
  "validate_webhook_payload_json lib raw_body require_object =
     (let error = (\<lambda>kind msg details. Inl \<lparr> vx_kind = kind, vx_message = msg, vx_source = None, vx_endpoint_key = None,
                      vx_details = details \<rparr>)
      in if raw_body = [] then error EMPTY_PAYLOAD ''Webhook payload is empty'' []
         else (case lib_loads lib raw_body of
                 Inl exc \<Rightarrow> error INVALID_JSON (''Webhook payload is not valid JSON: '' @ exn_message exc)
                              [(''payload_size_bytes'', JInt (int (length raw_body)))]
               | Inr parsed \<Rightarrow>
                   if require_object \<and> type_name parsed \<noteq> ''dict''
                   then error INVALID_JSON_STRUCTURE (''Webhook JSON payload must be an object, got '' @ type_name parsed)
                          [(''payload_type'', JStr (type_name parsed))]
                   else Inr parsed))"

definition missing_event_type :: "string \<Rightarrow> string option \<Rightarrow> string option \<Rightarrow> validation_error" where
  "missing_event_type msg source endpoint_key =
     \<lparr> vx_kind = MISSING_EVENT_TYPE, vx_message = msg, vx_source = source, vx_endpoint_key = endpoint_key, vx_details = [] \<rparr>"

definition validate_webhook_event_type ::
  "string option \<Rightarrow> string list option \<Rightarrow> string option \<Rightarrow> string option \<Rightarrow> validation_error + string" where
  "validate_webhook_event_type event_type allowed_event_types source endpoint_key =
     (case event_type of
        None \<Rightarrow> Inl (missing_event_type ''Webhook payload must include a non-empty event type'' source endpoint_key)
      | Some ty \<Rightarrow>
          let normalized = py_strip ty
          in if normalized = []
             then Inl (missing_event_type ''Webhook payload must include a non-empty event type'' source endpoint_key)
             else (case allowed_event_types of
                     Some allowed \<Rightarrow>
                       if normalized \<notin> set allowed
                       then Inl (UnknownEventTypeError normalized source endpoint_key (Some allowed)) else Inr normalized
                   | None \<Rightarrow> Inr normalized))"

section \<open>The registry of event types\<close>

record event_type_registration =
  et_event_type :: string
  et_description :: string
  et_handler_name :: "string option"
  et_enabled :: bool

record event_type_registry =
  eg_source :: string
  eg_strict :: bool
  eg_registrations :: "(string \<times> event_type_registration) list"

definition registry_register :: "event_type_registry \<Rightarrow> event_type_registration \<Rightarrow> event_type_registry" where
  "registry_register reg r = reg\<lparr> eg_registrations := AList.update (et_event_type r) r (eg_registrations reg) \<rparr>"

definition registry_get :: "event_type_registry \<Rightarrow> string \<Rightarrow> event_type_registration option" where
  "registry_get reg event_type = map_of (eg_registrations reg) event_type"

definition is_known :: "event_type_registry \<Rightarrow> string \<Rightarrow> bool" where
  "is_known reg event_type \<longleftrightarrow> registry_get reg event_type \<noteq> None"

definition is_enabled :: "event_type_registry \<Rightarrow> string \<Rightarrow> bool" where
  "is_enabled reg event_type = (case registry_get reg event_type of None \<Rightarrow> False | Some r \<Rightarrow> et_enabled r)"

definition known_types :: "event_type_registry \<Rightarrow> string list" where
  "known_types reg = map fst (eg_registrations reg)"

definition enabled_types :: "event_type_registry \<Rightarrow> string list" where
  "enabled_types reg = map fst (filter (\<lambda>kv. et_enabled (snd kv)) (eg_registrations reg))"

definition registry_validate :: "event_type_registry \<Rightarrow> string \<Rightarrow> string option \<Rightarrow> validation_error + string" where
  "registry_validate reg event_type endpoint_key =
     (let normalized = py_strip event_type
      in if normalized = [] then Inl (missing_event_type ''Webhook event type must not be empty'' (Some (eg_source reg)) endpoint_key)
         else if eg_strict reg \<and> \<not> is_known reg normalized
         then Inl (UnknownEventTypeError normalized (Some (eg_source reg)) endpoint_key (Some (known_types reg)))
         else Inr normalized)"

interpretation event_types: keyed_table registry_register registry_get et_event_type
  by unfold_locales (auto simp: registry_register_def registry_get_def)

section \<open>The dispatch map\<close>

record 'h handler_registration =
  hg_event_type :: string
  hg_handler :: 'h
  hg_description :: string
  hg_enabled :: bool

record 'h dispatch_map =
  dm_source :: string
  dm_handlers :: "(string \<times> 'h handler_registration) list"

definition dispatch_register :: "'h dispatch_map \<Rightarrow> 'h handler_registration \<Rightarrow> 'h dispatch_map" where
  "dispatch_register d r = d\<lparr> dm_handlers := AList.update (hg_event_type r) r (dm_handlers d) \<rparr>"

definition get_registration :: "'h dispatch_map \<Rightarrow> string \<Rightarrow> 'h handler_registration option" where
  "get_registration d event_type = map_of (dm_handlers d) event_type"

definition get_handler :: "'h dispatch_map \<Rightarrow> string \<Rightarrow> 'h option" where
  "get_handler d event_type =
     (case get_registration d event_type of
        None \<Rightarrow> None
      | Some r \<Rightarrow> if \<not> hg_enabled r then None else Some (hg_handler r))"

definition has_handler :: "'h dispatch_map \<Rightarrow> string \<Rightarrow> bool" where
  "has_handler d event_type = (case get_registration d event_type of None \<Rightarrow> False | Some r \<Rightarrow> hg_enabled r)"

interpretation handlers: keyed_table dispatch_register get_registration hg_event_type
  by unfold_locales (auto simp: dispatch_register_def get_registration_def)

section \<open>The example provider\<close>

definition EXAMPLE_PROVIDER_SOURCE :: string where "EXAMPLE_PROVIDER_SOURCE = ''example_provider''"

definition build_example_provider_config :: "string \<Rightarrow> string \<Rightarrow> bool \<Rightarrow> provider_config" where
  "build_example_provider_config signing_secret endpoint_key enabled =
     \<lparr> pc_source = EXAMPLE_PROVIDER_SOURCE, pc_endpoint_key = endpoint_key, pc_signing_secret = Some signing_secret,
       pc_signature_header = Some ''x-example-signature'', pc_signature_algorithm = ''sha256'',
       pc_signature_encoding = ''hex'', pc_signature_prefix = ''sha256='', pc_timestamp_header = None,
       pc_max_age_seconds = None, pc_enabled = enabled \<rparr>"

definition normalize_example_event :: "stdlib \<Rightarrow> dict \<Rightarrow> exn + validated_event" where
  "normalize_example_event lib parsed_payload =
     (let text = (\<lambda>k. case get_value parsed_payload k of None \<Rightarrow> None | Some v \<Rightarrow> none_if_empty (py_strip (py_str lib v)))
      in (case map_of parsed_payload ''event'' of
            Some (JStr event_type) \<Rightarrow>
              if py_strip event_type = []
              then Inl (value_error (''Example provider payload must include a non-empty '' @ py_quote ''event'' @ '' field''))
              else Inr \<lparr> ve_event_type = py_strip event_type, ve_event_id = text ''id'', ve_delivery_id = text ''delivery_id'',
                         ve_normalized_payload = Some ([(''event_type'', JStr (py_strip event_type)),
                            (''provider'', JStr EXAMPLE_PROVIDER_SOURCE)] @ opt_field ''data'' (get_value parsed_payload ''data'')),
                         ve_processing_metadata = Some [(''provider'', JStr EXAMPLE_PROVIDER_SOURCE)] \<rparr>
          | _ \<Rightarrow> Inl (value_error (''Example provider payload must include a non-empty '' @ py_quote ''event'' @ '' field''))))"

definition example_registration :: "string \<Rightarrow> string \<Rightarrow> event_type_registration" where
  "example_registration ty text = \<lparr> et_event_type = ty, et_description = text, et_handler_name = None, et_enabled = True \<rparr>"

definition build_example_event_registry :: event_type_registry where
  "build_example_event_registry = event_types.put_all
     \<lparr> eg_source = EXAMPLE_PROVIDER_SOURCE, eg_strict = True, eg_registrations = [] \<rparr>
     [example_registration ''order.created'' ''Fired when a new order is placed.'',
      example_registration ''order.updated'' ''Fired when an existing order changes.'',
      example_registration ''order.cancelled'' ''Fired when an order is cancelled.'',
      example_registration ''customer.created'' ''Fired when a new customer account is created.'',
      example_registration ''customer.updated'' ''Fired when a customer profile changes.'']"

section \<open>Lemmas\<close>

lemma is_known_put_all:
  "is_known (event_types.put_all reg rs) k \<longleftrightarrow> k \<in> et_event_type ` set rs \<or> is_known reg k"
proof -
  have "(List.find (\<lambda>v. et_event_type v = k) (rev rs) = None) \<longleftrightarrow> k \<notin> et_event_type ` set rs"
    by (simp add: find_None_iff image_iff) metis
  then show ?thesis
    by (cases "List.find (\<lambda>v. et_event_type v = k) (rev rs)") (simp_all add: is_known_def event_types.look_put_all)
qed

lemma registry_strict: "eg_strict (event_types.put_all reg rs) = eg_strict reg"
  by (induction rs arbitrary: reg) (auto simp: registry_register_def)

end
