(* ===== verification/Dead_Letter_Theorems.thy ===== *)
theory Dead_Letter_Theorems
  imports Dead_Letters Job_Theorems
begin

text \<open>The properties of the job dead-letter store and of the replay tool.\<close>

section \<open>Unique records\<close>

text \<open>A run of job failures can all be dead-lettered in one table exactly when their
  keys \<open>name:correlation:attempt\<close> are distinct and free; then every failure has its own
  record, and no other record of the table changes.  Consequently a second failure of the
  same job at the same attempt is refused with an integrity error when the two jobs carry
  the same correlation id, or when neither carries one: those all share the key
  \<open>name:no-correlation:attempt\<close>.\<close>

theorem job_dead_letters_are_unique:
  "(is_ok (job_ledger.store_all now t qs) \<longleftrightarrow>
      distinct (map job_dead_letter_key qs) \<and>
      (\<forall>q \<in> set qs. find_row uq_dead_letter t (JOB_DEAD_LETTER_NAMESPACE, job_dead_letter_key q) = None)) \<and>
   (job_ledger.store_all now t qs = Inr t' \<longrightarrow>
      (\<forall>q \<in> set qs. find_row uq_dead_letter t' (JOB_DEAD_LETTER_NAMESPACE, job_dead_letter_key q) = Some (job_dead_letter_row now q)) \<and>
      (\<forall>k. find_row uq_dead_letter t k \<noteq> None \<longrightarrow> find_row uq_dead_letter t' k = find_row uq_dead_letter t k)) \<and>
   (job_dead_letter now q t = Inr (res, t1) \<and> jq_job_name q' = jq_job_name q \<and> jq_attempt_count q' = jq_attempt_count q \<and>
      or_list (jq_correlation_id q') ''no-correlation'' = or_list (jq_correlation_id q) ''no-correlation'' \<longrightarrow>
      job_dead_letter later q' t1 = Inl IntegrityError)"
proof -
  have ok: "is_ok (job_ledger.store_all now t qs) \<longleftrightarrow>
      distinct (map job_dead_letter_key qs) \<and>
      (\<forall>q \<in> set qs. find_row uq_dead_letter t (JOB_DEAD_LETTER_NAMESPACE, job_dead_letter_key q) = None)"
    unfolding job_ledger.store_all_ok_iff by (simp add: distinct_map inj_on_def)
  have rows: "find_row uq_dead_letter t' (JOB_DEAD_LETTER_NAMESPACE, job_dead_letter_key q) = Some (job_dead_letter_row now q)"
    if st: "job_ledger.store_all now t qs = Inr t'" and q: "q \<in> set qs" for q
  proof -
    obtain i where i: "i < length qs" "qs ! i = q" using q by (auto simp: in_set_conv_nth)
    have "distinct (map job_dead_letter_key qs)" using ok st by simp
    from find_map_distinct[OF this i(1)] i(2)
    show ?thesis using job_ledger.store_all_lookup[OF st] by (simp add: i(2))
  qed
  have frame: "find_row uq_dead_letter t' k = find_row uq_dead_letter t k"
    if st: "job_ledger.store_all now t qs = Inr t'" and k: "find_row uq_dead_letter t k \<noteq> None" for k
  proof -
    have "List.find (\<lambda>v. (JOB_DEAD_LETTER_NAMESPACE, job_dead_letter_key v) = k) qs = None"
      using ok st k by (auto simp: find_None_iff)
    then show ?thesis using job_ledger.store_all_lookup[OF st, of k] by simp
  qed
  have "job_dead_letter later q' t1 = Inl IntegrityError"
    if "job_dead_letter now q t = Inr (res, t1)" "jq_job_name q' = jq_job_name q" "jq_attempt_count q' = jq_attempt_count q"
      "or_list (jq_correlation_id q') ''no-correlation'' = or_list (jq_correlation_id q) ''no-correlation''"
  proof -
    have "job_dead_letter_key q' = job_dead_letter_key q" using that by (simp add: job_dead_letter_key_def)
    then show ?thesis
      using job_ledger.store_lookup[OF job_dead_letter_store[OF that(1)], of "(JOB_DEAD_LETTER_NAMESPACE, job_dead_letter_key q')"]
      by (simp add: job_dead_letter_refused_iff job_ledger.store_ok_iff)
  qed
  with ok rows frame show ?thesis by blast
qed

definition demo_failure :: raised_error where
  "demo_failure = \<lparr> re_type = ''TimeoutError'', re_message = ''gone'', re_code = None \<rparr>"

definition demo_request_of :: "string option \<Rightarrow> job_dead_letter_request" where
  "demo_request_of corr = build_dead_letter_request_from_job ''client.email'' ''arq:client:email''
     (Some (envelope_data (demo_envelope\<lparr> en_correlation_id := corr \<rparr>))) demo_failure 3 3 (Some ''timeout'')"

lemma demo_request_fields:
  "jq_job_name (demo_request_of c) = ''client.email''" "jq_attempt_count (demo_request_of c) = 3"
  "jq_correlation_id (demo_request_of c) = c"
  by (simp_all add: demo_request_of_def build_dead_letter_request_from_job_def envelope_data_def str_value_def
      demo_envelope_def Let_def split: option.split)

definition empty_table :: "'r table" where
  "empty_table = \<lparr> tb_next = 1, tb_rows = [] \<rparr>"

lemma find_row_empty [simp]: "find_row key empty_table k = None"
  by (simp add: find_row_def empty_table_def)

theorem job_dead_letters_are_unique_witness:
  "\<exists>res t1. job_dead_letter 5 (demo_request_of None) empty_table = Inr (res, t1) \<and>
     job_dead_letter 9 (demo_request_of None) t1 = Inl IntegrityError"
proof -
  let ?q = "demo_request_of None"
  have "is_ok (store_job 5 empty_table ?q)" by (simp add: job_ledger.store_ok_iff)
  then obtain res t1 where s: "job_dead_letter 5 ?q empty_table = Inr (res, t1)"
    by (cases "job_dead_letter 5 ?q empty_table") (auto simp: store_job_def)
  with job_dead_letters_are_unique[of 5 empty_table "[]" empty_table ?q res t1 ?q 9] show ?thesis by auto
qed

section \<open>Replay\<close>

text \<open>What becomes of a job that is dead-lettered and then replayed.  The replay
  request keeps the name of the job, its payload and its correlation id, but never its
  tenant, organization or metadata, which are looked up beside the stored envelope
  instead of inside it.  The replay reports success whenever the queue takes the message,
  but that message cannot be bound to the job's entry point \<open>execute(ctx, envelope)\<close>,
  while the message of the original enqueue can: a replayed job never runs.\<close>

theorem replayed_job_never_runs:
  assumes "q = build_dead_letter_request_from_job name queue (Some (envelope_data env)) err attempt max_attempts category"
    and "job_dead_letter now q t = Inr (res, t')"
    and "find_row uq_dead_letter t' (JOB_DEAD_LETTER_NAMESPACE, job_dead_letter_key q) = Some row"
  shows "\<exists>rq. build_replay_request_from_dead_letter (jr_dead_letter_record_id res) row = Inr rq \<and>
      rp_job_name rq = name \<and> rp_payload rq = JDict (en_payload env) \<and> rp_correlation_id rq = en_correlation_id env \<and>
      rp_tenant_id rq = None \<and> rp_organization_id rq = None \<and> rp_metadata rq = None \<and>
      bind_execute (replay_message rq) = None \<and>
      bind_execute (enqueue_message name env) = Some (JDict (envelope_data env)) \<and>
      (\<forall>enq later w. ro_enqueued (fst (replay_dead_lettered_job enq later rq w)) \<longleftrightarrow> fst (enq (replay_message rq) w) = None)"
proof -
  have row: "row = job_dead_letter_row now q"
    using job_ledger.store_lookup[OF job_dead_letter_store[OF assms(2)], of "(JOB_DEAD_LETTER_NAMESPACE, job_dead_letter_key q)"]
      assms(3) by simp
  have corr: "str_value (envelope_data env) ''correlation_id'' = en_correlation_id env"
    by (simp add: str_value_def envelope_data_def Let_def split: option.split)
  have q: "jq_job_name q = name" "jq_correlation_id q = en_correlation_id env" "jq_payload_snapshot q =
      Some [(''job_name'', JStr name), (''queue_name'', JStr queue), (''envelope'', JDict (envelope_data env))]"
    by (simp_all add: assms(1) build_dead_letter_request_from_job_def corr Let_def)
  let ?rq = "\<lparr> rp_dead_letter_record_id = jr_dead_letter_record_id res, rp_job_name = name,
      rp_payload = JDict (en_payload env), rp_correlation_id = en_correlation_id env, rp_tenant_id = None,
      rp_organization_id = None, rp_metadata = None, rp_override_queue = None \<rparr>"
  have rq: "build_replay_request_from_dead_letter (jr_dead_letter_record_id res) row = Inr ?rq"
    using q by (simp add: build_replay_request_from_dead_letter_def row job_dead_letter_row_def job_message_type_def
        remove_prefix_def dict_get_def get_value_def envelope_data_def Let_def)
  have "bind_execute (replay_message ?rq) = None"
    by (simp add: bind_execute_def replay_message_def Let_def split: option.split)
  moreover have "bind_execute (enqueue_message name env) = Some (JDict (envelope_data env))"
    by (simp add: bind_execute_def enqueue_message_def)
  ultimately show ?thesis
    using rq by (intro exI[of _ ?rq]) (auto simp: replay_dead_lettered_job_def split: prod.split option.split)
qed

theorem replayed_job_never_runs_witness:
  "\<exists>rq. build_replay_request_from_dead_letter 1 (job_dead_letter_row 5 (demo_request_of (Some ''c-1''))) = Inr rq \<and>
     rp_job_name rq = ''client.email'' \<and> bind_execute (replay_message rq) = None"
proof -
  let ?q = "demo_request_of (Some ''c-1'')"
  have "is_ok (store_job 5 empty_table ?q)" by (simp add: job_ledger.store_ok_iff)
  then obtain res t1 where s: "job_dead_letter 5 ?q empty_table = Inr (res, t1)"
    by (cases "job_dead_letter 5 ?q empty_table") (auto simp: store_job_def)
  have "jr_dead_letter_record_id res = 1"
    using s by (auto simp: job_dead_letter_def insert_unique_def insert_row_def empty_table_def find_row_def split: if_splits)
  with replayed_job_never_runs[OF demo_request_of_def s] show ?thesis
    using job_ledger.store_lookup[OF job_dead_letter_store[OF s], of "(JOB_DEAD_LETTER_NAMESPACE, job_dead_letter_key ?q)"]
    by auto
qed

end
