(* ===== verification/Webhook_Later.thy ===== *)
theory Webhook_Later
  imports Webhook_Theorems Webhook_Processing Webhook_Operations Webhook_Validation Dead_Letter_Theorems
begin

text \<open>The properties of the checks beside intake and of what happens to an event after
  it: the idempotency ledger, HMAC signatures, event types, processing attempts, dead
  letters and retention.\<close>

section \<open>Idempotency\<close>

lemma find_existing_after_record:
  assumes "record_idempotency_key lib md q t = Inr (i, t1)"
    and "idempotency_scope q' = idempotency_scope q" "idempotency_key lib q' = idempotency_key lib q"
  shows "find_existing_record lib q' t1 =
    (if window_started_at q' \<le> ic_checked_at q then Some (i, idempotency_row lib md q) else None)"
proof -
  have free: "find_row uq_idempotency t (idempotency_scope q, idempotency_key lib q) = None"
    and t1: "tb_rows t1 = tb_rows t @ [(i, idempotency_row lib md q)]"
    using assms(1) by (auto simp: record_idempotency_key_def insert_unique_def insert_row_def uq_idempotency_def
        idempotency_row_def split: if_splits)
  have "filter (\<lambda>row. ik_scope (snd row) = idempotency_scope q' \<and> ik_key (snd row) = idempotency_key lib q'
      \<and> window_started_at q' \<le> ik_first_seen_at (snd row)) (tb_rows t) = []"
    using free by (auto simp: filter_empty_conv find_row_None_iff uq_idempotency_def assms(2,3))
  then show ?thesis
    by (simp add: find_existing_record_def t1 assms(2,3)) (simp add: idempotency_row_def)
qed

text \<open>C21: After a webhook's idempotency key has been recorded, every delivery with the same
  scope and key is refused while the first one lies inside its window, as a violation when
  the bodies have the same fingerprint and as a mismatch otherwise, and the record counts
  the hit.  After the window the check lets the delivery pass, but the record is still
  there and its unique constraint refuses the new key: the delivery fails with an
  integrity error for ever, instead of being accepted as the window promises.\<close>

theorem idempotency_key_outlives_window:
  assumes "record_idempotency_key lib md q t = Inr (i, t1)"
    and "idempotency_scope q' = idempotency_scope q" "idempotency_key lib q' = idempotency_key lib q"
  shows "(ic_checked_at q' \<le> ic_checked_at q + seconds (ic_window_seconds q') \<longrightarrow>
      (\<exists>m. idempotency_protect lib q' t1 =
         (Inl (if request_fingerprint lib q' = request_fingerprint lib q then Idempotency_Violation m
               else Idempotency_Fingerprint_Mismatch m), update_row i (touch_record (ic_checked_at q')) t1) \<and>
         im_existing_record_id m = i \<and> im_existing_hit_count m = 2)) \<and>
    (ic_checked_at q + seconds (ic_window_seconds q') < ic_checked_at q' \<longrightarrow>
      is_ok (fst (idempotency_protect lib q' t1)) \<and> snd (idempotency_protect lib q' t1) = t1 \<and>
      record_idempotency_key lib md' q' t1 = Inl IntegrityError)"
proof -
  note found = find_existing_after_record[OF assms]
  have "store_key lib md t q = Inr t1" using assms(1) by (simp add: store_key_def)
  from idempotency_ledger.store_lookup[OF this, of "(idempotency_scope q', idempotency_key lib q')"]
  have "\<not> is_ok (store_key lib md' t1 q')" by (simp add: idempotency_ledger.store_ok_iff assms(2,3))
  then have refused: "record_idempotency_key lib md' q' t1 = Inl IntegrityError"
    by (auto simp: store_key_def record_idempotency_key_def insert_unique_def split: if_splits)
  let ?m = "build_idempotency_match lib q' (i, touch_record (ic_checked_at q') (idempotency_row lib md q))"
  have m: "im_existing_record_id ?m = i" "im_existing_hit_count ?m = 2"
      "idempotency_fingerprint_mismatch ?m \<longleftrightarrow> request_fingerprint lib q' \<noteq> request_fingerprint lib q"
    by (auto simp: build_idempotency_match_def touch_record_def idempotency_row_def idempotency_fingerprint_mismatch_def)
  show ?thesis
  proof (cases "window_started_at q' \<le> ic_checked_at q")
    case True
    with found m refused show ?thesis
      by (auto simp: idempotency_protect_def window_started_at_def Let_def)
  next
    case False
    with found refused show ?thesis by (auto simp: idempotency_protect_def window_started_at_def)
  qed
qed

definition demo_check :: "instant \<Rightarrow> idempotency_check" where
  "demo_check now = \<lparr> ic_source = ''p'', ic_endpoint_key = ''default'', ic_request = demo_webhook, ic_event = demo_event,
     ic_window_seconds = 300, ic_checked_at = now \<rparr>"

lemma demo_check_same:
  "idempotency_scope (demo_check a) = idempotency_scope (demo_check b)"
  "idempotency_key lib (demo_check a) = idempotency_key lib (demo_check b)"
  by (simp_all add: demo_check_def demo_event_def idempotency_scope_def idempotency_key_def request_fingerprint_def)

theorem idempotency_key_outlives_window_witness:
  "\<exists>i t1. record_idempotency_key demo_lib None (demo_check 0) empty_table = Inr (i, t1) \<and>
     is_ok (fst (idempotency_protect demo_lib (demo_check (seconds 301)) t1)) \<and>
     record_idempotency_key demo_lib None (demo_check (seconds 301)) t1 = Inl IntegrityError"
proof -
  obtain i t1 where r: "record_idempotency_key demo_lib None (demo_check 0) empty_table = Inr (i, t1)"
    by (simp add: record_idempotency_key_def insert_unique_def) (meson surj_pair)
  have "ic_checked_at (demo_check 0) + seconds (ic_window_seconds (demo_check (seconds 301))) < ic_checked_at (demo_check (seconds 301))"
    by (simp add: demo_check_def seconds_def)
  with idempotency_key_outlives_window[OF r demo_check_same(1,2)] r show ?thesis by blast
qed

section \<open>HMAC signatures\<close>

definition signature_of_header :: "provider_config \<Rightarrow> string \<Rightarrow> string" where
  "signature_of_header c v = (let s = py_strip v; p = pc_signature_prefix c
     in py_strip (if p \<noteq> [] \<and> take (length p) s = p then drop (length p) s else s))"

text \<open>The HMAC verifier accepts a request exactly when it carries the configured header
  and the header's value, without its prefix and outer whitespace, is the MAC of the exact
  body under the secret (both ASCII); a missing header, a different signature and a
  signature that is not ASCII raise three different errors.  The decision looks at no
  time: neither the age limit of the context or the provider nor the instant of receipt
  changes it, so a captured request stays valid for ever.\<close>

theorem hmac_verification:
  assumes "hmac_verifier_init c = Inr c'" "expected = mac (pc_signature_algorithm c) (pc_signature_encoding c)
      (the (pc_signing_secret c)) (iq_raw_body (sc_request ctx))"
  shows "c' = c \<and>
    (case iq_headers (sc_request ctx) (the (pc_signature_header c)) of
       None \<Rightarrow> \<exists>msg. hmac_verify mac now c ctx = Inl (Missing_Signature msg)
     | Some v \<Rightarrow>
         if \<not> is_ascii (signature_of_header c v) \<or> \<not> is_ascii expected then hmac_verify mac now c ctx = Inl Signature_Type_Error
         else if signature_of_header c v = expected
         then \<exists>r. hmac_verify mac now c ctx = Inr r \<and> sv_signature r = Some expected \<and> sv_provider r = pc_source c
         else \<exists>msg. hmac_verify mac now c ctx = Inl (Invalid_Signature msg)) \<and>
    hmac_verify mac now c (ctx\<lparr> sc_received_at := later, sc_signature_max_age_seconds := age \<rparr>) = hmac_verify mac now c ctx \<and>
    hmac_verify mac now (c\<lparr> pc_max_age_seconds := age', pc_timestamp_header := hdr \<rparr>) ctx = hmac_verify mac now c ctx"
proof -
  have c: "c' = c" "pc_signature_header c \<noteq> None" using assms(1) by (auto simp: hmac_verifier_init_def split: if_splits)
  have ext: "extract_signature c ctx = (case iq_headers (sc_request ctx) (the (pc_signature_header c)) of
      None \<Rightarrow> Inl (Missing_Signature (''Missing required webhook signature header: '' @ the (pc_signature_header c)))
    | Some v \<Rightarrow> Inr (signature_of_header c v))"
    by (simp add: extract_signature_def get_header_def signature_of_header_def Let_def split: option.split)
  have same: "extract_signature c (ctx\<lparr> sc_received_at := later, sc_signature_max_age_seconds := age \<rparr>) = extract_signature c ctx"
    "extract_signature (c\<lparr> pc_max_age_seconds := age', pc_timestamp_header := hdr \<rparr>) ctx = extract_signature c ctx"
    by (simp_all add: extract_signature_def get_header_def Let_def split: option.split)
  show ?thesis
    using c(1) same by (auto simp: hmac_verify_def ext assms(2) compare_digest_def Let_def split: option.split bool.split)
qed

definition demo_mac :: "string \<Rightarrow> string \<Rightarrow> string \<Rightarrow> bytes \<Rightarrow> string" where
  "demo_mac alg enc secret body = secret @ body"

definition demo_signed :: signature_context where
  "demo_signed = \<lparr> sc_provider = ''p'', sc_endpoint_key = ''default'',
     sc_request = demo_webhook\<lparr> iq_headers := (\<lambda>h. if h = ''x-example-signature'' then Some '' sha256=ke-1 '' else None) \<rparr>,
     sc_signature_max_age_seconds = Some 300, sc_received_at = 0 \<rparr>"

theorem hmac_verification_witness:
  "\<exists>r. hmac_verify demo_mac 9 (build_example_provider_config ''k'' ''default'' True)
     (demo_signed\<lparr> sc_received_at := seconds 1000000, sc_signature_max_age_seconds := Some 300 \<rparr>) = Inr r"
proof -
  let ?c = "build_example_provider_config ''k'' ''default'' True"
  have i: "hmac_verifier_init ?c = Inr ?c" by (simp add: hmac_verifier_init_def build_example_provider_config_def)
  have s: "signature_of_header ?c '' sha256=ke-1 '' = ''ke-1''"
    by (simp add: signature_of_header_def build_example_provider_config_def py_strip_def is_py_space_def)
  have e: "''ke-1'' = demo_mac (pc_signature_algorithm ?c) (pc_signature_encoding ?c) (the (pc_signing_secret ?c))
      (iq_raw_body (sc_request demo_signed))"
    by (simp add: demo_mac_def build_example_provider_config_def demo_signed_def demo_webhook_def)
  have h: "iq_headers (sc_request demo_signed) (the (pc_signature_header ?c)) = Some '' sha256=ke-1 ''"
    by (simp add: demo_signed_def build_example_provider_config_def)
  have a: "is_ascii ''ke-1''" by (simp add: is_ascii_def)
  show ?thesis
    using hmac_verification[where mac = demo_mac and now = 9 and later = "seconds 1000000" and age = "Some 300", OF i e]
    by (simp add: h s a) metis
qed

section \<open>Processing attempts\<close>

text \<open>Processing attempts that keep failing end in exactly one dead letter: there is a
  unique attempt number, at most the maximum, that decides to dead-letter while every
  earlier one decides to retry, and it is the last possible attempt when no error is
  permanent and every error is retryable.  No failure is ever discarded.\<close>

theorem failing_attempts_end_in_dead_letter:
  assumes "1 \<le> pa_max_attempts a"
    and "decision = (\<lambda>k. po_retry_decision (decide_retry now (a\<lparr> pa_attempt_number := k \<rparr>) (err k) (mro k) retryable permanent))"
  shows "(\<exists>!k. 1 \<le> k \<and> k \<le> pa_max_attempts a \<and> decision k = Some DEAD_LETTER \<and> (\<forall>j. 1 \<le> j \<and> j < k \<longrightarrow> decision j = Some RETRY)) \<and>
    ((\<forall>k. \<not> isinstance_of (mro k) permanent \<and> (retryable = [] \<or> isinstance_of (mro k) retryable)) \<longrightarrow>
      (\<forall>k. decision k = Some (if k < pa_max_attempts a then RETRY else DEAD_LETTER))) \<and>
    (\<forall>k. decision k \<noteq> Some DISCARD)"
proof -
  have dec: "decision k \<in> {Some RETRY, Some DEAD_LETTER}" for k by (simp add: assms(2) decide_retry_decision)
  have last: "decision (pa_max_attempts a) = Some DEAD_LETTER"
    by (simp add: assms(2) decide_retry_decision is_final_attempt_def)
  define P where "P = (\<lambda>n. decision (int n + 1) = Some DEAD_LETTER)"
  have "P (nat (pa_max_attempts a - 1))" using last assms(1) by (simp add: P_def)
  note P = this
  define n where "n = (LEAST n. P n)"
  have n: "P n" "\<And>m. m < n \<Longrightarrow> \<not> P m" "n \<le> nat (pa_max_attempts a - 1)"
    unfolding n_def by (rule LeastI[of P, OF P], erule not_less_Least, rule Least_le[of P, OF P])
  have before: "decision j = Some RETRY" if "1 \<le> j" "j < int n + 1" for j
  proof -
    have "\<not> P (nat (j - 1))" using n(2) that by simp
    then show ?thesis using dec[of j] that by (simp add: P_def)
  qed
  let ?Q = "\<lambda>k. 1 \<le> k \<and> k \<le> pa_max_attempts a \<and> decision k = Some DEAD_LETTER \<and> (\<forall>j. 1 \<le> j \<and> j < k \<longrightarrow> decision j = Some RETRY)"
  have "?Q (int n + 1)" using n(1,3) before assms(1) by (simp add: P_def)
  moreover have "k = int n + 1" if k: "?Q k" for k
  proof (rule antisym)
    show "int n + 1 \<le> k" using before[of k] k by fastforce
    have "\<not> int n + 1 < k"
    proof
      assume "int n + 1 < k"
      then have "decision (int n + 1) = Some RETRY" using k by simp
      with n(1) show False by (simp add: P_def)
    qed
    then show "k \<le> int n + 1" by simp
  qed
  ultimately have ex: "\<exists>!k. ?Q k" by (rule ex1I)
  have retried: "\<forall>k. decision k = Some (if k < pa_max_attempts a then RETRY else DEAD_LETTER)"
    if "\<forall>k. \<not> isinstance_of (mro k) permanent \<and> (retryable = [] \<or> isinstance_of (mro k) retryable)"
    using that by (auto simp: assms(2) decide_retry_decision is_final_attempt_def)
  have "decision k \<noteq> Some DISCARD" for k using dec[of k] by auto
  then show ?thesis using ex retried by meson
qed

definition demo_attempt :: processing_attempt where
  "demo_attempt = \<lparr> pa_webhook_event_id = 1, pa_attempt_number = 1, pa_max_attempts = 3, pa_started_at = 0,
     pa_source = ''p'', pa_event_type = ''order.paid'', pa_correlation_id = None \<rparr>"

theorem failing_attempts_end_in_dead_letter_witness:
  "po_retry_decision (decide_retry 0 (demo_attempt\<lparr> pa_attempt_number := 2 \<rparr>) demo_failure [''TimeoutError''] [] [''ValueError'']) = Some RETRY \<and>
   po_retry_decision (decide_retry 0 (demo_attempt\<lparr> pa_attempt_number := 3 \<rparr>) demo_failure [''TimeoutError''] [] [''ValueError'']) = Some DEAD_LETTER"
proof -
  have a: "1 \<le> pa_max_attempts demo_attempt" "\<not> isinstance_of [''TimeoutError''] [''ValueError'']"
    by (simp_all add: demo_attempt_def isinstance_of_def)
  from failing_attempts_end_in_dead_letter[OF a(1) refl, of 0 "\<lambda>_. demo_failure" "\<lambda>_. [''TimeoutError'']" "[]" "[''ValueError'']"] a(2)
  have "\<forall>k. po_retry_decision (decide_retry 0 (demo_attempt\<lparr> pa_attempt_number := k \<rparr>) demo_failure [''TimeoutError''] [] [''ValueError'']) =
      Some (if k < 3 then RETRY else DEAD_LETTER)" by (simp add: demo_attempt_def)
  then show ?thesis by simp
qed

section \<open>Job payloads\<close>

text \<open>The job request of a webhook event survives its trip through the queue: reading
  the payload it was written as gives it back, for every value of its optional fields.\<close>

theorem processing_job_request_roundtrip:
  "from_job_payload lib (as_job_payload q) = Some q"
  by (rule job_payload_roundtrip)

section \<open>Dead letters of events\<close>

text \<open>A webhook event can be dead-lettered once: after its first dead letter and its
  replay, another failure of the same event is refused with an integrity error, whatever
  the triage of the first record made of it, because the key names the event and not the
  attempt.  The dead letters of jobs and of webhooks never collide.\<close>

theorem replayed_event_cannot_be_dead_lettered_again:
  assumes "webhook_dead_letter now (build_dead_letter_request_from_outcome i e outcome corr) t = Inr (res, t1)"
    and "prepare_for_replay (i, e) r = (replayed, e')"
    and "record' = triage (webhook_dead_letter_row now (build_dead_letter_request_from_outcome i e outcome corr))"
      "triage \<in> {id, webhook_mark_resolved at1, webhook_mark_archived at1}"
  shows "ev_status e' = WH_ENQUEUED \<and>
    webhook_dead_letter later (build_dead_letter_request_from_outcome i e' outcome' corr')
      (update_row (wd_dead_letter_record_id res) (\<lambda>_. record') t1) = Inl IntegrityError \<and>
    (find_row uq_dead_letter t (JOB_DEAD_LETTER_NAMESPACE, job_dead_letter_key q) = None \<longrightarrow>
      is_ok (store_job later t1 q))"
proof -
  let ?q = "build_dead_letter_request_from_outcome i e outcome corr"
  let ?row = "webhook_dead_letter_row now ?q"
  have e': "ev_status e' = WH_ENQUEUED" "ev_source e' = ev_source e" "ev_endpoint_key e' = ev_endpoint_key e"
    using assms(2) by (auto simp: prepare_for_replay_def)
  have key: "uq_dead_letter record' = (WEBHOOK_DEAD_LETTER_NAMESPACE, webhook_dead_letter_key ?q)"
    using assms(3,4) by (auto simp: uq_dead_letter_def webhook_dead_letter_row_def webhook_mark_resolved_def webhook_mark_archived_def)
  have same: "webhook_dead_letter_key (build_dead_letter_request_from_outcome i e' outcome' corr') = webhook_dead_letter_key ?q"
    by (simp add: webhook_dead_letter_key_def build_dead_letter_request_from_outcome_def e' Let_def)
  have "(wd_dead_letter_record_id res, ?row) \<in> set (tb_rows t1)"
    using assms(1) by (auto simp: webhook_dead_letter_def insert_unique_def insert_row_def split: if_splits)
  then have "(wd_dead_letter_record_id res, record') \<in> set (tb_rows (update_row (wd_dead_letter_record_id res) (\<lambda>_. record') t1))"
    by (force simp: update_row_def)
  then have "find_row uq_dead_letter (update_row (wd_dead_letter_record_id res) (\<lambda>_. record') t1)
      (WEBHOOK_DEAD_LETTER_NAMESPACE, webhook_dead_letter_key ?q) \<noteq> None"
    unfolding find_row_None_iff using key by (metis snd_conv)
  then have "webhook_dead_letter later (build_dead_letter_request_from_outcome i e' outcome' corr')
      (update_row (wd_dead_letter_record_id res) (\<lambda>_. record') t1) = Inl IntegrityError"
    by (simp add: webhook_dead_letter_refused_iff webhook_ledger.store_ok_iff same)
  moreover have "is_ok (store_job later t1 q)"
    if "find_row uq_dead_letter t (JOB_DEAD_LETTER_NAMESPACE, job_dead_letter_key q) = None"
    using that webhook_ledger.store_lookup[OF webhook_dead_letter_store[OF assms(1)]]
    by (simp add: job_ledger.store_ok_iff JOB_DEAD_LETTER_NAMESPACE_def WEBHOOK_DEAD_LETTER_NAMESPACE_def)
  ultimately show ?thesis using e'(1) by blast
qed

definition demo_row :: webhook_event where
  "demo_row = \<lparr> ev_source = ''p'', ev_endpoint_key = ''default'', ev_event_type = ''order.paid'', ev_status = WH_FAILED,
     ev_delivery_id = None, ev_event_id = Some ''e-1'', ev_signature_verified = Some True, ev_payload_content_type = None,
     ev_payload_sha256 = None, ev_payload_size_bytes = None, ev_received_at = 0, ev_acknowledged_at = Some 0,
     ev_processed_at = Some 1, ev_raw_payload = Some ''x'', ev_normalized_payload = None, ev_processing_metadata = None,
     ev_processing_error = None \<rparr>"

theorem replayed_event_cannot_be_dead_lettered_again_witness:
  "\<exists>t1. webhook_dead_letter 9 (build_dead_letter_request_from_outcome 1
      (snd (prepare_for_replay (1, demo_row) \<lparr> xr_webhook_event_id = 1, xr_reason = ''manual_replay'', xr_replayed_by = None, xr_replayed_at = 5 \<rparr>))
      (decide_retry 8 demo_attempt demo_failure [] [] []) None) t1 = Inl IntegrityError \<and> length (tb_rows t1) = 1"
proof -
  let ?q = "build_dead_letter_request_from_outcome 1 demo_row (decide_retry 3 demo_attempt demo_failure [] [] []) None"
  let ?r = "\<lparr> xr_webhook_event_id = 1, xr_reason = ''manual_replay'', xr_replayed_by = None, xr_replayed_at = 5 \<rparr>"
  obtain res t1 where s: "webhook_dead_letter 4 ?q empty_table = Inr (res, t1)" "length (tb_rows t1) = 1"
    by (auto simp: webhook_dead_letter_def insert_unique_def insert_row_def empty_table_def find_row_def)
  have p: "prepare_for_replay (1, demo_row) ?r = (fst (prepare_for_replay (1, demo_row) ?r), snd (prepare_for_replay (1, demo_row) ?r))"
    by simp
  have "length (tb_rows (update_row (wd_dead_letter_record_id res) (\<lambda>_. webhook_mark_resolved 6 (webhook_dead_letter_row 4 ?q)) t1)) = 1"
    using s(2) by (simp add: update_row_def)
  with replayed_event_cannot_be_dead_lettered_again[OF s(1) p refl, where triage = "webhook_mark_resolved 6" and ?at1.0 = 6 and
      later = 9 and outcome' = "decide_retry 8 demo_attempt demo_failure [] [] []" and corr' = None]
  show ?thesis by blast
qed

section \<open>Retention\<close>

text \<open>A full cleanup reports the numbers that the two counting queries announced and
  removes nothing else: it deletes exactly the finished events older than the archive
  window, nulls the raw payload of exactly the finished events older than the retention
  window, keeps every event that is not finished as it was, and has nothing left to scrub
  when run again at the same instant.\<close>

theorem cleanup_is_exact:
  assumes "retention_policy_post_init p = Inr p" "0 < rt_retention_days p"
    and "run_full_cleanup n clk (Some p) t = (Inr res, t')"
  shows "rs_payloads_scrubbed res = count_expired_payloads (clk 1) p t \<and>
    rs_events_purged res = count_purgeable_events (clk 2) p t \<and>
    tb_rows t' = map (\<lambda>row. if scrub_selects p (clk 1) (snd row) then (fst row, (snd row)\<lparr> ev_raw_payload := None \<rparr>) else row)
      (filter (\<lambda>row. \<not> purge_selects p (clk 2) (snd row)) (tb_rows t)) \<and>
    (\<forall>row \<in> set (tb_rows t). ev_status (snd row) \<notin> set (rt_scrub_statuses p) \<longrightarrow> row \<in> set (tb_rows t')) \<and>
    scrub_expired_payloads (clk 1) p t' = (0, t')"
proof -
  let ?g = "\<lambda>row. if scrub_selects p (clk 1) (snd row) then (fst row, (snd row)\<lparr> ev_raw_payload := None \<rparr>) else row"
  have scrub: "scrub_expired_payloads (clk 1) p t = (count_expired_payloads (clk 1) p t, t\<lparr> tb_rows := map ?g (tb_rows t) \<rparr>)"
    using assms(2) by (simp add: scrub_expired_payloads_def count_expired_payloads_def)
  have t': "t' = t\<lparr> tb_rows := map ?g (filter (\<lambda>row. \<not> purge_selects p (clk 2) (snd row)) (tb_rows t)) \<rparr>"
    and res: "rs_payloads_scrubbed res = count_expired_payloads (clk 1) p t"
      "rs_events_purged res = count_purgeable_events (clk 2) p t"
    using assms(3) by (auto simp: run_full_cleanup_def scrub purge_archived_events_def count_purgeable_events_def
        filter_map o_def if_distrib[of snd] if_distrib[of "purge_selects p (clk 2)"] simp del: One_nat_def cong: if_cong)
  have "scrub_expired_payloads (clk 1) p t' = (0, t')"
    using assms(2) by (auto simp: scrub_expired_payloads_def t' filter_empty_conv split: if_splits intro!: map_idI)
  moreover have "row \<in> set (tb_rows t')"
    if "row \<in> set (tb_rows t)" "ev_status (snd row) \<notin> set (rt_scrub_statuses p)" for row
    using that by (force simp: t' purge_selects_def scrub_selects_def image_iff)
  ultimately show ?thesis using res t' by simp
qed

definition demo_retention :: retention_policy where
  "demo_retention = \<lparr> rt_retention_days = 7, rt_archive_days = 90, rt_scrub_statuses = [WH_PROCESSED, WH_FAILED, WH_REJECTED],
     rt_batch_size = 500 \<rparr>"

theorem cleanup_is_exact_witness:
  "\<exists>res t'. run_full_cleanup 7 (\<lambda>_. days 8) (Some demo_retention) \<lparr> tb_next = 2, tb_rows = [(1, demo_row)] \<rparr> = (Inr res, t') \<and>
     tb_rows t' = [(1, demo_row\<lparr> ev_raw_payload := None \<rparr>)] \<and> rs_payloads_scrubbed res = 1"
proof -
  let ?t = "\<lparr> tb_next = 2, tb_rows = [(1, demo_row)] \<rparr>"
  have p: "retention_policy_post_init demo_retention = Inr demo_retention" "0 < rt_retention_days demo_retention"
    by (simp_all add: demo_retention_def retention_policy_post_init_def)
  obtain res t' where r: "run_full_cleanup 7 (\<lambda>_. days 8) (Some demo_retention) ?t = (Inr res, t')"
    by (simp add: run_full_cleanup_def scrub_expired_payloads_def purge_archived_events_def demo_retention_def)
  have "scrub_selects demo_retention (days 8) demo_row" "\<not> purge_selects demo_retention (days 8) demo_row"
    by (simp_all add: scrub_selects_def purge_selects_def demo_retention_def demo_row_def days_def seconds_def)
  with cleanup_is_exact[OF p r] r p(2) show ?thesis by (simp add: count_expired_payloads_def)
qed

text \<open>The default retention policy exists exactly for a configured retention of 0 to 90
  days, although the setting has no upper bound: beyond it every default cleanup raises
  and leaves the table as it is.\<close>

theorem default_cleanup_fails_above_archive_window:
  "(is_ok (build_retention_policy n) \<longleftrightarrow> 0 \<le> n \<and> n \<le> 90) \<and>
   (is_ok (fst (run_full_cleanup n clk None t)) \<longleftrightarrow> 0 \<le> n \<and> n \<le> 90) \<and>
   (if n < 0 \<or> 90 < n then snd (run_full_cleanup n clk None t) = t else is_ok (fst (run_full_cleanup n clk None t)))"
proof -
  have "is_ok (build_retention_policy n) \<longleftrightarrow> 0 \<le> n \<and> n \<le> 90"
    by (auto simp: build_retention_policy_def retention_policy_post_init_def)
  moreover have "is_ok (fst (run_full_cleanup n clk None t)) = is_ok (build_retention_policy n)"
    "\<not> is_ok (build_retention_policy n) \<Longrightarrow> snd (run_full_cleanup n clk None t) = t"
    by (auto simp: run_full_cleanup_def split: sum.split prod.split)
  ultimately show ?thesis by auto
qed

end
