(* ===== verification/Authorization.thy ===== *)
theory Authorization
  imports Request_Context "HOL-Library.Char_ord" "HOL-Library.List_Lexorder"
begin

text \<open>
  core/authorization.py: roles, permissions and the policy that relates them.

  A frozenset of strings is the list of its elements in iteration order, which Python
  leaves open: the theorems speak of \<open>set\<close> of the result for every such list.  A mapping
  of a policy is a dict from a role to such a list.  Claims of a token are a JSON
  dictionary; a member of a string enum is the \<open>JStr\<close> of its value.  \<open>str.lower\<close> acts on
  the letters of code point at most 255.  The text of a float, list or dict (\<open>str\<close> of a
  tenant identifier that is not a string) is an argument.
\<close>

section \<open>Identifiers\<close>

definition lower_letter :: "char \<Rightarrow> char" where
  "lower_letter c = (let n = of_char c :: nat
     in if 65 \<le> n \<and> n \<le> 90 \<or> 192 \<le> n \<and> n \<le> 222 \<and> n \<noteq> 215 then char_of (n + 32) else c)"

definition py_lower :: "string \<Rightarrow> string" where
  "py_lower s = map lower_letter s"

definition normalize_identifier :: "string \<Rightarrow> string" where
  "normalize_identifier value = py_lower (py_strip value)"

type_synonym frozenset = "string list"
type_synonym role_map = "(string \<times> frozenset) list"

definition text_of :: "json \<Rightarrow> string option" where
  "text_of v = (case v of JStr s \<Rightarrow> Some s | _ \<Rightarrow> None)"

definition normalize_identifier_set :: "json list \<Rightarrow> frozenset" where
  "normalize_identifier_set values =
     remdups (filter (\<lambda>s. s \<noteq> []) (map normalize_identifier (List.map_filter text_of values)))"

text \<open>A later key with the same normal form replaces the values of an earlier one.\<close>

fun normalize_mapping :: "(json \<times> json list) list \<Rightarrow> role_map \<Rightarrow> role_map" where
  "normalize_mapping [] normalized = normalized"
| "normalize_mapping ((key, values) # rest) normalized =
     (case text_of key of
        None \<Rightarrow> normalize_mapping rest normalized
      | Some k \<Rightarrow>
          if normalize_identifier k = [] then normalize_mapping rest normalized
          else normalize_mapping rest
                 (AList.update (normalize_identifier k) (normalize_identifier_set values) normalized))"

fun normalize_claim_values :: "json \<Rightarrow> frozenset" where
  "normalize_claim_values (JStr s) = (if normalize_identifier s = [] then [] else [normalize_identifier s])"
| "normalize_claim_values (JList values) = normalize_identifier_set values"
| "normalize_claim_values _ = []"

text \<open>\<open>str.split()\<close>: the maximal runs of characters that are not whitespace.\<close>

fun split_words :: "string \<Rightarrow> string \<Rightarrow> string list" where
  "split_words acc [] = (if acc = [] then [] else [acc])"
| "split_words acc (c # s) =
     (if is_py_space c then (if acc = [] then split_words [] s else acc # split_words [] s)
      else split_words (acc @ [c]) s)"

fun normalize_scope_values :: "json \<Rightarrow> frozenset" where
  "normalize_scope_values (JStr s) = normalize_identifier_set (map JStr (split_words [] s))"
| "normalize_scope_values v = normalize_claim_values v"

definition normalize_optional_string :: "(json \<Rightarrow> string) \<Rightarrow> json \<Rightarrow> string option" where
  "normalize_optional_string rep v =
     (if v = JNull then None
      else let normalized = py_strip (json_str rep v) in if normalized = [] then None else Some normalized)"

section \<open>Tenants and subjects\<close>

record tenant_context =
  tx_tenant_id :: "string option"
  tx_organization_id :: "string option"

definition build_tenant_context :: "(json \<Rightarrow> string) \<Rightarrow> dict \<Rightarrow> tenant_context" where
  "build_tenant_context rep subject =
     (let nested = (\<lambda>k. case dict_get subject ''tenant_context'' JNull of
                          JDict d \<Rightarrow> normalize_optional_string rep (dict_get d k JNull) | _ \<Rightarrow> None);
          flat = (\<lambda>k. normalize_optional_string rep (dict_get subject k JNull))
      in \<lparr> tx_tenant_id = or_else (nested ''tenant_id'') (flat ''tenant_id''),
           tx_organization_id = or_else (nested ''organization_id'') (flat ''organization_id'') \<rparr>)"

record authorization_subject =
  sb_user_id :: json
  sb_username :: json
  sb_email :: json
  sb_principal_type :: string
  sb_roles :: frozenset
  sb_permissions :: frozenset
  sb_is_superuser :: bool
  sb_tier_id :: json
  sb_tenant_context :: tenant_context
  sb_raw_user :: dict

section \<open>Policies\<close>

record permission_policy =
  pp_role_permissions :: role_map
  pp_role_inheritance :: role_map
  pp_default_role :: string
  pp_admin_role :: string
  pp_superuser_role :: string
  pp_wildcard_permission :: string

text \<open>The constructor with its \<open>__post_init__\<close>.\<close>

definition PermissionPolicy ::
  "(json \<times> json list) list \<Rightarrow> (json \<times> json list) list \<Rightarrow> string \<Rightarrow> string \<Rightarrow> string \<Rightarrow> string \<Rightarrow> permission_policy" where
  "PermissionPolicy role_permissions role_inheritance default_role admin_role superuser_role wildcard =
     \<lparr> pp_role_permissions = normalize_mapping role_permissions [],
       pp_role_inheritance = normalize_mapping role_inheritance [],
       pp_default_role = normalize_identifier default_role,
       pp_admin_role = normalize_identifier admin_role,
       pp_superuser_role = normalize_identifier superuser_role,
       pp_wildcard_permission = normalize_identifier wildcard \<rparr>"

definition as_mapping :: "role_map \<Rightarrow> (json \<times> json list) list" where
  "as_mapping m = map (\<lambda>(k, vs). (JStr k, map JStr vs)) m"

fun merge_roles :: "role_map \<Rightarrow> role_map \<Rightarrow> role_map" where
  "merge_roles merged [] = merged"
| "merge_roles merged ((role, values) # rest) =
     merge_roles (AList.update role (List.union (dict_get merged role []) values) merged) rest"

definition extend_policy ::
  "permission_policy \<Rightarrow> (json \<times> json list) list option \<Rightarrow> (json \<times> json list) list option \<Rightarrow> permission_policy" where
  "extend_policy p role_permissions role_inheritance =
     (let merged = (\<lambda>base extra. if truthy_list extra then merge_roles base (normalize_mapping (the extra) []) else base)
      in PermissionPolicy (as_mapping (merged (pp_role_permissions p) role_permissions))
           (as_mapping (merged (pp_role_inheritance p) role_inheritance))
           (pp_default_role p) (pp_admin_role p) (pp_superuser_role p) (pp_wildcard_permission p))"

text \<open>\<open>expand_roles\<close>: the work list is popped and extended at its end.\<close>

function expand_loop :: "role_map \<Rightarrow> string list \<Rightarrow> string list \<Rightarrow> string list" where
  "expand_loop inheritance resolved pending =
     (if pending = [] then resolved
      else let role = last pending; rest = butlast pending
           in if role \<in> set resolved then expand_loop inheritance resolved rest
              else expand_loop inheritance (role # resolved) (rest @ dict_get inheritance role []))"
  by pat_completeness auto

definition role_universe :: "role_map \<Rightarrow> string set" where
  "role_universe m = (\<Union>row \<in> set m. set (snd row))"

lemma finite_role_universe [simp]: "finite (role_universe m)"
  by (simp add: role_universe_def)

lemma dict_get_universe: "set (dict_get m r []) \<subseteq> role_universe m"
  by (cases "map_of m r") (force simp: dict_get_def role_universe_def dest: map_of_SomeD)+

text \<open>A new role leaves the finite set of roles still to be resolved; a known one
  shortens the work list.\<close>

termination expand_loop
proof (relation "measures [\<lambda>(inh, res, pen). card ((role_universe inh \<union> set pen) - set res),
    \<lambda>(inh, res, pen). length pen]", goal_cases)
  case (2 inh res pen role rest)
  then have "set rest \<subseteq> set pen" and l: "length rest < length pen" by (auto dest: in_set_butlastD)
  then have "card ((role_universe inh \<union> set rest) - set res) \<le> card ((role_universe inh \<union> set pen) - set res)"
    by (intro card_mono) auto
  with l show ?case by auto
next
  case (3 inh res pen role rest)
  then have "set rest \<subseteq> set pen" and r: "role \<in> set pen" by (auto dest: in_set_butlastD)
  with dict_get_universe[of inh role] 3 have
    "(role_universe inh \<union> set (rest @ dict_get inh role [])) - set (role # res)
       \<subset> (role_universe inh \<union> set pen) - set res" by auto
  then have "card ((role_universe inh \<union> set (rest @ dict_get inh role [])) - set (role # res))
       < card ((role_universe inh \<union> set pen) - set res)" by (intro psubset_card_mono) auto
  then show ?case by simp
qed simp

declare expand_loop.simps [simp del]

definition expand_roles :: "permission_policy \<Rightarrow> json list \<Rightarrow> frozenset" where
  "expand_roles p roles = expand_loop (pp_role_inheritance p) [] (normalize_identifier_set roles)"

definition permissions_for_roles :: "permission_policy \<Rightarrow> json list \<Rightarrow> frozenset" where
  "permissions_for_roles p roles =
     fold (\<lambda>role permissions. List.union permissions (dict_get (pp_role_permissions p) role [])) (expand_roles p roles) []"

definition claimed_roles :: "permission_policy \<Rightarrow> dict \<Rightarrow> frozenset" where
  "claimed_roles p current_user =
     (let roles = List.union (normalize_claim_values (dict_get current_user ''role'' JNull))
                             (normalize_claim_values (dict_get current_user ''roles'' JNull));
          roles = (if pp_default_role p \<noteq> [] then List.insert (pp_default_role p) roles else roles)
      in if json_truthy (dict_get current_user ''is_superuser'' JNull)
         then List.insert (pp_superuser_role p) (List.insert (pp_admin_role p) roles) else roles)"

definition build_subject :: "(json \<Rightarrow> string) \<Rightarrow> permission_policy \<Rightarrow> dict \<Rightarrow> authorization_subject" where
  "build_subject rep p current_user =
     (let get = (\<lambda>k. dict_get current_user k JNull);
          expanded_roles = expand_roles p (map JStr (claimed_roles p current_user));
          permissions = permissions_for_roles p (map JStr expanded_roles);
          permissions = List.union permissions (normalize_claim_values (get ''permissions''));
          permissions = List.union permissions (normalize_scope_values (get ''scopes''))
      in \<lparr> sb_user_id = get ''id'', sb_username = get ''username'', sb_email = get ''email'',
           sb_principal_type = or_list (normalize_optional_string rep (get ''principal_type'')) ''user'',
           sb_roles = expanded_roles, sb_permissions = permissions,
           sb_is_superuser = json_truthy (get ''is_superuser''), sb_tier_id = get ''tier_id'',
           sb_tenant_context = build_tenant_context rep current_user, sb_raw_user = current_user \<rparr>)"

definition DEFAULT_ROLE_PERMISSION_GRANTS :: "(json \<times> json list) list" where
  "DEFAULT_ROLE_PERMISSION_GRANTS =
     [(JStr ''authenticated'', []),
      (JStr ''admin'', map JStr [''platform:admin:access'', ''platform:internal:access'', ''platform:posts:manage'',
         ''platform:rate-limits:manage'', ''platform:tiers:manage'', ''platform:users:manage'']),
      (JStr ''superuser'', [JStr ''*''])]"

definition DEFAULT_PERMISSION_POLICY :: permission_policy where
  "DEFAULT_PERMISSION_POLICY =
     PermissionPolicy DEFAULT_ROLE_PERMISSION_GRANTS
       [(JStr ''admin'', [JStr ''authenticated'']), (JStr ''superuser'', [JStr ''admin''])]
       ''authenticated'' ''admin'' ''superuser'' ''*''"

section \<open>Decisions\<close>

datatype subject_arg = Claims dict | Resolved authorization_subject

datatype auth_error = AuthValueError string | Forbidden string

fun coerce_subject :: "(json \<Rightarrow> string) \<Rightarrow> permission_policy \<Rightarrow> subject_arg \<Rightarrow> authorization_subject" where
  "coerce_subject rep p (Resolved s) = s"
| "coerce_subject rep p (Claims d) = build_subject rep p d"

definition has_permission :: "(json \<Rightarrow> string) \<Rightarrow> permission_policy \<Rightarrow> subject_arg \<Rightarrow> string \<Rightarrow> bool" where
  "has_permission rep p subject permission =
     (let resolved = coerce_subject rep p subject
      in normalize_identifier permission \<in> set (sb_permissions resolved)
         \<or> pp_wildcard_permission p \<in> set (sb_permissions resolved))"

definition subject_has_role :: "(json \<Rightarrow> string) \<Rightarrow> permission_policy \<Rightarrow> subject_arg \<Rightarrow> string \<Rightarrow> bool" where
  "subject_has_role rep p subject role \<longleftrightarrow> normalize_identifier role \<in> set (sb_roles (coerce_subject rep p subject))"

definition normalize_required_values :: "json list \<Rightarrow> string \<Rightarrow> auth_error + frozenset" where
  "normalize_required_values values label =
     (let normalized = normalize_identifier_set values
      in if normalized = [] then Inl (AuthValueError (''At least one '' @ label @ '' must be provided'')) else Inr normalized)"

definition comma_join :: "string list \<Rightarrow> string" where
  "comma_join xs = (case xs of [] \<Rightarrow> [] | y # ys \<Rightarrow> y @ concat (map (\<lambda>z. '', '' @ z) ys))"

definition ensure_roles ::
  "(json \<Rightarrow> string) \<Rightarrow> permission_policy \<Rightarrow> subject_arg \<Rightarrow> json list \<Rightarrow> bool \<Rightarrow> string option \<Rightarrow> auth_error + authorization_subject" where
  "ensure_roles rep p subject required require_all message =
     (let resolved = coerce_subject rep p subject
      in bind_sum (normalize_required_values required ''role'') (\<lambda>roles.
           if require_all
           then let missing = filter (\<lambda>r. r \<notin> set (sb_roles resolved)) roles
                in if missing \<noteq> []
                   then Inl (Forbidden (or_list message (''Missing required roles: '' @ comma_join (sort missing))))
                   else Inr resolved
           else if \<not> (\<exists>r \<in> set roles. r \<in> set (sb_roles resolved))
           then Inl (Forbidden (or_list message (''Requires one of the following roles: '' @ comma_join (sort roles))))
           else Inr resolved))"

definition ensure_permissions ::
  "(json \<Rightarrow> string) \<Rightarrow> permission_policy \<Rightarrow> subject_arg \<Rightarrow> json list \<Rightarrow> bool \<Rightarrow> string option \<Rightarrow> auth_error + authorization_subject" where
  "ensure_permissions rep p subject required require_all message =
     (let resolved = coerce_subject rep p subject; held = set (sb_permissions resolved)
      in bind_sum (normalize_required_values required ''permission'') (\<lambda>perms.
           if require_all
           then let missing = filter (\<lambda>q. q \<notin> held \<and> pp_wildcard_permission p \<notin> held) perms
                in if missing \<noteq> []
                   then Inl (Forbidden (or_list message (''Missing required permissions: '' @ comma_join (sort missing))))
                   else Inr resolved
           else if \<not> (\<exists>q \<in> set perms. q \<in> held \<or> pp_wildcard_permission p \<in> held)
           then Inl (Forbidden (or_list message (''Requires one of the following permissions: '' @ comma_join (sort perms))))
           else Inr resolved))"

definition DEFAULT_PERMISSION_DENIED_MESSAGE :: string where
  "DEFAULT_PERMISSION_DENIED_MESSAGE = ''You do not have enough privileges.''"

definition authorize_permission ::
  "(json \<Rightarrow> string) \<Rightarrow> permission_policy \<Rightarrow> subject_arg \<Rightarrow> string \<Rightarrow> string \<Rightarrow> auth_error + authorization_subject" where
  "authorize_permission rep p subject permission message =
     ensure_permissions rep p subject [JStr permission] True (Some message)"

text \<open>Python's \<open>==\<close> between a claim and an int identifies numbers, \<open>True\<close> with 1 and \<open>False\<close> with 0.\<close>

fun json_eq_int :: "json \<Rightarrow> int \<Rightarrow> bool" where
  "json_eq_int (JInt i) n = (i = n)"
| "json_eq_int (JFloat q) n = (q = of_int n)"
| "json_eq_int (JBool b) n = (n = (if b then 1 else 0))"
| "json_eq_int _ n = False"

definition is_resource_owner ::
  "(json \<Rightarrow> string) \<Rightarrow> permission_policy \<Rightarrow> subject_arg \<Rightarrow> int option \<Rightarrow> string option \<Rightarrow> bool" where
  "is_resource_owner rep p subject owner_user_id owner_username =
     (let resolved = coerce_subject rep p subject
      in (case owner_user_id of None \<Rightarrow> False | Some i \<Rightarrow> json_eq_int (sb_user_id resolved) i)
         \<or> (case owner_username of None \<Rightarrow> False | Some u \<Rightarrow> sb_username resolved = JStr u))"

definition authorize_owner_or_permission ::
  "(json \<Rightarrow> string) \<Rightarrow> permission_policy \<Rightarrow> subject_arg \<Rightarrow> string \<Rightarrow> int option \<Rightarrow> string option \<Rightarrow> string
     \<Rightarrow> auth_error + authorization_subject" where
  "authorize_owner_or_permission rep p subject permission owner_user_id owner_username message =
     (let resolved = coerce_subject rep p subject
      in if is_resource_owner rep p (Resolved resolved) owner_user_id owner_username then Inr resolved
         else authorize_permission rep p (Resolved resolved) permission message)"

end
