(* ===== verification/Authorization_Theorems.thy ===== *)
theory Authorization_Theorems
  imports Authorization
begin

text \<open>
  Properties of roles and permissions: the work list computes the closure of the
  inheritance relation, identifiers stay in normal form, a permission check decides
  membership in an explicit set of grants, an extension of a policy only grants.
\<close>

section \<open>Normal forms\<close>

definition is_normal :: "string \<Rightarrow> bool" where
  "is_normal s \<longleftrightarrow> s \<noteq> [] \<and> normalize_identifier s = s"

lemma of_char_lower_letter: "of_char (lower_letter c) =
    (let n = of_char c :: nat in if 65 \<le> n \<and> n \<le> 90 \<or> 192 \<le> n \<and> n \<le> 222 \<and> n \<noteq> 215 then n + 32 else n)"
  by (auto simp: lower_letter_def Let_def)

lemma lower_letter_space [simp]: "is_py_space (lower_letter c) = is_py_space c"
  unfolding is_py_space_def of_char_lower_letter Let_def by auto

lemma lower_letter_idem [simp]: "lower_letter (lower_letter c) = lower_letter c"
  using of_char_lower_letter[of c]
  by (subst lower_letter_def) (auto simp: Let_def)

lemma strip_lower: "py_strip (py_lower s) = py_lower (py_strip s)"
  by (simp add: py_strip_def py_lower_def dropWhile_map comp_def rev_map)

lemma normalize_identifier_idem [simp]: "normalize_identifier (normalize_identifier s) = normalize_identifier s"
  by (simp add: normalize_identifier_def strip_lower) (simp add: py_lower_def)

lemma set_normalize_identifier_set:
  "set (normalize_identifier_set vs) = {normalize_identifier s | s. JStr s \<in> set vs} - {[]}"
proof -
  have "set (List.map_filter text_of vs) = {s. JStr s \<in> set vs}"
    by (induction vs) (auto simp: text_of_def split: json.splits)
  then show ?thesis by (auto simp: normalize_identifier_set_def)
qed

lemma distinct_normalize_identifier_set [simp]: "distinct (normalize_identifier_set vs)"
  by (simp add: normalize_identifier_set_def)

lemma normalize_identifier_set_normal: "s \<in> set (normalize_identifier_set vs) \<Longrightarrow> is_normal s"
  by (auto simp: set_normalize_identifier_set is_normal_def)

lemma normalize_identifier_set_id:
  assumes "\<And>s. s \<in> set xs \<Longrightarrow> is_normal s" "distinct xs"
  shows "normalize_identifier_set (map JStr xs) = xs"
proof -
  have "List.map_filter text_of (map JStr xs) = xs" by (induction xs) (simp_all add: text_of_def)
  moreover have "map normalize_identifier xs = xs" "filter (\<lambda>s. s \<noteq> []) xs = xs"
    using assms(1) by (auto simp: is_normal_def intro: map_idI simp: filter_id_conv)
  ultimately show ?thesis using assms(2) by (simp add: normalize_identifier_set_def distinct_remdups_id)
qed

lemma set_normalize_strings:
  assumes "\<And>s. s \<in> set xs \<Longrightarrow> normalize_identifier s = s"
  shows "set (normalize_identifier_set (map JStr xs)) = set xs - {[]}"
  using assms by (force simp: set_normalize_identifier_set)

lemma claim_values_normal: "s \<in> set (normalize_claim_values v) \<Longrightarrow> is_normal s"
  by (cases v) (auto simp: is_normal_def dest: normalize_identifier_set_normal split: if_splits)

lemma scope_values_normal: "s \<in> set (normalize_scope_values v) \<Longrightarrow> is_normal s"
  by (cases v) (auto simp: is_normal_def dest: normalize_identifier_set_normal split: if_splits)

text \<open>A mapping in normal form: distinct normal keys with distinct normal values.\<close>

definition normal_map :: "role_map \<Rightarrow> bool" where
  "normal_map m \<longleftrightarrow> distinct (map fst m) \<and>
     (\<forall>row \<in> set m. is_normal (fst row) \<and> distinct (snd row) \<and> (\<forall>v \<in> set (snd row). is_normal v))"

lemma set_update_row: "row \<in> set (AList.update k v m) \<Longrightarrow> row = (k, v) \<or> row \<in> set m"
  by (induction m) (auto split: if_splits)

lemma normal_map_update:
  assumes "normal_map m" "is_normal k" "distinct vs" "\<And>v. v \<in> set vs \<Longrightarrow> is_normal v"
  shows "normal_map (AList.update k vs m)"
  using assms unfolding normal_map_def by (auto dest!: set_update_row intro: distinct_update)

lemma normal_map_update_set:
  assumes "normal_map m" "normalize_identifier k \<noteq> []"
  shows "normal_map (AList.update (normalize_identifier k) (normalize_identifier_set vs) m)"
  using assms by (intro normal_map_update) (simp_all add: is_normal_def[of "normalize_identifier k"] normalize_identifier_set_normal)

lemma normal_normalize_mapping: "normal_map acc \<Longrightarrow> normal_map (normalize_mapping mapping acc)"
  by (induction mapping acc rule: normalize_mapping.induct) (simp_all add: normal_map_update_set split: option.split)

lemma normal_dict_get: "normal_map m \<Longrightarrow> v \<in> set (dict_get m r []) \<Longrightarrow> is_normal v"
  by (cases "map_of m r") (force simp: dict_get_def normal_map_def dest: map_of_SomeD)+

lemma normal_dict_get_distinct: "normal_map m \<Longrightarrow> distinct (dict_get m r [])"
  by (cases "map_of m r") (force simp: dict_get_def normal_map_def dest: map_of_SomeD)+

lemma normal_map_Nil [simp]: "normal_map []"
  by (simp add: normal_map_def)

lemma normal_map_head:
  "normal_map ((k, vs) # m) \<longleftrightarrow> normal_map m \<and> k \<notin> fst ` set m \<and> is_normal k \<and> distinct vs \<and> (\<forall>v \<in> set vs. is_normal v)"
  by (auto simp: normal_map_def)

lemma normal_merge_roles: "normal_map m \<Longrightarrow> normal_map n \<Longrightarrow> normal_map (merge_roles m n)"
proof (induction m n rule: merge_roles.induct)
  case (2 m role vs rest)
  then have "normal_map (AList.update role (List.union (dict_get m role []) vs) m)"
    by (intro normal_map_update) (auto simp: normal_dict_get normal_map_head)
  with 2 show ?case by (simp add: normal_map_head)
qed simp

text \<open>Building a policy from mappings in normal form keeps them.\<close>

lemma normalize_as_mapping: "normal_map (acc @ m) \<Longrightarrow> normalize_mapping (as_mapping m) acc = acc @ m"
proof (induction m arbitrary: acc)
  case (Cons row m)
  obtain k vs where row: "row = (k, vs)" by (cases row)
  with Cons.prems have n: "is_normal k" "distinct vs" "\<And>v. v \<in> set vs \<Longrightarrow> is_normal v" "k \<notin> fst ` set acc"
    by (auto simp: normal_map_def)
  then have u: "AList.update k vs acc = acc @ [(k, vs)]" by (induction acc) auto
  have "normal_map ((acc @ [(k, vs)]) @ m)" using Cons.prems row by simp
  from Cons.IH[OF this] n u row show ?case
    by (simp add: as_mapping_def text_of_def normalize_identifier_set_id) (simp add: is_normal_def)
qed (simp add: as_mapping_def)

definition normal_policy :: "permission_policy \<Rightarrow> bool" where
  "normal_policy p \<longleftrightarrow> normal_map (pp_role_permissions p) \<and> normal_map (pp_role_inheritance p) \<and>
     (\<forall>s \<in> {pp_default_role p, pp_admin_role p, pp_superuser_role p, pp_wildcard_permission p}. normalize_identifier s = s)"

lemma normal_PermissionPolicy [simp]: "normal_policy (PermissionPolicy rp ri d a s w)"
  by (simp add: normal_policy_def PermissionPolicy_def normal_normalize_mapping)

text \<open>What the constructor of \<open>extend\<close> does with the merged mappings: nothing.\<close>

definition merged_map :: "role_map \<Rightarrow> (json \<times> json list) list option \<Rightarrow> role_map" where
  "merged_map base extra = (if truthy_list extra then merge_roles base (normalize_mapping (the extra) []) else base)"

lemma normal_merged_map: "normal_map m \<Longrightarrow> normal_map (merged_map m extra)"
  by (simp add: merged_map_def normal_merge_roles normal_normalize_mapping)

lemma extend_policy_fields:
  assumes "normal_policy p"
  shows "extend_policy p a b = p\<lparr> pp_role_permissions := merged_map (pp_role_permissions p) a,
           pp_role_inheritance := merged_map (pp_role_inheritance p) b \<rparr>"
proof -
  have "normalize_mapping (as_mapping (merged_map m x)) [] = merged_map m x" if "normal_map m" for m x
    using normalize_as_mapping[of "[]"] normal_merged_map[OF that] by simp
  with assms show ?thesis
    by (simp add: extend_policy_def merged_map_def[symmetric] PermissionPolicy_def normal_policy_def)
qed

section \<open>Expansion of roles\<close>

definition inherits :: "role_map \<Rightarrow> (string \<times> string) set" where
  "inherits m = {(a, b). b \<in> set (dict_get m a [])}"

lemma set_pending: "pending \<noteq> [] \<Longrightarrow> set pending = insert (last pending) (set (butlast pending))"
  by (metis append_butlast_last_id list.simps(15) rotate1.simps(2) set_rotate1)

text \<open>Nothing outside the closure is added, nothing seen is lost, and the result is closed
  when everything resolved so far leads into the result or the work list.\<close>

lemma expand_loop_sound:
  "set (expand_loop m res pen) \<subseteq> set res \<union> (inherits m)\<^sup>* `` set pen"
proof (induction m res pen rule: expand_loop.induct)
  case (1 m res pen)
  show ?case
  proof (cases "pen = []")
    case False
    let ?r = "last pen"
    have s: "(inherits m)\<^sup>* `` set (dict_get m ?r []) \<subseteq> (inherits m)\<^sup>* `` {?r}"
      by (auto simp: inherits_def intro: converse_rtrancl_into_rtrancl)
    have p: "(inherits m)\<^sup>* `` set pen = (inherits m)\<^sup>* `` {?r} \<union> (inherits m)\<^sup>* `` set (butlast pen)"
      using set_pending[OF False] by auto
    have "?r \<in> (inherits m)\<^sup>* `` {?r}" by auto
    with 1[OF False refl refl] s False show ?thesis
      unfolding expand_loop.simps[of m res pen] p by (simp add: Image_Un Let_def) blast
  qed (simp add: expand_loop.simps)
qed

lemma expand_loop_keeps: "set res \<union> set pen \<subseteq> set (expand_loop m res pen)"
proof (induction m res pen rule: expand_loop.induct)
  case (1 m res pen)
  then show ?case
    unfolding expand_loop.simps[of m res pen] by (auto simp: set_pending Let_def)
qed

lemma expand_loop_closed:
  "inherits m `` set res \<subseteq> set res \<union> set pen \<Longrightarrow> inherits m `` set (expand_loop m res pen) \<subseteq> set (expand_loop m res pen)"
proof (induction m res pen rule: expand_loop.induct)
  case (1 m res pen)
  show ?case
  proof (cases "pen = []")
    case False
    have "inherits m `` set (last pen # res) \<subseteq> set (last pen # res) \<union> set (butlast pen @ dict_get m (last pen) [])"
      using 1(3) set_pending[OF False] by (auto simp: inherits_def)
    moreover have "last pen \<in> set res \<Longrightarrow> inherits m `` set res \<subseteq> set res \<union> set (butlast pen)"
      using 1(3) set_pending[OF False] by auto
    ultimately show ?thesis
      using 1(1,2)[OF False refl refl] False unfolding expand_loop.simps[of m res pen] by (simp add: Let_def)
  qed (use 1(3) in \<open>simp add: expand_loop.simps\<close>)
qed

lemma expand_loop_distinct: "distinct res \<Longrightarrow> distinct (expand_loop m res pen)"
  by (induction m res pen rule: expand_loop.induct) (subst expand_loop.simps, simp add: Let_def)

lemma expand_loop_closure: "set (expand_loop m [] pen) = (inherits m)\<^sup>* `` set pen"
proof
  have "inherits m `` set (expand_loop m [] pen) \<subseteq> set (expand_loop m [] pen)"
    by (rule expand_loop_closed) simp
  then have "(inherits m)\<^sup>* `` set (expand_loop m [] pen) \<subseteq> set (expand_loop m [] pen)"
    by (simp add: Image_closed_trancl)
  then show "(inherits m)\<^sup>* `` set pen \<subseteq> set (expand_loop m [] pen)"
    using Image_mono[OF order_refl, of "set pen" "set (expand_loop m [] pen)" "(inherits m)\<^sup>*"] expand_loop_keeps[of "[]" pen m]
    by simp
qed (use expand_loop_sound[of m "[]" pen] in simp)

lemma expand_roles_is_closure_raw:
  "set (expand_roles p roles) = (inherits (pp_role_inheritance p))\<^sup>* `` set (normalize_identifier_set roles)"
  by (simp add: expand_roles_def expand_loop_closure)

text \<open>C8: expanding roles terminates on every policy, cyclic inheritance included, and
  computes the reflexive and transitive closure of the inheritance relation on the
  normalised roles, each role once, whatever the order in which frozensets are iterated.\<close>

theorem expand_roles_is_closure:
  "set (expand_roles p roles) = (inherits (pp_role_inheritance p))\<^sup>* `` set (normalize_identifier_set roles) \<and>
   distinct (expand_roles p roles)"
  by (simp add: expand_roles_is_closure_raw) (simp add: expand_roles_def expand_loop_distinct)

definition demo_policy :: permission_policy where
  "demo_policy = PermissionPolicy [(JStr ''Editor '', [JStr ''posts:write''])]
     [(JStr ''editor'', [JStr ''author'']), (JStr ''author'', [JStr ''EDITOR'', JStr ''reader''])]
     ''authenticated'' ''admin'' ''superuser'' ''*''"

lemma demo_inheritance:
  "pp_role_inheritance demo_policy = [(''editor'', [''author'']), (''author'', [''editor'', ''reader''])]"
  by code_simp

theorem expand_roles_is_closure_witness:
  "(inherits (pp_role_inheritance demo_policy))\<^sup>* `` {''author''} = {''author'', ''editor'', ''reader''}"
proof -
  have n: "normalize_identifier_set [JStr '' Author''] = [''author'']" by code_simp
  then have "expand_roles demo_policy [JStr '' Author''] = [''editor'', ''reader'', ''author'']"
    by (simp add: expand_roles_def demo_inheritance expand_loop.simps dict_get_def)
  with expand_roles_is_closure[of demo_policy "[JStr '' Author'']"] n show ?thesis by auto
qed

section \<open>What a subject may do\<close>

lemma set_fold_union: "set (fold (\<lambda>r acc. List.union acc (f r)) rs acc) = set acc \<union> (\<Union>r \<in> set rs. set (f r))"
  by (induction rs arbitrary: acc) auto

lemma set_permissions_for_roles:
  "set (permissions_for_roles p roles) = (\<Union>r \<in> set (expand_roles p roles). set (dict_get (pp_role_permissions p) r []))"
  by (simp add: permissions_for_roles_def set_fold_union)

lemma distinct_fold_union: "distinct acc \<Longrightarrow> (\<And>r. distinct (f r)) \<Longrightarrow> distinct (fold (\<lambda>r acc. List.union acc (f r)) rs acc)"
  by (induction rs arbitrary: acc) (simp_all add: distinct_union)

lemma inherits_normal:
  assumes "normal_map m" "is_normal a" "(a, b) \<in> (inherits m)\<^sup>*"
  shows "is_normal b"
  using assms(3,2) by (induction rule: rtrancl_induct) (auto simp: inherits_def intro: normal_dict_get[OF assms(1)])

lemma expand_roles_normal:
  assumes "normal_policy p" "r \<in> set (expand_roles p roles)"
  shows "is_normal r"
  using assms inherits_normal[of "pp_role_inheritance p"] normalize_identifier_set_normal
  by (auto simp: expand_roles_is_closure_raw normal_policy_def)

lemma set_claimed_roles: "set (claimed_roles p u) =
    set (normalize_claim_values (dict_get u ''role'' JNull)) \<union> set (normalize_claim_values (dict_get u ''roles'' JNull))
    \<union> (if pp_default_role p \<noteq> [] then {pp_default_role p} else {})
    \<union> (if json_truthy (dict_get u ''is_superuser'' JNull) then {pp_admin_role p, pp_superuser_role p} else {})"
  by (simp add: claimed_roles_def Let_def insert_commute)

lemma claimed_roles_normal:
  assumes "normal_policy p" "r \<in> set (claimed_roles p u)"
  shows "normalize_identifier r = r"
proof -
  have "r \<in> set (normalize_claim_values v) \<Longrightarrow> normalize_identifier r = r" for v
    using claim_values_normal by (simp add: is_normal_def)
  with assms show ?thesis by (auto simp: set_claimed_roles normal_policy_def split: if_splits)
qed

text \<open>The grants of a user: what the closure of the claimed roles grants, and what the
  claims themselves list.\<close>

definition user_roles :: "permission_policy \<Rightarrow> dict \<Rightarrow> string set" where
  "user_roles p u = (inherits (pp_role_inheritance p))\<^sup>* `` (set (claimed_roles p u) - {[]})"

definition grants :: "permission_policy \<Rightarrow> dict \<Rightarrow> string set" where
  "grants p u = (\<Union>r \<in> user_roles p u. set (dict_get (pp_role_permissions p) r []))
     \<union> set (normalize_claim_values (dict_get u ''permissions'' JNull))
     \<union> set (normalize_scope_values (dict_get u ''scopes'' JNull))"

lemma built_roles:
  assumes "normal_policy p"
  shows "set (expand_roles p (map JStr (claimed_roles p u))) = user_roles p u"
  by (simp add: expand_roles_is_closure_raw user_roles_def set_normalize_strings[OF claimed_roles_normal[OF assms]])

lemma built_roles_again:
  assumes "normal_policy p"
  shows "set (expand_roles p (map JStr (expand_roles p roles))) = set (expand_roles p roles)"
proof -
  have "normalize_identifier_set (map JStr (expand_roles p roles)) = expand_roles p roles"
    using expand_roles_normal[OF assms] by (intro normalize_identifier_set_id) (simp_all add: expand_roles_def expand_loop_distinct)
  moreover have "(inherits m)\<^sup>* `` ((inherits m)\<^sup>* `` A) = (inherits m)\<^sup>* `` A" for m A
    by (auto intro: rtrancl_trans)
  ultimately show ?thesis by (simp add: expand_roles_is_closure_raw)
qed

lemma built_subject:
  assumes "normal_policy p"
  shows "set (sb_roles (build_subject rep p u)) = user_roles p u"
    and "set (sb_permissions (build_subject rep p u)) = grants p u"
  using assms by (simp_all add: build_subject_def Let_def built_roles built_roles_again set_permissions_for_roles grants_def)

lemma grants_normal:
  assumes "normal_policy p" "q \<in> grants p u"
  shows "is_normal q"
  using assms(2) assms(1) claim_values_normal scope_values_normal normal_dict_get[of "pp_role_permissions p" q]
  by (auto simp: grants_def normal_policy_def)

definition well_formed_subject :: "authorization_subject \<Rightarrow> bool" where
  "well_formed_subject s \<longleftrightarrow>
     distinct (sb_roles s) \<and> (\<forall>r \<in> set (sb_roles s). is_normal r) \<and>
     distinct (sb_permissions s) \<and> (\<forall>q \<in> set (sb_permissions s). is_normal q) \<and>
     sb_principal_type s \<noteq> [] \<and>
     (\<forall>t \<in> set_option (tx_tenant_id (sb_tenant_context s)). t \<noteq> [] \<and> py_strip t = t) \<and>
     (\<forall>t \<in> set_option (tx_organization_id (sb_tenant_context s)). t \<noteq> [] \<and> py_strip t = t)"

lemma normalize_optional_string_Some: "normalize_optional_string rep v = Some t \<Longrightarrow> t \<noteq> [] \<and> py_strip t = t"
  by (auto simp: normalize_optional_string_def Let_def split: if_splits)

lemma tenant_text: "t \<in> set_option (or_else (case v of JDict d \<Rightarrow> normalize_optional_string rep (f d) | _ \<Rightarrow> None)
    (normalize_optional_string rep w)) \<Longrightarrow> t \<noteq> [] \<and> py_strip t = t"
  by (auto simp: or_else_def dest!: normalize_optional_string_Some split: json.splits option.splits)

lemma or_list_not_Nil: "d \<noteq> [] \<Longrightarrow> or_list x d \<noteq> []"
  by (cases x) (auto simp: or_list_def)

lemma claim_values_distinct: "distinct (normalize_claim_values v)"
  by (cases v) auto

lemma scope_values_distinct: "distinct (normalize_scope_values v)"
  by (cases v) auto

lemma built_subject_well_formed:
  assumes "normal_policy p"
  shows "well_formed_subject (build_subject rep p u)"
proof -
  let ?s = "build_subject rep p u"
  have "distinct (sb_permissions ?s)"
    using assms by (simp add: build_subject_def Let_def distinct_union permissions_for_roles_def
        distinct_fold_union normal_dict_get_distinct normal_policy_def claim_values_distinct scope_values_distinct)
  moreover have "distinct (sb_roles ?s)" "\<forall>r \<in> set (sb_roles ?s). is_normal r"
    using expand_roles_normal[OF assms] by (simp_all add: build_subject_def Let_def expand_roles_def expand_loop_distinct)
  moreover have "\<forall>q \<in> set (sb_permissions ?s). is_normal q"
    using grants_normal[OF assms] by (simp add: built_subject[OF assms])
  moreover have "sb_principal_type ?s \<noteq> []"
    by (simp add: build_subject_def Let_def or_list_not_Nil)
  moreover have "\<forall>t \<in> set_option (tx_tenant_id (sb_tenant_context ?s)). t \<noteq> [] \<and> py_strip t = t"
      "\<forall>t \<in> set_option (tx_organization_id (sb_tenant_context ?s)). t \<noteq> [] \<and> py_strip t = t"
    using tenant_text by (fastforce simp: build_subject_def build_tenant_context_def Let_def)+
  ultimately show ?thesis by (simp add: well_formed_subject_def)
qed

text \<open>C19: every policy and every subject the code builds is well formed.  The constructor
  and \<open>extend\<close> leave mappings with distinct, stripped, lower-case, non-empty keys and
  values, and the roles and permissions of a subject built from any claims are such
  identifiers, each once; the principal type is never empty, and a tenant or organization
  is absent rather than blank.\<close>

theorem subjects_are_well_formed:
  "normal_policy (PermissionPolicy rp ri d a s w) \<and>
   (normal_policy p \<longrightarrow> normal_policy (extend_policy p x y) \<and> well_formed_subject (build_subject rep p u))"
proof -
  have "normal_policy (extend_policy p x y)" by (simp add: extend_policy_def Let_def)
  then show ?thesis using built_subject_well_formed by auto
qed

lemma subjects_normal_extend [simp]: "normal_policy p \<Longrightarrow> normal_policy (extend_policy p x y)"
  by (simp add: extend_policy_def Let_def)

theorem subjects_are_well_formed_witness:
  "well_formed_subject (build_subject (\<lambda>_. []) demo_policy [(''role'', JStr '' Author ''), (''tenant_id'', JInt 7)])"
  using subjects_are_well_formed[of "[]" "[]" "[]" "[]" "[]" "[]" demo_policy None None "\<lambda>_. []"
      "[(''role'', JStr '' Author ''), (''tenant_id'', JInt 7)]"]
  by (simp add: demo_policy_def)

section \<open>Decisions\<close>

lemma has_permission_claims:
  assumes "normal_policy p"
  shows "has_permission rep p (Claims u) q \<longleftrightarrow> normalize_identifier q \<in> grants p u \<or> pp_wildcard_permission p \<in> grants p u"
  by (simp add: has_permission_def Let_def built_subject[OF assms])



definition demo_claims :: dict where
  "demo_claims = [(''username'', JStr ''ada''), (''role'', JStr ''Author'')]"

lemma demo_normal [simp]: "normal_policy demo_policy"
  by (simp add: demo_policy_def)

lemma demo_grants: "''posts:write'' \<in> grants demo_policy demo_claims"
proof -
  have "claimed_roles demo_policy demo_claims = [''authenticated'', ''author'']" by code_simp
  moreover have "normalize_identifier_set (map JStr [''authenticated'', ''author'']) = [''authenticated'', ''author'']"
    by code_simp
  ultimately have "set (expand_roles demo_policy (map JStr (claimed_roles demo_policy demo_claims))) =
      set [''authenticated'', ''editor'', ''reader'', ''author'']"
    by (simp add: expand_roles_def demo_inheritance expand_loop.simps dict_get_def insert_commute)
  then have "''editor'' \<in> user_roles demo_policy demo_claims" by (simp add: built_roles)
  moreover have "pp_role_permissions demo_policy = [(''editor'', [''posts:write''])]" by code_simp
  ultimately show ?thesis by (auto simp: grants_def dict_get_def intro!: bexI[of _ "''editor''"])
qed

lemma demo_required: "normalize_identifier ''Posts:Write'' = ''posts:write''" by code_simp


text \<open>Extending a policy adds to every role.\<close>

lemma merge_roles_grows: "set (dict_get m r []) \<subseteq> set (dict_get (merge_roles m n) r [])"
proof (induction m n rule: merge_roles.induct)
  case (2 m role vs rest)
  have "set (dict_get m r []) \<subseteq> set (dict_get (AList.update role (List.union (dict_get m role []) vs) m) r [])" by auto
  with 2 show ?case by auto
qed simp

lemma merged_map_grows: "set (dict_get m r []) \<subseteq> set (dict_get (merged_map m x) r [])"
  by (simp add: merged_map_def merge_roles_grows)

lemma grants_extend:
  assumes "normal_policy p"
  shows "grants p u \<subseteq> grants (extend_policy p x y) u"
proof -
  have "inherits (pp_role_inheritance p) \<subseteq> inherits (merged_map (pp_role_inheritance p) y)"
    using merged_map_grows by (auto simp: inherits_def)
  then have "user_roles p u \<subseteq> user_roles (extend_policy p x y) u"
    by (auto simp: user_roles_def extend_policy_fields[OF assms] set_claimed_roles dest: rtrancl_mono[THEN subsetD])
  then show ?thesis
    using merged_map_grows[of "pp_role_permissions p" _ x] by (auto simp: grants_def extend_policy_fields[OF assms])
qed

text \<open>An extension of a policy only grants: what a user may do under a policy it may do
  under every extension of it, whatever the additional permissions and inheritance edges,
  so composing policies never locks anyone out.\<close>

theorem extension_only_grants:
  assumes "normal_policy p" "has_permission rep p (Claims u) q"
  shows "has_permission rep (extend_policy p role_permissions role_inheritance) (Claims u) q"
  using assms grants_extend[OF assms(1), of u] subjects_normal_extend[OF assms(1)]
  by (auto simp: has_permission_claims extend_policy_fields[OF assms(1)])

theorem extension_only_grants_witness:
  "has_permission (\<lambda>_. []) (extend_policy demo_policy (Some [(JStr ''reader'', [JStr ''posts:read''])]) None)
     (Claims demo_claims) ''Posts:Write''"
  using extension_only_grants[of demo_policy "\<lambda>_. []" demo_claims "''Posts:Write''"] demo_grants
  by (simp add: has_permission_claims demo_required)

section \<open>The default policy\<close>


lemma default_normal [simp]: "normal_policy DEFAULT_PERMISSION_POLICY"
  by (simp add: DEFAULT_PERMISSION_POLICY_def)




end
