(* ===== verification/Timestamps.thy ===== *)
theory Timestamps
  imports Http_Errors
begin

text \<open>
  Timestamps as text: \<open>str(datetime.timestamp())\<close> and its reading by \<open>float\<close>, with the
  round trip between them.
\<close>

text \<open>\<open>datetime.timestamp()\<close> and its text: the shortest decimal of a float with at most six
  decimals (for instants after the first second of the epoch).\<close>

definition timestamp :: "instant \<Rightarrow> rat" where
  "timestamp t = of_int t / 1000000"

fun frac_digits :: "nat \<Rightarrow> nat \<Rightarrow> string" where
  "frac_digits 0 m = []"
| "frac_digits (Suc k) m = (if m = 0 then [] else char_of (48 + m div 10 ^ k) # frac_digits k (m mod 10 ^ k))"

definition show_timestamp :: "instant \<Rightarrow> string" where
  "show_timestamp t = show_int (t div 1000000) @ ''.'' @
     (if t mod 1000000 = 0 then ''0'' else frac_digits 6 (nat (t mod 1000000)))"

lemma digit_value_digit: "m < 10 \<Longrightarrow> digit_value (char_of (48 + m :: nat)) = Some (int m)"
  by (simp add: digit_value_def Let_def)

lemma read_digits_digit: "m < 10 \<Longrightarrow> read_digits acc k (char_of (48 + m :: nat) # cs) = read_digits (10 * acc + int m) (Suc k) cs"
  by (simp add: digit_value_digit)

lemma read_digits_show_nat: "read_digits acc k (show_nat n @ rest) =
    read_digits (acc * 10 ^ length (show_nat n) + int n) (k + length (show_nat n)) rest"
proof (induction n arbitrary: acc k rest rule: show_nat.induct)
  case (1 n)
  show ?case
  proof (cases "n < 10")
    case True
    then show ?thesis by (subst (1 2 3) show_nat.simps) (simp add: read_digits_digit mult.commute del: read_digits.simps)
  next
    case False
    have "n mod 10 < 10" by simp
    from read_digits_digit[OF this] 1[OF False] False show ?thesis
      by (subst (1 2 3) show_nat.simps) (simp add: algebra_simps zdiv_int zmod_int del: read_digits.simps)
  qed
qed

lemma read_digits_frac:
  assumes "m < 10 ^ k"
  shows "\<exists>v j. read_digits acc i (frac_digits k m) = (v, i + j, []) \<and>
     (of_int v / 10 ^ j :: rat) = of_int acc + of_nat m / 10 ^ k \<and> (0 < m \<longrightarrow> 0 < j)"
  using assms
proof (induction k arbitrary: m acc i)
  case (Suc k)
  show ?case
  proof (cases "m = 0")
    case False
    define d r where "d = m div 10 ^ k" and "r = m mod 10 ^ k"
    have d: "d < 10" and r: "r < 10 ^ k" using Suc.prems by (simp_all add: d_def r_def less_mult_imp_div_less)
    obtain v j where ih: "read_digits (10 * acc + int d) (Suc i) (frac_digits k r) = (v, Suc i + j, [])"
      "(of_int v / 10 ^ j :: rat) = of_int (10 * acc + int d) + of_nat r / 10 ^ k"
      using Suc.IH[OF r, of "10 * acc + int d" "Suc i"] by auto
    have "m = d * 10 ^ k + r" by (simp only: d_def r_def div_mult_mod_eq)
    then have m: "of_nat m = (of_nat d * 10 ^ k + of_nat r :: rat)" by simp
    have "(of_int v / 10 ^ Suc j :: rat) = (of_int v / 10 ^ j) / 10" by simp
    also have "\<dots> = of_int acc + of_nat m / 10 ^ Suc k"
      unfolding ih(2) m by (simp add: add_divide_distrib)
    finally have v: "(of_int v / 10 ^ Suc j :: rat) = of_int acc + of_nat m / 10 ^ Suc k" .
    have "read_digits acc i (frac_digits (Suc k) m) = (v, i + Suc j, [])"
      using ih(1) False read_digits_digit[OF d, of acc i "frac_digits k r"]
      by (simp add: d_def r_def del: read_digits.simps)
    with v show ?thesis by blast
  qed simp
qed simp

lemma show_nat_chars: "c \<in> set (show_nat n) \<Longrightarrow> digit_value c \<noteq> None"
proof (induction n rule: show_nat.induct)
  case (1 n)
  then show ?case
    using digit_value_digit[of n] digit_value_digit[of "n mod 10"] by (cases "n < 10") (auto simp: show_nat.simps[of n])
qed

lemma frac_digits_chars: "m < 10 ^ k \<Longrightarrow> c \<in> set (frac_digits k m) \<Longrightarrow> digit_value c \<noteq> None"
proof (induction k arbitrary: m)
  case (Suc k)
  have "m div 10 ^ k < 10" using Suc.prems by (simp add: less_mult_imp_div_less)
  moreover have "m mod 10 ^ k < 10 ^ k" by simp
  ultimately show ?case using digit_value_digit[of "m div 10 ^ k"] Suc.IH[of "m mod 10 ^ k"] Suc.prems by (auto split: if_splits)
qed simp

lemma digit_char: "digit_value c \<noteq> None \<Longrightarrow> \<not> is_py_space c \<and> c \<noteq> CHR ''-'' \<and> c \<noteq> CHR ''+''"
  by (auto simp: is_py_space_def Let_def digit_value_def split: if_splits)

lemma show_nat_not_Nil [simp]: "show_nat n \<noteq> []"
  by (subst show_nat.simps) simp

lemma dropWhile_none: "\<forall>c \<in> set u. \<not> P c \<Longrightarrow> dropWhile P u = u"
  by (cases u) auto

lemma strip_no_space: "\<forall>c \<in> set s. \<not> is_py_space c \<Longrightarrow> py_strip s = s"
  using dropWhile_none[of s is_py_space] dropWhile_none[of "rev s" is_py_space] by (simp add: py_strip_def)

lemma read_sign_show_nat: "read_sign (show_nat n @ r) = (1, show_nat n @ r)"
proof -
  obtain c cs where s: "show_nat n = c # cs" by (cases "show_nat n") auto
  then have "digit_value c \<noteq> None" using show_nat_chars[of c n] by simp
  with digit_char[of c] s show ?thesis by simp
qed

lemma read_timestamp:
  assumes "0 \<le> t"
  shows "py_float (show_timestamp t) = Some (timestamp t)"
proof -
  let ?f = "if t mod 1000000 = 0 then ''0'' else frac_digits 6 (nat (t mod 1000000))" and ?n = "nat (t div 1000000)"
  have s: "show_timestamp t = show_nat ?n @ CHR ''.'' # ?f"
    using assms by (simp add: show_timestamp_def show_int_def pos_imp_zdiv_nonneg_iff)
  have m: "nat (t mod 1000000) < 10 ^ 6" by simp
  have "c \<in> set ?f \<Longrightarrow> \<not> is_py_space c" for c
    using frac_digits_chars[OF m, of c] digit_char[of c] by (auto simp: is_py_space_def split: if_splits)
  then have "c \<in> set (show_timestamp t) \<Longrightarrow> \<not> is_py_space c" for c
    using show_nat_chars[of c ?n] digit_char[of c] unfolding s by (auto simp: is_py_space_def)
  then have strip: "py_strip (show_timestamp t) = show_nat ?n @ CHR ''.'' # ?f"
    using strip_no_space[of "show_timestamp t"] s by metis
  have int: "read_digits 0 0 (show_nat ?n @ CHR ''.'' # ?f) = (int ?n, length (show_nat ?n), CHR ''.'' # ?f)"
    by (subst read_digits_show_nat) (simp add: digit_value_def)
  obtain v j where f: "read_digits 0 0 ?f = (v, j, [])" "(of_int v / 10 ^ j :: rat) = of_int (t mod 1000000) / 1000000"
  proof (cases "t mod 1000000 = 0")
    case True
    then show ?thesis using that[of 0 1] by (simp add: digit_value_def)
  next
    case False
    with read_digits_frac[OF m, of 0 0] show ?thesis using that by auto
  qed
  have "of_int t = (of_int (t div 1000000) * 1000000 + of_int (t mod 1000000) :: rat)"
    by (metis div_mult_mod_eq of_int_add of_int_mult of_int_numeral)
  then have "of_int (t div 1000000) + of_int v / 10 ^ j = timestamp t"
    unfolding f(2) by (simp add: timestamp_def add_divide_distrib)
  then show ?thesis
    using assms by (simp add: py_float_def strip read_sign_show_nat int f(1) read_exponent_def pos_imp_zdiv_nonneg_iff)
qed

end
