(* ===== verification/Redis.thy ===== *)
theory Redis
  imports Timestamps
begin

text \<open>
  The Redis client that the scheduler, the rate limiter and the cache share.  Redis is
  not part of the repository: a client is a record of the commands the code issues, each a
  function of the world \<open>'w\<close> that returns its reply or the exception it raises.

  \<open>redis_contract\<close> collects the documented behaviour that theorems rely on: what the
  commands do to the visible keys.  \<open>look\<close> reads the raw entries of a world (a value and
  the instant at which it expires) and \<open>now\<close> its clock; an entry is visible until it
  expires.  A command that raises may have taken effect or not, its reply being lost.
\<close>

record 'w redis_client =
  rd_set :: "string \<Rightarrow> string \<Rightarrow> bool \<Rightarrow> int option \<Rightarrow> 'w \<Rightarrow> (exn + bool) \<times> 'w"
  rd_get :: "string \<Rightarrow> 'w \<Rightarrow> (exn + string option) \<times> 'w"
  rd_delete :: "string list \<Rightarrow> 'w \<Rightarrow> (exn + int) \<times> 'w"
  rd_incr :: "string \<Rightarrow> 'w \<Rightarrow> (exn + int) \<times> 'w"
  rd_expire :: "string \<Rightarrow> int \<Rightarrow> 'w \<Rightarrow> (exn + bool) \<times> 'w"
  rd_scan :: "int \<Rightarrow> string \<Rightarrow> 'w \<Rightarrow> (exn + int \<times> string list) \<times> 'w"

type_synonym redis_entry = "string \<times> instant option"

definition visible :: "('w \<Rightarrow> instant) \<Rightarrow> ('w \<Rightarrow> string \<Rightarrow> redis_entry option) \<Rightarrow> 'w \<Rightarrow> string \<Rightarrow> string option" where
  "visible now look w k =
     (case look w k of
        None \<Rightarrow> None
      | Some (v, None) \<Rightarrow> Some v
      | Some (v, Some e) \<Rightarrow> if now w < e then Some v else None)"

text \<open>\<open>SET key value NX EX n\<close> (refused when \<open>n\<close> is not positive), \<open>GET\<close>, \<open>DEL\<close>.\<close>

definition set_nx_contract :: "('w \<Rightarrow> instant) \<Rightarrow> ('w \<Rightarrow> string \<Rightarrow> redis_entry option) \<Rightarrow> 'w redis_client \<Rightarrow> bool" where
  "set_nx_contract now look r \<longleftrightarrow> (\<forall>k v ex w. case rd_set r k v True (Some ex) w of (reply, w') \<Rightarrow>
     now w' = now w \<and> (ex \<le> 0 \<longrightarrow> \<not> is_ok reply) \<and>
     (let done = look w' = (look w)(k \<mapsto> (v, Some (now w + seconds ex))) \<and> visible now look w k = None \<and> 0 < ex
      in case reply of
           Inr True \<Rightarrow> done
         | Inr False \<Rightarrow> look w' = look w \<and> visible now look w k \<noteq> None
         | Inl e \<Rightarrow> done \<or> look w' = look w))"

definition set_contract :: "('w \<Rightarrow> instant) \<Rightarrow> ('w \<Rightarrow> string \<Rightarrow> redis_entry option) \<Rightarrow> 'w redis_client \<Rightarrow> bool" where
  "set_contract now look r \<longleftrightarrow> (\<forall>k v ex w. case rd_set r k v False (Some ex) w of (reply, w') \<Rightarrow>
     now w' = now w \<and>
     (let done = look w' = (look w)(k \<mapsto> (v, Some (now w + seconds ex)))
      in case reply of Inr b \<Rightarrow> done | Inl e \<Rightarrow> done \<or> look w' = look w))"

definition get_contract :: "('w \<Rightarrow> instant) \<Rightarrow> ('w \<Rightarrow> string \<Rightarrow> redis_entry option) \<Rightarrow> 'w redis_client \<Rightarrow> bool" where
  "get_contract now look r \<longleftrightarrow> (\<forall>k w. case rd_get r k w of (reply, w') \<Rightarrow>
     now w' = now w \<and> look w' = look w \<and> (case reply of Inr v \<Rightarrow> v = visible now look w k | Inl e \<Rightarrow> True))"

definition delete_contract :: "('w \<Rightarrow> instant) \<Rightarrow> ('w \<Rightarrow> string \<Rightarrow> redis_entry option) \<Rightarrow> 'w redis_client \<Rightarrow> bool" where
  "delete_contract now look r \<longleftrightarrow> (\<forall>ks w. case rd_delete r ks w of (reply, w') \<Rightarrow>
     now w' = now w \<and>
     (let done = look w' = (\<lambda>k. if k \<in> set ks then None else look w k)
      in case reply of Inr n \<Rightarrow> done | Inl e \<Rightarrow> done \<or> look w' = look w))"

text \<open>\<open>INCR\<close> counts a key from nothing, without an expiry, or onwards, keeping the expiry it
  has; \<open>EXPIRE\<close> sets the expiry of a key that is visible.\<close>

definition counted :: "('w \<Rightarrow> instant) \<Rightarrow> ('w \<Rightarrow> string \<Rightarrow> redis_entry option) \<Rightarrow> string \<Rightarrow> 'w \<Rightarrow> int \<Rightarrow> 'w \<Rightarrow> bool" where
  "counted now look k w n w' \<longleftrightarrow>
     (visible now look w k = None \<longrightarrow> n = 1 \<and> look w' = (look w)(k \<mapsto> (show_int 1, None))) \<and>
     (\<forall>m e. look w k = Some (show_int m, e) \<and> visible now look w k = Some (show_int m) \<longrightarrow>
        n = m + 1 \<and> look w' = (look w)(k \<mapsto> (show_int (m + 1), e)))"

definition incr_contract :: "('w \<Rightarrow> instant) \<Rightarrow> ('w \<Rightarrow> string \<Rightarrow> redis_entry option) \<Rightarrow> 'w redis_client \<Rightarrow> bool" where
  "incr_contract now look r \<longleftrightarrow> (\<forall>k w. case rd_incr r k w of (reply, w') \<Rightarrow>
     now w' = now w \<and>
     (case reply of Inr n \<Rightarrow> counted now look k w n w'
        | Inl e \<Rightarrow> look w' = look w \<or> (\<exists>n. counted now look k w n w')))"

definition expire_contract :: "('w \<Rightarrow> instant) \<Rightarrow> ('w \<Rightarrow> string \<Rightarrow> redis_entry option) \<Rightarrow> 'w redis_client \<Rightarrow> bool" where
  "expire_contract now look r \<longleftrightarrow> (\<forall>k n w. case rd_expire r k n w of (reply, w') \<Rightarrow>
     now w' = now w \<and> (\<forall>k'. k' \<noteq> k \<longrightarrow> look w' k' = look w k') \<and>
     (\<forall>v e. look w' k = Some (v, e) \<longrightarrow> (\<exists>e'. look w k = Some (v, e'))) \<and>
     (\<forall>v e. look w k = Some (v, e) \<and> visible now look w k = Some v \<and> 0 < n \<longrightarrow>
        (let done = look w' = (look w)(k \<mapsto> (v, Some (now w + seconds n)))
         in case reply of Inr b \<Rightarrow> done | Inl e \<Rightarrow> done \<or> look w' = look w)))"

text \<open>\<open>SET key value\<close> without options drops the expiry of the key.\<close>

definition put_contract :: "('w \<Rightarrow> instant) \<Rightarrow> ('w \<Rightarrow> string \<Rightarrow> redis_entry option) \<Rightarrow> 'w redis_client \<Rightarrow> bool" where
  "put_contract now look r \<longleftrightarrow> (\<forall>k v w. case rd_set r k v False None w of (reply, w') \<Rightarrow>
     now w' = now w \<and>
     (let done = look w' = (look w)(k \<mapsto> (v, None))
      in case reply of Inr b \<Rightarrow> done | Inl e \<Rightarrow> done \<or> look w' = look w))"

definition redis_contract :: "('w \<Rightarrow> instant) \<Rightarrow> ('w \<Rightarrow> string \<Rightarrow> redis_entry option) \<Rightarrow> 'w redis_client \<Rightarrow> bool" where
  "redis_contract now look r \<longleftrightarrow>
     set_nx_contract now look r \<and> set_contract now look r \<and> get_contract now look r \<and> delete_contract now look r"

text \<open>The contract in the form in which proofs use it.\<close>

lemma redis_contractD:
  assumes "redis_contract now look r"
  shows "set_nx_contract now look r" "set_contract now look r" "get_contract now look r" "delete_contract now look r"
  using assms by (simp_all add: redis_contract_def)

lemmas set_nx_spec = redis_contractD(1)[unfolded set_nx_contract_def]
lemmas set_spec = redis_contractD(2)[unfolded set_contract_def]
lemmas get_spec = redis_contractD(3)[unfolded get_contract_def]
lemmas delete_spec = redis_contractD(4)[unfolded delete_contract_def]

lemma set_nx_True:
  assumes "redis_contract now look r" "rd_set r k v True (Some ex) w = (Inr True, w')"
  shows "now w' = now w" "look w' = (look w)(k \<mapsto> (v, Some (now w + seconds ex)))" "visible now look w k = None" "0 < ex"
  using set_nx_spec[OF assms(1), THEN spec[of _ k], THEN spec[of _ v], THEN spec[of _ ex], THEN spec[of _ w]] assms(2) by (auto simp: Let_def split: sum.splits)

lemma set_nx_False:
  assumes "redis_contract now look r" "rd_set r k v True (Some ex) w = (Inr False, w')"
  shows "now w' = now w" "look w' = look w" "visible now look w k \<noteq> None"
  using set_nx_spec[OF assms(1), THEN spec[of _ k], THEN spec[of _ v], THEN spec[of _ ex], THEN spec[of _ w]] assms(2) by (auto simp: Let_def split: sum.splits)

lemma set_nx_error:
  assumes "redis_contract now look r" "rd_set r k v True (Some ex) w = (Inl e, w')"
  shows "now w' = now w" "look w' = look w \<or>
     look w' = (look w)(k \<mapsto> (v, Some (now w + seconds ex))) \<and> visible now look w k = None \<and> 0 < ex"
  using set_nx_spec[OF assms(1), THEN spec[of _ k], THEN spec[of _ v], THEN spec[of _ ex], THEN spec[of _ w]] assms(2) by (auto simp: Let_def split: sum.splits)

lemma set_nx_nonpositive:
  assumes "redis_contract now look r" "ex \<le> 0"
  shows "\<exists>e w'. rd_set r k v True (Some ex) w = (Inl e, w')"
proof -
  obtain reply w' where c: "rd_set r k v True (Some ex) w = (reply, w')" by (cases "rd_set r k v True (Some ex) w")
  with set_nx_spec[OF assms(1), THEN spec[of _ k], THEN spec[of _ v], THEN spec[of _ ex], THEN spec[of _ w]] assms(2) have "\<not> is_ok reply" by simp
  with c show ?thesis by (cases reply) auto
qed

lemma set_plain:
  assumes "redis_contract now look r" "rd_set r k v False (Some ex) w = (reply, w')"
  shows "now w' = now w" "k' \<noteq> k \<Longrightarrow> look w' k' = look w k'"
    and "reply = Inr b \<Longrightarrow> look w' k = Some (v, Some (now w + seconds ex))"
  using set_spec[OF assms(1), THEN spec[of _ k], THEN spec[of _ v], THEN spec[of _ ex], THEN spec[of _ w]] assms(2) by (auto simp: Let_def split: sum.splits)

lemma get_reply:
  assumes "redis_contract now look r" "rd_get r k w = (reply, w')"
  shows "now w' = now w" "look w' = look w" "reply = Inr v \<Longrightarrow> v = visible now look w k"
  using get_spec[OF assms(1), THEN spec[of _ k], THEN spec[of _ w]] assms(2) by (auto simp: Let_def split: sum.splits)

lemma delete_reply:
  assumes "redis_contract now look r" "rd_delete r ks w = (reply, w')"
  shows "now w' = now w" "k' \<notin> set ks \<Longrightarrow> look w' k' = look w k'"
    and "k' \<in> set ks \<Longrightarrow> look w' k' = None \<or> look w' k' = look w k'"
    and "reply = Inr n \<Longrightarrow> k' \<in> set ks \<Longrightarrow> look w' k' = None"
  using delete_spec[OF assms(1), THEN spec[of _ ks], THEN spec[of _ w]] assms(2) by (auto simp: Let_def split: sum.splits)

lemma incr_reply:
  assumes "incr_contract now look r" "rd_incr r k w = (reply, w')"
  shows "now w' = now w" "reply = Inr n \<Longrightarrow> counted now look k w n w'"
    and "reply = Inl e \<Longrightarrow> look w' = look w \<or> (\<exists>n. counted now look k w n w')"
  using assms(1)[unfolded incr_contract_def, THEN spec[of _ k], THEN spec[of _ w]] assms(2) by auto

lemma expire_reply:
  assumes "expire_contract now look r" "rd_expire r k n w = (reply, w')"
  shows "now w' = now w" "k' \<noteq> k \<Longrightarrow> look w' k' = look w k'"
    and "look w' k = Some (v', e') \<Longrightarrow> \<exists>e. look w k = Some (v', e)"
    and "look w k = Some (v, e) \<Longrightarrow> visible now look w k = Some v \<Longrightarrow> 0 < n \<Longrightarrow>
      look w' = (look w)(k \<mapsto> (v, Some (now w + seconds n))) \<or> (\<exists>x. reply = Inl x) \<and> look w' = look w"
proof -
  note c = assms(1)[unfolded expire_contract_def, THEN spec[of _ k], THEN spec[of _ n], THEN spec[of _ w], unfolded assms(2) prod.case]
  note frame = conjunct2[OF c, THEN conjunct1] and keep = conjunct2[OF c, THEN conjunct2, THEN conjunct1]
    and eff = conjunct2[OF c, THEN conjunct2, THEN conjunct2]
  show "now w' = now w" by (rule conjunct1[OF c])
  show "k' \<noteq> k \<Longrightarrow> look w' k' = look w k'" by (rule frame[rule_format])
  show "look w' k = Some (v', e') \<Longrightarrow> \<exists>e. look w k = Some (v', e)" by (rule keep[rule_format])
  show "look w k = Some (v, e) \<Longrightarrow> visible now look w k = Some v \<Longrightarrow> 0 < n \<Longrightarrow>
      look w' = (look w)(k \<mapsto> (v, Some (now w + seconds n))) \<or> (\<exists>x. reply = Inl x) \<and> look w' = look w"
    using eff[THEN spec[of _ v], THEN spec[of _ e]] by (cases reply) (simp_all add: Let_def)
qed

lemma put_reply:
  assumes "put_contract now look r" "rd_set r k v False None w = (reply, w')"
  shows "now w' = now w" "k' \<noteq> k \<Longrightarrow> look w' k' = look w k'"
    and "look w' k = Some (v, None) \<or> (\<exists>e. reply = Inl e) \<and> look w' k = look w k"
  using assms(1)[unfolded put_contract_def, THEN spec[of _ k], THEN spec[of _ v], THEN spec[of _ w]] assms(2)
  by (auto simp: Let_def split: sum.splits)

lemma visible_cong: "now w' = now w \<Longrightarrow> look w' k = look w k \<Longrightarrow> visible now look w' k = visible now look w k"
  by (simp add: visible_def split: option.split)

lemma visible_None [simp]: "look w k = None \<Longrightarrow> visible now look w k = None"
  by (simp add: visible_def)

text \<open>A store that keeps the contract: association lists and a clock.\<close>

record toy_redis =
  ty_now :: instant
  ty_rows :: "(string \<times> redis_entry) list"

definition toy_look :: "toy_redis \<Rightarrow> string \<Rightarrow> redis_entry option" where
  "toy_look w = map_of (ty_rows w)"

definition toy_count :: "string \<Rightarrow> int" where
  "toy_count v = the (py_int v)"

definition toy_client :: "toy_redis redis_client" where
  "toy_client =
     \<lparr> rd_set = (\<lambda>k v nx ex w.
         let e = map_option (\<lambda>n. ty_now w + seconds n) ex;
             w' = w\<lparr> ty_rows := (k, (v, e)) # ty_rows w \<rparr>
         in if nx \<and> ex \<noteq> None \<and> the ex \<le> 0 then (Inl \<lparr> exn_message = ''invalid expire time'', exn_code = None \<rparr>, w)
            else if nx \<and> visible ty_now toy_look w k \<noteq> None then (Inr False, w) else (Inr True, w')),
       rd_get = (\<lambda>k w. (Inr (visible ty_now toy_look w k), w)),
       rd_delete = (\<lambda>ks w. (Inr (int (length ks)), w\<lparr> ty_rows := filter (\<lambda>row. fst row \<notin> set ks) (ty_rows w) \<rparr>)),
       rd_incr = (\<lambda>k w. case visible ty_now toy_look w k of
           None \<Rightarrow> (Inr 1, w\<lparr> ty_rows := (k, (show_int 1, None)) # ty_rows w \<rparr>)
         | Some v \<Rightarrow> (Inr (toy_count v + 1),
               w\<lparr> ty_rows := (k, (show_int (toy_count v + 1), snd (the (toy_look w k)))) # ty_rows w \<rparr>)),
       rd_expire = (\<lambda>k n w. case toy_look w k of
           None \<Rightarrow> (Inr False, w)
         | Some (v, e) \<Rightarrow> (Inr True, w\<lparr> ty_rows := (k, (v, Some (ty_now w + seconds n))) # ty_rows w \<rparr>)),
       rd_scan = (\<lambda>c p w. (Inr (0, []), w)) \<rparr>"

lemma map_of_filter_keys: "map_of (filter (\<lambda>row. fst row \<notin> A) xs) k = (if k \<in> A then None else map_of xs k)"
  by (induction xs) auto

lemma toy_contract: "redis_contract ty_now toy_look toy_client"
  by (auto simp: redis_contract_def set_nx_contract_def set_contract_def get_contract_def delete_contract_def
      toy_client_def toy_look_def Let_def map_of_filter_keys fun_eq_iff)

text \<open>Its counters: the text of a number reads back.\<close>

lemma read_digits_show_all: "read_digits 0 0 (show_nat n) = (int n, length (show_nat n), [])"
  using read_digits_show_nat[of 0 0 n "[]"] by simp

lemma show_nat_strip: "py_strip (show_nat n) = show_nat n"
  using show_nat_chars[of _ n] digit_char by (intro strip_no_space) blast

lemma show_int_strip: "py_strip (show_int i) = show_int i"
proof -
  have "c \<in> set (show_nat n) \<Longrightarrow> \<not> is_py_space c" for c n using show_nat_chars[of c n] digit_char by blast
  then show ?thesis by (intro strip_no_space) (auto simp: show_int_def is_py_space_def)
qed

lemma py_int_show_int [simp]: "py_int (show_int i) = Some i"
proof (cases "i < 0")
  case True
  then have "show_int i = CHR ''-'' # show_nat (nat (- i))" by (simp add: show_int_def)
  then show ?thesis using True show_int_strip[of i] by (simp add: py_int_def read_digits_show_all)
next
  case False
  then have "show_int i = show_nat (nat i)" by (simp add: show_int_def)
  then show ?thesis
    using False show_int_strip[of i] read_sign_show_nat[of "nat i" "[]"] by (simp add: py_int_def read_digits_show_all)
qed

lemma show_int_eq_iff [simp]: "show_int i = show_int j \<longleftrightarrow> i = j"
  by (metis py_int_show_int option.inject)

lemma toy_incr_contract: "incr_contract ty_now toy_look toy_client"
  by (auto simp: incr_contract_def counted_def toy_client_def toy_look_def toy_count_def fun_eq_iff split: option.split)

lemma toy_put_contract: "put_contract ty_now toy_look toy_client"
  by (auto simp: put_contract_def toy_client_def toy_look_def fun_eq_iff)

lemma toy_expire_contract: "expire_contract ty_now toy_look toy_client"
  by (auto simp: expire_contract_def toy_client_def toy_look_def fun_eq_iff split: option.split)

end
