(* ===== verification/Scheduler.thy ===== *)
theory Scheduler
  imports Jobs Timestamps Redis
begin

text \<open>
  core/worker/scheduler.py: cron schedules, scheduled jobs, and the wrapper that runs one
  execution under a Redis lock and a drift guard.  A job class is a record; its \<open>run\<close> and
  its alert hooks are functions of the world \<open>'w\<close>, on which the Redis client acts too.  The
  instant \<open>scheduled_at\<close>, the completion instant and the readings of the monotonic clock
  are arguments; \<open>str\<close> of a timestamp is that of a float with six decimals.
\<close>

section \<open>Schedules\<close>

datatype cron_field = Wildcard | Single int | Several "int list"

record cron_schedule =
  cs_second :: cron_field
  cs_minute :: cron_field
  cs_hour :: cron_field
  cs_day :: cron_field
  cs_month :: cron_field
  cs_weekday :: cron_field

fun normalize_cron :: "cron_field \<Rightarrow> int list option" where
  "normalize_cron Wildcard = None"
| "normalize_cron (Single i) = Some [i]"
| "normalize_cron (Several is) = Some is"

section \<open>Jobs and their registry\<close>

record 'w scheduled_job =
  sj_class_name :: string
  sj_job_name :: string
  sj_schedule :: "cron_schedule option"
  sj_run_at_startup :: bool
  sj_unique :: bool
  sj_timeout_seconds :: rat
  sj_max_tries :: int
  sj_keep_result_seconds :: rat
  sj_lock_ttl_seconds :: "rat option"
  sj_clock_drift_tolerance_seconds :: "rat option"
  sj_alert_hooks :: "(job_failure_notice \<Rightarrow> 'w \<Rightarrow> exn option \<times> 'w) list"
  sj_run :: "'w \<Rightarrow> (exn + json) \<times> 'w"

text \<open>The arguments of \<open>cron()\<close>; a missing attribute raises.\<close>

record cron_call =
  cc_name :: string
  cc_second :: "int list option"
  cc_minute :: "int list option"
  cc_hour :: "int list option"
  cc_day :: "int list option"
  cc_month :: "int list option"
  cc_weekday :: "int list option"
  cc_run_at_startup :: bool
  cc_unique :: bool
  cc_timeout :: int
  cc_max_tries :: int
  cc_keep_result :: rat

definition py_trunc :: "rat \<Rightarrow> int" where
  "py_trunc q = (if 0 \<le> q then \<lfloor>q\<rfloor> else \<lceil>q\<rceil>)"

definition cron_job :: "'w scheduled_job \<Rightarrow> cron_call option" where
  "cron_job j = map_option (\<lambda>s.
     \<lparr> cc_name = sj_job_name j, cc_second = normalize_cron (cs_second s), cc_minute = normalize_cron (cs_minute s),
       cc_hour = normalize_cron (cs_hour s), cc_day = normalize_cron (cs_day s), cc_month = normalize_cron (cs_month s),
       cc_weekday = normalize_cron (cs_weekday s), cc_run_at_startup = sj_run_at_startup j, cc_unique = sj_unique j,
       cc_timeout = py_trunc (sj_timeout_seconds j), cc_max_tries = sj_max_tries j,
       cc_keep_result = sj_keep_result_seconds j \<rparr>) (sj_schedule j)"

type_synonym 'w job_registry = "(string \<times> 'w scheduled_job) list"

definition store_job :: "'w job_registry \<Rightarrow> 'w scheduled_job \<Rightarrow> 'w job_registry" where
  "store_job reg j = AList.update (sj_job_name j) j reg"

definition register_scheduled_job :: "'w job_registry \<Rightarrow> 'w scheduled_job \<Rightarrow> string + 'w job_registry" where
  "register_scheduled_job reg j =
     (if sj_job_name j = []
      then Inl (''ScheduledJob class '' @ sj_class_name j @ '' must define a non-empty job_name'')
      else if sj_schedule j = None then Inl (''ScheduledJob class '' @ sj_class_name j @ '' must define a schedule'')
      else Inr (store_job reg j))"

definition get_scheduled_job :: "'w job_registry \<Rightarrow> string \<Rightarrow> 'w scheduled_job option" where
  "get_scheduled_job reg name = map_of reg name"

definition build_cron_jobs :: "'w job_registry \<Rightarrow> cron_call option list" where
  "build_cron_jobs reg = map (cron_job \<circ> snd) reg"

interpretation scheduled: keyed_table store_job get_scheduled_job sj_job_name
  by unfold_locales (auto simp: store_job_def get_scheduled_job_def)

section \<open>The context of an execution\<close>

text \<open>The Redis client of the context, if any, and the lock TTL and drift tolerance of its
  settings, when they are a \<open>SettingsProfile\<close>.\<close>

record 'w scheduler_context =
  sc_redis :: "'w redis_client option"
  sc_settings :: "(rat \<times> rat) option"

definition resolved_lock_ttl :: "'w scheduler_context \<Rightarrow> 'w scheduled_job \<Rightarrow> rat" where
  "resolved_lock_ttl cx j =
     (case sj_lock_ttl_seconds j of Some ttl \<Rightarrow> ttl
      | None \<Rightarrow> (case sc_settings cx of Some s \<Rightarrow> fst s | None \<Rightarrow> 300))"

definition resolved_clock_drift_tolerance :: "'w scheduler_context \<Rightarrow> 'w scheduled_job \<Rightarrow> rat" where
  "resolved_clock_drift_tolerance cx j =
     (case sj_clock_drift_tolerance_seconds j of Some t \<Rightarrow> t
      | None \<Rightarrow> (case sc_settings cx of Some s \<Rightarrow> snd s | None \<Rightarrow> 10))"

definition lock_key :: "'w scheduled_job \<Rightarrow> string" where
  "lock_key j = ''scheduler:lock:'' @ sj_job_name j"

definition last_run_key :: "'w scheduled_job \<Rightarrow> string" where
  "last_run_key j = ''scheduler:last_run:'' @ sj_job_name j"

section \<open>Results\<close>

record scheduled_job_result =
  sr_status :: string
  sr_job_name :: string
  sr_scheduled_at :: string
  sr_completed_at :: "string option"
  sr_duration_seconds :: "rat option"
  sr_error_message :: "string option"
  sr_metadata :: dict

definition opt_json :: "('a \<Rightarrow> json) \<Rightarrow> 'a option \<Rightarrow> json" where
  "opt_json f x = (case x of None \<Rightarrow> JNull | Some v \<Rightarrow> f v)"

definition result_to_dict :: "scheduled_job_result \<Rightarrow> dict" where
  "result_to_dict r =
     [(''status'', JStr (sr_status r)), (''job_name'', JStr (sr_job_name r)), (''scheduled_at'', JStr (sr_scheduled_at r)),
      (''completed_at'', opt_json JStr (sr_completed_at r)), (''duration_seconds'', opt_json JFloat (sr_duration_seconds r)),
      (''error_message'', opt_json JStr (sr_error_message r)), (''metadata'', JDict (sr_metadata r))]"

definition skipped_result :: "string \<Rightarrow> 'w scheduled_job \<Rightarrow> instant \<Rightarrow> scheduled_job_result" where
  "skipped_result status j t =
     \<lparr> sr_status = status, sr_job_name = sj_job_name j, sr_scheduled_at = isoformat t, sr_completed_at = None,
       sr_duration_seconds = None, sr_error_message = None, sr_metadata = [] \<rparr>"

text \<open>\<open>round(x, 3)\<close>: to the nearest thousandth, ties to the even one.\<close>

definition round3 :: "rat \<Rightarrow> rat" where
  "round3 q = of_int (round_half_even (q * 1000)) / 1000"

definition ok_result :: "'w scheduled_job \<Rightarrow> instant \<Rightarrow> instant \<Rightarrow> rat \<Rightarrow> json \<Rightarrow> scheduled_job_result" where
  "ok_result j t completed duration v =
     \<lparr> sr_status = ''ok'', sr_job_name = sj_job_name j, sr_scheduled_at = isoformat t,
       sr_completed_at = Some (isoformat completed), sr_duration_seconds = Some (round3 duration),
       sr_error_message = None, sr_metadata = (case v of JDict d \<Rightarrow> d | _ \<Rightarrow> []) \<rparr>"

section \<open>The wrapper\<close>

text \<open>Release is best effort: an exception of the client is dropped.\<close>

definition release_lock :: "'w redis_client \<Rightarrow> 'w scheduled_job \<Rightarrow> bool \<Rightarrow> 'w \<Rightarrow> 'w" where
  "release_lock r j acquired w = (if acquired then snd (rd_delete r [lock_key j] w) else w)"

text \<open>\<open>None\<close>: no lock is wanted; otherwise whether it was acquired.\<close>

definition acquire_lock :: "'w scheduler_context \<Rightarrow> 'w scheduled_job \<Rightarrow> 'w \<Rightarrow> (exn + bool option) \<times> 'w" where
  "acquire_lock cx j w =
     (case sc_redis cx of
        None \<Rightarrow> (Inr None, w)
      | Some r \<Rightarrow>
          if 0 < resolved_lock_ttl cx j
          then (case rd_set r (lock_key j) ''1'' True (Some (py_trunc (resolved_lock_ttl cx j))) w of
                  (Inl e, w') \<Rightarrow> (Inl e, w')
                | (Inr b, w') \<Rightarrow> (Inr (Some b), w'))
          else (Inr None, w))"

text \<open>Whether the execution is skipped because the last one started less than the
  tolerance ago; otherwise its own start is recorded.  Exceptions of the client leave the
  wrapper from here, before the \<open>try\<close> whose \<open>finally\<close> releases the lock.\<close>

definition drift_guard ::
  "'w scheduler_context \<Rightarrow> 'w scheduled_job \<Rightarrow> instant \<Rightarrow> bool \<Rightarrow> 'w \<Rightarrow> (exn + bool) \<times> 'w" where
  "drift_guard cx j t acquired w =
     (case sc_redis cx of
        None \<Rightarrow> (Inr False, w)
      | Some r \<Rightarrow>
          if \<not> 0 < resolved_clock_drift_tolerance cx j then (Inr False, w)
          else (case rd_get r (last_run_key j) w of
                  (Inl e, w1) \<Rightarrow> (Inl e, w1)
                | (Inr raw, w1) \<Rightarrow>
                    (let skip = (case Option.bind raw py_float of
                                     Some ts \<Rightarrow> timestamp t - ts < resolved_clock_drift_tolerance cx j
                                   | None \<Rightarrow> False)
                     in if skip then (Inr True, release_lock r j acquired w1)
                      else (case rd_set r (last_run_key j) (show_timestamp t) False (Some 86400) w1 of
                              (Inl e, w2) \<Rightarrow> (Inl e, w2)
                            | (Inr _, w2) \<Rightarrow> (Inr False, w2)))))"

datatype begin_outcome = Skipped_Duplicate | Skipped_Clock_Drift | Running bool

definition begin_run :: "'w scheduler_context \<Rightarrow> 'w scheduled_job \<Rightarrow> instant \<Rightarrow> 'w \<Rightarrow> (exn + begin_outcome) \<times> 'w" where
  "begin_run cx j t w =
     (case acquire_lock cx j w of
        (Inl e, w1) \<Rightarrow> (Inl e, w1)
      | (Inr got, w1) \<Rightarrow>
          if got = Some False then (Inr Skipped_Duplicate, w1)
          else (case drift_guard cx j t (got = Some True) w1 of
                  (Inl e, w2) \<Rightarrow> (Inl e, w2)
                | (Inr True, w2) \<Rightarrow> (Inr Skipped_Clock_Drift, w2)
                | (Inr False, w2) \<Rightarrow> (Inr (Running (got = Some True)), w2)))"

definition finish_run :: "'w scheduler_context \<Rightarrow> 'w scheduled_job \<Rightarrow> bool \<Rightarrow> 'w \<Rightarrow> 'w" where
  "finish_run cx j acquired w = (case sc_redis cx of None \<Rightarrow> w | Some r \<Rightarrow> release_lock r j acquired w)"

definition scheduled_failure_notice :: "'w scheduled_job \<Rightarrow> string \<Rightarrow> job_failure_notice" where
  "scheduled_failure_notice j error_message =
     \<lparr> jf_job_name = sj_job_name j, jf_envelope_data = [], jf_attempt = 1, jf_max_attempts = sj_max_tries j,
       jf_error_category = None, jf_error_message = error_message, jf_is_final_attempt = True \<rparr>"

definition execute_wrapper ::
  "'w scheduler_context \<Rightarrow> 'w scheduled_job \<Rightarrow> instant \<Rightarrow> instant \<Rightarrow> rat \<Rightarrow> 'w \<Rightarrow> (exn + dict) \<times> 'w" where
  "execute_wrapper cx j t completed duration w =
     (case begin_run cx j t w of
        (Inl e, w1) \<Rightarrow> (Inl e, w1)
      | (Inr Skipped_Duplicate, w1) \<Rightarrow> (Inr (result_to_dict (skipped_result ''skipped_duplicate'' j t)), w1)
      | (Inr Skipped_Clock_Drift, w1) \<Rightarrow> (Inr (result_to_dict (skipped_result ''skipped_clock_drift'' j t)), w1)
      | (Inr (Running acquired), w1) \<Rightarrow>
          (case sj_run j w1 of
             (Inr v, w2) \<Rightarrow> (Inr (result_to_dict (ok_result j t completed duration v)), finish_run cx j acquired w2)
           | (Inl e, w2) \<Rightarrow>
               (Inl e, finish_run cx j acquired
                         (fire_alert_hooks (sj_alert_hooks j) (scheduled_failure_notice j (exn_message e)) w2))))"

section \<open>The placeholder jobs\<close>

definition placeholder_job :: "string \<Rightarrow> string \<Rightarrow> int \<Rightarrow> int \<Rightarrow> rat \<Rightarrow> string \<Rightarrow>
    (job_failure_notice \<Rightarrow> 'w \<Rightarrow> exn option \<times> 'w) list \<Rightarrow> 'w scheduled_job" where
  "placeholder_job cls name hour minute timeout note hooks =
     \<lparr> sj_class_name = cls, sj_job_name = name,
       sj_schedule = Some \<lparr> cs_second = Single 0, cs_minute = Single minute, cs_hour = Single hour, cs_day = Wildcard,
                            cs_month = Wildcard, cs_weekday = Wildcard \<rparr>,
       sj_run_at_startup = False, sj_unique = True, sj_timeout_seconds = timeout, sj_max_tries = 1,
       sj_keep_result_seconds = 3600, sj_lock_ttl_seconds = None, sj_clock_drift_tolerance_seconds = None,
       sj_alert_hooks = hooks,
       sj_run = (\<lambda>w. (Inr (JDict [(''status'', JStr ''placeholder''), (''note'', JStr note)]), w)) \<rparr>"

definition TokenBlacklistCleanupJob where
  "TokenBlacklistCleanupJob = placeholder_job ''TokenBlacklistCleanupJob'' ''platform.scheduled.token_blacklist_cleanup''
     3 0 120 ''Replace with actual cleanup logic''"

definition WebhookEventRetentionJob where
  "WebhookEventRetentionJob = placeholder_job ''WebhookEventRetentionJob'' ''platform.scheduled.webhook_event_retention''
     4 0 300 ''Replace with actual retention logic''"

definition DeadLetterRetentionJob where
  "DeadLetterRetentionJob = placeholder_job ''DeadLetterRetentionJob'' ''platform.scheduled.dead_letter_retention''
     4 30 300 ''Replace with actual retention logic''"

end
