(* ===== verification/Scheduler_Theorems.thy ===== *)
theory Scheduler_Theorems
  imports Scheduler
begin

text \<open>
  Scheduled jobs on several workers.  \<open>sched_reach\<close> is the set of states that any number of
  workers reach by beginning, finishing or dying in the middle of an execution of one
  job, while time passes and other commands touch other keys; a state is a world and the
  map from a worker to the instant at which its execution took the lock.  The theorems
  hold for every Redis client that keeps \<open>redis_contract\<close>; the two phases of an
  execution (lock and drift guard, release) are atomic steps.
\<close>

lemma keys_differ [simp]: "lock_key j \<noteq> last_run_key j" "last_run_key j \<noteq> lock_key j"
  by (simp_all add: lock_key_def last_run_key_def)

definition ttl_of :: "'w scheduler_context \<Rightarrow> 'w scheduled_job \<Rightarrow> int" where
  "ttl_of cx j = seconds (py_trunc (resolved_lock_ttl cx j))"

section \<open>One begin and one finish\<close>

text \<open>What beginning does to the lock, by its outcome.\<close>

definition took_lock :: "('w \<Rightarrow> instant) \<Rightarrow> ('w \<Rightarrow> string \<Rightarrow> redis_entry option) \<Rightarrow> 'w scheduler_context \<Rightarrow>
    'w scheduled_job \<Rightarrow> 'w \<Rightarrow> 'w \<Rightarrow> bool" where
  "took_lock now look cx j w w' \<longleftrightarrow> visible now look w (lock_key j) = None \<and>
     look w' (lock_key j) = Some (''1'', Some (now w + ttl_of cx j)) \<and> 0 < ttl_of cx j"

lemma drift_guard_lock:
  assumes c: "redis_contract now look r" and r: "sc_redis cx = Some r"
    and d: "drift_guard cx j t acquired w = (res, w')"
  shows "now w' = now w" "res \<noteq> Inr True \<Longrightarrow> look w' (lock_key j) = look w (lock_key j)"
    and "res = Inr True \<Longrightarrow> look w' (lock_key j) = look w (lock_key j) \<or> acquired \<and> look w' (lock_key j) = None"
proof -
  note defs = drift_guard_def r release_lock_def Let_def
  have "now w' = now w \<and> (res \<noteq> Inr True \<longrightarrow> look w' (lock_key j) = look w (lock_key j)) \<and>
     (res = Inr True \<longrightarrow> look w' (lock_key j) = look w (lock_key j) \<or> acquired \<and> look w' (lock_key j) = None)"
  proof (cases "0 < resolved_clock_drift_tolerance cx j")
    case True
    obtain reply w1 where g: "rd_get r (last_run_key j) w = (reply, w1)" by force
    note G = get_reply(1,2)[OF c g]
    obtain n w2 where x: "rd_delete r [lock_key j] w1 = (n, w2)" by force
    note X = delete_reply(1,3)[OF c x]
    obtain b w3 where s: "rd_set r (last_run_key j) (show_timestamp t) False (Some 86400) w1 = (b, w3)" by force
    note S = set_plain(1,2)[OF c s]
    show ?thesis
      using d True g x s G X S
      by (cases reply; cases b) (auto simp: defs split: if_splits)
  qed (use d in \<open>simp add: defs\<close>)
  then show "now w' = now w" "res \<noteq> Inr True \<Longrightarrow> look w' (lock_key j) = look w (lock_key j)"
    "res = Inr True \<Longrightarrow> look w' (lock_key j) = look w (lock_key j) \<or> acquired \<and> look w' (lock_key j) = None"
    by auto
qed

lemma begin_run_lock:
  assumes c: "redis_contract now look r" and r: "sc_redis cx = Some r" and ttl: "0 < resolved_lock_ttl cx j"
    and b: "begin_run cx j t w = (res, w')"
  shows "now w' = now w \<and>
    (case res of
       Inr Skipped_Duplicate \<Rightarrow> visible now look w (lock_key j) \<noteq> None \<and> look w' = look w
     | Inr Skipped_Clock_Drift \<Rightarrow> visible now look w (lock_key j) = None \<and>
         (look w' (lock_key j) = None \<or> took_lock now look cx j w w')
     | Inr (Running a) \<Rightarrow> a \<and> took_lock now look cx j w w'
     | Inl e \<Rightarrow> look w' (lock_key j) = look w (lock_key j) \<or> took_lock now look cx j w w')"
proof -
  let ?ex = "py_trunc (resolved_lock_ttl cx j)"
  obtain reply w1 where s: "rd_set r (lock_key j) ''1'' True (Some ?ex) w = (reply, w1)" by force
  have a: "acquire_lock cx j w = (map_sum id Some reply, w1)"
    using s ttl r by (cases reply) (simp_all add: acquire_lock_def)
  obtain res2 w2 where d: "drift_guard cx j t True w1 = (res2, w2)" by force
  note D = drift_guard_lock[OF c r d]
  have pos: "0 < ?ex \<Longrightarrow> 0 < ttl_of cx j" by (simp add: ttl_of_def seconds_def)
  consider e where "reply = Inl e" | "reply = Inr False" | "reply = Inr True" by (cases reply) auto
  then show ?thesis
  proof cases
    case 1
    then have s': "rd_set r (lock_key j) ''1'' True (Some ?ex) w = (Inl e, w1)" using s by simp
    show ?thesis using set_nx_error[OF c s'] a b 1 pos by (auto simp: begin_run_def took_lock_def ttl_of_def)
  next
    case 2
    then have s': "rd_set r (lock_key j) ''1'' True (Some ?ex) w = (Inr False, w1)" using s by simp
    show ?thesis using set_nx_False[OF c s'] a b 2 by (auto simp: begin_run_def)
  next
    case 3
    then have s': "rd_set r (lock_key j) ''1'' True (Some ?ex) w = (Inr True, w1)" using s by simp
    note S = set_nx_True[OF c s']
    have l: "look w1 (lock_key j) = Some (''1'', Some (now w + ttl_of cx j))" using S by (simp add: ttl_of_def)
    have res: "res = (case res2 of Inl e \<Rightarrow> Inl e | Inr s \<Rightarrow> Inr (if s then Skipped_Clock_Drift else Running True))" "w' = w2"
      using a b d 3 by (auto simp: begin_run_def split: sum.splits bool.splits)
    show ?thesis using D S pos l by (auto simp: res took_lock_def split: sum.split)
  qed
qed

lemma finish_run_lock:
  assumes c: "redis_contract now look r" and r: "sc_redis cx = Some r"
  shows "now (finish_run cx j a w) = now w"
    and "look (finish_run cx j a w) (lock_key j) = look w (lock_key j) \<or> look (finish_run cx j a w) (lock_key j) = None"
proof -
  obtain n w2 where x: "rd_delete r [lock_key j] w = (n, w2)" by force
  show "now (finish_run cx j a w) = now w"
    "look (finish_run cx j a w) (lock_key j) = look w (lock_key j) \<or> look (finish_run cx j a w) (lock_key j) = None"
    using delete_reply[OF c x] x r by (auto simp: finish_run_def release_lock_def)
qed

section \<open>Workers\<close>

text \<open>\<open>overrun\<close> says whether an execution may outlive its lock; \<open>Env\<close> is the passing of time
  and every command on other keys.\<close>

inductive sched_reach :: "('w \<Rightarrow> instant) \<Rightarrow> ('w \<Rightarrow> string \<Rightarrow> redis_entry option) \<Rightarrow> 'w scheduler_context \<Rightarrow>
    'w scheduled_job \<Rightarrow> bool \<Rightarrow> 'w \<Rightarrow> (nat \<Rightarrow> instant option) \<Rightarrow> bool"
  for now look cx j overrun where
  Start: "look w (lock_key j) = None \<Longrightarrow> sched_reach now look cx j overrun w Map.empty"
| Begin: "\<lbrakk> sched_reach now look cx j overrun w h; h i = None; begin_run cx j t w = (Inr (Running a), w') \<rbrakk>
    \<Longrightarrow> sched_reach now look cx j overrun w' (h(i \<mapsto> now w))"
| No_Run: "\<lbrakk> sched_reach now look cx j overrun w h; begin_run cx j t w = (res, w'); \<And>a. res \<noteq> Inr (Running a) \<rbrakk>
    \<Longrightarrow> sched_reach now look cx j overrun w' h"
| Finish: "\<lbrakk> sched_reach now look cx j overrun w h; h i = Some t \<rbrakk>
    \<Longrightarrow> sched_reach now look cx j overrun (finish_run cx j True w) (h(i := None))"
| Die: "sched_reach now look cx j overrun w h \<Longrightarrow> sched_reach now look cx j overrun w (h(i := None))"
| Env: "\<lbrakk> sched_reach now look cx j overrun w h; now w \<le> now w'; look w' (lock_key j) = look w (lock_key j);
      overrun \<or> (\<forall>i t. h i = Some t \<longrightarrow> now w' < t + ttl_of cx j) \<rbrakk>
    \<Longrightarrow> sched_reach now look cx j overrun w' h"

text \<open>A running execution owns the lock, and its lock has not expired.\<close>

definition lock_inv :: "('w \<Rightarrow> instant) \<Rightarrow> ('w \<Rightarrow> string \<Rightarrow> redis_entry option) \<Rightarrow> 'w scheduler_context \<Rightarrow>
    'w scheduled_job \<Rightarrow> 'w \<Rightarrow> (nat \<Rightarrow> instant option) \<Rightarrow> bool" where
  "lock_inv now look cx j w h \<longleftrightarrow>
     (\<forall>i t. h i = Some t \<longrightarrow> look w (lock_key j) = Some (''1'', Some (t + ttl_of cx j)) \<and> now w < t + ttl_of cx j) \<and>
     (\<forall>i k t s. h i = Some t \<and> h k = Some s \<longrightarrow> i = k)"

lemma lock_inv_free: "lock_inv now look cx j w h \<Longrightarrow> visible now look w (lock_key j) = None \<Longrightarrow> h = Map.empty"
  by (rule ext, rule ccontr) (auto simp: lock_inv_def visible_def)

lemma lock_inv_empty [simp]: "lock_inv now look cx j w Map.empty"
  by (simp add: lock_inv_def)

lemma lock_inv_reach:
  assumes c: "redis_contract now look r" and r: "sc_redis cx = Some r" and ttl: "0 < resolved_lock_ttl cx j"
    and "sched_reach now look cx j False w h"
  shows "lock_inv now look cx j w h"
  using assms(4)
proof (induction rule: sched_reach.induct)
  case (Begin w h i t a w')
  note B = begin_run_lock[OF c r ttl Begin.hyps(3)]
  then have "h = Map.empty" using lock_inv_free[OF Begin.IH] by (simp add: took_lock_def)
  with B show ?case by (auto simp: lock_inv_def took_lock_def)
next
  case (No_Run w h t res w')
  note B = begin_run_lock[OF c r ttl No_Run.hyps(2)]
  have free: "visible now look w (lock_key j) = None \<Longrightarrow> ?case" using lock_inv_free[OF No_Run.IH] by simp
  have same: "look w' (lock_key j) = look w (lock_key j) \<Longrightarrow> ?case"
    using No_Run.IH B by (simp add: lock_inv_def)
  show ?case
    using B No_Run.hyps(3) free same by (auto simp: took_lock_def split: sum.splits begin_outcome.splits)
next
  case (Finish w h i t)
  then have "x \<noteq> i \<Longrightarrow> h x = None" for x by (cases "h x") (auto simp: lock_inv_def)
  then have "h(i := None) = Map.empty" by (simp add: fun_eq_iff)
  then show ?case by (simp del: fun_upd_apply)
next
  case (Die w h i)
  then show ?case by (auto simp: lock_inv_def)
next
  case (Env w h w')
  then show ?case by (simp add: lock_inv_def)
qed simp

text \<open>C9: mutual exclusion.  Over every interleaving of any number of workers that begin,
  skip, fail, finish or die, with lost replies of Redis included, at most one execution of
  a scheduled job runs at a time, as long as no execution outlives the TTL of its lock.\<close>

theorem scheduled_runs_exclude_each_other:
  assumes "redis_contract now look r" and "sc_redis cx = Some r" and "0 < resolved_lock_ttl cx j"
    and "sched_reach now look cx j False w h" and "h i = Some t" and "h k = Some s"
  shows "i = k \<and> visible now look w (lock_key j) = Some ''1''"
  using lock_inv_reach[OF assms(1-4)] assms(5,6) by (auto simp: lock_inv_def visible_def)

definition demo_context :: "toy_redis scheduler_context" where
  "demo_context = \<lparr> sc_redis = Some toy_client, sc_settings = Some (300, 0) \<rparr>"

definition demo_job :: "toy_redis scheduled_job" where
  "demo_job = DeadLetterRetentionJob []"

lemma demo_job_simps [simp]: "resolved_lock_ttl demo_context demo_job = 300" "sc_redis demo_context = Some toy_client"
    "resolved_clock_drift_tolerance demo_context demo_job = 0" "ttl_of demo_context demo_job = 300000000"
    "lock_key demo_job = ''scheduler:lock:platform.scheduled.dead_letter_retention''"
  by (simp_all add: demo_context_def demo_job_def DeadLetterRetentionJob_def placeholder_job_def resolved_lock_ttl_def
      resolved_clock_drift_tolerance_def ttl_of_def py_trunc_def seconds_def lock_key_def)

abbreviation demo_world :: "instant \<Rightarrow> (string \<times> redis_entry) list \<Rightarrow> toy_redis" where
  "demo_world t rows \<equiv> \<lparr> ty_now = t, ty_rows = rows \<rparr>"

lemma demo_begin:
  "begin_run demo_context demo_job t (demo_world t' []) =
     (Inr (Running True), demo_world t' [(lock_key demo_job, (''1'', Some (t' + 300000000)))])"
  by (simp add: begin_run_def acquire_lock_def drift_guard_def toy_client_def toy_look_def seconds_def py_trunc_def
      del: demo_job_simps(5))

lemma sched_demo_reach: "sched_reach ty_now toy_look demo_context demo_job overrun
    (demo_world 0 [(lock_key demo_job, (''1'', Some 300000000))]) [0 \<mapsto> 0]"
proof -
  have "sched_reach ty_now toy_look demo_context demo_job overrun (demo_world 0 []) Map.empty"
    by (rule sched_reach.Start) (simp add: toy_look_def)
  from sched_reach.Begin[OF this _ demo_begin, of 0] show ?thesis by simp
qed

theorem scheduled_runs_exclude_each_other_witness:
  "visible ty_now toy_look (demo_world 0 [(lock_key demo_job, (''1'', Some 300000000))]) (lock_key demo_job) = Some ''1''"
  using scheduled_runs_exclude_each_other[OF toy_contract _ _ sched_demo_reach, of 0 0 0 0] by simp

section \<open>Progress\<close>

text \<open>Whatever happened before, an entry under the lock key expires within one TTL.\<close>

lemma lock_expires:
  assumes c: "redis_contract now look r" and r: "sc_redis cx = Some r" and ttl: "0 < resolved_lock_ttl cx j"
    and "sched_reach now look cx j overrun w h"
  shows "look w (lock_key j) = None \<or> (\<exists>e. look w (lock_key j) = Some (''1'', Some e) \<and> e \<le> now w + ttl_of cx j)"
  using assms(4)
proof (induction rule: sched_reach.induct)
  case (Begin w h i t a w')
  then show ?case using begin_run_lock[OF c r ttl Begin.hyps(3)] by (simp add: took_lock_def)
next
  case (No_Run w h t res w')
  then show ?case
    using begin_run_lock[OF c r ttl No_Run.hyps(2)] by (auto simp: took_lock_def split: sum.splits begin_outcome.splits)
next
  case (Finish w h i t)
  then show ?case using finish_run_lock[OF c r, of j True w] by auto
next
  case (Env w h w')
  then show ?case by auto
qed simp_all

text \<open>The decision of the drift guard: the guard is on, and the recorded start of the last
  execution, if one is recorded and reads as a number, is less than the tolerance ago.\<close>

definition started_recently :: "('w \<Rightarrow> instant) \<Rightarrow> ('w \<Rightarrow> string \<Rightarrow> redis_entry option) \<Rightarrow> 'w scheduler_context \<Rightarrow>
    'w scheduled_job \<Rightarrow> instant \<Rightarrow> 'w \<Rightarrow> bool" where
  "started_recently now look cx j t w \<longleftrightarrow> 0 < resolved_clock_drift_tolerance cx j \<and>
     (case Option.bind (visible now look w (last_run_key j)) py_float of
        Some ts \<Rightarrow> timestamp t - ts < resolved_clock_drift_tolerance cx j | None \<Rightarrow> False)"

lemma drift_guard_decides:
  assumes c: "redis_contract now look r" and r: "sc_redis cx = Some r"
    and d: "drift_guard cx j t a w = (Inr skip, w')"
  shows "skip \<longleftrightarrow> started_recently now look cx j t w"
proof (cases "0 < resolved_clock_drift_tolerance cx j")
  case True
  obtain reply w1 where g: "rd_get r (last_run_key j) w = (reply, w1)" by force
  with d r True obtain raw where raw: "reply = Inr raw" by (auto simp: drift_guard_def split: sum.splits)
  with get_reply(3)[OF c g] have "raw = visible now look w (last_run_key j)" by simp
  then show ?thesis
    using d r True g raw by (auto simp: drift_guard_def started_recently_def Let_def split: option.splits if_splits sum.splits prod.splits)
qed (use d r in \<open>simp add: drift_guard_def started_recently_def\<close>)

text \<open>A begin that finds the lock free and is answered runs the job, holding the lock,
  unless the drift guard skips it.\<close>

lemma begin_run_free:
  assumes c: "redis_contract now look r" and r: "sc_redis cx = Some r" and ttl: "0 < resolved_lock_ttl cx j"
    and v: "visible now look w (lock_key j) = None" and b: "begin_run cx j t w = (Inr out, w')"
  shows "out = (if started_recently now look cx j t w then Skipped_Clock_Drift else Running True)"
proof -
  obtain reply w1 where s: "rd_set r (lock_key j) ''1'' True (Some (py_trunc (resolved_lock_ttl cx j))) w = (reply, w1)"
    by force
  have "reply \<noteq> Inr False" using set_nx_False(3)[OF c] s v by blast
  then have "reply = Inr True"
    using s b ttl r by (cases reply) (auto simp: begin_run_def acquire_lock_def)
  with s have s': "rd_set r (lock_key j) ''1'' True (Some (py_trunc (resolved_lock_ttl cx j))) w = (Inr True, w1)" by simp
  note S = set_nx_True(1,2)[OF c s']
  have "visible now look w1 (last_run_key j) = visible now look w (last_run_key j)"
    using S by (intro visible_cong) simp_all
  then have same: "started_recently now look cx j t w1 \<longleftrightarrow> started_recently now look cx j t w"
    by (simp add: started_recently_def)
  obtain res2 w2 where d: "drift_guard cx j t True w1 = (res2, w2)" by force
  with b s' ttl r obtain skip where skip: "res2 = Inr skip" by (cases res2) (auto simp: begin_run_def acquire_lock_def)
  with drift_guard_decides[OF c r] d same have "skip \<longleftrightarrow> started_recently now look cx j t w" by auto
  with b s' d skip ttl r show ?thesis by (auto simp: begin_run_def acquire_lock_def split: bool.splits)
qed

text \<open>C14: a job is never locked out for good by a lost lock.  From any reachable state, one
  in which workers died holding the lock, had their release lost or ran past their TTL
  included, once a TTL has passed without a new begin no begin is refused as a duplicate.
  If Redis answers, the next begin runs the job, holding the lock, except when the drift
  guard is on and the recorded start of the last execution is less than the tolerance
  ago: then, and only then, it is skipped for that reason.\<close>

theorem lock_is_released_within_ttl:
  assumes "redis_contract now look r" and "sc_redis cx = Some r" and "0 < resolved_lock_ttl cx j"
    and "sched_reach now look cx j overrun w h"
    and "now w + ttl_of cx j \<le> now w'" and "look w' (lock_key j) = look w (lock_key j)"
    and "begin_run cx j t w' = (res, w'')"
  shows "res \<noteq> Inr Skipped_Duplicate \<and>
     (is_ok res \<longrightarrow>
        (if started_recently now look cx j t w' then res = Inr Skipped_Clock_Drift
         else res = Inr (Running True) \<and> visible now look w'' (lock_key j) = Some ''1''))"
proof -
  have v: "visible now look w' (lock_key j) = None"
    using lock_expires[OF assms(1-4)] assms(5,6) by (auto simp: visible_def)
  note B = begin_run_lock[OF assms(1-3,7)]
  show ?thesis
  proof (cases res)
    case (Inr out)
    with begin_run_free[OF assms(1-3) v] assms(7)
    have "out = (if started_recently now look cx j t w' then Skipped_Clock_Drift else Running True)" by simp
    with B Inr show ?thesis by (auto simp: took_lock_def visible_def split: if_splits)
  qed simp
qed

definition guarded_job :: "toy_redis scheduled_job" where
  "guarded_job = demo_job\<lparr> sj_clock_drift_tolerance_seconds := Some 10 \<rparr>"

text \<open>Under a tolerance of ten seconds: a worker died holding the lock 300 seconds ago, and
  the start it recorded is that old.  The next begin runs.\<close>

theorem lock_is_released_within_ttl_witness:
  "fst (begin_run demo_context guarded_job 300000000
     (demo_world 300000000 [(last_run_key guarded_job, (show_timestamp 0, Some 86400000000)),
        (lock_key guarded_job, (''1'', Some 300000000))])) = Inr (Running True)"
proof -
  have g: "lock_key guarded_job = lock_key demo_job" "last_run_key guarded_job = last_run_key demo_job"
      "resolved_lock_ttl demo_context guarded_job = 300" "ttl_of demo_context guarded_job = 300000000"
      "resolved_clock_drift_tolerance demo_context guarded_job = 10"
    by (simp_all add: guarded_job_def lock_key_def last_run_key_def resolved_lock_ttl_def ttl_of_def demo_job_def
        DeadLetterRetentionJob_def placeholder_job_def demo_context_def resolved_clock_drift_tolerance_def py_trunc_def
        seconds_def)
  let ?rows = "[(last_run_key guarded_job, (show_timestamp 0, Some 86400000000)),
        (lock_key guarded_job, (''1'', Some 300000000))]"
  let ?fresh = "demo_world 0 []" and ?held = "demo_world 0 ?rows" and ?w = "demo_world 300000000 ?rows"
  have k: "lock_key demo_job \<noteq> last_run_key demo_job" by (rule keys_differ)
  note defs = begin_run_def acquire_lock_def drift_guard_def toy_client_def toy_look_def visible_def seconds_def
    py_trunc_def Let_def read_timestamp
  have start: "sched_reach ty_now toy_look demo_context guarded_job True ?fresh Map.empty"
    by (rule sched_reach.Start) (simp add: toy_look_def)
  have b1: "begin_run demo_context guarded_job 0 ?fresh = (Inr (Running True), ?held)"
    using k by (simp add: defs g del: demo_job_simps(5))
  have reach: "sched_reach ty_now toy_look demo_context guarded_job True ?held [0 \<mapsto> 0]"
    using sched_reach.Begin[OF start _ b1, of 0] by simp
  obtain res w'' where b: "begin_run demo_context guarded_job 300000000 ?w = (res, w'')" by force
  moreover have "is_ok (fst (begin_run demo_context guarded_job 300000000 ?w))"
    using k by (simp add: defs g timestamp_def del: demo_job_simps(5))
  moreover have "\<not> started_recently ty_now toy_look demo_context guarded_job 300000000 ?w"
    using k by (simp add: started_recently_def defs g timestamp_def del: demo_job_simps(5))
  moreover have "toy_look ?w (lock_key guarded_job) = toy_look ?held (lock_key guarded_job)"
    by (simp add: toy_look_def)
  ultimately show ?thesis
    using lock_is_released_within_ttl[OF toy_contract _ _ reach, of ?w 300000000 res w''] g(3,4) by simp
qed

text \<open>Releasing is not tied to owning.  An execution that finished after its TTL, while
  another one was running under the lock it had taken meanwhile, frees that lock when its
  delete is answered: the key is gone although its holder is within its TTL, and the next
  begin is not refused.  The lock value is a constant, so the release cannot tell.\<close>

theorem late_finish_frees_foreign_lock:
  assumes "redis_contract now look r" and "sc_redis cx = Some r" and "0 < resolved_lock_ttl cx j"
    and "sched_reach now look cx j True w h" and "h late = Some t" and "h other = Some s" and "late \<noteq> other"
    and "rd_delete r [lock_key j] w = (Inr n, w1)" and "begin_run cx j t' w1 = (res, w2)"
  shows "sched_reach now look cx j True w1 (h(late := None)) \<and> (h(late := None)) other = Some s \<and>
     look w1 (lock_key j) = None \<and> res \<noteq> Inr Skipped_Duplicate"
proof -
  have f: "finish_run cx j True w = w1" using assms(2,8) by (simp add: finish_run_def release_lock_def)
  have "look w1 (lock_key j) = None" using delete_reply(4)[OF assms(1,8)] by simp
  moreover from this have "res \<noteq> Inr Skipped_Duplicate" using begin_run_lock[OF assms(1-3,9)] by auto
  moreover have "sched_reach now look cx j True w1 (h(late := None))"
    using sched_reach.Finish[OF assms(4,5)] f by simp
  ultimately show ?thesis using assms(6,7) by auto
qed

lemma demo_two: "sched_reach ty_now toy_look demo_context demo_job True
    (demo_world 300000000 ((lock_key demo_job, (''1'', Some 600000000)) # [(lock_key demo_job, (''1'', Some 300000000))]))
    [0 \<mapsto> 0, 1 \<mapsto> 300000000]"
proof -
  let ?w = "demo_world 300000000 [(lock_key demo_job, (''1'', Some 300000000))]"
  have e: "sched_reach ty_now toy_look demo_context demo_job True ?w [0 \<mapsto> 0]"
    by (rule sched_reach.Env[OF sched_demo_reach]) (simp_all add: toy_look_def)
  have b: "begin_run demo_context demo_job 0 ?w = (Inr (Running True),
      demo_world 300000000 ((lock_key demo_job, (''1'', Some 600000000)) # [(lock_key demo_job, (''1'', Some 300000000))]))"
    by (simp add: begin_run_def acquire_lock_def drift_guard_def toy_client_def toy_look_def visible_def seconds_def py_trunc_def)
  from sched_reach.Begin[OF e _ b, of 1] show ?thesis by simp
qed

theorem late_finish_frees_foreign_lock_witness:
  "sched_reach ty_now toy_look demo_context demo_job True (demo_world 300000000 []) ([0 \<mapsto> 0, 1 \<mapsto> 300000000](0 := None))"
proof -
  let ?w = "demo_world 300000000 ((lock_key demo_job, (''1'', Some 600000000)) # [(lock_key demo_job, (''1'', Some 300000000))])"
  have d: "rd_delete toy_client [lock_key demo_job] ?w = (Inr 1, demo_world 300000000 [])"
    by (simp add: toy_client_def)
  obtain res w2 where b: "begin_run demo_context demo_job 0 (demo_world 300000000 []) = (res, w2)" by force
  from late_finish_frees_foreign_lock[OF toy_contract _ _ demo_two, of 0 0 1 300000000, OF _ _ _ _ _ d b]
  show ?thesis by simp
qed

section \<open>The drift guard\<close>

text \<open>An execution that runs has left its start under the last-run key.\<close>

lemma running_records_start:
  assumes c: "redis_contract now look r" and r: "sc_redis cx = Some r" and tol: "0 < resolved_clock_drift_tolerance cx j"
    and b: "begin_run cx j t w = (Inr (Running a), w')"
  shows "visible now look w' (last_run_key j) = Some (show_timestamp t)"
proof -
  obtain got w1 where d: "drift_guard cx j t (got = Some True) w1 = (Inr False, w')"
    using b by (auto simp: begin_run_def split: sum.splits prod.splits if_splits bool.splits)
  then obtain w2 bb where s: "rd_set r (last_run_key j) (show_timestamp t) False (Some 86400) w2 = (Inr bb, w')"
    using r tol by (auto simp: drift_guard_def Let_def split: sum.splits prod.splits if_splits)
  show ?thesis using set_plain(1,3)[OF c s] by (simp add: visible_def seconds_def)
qed

text \<open>An execution that runs has found no recorded start, or one that is old enough.\<close>

lemma running_is_due:
  assumes c: "redis_contract now look r" and r: "sc_redis cx = Some r" and tol: "0 < resolved_clock_drift_tolerance cx j"
    and b: "begin_run cx j t w = (Inr (Running a), w')"
    and v: "visible now look w (last_run_key j) = Some (show_timestamp t0)" "0 \<le> t0"
  shows "resolved_clock_drift_tolerance cx j \<le> timestamp t - timestamp t0"
proof -
  obtain got w1 where a: "acquire_lock cx j w = (Inr got, w1)" "got \<noteq> Some False"
      and d: "drift_guard cx j t (got = Some True) w1 = (Inr False, w')"
    using b by (auto simp: begin_run_def split: sum.splits prod.splits if_splits bool.splits)
  have "now w1 = now w \<and> look w1 (last_run_key j) = look w (last_run_key j)"
  proof (cases "0 < resolved_lock_ttl cx j")
    case True
    then obtain bb where s: "rd_set r (lock_key j) ''1'' True (Some (py_trunc (resolved_lock_ttl cx j))) w = (Inr bb, w1)"
      using a r by (auto simp: acquire_lock_def split: sum.splits prod.splits)
    with set_nx_True(1,2)[OF c, of "lock_key j" "''1''"] set_nx_False(1,2)[OF c, of "lock_key j" "''1''"]
    show ?thesis by (cases bb) auto
  qed (use a r in \<open>simp add: acquire_lock_def\<close>)
  then have v1: "visible now look w1 (last_run_key j) = Some (show_timestamp t0)" using visible_cong v(1) by metis
  obtain reply w2 where g: "rd_get r (last_run_key j) w1 = (reply, w2)" by force
  with d r tol obtain raw where "reply = Inr raw" by (auto simp: drift_guard_def split: sum.splits)
  with get_reply(3)[OF c g] v1 have "reply = Inr (Some (show_timestamp t0))" by simp
  with d r tol g show ?thesis
    by (auto simp: drift_guard_def Let_def read_timestamp[OF v(2)] split: if_splits)
qed

text \<open>With a drift tolerance, two executions of a job that both run started at least the
  tolerance apart by their workers' clocks, while the recorded start of the first lasts.
  The guard compares starts: when the first one completed, or whether it failed, plays no
  part.\<close>

theorem drift_guard_spaces_starts:
  assumes "redis_contract now look r" and "sc_redis cx = Some r" and "0 < resolved_clock_drift_tolerance cx j"
    and "begin_run cx j t w = (Inr (Running a), w1)" and "0 \<le> t"
    and "visible now look w2 (last_run_key j) = visible now look w1 (last_run_key j)"
    and "begin_run cx j t' w2 = (Inr (Running b), w3)"
  shows "timestamp t + resolved_clock_drift_tolerance cx j \<le> timestamp t'"
  using running_is_due[OF assms(1-3,7) _ assms(5)] running_records_start[OF assms(1-4)] assms(6) by simp

definition drift_job :: "toy_redis scheduled_job" where
  "drift_job = demo_job\<lparr> sj_lock_ttl_seconds := Some 0, sj_clock_drift_tolerance_seconds := Some 10 \<rparr>"

theorem drift_guard_spaces_starts_witness:
  "\<exists>w1 w3. begin_run demo_context drift_job 0 (demo_world 0 []) = (Inr (Running False), w1) \<and>
     begin_run demo_context drift_job 20000000 w1 = (Inr (Running False), w3) \<and>
     timestamp 0 + resolved_clock_drift_tolerance demo_context drift_job \<le> timestamp 20000000"
proof -
  have d: "0 < resolved_clock_drift_tolerance demo_context drift_job" "resolved_lock_ttl demo_context drift_job = 0"
      "resolved_clock_drift_tolerance demo_context drift_job = 10"
    by (simp_all add: drift_job_def resolved_clock_drift_tolerance_def resolved_lock_ttl_def)
  have a: "\<exists>w1. begin_run demo_context drift_job 0 (demo_world 0 []) = (Inr (Running False), w1)"
    by (simp add: begin_run_def acquire_lock_def drift_guard_def d toy_client_def toy_look_def visible_def Let_def)
  then obtain w1 where w1: "begin_run demo_context drift_job 0 (demo_world 0 []) = (Inr (Running False), w1)" ..
  have "visible ty_now toy_look w1 (last_run_key drift_job) = Some (show_timestamp 0)"
    by (rule running_records_start[OF toy_contract _ d(1) w1]) simp
  then have "rd_get toy_client (last_run_key drift_job) w1 = (Inr (Some (show_timestamp 0)), w1)" by (simp add: toy_client_def)
  moreover obtain w3 where "rd_set toy_client (last_run_key drift_job) (show_timestamp 20000000) False (Some 86400) w1 = (Inr True, w3)"
    by (simp add: toy_client_def)
  ultimately have "\<exists>w3. begin_run demo_context drift_job 20000000 w1 = (Inr (Running False), w3)"
    by (auto simp: begin_run_def acquire_lock_def drift_guard_def d Let_def read_timestamp timestamp_def)
  then obtain w3 where w3: "begin_run demo_context drift_job 20000000 w1 = (Inr (Running False), w3)" ..
  from drift_guard_spaces_starts[OF toy_contract _ d(1) w1 _ refl w3] w1 w3 show ?thesis by auto
qed

end
