(* ===== verification/Tokens.thy ===== *)
theory Tokens
  imports Http_Errors
begin

text \<open>
  core/security.py, the blacklist table with its clean-up (core/db/token_blacklist.py,
  core/db/crud_token_blacklist.py, scripts/cleanup_token_blacklist.py) and the
  authentication service (domain/auth_service.py).

  Not in the repository, and arguments: the JWT library (\<open>jwt_lib\<close>), bcrypt, the user
  repository, fresh UUIDs, and the offset of the server's local time from UTC, which
  \<open>datetime.fromtimestamp\<close> without a time zone applies.  A naive datetime is the instant that
  reads the same in UTC.  The blacklist is a table whose \<open>token\<close> is unique; the create of
  the repository commits, or raises \<open>IntegrityError\<close> and stores nothing.
\<close>

section \<open>Settings and libraries\<close>

record crypt_settings =
  SECRET_KEY :: string
  ALGORITHM :: string
  ACCESS_TOKEN_EXPIRE_MINUTES :: int
  REFRESH_TOKEN_EXPIRE_DAYS :: int
  PASSWORD_HASH_SCHEME_is_bcrypt :: bool
  PASSWORD_HASH_SCHEME_text :: string
  PASSWORD_BCRYPT_ROUNDS :: int
  PASSWORD_HASH_REHASH_ON_LOGIN :: bool
  JWT_ISSUER :: "string option"
  JWT_AUDIENCE :: "string option"
  JWT_ACTIVE_KEY_ID :: string
  JWT_VERIFICATION_KEYS :: "(string \<times> string) list"

datatype token_type = ACCESS | REFRESH

fun token_type_value :: "token_type \<Rightarrow> string" where
  "token_type_value ACCESS = ''access''"
| "token_type_value REFRESH = ''refresh''"

text \<open>A claim that is encoded: JSON, or a datetime, which the library writes as seconds.\<close>

datatype claim = Plain json | Moment instant

record decode_options =
  do_verify_aud :: bool
  do_verify_iss :: bool
  do_audience :: "string option"
  do_issuer :: "string option"

record jwt_lib =
  jl_encode :: "(string \<times> claim) list \<Rightarrow> string \<Rightarrow> string \<Rightarrow> string \<Rightarrow> string"
  jl_header :: "string \<Rightarrow> string + dict"
  jl_decode :: "string \<Rightarrow> string \<Rightarrow> string \<Rightarrow> decode_options \<Rightarrow> instant \<Rightarrow> string + dict"

datatype token_error =
    JWTError string
  | Token_IntegrityError
  | Token_TypeError
  | Token_ValidationError
  | Unauthorized string
  | Token_ValueError string

section \<open>The blacklist\<close>

record blacklist_row =
  bl_token :: string
  bl_expires_at :: instant

type_synonym blacklist = "blacklist_row table"

definition blacklist_exists :: "blacklist \<Rightarrow> string \<Rightarrow> bool" where
  "blacklist_exists t token \<longleftrightarrow> find_row bl_token t token \<noteq> None"

definition blacklist_create :: "blacklist \<Rightarrow> blacklist_row \<Rightarrow> token_error + blacklist" where
  "blacklist_create t row = map_sum (\<lambda>e. Token_IntegrityError) snd (insert_unique bl_token row t)"

definition delete_expired_token_blacklist_entries :: "instant \<Rightarrow> instant option \<Rightarrow> blacklist \<Rightarrow> int \<times> blacklist" where
  "delete_expired_token_blacklist_entries now expired_before t =
     (let cutoff = (case expired_before of Some c \<Rightarrow> c | None \<Rightarrow> now);
          expired = (\<lambda>row. bl_expires_at (snd row) < cutoff)
      in (int (length (filter expired (tb_rows t))), t\<lparr> tb_rows := filter (\<lambda>row. \<not> expired row) (tb_rows t) \<rparr>))"

definition cleanup_expired_token_blacklist_entries :: "instant \<Rightarrow> instant option \<Rightarrow> blacklist \<Rightarrow> int \<times> blacklist" where
  "cleanup_expired_token_blacklist_entries now expired_before t =
     (let cutoff = (case expired_before of Some c \<Rightarrow> c | None \<Rightarrow> now)
      in delete_expired_token_blacklist_entries now (Some cutoff) t)"

section \<open>Encoding and decoding\<close>

definition get_jwt_key_ring :: "crypt_settings \<Rightarrow> (string \<times> string) list" where
  "get_jwt_key_ring cs = fold (\<lambda>kv ring. AList.update (fst kv) (snd kv) ring) (JWT_VERIFICATION_KEYS cs)
     [(JWT_ACTIVE_KEY_ID cs, SECRET_KEY cs)]"

definition build_jwt_decode_kwargs :: "crypt_settings \<Rightarrow> decode_options" where
  "build_jwt_decode_kwargs cs =
     \<lparr> do_verify_aud = (JWT_AUDIENCE cs \<noteq> None), do_verify_iss = (JWT_ISSUER cs \<noteq> None),
       do_audience = JWT_AUDIENCE cs, do_issuer = JWT_ISSUER cs \<rparr>"

text \<open>A \<open>kid\<close> that is not a string is in no key ring.\<close>

definition get_jwt_verification_secrets :: "jwt_lib \<Rightarrow> string \<Rightarrow> crypt_settings \<Rightarrow> string + string list" where
  "get_jwt_verification_secrets lib token cs =
     bind_sum (jl_header lib token) (\<lambda>header.
       case dict_get header ''kid'' JNull of
         JNull \<Rightarrow> Inr (map snd (get_jwt_key_ring cs))
       | JStr key_id \<Rightarrow> (case map_of (get_jwt_key_ring cs) key_id of
                          None \<Rightarrow> Inl ''Unknown JWT key id'' | Some secret \<Rightarrow> Inr [secret])
       | _ \<Rightarrow> Inl ''Unknown JWT key id'')"

fun try_secrets :: "jwt_lib \<Rightarrow> string \<Rightarrow> crypt_settings \<Rightarrow> instant \<Rightarrow> string list \<Rightarrow> string option \<Rightarrow> string + dict" where
  "try_secrets lib token cs now [] last_error =
     (case last_error of Some e \<Rightarrow> Inl e | None \<Rightarrow> Inl ''No JWT verification keys are configured'')"
| "try_secrets lib token cs now (secret # rest) last_error =
     (case jl_decode lib token secret (ALGORITHM cs) (build_jwt_decode_kwargs cs) now of
        Inr payload \<Rightarrow> Inr payload
      | Inl e \<Rightarrow> try_secrets lib token cs now rest (Some e))"

definition decode_token_payload :: "jwt_lib \<Rightarrow> string \<Rightarrow> crypt_settings \<Rightarrow> instant \<Rightarrow> string + dict" where
  "decode_token_payload lib token cs now =
     bind_sum (get_jwt_verification_secrets lib token cs) (\<lambda>secrets. try_secrets lib token cs now secrets None)"

fun update_all :: "('k \<times> 'v) list \<Rightarrow> ('k \<times> 'v) list \<Rightarrow> ('k \<times> 'v) list" where
  "update_all d [] = d"
| "update_all d ((k, v) # rest) = update_all (AList.update k v d) rest"

definition build_token_claims ::
  "dict \<Rightarrow> instant \<Rightarrow> token_type \<Rightarrow> crypt_settings \<Rightarrow> dict \<Rightarrow> (string \<times> claim) list" where
  "build_token_claims data expire tt cs additional_claims =
     (let plain = map (\<lambda>(k, v). (k, Plain v));
          claims = update_all (plain data) [(''exp'', Moment expire), (''token_type'', Plain (JStr (token_type_value tt)))];
          claims = (case JWT_ISSUER cs of None \<Rightarrow> claims | Some i \<Rightarrow> AList.update ''iss'' (Plain (JStr i)) claims);
          claims = (case JWT_AUDIENCE cs of None \<Rightarrow> claims | Some a \<Rightarrow> AList.update ''aud'' (Plain (JStr a)) claims)
      in update_all claims (plain additional_claims))"

text \<open>A zero \<open>expires_delta\<close> is falsy.  Deltas are microseconds.\<close>

definition create_access_token :: "jwt_lib \<Rightarrow> dict \<Rightarrow> int option \<Rightarrow> crypt_settings \<Rightarrow> instant \<Rightarrow> string" where
  "create_access_token lib data expires_delta cs now =
     (let expire = (case expires_delta of
            Some d \<Rightarrow> if d \<noteq> 0 then now + d else now + seconds (60 * ACCESS_TOKEN_EXPIRE_MINUTES cs)
          | None \<Rightarrow> now + seconds (60 * ACCESS_TOKEN_EXPIRE_MINUTES cs))
      in jl_encode lib (build_token_claims data expire ACCESS cs []) (SECRET_KEY cs) (ALGORITHM cs) (JWT_ACTIVE_KEY_ID cs))"

definition create_refresh_token :: "jwt_lib \<Rightarrow> dict \<Rightarrow> int option \<Rightarrow> crypt_settings \<Rightarrow> instant \<Rightarrow> string \<Rightarrow> string" where
  "create_refresh_token lib data expires_delta cs now uuid =
     (let expire = (case expires_delta of
            Some d \<Rightarrow> if d \<noteq> 0 then now + d else now + seconds (86400 * REFRESH_TOKEN_EXPIRE_DAYS cs)
          | None \<Rightarrow> now + seconds (86400 * REFRESH_TOKEN_EXPIRE_DAYS cs))
      in jl_encode lib (build_token_claims data expire REFRESH cs [(''jti'', JStr uuid)])
           (SECRET_KEY cs) (ALGORITHM cs) (JWT_ACTIVE_KEY_ID cs))"

text \<open>\<open>verify_token\<close>: None, or the \<open>TokenData\<close>, whose subject must be a string.\<close>

definition verify_token ::
  "jwt_lib \<Rightarrow> crypt_settings \<Rightarrow> instant \<Rightarrow> string \<Rightarrow> token_type \<Rightarrow> blacklist \<Rightarrow> token_error + string option" where
  "verify_token lib cs now token expected t =
     (if blacklist_exists t token then Inr None
      else (case decode_token_payload lib token cs now of
              Inl e \<Rightarrow> Inr None
            | Inr payload \<Rightarrow>
                (let sub = dict_get payload ''sub'' JNull
                 in if sub = JNull \<or> dict_get payload ''token_type'' JNull \<noteq> JStr (token_type_value expected) then Inr None
                    else (case sub of JStr s \<Rightarrow> Inr (Some s) | _ \<Rightarrow> Inl Token_ValidationError))))"

section \<open>Revocation\<close>

text \<open>\<open>datetime.fromtimestamp(exp)\<close>: the local reading of an instant given in seconds.\<close>

definition local_from_timestamp :: "(instant \<Rightarrow> int) \<Rightarrow> json \<Rightarrow> instant option" where
  "local_from_timestamp utc_offset exp_timestamp =
     (let local = (\<lambda>i. i + utc_offset i)
      in case exp_timestamp of JInt e \<Rightarrow> Some (local (seconds e))
                   | JFloat q \<Rightarrow> Some (local (round_half_even (q * 1000000)))
                   | JBool b \<Rightarrow> Some (local (seconds (if b then 1 else 0)))
                   | _ \<Rightarrow> None)"

definition blacklist_token ::
  "jwt_lib \<Rightarrow> (instant \<Rightarrow> int) \<Rightarrow> crypt_settings \<Rightarrow> instant \<Rightarrow> string \<Rightarrow> blacklist \<Rightarrow> token_error + blacklist" where
  "blacklist_token lib utc_offset cs now token t =
     (case decode_token_payload lib token cs now of
        Inl e \<Rightarrow> Inl (JWTError e)
      | Inr payload \<Rightarrow>
          (let exp_timestamp = dict_get payload ''exp'' JNull
           in if exp_timestamp = JNull then Inr t
              else (case local_from_timestamp utc_offset exp_timestamp of
                      None \<Rightarrow> Inl Token_TypeError
                    | Some expires_at \<Rightarrow> blacklist_create t \<lparr> bl_token = token, bl_expires_at = expires_at \<rparr>)))"

text \<open>Two tokens in turn; an error keeps what the first one stored.\<close>

definition blacklist_tokens ::
  "jwt_lib \<Rightarrow> (instant \<Rightarrow> int) \<Rightarrow> crypt_settings \<Rightarrow> instant \<Rightarrow> string \<Rightarrow> string \<Rightarrow> blacklist \<Rightarrow> token_error option \<times> blacklist" where
  "blacklist_tokens lib utc_offset cs now access_token refresh_token t =
     (case blacklist_token lib utc_offset cs now access_token t of
        Inl e \<Rightarrow> (Some e, t)
      | Inr t1 \<Rightarrow> (case blacklist_token lib utc_offset cs now refresh_token t1 of
                    Inl e \<Rightarrow> (Some e, t1)
                  | Inr t2 \<Rightarrow> (None, t2)))"

definition rotate_refresh_token ::
  "jwt_lib \<Rightarrow> (instant \<Rightarrow> int) \<Rightarrow> crypt_settings \<Rightarrow> instant \<Rightarrow> string \<Rightarrow> string \<Rightarrow> string \<Rightarrow> blacklist
     \<Rightarrow> token_error + (string \<times> string) \<times> blacklist" where
  "rotate_refresh_token lib utc_offset cs now uuid refresh_token subject t =
     (case blacklist_token lib utc_offset cs now refresh_token t of
        Inl Token_IntegrityError \<Rightarrow> Inl (JWTError ''Refresh token has already been consumed.'')
      | Inl e \<Rightarrow> Inl e
      | Inr t' \<Rightarrow> Inr ((create_access_token lib [(''sub'', JStr subject)] None cs now,
                        create_refresh_token lib [(''sub'', JStr subject)] None cs now uuid), t'))"

section \<open>Passwords\<close>

record bcrypt_lib =
  bc_checkpw :: "string \<Rightarrow> string \<Rightarrow> string + bool"
  bc_hashpw :: "string \<Rightarrow> int \<Rightarrow> string"

definition verify_password :: "bcrypt_lib \<Rightarrow> string \<Rightarrow> string \<Rightarrow> bool" where
  "verify_password bc plain hashed = (case bc_checkpw bc plain hashed of Inl e \<Rightarrow> False | Inr b \<Rightarrow> b)"

definition get_bcrypt_rounds :: "string \<Rightarrow> int option" where
  "get_bcrypt_rounds hashed =
     (let parts = split_at (CHR ''$'') hashed
      in if length parts < 3 \<or> parts ! 1 \<notin> {''2a'', ''2b'', ''2y''} then None else py_int (parts ! 2))"

definition unsupported_scheme :: "crypt_settings \<Rightarrow> token_error" where
  "unsupported_scheme cs = Token_ValueError (''Unsupported password hash scheme: '' @ PASSWORD_HASH_SCHEME_text cs)"

definition password_hash_needs_rehash :: "string \<Rightarrow> crypt_settings \<Rightarrow> token_error + bool" where
  "password_hash_needs_rehash hashed cs =
     (if \<not> PASSWORD_HASH_SCHEME_is_bcrypt cs then Inl (unsupported_scheme cs)
      else (case get_bcrypt_rounds hashed of None \<Rightarrow> Inr True | Some rounds \<Rightarrow> Inr (rounds < PASSWORD_BCRYPT_ROUNDS cs)))"

definition get_password_hash :: "bcrypt_lib \<Rightarrow> string \<Rightarrow> crypt_settings \<Rightarrow> token_error + string" where
  "get_password_hash bc password cs =
     (if \<not> PASSWORD_HASH_SCHEME_is_bcrypt cs then Inl (unsupported_scheme cs)
      else Inr (bc_hashpw bc password (PASSWORD_BCRYPT_ROUNDS cs)))"

text \<open>A user row is a dict with its \<open>hashed_password\<close> beside it; the repository looks up rows
  that are not deleted and stores a new hash under a username.\<close>

record user_row =
  us_username :: string
  us_hashed_password :: string
  us_data :: dict

record 'u user_repository =
  ur_by_email :: "'u \<Rightarrow> string \<Rightarrow> user_row option"
  ur_by_username :: "'u \<Rightarrow> string \<Rightarrow> user_row option"
  ur_set_hash :: "'u \<Rightarrow> string \<Rightarrow> string \<Rightarrow> 'u"

definition find_user :: "'u user_repository \<Rightarrow> 'u \<Rightarrow> string \<Rightarrow> user_row option" where
  "find_user repo db username_or_email =
     (if CHR ''@'' \<in> set username_or_email then ur_by_email repo db username_or_email
      else ur_by_username repo db username_or_email)"

definition authenticate_user ::
  "bcrypt_lib \<Rightarrow> 'u user_repository \<Rightarrow> crypt_settings \<Rightarrow> string \<Rightarrow> string \<Rightarrow> 'u \<Rightarrow> (token_error + user_row option) \<times> 'u" where
  "authenticate_user bc repo cs username_or_email password db =
     (case find_user repo db username_or_email of
        None \<Rightarrow> (Inr None, db)
      | Some user \<Rightarrow>
          if \<not> verify_password bc password (us_hashed_password user) then (Inr None, db)
          else if \<not> PASSWORD_HASH_REHASH_ON_LOGIN cs then (Inr (Some user), db)
          else (case password_hash_needs_rehash (us_hashed_password user) cs of
                  Inl e \<Rightarrow> (Inl e, db)
                | Inr False \<Rightarrow> (Inr (Some user), db)
                | Inr True \<Rightarrow>
                    (case get_password_hash bc password cs of
                       Inl e \<Rightarrow> (Inl e, db)
                     | Inr rehashed \<Rightarrow> (Inr (Some (user\<lparr> us_hashed_password := rehashed \<rparr>)),
                                        ur_set_hash repo db (us_username user) rehashed))))"

end
