(* ===== verification/Auth_Service.thy ===== *)
theory Auth_Service
  imports Tokens Authorization
begin

text \<open>
  domain/auth_service.py, the cookie and API-key parts of core/security.py, and the
  authentication dependencies of api/dependencies.py.  A response is the list of its
  cookie operations; the request's headers, the client's address and the repositories
  are arguments.
\<close>

section \<open>Cookies\<close>

record cookie_settings =
  REFRESH_TOKEN_COOKIE_NAME :: string
  REFRESH_TOKEN_COOKIE_PATH :: string
  REFRESH_TOKEN_COOKIE_DOMAIN :: "string option"
  REFRESH_TOKEN_COOKIE_SECURE :: bool
  REFRESH_TOKEN_COOKIE_HTTPONLY :: bool
  REFRESH_TOKEN_COOKIE_SAMESITE :: string

definition cookie_domain :: "cookie_settings \<Rightarrow> json" where
  "cookie_domain c = (case REFRESH_TOKEN_COOKIE_DOMAIN c of None \<Rightarrow> JNull | Some d \<Rightarrow> JStr d)"

definition build_refresh_token_cookie_kwargs :: "string \<Rightarrow> int \<Rightarrow> cookie_settings \<Rightarrow> dict" where
  "build_refresh_token_cookie_kwargs refresh_token max_age c =
     [(''key'', JStr (REFRESH_TOKEN_COOKIE_NAME c)), (''value'', JStr refresh_token), (''max_age'', JInt max_age),
      (''path'', JStr (REFRESH_TOKEN_COOKIE_PATH c)), (''domain'', cookie_domain c),
      (''secure'', JBool (REFRESH_TOKEN_COOKIE_SECURE c)), (''httponly'', JBool (REFRESH_TOKEN_COOKIE_HTTPONLY c)),
      (''samesite'', JStr (REFRESH_TOKEN_COOKIE_SAMESITE c))]"

definition build_refresh_token_cookie_delete_kwargs :: "cookie_settings \<Rightarrow> dict" where
  "build_refresh_token_cookie_delete_kwargs c =
     [(''key'', JStr (REFRESH_TOKEN_COOKIE_NAME c)), (''path'', JStr (REFRESH_TOKEN_COOKIE_PATH c)),
      (''domain'', cookie_domain c), (''secure'', JBool (REFRESH_TOKEN_COOKIE_SECURE c)),
      (''httponly'', JBool (REFRESH_TOKEN_COOKIE_HTTPONLY c)), (''samesite'', JStr (REFRESH_TOKEN_COOKIE_SAMESITE c))]"

datatype cookie_op = Set_Cookie dict | Delete_Cookie dict

definition set_refresh_token_cookie :: "cookie_op list \<Rightarrow> string \<Rightarrow> int \<Rightarrow> cookie_settings \<Rightarrow> cookie_op list" where
  "set_refresh_token_cookie response refresh_token max_age c =
     response @ [Set_Cookie (build_refresh_token_cookie_kwargs refresh_token max_age c)]"

definition clear_refresh_token_cookie :: "cookie_op list \<Rightarrow> cookie_settings \<Rightarrow> cookie_op list" where
  "clear_refresh_token_cookie response c = response @ [Delete_Cookie (build_refresh_token_cookie_delete_kwargs c)]"

section \<open>The authentication service\<close>

text \<open>The state of a request: the users, the blacklist, the response.\<close>

record 'u auth_state =
  au_users :: 'u
  au_blacklist :: blacklist
  au_response :: "cookie_op list"

record 'u auth_env =
  ae_jwt :: jwt_lib
  ae_bcrypt :: bcrypt_lib
  ae_users :: "'u user_repository"
  ae_utc_offset :: "instant \<Rightarrow> int"
  ae_crypt :: crypt_settings
  ae_cookies :: cookie_settings

definition refresh_max_age :: "'u auth_env \<Rightarrow> int" where
  "refresh_max_age env = REFRESH_TOKEN_EXPIRE_DAYS (ae_crypt env) * 24 * 60 * 60"

definition bearer :: "string \<Rightarrow> dict" where
  "bearer token = [(''access_token'', JStr token), (''token_type'', JStr ''bearer'')]"

definition login ::
  "'u auth_env \<Rightarrow> instant \<Rightarrow> string \<Rightarrow> string \<Rightarrow> string \<Rightarrow> 'u auth_state \<Rightarrow> (token_error + dict) \<times> 'u auth_state" where
  "login env now uuid username_or_email password st =
     (case authenticate_user (ae_bcrypt env) (ae_users env) (ae_crypt env) username_or_email password (au_users st) of
        (Inl e, users) \<Rightarrow> (Inl e, st\<lparr> au_users := users \<rparr>)
      | (Inr None, users) \<Rightarrow> (Inl (Unauthorized ''Wrong username, email or password.''), st\<lparr> au_users := users \<rparr>)
      | (Inr (Some user), users) \<Rightarrow>
          (let data = [(''sub'', JStr (us_username user))];
               access = create_access_token (ae_jwt env) data
                          (Some (seconds (60 * ACCESS_TOKEN_EXPIRE_MINUTES (ae_crypt env)))) (ae_crypt env) now;
               refresh = create_refresh_token (ae_jwt env) data None (ae_crypt env) now uuid
           in (Inr (bearer access),
               st\<lparr> au_users := users,
                   au_response := set_refresh_token_cookie (au_response st) refresh (refresh_max_age env) (ae_cookies env) \<rparr>)))"

definition unauthorized_refresh :: "token_error \<Rightarrow> token_error" where
  "unauthorized_refresh e = (case e of JWTError _ \<Rightarrow> Unauthorized ''Invalid refresh token.'' | _ \<Rightarrow> e)"

definition refresh_access_token ::
  "'u auth_env \<Rightarrow> instant \<Rightarrow> string \<Rightarrow> string option \<Rightarrow> 'u auth_state \<Rightarrow> (token_error + dict) \<times> 'u auth_state" where
  "refresh_access_token env now uuid refresh_token st =
     (if \<not> truthy_list refresh_token then (Inl (Unauthorized ''Refresh token missing.''), st)
      else
        (case verify_token (ae_jwt env) (ae_crypt env) now (the refresh_token) REFRESH (au_blacklist st) of
           Inl e \<Rightarrow> (Inl (unauthorized_refresh e), st)
         | Inr None \<Rightarrow> (Inl (Unauthorized ''Invalid refresh token.''), st)
         | Inr (Some subject) \<Rightarrow>
             (case rotate_refresh_token (ae_jwt env) (ae_utc_offset env) (ae_crypt env) now uuid
                     (the refresh_token) subject (au_blacklist st) of
                Inl e \<Rightarrow> (Inl (unauthorized_refresh e), st)
              | Inr ((access, refresh), t) \<Rightarrow>
                  (Inr (bearer access),
                   st\<lparr> au_blacklist := t,
                       au_response := set_refresh_token_cookie (au_response st) refresh (refresh_max_age env) (ae_cookies env) \<rparr>))))"

definition logout ::
  "'u auth_env \<Rightarrow> instant \<Rightarrow> string option \<Rightarrow> string \<Rightarrow> 'u auth_state \<Rightarrow> (token_error + dict) \<times> 'u auth_state" where
  "logout env now refresh_token access_token st =
     (if \<not> truthy_list refresh_token then (Inl (Unauthorized ''Refresh token not found''), st)
      else
        (case blacklist_tokens (ae_jwt env) (ae_utc_offset env) (ae_crypt env) now access_token (the refresh_token) (au_blacklist st) of
           (Some e, t) \<Rightarrow> (Inl (case e of JWTError _ \<Rightarrow> Unauthorized ''Invalid token.'' | _ \<Rightarrow> e), st\<lparr> au_blacklist := t \<rparr>)
         | (None, t) \<Rightarrow> (Inr [(''message'', JStr ''Logged out successfully'')],
                        st\<lparr> au_blacklist := t, au_response := clear_refresh_token_cookie (au_response st) (ae_cookies env) \<rparr>)))"

section \<open>API keys\<close>

record api_key_principal_settings =
  ak_key :: string
  ak_roles :: "string list"
  ak_permissions :: "string list"
  ak_scopes :: "string list"
  ak_tenant_id :: "string option"
  ak_organization_id :: "string option"
  ak_description :: "string option"

record machine_auth_settings =
  API_KEY_ENABLED :: bool
  API_KEY_HEADER_NAME :: string
  API_KEY_PRINCIPALS :: "(string \<times> api_key_principal_settings) list"

definition build_api_key_auth_headers :: "string \<Rightarrow> machine_auth_settings \<Rightarrow> (string \<times> string) list" where
  "build_api_key_auth_headers api_key ms = [(API_KEY_HEADER_NAME ms, api_key)]"

definition opt_str :: "string option \<Rightarrow> json" where
  "opt_str x = (case x of None \<Rightarrow> JNull | Some s \<Rightarrow> JStr s)"

definition build_api_key_principal_payload :: "string \<Rightarrow> api_key_principal_settings \<Rightarrow> dict" where
  "build_api_key_principal_payload name ps =
     [(''id'', JStr (''service:'' @ name)), (''username'', JStr name), (''name'', JStr name), (''email'', JNull),
      (''is_superuser'', JBool False), (''principal_type'', JStr ''service''),
      (''roles'', JList (map JStr (ak_roles ps))), (''permissions'', JList (map JStr (ak_permissions ps))),
      (''scopes'', JList (map JStr (ak_scopes ps))),
      (''tenant_context'', JDict [(''tenant_id'', opt_str (ak_tenant_id ps)), (''organization_id'', opt_str (ak_organization_id ps))])]"

text \<open>The first principal whose key compares equal; the comparison of a key or header that
  is not ASCII raises.\<close>

fun match_api_key :: "string \<Rightarrow> (string \<times> api_key_principal_settings) list \<Rightarrow> token_error + dict option" where
  "match_api_key api_key [] = Inr None"
| "match_api_key api_key ((name, ps) # rest) =
     (case compare_digest (ak_key ps) api_key of
        None \<Rightarrow> Inl Token_TypeError
      | Some True \<Rightarrow> Inr (Some (build_api_key_principal_payload name ps))
      | Some False \<Rightarrow> match_api_key api_key rest)"

definition resolve_api_key_principal :: "string option \<Rightarrow> machine_auth_settings \<Rightarrow> token_error + dict option" where
  "resolve_api_key_principal api_key ms =
     (if \<not> API_KEY_ENABLED ms \<or> api_key = None then Inr None else match_api_key (the api_key) (API_KEY_PRINCIPALS ms))"

section \<open>Request dependencies\<close>

definition get_current_user :: "'u auth_env \<Rightarrow> instant \<Rightarrow> string \<Rightarrow> 'u auth_state \<Rightarrow> token_error + dict" where
  "get_current_user env now token st =
     bind_sum (verify_token (ae_jwt env) (ae_crypt env) now token ACCESS (au_blacklist st)) (\<lambda>data.
       case data of
         None \<Rightarrow> Inl (Unauthorized ''User not authenticated.'')
       | Some s \<Rightarrow> (case find_user (ae_users env) (au_users st) s of
                     None \<Rightarrow> Inl (Unauthorized ''User not authenticated.'')
                   | Some user \<Rightarrow> Inr (us_data user)))"

definition partition_space :: "string \<Rightarrow> string \<times> string" where
  "partition_space s = partition_at (CHR '' '') s"

definition get_current_principal ::
  "'u auth_env \<Rightarrow> machine_auth_settings \<Rightarrow> (string \<Rightarrow> string option) \<Rightarrow> instant \<Rightarrow> 'u auth_state \<Rightarrow> token_error + dict" where
  "get_current_principal env ms header now st =
     (case header (API_KEY_HEADER_NAME ms) of
        Some api_key \<Rightarrow>
          bind_sum (resolve_api_key_principal (Some api_key) ms) (\<lambda>p.
            case p of None \<Rightarrow> Inl (Unauthorized ''Invalid API key.'') | Some payload \<Rightarrow> Inr payload)
      | None \<Rightarrow>
          if truthy_list (header ''Authorization'')
          then (case partition_space (the (header ''Authorization'')) of
                  (token_type, token_value) \<Rightarrow>
                    if py_lower token_type \<noteq> ''bearer'' \<or> token_value = []
                    then Inl (Unauthorized ''Invalid Authorization header.'')
                    else get_current_user env now token_value st)
          else Inl (Unauthorized ''Authentication required.''))"

text \<open>Every exception of the look-up is logged and turned into no user.\<close>

definition get_optional_user ::
  "'u auth_env \<Rightarrow> (string \<Rightarrow> string option) \<Rightarrow> instant \<Rightarrow> 'u auth_state \<Rightarrow> dict option" where
  "get_optional_user env header now st =
     (if \<not> truthy_list (header ''Authorization'') then None
      else (case partition_space (the (header ''Authorization'')) of
              (token_type, token_value) \<Rightarrow>
                if py_lower token_type \<noteq> ''bearer'' \<or> token_value = [] then None
                else (case verify_token (ae_jwt env) (ae_crypt env) now token_value ACCESS (au_blacklist st) of
                        Inl e \<Rightarrow> None
                      | Inr None \<Rightarrow> None
                      | Inr (Some s) \<Rightarrow> (case get_current_user env now token_value st of Inl e \<Rightarrow> None | Inr u \<Rightarrow> Some u))))"

datatype dependency_error = Auth_Token token_error | Auth_Role auth_error

definition get_current_superuser :: "(json \<Rightarrow> string) \<Rightarrow> dict \<Rightarrow> auth_error + dict" where
  "get_current_superuser rep current_user =
     bind_sum (ensure_roles rep DEFAULT_PERMISSION_POLICY
         (Resolved (build_subject rep DEFAULT_PERMISSION_POLICY current_user)) [JStr ''admin''] False None)
       (\<lambda>_. Inr current_user)"

definition require_roles ::
  "(json \<Rightarrow> string) \<Rightarrow> string list \<Rightarrow> bool \<Rightarrow> permission_policy \<Rightarrow> token_error + dict \<Rightarrow> dependency_error + dict" where
  "require_roles rep roles require_all p who =
     (case who of
        Inl e \<Rightarrow> Inl (Auth_Token e)
      | Inr user \<Rightarrow>
          bind_sum (map_sum Auth_Role id (ensure_roles rep p (Resolved (build_subject rep p user)) (map JStr roles) require_all None))
            (\<lambda>_. Inr user))"

definition require_permissions ::
  "(json \<Rightarrow> string) \<Rightarrow> string list \<Rightarrow> bool \<Rightarrow> permission_policy \<Rightarrow> token_error + dict \<Rightarrow> dependency_error + dict" where
  "require_permissions rep permissions require_all p who =
     (case who of
        Inl e \<Rightarrow> Inl (Auth_Token e)
      | Inr user \<Rightarrow>
          bind_sum (map_sum Auth_Role id
              (ensure_permissions rep p (Resolved (build_subject rep p user)) (map JStr permissions) require_all None))
            (\<lambda>_. Inr user))"

definition require_admin_access where
  "require_admin_access rep = require_permissions rep [''platform:admin:access''] True"

definition require_internal_access where
  "require_internal_access rep = require_permissions rep [''platform:internal:access''] True"

end
