(* ===== verification/Token_Theorems.thy ===== *)
theory Token_Theorems
  imports Auth_Service
begin

text \<open>
  Properties of tokens: keys can be rotated, a refresh token is consumed once, and when a
  revoked token stays revoked.  \<open>jwt_roundtrip\<close> and \<open>jwt_checks_expiry\<close> state the documented
  behaviour of the JWT library that a theorem relies on.
\<close>

section \<open>The library\<close>

fun json_of_claim :: "claim \<Rightarrow> json" where
  "json_of_claim (Plain j) = j"
| "json_of_claim (Moment t) = JInt (t div 1000000)"

definition claims_valid :: "(string \<times> claim) list \<Rightarrow> decode_options \<Rightarrow> instant \<Rightarrow> bool" where
  "claims_valid claims opts now \<longleftrightarrow>
     (case map_of claims ''exp'' of Some (Moment t) \<Rightarrow> now div 1000000 \<le> t div 1000000 | _ \<Rightarrow> True) \<and>
     (do_verify_aud opts \<longrightarrow> map_of claims ''aud'' = map_option (Plain \<circ> JStr) (do_audience opts)) \<and>
     (do_verify_iss opts \<longrightarrow> map_of claims ''iss'' = map_option (Plain \<circ> JStr) (do_issuer opts))"

text \<open>An encoded token carries its key id, and decodes under its own key, while it is valid,
  to the claims it was made of.\<close>

definition jwt_roundtrip :: "jwt_lib \<Rightarrow> (string \<times> claim) list \<Rightarrow> bool" where
  "jwt_roundtrip lib claims \<longleftrightarrow> (\<forall>secret alg kid.
     (\<exists>h. jl_header lib (jl_encode lib claims secret alg kid) = Inr h \<and> dict_get h ''kid'' JNull = JStr kid) \<and>
     (\<forall>opts now. claims_valid claims opts now \<longrightarrow>
        jl_decode lib (jl_encode lib claims secret alg kid) secret alg opts now =
          Inr (map (\<lambda>(k, c). (k, json_of_claim c)) claims)))"

text \<open>No token is accepted once the second of its expiry has passed.\<close>

definition jwt_checks_expiry :: "jwt_lib \<Rightarrow> bool" where
  "jwt_checks_expiry lib \<longleftrightarrow> (\<forall>token secret alg opts now payload e.
     jl_decode lib token secret alg opts now = Inr payload \<and> dict_get payload ''exp'' JNull = JInt e \<longrightarrow> now div 1000000 \<le> e)"

section \<open>Key rotation\<close>

lemma map_of_fold_update:
  "map_of (fold (\<lambda>kv ring. AList.update (fst kv) (snd kv) ring) kvs ring) k =
     (case map_of (rev kvs) k of Some v \<Rightarrow> Some v | None \<Rightarrow> map_of ring k)"
  by (induction kvs arbitrary: ring) (auto split: option.split simp: map_add_def)

lemma key_ring_lookup:
  "map_of (get_jwt_key_ring cs) k =
     (case map_of (rev (JWT_VERIFICATION_KEYS cs)) k of Some v \<Rightarrow> Some v
      | None \<Rightarrow> if k = JWT_ACTIVE_KEY_ID cs then Some (SECRET_KEY cs) else None)"
  by (simp add: get_jwt_key_ring_def map_of_fold_update split: option.split)

lemma try_one_secret: "try_secrets lib token cs now [secret] None =
    jl_decode lib token secret (ALGORITHM cs) (build_jwt_decode_kwargs cs) now"
  by (simp split: sum.split)

lemma decode_by_kid:
  assumes "jl_header lib token = Inr h" "dict_get h ''kid'' JNull = JStr kid" "map_of (get_jwt_key_ring cs) kid = Some secret"
  shows "decode_token_payload lib token cs now = jl_decode lib token secret (ALGORITHM cs) (build_jwt_decode_kwargs cs) now"
  using assms by (simp add: decode_token_payload_def get_jwt_verification_secrets_def try_one_secret del: try_secrets.simps)

lemma map_of_map_json: "map_of (map (\<lambda>(k, c). (k, json_of_claim c)) claims) k = map_option json_of_claim (map_of claims k)"
  by (induction claims) auto

text \<open>The settings after a rotation: the old key is among the verification keys under its
  old id, issuer, audience and algorithm are the same.\<close>

definition rotated_from :: "crypt_settings \<Rightarrow> crypt_settings \<Rightarrow> bool" where
  "rotated_from old new \<longleftrightarrow> distinct (map fst (JWT_VERIFICATION_KEYS new)) \<and>
     (JWT_ACTIVE_KEY_ID old, SECRET_KEY old) \<in> set (JWT_VERIFICATION_KEYS new) \<and>
     ALGORITHM new = ALGORITHM old \<and> JWT_ISSUER new = JWT_ISSUER old \<and> JWT_AUDIENCE new = JWT_AUDIENCE old"

lemma rotated_lookup:
  assumes "rotated_from old new"
  shows "map_of (get_jwt_key_ring new) (JWT_ACTIVE_KEY_ID old) = Some (SECRET_KEY old)"
proof -
  have "distinct (map fst (rev (JWT_VERIFICATION_KEYS new)))" using assms by (simp add: rotated_from_def rev_map[symmetric])
  moreover have "(JWT_ACTIVE_KEY_ID old, SECRET_KEY old) \<in> set (rev (JWT_VERIFICATION_KEYS new))"
    using assms by (simp add: rotated_from_def)
  ultimately have "map_of (rev (JWT_VERIFICATION_KEYS new)) (JWT_ACTIVE_KEY_ID old) = Some (SECRET_KEY old)"
    by (simp add: map_of_eq_Some_iff)
  then show ?thesis by (simp add: key_ring_lookup)
qed

abbreviation access_claims :: "string \<Rightarrow> instant \<Rightarrow> crypt_settings \<Rightarrow> (string \<times> claim) list" where
  "access_claims subject expire cs \<equiv> build_token_claims [(''sub'', JStr subject)] expire ACCESS cs []"

lemma access_claims_lookup:
  "map_of (access_claims subject expire cs) ''sub'' = Some (Plain (JStr subject))"
  "map_of (access_claims subject expire cs) ''exp'' = Some (Moment expire)"
  "map_of (access_claims subject expire cs) ''token_type'' = Some (Plain (JStr ''access''))"
  "map_of (access_claims subject expire cs) ''aud'' = map_option (Plain \<circ> JStr) (JWT_AUDIENCE cs)"
  "map_of (access_claims subject expire cs) ''iss'' = map_option (Plain \<circ> JStr) (JWT_ISSUER cs)"
  by (simp_all add: build_token_claims_def Let_def split: option.split)

lemma token_still_verifies:
  assumes "rotated_from old new" and "0 < lifetime"
    and "jwt_roundtrip lib (access_claims subject (issued + lifetime) old)"
    and "token = create_access_token lib [(''sub'', JStr subject)] (Some lifetime) old issued"
    and "now div 1000000 \<le> (issued + lifetime) div 1000000" and "\<not> blacklist_exists t token"
  shows "verify_token lib new now token ACCESS t = Inr (Some subject) \<and> verify_token lib new now token REFRESH t = Inr None"
proof -
  let ?c = "access_claims subject (issued + lifetime) old"
  have tk: "token = jl_encode lib ?c (SECRET_KEY old) (ALGORITHM old) (JWT_ACTIVE_KEY_ID old)"
    using assms(2,4) by (simp add: create_access_token_def)
  obtain h where h: "jl_header lib token = Inr h" "dict_get h ''kid'' JNull = JStr (JWT_ACTIVE_KEY_ID old)"
    using assms(3) unfolding tk jwt_roundtrip_def by blast
  have "claims_valid ?c (build_jwt_decode_kwargs new) now"
    using assms(1,5) by (simp add: claims_valid_def access_claims_lookup build_jwt_decode_kwargs_def rotated_from_def)
  then have "jl_decode lib token (SECRET_KEY old) (ALGORITHM old) (build_jwt_decode_kwargs new) now =
      Inr (map (\<lambda>(k, c). (k, json_of_claim c)) ?c)"
    using assms(3) unfolding tk jwt_roundtrip_def by blast
  then have "decode_token_payload lib token new now = Inr (map (\<lambda>(k, c). (k, json_of_claim c)) ?c)"
    using decode_by_kid[OF h rotated_lookup[OF assms(1)]] assms(1) by (simp add: rotated_from_def)
  then show ?thesis
    using assms(6) by (simp add: verify_token_def dict_get_def map_of_map_json access_claims_lookup)
qed

text \<open>C16: an access token survives a rotation of the signing key.  Issued under the old
  settings, it verifies under the new ones to the same subject until the second in which
  it expires, as long as the old key is kept under its id and the token is not
  blacklisted; and it is never accepted as a refresh token.\<close>

theorem token_survives_key_rotation:
  assumes "rotated_from old new" and "0 < lifetime"
    and "jwt_roundtrip lib (access_claims subject (issued + lifetime) old)"
    and "token = create_access_token lib [(''sub'', JStr subject)] (Some lifetime) old issued"
    and "now div 1000000 \<le> (issued + lifetime) div 1000000" and "\<not> blacklist_exists t token"
  shows "verify_token lib new now token ACCESS t = Inr (Some subject) \<and> verify_token lib new now token REFRESH t = Inr None"
  using token_still_verifies[OF assms] .

definition demo_crypt :: crypt_settings where
  "demo_crypt = \<lparr> SECRET_KEY = ''s1'', ALGORITHM = ''HS256'', ACCESS_TOKEN_EXPIRE_MINUTES = 30, REFRESH_TOKEN_EXPIRE_DAYS = 7,
     PASSWORD_HASH_SCHEME_is_bcrypt = True, PASSWORD_HASH_SCHEME_text = ''bcrypt'', PASSWORD_BCRYPT_ROUNDS = 12,
     PASSWORD_HASH_REHASH_ON_LOGIN = True, JWT_ISSUER = None, JWT_AUDIENCE = None, JWT_ACTIVE_KEY_ID = ''k1'',
     JWT_VERIFICATION_KEYS = [] \<rparr>"

definition demo_jwt :: "dict \<Rightarrow> int \<Rightarrow> jwt_lib" where
  "demo_jwt payload e =
     \<lparr> jl_encode = (\<lambda>claims secret alg kid. kid), jl_header = (\<lambda>token. Inr [(''kid'', JStr token)]),
       jl_decode = (\<lambda>token secret alg opts now. if now div 1000000 \<le> e then Inr payload else Inl ''Signature has expired.'') \<rparr>"

theorem token_survives_key_rotation_witness:
  "verify_token (demo_jwt [(''sub'', JStr ''ada''), (''exp'', JInt 60), (''token_type'', JStr ''access'')] 60)
     (demo_crypt\<lparr> SECRET_KEY := ''s2'', JWT_ACTIVE_KEY_ID := ''k2'', JWT_VERIFICATION_KEYS := [(''k1'', ''s1'')] \<rparr>)
     59000000 ''k1'' ACCESS \<lparr> tb_next = 1, tb_rows = [] \<rparr> = Inr (Some ''ada'')"
proof -
  let ?lib = "demo_jwt [(''sub'', JStr ''ada''), (''exp'', JInt 60), (''token_type'', JStr ''access'')] 60"
    and ?new = "demo_crypt\<lparr> SECRET_KEY := ''s2'', JWT_ACTIVE_KEY_ID := ''k2'', JWT_VERIFICATION_KEYS := [(''k1'', ''s1'')] \<rparr>"
  have "jwt_roundtrip ?lib (access_claims ''ada'' (0 + 60000000) demo_crypt)"
    by (auto simp: jwt_roundtrip_def demo_jwt_def dict_get_def claims_valid_def build_token_claims_def demo_crypt_def)
  moreover have "rotated_from demo_crypt ?new" by (simp add: rotated_from_def demo_crypt_def)
  moreover have "''k1'' = create_access_token ?lib [(''sub'', JStr ''ada'')] (Some 60000000) demo_crypt 0"
    by (simp add: create_access_token_def demo_jwt_def demo_crypt_def)
  ultimately show ?thesis
    using token_survives_key_rotation[of demo_crypt ?new 60000000 ?lib "''ada''" 0 "''k1''" 59000000 "\<lparr> tb_next = 1, tb_rows = [] \<rparr>"]
    by (simp add: blacklist_exists_def find_row_def)
qed

section \<open>Revocation\<close>

text \<open>What happens to the blacklist after a revocation: other tokens are revoked, at some
  instant, and the clean-up runs, with its own clock or an explicit cutoff.\<close>

datatype revocation_event = Revoke instant string | Cleanup instant

fun revocation_step :: "jwt_lib \<Rightarrow> (instant \<Rightarrow> int) \<Rightarrow> crypt_settings \<Rightarrow> revocation_event \<Rightarrow> blacklist \<Rightarrow> blacklist" where
  "revocation_step lib off cs (Revoke now token) t =
     (case blacklist_token lib off cs now token t of Inl e \<Rightarrow> t | Inr t' \<Rightarrow> t')"
| "revocation_step lib off cs (Cleanup now) t = snd (cleanup_expired_token_blacklist_entries now None t)"

definition holds_row :: "blacklist \<Rightarrow> string \<Rightarrow> instant \<Rightarrow> bool" where
  "holds_row t token x \<longleftrightarrow> (\<exists>i. (i, \<lparr> bl_token = token, bl_expires_at = x \<rparr>) \<in> set (tb_rows t))"

lemma exists_iff: "blacklist_exists t token \<longleftrightarrow> (\<exists>row \<in> set (tb_rows t). bl_token (snd row) = token)"
  using find_row_None_iff[of bl_token t token] by (auto simp: blacklist_exists_def)

lemma holds_row_exists: "holds_row t token x \<Longrightarrow> blacklist_exists t token"
  by (force simp: holds_row_def exists_iff)

lemma blacklist_create_rows:
  "blacklist_create t row = Inr t' \<Longrightarrow> tb_rows t' = tb_rows t @ [(tb_next t, row)] \<and> \<not> blacklist_exists t (bl_token row)"
  by (auto simp: blacklist_create_def insert_unique_def blacklist_exists_def split: if_splits)

lemma cleanup_rows: "set (tb_rows (snd (cleanup_expired_token_blacklist_entries now None t))) =
    {row \<in> set (tb_rows t). now \<le> bl_expires_at (snd row)}"
  by (auto simp: cleanup_expired_token_blacklist_entries_def delete_expired_token_blacklist_entries_def Let_def)

lemma blacklist_token_rows:
  assumes "blacklist_token lib off cs now token t = Inr t'"
  shows "set (tb_rows t) \<subseteq> set (tb_rows t')"
    and "decode_token_payload lib token cs now = Inr p \<Longrightarrow> dict_get p ''exp'' JNull = JInt e \<Longrightarrow>
         holds_row t' token (seconds e + off (seconds e))"
  using assms by (auto simp: blacklist_token_def Let_def holds_row_def local_from_timestamp_def
      split: sum.splits if_splits option.splits dest!: blacklist_create_rows)

lemma revocation_step_keeps:
  assumes "holds_row t token x" "\<forall>c. ev = Cleanup c \<longrightarrow> c \<le> x"
  shows "holds_row (revocation_step lib off cs ev t) token x"
proof (cases ev)
  case (Revoke now other)
  then show ?thesis
    using assms(1) blacklist_token_rows(1)[of lib off cs now other t] by (auto simp: holds_row_def split: sum.split)
next
  case (Cleanup c)
  then show ?thesis using assms by (simp add: holds_row_def cleanup_rows)
qed

lemma revocation_run_keeps:
  assumes "holds_row t token x" "\<forall>c. Cleanup c \<in> set evs \<longrightarrow> c \<le> x"
  shows "holds_row (fold (revocation_step lib off cs) evs t) token x"
  using assms by (induction evs arbitrary: t) (simp_all add: revocation_step_keeps)

lemma try_secrets_Inr: "try_secrets lib token cs now secrets e = Inr p \<Longrightarrow>
    \<exists>secret \<in> set secrets. jl_decode lib token secret (ALGORITHM cs) (build_jwt_decode_kwargs cs) now = Inr p"
  by (induction secrets arbitrary: e) (auto split: sum.splits option.splits)

lemma decode_not_expired:
  assumes "jwt_checks_expiry lib" "decode_token_payload lib token cs now = Inr p" "dict_get p ''exp'' JNull = JInt e"
  shows "now div 1000000 \<le> e"
proof -
  obtain secrets where "try_secrets lib token cs now secrets None = Inr p"
    using assms(2) by (auto simp: decode_token_payload_def bind_sum_Inr_iff)
  then obtain secret where "jl_decode lib token secret (ALGORITHM cs) (build_jwt_decode_kwargs cs) now = Inr p"
    using try_secrets_Inr by blast
  with assms(1,3) show ?thesis unfolding jwt_checks_expiry_def by blast
qed

text \<open>C17: a revoked token is refused for good on a server whose local time is at least a
  second ahead of UTC: whatever is revoked or cleaned up afterwards, at every instant after
  the last clean-up \<open>verify_token\<close> finds no subject in it, because its row outlives the
  token.\<close>

theorem revoked_token_stays_revoked:
  assumes "jwt_checks_expiry lib" and "1000000 \<le> off (seconds e)"
    and "decode_token_payload lib token cs t0 = Inr p" and "dict_get p ''exp'' JNull = JInt e"
    and "\<And>t p'. decode_token_payload lib token cs t = Inr p' \<Longrightarrow> p' = p"
    and "blacklist_token lib off cs t0 token bl = Inr bl'"
    and "\<forall>c. Cleanup c \<in> set evs \<longrightarrow> c \<le> now"
  shows "verify_token lib cs now token tt (fold (revocation_step lib off cs) evs bl') = Inr None"
proof (cases "\<exists>c. Cleanup c \<in> set evs \<and> seconds e + off (seconds e) < c")
  case True
  then have "seconds e + 1000000 < now" using assms(2,7) by force
  then have "\<not> now div 1000000 \<le> e" by (simp add: seconds_def)
  then have "\<nexists>p'. decode_token_payload lib token cs now = Inr p'"
    using decode_not_expired[OF assms(1)] assms(4,5) by metis
  then show ?thesis by (cases "decode_token_payload lib token cs now") (simp_all add: verify_token_def)
next
  case False
  then have "\<forall>c. Cleanup c \<in> set evs \<longrightarrow> c \<le> seconds e + off (seconds e)" by force
  from holds_row_exists[OF revocation_run_keeps[OF blacklist_token_rows(2)[OF assms(6,3,4)] this]]
  show ?thesis by (simp add: verify_token_def)
qed

text \<open>C18: the expiry of a revoked token is stored in local time and compared with UTC.  On a
  server west of UTC, or in the last second of the token's life on a server that runs on
  UTC, a clean-up between the stored local expiry and the true one deletes the row, and
  the revoked token is accepted again.\<close>

theorem revoked_token_readmitted:
  assumes "decode_token_payload lib token cs t0 = Inr p" and "dict_get p ''exp'' JNull = JInt e"
    and "blacklist_token lib off cs t0 token bl = Inr bl'"
    and "decode_token_payload lib token cs now = Inr p"
    and "dict_get p ''sub'' JNull = JStr subject" and "dict_get p ''token_type'' JNull = JStr (token_type_value tt)"
    and "seconds e + off (seconds e) < cutoff" and "cutoff \<le> now"
  shows "verify_token lib cs now token tt bl' = Inr None \<and>
    verify_token lib cs now token tt (revocation_step lib off cs (Cleanup cutoff) bl') = Inr (Some subject)"
proof -
  have create: "blacklist_create bl \<lparr> bl_token = token, bl_expires_at = seconds e + off (seconds e) \<rparr> = Inr bl'"
    using assms(1-3) by (simp add: blacklist_token_def local_from_timestamp_def)
  obtain i row where rows: "tb_rows bl' = tb_rows bl @ [(i, row)]" "\<not> blacklist_exists bl token"
      "bl_token row = token" "bl_expires_at row = seconds e + off (seconds e)"
    using blacklist_create_rows[OF create] by (metis blacklist_row.select_convs)
  then have "blacklist_exists bl' token" by (simp add: exists_iff)
  moreover have "\<not> blacklist_exists (revocation_step lib off cs (Cleanup cutoff) bl') token"
    using rows assms(7) by (auto simp: exists_iff cleanup_rows)
  ultimately show ?thesis using assms(4-6) by (simp add: verify_token_def del: revocation_step.simps)
qed

definition demo_payload :: dict where
  "demo_payload = [(''sub'', JStr ''ada''), (''exp'', JInt 60), (''token_type'', JStr ''refresh'')]"

lemma demo_decode: "decode_token_payload (demo_jwt demo_payload 60) ''k1'' demo_crypt t =
    (if t div 1000000 \<le> 60 then Inr demo_payload else Inl ''Signature has expired.'')"
  by (simp add: decode_token_payload_def get_jwt_verification_secrets_def demo_jwt_def dict_get_def
      get_jwt_key_ring_def demo_crypt_def)

lemma demo_exp: "dict_get demo_payload ''exp'' JNull = JInt 60"
    "dict_get demo_payload ''sub'' JNull = JStr ''ada''" "dict_get demo_payload ''token_type'' JNull = JStr ''refresh''"
  by (simp_all add: demo_payload_def dict_get_def)

definition empty_blacklist :: blacklist where
  "empty_blacklist = \<lparr> tb_next = 1, tb_rows = [] \<rparr>"

lemma demo_revoke: "\<exists>bl'. blacklist_token (demo_jwt demo_payload 60) off demo_crypt 0 ''k1'' empty_blacklist = Inr bl'"
  unfolding blacklist_token_def demo_decode
  by (simp add: demo_payload_def dict_get_def local_from_timestamp_def blacklist_create_def insert_unique_def
      find_row_def empty_blacklist_def)

theorem revoked_token_stays_revoked_witness:
  "\<exists>bl'. blacklist_token (demo_jwt demo_payload 60) (\<lambda>_. 7200000000) demo_crypt 0 ''k1'' empty_blacklist = Inr bl' \<and>
     verify_token (demo_jwt demo_payload 60) demo_crypt 59000000 ''k1'' REFRESH
       (fold (revocation_step (demo_jwt demo_payload 60) (\<lambda>_. 7200000000) demo_crypt) [Cleanup 59000000] bl') = Inr None"
proof -
  have c: "jwt_checks_expiry (demo_jwt demo_payload 60)"
    by (auto simp: jwt_checks_expiry_def demo_jwt_def demo_payload_def dict_get_def split: if_splits)
  obtain bl' where b: "blacklist_token (demo_jwt demo_payload 60) (\<lambda>_. 7200000000) demo_crypt 0 ''k1'' empty_blacklist = Inr bl'"
    using demo_revoke by blast
  have d: "decode_token_payload (demo_jwt demo_payload 60) ''k1'' demo_crypt 0 = Inr demo_payload"
      "\<And>t p'. decode_token_payload (demo_jwt demo_payload 60) ''k1'' demo_crypt t = Inr p' \<Longrightarrow> p' = demo_payload"
    by (simp_all add: demo_decode split: if_splits)
  have "verify_token (demo_jwt demo_payload 60) demo_crypt 59000000 ''k1'' REFRESH
      (fold (revocation_step (demo_jwt demo_payload 60) (\<lambda>_. 7200000000) demo_crypt) [Cleanup 59000000] bl') = Inr None"
    by (rule revoked_token_stays_revoked[OF c _ d(1) demo_exp(1) d(2) b]) simp_all
  with b show ?thesis by blast
qed

theorem revoked_token_readmitted_witness:
  "\<exists>bl'. blacklist_token (demo_jwt demo_payload 60) (\<lambda>_. - 18000000000) demo_crypt 0 ''k1'' empty_blacklist = Inr bl' \<and>
     verify_token (demo_jwt demo_payload 60) demo_crypt 1000000 ''k1'' REFRESH
       (revocation_step (demo_jwt demo_payload 60) (\<lambda>_. - 18000000000) demo_crypt (Cleanup 1000000) bl') = Inr (Some ''ada'')"
proof -
  obtain bl' where b: "blacklist_token (demo_jwt demo_payload 60) (\<lambda>_. - 18000000000) demo_crypt 0 ''k1'' empty_blacklist = Inr bl'"
    using demo_revoke by blast
  with revoked_token_readmitted[of _ "''k1''" demo_crypt 0 demo_payload 60, OF _ _ b, of 1000000 "''ada''" REFRESH 1000000]
  show ?thesis by (auto simp: demo_decode) (simp add: demo_payload_def dict_get_def seconds_def)
qed

section \<open>Sessions\<close>

text \<open>Requests to the authentication service, each at its own instant and with its own UUID.\<close>

datatype auth_event =
    Login string string
  | Refresh "string option"
  | Logout "string option" string

fun auth_step :: "'u auth_env \<Rightarrow> instant \<times> string \<times> auth_event \<Rightarrow> 'u auth_state \<Rightarrow> (token_error + dict) \<times> 'u auth_state" where
  "auth_step env (now, uuid, Login u p) st = login env now uuid u p st"
| "auth_step env (now, uuid, Refresh tk) st = refresh_access_token env now uuid tk st"
| "auth_step env (now, uuid, Logout r a) st = logout env now r a st"

fun auth_run :: "'u auth_env \<Rightarrow> (instant \<times> string \<times> auth_event) list \<Rightarrow> 'u auth_state \<Rightarrow> (token_error + dict) list" where
  "auth_run env [] st = []"
| "auth_run env (e # es) st = (case auth_step env e st of (r, st') \<Rightarrow> r # auth_run env es st')"

definition refreshes :: "'u auth_env \<Rightarrow> string \<Rightarrow> (instant \<times> string \<times> auth_event) list \<Rightarrow> 'u auth_state \<Rightarrow> nat" where
  "refreshes env tk es st =
     length (filter (\<lambda>(e, r). snd (snd e) = Refresh (Some tk) \<and> is_ok r) (zip es (auth_run env es st)))"

lemma blacklist_tokens_grow:
  "set (tb_rows t) \<subseteq> set (tb_rows (snd (blacklist_tokens lib off cs now a r t)))"
  by (auto simp: blacklist_tokens_def dest: blacklist_token_rows(1)[THEN subsetD] split: sum.split)

lemma rotate_rows:
  assumes "rotate_refresh_token lib off cs now uuid tk subject t = Inr (new, t')"
  shows "blacklist_token lib off cs now tk t = Inr t'"
  using assms by (auto simp: rotate_refresh_token_def split: sum.splits token_error.splits)

lemma auth_step_grows: "set (tb_rows (au_blacklist st)) \<subseteq> set (tb_rows (au_blacklist (snd (auth_step env e st))))"
proof -
  obtain now uuid ev where e: "e = (now, uuid, ev)" by (cases e)
  show ?thesis
  proof (cases ev)
    case (Login u p)
    then show ?thesis by (auto simp: e login_def Let_def split: prod.split sum.split option.split)
  next
    case (Refresh tk)
    then show ?thesis
      by (auto simp: e refresh_access_token_def dest!: rotate_rows dest: blacklist_token_rows(1)[THEN subsetD]
          split: prod.split sum.split option.split)
  next
    case (Logout r a)
    then show ?thesis
      using blacklist_tokens_grow[of "au_blacklist st" "ae_jwt env" "ae_utc_offset env" "ae_crypt env" now a "the r"]
      by (auto simp: e logout_def split: prod.split option.split)
  qed
qed

lemma exists_mono: "set (tb_rows t) \<subseteq> set (tb_rows t') \<Longrightarrow> blacklist_exists t tk \<Longrightarrow> blacklist_exists t' tk"
  by (auto simp: exists_iff)

lemma blacklisted_no_refresh:
  assumes "blacklist_exists (au_blacklist st) tk"
  shows "refreshes env tk es st = 0"
  using assms
proof (induction es arbitrary: st)
  case (Cons e es)
  obtain r st' where s: "auth_step env e st = (r, st')" by force
  have "blacklist_exists (au_blacklist st') tk"
    using exists_mono[OF auth_step_grows Cons.prems, of env e] s by simp
  moreover have "\<not> (snd (snd e) = Refresh (Some tk) \<and> is_ok r)"
    using s Cons.prems by (cases e) (auto simp: refresh_access_token_def verify_token_def split: if_splits)
  ultimately show ?case using Cons.IH[of st'] by (simp add: refreshes_def s split: prod.split)
qed (simp add: refreshes_def)

text \<open>C10: a refresh token is good for one refresh.  Over any sequence of logins, refreshes and
  logouts at any instants, at most one refresh with a given token succeeds, provided the
  token carries an expiry, as every token that the service issues does.\<close>

theorem refresh_token_is_single_use:
  assumes "\<And>now p. decode_token_payload (ae_jwt env) tk (ae_crypt env) now = Inr p \<Longrightarrow> \<exists>e. dict_get p ''exp'' JNull = JInt e"
  shows "refreshes env tk es st \<le> 1"
proof (induction es arbitrary: st)
  case (Cons e es)
  obtain r st' where s: "auth_step env e st = (r, st')" by force
  show ?case
  proof (cases "snd (snd e) = Refresh (Some tk) \<and> is_ok r")
    case True
    then obtain now uuid where e: "e = (now, uuid, Refresh (Some tk))" by (cases e) auto
    with s True obtain t new subject where
      rot: "rotate_refresh_token (ae_jwt env) (ae_utc_offset env) (ae_crypt env) now uuid tk subject (au_blacklist st) = Inr (new, t)"
      and t: "au_blacklist st' = t"
      by (auto simp: refresh_access_token_def split: if_splits sum.splits option.splits)
    from rotate_rows[OF rot] have b: "blacklist_token (ae_jwt env) (ae_utc_offset env) (ae_crypt env) now tk (au_blacklist st) = Inr t" .
    then obtain p where p: "decode_token_payload (ae_jwt env) tk (ae_crypt env) now = Inr p"
      by (auto simp: blacklist_token_def split: sum.splits)
    with assms obtain x where "dict_get p ''exp'' JNull = JInt x" by blast
    from holds_row_exists[OF blacklist_token_rows(2)[OF b p this]] t have "blacklist_exists (au_blacklist st') tk" by simp
    with blacklisted_no_refresh[OF this, of env es] True s show ?thesis by (auto simp: refreshes_def)
  next
    case False
    with Cons.IH[of st'] s show ?thesis by (auto simp: refreshes_def)
  qed
qed (simp add: refreshes_def)

text \<open>A logout is not atomic.  When the access token is good and the refresh token does
  not decode, the access token has been revoked although the caller is told that the token
  is invalid and the cookie stays; and a second logout with the same access token ends in
  the database's \<open>IntegrityError\<close>, which the service does not translate.\<close>

theorem logout_is_not_atomic:
  assumes "refresh_token \<noteq> []"
    and "decode_token_payload (ae_jwt env) access_token (ae_crypt env) now = Inr p" and "dict_get p ''exp'' JNull = JInt e"
    and "decode_token_payload (ae_jwt env) refresh_token (ae_crypt env) now = Inl why"
    and "\<not> blacklist_exists (au_blacklist st) access_token"
  shows "\<exists>st'. logout env now (Some refresh_token) access_token st = (Inl (Unauthorized ''Invalid token.''), st') \<and>
    blacklist_exists (au_blacklist st') access_token \<and> au_response st' = au_response st \<and>
    fst (logout env now (Some refresh_token) access_token st') = Inl Token_IntegrityError"
proof -
  let ?row = "\<lparr> bl_token = access_token, bl_expires_at = seconds e + ae_utc_offset env (seconds e) \<rparr>"
  have b: "blacklist_token (ae_jwt env) (ae_utc_offset env) (ae_crypt env) now access_token t = blacklist_create t ?row" for t
    using assms(2,3) by (simp add: blacklist_token_def local_from_timestamp_def)
  obtain t1 where c: "blacklist_create (au_blacklist st) ?row = Inr t1"
    using assms(5) by (simp add: blacklist_create_def insert_unique_def blacklist_exists_def)
  have x: "blacklist_exists t1 access_token" using blacklist_create_rows[OF c] by (simp add: exists_iff)
  have r: "blacklist_token (ae_jwt env) (ae_utc_offset env) (ae_crypt env) now refresh_token t1 = Inl (JWTError why)"
    using assms(4) by (simp add: blacklist_token_def)
  have "blacklist_create t1 ?row = Inl Token_IntegrityError"
    using x by (simp add: blacklist_create_def insert_unique_def blacklist_exists_def)
  with assms(1) b c r x show ?thesis by (simp add: logout_def blacklist_tokens_def)
qed

definition demo_env :: "dict \<Rightarrow> int \<Rightarrow> unit auth_env" where
  "demo_env payload e =
     \<lparr> ae_jwt = demo_jwt payload e,
       ae_bcrypt = \<lparr> bc_checkpw = (\<lambda>p h. Inr (p = h)), bc_hashpw = (\<lambda>p n. p) \<rparr>,
       ae_users = \<lparr> ur_by_email = (\<lambda>u s. None), ur_by_username = (\<lambda>u s. None), ur_set_hash = (\<lambda>u n h. u) \<rparr>,
       ae_utc_offset = (\<lambda>_. 0), ae_crypt = demo_crypt,
       ae_cookies = \<lparr> REFRESH_TOKEN_COOKIE_NAME = ''refresh_token'', REFRESH_TOKEN_COOKIE_PATH = ''/'',
         REFRESH_TOKEN_COOKIE_DOMAIN = None, REFRESH_TOKEN_COOKIE_SECURE = True, REFRESH_TOKEN_COOKIE_HTTPONLY = True,
         REFRESH_TOKEN_COOKIE_SAMESITE = ''lax'' \<rparr> \<rparr>"

definition demo_session :: "unit auth_state" where
  "demo_session = \<lparr> au_users = (), au_blacklist = empty_blacklist, au_response = [] \<rparr>"

lemma demo_env_simps [simp]: "ae_jwt (demo_env p e) = demo_jwt p e" "ae_crypt (demo_env p e) = demo_crypt"
    "ae_utc_offset (demo_env p e) = (\<lambda>_. 0)"
  by (simp_all add: demo_env_def)

theorem refresh_token_is_single_use_witness:
  "refreshes (demo_env demo_payload 60) ''k1'' [(0, ''u1'', Refresh (Some ''k1'')), (0, ''u2'', Refresh (Some ''k1''))] demo_session \<le> 1 \<and>
   is_ok (fst (auth_step (demo_env demo_payload 60) (0, ''u1'', Refresh (Some ''k1'')) demo_session))"
proof -
  have "refreshes (demo_env demo_payload 60) ''k1'' [(0, ''u1'', Refresh (Some ''k1'')), (0, ''u2'', Refresh (Some ''k1''))] demo_session \<le> 1"
    by (rule refresh_token_is_single_use) (auto simp: demo_decode demo_exp split: if_splits)
  moreover have "verify_token (demo_jwt demo_payload 60) demo_crypt 0 ''k1'' REFRESH empty_blacklist = Inr (Some ''ada'')"
    by (simp add: verify_token_def demo_decode demo_exp exists_iff) (simp add: empty_blacklist_def)
  then have "is_ok (fst (auth_step (demo_env demo_payload 60) (0, ''u1'', Refresh (Some ''k1'')) demo_session))"
    using demo_revoke[of "\<lambda>_. 0"] by (auto simp: refresh_access_token_def demo_session_def rotate_refresh_token_def)
  ultimately show ?thesis by simp
qed

text \<open>A library that knows one token only.\<close>

definition picky_jwt :: jwt_lib where
  "picky_jwt = (demo_jwt demo_payload 60)\<lparr> jl_header := (\<lambda>token. if token = ''k1'' then Inr [(''kid'', JStr token)] else Inl ''Error decoding token headers.'') \<rparr>"

theorem logout_is_not_atomic_witness:
  "\<exists>st'. logout ((demo_env demo_payload 60)\<lparr> ae_jwt := picky_jwt \<rparr>) 0 (Some ''junk'') ''k1'' demo_session =
      (Inl (Unauthorized ''Invalid token.''), st') \<and> blacklist_exists (au_blacklist st') ''k1''"
proof -
  let ?e = "(demo_env demo_payload 60)\<lparr> ae_jwt := picky_jwt \<rparr>"
  have "decode_token_payload picky_jwt ''k1'' demo_crypt 0 = Inr demo_payload"
    by (simp add: decode_token_payload_def get_jwt_verification_secrets_def picky_jwt_def demo_jwt_def dict_get_def
        get_jwt_key_ring_def demo_crypt_def)
  moreover have "decode_token_payload picky_jwt ''junk'' demo_crypt 0 = Inl ''Error decoding token headers.''"
    by (simp add: decode_token_payload_def get_jwt_verification_secrets_def picky_jwt_def)
  moreover have "\<not> blacklist_exists (au_blacklist demo_session) ''k1''"
    by (simp add: exists_iff demo_session_def empty_blacklist_def)
  ultimately show ?thesis
    using logout_is_not_atomic[of "''junk''" ?e "''k1''" 0 demo_payload 60 "''Error decoding token headers.''" demo_session]
    by (auto simp: demo_exp)
qed

end
