(* ===== verification/Cache.thy ===== *)
theory Cache
  imports Redis "HOL-Library.Sublist"
begin

text \<open>
  core/utils/cache.py: the caching decorator of endpoints.  An argument of an endpoint is
  a JSON value or an object of which only the text matters; the names of arguments are
  identifiers and a key template is one line.  The decorated function, the JSON
  serialisation and the Redis client work on a world of any type.  The phases of a request,
  between which another request can run, are definitions of their own.
\<close>

datatype kwarg = Value json | Object string

datatype cache_error =
    Cache_KeyError string
  | Cache_ValueError
  | Cache_IndexError
  | CacheIdentificationInferenceError
  | InvalidRequestError
  | MissingClientError
  | Cache_Redis exn
  | Cache_Decode exn
  | Endpoint_Error exn

section \<open>Templates\<close>

text \<open>A class or a tuple of classes, as \<open>isinstance\<close> accepts them.\<close>

datatype id_class = Int_Class | Str_Class
datatype id_type = One_Class id_class | Class_Tuple "id_class list"

definition is_instance_of :: "kwarg \<Rightarrow> id_class \<Rightarrow> bool" where
  "is_instance_of v c = (case v of
     Value (JInt i) \<Rightarrow> c = Int_Class
   | Value (JBool b) \<Rightarrow> c = Int_Class
   | Value (JStr s) \<Rightarrow> c = Str_Class
   | _ \<Rightarrow> False)"

fun is_instance :: "kwarg \<Rightarrow> id_type \<Rightarrow> bool" where
  "is_instance v (One_Class c) = is_instance_of v c"
| "is_instance v (Class_Tuple cs) = list_ex (is_instance_of v) cs"

fun infer_loop :: "(string \<times> kwarg) list \<Rightarrow> id_type \<Rightarrow> kwarg option \<Rightarrow> kwarg option" where
  "infer_loop [] ty found = found"
| "infer_loop ((arg_name, arg_value) # rest) ty found =
     infer_loop rest ty
       (if is_instance arg_value ty
        then (if ty = One_Class Int_Class \<and> sublist ''id'' arg_name then Some arg_value
              else if ty = One_Class Int_Class then found
              else if ty = One_Class Str_Class then Some arg_value
              else found)
        else found)"

definition infer_resource_id :: "(string \<times> kwarg) list \<Rightarrow> id_type \<Rightarrow> cache_error + kwarg" where
  "infer_resource_id kwargs ty =
     (case infer_loop kwargs ty None of None \<Rightarrow> Inl CacheIdentificationInferenceError | Some v \<Rightarrow> Inr v)"

text \<open>\<open>re.findall\<close> of an opening brace, the shortest text within the line, and a closing brace.\<close>

fun until_brace :: "string \<Rightarrow> (string \<times> string) option" where
  "until_brace [] = None"
| "until_brace (c # s) =
     (if c = CHR ''}'' then Some ([], s)
      else if c = CHR 0x0A then None
      else map_option (\<lambda>(d, r). (c # d, r)) (until_brace s))"

lemma until_brace_length: "until_brace s = Some (d, r) \<Longrightarrow> length r < length s"
  by (induction s arbitrary: d r) (auto split: if_splits)

function extract_data_inside_brackets :: "string \<Rightarrow> string list" where
  "extract_data_inside_brackets [] = []"
| "extract_data_inside_brackets (c # s) =
     (if c = CHR ''{''
      then (case until_brace s of
              None \<Rightarrow> extract_data_inside_brackets s
            | Some (d, r) \<Rightarrow> d # extract_data_inside_brackets r)
      else extract_data_inside_brackets s)"
  by pat_completeness auto
termination
  by (relation "measure length") (auto dest: until_brace_length)

fun construct_data_dict :: "string list \<Rightarrow> (string \<times> kwarg) list \<Rightarrow> (string \<times> kwarg) list \<Rightarrow> cache_error + (string \<times> kwarg) list" where
  "construct_data_dict [] kwargs d = Inr d"
| "construct_data_dict (key # keys) kwargs d =
     (case map_of kwargs key of
        None \<Rightarrow> Inl (Cache_KeyError key)
      | Some v \<Rightarrow> construct_data_dict keys kwargs (AList.update key v d))"

definition arg_str :: "(json \<Rightarrow> string) \<Rightarrow> kwarg \<Rightarrow> string" where
  "arg_str rep a = (case a of Value j \<Rightarrow> json_str rep j | Object t \<Rightarrow> t)"

text \<open>\<open>str.format\<close> with plain fields: doubled braces stand for themselves, single ones that
  do not enclose a field raise.\<close>

function py_format :: "(json \<Rightarrow> string) \<Rightarrow> string \<Rightarrow> (string \<times> kwarg) list \<Rightarrow> cache_error + string" where
  "py_format rep [] d = Inr []"
| "py_format rep (c # s) d =
     (if c = CHR ''{''
      then (if s \<noteq> [] \<and> hd s = CHR ''{'' then bind_sum (py_format rep (tl s) d) (\<lambda>t. Inr (CHR ''{'' # t))
            else (case until_brace s of
                    None \<Rightarrow> Inl Cache_ValueError
                  | Some (name, r) \<Rightarrow>
                      (case map_of d name of
                         None \<Rightarrow> Inl (Cache_KeyError name)
                       | Some v \<Rightarrow> bind_sum (py_format rep r d) (\<lambda>t. Inr (arg_str rep v @ t)))))
      else if c = CHR ''}''
      then (if s \<noteq> [] \<and> hd s = CHR ''}'' then bind_sum (py_format rep (tl s) d) (\<lambda>t. Inr (CHR ''}'' # t))
            else Inl Cache_ValueError)
      else bind_sum (py_format rep s d) (\<lambda>t. Inr (c # t)))"
  by pat_completeness auto
termination
  by (relation "measure (\<lambda>(rep, s, d). length s)") (auto dest: until_brace_length)

definition format_prefix :: "(json \<Rightarrow> string) \<Rightarrow> string \<Rightarrow> (string \<times> kwarg) list \<Rightarrow> cache_error + string" where
  "format_prefix rep key_prefix kwargs =
     bind_sum (construct_data_dict (extract_data_inside_brackets key_prefix) kwargs []) (py_format rep key_prefix)"

fun format_extra_loop ::
  "(json \<Rightarrow> string) \<Rightarrow> (string \<times> string) list \<Rightarrow> (string \<times> kwarg) list \<Rightarrow> (string \<times> kwarg) list \<Rightarrow> cache_error + (string \<times> kwarg) list" where
  "format_extra_loop rep [] kwargs acc = Inr acc"
| "format_extra_loop rep ((key_prefix, id_template) # rest) kwargs acc =
     bind_sum (format_prefix rep key_prefix kwargs) (\<lambda>formatted_prefix.
       (case extract_data_inside_brackets id_template of
          [] \<Rightarrow> Inl Cache_IndexError
        | i # _ \<Rightarrow> (case map_of kwargs i of
                     None \<Rightarrow> Inl (Cache_KeyError i)
                   | Some v \<Rightarrow> format_extra_loop rep rest kwargs (AList.update formatted_prefix v acc))))"

definition format_extra_data ::
  "(json \<Rightarrow> string) \<Rightarrow> (string \<times> string) list \<Rightarrow> (string \<times> kwarg) list \<Rightarrow> cache_error + (string \<times> kwarg) list" where
  "format_extra_data rep to_invalidate_extra kwargs = format_extra_loop rep to_invalidate_extra kwargs []"

section \<open>Deleting by pattern\<close>

text \<open>The loop follows the cursors that SCAN returns until it is back at 0, and has no bound of its own.\<close>

definition delete_found :: "'w redis_client \<Rightarrow> string list \<Rightarrow> 'w \<Rightarrow> (exn + unit) \<times> 'w" where
  "delete_found r keys w = (if keys = [] then (Inr (), w) else map_prod (map_sum id (\<lambda>_. ())) id (rd_delete r keys w))"

partial_function (option) scan_loop :: "'w redis_client \<Rightarrow> string \<Rightarrow> int \<Rightarrow> 'w \<Rightarrow> ((exn + unit) \<times> 'w) option" where
  "scan_loop r pattern cursor w =
     (case rd_scan r cursor pattern w of
        (Inl e, w1) \<Rightarrow> Some (Inl e, w1)
      | (Inr (cursor', keys), w1) \<Rightarrow>
          (case delete_found r keys w1 of
             (Inl e, w2) \<Rightarrow> Some (Inl e, w2)
           | (Inr _, w2) \<Rightarrow> if cursor' = 0 then Some (Inr (), w2) else scan_loop r pattern cursor' w2))"

definition delete_keys_by_pattern :: "'w redis_client option \<Rightarrow> string \<Rightarrow> 'w \<Rightarrow> ((exn + unit) \<times> 'w) option" where
  "delete_keys_by_pattern client pattern w =
     (case client of None \<Rightarrow> Some (Inr (), w) | Some r \<Rightarrow> scan_loop r pattern 0 w)"

section \<open>The decorator\<close>

record cache_options =
  co_key_prefix :: string
  co_resource_id_name :: "string option"
  co_expiration :: int
  co_resource_id_type :: id_type
  co_to_invalidate_extra :: "(string \<times> string) list option"
  co_pattern_to_invalidate_extra :: "string list option"

record ('w, 'r) cache_env =
  ce_client :: "'w redis_client option"
  ce_rep :: "json \<Rightarrow> string"
  ce_encode :: "'r \<Rightarrow> json"
  ce_dumps :: "json \<Rightarrow> string"
  ce_loads :: "string \<Rightarrow> exn + json"
  ce_func :: "(string \<times> kwarg) list \<Rightarrow> 'w \<Rightarrow> (exn + 'r) \<times> 'w"

datatype 'r cache_reply = Json_Reply json | Plain_Reply 'r

definition resource_id_of :: "cache_options \<Rightarrow> (string \<times> kwarg) list \<Rightarrow> cache_error + kwarg" where
  "resource_id_of opts kwargs =
     (if truthy_list (co_resource_id_name opts)
      then (case map_of kwargs (the (co_resource_id_name opts)) of
              None \<Rightarrow> Inl (Cache_KeyError (the (co_resource_id_name opts)))
            | Some v \<Rightarrow> Inr v)
      else infer_resource_id kwargs (co_resource_id_type opts))"

definition cache_key_of :: "(json \<Rightarrow> string) \<Rightarrow> cache_options \<Rightarrow> (string \<times> kwarg) list \<Rightarrow> cache_error + string" where
  "cache_key_of rep opts kwargs =
     bind_sum (resource_id_of opts kwargs) (\<lambda>resource_id.
       bind_sum (format_prefix rep (co_key_prefix opts) kwargs) (\<lambda>formatted_key_prefix.
         Inr (formatted_key_prefix @ '':'' @ arg_str rep resource_id)))"

text \<open>A GET looks the key up; a text that is not empty is the answer.\<close>

definition cache_lookup ::
  "('w, 'r) cache_env \<Rightarrow> 'w redis_client \<Rightarrow> cache_options \<Rightarrow> string \<Rightarrow> 'w \<Rightarrow> (cache_error + json option) \<times> 'w" where
  "cache_lookup env r opts key w =
     (if co_to_invalidate_extra opts \<noteq> None \<or> co_pattern_to_invalidate_extra opts \<noteq> None
      then (Inl InvalidRequestError, w)
      else (case rd_get r key w of
              (Inl e, w1) \<Rightarrow> (Inl (Cache_Redis e), w1)
            | (Inr cached_data, w1) \<Rightarrow>
                if truthy_list cached_data
                then (case ce_loads env (the cached_data) of
                        Inl e \<Rightarrow> (Inl (Cache_Decode e), w1)
                      | Inr j \<Rightarrow> (Inr (Some j), w1))
                else (Inr None, w1)))"

definition cache_store ::
  "('w, 'r) cache_env \<Rightarrow> 'w redis_client \<Rightarrow> cache_options \<Rightarrow> string \<Rightarrow> 'r \<Rightarrow> 'w \<Rightarrow> (cache_error + json) \<times> 'w" where
  "cache_store env r opts key result w =
     (let serialized_data = ce_dumps env (ce_encode env result) in
      case rd_set r key serialized_data False None w of
        (Inl e, w1) \<Rightarrow> (Inl (Cache_Redis e), w1)
      | (Inr _, w1) \<Rightarrow>
          (case rd_expire r key (co_expiration opts) w1 of
             (Inl e, w2) \<Rightarrow> (Inl (Cache_Redis e), w2)
           | (Inr _, w2) \<Rightarrow> (map_sum Cache_Decode id (ce_loads env serialized_data), w2)))"

fun delete_extra :: "(json \<Rightarrow> string) \<Rightarrow> 'w redis_client \<Rightarrow> (string \<times> kwarg) list \<Rightarrow> 'w \<Rightarrow> (cache_error + unit) \<times> 'w" where
  "delete_extra rep r [] w = (Inr (), w)"
| "delete_extra rep r ((key_prefix, i) # rest) w =
     (case rd_delete r [key_prefix @ '':'' @ arg_str rep i] w of
        (Inl e, w1) \<Rightarrow> (Inl (Cache_Redis e), w1)
      | (Inr _, w1) \<Rightarrow> delete_extra rep r rest w1)"

fun delete_patterns ::
  "('w, 'r) cache_env \<Rightarrow> string list \<Rightarrow> (string \<times> kwarg) list \<Rightarrow> 'w \<Rightarrow> ((cache_error + unit) \<times> 'w) option" where
  "delete_patterns env [] kwargs w = Some (Inr (), w)"
| "delete_patterns env (pattern # rest) kwargs w =
     (case format_prefix (ce_rep env) pattern kwargs of
        Inl e \<Rightarrow> Some (Inl e, w)
      | Inr formatted_pattern \<Rightarrow>
          (case delete_keys_by_pattern (ce_client env) (formatted_pattern @ ''*'') w of
             None \<Rightarrow> None
           | Some (Inl e, w1) \<Rightarrow> Some (Inl (Cache_Redis e), w1)
           | Some (Inr _, w1) \<Rightarrow> delete_patterns env rest kwargs w1))"

definition delete_extras ::
  "('w, 'r) cache_env \<Rightarrow> 'w redis_client \<Rightarrow> cache_options \<Rightarrow> (string \<times> kwarg) list \<Rightarrow> 'w \<Rightarrow> (cache_error + unit) \<times> 'w" where
  "delete_extras env r opts kwargs w =
     (case co_to_invalidate_extra opts of
        None \<Rightarrow> (Inr (), w)
      | Some extra \<Rightarrow> (case format_extra_data (ce_rep env) extra kwargs of
                        Inl e \<Rightarrow> (Inl e, w)
                      | Inr formatted_extra \<Rightarrow> delete_extra (ce_rep env) r formatted_extra w))"

definition cache_invalidate ::
  "('w, 'r) cache_env \<Rightarrow> 'w redis_client \<Rightarrow> cache_options \<Rightarrow> string \<Rightarrow> (string \<times> kwarg) list \<Rightarrow> 'w \<Rightarrow> ((cache_error + unit) \<times> 'w) option" where
  "cache_invalidate env r opts key kwargs w =
     (case rd_delete r [key] w of
        (Inl e, w1) \<Rightarrow> Some (Inl (Cache_Redis e), w1)
      | (Inr _, w1) \<Rightarrow>
          (case delete_extras env r opts kwargs w1 of
             (Inl e, w2) \<Rightarrow> Some (Inl e, w2)
           | (Inr _, w2) \<Rightarrow> delete_patterns env (case co_pattern_to_invalidate_extra opts of None \<Rightarrow> [] | Some ps \<Rightarrow> ps) kwargs w2))"

definition cache_get ::
  "('w, 'r) cache_env \<Rightarrow> 'w redis_client \<Rightarrow> cache_options \<Rightarrow> string \<Rightarrow> (string \<times> kwarg) list \<Rightarrow> 'w \<Rightarrow> (cache_error + 'r cache_reply) \<times> 'w" where
  "cache_get env r opts key kwargs w =
     (case cache_lookup env r opts key w of
        (Inl e, w1) \<Rightarrow> (Inl e, w1)
      | (Inr (Some j), w1) \<Rightarrow> (Inr (Json_Reply j), w1)
      | (Inr None, w1) \<Rightarrow>
          (case ce_func env kwargs w1 of
             (Inl e, w2) \<Rightarrow> (Inl (Endpoint_Error e), w2)
           | (Inr result, w2) \<Rightarrow>
               (case cache_store env r opts key result w2 of
                  (Inl e, w3) \<Rightarrow> (Inl e, w3)
                | (Inr j, w3) \<Rightarrow> (Inr (Json_Reply j), w3))))"

definition cache_change ::
  "('w, 'r) cache_env \<Rightarrow> 'w redis_client \<Rightarrow> cache_options \<Rightarrow> string \<Rightarrow> (string \<times> kwarg) list \<Rightarrow> 'w \<Rightarrow>
     ((cache_error + 'r cache_reply) \<times> 'w) option" where
  "cache_change env r opts key kwargs w =
     (case ce_func env kwargs w of
        (Inl e, w1) \<Rightarrow> Some (Inl (Endpoint_Error e), w1)
      | (Inr result, w1) \<Rightarrow>
          (case cache_invalidate env r opts key kwargs w1 of
             None \<Rightarrow> None
           | Some (Inl e, w2) \<Rightarrow> Some (Inl e, w2)
           | Some (Inr _, w2) \<Rightarrow> Some (Inr (Plain_Reply result), w2)))"

definition cached_endpoint ::
  "('w, 'r) cache_env \<Rightarrow> cache_options \<Rightarrow> string \<Rightarrow> (string \<times> kwarg) list \<Rightarrow> 'w \<Rightarrow>
     ((cache_error + 'r cache_reply) \<times> 'w) option" where
  "cached_endpoint env opts http_method kwargs w =
     (case ce_client env of
        None \<Rightarrow> Some (Inl MissingClientError, w)
      | Some r \<Rightarrow>
          (case cache_key_of (ce_rep env) opts kwargs of
             Inl e \<Rightarrow> Some (Inl e, w)
           | Inr key \<Rightarrow>
               if http_method = ''GET'' then Some (cache_get env r opts key kwargs w)
               else cache_change env r opts key kwargs w))"

end
