(* ===== verification/Rate_Limit.thy ===== *)
theory Rate_Limit
  imports Redis Auth_Service
begin

text \<open>
  core/utils/rate_limit.py, the path normalisation of schemas/rate_limit.py and the
  rate-limit dependencies of api/dependencies.py: a counter in Redis per subject, path
  and window of fixed length.  The Redis client, the SHA-256 digest and the tier and
  rate-limit repositories are arguments.  The wait for the application's start-up, which
  changes no state, and the log lines are left out.
\<close>

section \<open>Paths and windows\<close>

definition strip_char :: "char \<Rightarrow> string \<Rightarrow> string" where
  "strip_char x s = rev (dropWhile (\<lambda>c. c = x) (rev (dropWhile (\<lambda>c. c = x) s)))"

definition sanitize_path :: "string \<Rightarrow> string" where
  "sanitize_path path = map (\<lambda>c. if c = CHR ''/'' then CHR ''_'' else c) (strip_char (CHR ''/'') path)"

datatype rl_error =
    Limiter_Uninitialized
  | Limiter_ZeroDivision
  | Limiter_Redis exn
  | Limiter_KeyError string
  | RateLimitException string

definition get_client :: "'w redis_client option \<Rightarrow> rl_error + 'w redis_client" where
  "get_client client = (case client of None \<Rightarrow> Inl Limiter_Uninitialized | Some r \<Rightarrow> Inr r)"

text \<open>The limiter is one instance with a connection pool and a client over it; building them
  and closing them is Redis's.\<close>

record ('p, 'w) limiter_instance =
  li_pool :: "'p option"
  li_client :: "'w redis_client option"

definition limiter_initialize :: "'p \<Rightarrow> ('p \<Rightarrow> 'w redis_client) \<Rightarrow> ('p, 'w) limiter_instance \<Rightarrow> ('p, 'w) limiter_instance" where
  "limiter_initialize pool connect li =
     (if li_pool li = None then li\<lparr> li_pool := Some pool, li_client := Some (connect pool) \<rparr> else li)"

definition limiter_shutdown :: "('p, 'w) limiter_instance \<Rightarrow> ('p, 'w) limiter_instance" where
  "limiter_shutdown li = li\<lparr> li_client := None, li_pool := None \<rparr>"

text \<open>\<open>int\<close> of a timestamp truncates towards the epoch; \<open>%\<close> by a zero period raises.\<close>

definition int_timestamp :: "instant \<Rightarrow> int" where
  "int_timestamp t = (if 0 \<le> t then t div 1000000 else - (- t div 1000000))"

definition window_start :: "instant \<Rightarrow> int \<Rightarrow> int" where
  "window_start t period = int_timestamp t - int_timestamp t mod period"

definition rate_limit_key :: "string \<Rightarrow> string \<Rightarrow> int \<Rightarrow> string" where
  "rate_limit_key subject_key path start =
     ''ratelimit:'' @ subject_key @ '':'' @ sanitize_path path @ '':'' @ show_int start"

definition is_rate_limited ::
  "'w redis_client option \<Rightarrow> instant \<Rightarrow> string \<Rightarrow> string \<Rightarrow> int \<Rightarrow> int \<Rightarrow> 'w \<Rightarrow> (rl_error + bool) \<times> 'w" where
  "is_rate_limited client t subject_id path limit period w =
     (case get_client client of
        Inl e \<Rightarrow> (Inl e, w)
      | Inr r \<Rightarrow>
          if period = 0 then (Inl Limiter_ZeroDivision, w)
          else
            let key = rate_limit_key subject_id path (window_start t period) in
            (case rd_incr r key w of
              (Inl e, w1) \<Rightarrow> (Inl (Limiter_Redis e), w1)
            | (Inr current_count, w1) \<Rightarrow>
                if current_count = 1
                then (case rd_expire r key period w1 of
                        (Inl e, w2) \<Rightarrow> (Inl (Limiter_Redis e), w2)
                      | (Inr _, w2) \<Rightarrow> (Inr (limit < current_count), w2))
                else (Inr (limit < current_count), w1)))"

section \<open>Identities\<close>

definition is_alnum :: "char \<Rightarrow> bool" where
  "is_alnum c = (let n = of_char c :: nat in
     48 \<le> n \<and> n \<le> 57 \<or> 65 \<le> n \<and> n \<le> 90 \<or> 97 \<le> n \<and> n \<le> 122 \<or>
     n \<in> {170, 178, 179, 181, 185, 186, 188, 189, 190} \<or> 192 \<le> n \<and> n \<noteq> 215 \<and> n \<noteq> 247)"

text \<open>\<open>casefold\<close>: lower case, and the sharp s becomes two letters.\<close>

definition casefold :: "string \<Rightarrow> string" where
  "casefold s = concat (map (\<lambda>c. if (of_char c :: nat) = 223 then ''ss'' else [lower_letter c]) s)"

definition normalize_rate_limit_identity :: "string option \<Rightarrow> string \<Rightarrow> string" where
  "normalize_rate_limit_identity value fallback =
     (case value of
        None \<Rightarrow> fallback
      | Some v \<Rightarrow>
          let normalized = map (\<lambda>c. if is_alnum c then c else CHR ''-'') (casefold (py_strip v));
              stripped = strip_char (CHR ''-'') normalized
          in if stripped \<noteq> [] then stripped else fallback)"

record rl_request =
  rq_path :: string
  rq_client_host :: "string option"

definition resolve_client_rate_limit_identity :: "rl_request \<Rightarrow> string" where
  "resolve_client_rate_limit_identity request =
     normalize_rate_limit_identity (rq_client_host request) ''unknown-client''"

definition fingerprint_rate_limit_credential :: "(string \<Rightarrow> string) \<Rightarrow> string option \<Rightarrow> string" where
  "fingerprint_rate_limit_credential sha256 value = sha256 (normalize_rate_limit_identity value ''anonymous'')"

section \<open>Dependencies\<close>

record rate_limit_settings =
  API_RATE_LIMIT_ENABLED :: bool
  DEFAULT_RATE_LIMIT_LIMIT :: int
  DEFAULT_RATE_LIMIT_PERIOD :: int
  AUTH_RATE_LIMIT_ENABLED :: bool
  AUTH_RATE_LIMIT_LOGIN_LIMIT :: int
  AUTH_RATE_LIMIT_LOGIN_PERIOD :: int
  AUTH_RATE_LIMIT_REFRESH_LIMIT :: int
  AUTH_RATE_LIMIT_REFRESH_PERIOD :: int
  AUTH_RATE_LIMIT_LOGOUT_LIMIT :: int
  AUTH_RATE_LIMIT_LOGOUT_PERIOD :: int
  WEBHOOK_RATE_LIMIT_ENABLED :: bool
  WEBHOOK_RATE_LIMIT_LIMIT :: int
  WEBHOOK_RATE_LIMIT_PERIOD :: int

record tier_row =
  tr_id :: int
  tr_name :: string

record rate_limit_row =
  rr_limit :: int
  rr_period :: int

record 'w rl_env =
  re_settings :: rate_limit_settings
  re_client :: "'w redis_client option"
  re_sha256 :: "string \<Rightarrow> string"
  re_tier :: "json \<Rightarrow> tier_row option"
  re_rate_limit :: "int \<Rightarrow> string \<Rightarrow> rate_limit_row option"

definition enforce_rate_limit ::
  "'w rl_env \<Rightarrow> instant \<Rightarrow> rl_request \<Rightarrow> string \<Rightarrow> int \<Rightarrow> int \<Rightarrow> 'w \<Rightarrow> (rl_error + unit) \<times> 'w" where
  "enforce_rate_limit env t request subject_id limit period w =
     (case is_rate_limited (re_client env) t subject_id (rq_path request) limit period w of
        (Inl e, w1) \<Rightarrow> (Inl e, w1)
      | (Inr True, w1) \<Rightarrow> (Inl (RateLimitException ''Rate limit exceeded.''), w1)
      | (Inr False, w1) \<Rightarrow> (Inr (), w1))"

text \<open>The limit and period of an authenticated user: those of the tier for the path, else
  the defaults.\<close>

definition default_quota :: "'w rl_env \<Rightarrow> int \<times> int" where
  "default_quota env = (DEFAULT_RATE_LIMIT_LIMIT (re_settings env), DEFAULT_RATE_LIMIT_PERIOD (re_settings env))"

definition tier_quota :: "'w rl_env \<Rightarrow> json \<Rightarrow> string \<Rightarrow> int \<times> int" where
  "tier_quota env tier_id path =
     (case re_tier env tier_id of
        None \<Rightarrow> default_quota env
      | Some tier \<Rightarrow> (case re_rate_limit env (tr_id tier) path of
                       None \<Rightarrow> default_quota env
                     | Some rl \<Rightarrow> (rr_limit rl, rr_period rl)))"

definition rate_limiter_dependency ::
  "'w rl_env \<Rightarrow> (json \<Rightarrow> string) \<Rightarrow> instant \<Rightarrow> rl_request \<Rightarrow> dict option \<Rightarrow> 'w \<Rightarrow> (rl_error + unit) \<times> 'w" where
  "rate_limiter_dependency env rep t request user w =
     (if \<not> API_RATE_LIMIT_ENABLED (re_settings env) then (Inr (), w)
      else if truthy_list user
      then (case map_of (the user) ''id'' of
              None \<Rightarrow> (Inl (Limiter_KeyError ''id''), w)
            | Some i \<Rightarrow>
                (case map_of (the user) ''tier_id'' of
                   None \<Rightarrow> (Inl (Limiter_KeyError ''tier_id''), w)
                 | Some tier_id \<Rightarrow>
                     (case tier_quota env tier_id (sanitize_path (rq_path request)) of
                        (limit, period) \<Rightarrow> enforce_rate_limit env t request (json_str rep i) limit period w)))
      else (case default_quota env of
              (limit, period) \<Rightarrow>
                enforce_rate_limit env t request (resolve_client_rate_limit_identity request) limit period w))"

definition auth_login_rate_limiter_dependency ::
  "'w rl_env \<Rightarrow> instant \<Rightarrow> rl_request \<Rightarrow> string \<Rightarrow> 'w \<Rightarrow> (rl_error + unit) \<times> 'w" where
  "auth_login_rate_limiter_dependency env t request username w =
     (if \<not> AUTH_RATE_LIMIT_ENABLED (re_settings env) then (Inr (), w)
      else enforce_rate_limit env t request
             (resolve_client_rate_limit_identity request @ '':'' @
              fingerprint_rate_limit_credential (re_sha256 env) (Some username))
             (AUTH_RATE_LIMIT_LOGIN_LIMIT (re_settings env)) (AUTH_RATE_LIMIT_LOGIN_PERIOD (re_settings env)) w)"

definition auth_refresh_rate_limiter_dependency ::
  "'w rl_env \<Rightarrow> instant \<Rightarrow> rl_request \<Rightarrow> 'w \<Rightarrow> (rl_error + unit) \<times> 'w" where
  "auth_refresh_rate_limiter_dependency env t request w =
     (if \<not> AUTH_RATE_LIMIT_ENABLED (re_settings env) then (Inr (), w)
      else enforce_rate_limit env t request (resolve_client_rate_limit_identity request)
             (AUTH_RATE_LIMIT_REFRESH_LIMIT (re_settings env)) (AUTH_RATE_LIMIT_REFRESH_PERIOD (re_settings env)) w)"

definition auth_logout_rate_limiter_dependency ::
  "'w rl_env \<Rightarrow> (json \<Rightarrow> string) \<Rightarrow> instant \<Rightarrow> rl_request \<Rightarrow> dict option \<Rightarrow> 'w \<Rightarrow> (rl_error + unit) \<times> 'w" where
  "auth_logout_rate_limiter_dependency env rep t request user w =
     (if \<not> AUTH_RATE_LIMIT_ENABLED (re_settings env) then (Inr (), w)
      else
        let limit = AUTH_RATE_LIMIT_LOGOUT_LIMIT (re_settings env);
            period = AUTH_RATE_LIMIT_LOGOUT_PERIOD (re_settings env)
        in if truthy_list user
           then (case map_of (the user) ''id'' of
                   None \<Rightarrow> (Inl (Limiter_KeyError ''id''), w)
                 | Some i \<Rightarrow> enforce_rate_limit env t request (json_str rep i) limit period w)
           else enforce_rate_limit env t request (resolve_client_rate_limit_identity request) limit period w)"

definition webhook_rate_limiter_dependency ::
  "'w rl_env \<Rightarrow> instant \<Rightarrow> rl_request \<Rightarrow> 'w \<Rightarrow> (rl_error + unit) \<times> 'w" where
  "webhook_rate_limiter_dependency env t request w =
     (if \<not> WEBHOOK_RATE_LIMIT_ENABLED (re_settings env) then (Inr (), w)
      else enforce_rate_limit env t request (resolve_client_rate_limit_identity request)
             (WEBHOOK_RATE_LIMIT_LIMIT (re_settings env)) (WEBHOOK_RATE_LIMIT_PERIOD (re_settings env)) w)"

end
