(* ===== verification/Domain_Services.thy ===== *)
theory Domain_Services
  imports Auth_Service Cache Rate_Limit
begin

text \<open>
  The services of domain/ (posts, users, tiers, rate limits), the query parameters of
  api/query_params.py and the post endpoints of api/v1/posts.py with their cache options.

  A repository is FastCRUD's: a record of its calls on a database of any type, filters and
  rows being dicts; a call that is restricted to a schema returns the columns of it.
  Request models are records or dicts that have passed their validation.
\<close>

record 'db repository =
  rp_get :: "dict \<Rightarrow> 'db \<Rightarrow> dict option"
  rp_exists :: "dict \<Rightarrow> 'db \<Rightarrow> bool"
  rp_get_multi :: "(int \<times> int) option \<Rightarrow> string option \<Rightarrow> string option \<Rightarrow> dict \<Rightarrow> 'db \<Rightarrow> dict"
  rp_create :: "dict \<Rightarrow> 'db \<Rightarrow> exn + dict option \<times> 'db"
  rp_update :: "dict \<Rightarrow> dict \<Rightarrow> 'db \<Rightarrow> exn + 'db"
  rp_delete :: "dict \<Rightarrow> 'db \<Rightarrow> exn + 'db"
  rp_db_delete :: "dict \<Rightarrow> 'db \<Rightarrow> exn + 'db"

record 'db services_env =
  se_posts :: "'db repository"
  se_users :: "'db repository"
  se_tiers :: "'db repository"
  se_rate_limits :: "'db repository"
  se_rep :: "json \<Rightarrow> string"

datatype service_error =
    NotFoundException string
  | DuplicateValueException string
  | BadRequestException string
  | Service_Denied auth_error
  | Service_KeyError string
  | Service_Repository exn
  | Service_Token token_error

definition item :: "dict \<Rightarrow> string \<Rightarrow> service_error + json" where
  "item d k = (case map_of d k of None \<Rightarrow> Inl (Service_KeyError k) | Some v \<Rightarrow> Inr v)"

definition owner_id :: "json \<Rightarrow> int option" where
  "owner_id j = (case j of JInt i \<Rightarrow> Some i | _ \<Rightarrow> None)"

definition message :: "string \<Rightarrow> dict" where
  "message m = [(''message'', JStr m)]"

definition dict_update :: "('k \<times> 'v) list \<Rightarrow> ('k \<times> 'v) list \<Rightarrow> ('k \<times> 'v) list" where
  "dict_update d e = fold (\<lambda>(k, v). AList.update k v) e d"

definition stored :: "exn + 'a \<Rightarrow> service_error + 'a" where
  "stored r = map_sum Service_Repository id r"

definition created :: "string \<Rightarrow> exn + dict option \<times> 'db \<Rightarrow> service_error + dict \<times> 'db" where
  "created what r = bind_sum (stored r) (\<lambda>(row, db).
     case row of None \<Rightarrow> Inl (NotFoundException (''Failed to create '' @ what)) | Some d \<Rightarrow> Inr (d, db))"

definition check_owner ::
  "'db services_env \<Rightarrow> dict \<Rightarrow> string \<Rightarrow> int option \<Rightarrow> string option \<Rightarrow> service_error + authorization_subject" where
  "check_owner env current_user permission owner_user_id owner_username =
     map_sum Service_Denied id (authorize_owner_or_permission (se_rep env) DEFAULT_PERMISSION_POLICY
       (Claims current_user) permission owner_user_id owner_username DEFAULT_PERMISSION_DENIED_MESSAGE)"

section \<open>Query parameters\<close>

record pagination_params =
  pg_page :: int
  pg_items_per_page :: int

definition pagination_valid :: "pagination_params \<Rightarrow> bool" where
  "pagination_valid p \<longleftrightarrow> 1 \<le> pg_page p \<and> 1 \<le> pg_items_per_page p \<and> pg_items_per_page p \<le> 100"

datatype sort_direction = ASC | DESC

definition sort_direction_value :: "sort_direction \<Rightarrow> string" where
  "sort_direction_value d = (case d of ASC \<Rightarrow> ''asc'' | DESC \<Rightarrow> ''desc'')"

record sort_params =
  sp_sort_by :: "string option"
  sp_sort_order :: sort_direction

definition sort_to_repository_kwargs :: "string list \<Rightarrow> sort_params \<Rightarrow> service_error + (string \<times> string) option" where
  "sort_to_repository_kwargs allowed_fields p =
     (case sp_sort_by p of
        None \<Rightarrow> Inr None
      | Some f \<Rightarrow>
          if f \<notin> set allowed_fields
          then Inl (BadRequestException (''Unsupported sort field '' @ py_quote f @ ''. Allowed values: '' @
                 concat (case sort allowed_fields of [] \<Rightarrow> [] | a # as \<Rightarrow> a # map (\<lambda>x. '', '' @ x) as) @ ''.''))
          else Inr (Some (f, sort_direction_value (sp_sort_order p))))"

definition opt_filter :: "string \<Rightarrow> json option \<Rightarrow> dict" where
  "opt_filter k v = (case v of None \<Rightarrow> [] | Some j \<Rightarrow> [(k, j)])"

record user_list_filters =
  uf_name :: "string option"
  uf_username :: "string option"
  uf_email :: "string option"
  uf_is_superuser :: "bool option"
  uf_tier_id :: "int option"

definition user_filters :: "user_list_filters \<Rightarrow> dict" where
  "user_filters f =
     opt_filter ''name__icontains'' (map_option JStr (uf_name f)) @
     opt_filter ''username__icontains'' (map_option JStr (uf_username f)) @
     opt_filter ''email__icontains'' (map_option JStr (uf_email f)) @
     opt_filter ''is_superuser'' (map_option JBool (uf_is_superuser f)) @
     opt_filter ''tier_id'' (map_option JInt (uf_tier_id f))"

definition post_filters :: "string option \<Rightarrow> dict" where
  "post_filters title = opt_filter ''title__icontains'' (map_option JStr title)"

definition tier_filters :: "string option \<Rightarrow> dict" where
  "tier_filters name = opt_filter ''name__icontains'' (map_option JStr name)"

definition rate_limit_filters :: "string option \<Rightarrow> string option \<Rightarrow> dict" where
  "rate_limit_filters name path =
     opt_filter ''name__icontains'' (map_option JStr name) @ opt_filter ''path__icontains'' (map_option JStr path)"

definition with_total_count :: "dict \<Rightarrow> dict" where
  "with_total_count crud_data =
     (case (map_of crud_data ''total_count'', map_of crud_data ''count'') of
        (None, Some n) \<Rightarrow> AList.update ''total_count'' n crud_data
      | _ \<Rightarrow> crud_data)"

section \<open>Posts\<close>

definition active_user :: "'db services_env \<Rightarrow> string \<Rightarrow> 'db \<Rightarrow> service_error + dict" where
  "active_user env username db =
     (case rp_get (se_users env) [(''username'', JStr username), (''is_deleted'', JBool False)] db of
        None \<Rightarrow> Inl (NotFoundException ''User not found'')
      | Some u \<Rightarrow> Inr u)"

definition create_post :: "'db services_env \<Rightarrow> string \<Rightarrow> dict \<Rightarrow> dict \<Rightarrow> 'db \<Rightarrow> service_error + dict \<times> 'db" where
  "create_post env username post current_user db =
     bind_sum (active_user env username db) (\<lambda>db_user.
     bind_sum (item db_user ''id'') (\<lambda>uid.
     bind_sum (check_owner env current_user ''posts:create:any'' (owner_id uid) None) (\<lambda>_.
       created ''post'' (rp_create (se_posts env) (AList.update ''created_by_user_id'' uid post) db))))"

definition list_posts ::
  "'db services_env \<Rightarrow> string \<Rightarrow> int \<Rightarrow> int \<Rightarrow> dict \<Rightarrow> string option \<Rightarrow> string option \<Rightarrow> 'db \<Rightarrow> service_error + dict" where
  "list_posts env username offset limit filters sort_columns sort_orders db =
     bind_sum (active_user env username db) (\<lambda>db_user.
     bind_sum (item db_user ''id'') (\<lambda>uid.
       Inr (rp_get_multi (se_posts env) (Some (offset, limit)) sort_columns sort_orders
              (dict_update [(''created_by_user_id'', uid), (''is_deleted'', JBool False)] filters) db)))"

definition get_post :: "'db services_env \<Rightarrow> string \<Rightarrow> int \<Rightarrow> 'db \<Rightarrow> service_error + dict" where
  "get_post env username post_id db =
     bind_sum (active_user env username db) (\<lambda>db_user.
     bind_sum (item db_user ''id'') (\<lambda>uid.
       (case rp_get (se_posts env) [(''id'', JInt post_id), (''created_by_user_id'', uid), (''is_deleted'', JBool False)] db of
          None \<Rightarrow> Inl (NotFoundException ''Post not found'')
        | Some p \<Rightarrow> Inr p)))"

definition live_post :: "'db services_env \<Rightarrow> int \<Rightarrow> 'db \<Rightarrow> service_error + dict" where
  "live_post env post_id db =
     (case rp_get (se_posts env) [(''id'', JInt post_id), (''is_deleted'', JBool False)] db of
        None \<Rightarrow> Inl (NotFoundException ''Post not found'')
      | Some p \<Rightarrow> Inr p)"

definition update_post :: "'db services_env \<Rightarrow> string \<Rightarrow> int \<Rightarrow> dict \<Rightarrow> dict \<Rightarrow> 'db \<Rightarrow> service_error + dict \<times> 'db" where
  "update_post env username post_id new_values current_user db =
     bind_sum (active_user env username db) (\<lambda>db_user.
     bind_sum (item db_user ''id'') (\<lambda>uid.
     bind_sum (check_owner env current_user ''platform:posts:manage'' (owner_id uid) None) (\<lambda>_.
     bind_sum (live_post env post_id db) (\<lambda>_.
     bind_sum (stored (rp_update (se_posts env) new_values [(''id'', JInt post_id)] db)) (\<lambda>db'.
       Inr (message ''Post updated'', db'))))))"

definition delete_post :: "'db services_env \<Rightarrow> string \<Rightarrow> int \<Rightarrow> dict \<Rightarrow> 'db \<Rightarrow> service_error + dict \<times> 'db" where
  "delete_post env username post_id current_user db =
     bind_sum (active_user env username db) (\<lambda>db_user.
     bind_sum (item db_user ''id'') (\<lambda>uid.
     bind_sum (check_owner env current_user ''platform:posts:manage'' (owner_id uid) None) (\<lambda>_.
     bind_sum (live_post env post_id db) (\<lambda>_.
     bind_sum (stored (rp_delete (se_posts env) [(''id'', JInt post_id)] db)) (\<lambda>db'.
       Inr (message ''Post deleted'', db'))))))"

definition delete_db_post :: "'db services_env \<Rightarrow> string \<Rightarrow> int \<Rightarrow> 'db \<Rightarrow> service_error + dict \<times> 'db" where
  "delete_db_post env username post_id db =
     bind_sum (active_user env username db) (\<lambda>_.
     bind_sum (live_post env post_id db) (\<lambda>_.
     bind_sum (stored (rp_db_delete (se_posts env) [(''id'', JInt post_id)] db)) (\<lambda>db'.
       Inr (message ''Post deleted from the database'', db'))))"

section \<open>Tiers and rate limits\<close>

definition get_tier :: "'db services_env \<Rightarrow> string \<Rightarrow> 'db \<Rightarrow> service_error + dict" where
  "get_tier env name db =
     (case rp_get (se_tiers env) [(''name'', JStr name)] db of
        None \<Rightarrow> Inl (NotFoundException ''Tier not found'')
      | Some t \<Rightarrow> Inr t)"

definition create_tier :: "'db services_env \<Rightarrow> string \<Rightarrow> 'db \<Rightarrow> service_error + dict \<times> 'db" where
  "create_tier env name db =
     (if rp_exists (se_tiers env) [(''name'', JStr name)] db then Inl (DuplicateValueException ''Tier Name not available'')
      else created ''tier'' (rp_create (se_tiers env) [(''name'', JStr name)] db))"

definition list_tiers ::
  "'db services_env \<Rightarrow> int \<Rightarrow> int \<Rightarrow> dict \<Rightarrow> string option \<Rightarrow> string option \<Rightarrow> 'db \<Rightarrow> dict" where
  "list_tiers env offset limit filters sort_columns sort_orders db =
     rp_get_multi (se_tiers env) (Some (offset, limit)) sort_columns sort_orders filters db"

definition update_tier :: "'db services_env \<Rightarrow> string \<Rightarrow> dict \<Rightarrow> 'db \<Rightarrow> service_error + dict \<times> 'db" where
  "update_tier env name new_values db =
     bind_sum (get_tier env name db) (\<lambda>_.
     bind_sum (stored (rp_update (se_tiers env) new_values [(''name'', JStr name)] db)) (\<lambda>db'.
       Inr (message ''Tier updated'', db')))"

definition delete_tier :: "'db services_env \<Rightarrow> string \<Rightarrow> 'db \<Rightarrow> service_error + dict \<times> 'db" where
  "delete_tier env name db =
     bind_sum (get_tier env name db) (\<lambda>_.
     bind_sum (stored (rp_delete (se_tiers env) [(''name'', JStr name)] db)) (\<lambda>db'.
       Inr (message ''Tier deleted'', db')))"

text \<open>A tier that the repository returns as an empty row counts as missing here.\<close>

definition required_tier :: "'db services_env \<Rightarrow> string \<Rightarrow> 'db \<Rightarrow> service_error + dict" where
  "required_tier env tier_name db =
     (let db_tier = rp_get (se_tiers env) [(''name'', JStr tier_name)] db
      in if \<not> truthy_list db_tier then Inl (NotFoundException ''Tier not found'') else Inr (the db_tier))"

record rate_limit_create =
  rc_path :: string
  rc_limit :: int
  rc_period :: int
  rc_name :: "string option"

text \<open>The schema of a rate limit sanitizes its path.\<close>

definition dump_rate_limit :: "rate_limit_create \<Rightarrow> dict" where
  "dump_rate_limit rl =
     [(''path'', JStr (sanitize_path (rc_path rl))), (''limit'', JInt (rc_limit rl)), (''period'', JInt (rc_period rl)),
      (''name'', opt_str (rc_name rl))]"

definition create_rate_limit :: "'db services_env \<Rightarrow> string \<Rightarrow> rate_limit_create \<Rightarrow> 'db \<Rightarrow> service_error + dict \<times> 'db" where
  "create_rate_limit env tier_name rate_limit db =
     bind_sum (required_tier env tier_name db) (\<lambda>db_tier.
     bind_sum (item db_tier ''id'') (\<lambda>tier_id.
       (if rp_exists (se_rate_limits env) [(''name'', opt_str (rc_name rate_limit))] db
        then Inl (DuplicateValueException ''Rate Limit Name not available'')
        else created ''rate limit''
               (rp_create (se_rate_limits env) (AList.update ''tier_id'' tier_id (dump_rate_limit rate_limit)) db))))"

definition list_rate_limits ::
  "'db services_env \<Rightarrow> string \<Rightarrow> int \<Rightarrow> int \<Rightarrow> dict \<Rightarrow> string option \<Rightarrow> string option \<Rightarrow> 'db \<Rightarrow> service_error + dict" where
  "list_rate_limits env tier_name offset limit filters sort_columns sort_orders db =
     bind_sum (required_tier env tier_name db) (\<lambda>db_tier.
     bind_sum (item db_tier ''id'') (\<lambda>tier_id.
       Inr (rp_get_multi (se_rate_limits env) (Some (offset, limit)) sort_columns sort_orders
              (dict_update [(''tier_id'', tier_id)] filters) db)))"

definition get_rate_limit :: "'db services_env \<Rightarrow> string \<Rightarrow> int \<Rightarrow> 'db \<Rightarrow> service_error + dict" where
  "get_rate_limit env tier_name rate_limit_id db =
     bind_sum (required_tier env tier_name db) (\<lambda>db_tier.
     bind_sum (item db_tier ''id'') (\<lambda>tier_id.
       (case rp_get (se_rate_limits env) [(''tier_id'', tier_id), (''id'', JInt rate_limit_id)] db of
          None \<Rightarrow> Inl (NotFoundException ''Rate Limit not found'')
        | Some rl \<Rightarrow> Inr rl)))"

definition update_rate_limit ::
  "'db services_env \<Rightarrow> string \<Rightarrow> int \<Rightarrow> dict \<Rightarrow> 'db \<Rightarrow> service_error + dict \<times> 'db" where
  "update_rate_limit env tier_name rate_limit_id new_values db =
     bind_sum (get_rate_limit env tier_name rate_limit_id db) (\<lambda>_.
     bind_sum (stored (rp_update (se_rate_limits env) new_values [(''id'', JInt rate_limit_id)] db)) (\<lambda>db'.
       Inr (message ''Rate Limit updated'', db')))"

definition delete_rate_limit :: "'db services_env \<Rightarrow> string \<Rightarrow> int \<Rightarrow> 'db \<Rightarrow> service_error + dict \<times> 'db" where
  "delete_rate_limit env tier_name rate_limit_id db =
     bind_sum (get_rate_limit env tier_name rate_limit_id db) (\<lambda>_.
     bind_sum (stored (rp_delete (se_rate_limits env) [(''id'', JInt rate_limit_id)] db)) (\<lambda>db'.
       Inr (message ''Rate Limit deleted'', db')))"

section \<open>Users\<close>

record user_create =
  uc_name :: string
  uc_username :: string
  uc_email :: string
  uc_password :: string

definition create_user ::
  "'db services_env \<Rightarrow> bcrypt_lib \<Rightarrow> crypt_settings \<Rightarrow> user_create \<Rightarrow> 'db \<Rightarrow> service_error + dict \<times> 'db" where
  "create_user env bc cs user db =
     (if rp_exists (se_users env) [(''email'', JStr (uc_email user))] db
      then Inl (DuplicateValueException ''Email is already registered'')
      else if rp_exists (se_users env) [(''username'', JStr (uc_username user))] db
      then Inl (DuplicateValueException ''Username not available'')
      else bind_sum (map_sum Service_Token id (get_password_hash bc (uc_password user) cs)) (\<lambda>hashed_password.
             created ''user'' (rp_create (se_users env)
               [(''name'', JStr (uc_name user)), (''username'', JStr (uc_username user)), (''email'', JStr (uc_email user)),
                (''hashed_password'', JStr hashed_password)] db)))"

definition list_users ::
  "'db services_env \<Rightarrow> int \<Rightarrow> int \<Rightarrow> dict \<Rightarrow> string option \<Rightarrow> string option \<Rightarrow> 'db \<Rightarrow> dict" where
  "list_users env offset limit filters sort_columns sort_orders db =
     rp_get_multi (se_users env) (Some (offset, limit)) sort_columns sort_orders
       (dict_update [(''is_deleted'', JBool False)] filters) db"

record user_update =
  uu_email :: "string option"
  uu_username :: "string option"
  uu_values :: dict

text \<open>A changed field must be free among all rows, deleted ones included.\<close>

definition check_free ::
  "'db services_env \<Rightarrow> dict \<Rightarrow> string \<Rightarrow> string option \<Rightarrow> string \<Rightarrow> 'db \<Rightarrow> service_error + unit" where
  "check_free env db_user column new_value text db =
     (case new_value of
        None \<Rightarrow> Inr ()
      | Some v \<Rightarrow> bind_sum (item db_user column) (\<lambda>old.
          if JStr v \<noteq> old \<and> rp_exists (se_users env) [(column, JStr v)] db then Inl (DuplicateValueException text)
          else Inr ()))"

definition username_of :: "json \<Rightarrow> string option" where
  "username_of j = (case j of JStr s \<Rightarrow> Some s | _ \<Rightarrow> None)"

definition update_user ::
  "'db services_env \<Rightarrow> string \<Rightarrow> user_update \<Rightarrow> dict \<Rightarrow> 'db \<Rightarrow> service_error + dict \<times> 'db" where
  "update_user env username new_values current_user db =
     (case rp_get (se_users env) [(''username'', JStr username)] db of
        None \<Rightarrow> Inl (NotFoundException ''User not found'')
      | Some db_user \<Rightarrow>
          bind_sum (item db_user ''username'') (\<lambda>owner.
          bind_sum (check_owner env current_user ''platform:users:manage'' None (username_of owner)) (\<lambda>_.
          bind_sum (check_free env db_user ''email'' (uu_email new_values) ''Email is already registered'' db) (\<lambda>_.
          bind_sum (check_free env db_user ''username'' (uu_username new_values) ''Username not available'' db) (\<lambda>_.
          bind_sum (stored (rp_update (se_users env) (uu_values new_values) [(''username'', JStr username)] db)) (\<lambda>db'.
            Inr (message ''User updated'', db')))))))"

text \<open>A deletion revokes the token of the request.  A failure after the deletion leaves the
  user deleted: the state is returned with every result.\<close>

record 'db user_state =
  ur_db :: 'db
  ur_blacklist :: blacklist

record token_env =
  te_jwt :: jwt_lib
  te_utc_offset :: "instant \<Rightarrow> int"
  te_crypt :: crypt_settings

definition revoke_request_token ::
  "token_env \<Rightarrow> instant \<Rightarrow> string \<Rightarrow> dict \<Rightarrow> 'db user_state \<Rightarrow> (service_error + dict) \<times> 'db user_state" where
  "revoke_request_token te now token reply st =
     (case blacklist_token (te_jwt te) (te_utc_offset te) (te_crypt te) now token (ur_blacklist st) of
        Inl e \<Rightarrow> (Inl (Service_Token e), st)
      | Inr t \<Rightarrow> (Inr reply, st\<lparr> ur_blacklist := t \<rparr>))"

definition delete_user ::
  "'db services_env \<Rightarrow> token_env \<Rightarrow> instant \<Rightarrow> string \<Rightarrow> dict \<Rightarrow> string \<Rightarrow> 'db user_state \<Rightarrow>
     (service_error + dict) \<times> 'db user_state" where
  "delete_user env te now username current_user token st =
     (if \<not> truthy_list (rp_get (se_users env) [(''username'', JStr username)] (ur_db st))
      then (Inl (NotFoundException ''User not found''), st)
      else (case check_owner env current_user ''users:self:delete:override'' None (Some username) of
              Inl e \<Rightarrow> (Inl e, st)
            | Inr _ \<Rightarrow>
                (case stored (rp_delete (se_users env) [(''username'', JStr username)] (ur_db st)) of
                   Inl e \<Rightarrow> (Inl e, st)
                 | Inr db \<Rightarrow> revoke_request_token te now token (message ''User deleted'') (st\<lparr> ur_db := db \<rparr>))))"

definition delete_db_user ::
  "'db services_env \<Rightarrow> token_env \<Rightarrow> instant \<Rightarrow> string \<Rightarrow> string \<Rightarrow> 'db user_state \<Rightarrow> (service_error + dict) \<times> 'db user_state" where
  "delete_db_user env te now username token st =
     (if \<not> rp_exists (se_users env) [(''username'', JStr username)] (ur_db st)
      then (Inl (NotFoundException ''User not found''), st)
      else (case stored (rp_db_delete (se_users env) [(''username'', JStr username)] (ur_db st)) of
              Inl e \<Rightarrow> (Inl e, st)
            | Inr db \<Rightarrow> revoke_request_token te now token (message ''User deleted from the database'') (st\<lparr> ur_db := db \<rparr>)))"

definition get_user_rate_limits :: "'db services_env \<Rightarrow> string \<Rightarrow> 'db \<Rightarrow> service_error + dict" where
  "get_user_rate_limits env username db =
     bind_sum (active_user env username db) (\<lambda>db_user.
     bind_sum (item db_user ''tier_id'') (\<lambda>tier_id.
       if tier_id = JNull then Inr (AList.update ''tier_rate_limits'' (JList []) db_user)
       else (case rp_get (se_tiers env) [(''id'', tier_id)] db of
               None \<Rightarrow> Inl (NotFoundException ''Tier not found'')
             | Some db_tier \<Rightarrow>
                 bind_sum (item db_tier ''id'') (\<lambda>i.
                 bind_sum (item (rp_get_multi (se_rate_limits env) None None None [(''tier_id'', i)] db) ''data'') (\<lambda>rows.
                   Inr (AList.update ''tier_rate_limits'' rows db_user))))))"

definition get_user_tier :: "'db services_env \<Rightarrow> string \<Rightarrow> 'db \<Rightarrow> service_error + dict option" where
  "get_user_tier env username db =
     bind_sum (active_user env username db) (\<lambda>db_user.
     bind_sum (item db_user ''tier_id'') (\<lambda>tier_id.
       if tier_id = JNull then Inr None
       else (let db_tier = rp_get (se_tiers env) [(''id'', tier_id)] db
             in if \<not> truthy_list db_tier then Inl (NotFoundException ''Tier not found'')
                else Inr (Some (dict_update db_user (map (\<lambda>(k, v). (''tier_'' @ k, v)) (the db_tier)))))))"

definition update_user_tier :: "'db services_env \<Rightarrow> string \<Rightarrow> int \<Rightarrow> 'db \<Rightarrow> service_error + dict \<times> 'db" where
  "update_user_tier env username tier_id db =
     bind_sum (active_user env username db) (\<lambda>db_user.
       (case rp_get (se_tiers env) [(''id'', JInt tier_id)] db of
          None \<Rightarrow> Inl (NotFoundException ''Tier not found'')
        | Some _ \<Rightarrow>
            bind_sum (stored (rp_update (se_users env) [(''tier_id'', JInt tier_id)] [(''username'', JStr username)] db)) (\<lambda>db'.
            bind_sum (item db_user ''name'') (\<lambda>name.
              Inr (message (''User '' @ json_str (se_rep env) name @ '' Tier updated''), db')))))"

section \<open>The cached post endpoints\<close>

definition post_cache :: "(string \<times> string) list option \<Rightarrow> string list option \<Rightarrow> cache_options" where
  "post_cache extra patterns =
     \<lparr> co_key_prefix = ''{username}_post_cache'', co_resource_id_name = Some ''id'', co_expiration = 3600,
        co_resource_id_type = One_Class Int_Class, co_to_invalidate_extra = extra,
        co_pattern_to_invalidate_extra = patterns \<rparr>"

definition read_posts_cache :: cache_options where
  "read_posts_cache =
     \<lparr> co_key_prefix = ''{username}_posts:page_{page}:items_per_page:{items_per_page}'',
        co_resource_id_name = Some ''username'', co_expiration = 60, co_resource_id_type = One_Class Int_Class,
        co_to_invalidate_extra = None, co_pattern_to_invalidate_extra = None \<rparr>"

definition read_post_cache :: cache_options where
  "read_post_cache = post_cache None None"

definition patch_post_cache :: cache_options where
  "patch_post_cache = post_cache None (Some [''{username}_posts:*''])"

definition erase_post_cache :: cache_options where
  "erase_post_cache = post_cache (Some [(''{username}_posts'', ''{username}'')]) None"

text \<open>FastAPI calls the endpoint with its parameters by name; a parameter that a class of
  query parameters collects is one object.\<close>

definition read_posts_kwargs :: "string \<Rightarrow> string \<Rightarrow> string \<Rightarrow> string \<Rightarrow> string \<Rightarrow> (string \<times> kwarg) list" where
  "read_posts_kwargs username db pagination filters sort_params =
     [(''username'', Value (JStr username)), (''db'', Object db), (''pagination'', Object pagination),
      (''filters'', Object filters), (''sort'', Object sort_params)]"

definition read_posts ::
  "('w, 'r) cache_env \<Rightarrow> string \<Rightarrow> string \<Rightarrow> string \<Rightarrow> string \<Rightarrow> string \<Rightarrow> 'w \<Rightarrow>
     ((cache_error + 'r cache_reply) \<times> 'w) option" where
  "read_posts env username db pagination filters sort_params w =
     cached_endpoint env read_posts_cache ''GET'' (read_posts_kwargs username db pagination filters sort_params) w"

definition post_kwargs :: "string \<Rightarrow> int \<Rightarrow> (string \<times> kwarg) list \<Rightarrow> (string \<times> kwarg) list" where
  "post_kwargs username i others = [(''username'', Value (JStr username)), (''id'', Value (JInt i))] @ others"

definition read_post ::
  "('w, 'r) cache_env \<Rightarrow> string \<Rightarrow> int \<Rightarrow> (string \<times> kwarg) list \<Rightarrow> 'w \<Rightarrow> ((cache_error + 'r cache_reply) \<times> 'w) option" where
  "read_post env username i others w = cached_endpoint env read_post_cache ''GET'' (post_kwargs username i others) w"

definition patch_post ::
  "('w, 'r) cache_env \<Rightarrow> string \<Rightarrow> int \<Rightarrow> (string \<times> kwarg) list \<Rightarrow> 'w \<Rightarrow> ((cache_error + 'r cache_reply) \<times> 'w) option" where
  "patch_post env username i others w = cached_endpoint env patch_post_cache ''PATCH'' (post_kwargs username i others) w"

definition erase_post ::
  "('w, 'r) cache_env \<Rightarrow> string \<Rightarrow> int \<Rightarrow> (string \<times> kwarg) list \<Rightarrow> 'w \<Rightarrow> ((cache_error + 'r cache_reply) \<times> 'w) option" where
  "erase_post env username i others w = cached_endpoint env erase_post_cache ''DELETE'' (post_kwargs username i others) w"

text \<open>The hard deletion, for callers with the permission to manage posts, has the same options.\<close>

definition erase_db_post ::
  "('w, 'r) cache_env \<Rightarrow> string \<Rightarrow> int \<Rightarrow> (string \<times> kwarg) list \<Rightarrow> 'w \<Rightarrow> ((cache_error + 'r cache_reply) \<times> 'w) option" where
  "erase_db_post env username i others w = cached_endpoint env erase_post_cache ''DELETE'' (post_kwargs username i others) w"

text \<open>The body of the reading endpoint under the decorator, called with the arguments of its
  path: it asks the service, on a session \<open>db\<close> of the world, and \<open>raised\<close> is the exception for an
  error of the service.\<close>

definition post_reader ::
  "'db services_env \<Rightarrow> ('w \<Rightarrow> 'db) \<Rightarrow> (service_error \<Rightarrow> exn) \<Rightarrow> string \<Rightarrow> int \<Rightarrow> ('w, dict) cache_env \<Rightarrow> ('w, dict) cache_env" where
  "post_reader services db raised username i env =
     env\<lparr> ce_func := (\<lambda>kwargs w. (map_sum raised id (get_post services username i (db w)), w)) \<rparr>"

end
