(* ===== verification/Service_Theorems.thy ===== *)
theory Service_Theorems
  imports Domain_Services Token_Theorems
begin

text \<open>
  Properties of the domain services over a repository that behaves as a table: a call with
  filters concerns the rows whose columns have the filters' values.
\<close>

section \<open>Repositories as tables\<close>

definition matches :: "dict \<Rightarrow> dict \<Rightarrow> bool" where
  "matches f row \<longleftrightarrow> list_all (\<lambda>(k, v). map_of row k = Some v) f"

text \<open>A look-up returns columns of a matching row, and nothing only when there is none.\<close>

definition get_contract_of :: "('db \<Rightarrow> dict list) \<Rightarrow> 'db repository \<Rightarrow> bool" where
  "get_contract_of rows repo \<longleftrightarrow> (\<forall>f db. case rp_get repo f db of
     None \<Rightarrow> \<not> list_ex (matches f) (rows db)
   | Some d \<Rightarrow> list_ex (\<lambda>row. matches f row \<and> map_of d \<subseteq>\<^sub>m map_of row) (rows db))"

definition unique_column :: "string \<Rightarrow> dict list \<Rightarrow> bool" where
  "unique_column k rows = distinct (map (\<lambda>row. map_of row k) rows)"

lemma get_contractD:
  assumes "get_contract_of rows repo"
  shows "rp_get repo f db = None \<longleftrightarrow> (\<forall>row \<in> set (rows db). \<not> matches f row)"
  using assms[unfolded get_contract_of_def, THEN spec[of _ f], THEN spec[of _ db]]
  by (auto simp: list_ex_iff split: option.splits)

lemma unique_columnD:
  assumes "unique_column k rows" "r \<in> set rows" "r' \<in> set rows" "map_of r k = map_of r' k"
  shows "r = r'"
  using assms unfolding unique_column_def distinct_map inj_on_def by blast

lemma subject_fields [simp]:
  "sb_user_id (build_subject rep p d) = dict_get d ''id'' JNull"
  "sb_username (build_subject rep p d) = dict_get d ''username'' JNull"
  by (simp_all add: build_subject_def Let_def)

lemma owner_by_id:
  assumes "map_of d ''id'' = Some (JInt a)"
  shows "is_resource_owner rep p (Resolved (build_subject rep p d)) (Some a) n"
  using assms by (simp add: is_resource_owner_def dict_get_Some)

lemma check_owner_by_id:
  assumes "map_of d ''id'' = Some (JInt a)"
  shows "check_owner env d permission (Some a) n =
    Inr (build_subject (se_rep env) DEFAULT_PERMISSION_POLICY d)"
  unfolding check_owner_def authorize_owner_or_permission_def coerce_subject.simps Let_def
  using owner_by_id[OF assms] by simp

section \<open>Posts\<close>

text \<open>C23: A user who may not see a post through their own name may change and delete it: the
  owner check is about the user of the path, and the post is found by its id alone, so any
  user updates and deletes the posts of every other user.\<close>

theorem owner_changes_foreign_posts:
  assumes c: "get_contract_of rows (se_posts env)" and u: "unique_column ''id'' (rows db)"
    and me: "rp_get (se_users env) [(''username'', JStr name), (''is_deleted'', JBool False)] db = Some user"
      "map_of user ''id'' = Some (JInt a)" "map_of current_user ''id'' = Some (JInt a)"
    and post: "post \<in> set (rows db)" "map_of post ''id'' = Some (JInt i)" "map_of post ''is_deleted'' = Some (JBool False)"
      "map_of post ''created_by_user_id'' = Some (JInt b)" "b \<noteq> a"
    and ok: "rp_update (se_posts env) new_values [(''id'', JInt i)] db = Inr db'"
      "rp_delete (se_posts env) [(''id'', JInt i)] db = Inr db''"
  shows "get_post env name i db = Inl (NotFoundException ''Post not found'') \<and>
    update_post env name i new_values current_user db = Inr (message ''Post updated'', db') \<and>
    delete_post env name i current_user db = Inr (message ''Post deleted'', db'')"
proof -
  have user: "active_user env name db = Inr user" "item user ''id'' = Inr (JInt a)"
    using me by (simp_all add: active_user_def item_def)
  note owner = check_owner_by_id[OF me(3), of env]
  have "\<not> matches [(''id'', JInt i), (''created_by_user_id'', JInt a), (''is_deleted'', JBool False)] row"
    if "row \<in> set (rows db)" for row
  proof
    assume "matches [(''id'', JInt i), (''created_by_user_id'', JInt a), (''is_deleted'', JBool False)] row"
    then have "map_of row ''id'' = map_of post ''id''" "map_of row ''created_by_user_id'' = Some (JInt a)"
      using post(2) by (simp_all add: matches_def)
    then show False using unique_columnD[OF u that post(1)] post(4,5) by simp
  qed
  then have "rp_get (se_posts env) [(''id'', JInt i), (''created_by_user_id'', JInt a), (''is_deleted'', JBool False)] db = None"
    using get_contractD[OF c] by blast
  then have own: "get_post env name i db = Inl (NotFoundException ''Post not found'')"
    using user by (simp add: get_post_def)
  have "matches [(''id'', JInt i), (''is_deleted'', JBool False)] post" using post by (simp add: matches_def)
  then have "rp_get (se_posts env) [(''id'', JInt i), (''is_deleted'', JBool False)] db \<noteq> None"
    using get_contractD[OF c] post(1) by blast
  then obtain p where "live_post env i db = Inr p" by (auto simp: live_post_def)
  then show ?thesis using user own ok owner by (simp add: update_post_def delete_post_def owner_id_def stored_def)
qed

text \<open>A repository over lists of rows.\<close>

definition list_repository :: "('db \<Rightarrow> dict list) \<Rightarrow> (dict list \<Rightarrow> 'db \<Rightarrow> 'db) \<Rightarrow> 'db repository" where
  "list_repository rows put =
     \<lparr> rp_get = (\<lambda>f db. List.find (matches f) (rows db)),
       rp_exists = (\<lambda>f db. list_ex (matches f) (rows db)),
       rp_get_multi = (\<lambda>page cols orders f db. [(''data'', JList (map JDict (filter (matches f) (rows db))))]),
       rp_create = (\<lambda>d db. let row = d @ [(''id'', JInt (int (length (rows db)))), (''is_deleted'', JBool False)]
                          in Inr (Some row, put (rows db @ [row]) db)),
       rp_update = (\<lambda>v f db. Inr (put (map (\<lambda>row. if matches f row then v @ row else row) (rows db)) db)),
       rp_delete = (\<lambda>f db. Inr (put (map (\<lambda>row. if matches f row then (''is_deleted'', JBool True) # row else row) (rows db)) db)),
       rp_db_delete = (\<lambda>f db. Inr (put (filter (\<lambda>row. \<not> matches f row) (rows db)) db)) \<rparr>"

lemma find_list_ex: "(case List.find P xs of None \<Rightarrow> \<not> list_ex P xs | Some x \<Rightarrow> P x \<and> x \<in> set xs)"
  by (induction xs) (auto split: option.splits)

lemma list_repository_get: "get_contract_of rows (list_repository rows put)"
  unfolding get_contract_of_def
proof (intro allI)
  fix f db
  show "case rp_get (list_repository rows put) f db of None \<Rightarrow> \<not> list_ex (matches f) (rows db)
    | Some d \<Rightarrow> list_ex (\<lambda>row. matches f row \<and> map_of d \<subseteq>\<^sub>m map_of row) (rows db)"
    using find_list_ex[of "matches f" "rows db"] by (auto simp: list_repository_def list_ex_iff split: option.splits)
qed

type_synonym demo_db = "dict list \<times> dict list"

definition no_rows :: "demo_db repository" where
  "no_rows = list_repository (\<lambda>db. []) (\<lambda>rows db. db)"

definition demo_services :: "demo_db services_env" where
  "demo_services =
     \<lparr> se_posts = list_repository snd (\<lambda>rows db. (fst db, rows)), se_users = list_repository fst (\<lambda>rows db. (rows, snd db)),
        se_tiers = no_rows, se_rate_limits = no_rows, se_rep = (\<lambda>j. ''?'') \<rparr>"

definition demo_user :: "int \<Rightarrow> string \<Rightarrow> dict" where
  "demo_user i name = [(''id'', JInt i), (''username'', JStr name), (''email'', JStr (name @ ''@x.org'')), (''is_deleted'', JBool False)]"

definition demo_post :: "string \<Rightarrow> dict" where
  "demo_post title = [(''id'', JInt 7), (''created_by_user_id'', JInt 2), (''title'', JStr title), (''is_deleted'', JBool False)]"

definition demo_posts :: "dict list \<Rightarrow> demo_db" where
  "demo_posts posts = ([demo_user 1 ''ann'', demo_user 2 ''bob''], posts)"

text \<open>Ann changes the post of Bob.\<close>

lemma demo_ann:
  "rp_get (se_users demo_services) [(''username'', JStr ''ann''), (''is_deleted'', JBool False)] (demo_posts ps) = Some (demo_user 1 ''ann'')"
  by (simp add: demo_services_def list_repository_def demo_posts_def demo_user_def matches_def)

lemma demo_foreign:
  "rp_update (se_posts demo_services) [(''title'', JStr ''hi'')] [(''id'', JInt 7)] (demo_posts [demo_post ''bye'']) = Inr (demo_posts [(''title'', JStr ''hi'') # demo_post ''bye''])"
  "\<exists>db. rp_delete (se_posts demo_services) [(''id'', JInt 7)] (demo_posts [demo_post ''bye'']) = Inr db"
  by (simp_all add: demo_services_def list_repository_def demo_posts_def demo_post_def matches_def dict_update_def)

lemma owner_changes_foreign_posts_witness:
  "update_post demo_services ''ann'' 7 [(''title'', JStr ''hi'')] (demo_user 1 ''ann'') (demo_posts [demo_post ''bye''])
     = Inr (message ''Post updated'', demo_posts [(''title'', JStr ''hi'') # demo_post ''bye''])"
proof -
  have c: "get_contract_of snd (se_posts demo_services)"
    using list_repository_get by (simp add: demo_services_def)
  have u: "unique_column ''id'' (snd (demo_posts [demo_post ''bye'']))" by (simp add: unique_column_def demo_posts_def)
  have f: "map_of (demo_user 1 ''ann'') ''id'' = Some (JInt 1)" by (simp add: demo_user_def)
  have p: "demo_post ''bye'' \<in> set (snd (demo_posts [demo_post ''bye'']))" "map_of (demo_post ''bye'') ''id'' = Some (JInt 7)"
    "map_of (demo_post ''bye'') ''is_deleted'' = Some (JBool False)"
    "map_of (demo_post ''bye'') ''created_by_user_id'' = Some (JInt 2)" "(2::int) \<noteq> 1"
    by (simp_all add: demo_posts_def demo_post_def)
  obtain db where d: "rp_delete (se_posts demo_services) [(''id'', JInt 7)] (demo_posts [demo_post ''bye'']) = Inr db"
    using demo_foreign(2) by blast
  from owner_changes_foreign_posts[OF c u demo_ann f f p demo_foreign(1) d] show ?thesis by simp
qed

section \<open>Users\<close>

text \<open>Which token a deletion revokes: the one of the request.\<close>

lemma blacklist_token_others:
  assumes "blacklist_token lib off cs now token t = Inr t'" "other \<noteq> token"
  shows "blacklist_exists t' other = blacklist_exists t other"
proof -
  have "t' = t \<or> (\<exists>x. blacklist_create t \<lparr> bl_token = token, bl_expires_at = x \<rparr> = Inr t')"
    using assms(1) by (auto simp: blacklist_token_def Let_def split: sum.splits if_splits option.splits)
  moreover have "blacklist_exists t' other = blacklist_exists t other"
    if "blacklist_create t \<lparr> bl_token = token, bl_expires_at = x \<rparr> = Inr t'" for x
    using blacklist_create_rows[OF that] assms(2) unfolding exists_iff by simp
  ultimately show ?thesis by blast
qed

lemma revoke_request_token_rows:
  assumes "revoke_request_token te now token reply st = (Inr r, st')" "other \<noteq> token"
  shows "blacklist_exists (ur_blacklist st') other = blacklist_exists (ur_blacklist st) other"
  using assms blacklist_token_others[OF _ assms(2)] by (auto simp: revoke_request_token_def split: sum.splits)

lemma revoke_request_token_own:
  assumes "revoke_request_token te now token reply st = (Inr r, st')"
    and "decode_token_payload (te_jwt te) token (te_crypt te) now = Inr p" "dict_get p ''exp'' JNull = JInt e"
  shows "blacklist_exists (ur_blacklist st') token"
  using assms blacklist_token_rows(2)[of "te_jwt te" "te_utc_offset te" "te_crypt te" now token "ur_blacklist st" _ p e]
  by (auto simp: revoke_request_token_def split: sum.splits intro!: holds_row_exists)

text \<open>The deletion of an account revokes the token of the caller and no other: an
  administrator who deletes another user is logged out, while every token of the deleted user
  that was accepted before is still a valid token.\<close>

theorem deletion_revokes_the_callers_token:
  assumes "delete_user env te now username current_user token st = (Inr r, st') \<or>
      delete_db_user env te now username token st = (Inr r, st')"
    and "decode_token_payload (te_jwt te) token (te_crypt te) now = Inr p" "dict_get p ''exp'' JNull = JInt e"
  shows "verify_token (te_jwt te) (te_crypt te) later token kind (ur_blacklist st') = Inr None \<and>
    (\<forall>other. other \<noteq> token \<longrightarrow> verify_token (te_jwt te) (te_crypt te) later other kind (ur_blacklist st') =
       verify_token (te_jwt te) (te_crypt te) later other kind (ur_blacklist st))"
proof -
  obtain reply db where "revoke_request_token te now token reply (st\<lparr> ur_db := db \<rparr>) = (Inr r, st')"
    using assms(1) by (auto simp: delete_user_def delete_db_user_def split: if_splits sum.splits)
  note own = revoke_request_token_own[OF this assms(2,3)] and others = revoke_request_token_rows[OF this]
  have "verify_token (te_jwt te) (te_crypt te) later token kind (ur_blacklist st') = Inr None"
    using own by (simp add: verify_token_def)
  moreover have "verify_token (te_jwt te) (te_crypt te) later other kind (ur_blacklist st') =
       verify_token (te_jwt te) (te_crypt te) later other kind (ur_blacklist st)" if "other \<noteq> token" for other
    using others[OF that] by (simp add: verify_token_def)
  ultimately show ?thesis by blast
qed

definition demo_jwt_env :: token_env where
  "demo_jwt_env = \<lparr> te_jwt = demo_jwt demo_payload 60, te_utc_offset = (\<lambda>_. 0), te_crypt = demo_crypt \<rparr>"

definition demo_accounts :: "demo_db user_state" where
  "demo_accounts = \<lparr> ur_db = demo_posts [], ur_blacklist = empty_blacklist \<rparr>"

lemma demo_deletion: "\<exists>st. delete_db_user demo_services demo_jwt_env 0 ''bob'' ''k1'' demo_accounts
    = (Inr (message ''User deleted from the database''), st)"
proof -
  obtain t where "blacklist_token (te_jwt demo_jwt_env) (te_utc_offset demo_jwt_env) (te_crypt demo_jwt_env) 0 ''k1'' empty_blacklist = Inr t"
    using demo_revoke[of "\<lambda>_. 0"] by (auto simp: demo_jwt_env_def)
  moreover have "rp_exists (se_users demo_services) [(''username'', JStr ''bob'')] (ur_db demo_accounts)"
    by (simp add: demo_accounts_def demo_services_def list_repository_def demo_posts_def demo_user_def matches_def)
  moreover have "\<exists>db. rp_db_delete (se_users demo_services) [(''username'', JStr ''bob'')] (ur_db demo_accounts) = Inr db"
    by (simp add: demo_services_def list_repository_def)
  ultimately show ?thesis by (auto simp: delete_db_user_def revoke_request_token_def stored_def demo_accounts_def)
qed

lemma deletion_revokes_the_callers_token_witness:
  "fst (delete_db_user demo_services demo_jwt_env 0 ''bob'' ''k1'' demo_accounts) = Inr (message ''User deleted from the database'') \<and>
    verify_token (te_jwt demo_jwt_env) (te_crypt demo_jwt_env) 0 ''k1'' REFRESH
      (ur_blacklist (snd (delete_db_user demo_services demo_jwt_env 0 ''bob'' ''k1'' demo_accounts))) = Inr None"
proof -
  obtain st where st: "delete_db_user demo_services demo_jwt_env 0 ''bob'' ''k1'' demo_accounts
      = (Inr (message ''User deleted from the database''), st)" using demo_deletion by blast
  have d: "decode_token_payload (te_jwt demo_jwt_env) ''k1'' (te_crypt demo_jwt_env) 0 = Inr demo_payload"
    using demo_decode[of 0] by (simp add: demo_jwt_env_def)
  from deletion_revokes_the_callers_token[OF disjI2[OF st] d demo_exp(1)] st show ?thesis by simp
qed

section \<open>Accounts stay distinct\<close>













lemma stored_Inr [simp]: "stored r = Inr x \<longleftrightarrow> r = Inr x"
  by (cases r) (simp_all add: stored_def)











end
