(* ===== verification/Cache_Theorems.thy ===== *)
theory Cache_Theorems
  imports Service_Theorems
begin

text \<open>
  Properties of the caching decorator: what a cached post answers when requests come one after
  the other, the stale value that a read leaves which overlaps a change, and what the post
  endpoints make of their cache options.
\<close>

section \<open>The frame of a request\<close>

text \<open>\<open>SCAN\<close> reads only.\<close>

definition scan_contract :: "('w \<Rightarrow> instant) \<Rightarrow> ('w \<Rightarrow> string \<Rightarrow> redis_entry option) \<Rightarrow> 'w redis_client \<Rightarrow> bool" where
  "scan_contract now look r \<longleftrightarrow> (\<forall>c p w. case rd_scan r c p w of (reply, w') \<Rightarrow> now w' = now w \<and> look w' = look w)"

definition cache_contract :: "('w \<Rightarrow> instant) \<Rightarrow> ('w \<Rightarrow> string \<Rightarrow> redis_entry option) \<Rightarrow> 'w redis_client \<Rightarrow> bool" where
  "cache_contract now look r \<longleftrightarrow>
     redis_contract now look r \<and> put_contract now look r \<and> expire_contract now look r \<and> scan_contract now look r"

text \<open>The commands keep an entry or drop it, apart from the store of the request's own key,
  and leave the resource alone.\<close>

definition kept :: "('w \<Rightarrow> string \<Rightarrow> redis_entry option) \<Rightarrow> string \<Rightarrow> 'w \<Rightarrow> 'w \<Rightarrow> bool" where
  "kept look k w w' \<longleftrightarrow> look w' k = None \<or> look w' k = look w k"

lemma kept_refl [simp]: "kept look k w w"
  by (simp add: kept_def)

lemma kept_trans: "kept look k w w1 \<Longrightarrow> kept look k w1 w2 \<Longrightarrow> kept look k w w2"
  by (auto simp: kept_def)

lemma scan_reply:
  assumes "cache_contract now look r" "rd_scan r c p w = (reply, w')"
  shows "look w' = look w"
proof -
  have "scan_contract now look r" using assms(1) by (simp add: cache_contract_def)
  from this[unfolded scan_contract_def, THEN spec[of _ c], THEN spec[of _ p], THEN spec[of _ w]] assms(2)
  show ?thesis by simp
qed

lemma cache_contractD:
  assumes "cache_contract now look r"
  shows "redis_contract now look r" "put_contract now look r" "expire_contract now look r"
  using assms by (simp_all add: cache_contract_def)

lemma delete_kept:
  assumes "cache_contract now look r" "rd_delete r ks w = (reply, w')"
  shows "kept look k w w'" "reply = Inr n \<Longrightarrow> k \<in> set ks \<Longrightarrow> look w' k = None"
  using delete_reply(2,3)[OF cache_contractD(1)[OF assms(1)] assms(2), of k]
    delete_reply(4)[OF cache_contractD(1)[OF assms(1)] assms(2), of n k] by (auto simp: kept_def)

lemma delete_found_kept:
  assumes "cache_contract now look r" "delete_found r ks w = (reply, w')"
  shows "kept look k w w'"
  using assms delete_kept(1)[OF assms(1), of ks w _ w' k]
  by (cases "rd_delete r ks w") (auto simp: delete_found_def split: if_splits)

lemma scan_loop_kept:
  assumes c: "cache_contract now look r" and "scan_loop r p cursor w = Some (reply, w')"
  shows "kept look k w w'"
proof -
  have "case out of (reply, w') \<Rightarrow> cache_contract now look r \<longrightarrow> kept look k w w'"
    if "scan_loop r p cursor w = Some out" for r p cursor w out
    using that
  proof (induction rule: scan_loop.raw_induct[rotated, consumes 1, case_names 1])
    case (1 loop r p cursor w out)
    obtain r1 w1 where s: "rd_scan r cursor p w = (r1, w1)" by (cases "rd_scan r cursor p w")
    show ?case
    proof (cases r1)
      case (Inl e)
      then show ?thesis using 1(2) s scan_reply[OF _ s, of now look] by (auto simp: kept_def)
    next
      case (Inr ck)
      obtain c' ks where ck: "ck = (c', ks)" by (cases ck)
      obtain r2 w2 where d: "delete_found r ks w1 = (r2, w2)" by (cases "delete_found r ks w1")
      have step: "cache_contract now look r \<Longrightarrow> kept look k w w2"
        using delete_found_kept[OF _ d, of now look k] scan_reply[OF _ s, of now look] by (simp add: kept_def)
      show ?thesis
      proof (cases "is_ok r2 \<and> c' \<noteq> 0")
        case True
        then have "loop r p c' w2 = Some out" using 1(2) s Inr ck d by (auto simp: is_ok_def split: sum.splits)
        from 1(1)[OF this] step show ?thesis using kept_trans[of look k w w2] by (auto split: prod.splits)
      next
        case False
        then have "snd out = w2" using 1(2) s Inr ck d by (auto simp: is_ok_def split: sum.splits if_splits)
        then show ?thesis using step by (auto split: prod.splits)
      qed
    qed
  qed
  from this[OF assms(2)] c show ?thesis by simp
qed

lemma delete_patterns_kept:
  assumes c: "cache_contract now look r" and "ce_client env = Some r" "delete_patterns env ps kwargs w = Some (reply, w')"
  shows "kept look k w w'"
  using assms(3)
proof (induction ps arbitrary: w)
  case (Cons p ps)
  show ?case
  proof (cases "format_prefix (ce_rep env) p kwargs")
    case (Inr f)
    then obtain r1 w1 where d: "delete_keys_by_pattern (ce_client env) (f @ ''*'') w = Some (r1, w1)"
      using Cons.prems by (auto split: option.splits)
    then have k: "kept look k w w1" using scan_loop_kept[OF c] assms(2) by (simp add: delete_keys_by_pattern_def)
    show ?thesis
    proof (cases r1)
      case (Inr u)
      with Cons.prems d \<open>format_prefix _ _ _ = _\<close> have "delete_patterns env ps kwargs w1 = Some (reply, w')" by simp
      from Cons.IH[OF this] k show ?thesis by (rule kept_trans[rotated])
    qed (use Cons.prems d \<open>format_prefix _ _ _ = _\<close> k in auto)
  qed (use Cons.prems in auto)
qed simp

lemma delete_extra_kept:
  assumes c: "cache_contract now look r" and "delete_extra rep r xs w = (reply, w')"
  shows "kept look k w w'"
  using assms(2)
proof (induction xs arbitrary: w)
  case (Cons x xs)
  obtain p i where x: "x = (p, i)" by (cases x)
  obtain r1 w1 where d: "rd_delete r [p @ '':'' @ arg_str rep i] w = (r1, w1)" by (cases "rd_delete r [p @ '':'' @ arg_str rep i] w")
  note k = delete_kept(1)[OF c d, of k]
  show ?case
  proof (cases r1)
    case (Inr n)
    with Cons.prems d x have "delete_extra rep r xs w1 = (reply, w')" by simp
    from Cons.IH[OF this] k show ?thesis by (rule kept_trans[rotated])
  qed (use Cons.prems d x k in auto)
qed simp

lemma cache_invalidate_kept:
  assumes c: "cache_contract now look r" and e: "ce_client env = Some r"
    and "cache_invalidate env r opts key kwargs w = Some (reply, w')"
  shows "kept look k w w'" "reply = Inr u \<Longrightarrow> look w' key = None"
proof -
  obtain r1 w1 where d: "rd_delete r [key] w = (r1, w1)" by (cases "rd_delete r [key] w")
  note k1 = delete_kept[OF c d]
  have all: "kept look k' w w' \<and> (reply = Inr u \<longrightarrow> (k' = key \<longrightarrow> look w' k' = None))" for k'
  proof (cases r1)
    case (Inl e)
    then show ?thesis using assms(3) d k1(1) by (auto simp: cache_invalidate_def)
  next
    case (Inr n)
    obtain r2 w2 where x: "delete_extras env r opts kwargs w1 = (r2, w2)" by (cases "delete_extras env r opts kwargs w1")
    then have k2: "kept look k' w1 w2"
      using delete_extra_kept[OF c] by (auto simp: delete_extras_def split: option.splits sum.splits)
    have "kept look k' w2 w'"
      using assms(3) d Inr x delete_patterns_kept[OF c e]
      by (cases r2) (auto simp: cache_invalidate_def)
    with k2 have "kept look k' w1 w'" by (rule kept_trans)
    then show ?thesis using k1(1)[of k'] k1(2)[OF Inr, of k'] kept_trans[of look k' w w1 w'] by (auto simp: kept_def)
  qed
  show "kept look k w w'" using all by simp
  show "reply = Inr u \<Longrightarrow> look w' key = None" using all[of key] by simp
qed

section \<open>Requests one after the other\<close>

text \<open>What the commands of Redis leave alone: \<open>cur\<close> is any view of the rest of the world.\<close>

definition apart :: "'w redis_client \<Rightarrow> ('w \<Rightarrow> 'r) \<Rightarrow> bool" where
  "apart r cur \<longleftrightarrow> (\<forall>k v nx ex n w. cur (snd (rd_get r k w)) = cur w \<and> cur (snd (rd_set r k v nx ex w)) = cur w \<and>
     cur (snd (rd_expire r k n w)) = cur w)"

text \<open>The entry under a key holds the text of a value of the set \<open>past\<close>.\<close>

definition recent_entry ::
  "('w, 'r) cache_env \<Rightarrow> ('w \<Rightarrow> string \<Rightarrow> redis_entry option) \<Rightarrow> string \<Rightarrow> 'r set \<Rightarrow> 'w \<Rightarrow> bool" where
  "recent_entry env look K past w \<longleftrightarrow>
     (\<forall>v e. look w K = Some (v, e) \<longrightarrow> v \<in> (\<lambda>x. ce_dumps env (ce_encode env x)) ` past)"

lemma apartD:
  assumes "apart r cur"
  shows "rd_get r k w = (a, w') \<Longrightarrow> cur w' = cur w" "rd_set r k v nx ex w = (b, w') \<Longrightarrow> cur w' = cur w"
    "rd_expire r k n w = (c, w') \<Longrightarrow> cur w' = cur w"
  using assms by (simp_all add: apart_def) (metis snd_conv)+

lemma recent_kept:
  "recent_entry env look K past w \<Longrightarrow> kept look K w w' \<Longrightarrow> past \<subseteq> past' \<Longrightarrow> recent_entry env look K past' w'"
  by (auto simp: recent_entry_def kept_def) blast

lemma cache_lookup_step:
  assumes c: "cache_contract now look r" and a: "apart r cur"
    and l: "cache_lookup env r opts K w = (reply, w')"
  shows "look w' = look w" "cur w' = cur w"
    and "reply = Inr (Some j) \<Longrightarrow> \<exists>v e. look w K = Some (v, e) \<and> ce_loads env v = Inr j"
proof -
  obtain g w1 where g: "rd_get r K w = (g, w1)" by (cases "rd_get r K w")
  note gr = get_reply[OF cache_contractD(1)[OF c] g] and ga = apartD(1)[OF a g]
  show "look w' = look w" "cur w' = cur w"
    using l g gr(2) ga by (auto simp: cache_lookup_def split: if_splits sum.splits)
  assume "reply = Inr (Some j)"
  with l g obtain v where v: "g = Inr (Some v)" "ce_loads env v = Inr j"
    by (auto simp: cache_lookup_def truthy_list_iff split: if_splits sum.splits)
  from gr(3)[OF v(1)] have "visible now look w K = Some v" by simp
  then show "\<exists>v e. look w K = Some (v, e) \<and> ce_loads env v = Inr j"
    using v(2) by (auto simp: visible_def split: option.splits if_splits)
qed

lemma cache_store_step:
  assumes c: "cache_contract now look r" and a: "apart r cur"
    and s: "cache_store env r opts K x w = (reply, w')"
  shows "cur w' = cur w" "reply = Inr j \<Longrightarrow> ce_loads env (ce_dumps env (ce_encode env x)) = Inr j"
    and "look w' K = Some (v, e) \<Longrightarrow> v = ce_dumps env (ce_encode env x) \<or> (\<exists>e'. look w K = Some (v, e'))"
proof -
  let ?d = "ce_dumps env (ce_encode env x)"
  obtain p w1 where p: "rd_set r K ?d False None w = (p, w1)" by (cases "rd_set r K ?d False None w")
  obtain q w2 where q: "rd_expire r K (co_expiration opts) w1 = (q, w2)" by (cases "rd_expire r K (co_expiration opts) w1")
  note pr = put_reply[OF cache_contractD(2)[OF c] p] and qr = expire_reply[OF cache_contractD(3)[OF c] q]
  note ap = apartD(2)[OF a p] apartD(3)[OF a q]
  have w': "w' = (if is_ok p then w2 else w1)" using s p q by (auto simp: cache_store_def Let_def split: sum.splits)
  show "cur w' = cur w" using w' ap by simp
  show "reply = Inr j \<Longrightarrow> ce_loads env ?d = Inr j"
    using s p q by (cases "ce_loads env ?d") (auto simp: cache_store_def Let_def split: sum.splits)
  have one: "look w1 K = Some (v, e1) \<Longrightarrow> v = ?d \<or> (\<exists>e'. look w K = Some (v, e'))" for e1
    using pr(3) by (metis Pair_inject option.inject)
  assume "look w' K = Some (v, e)"
  then obtain e1 where "look w1 K = Some (v, e1)" using w' qr(3)[of v e] by (auto split: if_splits)
  from one[OF this] show "v = ?d \<or> (\<exists>e'. look w K = Some (v, e'))" .
qed

lemma cache_lookup_miss:
  assumes c: "cache_contract now look r" and l: "cache_lookup env r opts K w = (Inr (Some j), w')"
  shows "visible now look w K \<noteq> None"
proof -
  obtain g w1 where g: "rd_get r K w = (g, w1)" by (cases "rd_get r K w")
  with l obtain v where "g = Inr (Some v)"
    by (auto simp: cache_lookup_def truthy_list_iff split: if_splits sum.splits)
  then have "visible now look w K = Some v" using get_reply(3)[OF cache_contractD(1)[OF c] g, of "Some v"] by simp
  then show ?thesis by simp
qed

text \<open>A read of an endpoint that answers the current value \<open>cur\<close>, if there is one, and changes
  nothing.\<close>

lemma cache_get_step:
  assumes c: "cache_contract now look r" and a: "apart r cur"
    and f: "\<And>w. ce_func env kwargs w = (map_sum raised id (cur w), w)"
    and recent: "recent_entry env look K past w" and now: "\<And>x. cur w = Inr x \<Longrightarrow> x \<in> past"
    and g: "cache_get env r opts K kwargs w = (reply, w')"
  shows "recent_entry env look K past w'" "cur w' = cur w"
    and "reply = Inr (Json_Reply j) \<Longrightarrow> \<exists>x \<in> past. ce_loads env (ce_dumps env (ce_encode env x)) = Inr j \<and>
      (visible now look w K = None \<longrightarrow> cur w = Inr x)"
proof -
  obtain l w1 where l: "cache_lookup env r opts K w = (l, w1)" by (cases "cache_lookup env r opts K w")
  note ls = cache_lookup_step[OF c a l]
  have x: "ce_func env kwargs w1 = (map_sum raised id (cur w), w1)" using f[of w1] ls(2) by simp
  have all: "recent_entry env look K past w' \<and> cur w' = cur w \<and>
      (reply = Inr (Json_Reply j) \<longrightarrow> (\<exists>x \<in> past. ce_loads env (ce_dumps env (ce_encode env x)) = Inr j \<and>
        (visible now look w K = None \<longrightarrow> cur w = Inr x)))"
  proof (cases "l = Inr None \<and> is_ok (cur w)")
    case True
    then obtain y where y: "cur w = Inr y" by (cases "cur w") auto
    obtain t w3 where t: "cache_store env r opts K y w1 = (t, w3)" by (cases "cache_store env r opts K y w1")
    note ts = cache_store_step[OF c a t]
    have "w' = w3" "reply = map_sum id Json_Reply t" using g l x y t True by (auto simp: cache_get_def split: sum.splits)
    moreover have "recent_entry env look K past w3"
      using ts(3) ls(1) recent now[OF y] by (fastforce simp: recent_entry_def)
    ultimately show ?thesis using ts(1,2) ls(2) now[OF y] y by (cases t) auto
  next
    case False
    then have w': "w' = w1" and rep: "reply = Inr (Json_Reply j) \<Longrightarrow> l = Inr (Some j)"
      using g l x by (cases "cur w"; auto simp: cache_get_def split: sum.splits option.splits)+
    have "reply = Inr (Json_Reply j) \<Longrightarrow> \<exists>x \<in> past. ce_loads env (ce_dumps env (ce_encode env x)) = Inr j \<and>
        (visible now look w K = None \<longrightarrow> cur w = Inr x)"
    proof -
      assume j: "reply = Inr (Json_Reply j)"
      note hit = l[unfolded rep[OF j]]
      from ls(3)[OF rep[OF j]] obtain v e where v: "look w K = Some (v, e)" "ce_loads env v = Inr j" by blast
      with recent obtain x where "x \<in> past" "v = ce_dumps env (ce_encode env x)" by (auto simp: recent_entry_def)
      with v cache_lookup_miss[OF c hit] show ?thesis by auto
    qed
    with w' ls(1,2) recent show ?thesis by (auto simp: recent_entry_def)
  qed
  then show "recent_entry env look K past w'" "cur w' = cur w"
    and "reply = Inr (Json_Reply j) \<Longrightarrow> \<exists>x \<in> past. ce_loads env (ce_dumps env (ce_encode env x)) = Inr j \<and>
      (visible now look w K = None \<longrightarrow> cur w = Inr x)" by simp_all
qed

lemma cache_change_ok:
  assumes "cache_change env r opts key kwargs w = Some (Inr reply, w')"
  obtains u w1 where "cache_invalidate env r opts key kwargs w1 = Some (Inr u, w')"
proof -
  obtain x w1 where x: "ce_func env kwargs w = (x, w1)" by (cases "ce_func env kwargs w")
  with assms obtain y where y: "x = Inr y" by (cases x) (simp_all add: cache_change_def)
  from assms x y have ex: "cache_invalidate env r opts key kwargs w1 \<noteq> None" by (cases "cache_invalidate env r opts key kwargs w1") (simp_all add: cache_change_def)
  then obtain i w2 where i: "cache_invalidate env r opts key kwargs w1 = Some (i, w2)" by auto
  with assms x y have "w2 = w'" "is_ok i" by (cases i; simp add: cache_change_def)+
  with i that show thesis by (cases i) auto
qed

section \<open>A cached post\<close>

text \<open>The three endpoints of a post compute one key for one path.\<close>

definition post_key :: "string \<Rightarrow> int \<Rightarrow> string" where
  "post_key username i = username @ ''_post_cache:'' @ show_int i"

lemma post_cache_key: "cache_key_of rep (post_cache extra patterns) (post_kwargs username i others) = Inr (post_key username i)"
proof -
  have d: "extract_data_inside_brackets ''{username}_post_cache'' = [''username'']" by code_simp
  show ?thesis
    by (simp add: cache_key_of_def resource_id_of_def format_prefix_def d post_cache_def post_kwargs_def post_key_def
        arg_str_def json_str_def)
qed

lemmas post_keys = post_cache_key[of _ None None, folded read_post_cache_def]
  post_cache_key[of _ None "Some [''{username}_posts:*'']", folded patch_post_cache_def]
  post_cache_key[of _ "Some [(''{username}_posts'', ''{username}'')]" None, folded erase_post_cache_def]

text \<open>A sequence of whole requests, seen by the path of one post.  \<open>past\<close> is what the service has
  had to say about the post since the last change through this path that succeeded with its
  invalidation: a read adds nothing, such a change starts again with what holds after it, and
  whatever else happens (a change through another path or one whose invalidation failed, other
  keys, the entry expiring) may change the post, and keeps the entry or drops it.\<close>

inductive post_run :: "('w \<Rightarrow> string \<Rightarrow> redis_entry option) \<Rightarrow> 'w redis_client \<Rightarrow> ('w, dict) cache_env \<Rightarrow>
    ('w \<Rightarrow> service_error + dict) \<Rightarrow> string \<Rightarrow> int \<Rightarrow> (service_error + dict) set \<Rightarrow> 'w \<Rightarrow> bool"
  for look r reader current username i where
  Start: "look w (post_key username i) = None \<Longrightarrow> post_run look r reader current username i {current w} w"
| Read: "\<lbrakk> post_run look r reader current username i past w; read_post reader username i others w = Some (reply, w') \<rbrakk> \<Longrightarrow>
   post_run look r reader current username i past w'"
| Changed: "\<lbrakk> post_run look r reader current username i past w; ce_client (env :: ('w, dict) cache_env) = Some r;
     patch_post env username i others w = Some (Inr reply, w') \<or> erase_post env username i others w = Some (Inr reply, w') \<or>
     erase_db_post env username i others w = Some (Inr reply, w') \<rbrakk> \<Longrightarrow>
   post_run look r reader current username i {current w'} w'"
| Other: "\<lbrakk> post_run look r reader current username i past w; kept look (post_key username i) w w' \<rbrakk> \<Longrightarrow>
   post_run look r reader current username i (insert (current w') past) w'"

lemma changed_post_dropped:
  assumes c: "cache_contract now look r" and e: "ce_client env = Some r"
    and "patch_post env username i others w = Some (Inr reply, w') \<or> erase_post env username i others w = Some (Inr reply, w') \<or>
      erase_db_post env username i others w = Some (Inr reply, w')"
  shows "look w' (post_key username i) = None"
proof -
  obtain opts where "cache_change env r opts (post_key username i) (post_kwargs username i others) w = Some (Inr reply, w')"
    using assms(3) e by (auto simp: patch_post_def erase_post_def erase_db_post_def cached_endpoint_def post_keys)
  then obtain u w1 where "cache_invalidate env r opts (post_key username i) (post_kwargs username i others) w1 = Some (Inr u, w')"
    by (rule cache_change_ok)
  from cache_invalidate_kept(2)[OF c e this refl] show ?thesis .
qed

text \<open>The values among what the service has said.\<close>

definition posts_in :: "(service_error + dict) set \<Rightarrow> dict set" where
  "posts_in past = {p. Inr p \<in> past}"

lemma read_post_step:
  assumes c: "cache_contract now look r" and a: "apart r db" and e: "ce_client env = Some r"
    and recent: "recent_entry env look (post_key username i) (posts_in past) w" and m: "get_post services username i (db w) \<in> past"
    and r: "read_post (post_reader services db raised username i env) username i others w = Some (reply, w')"
  shows "recent_entry env look (post_key username i) (posts_in past) w'"
    and "get_post services username i (db w') = get_post services username i (db w)"
    and "reply = Inr (Json_Reply j) \<Longrightarrow> \<exists>p \<in> posts_in past. ce_loads env (ce_dumps env (ce_encode env p)) = Inr j \<and>
      (visible now look w (post_key username i) = None \<longrightarrow> get_post services username i (db w) = Inr p)"
proof -
  let ?env = "post_reader services db raised username i env" and ?K = "post_key username i"
  have g: "cache_get ?env r read_post_cache ?K (post_kwargs username i others) w = (reply, w')"
    using r e by (simp add: read_post_def cached_endpoint_def post_reader_def post_keys)
  have same: "recent_entry ?env look k ps w = recent_entry env look k ps w" for k ps w
    by (simp add: recent_entry_def post_reader_def)
  have dumps: "ce_loads ?env = ce_loads env" "ce_dumps ?env = ce_dumps env" "ce_encode ?env = ce_encode env"
    by (simp_all add: post_reader_def)
  have cur: "apart r (\<lambda>w. get_post services username i (db w))" using a by (simp add: apart_def)
  have f: "ce_func ?env (post_kwargs username i others) w = (map_sum raised id (get_post services username i (db w)), w)" for w
    by (simp add: post_reader_def)
  have known: "x \<in> posts_in past" if "get_post services username i (db w) = Inr x" for x using m that by (simp add: posts_in_def)
  note step = cache_get_step[where cur = "\<lambda>w. get_post services username i (db w)" and raised = raised and past = "posts_in past",
      OF c cur f _ known g, unfolded same dumps, OF recent]
  show "recent_entry env look ?K (posts_in past) w'" by (rule step(1))
  show "reply = Inr (Json_Reply j) \<Longrightarrow> \<exists>p \<in> posts_in past. ce_loads env (ce_dumps env (ce_encode env p)) = Inr j \<and>
      (visible now look w ?K = None \<longrightarrow> get_post services username i (db w) = Inr p)" by (rule step(3))
  show "get_post services username i (db w') = get_post services username i (db w)" by (rule step(2))
qed

lemma post_run_recent:
  assumes "post_run look r (post_reader services db raised username i env) (\<lambda>w. get_post services username i (db w)) username i past w"
    and c: "cache_contract now look r" "apart r db" "ce_client env = Some r"
  shows "recent_entry env look (post_key username i) (posts_in past) w \<and> get_post services username i (db w) \<in> past"
  using assms(1)
proof (induction rule: post_run.induct)
  case (Start w)
  then show ?case by (simp add: recent_entry_def)
next
  case (Read past w others reply w')
  show ?case using read_post_step(1,2)[OF c conjunct1[OF Read.IH] conjunct2[OF Read.IH] Read.hyps(2)] Read.IH by simp
next
  case (Changed past w env' others reply w')
  then show ?case using changed_post_dropped[OF c(1) Changed.hyps(2,3)] by (simp add: recent_entry_def)
next
  case (Other past w w')
  have "posts_in past \<subseteq> posts_in (insert (get_post services username i (db w')) past)" by (auto simp: posts_in_def)
  with Other recent_kept[of env look "post_key username i" "posts_in past" w w'] show ?case by blast
qed

section \<open>Properties\<close>

text \<open>C24: What a cached read of a post answers.  Let requests come one after the other; then a
  cached answer is the serialisation of a post that the service has found since the last change
  through the same path that succeeded with its invalidation, and when nothing is cached it is the
  post as it is now.  So it is the current post if all changes go through the path of the post;
  a change through another path, or one whose invalidation fails, is not noticed, and the read
  after it may answer with the post as it was.\<close>

theorem cached_posts_were_current:
  assumes "post_run look r (post_reader services db raised username i env) (\<lambda>w. get_post services username i (db w))
      username i past w"
    and "cache_contract now look r" "apart r db" "ce_client env = Some r"
    and "read_post (post_reader services db raised username i env) username i others w = Some (Inr (Json_Reply j), w')"
  shows "\<exists>p. Inr p \<in> past \<and> ce_loads env (ce_dumps env (ce_encode env p)) = Inr j \<and>
    (visible now look w (post_key username i) = None \<longrightarrow> get_post services username i (db w) = Inr p)"
  using post_run_recent[OF assms(1-4)] read_post_step(3)[OF assms(2-4) _ _ assms(5), of past j] by (auto simp: posts_in_def)

text \<open>A world with a resource beside the store.\<close>

definition beside :: "'a redis_client \<Rightarrow> ('a \<times> 'b) redis_client" where
  "beside r =
     \<lparr> rd_set = (\<lambda>k v nx ex w. case rd_set r k v nx ex (fst w) of (y, a) \<Rightarrow> (y, (a, snd w))),
       rd_get = (\<lambda>k w. case rd_get r k (fst w) of (y, a) \<Rightarrow> (y, (a, snd w))),
       rd_delete = (\<lambda>ks w. case rd_delete r ks (fst w) of (y, a) \<Rightarrow> (y, (a, snd w))),
       rd_incr = (\<lambda>k w. case rd_incr r k (fst w) of (y, a) \<Rightarrow> (y, (a, snd w))),
       rd_expire = (\<lambda>k n w. case rd_expire r k n (fst w) of (y, a) \<Rightarrow> (y, (a, snd w))),
       rd_scan = (\<lambda>c p w. case rd_scan r c p (fst w) of (y, a) \<Rightarrow> (y, (a, snd w))) \<rparr>"

definition toy_now2 :: "toy_redis \<times> 'b \<Rightarrow> instant" where
  "toy_now2 w = ty_now (fst w)"

definition toy_look2 :: "toy_redis \<times> 'b \<Rightarrow> string \<Rightarrow> redis_entry option" where
  "toy_look2 w = toy_look (fst w)"

lemma visible2 [simp]: "visible toy_now2 toy_look2 w k = visible ty_now toy_look (fst w) k"
  unfolding visible_def toy_now2_def toy_look2_def ..

lemma toy_cache_contract: "cache_contract toy_now2 toy_look2 (beside toy_client)"
proof -
  have "redis_contract toy_now2 toy_look2 (beside toy_client)"
    by (auto simp: redis_contract_def set_nx_contract_def set_contract_def get_contract_def delete_contract_def beside_def
        toy_client_def toy_now2_def toy_look2_def toy_look_def Let_def map_of_filter_keys fun_eq_iff)
  moreover have "put_contract toy_now2 toy_look2 (beside toy_client)"
    by (auto simp: put_contract_def beside_def toy_client_def toy_now2_def toy_look2_def toy_look_def Let_def fun_eq_iff)
  moreover have "expire_contract toy_now2 toy_look2 (beside toy_client)"
    by (auto simp: expire_contract_def beside_def toy_client_def toy_now2_def toy_look2_def toy_look_def Let_def fun_eq_iff
        split: option.split)
  moreover have "scan_contract toy_now2 toy_look2 (beside toy_client)"
    by (auto simp: scan_contract_def beside_def toy_client_def toy_now2_def toy_look2_def)
  ultimately show ?thesis by (simp add: cache_contract_def)
qed

text \<open>One post, an integer, with its text in decimal.\<close>

definition demo_cache_env :: "((string \<times> kwarg) list \<Rightarrow> toy_redis \<times> int \<Rightarrow> (exn + int) \<times> (toy_redis \<times> int)) \<Rightarrow> (toy_redis \<times> int, int) cache_env" where
  "demo_cache_env f = \<lparr> ce_client = Some (beside toy_client), ce_rep = (\<lambda>j. ''?''), ce_encode = JInt,
     ce_dumps = (\<lambda>j. case j of JInt i \<Rightarrow> show_int i | _ \<Rightarrow> ''null''),
     ce_loads = (\<lambda>s. Inr (case py_int s of None \<Rightarrow> JNull | Some i \<Rightarrow> JInt i)), ce_func = f \<rparr>"

definition demo_get :: "(toy_redis \<times> int, int) cache_env" where
  "demo_get = demo_cache_env (\<lambda>kwargs w. (Inr (snd w), w))"

definition demo_patch :: "(toy_redis \<times> int, int) cache_env" where
  "demo_patch = demo_cache_env (\<lambda>kwargs w. (Inr 0, (fst w, snd w + 1)))"

definition demo_empty :: "toy_redis \<times> int" where
  "demo_empty = (\<lparr> ty_now = 0, ty_rows = [] \<rparr>, 41)"

definition demo_key :: string where
  "demo_key = ''bob_post_cache:7''"

lemma demo_keys:
  "cache_key_of (ce_rep demo_get) read_post_cache (post_kwargs ''bob'' 7 []) = Inr demo_key"
  "cache_key_of (ce_rep demo_patch) erase_post_cache (post_kwargs ''bob'' 7 []) = Inr demo_key"
  unfolding demo_get_def demo_patch_def demo_cache_env_def cache_env.select_convs by code_simp+

definition demo_w2 :: "toy_redis \<times> int" where
  "demo_w2 = (\<lparr> ty_now = 0, ty_rows = [] \<rparr>, 42)"

text \<open>Ann deletes the post of Bob through her own path.  Bob's path has been read before, and goes on
  serving the deleted post.\<close>

definition board_env :: "(toy_redis \<times> demo_db, dict) cache_env" where
  "board_env = \<lparr> ce_client = Some (beside toy_client), ce_rep = (\<lambda>j. ''?''), ce_encode = JDict,
     ce_dumps = (\<lambda>j. case j of JDict d \<Rightarrow> (case map_of d ''title'' of Some (JStr t) \<Rightarrow> t | _ \<Rightarrow> ''none'') | _ \<Rightarrow> ''null''),
     ce_loads = (\<lambda>s. Inr (JStr s)),
     ce_func = (\<lambda>kwargs w. case delete_post demo_services ''ann'' 7 (demo_user 1 ''ann'') (snd w) of
        Inl e \<Rightarrow> (Inl \<lparr> exn_message = [], exn_code = None \<rparr>, w) | Inr (m, db) \<Rightarrow> (Inr m, (fst w, db))) \<rparr>"

definition board_reader :: "(toy_redis \<times> demo_db, dict) cache_env" where
  "board_reader = post_reader demo_services snd (\<lambda>e. \<lparr> exn_message = [], exn_code = None \<rparr>) ''bob'' 7 board_env"

definition board :: "string list \<Rightarrow> dict \<Rightarrow> toy_redis \<times> demo_db" where
  "board cached post = (\<lparr> ty_now = 0, ty_rows = concat (map (\<lambda>t. [(''bob_post_cache:7'', (t, Some 3600000000)),
     (''bob_post_cache:7'', (t, None))]) cached) \<rparr>, demo_posts [post])"

abbreviation board_run where
  "board_run \<equiv> post_run toy_look2 (beside toy_client) board_reader (\<lambda>w. get_post demo_services ''bob'' 7 (snd w)) ''bob'' 7"

lemma board_steps:
  "read_post board_reader ''bob'' 7 [] (board [] (demo_post ''bye'')) = Some (Inr (Json_Reply (JStr ''bye'')), board [''bye''] (demo_post ''bye''))"
  "erase_post board_env ''ann'' 7 [] (board [''bye''] (demo_post ''bye'')) =
     Some (Inr (Plain_Reply (message ''Post deleted'')), board [''bye''] ((''is_deleted'', JBool True) # demo_post ''bye''))"
  "read_post board_reader ''bob'' 7 [] (board [''bye''] ((''is_deleted'', JBool True) # demo_post ''bye'')) =
     Some (Inr (Json_Reply (JStr ''bye'')), board [''bye''] ((''is_deleted'', JBool True) # demo_post ''bye''))"
  by code_simp+

lemma board_gets:
  "get_post demo_services ''bob'' 7 (snd (board c (demo_post ''bye''))) = Inr (demo_post ''bye'')"
  "get_post demo_services ''bob'' 7 (snd (board c ((''is_deleted'', JBool True) # demo_post ''bye''))) = Inl (NotFoundException ''Post not found'')"
  unfolding board_def snd_conv by code_simp+

lemma cached_posts_were_current_witness:
  "get_post demo_services ''bob'' 7 (snd (board [''bye''] ((''is_deleted'', JBool True) # demo_post ''bye''))) = Inl (NotFoundException ''Post not found'') \<and>
   (\<exists>p. Inr p \<in> {Inl (NotFoundException ''Post not found''), Inr (demo_post ''bye'')} \<and>
     ce_loads board_env (ce_dumps board_env (ce_encode board_env p)) = Inr (JStr ''bye''))"
proof -
  let ?gone = "board [''bye''] ((''is_deleted'', JBool True) # demo_post ''bye'')"
  have start: "board_run {Inr (demo_post ''bye'')} (board [] (demo_post ''bye''))"
    using post_run.Start[where w = "board [] (demo_post ''bye'')" and look = toy_look2 and username = "''bob''" and i = 7
        and current = "\<lambda>w. get_post demo_services ''bob'' 7 (snd w)"] unfolding board_gets
    by (simp add: toy_look2_def toy_look_def board_def)
  have kept: "kept toy_look2 (post_key ''bob'' 7) (board [''bye''] (demo_post ''bye'')) ?gone"
    by (simp add: kept_def toy_look2_def board_def)
  have run: "board_run {Inl (NotFoundException ''Post not found''), Inr (demo_post ''bye'')} ?gone"
    using post_run.Other[OF post_run.Read[OF start board_steps(1)] kept] unfolding board_gets .
  have e: "ce_client board_env = Some (beside toy_client)" by (simp add: board_env_def)
  have a: "apart (beside toy_client) (snd :: toy_redis \<times> demo_db \<Rightarrow> demo_db)"
    by (auto simp: apart_def beside_def Let_def split: prod.splits)
  from cached_posts_were_current[OF run[unfolded board_reader_def] toy_cache_contract a e board_steps(3)[unfolded board_reader_def]]
    board_gets(2)[of "[''bye'']"]
  show ?thesis by blast
qed

text \<open>A read that overlaps a change leaves a stale value behind: when the read missed and
  read the resource before the change, and stores after it, then the value before the change
  is what every later read of the key is answered until the entry expires, although the
  change went through and its invalidation succeeded.\<close>

theorem overlapping_read_caches_stale_value:
  assumes c: "cache_contract now look r" and e: "ce_client genv = Some r" "ce_client cenv = Some r"
    and k: "cache_key_of (ce_rep genv) gopts kwargs = Inr K"
    and miss: "cache_lookup genv r gopts K w0 = (Inr None, w1)"
    and before: "ce_func genv kwargs w1 = (Inr old, w2)"
    and change: "cached_endpoint cenv copts http_method kwargs' w2 = Some (Inr reply, w3)"
    and after: "cache_store genv r gopts K old w3 = (Inr j, w4)"
    and later: "look w5 K = look w4 K" "now w5 < now w3 + seconds (co_expiration gopts)" "0 < co_expiration gopts"
    and nonempty: "ce_dumps genv (ce_encode genv old) \<noteq> []"
    and read: "cached_endpoint genv gopts ''GET'' kwargs w5 = Some (Inr answer, w6)"
  shows "answer = Json_Reply j"
proof -
  let ?d = "ce_dumps genv (ce_encode genv old)"
  obtain p v1 where p: "rd_set r K ?d False None w3 = (p, v1)" by (cases "rd_set r K ?d False None w3")
  obtain q v2 where q: "rd_expire r K (co_expiration gopts) v1 = (q, v2)" by (cases "rd_expire r K (co_expiration gopts) v1")
  have ok: "is_ok p" "is_ok q" "w4 = v2" "ce_loads genv ?d = Inr j"
    using after p q by (auto simp: cache_store_def Let_def split: sum.splits) (cases "ce_loads genv ?d"; simp)
  note pr = put_reply[OF cache_contractD(2)[OF c] p]
  have "look v1 K = Some (?d, None)" using pr(3) ok(1) by (auto simp: is_ok_def)
  moreover from this have "visible now look v1 K = Some ?d" by (simp add: visible_def)
  ultimately have "look v2 K = Some (?d, Some (now w3 + seconds (co_expiration gopts)))"
    using expire_reply(4)[OF cache_contractD(3)[OF c] q, of ?d None] later(3) ok(2) pr(1) by (auto simp: is_ok_def)
  then have vis: "visible now look w5 K = Some ?d" using later ok(3) by (simp add: visible_def)
  obtain g w5' where g: "rd_get r K w5 = (g, w5')" by (cases "rd_get r K w5")
  have get: "cache_get genv r gopts K kwargs w5 = (Inr answer, w6)" using read e(1) k by (simp add: cached_endpoint_def)
  have "\<not> (co_to_invalidate_extra gopts \<noteq> None \<or> co_pattern_to_invalidate_extra gopts \<noteq> None)"
    using miss by (simp add: cache_lookup_def split: if_splits)
  moreover obtain t where t: "g = Inr t" using get g calculation by (cases g) (auto simp: cache_get_def cache_lookup_def)
  moreover have "t = Some ?d" using get_reply(3)[OF cache_contractD(1)[OF c] g t] vis by simp
  ultimately show ?thesis using get g nonempty ok(4) by (auto simp: cache_get_def cache_lookup_def)
qed

definition demo_w4 :: "toy_redis \<times> int" where
  "demo_w4 = (\<lparr> ty_now = 0, ty_rows = [(demo_key, (''41'', Some 3600000000)), (demo_key, (''41'', None))] \<rparr>, 42)"

lemma demo_race:
  "cache_lookup demo_get (beside toy_client) read_post_cache demo_key demo_empty = (Inr None, demo_empty)"
  "ce_func demo_get (post_kwargs ''bob'' 7 []) demo_empty = (Inr 41, demo_empty)"
  "cached_endpoint demo_patch erase_post_cache ''DELETE'' (post_kwargs ''bob'' 7 []) demo_empty = Some (Inr (Plain_Reply 0), demo_w2)"
  "cache_store demo_get (beside toy_client) read_post_cache demo_key 41 demo_w2 = (Inr (JInt 41), demo_w4)"
  "cached_endpoint demo_get read_post_cache ''GET'' (post_kwargs ''bob'' 7 []) demo_w4 = Some (Inr (Json_Reply (JInt 41)), demo_w4)"
  by code_simp+

lemma overlapping_read_caches_stale_value_witness:
  "snd demo_w4 = 42 \<and> cached_endpoint demo_get read_post_cache ''GET'' (post_kwargs ''bob'' 7 []) demo_w4
     = Some (Inr (Json_Reply (JInt 41)), demo_w4)"
proof -
  have c: "ce_client demo_get = Some (beside toy_client)" "ce_client demo_patch = Some (beside toy_client)"
    by (simp_all add: demo_get_def demo_patch_def demo_cache_env_def)
  have t: "toy_now2 demo_w4 < toy_now2 demo_w2 + seconds (co_expiration read_post_cache)" "0 < co_expiration read_post_cache"
    "ce_dumps demo_get (ce_encode demo_get 41) \<noteq> []" by code_simp+
  have "Json_Reply (JInt 41) = (Json_Reply (JInt 41) :: int cache_reply)"
    by (rule overlapping_read_caches_stale_value[OF toy_cache_contract c demo_keys(1) demo_race(1-4) refl t demo_race(5)])
  moreover have "snd demo_w4 = 42" by (simp add: demo_w4_def)
  ultimately show ?thesis using demo_race(5) by simp
qed

text \<open>The cached listing of posts fails for every request before it reads anything: its key
  template names \<open>page\<close> and \<open>items_per_page\<close>, which are attributes of the pagination
  parameter and no arguments of the endpoint.\<close>

theorem post_listing_always_fails:
  assumes "ce_client env \<noteq> None"
  shows "read_posts env username db pagination filters sort_params w = Some (Inl (Cache_KeyError ''page''), w)"
proof -
  have keys: "extract_data_inside_brackets (co_key_prefix read_posts_cache) = [''username'', ''page'', ''items_per_page'']"
    by code_simp
  have "format_prefix (ce_rep env) (co_key_prefix read_posts_cache) (read_posts_kwargs username db pagination filters sort_params)
      = Inl (Cache_KeyError ''page'')"
    unfolding format_prefix_def keys by (simp add: read_posts_kwargs_def)
  moreover have "resource_id_of read_posts_cache (read_posts_kwargs username db pagination filters sort_params)
      = Inr (Value (JStr username))"
    by (simp add: resource_id_of_def read_posts_cache_def read_posts_kwargs_def)
  ultimately have "cache_key_of (ce_rep env) read_posts_cache (read_posts_kwargs username db pagination filters sort_params)
      = Inl (Cache_KeyError ''page'')"
    by (simp add: cache_key_of_def)
  with assms show ?thesis by (auto simp: read_posts_def cached_endpoint_def split: option.split)
qed

lemma post_listing_always_fails_witness:
  "read_posts demo_get ''bob'' ''db'' ''page=1'' ''none'' ''desc'' demo_empty = Some (Inl (Cache_KeyError ''page''), demo_empty)"
  by (rule post_listing_always_fails) (simp add: demo_get_def demo_cache_env_def)

text \<open>A class tuple, which the documentation of the decorator allows, never identifies a resource.\<close>

lemma infer_loop_tuple: "infer_loop kwargs (Class_Tuple cs) found = found"
  by (induction kwargs arbitrary: found) auto

lemma tuple_type_never_infers: "infer_resource_id kwargs (Class_Tuple cs) = Inl CacheIdentificationInferenceError"
  by (simp add: infer_resource_id_def infer_loop_tuple)

text \<open>The deletion by pattern returns when the cursors of SCAN do not go on forever.\<close>

lemma scan_loop_returns:
  fixes rank :: "int \<Rightarrow> nat"
  assumes "\<And>c w c' ks w'. rd_scan r c p w = (Inr (c', ks), w') \<Longrightarrow> c' \<noteq> 0 \<Longrightarrow> rank c' < rank c"
  shows "\<exists>out. scan_loop r p c w = Some out"
proof (induction "rank c" arbitrary: c w rule: less_induct)
  case less
  obtain r1 w1 where s: "rd_scan r c p w = (r1, w1)" by (cases "rd_scan r c p w")
  show ?case
  proof (cases r1)
    case (Inl e)
    then show ?thesis using s by (subst scan_loop.simps) simp
  next
    case (Inr ck)
    obtain c' ks where ck: "ck = (c', ks)" by (cases ck)
    obtain r2 w2 where d: "delete_found r ks w1 = (r2, w2)" by (cases "delete_found r ks w1")
    show ?thesis
    proof (cases "is_ok r2 \<and> c' \<noteq> 0")
      case True
      then have "rank c' < rank c" using assms[of c w c' ks w1] s Inr ck by simp
      from less(1)[OF this] obtain out where "scan_loop r p c' w2 = Some out" by blast
      then show ?thesis using s Inr ck d True by (subst scan_loop.simps) (auto simp: is_ok_def split: sum.splits)
    next
      case False
      then show ?thesis using s Inr ck d by (subst scan_loop.simps) (auto simp: is_ok_def split: sum.splits)
    qed
  qed
qed

end
