(* ===== verification/Rate_Limit_Theorems.thy ===== *)
theory Rate_Limit_Theorems
  imports Rate_Limit
begin

text \<open>
  Properties of the rate limiter over any sequence of requests of one window, and of the
  identities under which requests are counted.
\<close>

section \<open>One window\<close>













section \<open>Properties\<close>








section \<open>Identities\<close>

lemma strip_char_subset: "set (strip_char x s) \<subseteq> set s"
  unfolding strip_char_def by (metis set_dropWhileD set_rev subsetI)

lemma sanitize_path_no_slash: "CHR ''/'' \<notin> set (sanitize_path p)"
  by (auto simp: sanitize_path_def split: if_splits)

lemma strip_char_id:
  assumes "x \<notin> set s"
  shows "strip_char x s = s"
proof -
  have "\<forall>c \<in> set s. \<not> c = x" using assms by auto
  then show ?thesis by (simp add: strip_char_def dropWhile_none)
qed

lemma sanitize_path_idem [simp]: "sanitize_path (sanitize_path p) = sanitize_path p"
  using sanitize_path_no_slash[of p] by (auto simp: sanitize_path_def strip_char_id intro: map_idI)

text \<open>A normalised identity is not empty and has letters, digits and hyphens only, so
  that it never contains the separator of the key.\<close>

lemma normalize_identity_chars:
  assumes "c \<in> set (normalize_rate_limit_identity x fallback)" "c \<notin> set fallback"
  shows "is_alnum c \<or> c = CHR ''-''"
proof (cases x)
  case (Some v)
  let ?n = "map (\<lambda>c. if is_alnum c then c else CHR ''-'') (casefold (py_strip v))"
  from Some assms have "c \<in> set (strip_char (CHR ''-'') ?n)"
    by (auto simp: normalize_rate_limit_identity_def Let_def split: if_splits)
  then have "c \<in> set ?n" using strip_char_subset by blast
  then show ?thesis by auto
qed (use assms in \<open>simp add: normalize_rate_limit_identity_def\<close>)

lemma normalize_identity_not_Nil: "fallback \<noteq> [] \<Longrightarrow> normalize_rate_limit_identity value fallback \<noteq> []"
  by (auto simp: normalize_rate_limit_identity_def Let_def split: option.split)

text \<open>Keys of subjects without the separator collide only for equal sanitized paths and windows.\<close>

lemma split_first:
  assumes "x \<notin> set a" "x \<notin> set b" "a @ x # s = b @ x # t"
  shows "a = b \<and> s = t"
  using assms
proof (induction a arbitrary: b)
  case Nil then show ?case by (cases b) auto
next
  case (Cons c a) then show ?case by (cases b) auto
qed

lemma show_int_no_colon: "CHR '':'' \<notin> set (show_int i)"
proof -
  have "CHR '':'' \<notin> set (show_nat n)" for n using show_nat_chars[of "CHR '':''" n] by (auto simp: digit_value_def)
  then show ?thesis by (simp add: show_int_def)
qed

lemma rate_limit_key_inject:
  assumes "CHR '':'' \<notin> set s" "CHR '':'' \<notin> set s'"
  shows "rate_limit_key s p i = rate_limit_key s' p' i' \<longleftrightarrow> s = s' \<and> sanitize_path p = sanitize_path p' \<and> i = i'"
proof
  assume "rate_limit_key s p i = rate_limit_key s' p' i'"
  then have "s @ CHR '':'' # (sanitize_path p @ CHR '':'' # show_int i)
      = s' @ CHR '':'' # (sanitize_path p' @ CHR '':'' # show_int i')" by (simp add: rate_limit_key_def)
  from split_first[OF assms this] have s: "s = s'"
    and r: "sanitize_path p @ CHR '':'' # show_int i = sanitize_path p' @ CHR '':'' # show_int i'" by auto
  from arg_cong[OF r, of rev] have "rev (show_int i) @ CHR '':'' # rev (sanitize_path p)
      = rev (show_int i') @ CHR '':'' # rev (sanitize_path p')" by simp
  from split_first[OF _ _ this] show_int_no_colon[of i] show_int_no_colon[of i']
  have "rev (show_int i) = rev (show_int i') \<and> rev (sanitize_path p) = rev (sanitize_path p')" by simp
  then show "s = s' \<and> sanitize_path p = sanitize_path p' \<and> i = i'" using s by simp
qed (simp add: rate_limit_key_def)

text \<open>An anonymous client and a user are counted under one key when the text of the
  user's id is the client's normalised address: the loopback address \<open>::1\<close> shares the
  window of the user with id 1, and each request of one uses up the quota of the other.\<close>

lemma loopback_client_shares_user_quota:
  assumes "map_of user ''id'' = Some (JInt 1)" "map_of user ''tier_id'' = Some tier"
    and "tier_quota env tier (sanitize_path (rq_path request)) = default_quota env"
    and "rq_client_host request = Some ''::1''"
  shows "rate_limiter_dependency env rep t request (Some user) w = rate_limiter_dependency env rep t request None w"
proof -
  have "resolve_client_rate_limit_identity \<lparr> rq_path = [], rq_client_host = Some ''::1'' \<rparr> = ''1''" by code_simp
  then have "resolve_client_rate_limit_identity request = ''1''"
    using assms(4) by (simp add: resolve_client_rate_limit_identity_def)
  moreover have "user \<noteq> []" using assms(1) by auto
  moreover have "show_int 1 = ''1''" by code_simp
  ultimately show ?thesis using assms(1-3) by (simp add: rate_limiter_dependency_def json_str_def)
qed

end
