(* ===== verification/Queue_Names.thy ===== *)
theory Queue_Names
  imports Authorization
begin

text \<open>
  core/worker/queue_naming.py and core/worker/concurrency.py: names of queues, namespaces and
  concurrency profiles.  The text of a name in an error message is left out.
\<close>

section \<open>Names\<close>

definition is_name_char :: "char \<Rightarrow> bool" where
  "is_name_char c = (let n = of_char c :: nat in 97 \<le> n \<and> n \<le> 122 \<or> 48 \<le> n \<and> n \<le> 57)"

definition is_inner_char :: "char \<Rightarrow> bool" where
  "is_inner_char c \<longleftrightarrow> is_name_char c \<or> c = CHR '':'' \<or> c = CHR ''-''"

text \<open>\<open>match\<close> of the pattern: its \<open>$\<close> matches at the end and before a final newline.\<close>

definition matches_whole :: "string \<Rightarrow> bool" where
  "matches_whole s \<longleftrightarrow> 2 \<le> length s \<and> is_name_char (hd s) \<and> is_name_char (last s) \<and> list_all is_inner_char s"

definition valid_name_re :: "string \<Rightarrow> bool" where
  "valid_name_re s \<longleftrightarrow> matches_whole s \<or> s \<noteq> [] \<and> last s = CHR 0x0A \<and> matches_whole (butlast s)"

datatype queue_name_error =
    Queue_Name_Empty
  | Queue_Name_Too_Long
  | Queue_Name_Invalid_Characters
  | Queue_Name_Too_Few_Segments
  | Queue_Prefix_Empty
  | Queue_Scope_Empty

definition MAX_QUEUE_NAME_LENGTH :: nat where
  "MAX_QUEUE_NAME_LENGTH = 128"

definition MIN_SEGMENTS :: nat where
  "MIN_SEGMENTS = 2"

definition RESERVED_SCOPES :: "string list" where
  "RESERVED_SCOPES = [''platform'']"

definition validate_queue_name :: "string \<Rightarrow> queue_name_error + string" where
  "validate_queue_name name =
     (if name = [] \<or> py_strip name = [] then Inl Queue_Name_Empty
      else if MAX_QUEUE_NAME_LENGTH < length name then Inl Queue_Name_Too_Long
      else if \<not> valid_name_re name then Inl Queue_Name_Invalid_Characters
      else if length (split_at (CHR '':'') name) < MIN_SEGMENTS then Inl Queue_Name_Too_Few_Segments
      else Inr name)"

definition is_reserved_scope :: "string \<Rightarrow> bool" where
  "is_reserved_scope scope \<longleftrightarrow> py_lower scope \<in> set RESERVED_SCOPES"

section \<open>Namespaces\<close>

record queue_namespace =
  qn_prefix :: string
  qn_scope :: string

definition make_namespace :: "string \<Rightarrow> string \<Rightarrow> queue_name_error + queue_namespace" where
  "make_namespace prefix scope =
     (if prefix = [] \<or> py_strip prefix = [] then Inl Queue_Prefix_Empty
      else if scope = [] \<or> py_strip scope = [] then Inl Queue_Scope_Empty
      else Inr \<lparr> qn_prefix = prefix, qn_scope = scope \<rparr>)"

definition queue_of :: "queue_namespace \<Rightarrow> string \<Rightarrow> queue_name_error + string" where
  "queue_of ns purpose = validate_queue_name (qn_prefix ns @ '':'' @ qn_scope ns @ '':'' @ purpose)"

definition platform_queues :: queue_namespace where
  "platform_queues = \<lparr> qn_prefix = ''arq'', qn_scope = ''platform'' \<rparr>"

definition webhook_queues :: queue_namespace where
  "webhook_queues = \<lparr> qn_prefix = ''arq'', qn_scope = ''webhooks'' \<rparr>"

definition client_queues :: queue_namespace where
  "client_queues = \<lparr> qn_prefix = ''arq'', qn_scope = ''client'' \<rparr>"

definition integration_queues :: queue_namespace where
  "integration_queues = \<lparr> qn_prefix = ''arq'', qn_scope = ''integrations'' \<rparr>"

definition DEFAULT_QUEUE_NAME :: "queue_name_error + string" where
  "DEFAULT_QUEUE_NAME = queue_of platform_queues ''default''"

lemma default_queue_name: "DEFAULT_QUEUE_NAME = Inr ''arq:platform:default''"
  unfolding DEFAULT_QUEUE_NAME_def by code_simp

section \<open>Profiles\<close>

record concurrency_profile =
  cp_name :: string
  cp_max_jobs :: int
  cp_description :: string
  cp_job_timeout_seconds :: "rat option"

datatype profile_error = Max_Jobs_Too_Small int | Job_Timeout_Not_Positive rat

definition make_profile :: "concurrency_profile \<Rightarrow> profile_error + concurrency_profile" where
  "make_profile p =
     (if cp_max_jobs p < 1 then Inl (Max_Jobs_Too_Small (cp_max_jobs p))
      else (case cp_job_timeout_seconds p of
              None \<Rightarrow> Inr p
            | Some t \<Rightarrow> if t \<le> 0 then Inl (Job_Timeout_Not_Positive t) else Inr p))"

definition ALL_PROFILES :: "concurrency_profile list" where
  "ALL_PROFILES =
     [\<lparr> cp_name = ''default'', cp_max_jobs = 10,
        cp_description = ''Balanced starting point for mixed workloads.'', cp_job_timeout_seconds = Some 300 \<rparr>,
      \<lparr> cp_name = ''webhook-ingest'', cp_max_jobs = 25,
        cp_description = ''Short I/O-bound webhook processing jobs requiring high throughput.'',
        cp_job_timeout_seconds = Some 60 \<rparr>,
      \<lparr> cp_name = ''email'', cp_max_jobs = 15,
        cp_description = ''Moderate I/O email delivery, often rate-limited by the provider.'',
        cp_job_timeout_seconds = Some 120 \<rparr>,
      \<lparr> cp_name = ''integration-sync'', cp_max_jobs = 10,
        cp_description = ''Mixed I/O workloads with external API rate limits.'', cp_job_timeout_seconds = Some 300 \<rparr>,
      \<lparr> cp_name = ''reports'', cp_max_jobs = 3,
        cp_description = ''CPU/memory-intensive report generation; protect worker stability.'',
        cp_job_timeout_seconds = Some 600 \<rparr>,
      \<lparr> cp_name = ''scheduled'', cp_max_jobs = 5,
        cp_description = ''Low-volume scheduled/cron jobs; avoid starving other queues.'',
        cp_job_timeout_seconds = Some 300 \<rparr>]"

text \<open>Every shipped profile passes its own check, under a name of its own.\<close>

lemma shipped_profiles_valid: "list_all (\<lambda>p. make_profile p = Inr p) ALL_PROFILES \<and> distinct (map cp_name ALL_PROFILES)"
  by (simp add: ALL_PROFILES_def make_profile_def)

section \<open>What a name is\<close>

lemma split_at_length: "length (split_at x s) = Suc (length (filter (\<lambda>c. c = x) s))"
  by (induction s) (auto split: list.split)

lemma split_at_append_sep: "split_at x (a @ x # b) = split_at x a @ split_at x b"
proof (induction a)
  case (Cons c a)
  then show ?case by (cases "split_at x a") auto
qed simp

lemma split_at_no_sep: "x \<notin> set a \<Longrightarrow> split_at x a = [a]"
  by (induction a) auto

lemma name_char_facts: "is_name_char c \<Longrightarrow> c \<noteq> CHR '':'' \<and> \<not> is_py_space c"
  by (auto simp: is_name_char_def is_py_space_def Let_def)

lemma valid_name_not_blank: "valid_name_re s \<Longrightarrow> s \<noteq> [] \<and> py_strip s \<noteq> []"
proof -
  assume v: "valid_name_re s"
  then have s: "s \<noteq> []" by (auto simp: valid_name_re_def matches_whole_def)
  have "is_name_char (hd s)"
  proof (cases "matches_whole s")
    case False
    with v have w: "matches_whole (butlast s)" by (simp add: valid_name_re_def)
    then have "butlast s \<noteq> []" unfolding matches_whole_def by (metis list.size(3) not_numeral_le_zero)
    then have "hd (butlast s) = hd s" by (cases s) auto
    with w show ?thesis by (simp add: matches_whole_def)
  qed (simp add: matches_whole_def)
  then have "\<not> is_py_space (hd s)" using name_char_facts by blast
  with s have "dropWhile is_py_space s = s" by (cases s) auto
  moreover have "dropWhile is_py_space (rev s) \<noteq> []"
    using s \<open>\<not> is_py_space (hd s)\<close> by (auto simp: dropWhile_eq_Nil_conv)
  ultimately show ?thesis using s by (simp add: py_strip_def)
qed

text \<open>A namespace accepts a purpose exactly when the whole name is made of lower-case
  letters, digits, colons and hyphens, begins and ends with a letter or digit and has at most
  128 characters --- or is such a name followed by one newline, which the pattern lets
  through.  No other check remains: the name always has its segments, empty ones included.\<close>

theorem queue_names_characterised:
  "queue_of ns purpose = Inr name \<longleftrightarrow>
     name = qn_prefix ns @ '':'' @ qn_scope ns @ '':'' @ purpose \<and> length name \<le> 128 \<and>
     (matches_whole name \<or> last name = CHR 0x0A \<and> matches_whole (butlast name))"
proof -
  let ?n = "qn_prefix ns @ '':'' @ qn_scope ns @ '':'' @ purpose"
  have seg: "\<not> length (split_at (CHR '':'') ?n) < MIN_SEGMENTS" by (simp add: split_at_length MIN_SEGMENTS_def)
  have "?n \<noteq> []" by simp
  then have re: "valid_name_re ?n \<longleftrightarrow> matches_whole ?n \<or> last ?n = CHR 0x0A \<and> matches_whole (butlast ?n)"
    unfolding valid_name_re_def by blast
  have "queue_of ns purpose = Inr name \<longleftrightarrow> name = ?n \<and> length ?n \<le> 128 \<and> valid_name_re ?n"
    using seg valid_name_not_blank[of ?n]
    by (auto simp: queue_of_def validate_queue_name_def MAX_QUEUE_NAME_LENGTH_def simp del: append.simps)
  then show ?thesis unfolding re by blast
qed

text \<open>A name with a final newline is accepted, against the first rule of the module.\<close>

lemma newline_name_accepted: "queue_of client_queues (''email'' @ [CHR 0x0A]) = Inr (''arq:client:email'' @ [CHR 0x0A])"
  by code_simp

text \<open>An empty segment is accepted, and the reserved scope is open to everybody.\<close>

lemma empty_segment_accepted: "validate_queue_name ''arq::email'' = Inr ''arq::email''"
  by code_simp

lemma reserved_scope_unguarded:
  "is_reserved_scope ''platform'' \<and> make_namespace ''arq'' ''platform'' = Inr platform_queues \<and>
   queue_of platform_queues ''mine'' = Inr ''arq:platform:mine''"
  by code_simp

text \<open>Names of clean parts split back into their parts.\<close>

lemma queue_name_segments:
  assumes "CHR '':'' \<notin> set (qn_prefix ns)" "CHR '':'' \<notin> set (qn_scope ns)" "CHR '':'' \<notin> set purpose" "queue_of ns purpose = Inr name"
  shows "split_at (CHR '':'') name = [qn_prefix ns, qn_scope ns, purpose]"
proof -
  have "name = qn_prefix ns @ CHR '':'' # (qn_scope ns @ CHR '':'' # purpose)"
    using assms(4) queue_names_characterised[of ns purpose name] by simp
  then show ?thesis using assms by (simp add: split_at_append_sep split_at_no_sep)
qed

end
