(* ===== verification/Sync.thy ===== *)
theory Sync
  imports Prelude
begin

text \<open>
  integrations/contracts/sync.py and the checkpoint row of
  core/db/integration_sync_checkpoint.py: cursors and their stored form, pages, progress.
  The parser of ISO dates is an argument.  The loops over pages are examples of the module's
  documentation and no code.
\<close>

datatype sync_strategy = CURSOR_BASED | TIMESTAMP_BASED | OFFSET_BASED | FULL_SYNC

definition sync_strategy_value :: "sync_strategy \<Rightarrow> string" where
  "sync_strategy_value s = (case s of CURSOR_BASED \<Rightarrow> ''cursor_based'' | TIMESTAMP_BASED \<Rightarrow> ''timestamp_based''
     | OFFSET_BASED \<Rightarrow> ''offset_based'' | FULL_SYNC \<Rightarrow> ''full_sync'')"

text \<open>A field of a cursor holds whatever the stored document had there; \<open>None\<close> is the JSON
  null.  A modification time is a datetime, or a stored value that was not parsed.\<close>

datatype modified = Modified_At instant | Raw_Modified json

record sync_cursor =
  cu_cursor_value :: json
  cu_page_number :: json
  cu_last_modified_at :: modified
  cu_high_water_mark :: json
  cu_extra :: json

datatype cursor_error = Cursor_ValueError string | Cursor_AttributeError

definition empty_cursor :: sync_cursor where
  "empty_cursor = \<lparr> cu_cursor_value = JNull, cu_page_number = JNull, cu_last_modified_at = Raw_Modified JNull,
     cu_high_water_mark = JNull, cu_extra = JDict [] \<rparr>"

definition parse_modified :: "(string \<Rightarrow> instant option) \<Rightarrow> json \<Rightarrow> cursor_error + modified" where
  "parse_modified fromisoformat v =
     (case v of
        JStr s \<Rightarrow> if s = [] then Inr (Raw_Modified v)
                 else (case fromisoformat s of None \<Rightarrow> Inl (Cursor_ValueError s) | Some t \<Rightarrow> Inr (Modified_At t))
      | _ \<Rightarrow> Inr (Raw_Modified v))"

definition from_cursor_state :: "(string \<Rightarrow> instant option) \<Rightarrow> dict option \<Rightarrow> cursor_error + sync_cursor" where
  "from_cursor_state fromisoformat state =
     (case state of
        None \<Rightarrow> Inr empty_cursor
      | Some d \<Rightarrow>
          bind_sum (parse_modified fromisoformat (dict_get d ''last_modified_at'' JNull)) (\<lambda>last_modified_at.
            Inr \<lparr> cu_cursor_value = dict_get d ''cursor_value'' JNull, cu_page_number = dict_get d ''page_number'' JNull,
                  cu_last_modified_at = last_modified_at, cu_high_water_mark = dict_get d ''high_water_mark'' JNull,
                  cu_extra = dict_get d ''extra'' (JDict []) \<rparr>))"

definition field :: "string \<Rightarrow> json \<Rightarrow> dict" where
  "field k v = (if v \<noteq> JNull then [(k, v)] else [])"

definition modified_field :: "modified \<Rightarrow> cursor_error + dict" where
  "modified_field x =
     (case x of
        Modified_At t \<Rightarrow> Inr [(''last_modified_at'', JStr (isoformat t))]
      | Raw_Modified v \<Rightarrow> if v = JNull then Inr [] else Inl Cursor_AttributeError)"

definition to_cursor_state :: "sync_cursor \<Rightarrow> cursor_error + dict" where
  "to_cursor_state c =
     bind_sum (modified_field (cu_last_modified_at c)) (\<lambda>moment.
       Inr (field ''cursor_value'' (cu_cursor_value c) @ field ''page_number'' (cu_page_number c) @ moment @
            field ''high_water_mark'' (cu_high_water_mark c) @
            (if json_truthy (cu_extra c) then [(''extra'', cu_extra c)] else [])))"

record 'a sync_page =
  pa_items :: "'a list"
  pa_next_cursor :: "sync_cursor option"
  pa_has_more :: bool
  pa_total_count :: "int option"
  pa_fetched_at :: instant

text \<open>The protocol of a provider's operation.\<close>

record ('a, 'w) sync_operation =
  so_provider_name :: string
  so_sync_scope :: string
  so_strategy :: sync_strategy
  so_fetch_page :: "sync_cursor \<Rightarrow> 'w \<Rightarrow> (exn + 'a sync_page) \<times> 'w"
  so_process_page :: "'a sync_page \<Rightarrow> 'w \<Rightarrow> (exn + int) \<times> 'w"

record sync_progress =
  pr_provider_name :: string
  pr_sync_scope :: string
  pr_strategy :: sync_strategy
  pr_pages_fetched :: int
  pr_items_processed :: int
  pr_started_at :: instant
  pr_current_cursor :: "sync_cursor option"
  pr_is_complete :: bool
  pr_error :: "string option"

definition elapsed_seconds :: "sync_progress \<Rightarrow> instant \<Rightarrow> rat" where
  "elapsed_seconds p now = of_int (now - pr_started_at p) / 1000000"

text \<open>The rate reads the clock twice: \<open>None\<close> is the division by zero of a clock that has gone
  back to the start in between.\<close>

definition items_per_second :: "sync_progress \<Rightarrow> clock \<Rightarrow> rat option" where
  "items_per_second p clk =
     (if elapsed_seconds p (clk 0) = 0 then Some 0
      else if elapsed_seconds p (clk 1) = 0 then None
      else Some (of_int (pr_items_processed p) / elapsed_seconds p (clk 1)))"

datatype checkpoint_status = CP_PENDING | CP_RUNNING | CP_IDLE | CP_FAILED | CP_PAUSED | CP_COMPLETED

definition checkpoint_status_value :: "checkpoint_status \<Rightarrow> string" where
  "checkpoint_status_value s = (case s of CP_PENDING \<Rightarrow> ''pending'' | CP_RUNNING \<Rightarrow> ''running'' | CP_IDLE \<Rightarrow> ''idle''
     | CP_FAILED \<Rightarrow> ''failed'' | CP_PAUSED \<Rightarrow> ''paused'' | CP_COMPLETED \<Rightarrow> ''completed'')"

record sync_checkpoint =
  ck_integration_name :: string
  ck_sync_scope :: string
  ck_checkpoint_key :: string
  ck_status :: string
  ck_cursor_state :: "dict option"
  ck_checkpoint_metadata :: "dict option"
  ck_lease_owner :: "string option"
  ck_lease_expires_at :: "instant option"
  ck_next_sync_after :: "instant option"
  ck_last_synced_at :: "instant option"
  ck_cursor_updated_at :: "instant option"
  ck_last_transition_at :: instant
  ck_failure_count :: int
  ck_error_code :: "string option"
  ck_error_detail :: "string option"

definition new_checkpoint :: "string \<Rightarrow> string \<Rightarrow> instant \<Rightarrow> sync_checkpoint" where
  "new_checkpoint integration_name sync_scope now =
     \<lparr> ck_integration_name = integration_name, ck_sync_scope = sync_scope, ck_checkpoint_key = ''default'',
        ck_status = checkpoint_status_value CP_PENDING, ck_cursor_state = None, ck_checkpoint_metadata = None,
        ck_lease_owner = None, ck_lease_expires_at = None, ck_next_sync_after = None, ck_last_synced_at = None,
        ck_cursor_updated_at = None, ck_last_transition_at = now, ck_failure_count = 0, ck_error_code = None,
        ck_error_detail = None \<rparr>"

definition uq_checkpoint :: "sync_checkpoint \<Rightarrow> string \<times> string \<times> string" where
  "uq_checkpoint c = (ck_integration_name c, ck_sync_scope c, ck_checkpoint_key c)"

definition store_checkpoint :: "sync_checkpoint table \<Rightarrow> sync_checkpoint \<Rightarrow> integrity_error + sync_checkpoint table" where
  "store_checkpoint t c = map_sum id snd (insert_unique uq_checkpoint c t)"

interpretation checkpoints: unique_ledger store_checkpoint "find_row uq_checkpoint" uq_checkpoint "\<lambda>c. c"
  by (rule insert_unique_ledger) (simp_all add: store_checkpoint_def)

section \<open>Cursors survive a checkpoint\<close>

text \<open>A cursor of the declared types, whose modification time the parser reads back.\<close>

definition cursor_typed :: "(string \<Rightarrow> instant option) \<Rightarrow> sync_cursor \<Rightarrow> bool" where
  "cursor_typed fromisoformat c \<longleftrightarrow>
     (case cu_last_modified_at c of
        Raw_Modified v \<Rightarrow> v = JNull
      | Modified_At t \<Rightarrow> fromisoformat (isoformat t) = Some t) \<and>
     (case cu_extra c of JDict d \<Rightarrow> True | _ \<Rightarrow> False)"

lemma map_of_field: "map_of (field k v) k' = (if k' = k \<and> v \<noteq> JNull then Some v else None)"
  by (simp add: field_def)

lemma dict_get_field: "dict_get (field k v) k' dflt = (if k' = k \<and> v \<noteq> JNull then v else dflt)"
  by (simp add: dict_get_def map_of_field)

lemma dict_get_append: "dict_get (a @ b) k dflt = (case map_of a k of None \<Rightarrow> dict_get b k dflt | Some v \<Rightarrow> v)"
  by (simp add: dict_get_def map_add_def split: option.split)

lemma isoformat_not_Nil: "isoformat t \<noteq> []"
  by (simp add: isoformat_def Let_def split: prod.split)

text \<open>Whatever of the pagination schemes a cursor uses, storing it in a checkpoint and
  reading it back gives the same cursor: every field survives, absent ones stay absent, and
  storing a typed cursor never raises.\<close>

theorem cursor_survives_checkpoint:
  assumes "cursor_typed fromisoformat c"
  shows "\<exists>d. to_cursor_state c = Inr d \<and> from_cursor_state fromisoformat (Some d) = Inr c"
proof -
  obtain x where x: "cu_extra c = JDict x" using assms by (auto simp: cursor_typed_def split: json.splits)
  define m where "m = (case cu_last_modified_at c of Modified_At t \<Rightarrow> [(''last_modified_at'', JStr (isoformat t))] | Raw_Modified v \<Rightarrow> [])"
  have m: "modified_field (cu_last_modified_at c) = Inr m"
    using assms by (auto simp: cursor_typed_def modified_field_def m_def split: modified.splits)
  have keys: "map_of m k = None" if "k \<noteq> ''last_modified_at''" for k
    using that by (auto simp: m_def split: modified.split)
  let ?d = "field ''cursor_value'' (cu_cursor_value c) @ field ''page_number'' (cu_page_number c) @ m @
            field ''high_water_mark'' (cu_high_water_mark c) @ (if x \<noteq> [] then [(''extra'', JDict x)] else [])"
  have to: "to_cursor_state c = Inr ?d" by (simp add: to_cursor_state_def m x)
  have v: "dict_get ?d ''cursor_value'' JNull = cu_cursor_value c" "dict_get ?d ''page_number'' JNull = cu_page_number c"
    "dict_get ?d ''high_water_mark'' JNull = cu_high_water_mark c" "dict_get ?d ''extra'' (JDict []) = JDict x"
    "dict_get ?d ''last_modified_at'' JNull = (case map_of m ''last_modified_at'' of None \<Rightarrow> JNull | Some v \<Rightarrow> v)"
    by (simp_all add: dict_get_append map_of_field dict_get_field keys dict_get_def[of "[(_, _)]"] split: option.split)
  have p: "parse_modified fromisoformat (case map_of m ''last_modified_at'' of None \<Rightarrow> JNull | Some v \<Rightarrow> v) = Inr (cu_last_modified_at c)"
    using assms isoformat_not_Nil by (auto simp: m_def cursor_typed_def parse_modified_def split: modified.splits)
  have "from_cursor_state fromisoformat (Some ?d) = Inr c"
    unfolding from_cursor_state_def option.case v p by (simp add: x[symmetric])
  with to show ?thesis by blast
qed

definition demo_cursor :: sync_cursor where
  "demo_cursor = \<lparr> cu_cursor_value = JStr ''abc'', cu_page_number = JInt 0, cu_last_modified_at = Modified_At 1705314600000000,
     cu_high_water_mark = JNull, cu_extra = JDict [(''include_deleted'', JBool True)] \<rparr>"

lemma cursor_survives_checkpoint_witness:
  "isoformat 1705314600000000 = ''2024-01-15T10:30:00+00:00'' \<and>
   (\<exists>d. to_cursor_state demo_cursor = Inr d \<and>
      from_cursor_state (\<lambda>s. if s = isoformat 1705314600000000 then Some 1705314600000000 else None) (Some d) = Inr demo_cursor)"
proof -
  have "isoformat 1705314600000000 = ''2024-01-15T10:30:00+00:00''" by code_simp
  moreover have "\<exists>d. to_cursor_state demo_cursor = Inr d \<and>
      from_cursor_state (\<lambda>s. if s = isoformat 1705314600000000 then Some 1705314600000000 else None) (Some d) = Inr demo_cursor"
    by (rule cursor_survives_checkpoint) (simp add: cursor_typed_def demo_cursor_def)
  ultimately show ?thesis ..
qed

text \<open>The state that the module's own loop stores after the last page reads as the start.\<close>

lemma finished_state_restarts: "from_cursor_state f (Some []) = Inr empty_cursor \<and> from_cursor_state f None = Inr empty_cursor"
  by (simp add: from_cursor_state_def parse_modified_def empty_cursor_def)

end
