(* ===== verification/Settings_Values.thy ===== *)
theory Settings_Values
  imports Rate_Limit
begin

text \<open>
  core/config.py, first part: the helpers of the settings and the checks of each section.

  A section is a record of its fields; its constraints (\<open>ge\<close>, \<open>gt\<close>, \<open>le\<close>) are a predicate
  and its model validator is a function that returns the error's text or the section with
  normalised fields.  Reading the environment and converting types is pydantic's.  The
  library that parses and renders database URLs is an argument.
\<close>

section \<open>Helpers\<close>

definition PRODUCTION_UNSAFE_SECRET_VALUES :: "string list" where
  "PRODUCTION_UNSAFE_SECRET_VALUES =
     [''secret-key'', ''your-generated-secret-key-here'', ''your-super-secret-key-here'',
      ''change-me-to-a-random-secret-key'', ''changeme'', ''change-me'', ''change_me'']"

definition PRODUCTION_UNSAFE_PASSWORD_VALUES :: "string list" where
  "PRODUCTION_UNSAFE_PASSWORD_VALUES =
     [''postgres'', ''password'', ''1234'', ''!ch4ng3th1sp4ssw0rd!'', ''str1ngst!'', ''your_password'', ''your-password'',
      ''your_secure_password'', ''your-secure-password'', ''change-me-postgres-password'', ''change-me-admin-password'',
      ''changeme'', ''change-me'', ''change_me'']"

definition LOCAL_DEVELOPMENT_CORS_ORIGINS :: "string list" where
  "LOCAL_DEVELOPMENT_CORS_ORIGINS =
     [''http://localhost:3000'', ''http://127.0.0.1:3000'', ''http://localhost:4173'', ''http://127.0.0.1:4173'',
      ''http://localhost:4200'', ''http://127.0.0.1:4200'', ''http://localhost:5173'', ''http://127.0.0.1:5173'',
      ''http://localhost:8080'', ''http://127.0.0.1:8080'']"

definition normalize_setting_value :: "string \<Rightarrow> string" where
  "normalize_setting_value s = casefold (py_strip s)"

definition starts_with :: "string \<Rightarrow> string \<Rightarrow> bool" where
  "starts_with p s \<longleftrightarrow> take (length p) s = p"

definition normalize_postgres_database_url :: "string \<Rightarrow> string" where
  "normalize_postgres_database_url url =
     (if starts_with ''postgres://'' url then ''postgresql://'' @ drop (length ''postgres://'') url else url)"

record 'u url_lib =
  ul_parse :: "string \<Rightarrow> string + 'u"
  ul_backend :: "'u \<Rightarrow> string"
  ul_password :: "'u \<Rightarrow> string option"
  ul_set_driver :: "string \<Rightarrow> 'u \<Rightarrow> 'u"
  ul_create :: "string \<Rightarrow> string \<Rightarrow> string \<Rightarrow> string \<Rightarrow> int \<Rightarrow> string \<Rightarrow> 'u"
  ul_render :: "'u \<Rightarrow> string"

definition parse_postgres_database_url :: "'u url_lib \<Rightarrow> string \<Rightarrow> string + 'u" where
  "parse_postgres_database_url lib url =
     bind_sum (ul_parse lib (normalize_postgres_database_url url)) (\<lambda>u.
       if ul_backend lib u \<noteq> ''postgresql'' then Inl ''DATABASE_URL must use a PostgreSQL URL'' else Inr u)"

text \<open>\<open>urllib.parse.quote\<close> with no safe characters: everything but unreserved characters is
  the percent-encoding of its UTF-8 bytes.\<close>

definition is_unreserved :: "char \<Rightarrow> bool" where
  "is_unreserved c = (let n = of_char c :: nat in
     48 \<le> n \<and> n \<le> 57 \<or> 65 \<le> n \<and> n \<le> 90 \<or> 97 \<le> n \<and> n \<le> 122 \<or> n = 95 \<or> n = 46 \<or> n = 45 \<or> n = 126)"

definition hex_digit :: "nat \<Rightarrow> char" where
  "hex_digit n = (if n < 10 then char_of (48 + n) else char_of (55 + n))"

definition percent :: "nat \<Rightarrow> string" where
  "percent b = [CHR ''%'', hex_digit (b div 16), hex_digit (b mod 16)]"

definition quote_char :: "char \<Rightarrow> string" where
  "quote_char c = (let n = of_char c :: nat in
     if is_unreserved c then [c]
     else if n < 128 then percent n
     else percent (192 + n div 64) @ percent (128 + n mod 64))"

definition url_quote :: "string \<Rightarrow> string" where
  "url_quote s = concat (map quote_char s)"

definition build_redis_url ::
  "string \<Rightarrow> int \<Rightarrow> int \<Rightarrow> string option \<Rightarrow> string option \<Rightarrow> bool \<Rightarrow> string" where
  "build_redis_url host port database username password ssl_enabled =
     (let scheme = (if ssl_enabled then ''rediss'' else ''redis'');
          auth = (case username of
                    Some u \<Rightarrow> url_quote u @ (case password of None \<Rightarrow> [] | Some p \<Rightarrow> '':'' @ url_quote p) @ ''@''
                  | None \<Rightarrow> (case password of None \<Rightarrow> [] | Some p \<Rightarrow> '':'' @ url_quote p @ ''@''))
      in scheme @ ''://'' @ auth @ host @ '':'' @ show_int port @ ''/'' @ show_int database)"

definition validate_redis_tls_settings ::
  "string \<Rightarrow> bool \<Rightarrow> bool \<Rightarrow> string option \<Rightarrow> string option \<Rightarrow> string option \<Rightarrow> string + unit" where
  "validate_redis_tls_settings service_name ssl_enabled ssl_check_hostname ssl_ca_certs ssl_certfile ssl_keyfile =
     (if (ssl_certfile = None) \<noteq> (ssl_keyfile = None)
      then Inl (service_name @ ''_SSL_CERTFILE and '' @ service_name @ ''_SSL_KEYFILE must be provided together'')
      else if \<not> ssl_enabled \<and> list_ex (\<lambda>v. v \<noteq> None \<or> ssl_check_hostname) [ssl_ca_certs, ssl_certfile, ssl_keyfile]
      then Inl (service_name @ ''_SSL must be enabled before TLS certificate settings can be used'')
      else Inr ())"

definition validate_redis_retry_settings :: "string \<Rightarrow> int \<Rightarrow> rat \<Rightarrow> rat \<Rightarrow> string + unit" where
  "validate_redis_retry_settings service_name retry_attempts retry_base_delay retry_max_delay =
     (if retry_attempts = 0 then Inr ()
      else if retry_max_delay < retry_base_delay
      then Inl (service_name @ ''_RETRY_MAX_DELAY must be greater than or equal to '' @ service_name @ ''_RETRY_BASE_DELAY'')
      else Inr ())"

fun normalize_string_list :: "string \<Rightarrow> string list \<Rightarrow> string + string list" where
  "normalize_string_list setting_name [] = Inr []"
| "normalize_string_list setting_name (v # vs) =
     (if py_strip v = [] then Inl (setting_name @ '' must not contain blank values'')
      else bind_sum (normalize_string_list setting_name vs) (\<lambda>rest. Inr (py_strip v # rest)))"

definition wildcard_error :: "string \<Rightarrow> string" where
  "wildcard_error setting_name = setting_name @ '' wildcard entries must be '' @ py_quote ''*'' @ '' or start with '' @ py_quote ''*.'' @ ''.''"

fun validate_allowed_host_patterns :: "string \<Rightarrow> string list \<Rightarrow> string + unit" where
  "validate_allowed_host_patterns setting_name [] = Inr ()"
| "validate_allowed_host_patterns setting_name (v # vs) =
     (if CHR ''*'' \<notin> set v then validate_allowed_host_patterns setting_name vs
      else if v \<noteq> ''*'' \<and> \<not> starts_with ''*.'' v then Inl (wildcard_error setting_name)
      else if CHR ''*'' \<in> set (tl v) then Inl (wildcard_error setting_name)
      else validate_allowed_host_patterns setting_name vs)"

fun validate_path_prefixes :: "string \<Rightarrow> string list \<Rightarrow> string + unit" where
  "validate_path_prefixes setting_name [] = Inr ()"
| "validate_path_prefixes setting_name (v # vs) =
     (if \<not> starts_with ''/'' v then Inl (setting_name @ '' entries must start with '' @ py_quote ''/'')
      else validate_path_prefixes setting_name vs)"

text \<open>A text that must not be blank, as it is or when it is provided.\<close>

definition non_blank :: "string \<Rightarrow> string \<Rightarrow> string + string" where
  "non_blank msg v = (if py_strip v = [] then Inl msg else Inr (py_strip v))"

definition opt_non_blank :: "string \<Rightarrow> string option \<Rightarrow> string + string option" where
  "opt_non_blank msg v = (case v of None \<Rightarrow> Inr None | Some s \<Rightarrow> map_sum id Some (non_blank msg s))"

definition require :: "bool \<Rightarrow> string \<Rightarrow> string + unit" where
  "require ok msg = (if ok then Inr () else Inl msg)"

section \<open>Secrets and API keys\<close>

definition crypt_fields_ok :: "crypt_settings \<Rightarrow> bool" where
  "crypt_fields_ok c \<longleftrightarrow> 4 \<le> PASSWORD_BCRYPT_ROUNDS c \<and> PASSWORD_BCRYPT_ROUNDS c \<le> 31"

fun normalize_verification_keys ::
  "string \<Rightarrow> (string \<times> string) list \<Rightarrow> (string \<times> string) list \<Rightarrow> string + (string \<times> string) list" where
  "normalize_verification_keys active [] acc = Inr acc"
| "normalize_verification_keys active ((key_id, secret) # rest) acc =
     (let k = py_strip key_id; v = py_strip secret in
      if k = [] then Inl ''JWT_VERIFICATION_KEYS keys must not be empty''
      else if k = active
      then Inl ''JWT_VERIFICATION_KEYS must not redefine JWT_ACTIVE_KEY_ID; SECRET_KEY already owns the active key''
      else if v = [] then Inl (''JWT_VERIFICATION_KEYS['' @ py_quote k @ ''] must not be empty'')
      else normalize_verification_keys active rest (AList.update k v acc))"

definition validate_crypt_settings :: "crypt_settings \<Rightarrow> string + crypt_settings" where
  "validate_crypt_settings c =
     bind_sum (non_blank ''ALGORITHM must not be empty'' (ALGORITHM c)) (\<lambda>algorithm.
     bind_sum (opt_non_blank ''JWT_ISSUER must not be empty when provided'' (JWT_ISSUER c)) (\<lambda>issuer.
     bind_sum (opt_non_blank ''JWT_AUDIENCE must not be empty when provided'' (JWT_AUDIENCE c)) (\<lambda>audience.
     bind_sum (non_blank ''JWT_ACTIVE_KEY_ID must not be empty'' (JWT_ACTIVE_KEY_ID c)) (\<lambda>active.
     bind_sum (normalize_verification_keys active (JWT_VERIFICATION_KEYS c) []) (\<lambda>keys.
       Inr (c\<lparr> ALGORITHM := algorithm, JWT_ISSUER := issuer, JWT_AUDIENCE := audience, JWT_ACTIVE_KEY_ID := active,
               JWT_VERIFICATION_KEYS := keys \<rparr>))))))"

definition validate_api_key_principal_settings :: "api_key_principal_settings \<Rightarrow> string + api_key_principal_settings" where
  "validate_api_key_principal_settings p =
     bind_sum (normalize_string_list ''API_KEY_PRINCIPALS.roles'' (ak_roles p)) (\<lambda>roles.
     bind_sum (normalize_string_list ''API_KEY_PRINCIPALS.permissions'' (ak_permissions p)) (\<lambda>permissions.
     bind_sum (normalize_string_list ''API_KEY_PRINCIPALS.scopes'' (ak_scopes p)) (\<lambda>scopes.
     bind_sum (opt_non_blank ''tenant_id must not be empty when provided'' (ak_tenant_id p)) (\<lambda>tenant.
     bind_sum (opt_non_blank ''organization_id must not be empty when provided'' (ak_organization_id p)) (\<lambda>organization.
     bind_sum (opt_non_blank ''description must not be empty when provided'' (ak_description p)) (\<lambda>description.
     bind_sum (non_blank ''API key principal key must not be empty'' (ak_key p)) (\<lambda>key.
       Inr (p\<lparr> ak_key := key, ak_roles := roles, ak_permissions := permissions, ak_scopes := scopes, ak_tenant_id := tenant,
               ak_organization_id := organization, ak_description := description \<rparr>))))))))"

text \<open>The principals of the mapping have been validated when the mapping is.\<close>

fun validate_principals ::
  "(string \<times> api_key_principal_settings) list \<Rightarrow> string + (string \<times> api_key_principal_settings) list" where
  "validate_principals [] = Inr []"
| "validate_principals ((name, p) # rest) =
     bind_sum (validate_api_key_principal_settings p) (\<lambda>p'.
       bind_sum (validate_principals rest) (\<lambda>ps. Inr ((name, p') # ps)))"

fun normalize_principals ::
  "(string \<times> api_key_principal_settings) list \<Rightarrow> string list \<Rightarrow> (string \<times> api_key_principal_settings) list
     \<Rightarrow> string + (string \<times> api_key_principal_settings) list" where
  "normalize_principals [] seen acc = Inr acc"
| "normalize_principals ((name, p) # rest) seen acc =
     (if py_strip name = [] then Inl ''API_KEY_PRINCIPALS keys must not be empty''
      else if ak_key p \<in> set seen then Inl ''API_KEY_PRINCIPALS must not reuse the same key across multiple principals''
      else normalize_principals rest (ak_key p # seen) (AList.update (py_strip name) p acc))"

text \<open>The nested models are validated with the fields, before any check of the settings.\<close>

definition validate_machine_auth_fields :: "machine_auth_settings \<Rightarrow> string + machine_auth_settings" where
  "validate_machine_auth_fields m =
     map_sum id (\<lambda>ps. m\<lparr> API_KEY_PRINCIPALS := ps \<rparr>) (validate_principals (API_KEY_PRINCIPALS m))"

definition validate_machine_auth_settings :: "machine_auth_settings \<Rightarrow> string + machine_auth_settings" where
  "validate_machine_auth_settings m =
     bind_sum (non_blank ''API_KEY_HEADER_NAME must not be empty'' (API_KEY_HEADER_NAME m)) (\<lambda>header.
     bind_sum (normalize_principals (API_KEY_PRINCIPALS m) [] []) (\<lambda>principals.
     bind_sum (require (\<not> (API_KEY_ENABLED m \<and> principals = []))
         ''API_KEY_PRINCIPALS must not be empty when API_KEY_ENABLED is true'') (\<lambda>_.
       Inr (m\<lparr> API_KEY_HEADER_NAME := header, API_KEY_PRINCIPALS := principals \<rparr>))))"

end
