(* ===== verification/Settings_Sections.thy ===== *)
theory Settings_Sections
  imports Settings_Values Jobs Webhook_Ingestion
begin

text \<open>
  core/config.py, second part: the sections of the settings, in the order of the source.

  Each section has its record, its defaults, the constraints of its fields (\<open>_fields_ok\<close>) and
  its model validator.  The fields keep the Python names; the fields of the HTTP client carry
  the prefix \<open>hc_\<close>, because the client's own model reads optional fields of the same names.
  A float is an exact rational.
\<close>

section \<open>Application and logs\<close>

record app_settings =
  APP_NAME :: string
  APP_DESCRIPTION :: "string option"
  APP_VERSION :: "string option"
  LICENSE_NAME :: "string option"
  CONTACT_NAME :: "string option"
  CONTACT_EMAIL :: "string option"

definition app_defaults :: app_settings where
  "app_defaults = \<lparr> APP_NAME = ''FastAPI app'', APP_DESCRIPTION = None, APP_VERSION = None, LICENSE_NAME = None,
     CONTACT_NAME = None, CONTACT_EMAIL = None \<rparr>"

datatype log_level = LEVEL_DEBUG | LEVEL_INFO | LEVEL_WARNING | LEVEL_ERROR | LEVEL_CRITICAL

record file_logger_settings =
  FILE_LOG_ENABLED :: bool
  FILE_LOG_MAX_BYTES :: int
  FILE_LOG_BACKUP_COUNT :: int
  FILE_LOG_FORMAT_JSON :: bool
  FILE_LOG_LEVEL :: log_level
  FILE_LOG_INCLUDE_REQUEST_ID :: bool
  FILE_LOG_INCLUDE_CORRELATION_ID :: bool
  FILE_LOG_INCLUDE_PATH :: bool
  FILE_LOG_INCLUDE_METHOD :: bool
  FILE_LOG_INCLUDE_CLIENT_HOST :: bool
  FILE_LOG_INCLUDE_STATUS_CODE :: bool

definition file_logger_defaults :: file_logger_settings where
  "file_logger_defaults = \<lparr> FILE_LOG_ENABLED = False, FILE_LOG_MAX_BYTES = 10 * 1024 * 1024, FILE_LOG_BACKUP_COUNT = 5,
     FILE_LOG_FORMAT_JSON = True, FILE_LOG_LEVEL = LEVEL_INFO, FILE_LOG_INCLUDE_REQUEST_ID = True,
     FILE_LOG_INCLUDE_CORRELATION_ID = True, FILE_LOG_INCLUDE_PATH = True, FILE_LOG_INCLUDE_METHOD = True,
     FILE_LOG_INCLUDE_CLIENT_HOST = True, FILE_LOG_INCLUDE_STATUS_CODE = True \<rparr>"

record console_logger_settings =
  CONSOLE_LOG_LEVEL :: log_level
  CONSOLE_LOG_FORMAT_JSON :: bool
  CONSOLE_LOG_INCLUDE_REQUEST_ID :: bool
  CONSOLE_LOG_INCLUDE_CORRELATION_ID :: bool
  CONSOLE_LOG_INCLUDE_PATH :: bool
  CONSOLE_LOG_INCLUDE_METHOD :: bool
  CONSOLE_LOG_INCLUDE_CLIENT_HOST :: bool
  CONSOLE_LOG_INCLUDE_STATUS_CODE :: bool

definition console_logger_defaults :: console_logger_settings where
  "console_logger_defaults = \<lparr> CONSOLE_LOG_LEVEL = LEVEL_INFO, CONSOLE_LOG_FORMAT_JSON = False,
     CONSOLE_LOG_INCLUDE_REQUEST_ID = False, CONSOLE_LOG_INCLUDE_CORRELATION_ID = False, CONSOLE_LOG_INCLUDE_PATH = False,
     CONSOLE_LOG_INCLUDE_METHOD = False, CONSOLE_LOG_INCLUDE_CLIENT_HOST = False, CONSOLE_LOG_INCLUDE_STATUS_CODE = False \<rparr>"

record log_verbosity_settings =
  LOG_LEVEL :: log_level
  UVICORN_LOG_LEVEL :: log_level
  WORKER_LOG_LEVEL :: log_level

definition log_verbosity_defaults :: log_verbosity_settings where
  "log_verbosity_defaults = \<lparr> LOG_LEVEL = LEVEL_INFO, UVICORN_LOG_LEVEL = LEVEL_INFO, WORKER_LOG_LEVEL = LEVEL_INFO \<rparr>"

section \<open>Databases\<close>

record sqlite_settings =
  SQLITE_URI :: string
  SQLITE_SYNC_PREFIX :: string
  SQLITE_ASYNC_PREFIX :: string

definition sqlite_defaults :: sqlite_settings where
  "sqlite_defaults = \<lparr> SQLITE_URI = ''./sql_app.db'', SQLITE_SYNC_PREFIX = ''sqlite:///'', SQLITE_ASYNC_PREFIX = ''sqlite+aiosqlite:///'' \<rparr>"

record mysql_settings =
  MYSQL_USER :: string
  MYSQL_PASSWORD :: string
  MYSQL_SERVER :: string
  MYSQL_PORT :: int
  MYSQL_DB :: string
  MYSQL_SYNC_PREFIX :: string
  MYSQL_ASYNC_PREFIX :: string
  MYSQL_URL :: "string option"

definition mysql_defaults :: mysql_settings where
  "mysql_defaults = \<lparr> MYSQL_USER = ''username'', MYSQL_PASSWORD = ''password'', MYSQL_SERVER = ''localhost'', MYSQL_PORT = 5432,
     MYSQL_DB = ''dbname'', MYSQL_SYNC_PREFIX = ''mysql://'', MYSQL_ASYNC_PREFIX = ''mysql+aiomysql://'', MYSQL_URL = None \<rparr>"

definition MYSQL_URI :: "mysql_settings \<Rightarrow> string" where
  "MYSQL_URI c = MYSQL_USER c @ '':'' @ MYSQL_PASSWORD c @ ''@'' @ MYSQL_SERVER c @ '':'' @ show_int (MYSQL_PORT c) @ ''/'' @ MYSQL_DB c"

datatype database_ssl_mode = SSL_DISABLE | SSL_REQUIRE | SSL_VERIFY_CA | SSL_VERIFY_FULL

datatype redis_cert_requirements = CERT_NONE | CERT_OPTIONAL | CERT_REQUIRED

record postgres_settings =
  DATABASE_URL_INPUT :: "string option"
  DATABASE_POOL_SIZE :: int
  DATABASE_MAX_OVERFLOW :: int
  DATABASE_POOL_PRE_PING :: bool
  DATABASE_POOL_USE_LIFO :: bool
  DATABASE_POOL_RECYCLE :: int
  DATABASE_POOL_TIMEOUT :: int
  DATABASE_CONNECT_TIMEOUT :: rat
  DATABASE_COMMAND_TIMEOUT :: rat
  DATABASE_STATEMENT_TIMEOUT_MS :: "int option"
  DATABASE_IDLE_IN_TRANSACTION_SESSION_TIMEOUT_MS :: "int option"
  DATABASE_STARTUP_RETRY_ATTEMPTS :: int
  DATABASE_STARTUP_RETRY_BASE_DELAY :: rat
  DATABASE_STARTUP_RETRY_MAX_DELAY :: rat
  DATABASE_SSL_MODE :: database_ssl_mode
  DATABASE_SSL_CA_FILE :: "string option"
  DATABASE_SSL_CERT_FILE :: "string option"
  DATABASE_SSL_KEY_FILE :: "string option"
  POSTGRES_USER :: string
  POSTGRES_PASSWORD :: string
  POSTGRES_SERVER :: string
  POSTGRES_PORT :: int
  POSTGRES_DB :: string
  POSTGRES_SYNC_PREFIX :: string
  POSTGRES_ASYNC_PREFIX :: string

definition postgres_defaults :: postgres_settings where
  "postgres_defaults = \<lparr> DATABASE_URL_INPUT = None, DATABASE_POOL_SIZE = 10, DATABASE_MAX_OVERFLOW = 20,
     DATABASE_POOL_PRE_PING = True, DATABASE_POOL_USE_LIFO = True, DATABASE_POOL_RECYCLE = 1800, DATABASE_POOL_TIMEOUT = 30,
     DATABASE_CONNECT_TIMEOUT = 10, DATABASE_COMMAND_TIMEOUT = 60, DATABASE_STATEMENT_TIMEOUT_MS = None,
     DATABASE_IDLE_IN_TRANSACTION_SESSION_TIMEOUT_MS = None, DATABASE_STARTUP_RETRY_ATTEMPTS = 3,
     DATABASE_STARTUP_RETRY_BASE_DELAY = 1 / 2, DATABASE_STARTUP_RETRY_MAX_DELAY = 5, DATABASE_SSL_MODE = SSL_DISABLE,
     DATABASE_SSL_CA_FILE = None, DATABASE_SSL_CERT_FILE = None, DATABASE_SSL_KEY_FILE = None, POSTGRES_USER = ''postgres'',
     POSTGRES_PASSWORD = ''postgres'', POSTGRES_SERVER = ''localhost'', POSTGRES_PORT = 5432, POSTGRES_DB = ''postgres'',
     POSTGRES_SYNC_PREFIX = ''postgresql://'', POSTGRES_ASYNC_PREFIX = ''postgresql+asyncpg://'' \<rparr>"

text \<open>An optional field with a lower bound.\<close>

definition opt_ge :: "int \<Rightarrow> int option \<Rightarrow> bool" where
  "opt_ge b v = (case v of None \<Rightarrow> True | Some n \<Rightarrow> b \<le> n)"

definition postgres_fields_ok :: "postgres_settings \<Rightarrow> bool" where
  "postgres_fields_ok c \<longleftrightarrow>
     1 \<le> DATABASE_POOL_SIZE c \<and> 0 \<le> DATABASE_MAX_OVERFLOW c \<and> -1 \<le> DATABASE_POOL_RECYCLE c \<and> 1 \<le> DATABASE_POOL_TIMEOUT c
     \<and> 0 < DATABASE_CONNECT_TIMEOUT c \<and> 0 < DATABASE_COMMAND_TIMEOUT c \<and> opt_ge 1 (DATABASE_STATEMENT_TIMEOUT_MS c)
     \<and> opt_ge 1 (DATABASE_IDLE_IN_TRANSACTION_SESSION_TIMEOUT_MS c) \<and> 0 \<le> DATABASE_STARTUP_RETRY_ATTEMPTS c
     \<and> 0 < DATABASE_STARTUP_RETRY_BASE_DELAY c \<and> 0 < DATABASE_STARTUP_RETRY_MAX_DELAY c"

definition POSTGRES_SYNC_DRIVER :: string where
  "POSTGRES_SYNC_DRIVER = ''postgresql''"

definition POSTGRES_ASYNC_DRIVER :: string where
  "POSTGRES_ASYNC_DRIVER = ''postgresql+asyncpg''"

definition build_postgres_url :: "'u url_lib \<Rightarrow> postgres_settings \<Rightarrow> string \<Rightarrow> 'u" where
  "build_postgres_url lib c drivername =
     ul_create lib drivername (POSTGRES_USER c) (POSTGRES_PASSWORD c) (POSTGRES_SERVER c) (POSTGRES_PORT c) (POSTGRES_DB c)"

definition resolve_postgres_url :: "'u url_lib \<Rightarrow> postgres_settings \<Rightarrow> string \<Rightarrow> string + 'u" where
  "resolve_postgres_url lib c drivername = (case DATABASE_URL_INPUT c of
       Some url \<Rightarrow> map_sum id (ul_set_driver lib drivername) (parse_postgres_database_url lib url)
     | None \<Rightarrow> Inr (build_postgres_url lib c drivername))"

definition database_password :: "'u url_lib \<Rightarrow> postgres_settings \<Rightarrow> string + string option" where
  "database_password lib c = map_sum id (ul_password lib) (resolve_postgres_url lib c POSTGRES_ASYNC_DRIVER)"

definition validate_postgres_runtime_settings :: "'u url_lib \<Rightarrow> postgres_settings \<Rightarrow> string + postgres_settings" where
  "validate_postgres_runtime_settings lib c =
     bind_sum (resolve_postgres_url lib c POSTGRES_ASYNC_DRIVER) (\<lambda>_.
       if (DATABASE_SSL_CERT_FILE c = None) \<noteq> (DATABASE_SSL_KEY_FILE c = None)
       then Inl ''DATABASE_SSL_CERT_FILE and DATABASE_SSL_KEY_FILE must be provided together''
       else if 0 < DATABASE_STARTUP_RETRY_ATTEMPTS c \<and> DATABASE_STARTUP_RETRY_MAX_DELAY c < DATABASE_STARTUP_RETRY_BASE_DELAY c
       then Inl ''DATABASE_STARTUP_RETRY_MAX_DELAY must be greater than or equal to DATABASE_STARTUP_RETRY_BASE_DELAY''
       else if (DATABASE_SSL_MODE c = SSL_VERIFY_CA \<or> DATABASE_SSL_MODE c = SSL_VERIFY_FULL) \<and> DATABASE_SSL_CA_FILE c = None
       then Inl ''DATABASE_SSL_CA_FILE is required when DATABASE_SSL_MODE is verify-ca or verify-full''
       else if DATABASE_SSL_MODE c = SSL_DISABLE \<and> (DATABASE_SSL_CA_FILE c \<noteq> None \<or> DATABASE_SSL_CERT_FILE c \<noteq> None)
       then Inl ''DATABASE_SSL_MODE must enable SSL before certificate file settings can be used''
       else Inr c)"

definition DATABASE_URL :: "'u url_lib \<Rightarrow> postgres_settings \<Rightarrow> string + string" where
  "DATABASE_URL lib c = map_sum id (ul_render lib) (resolve_postgres_url lib c POSTGRES_ASYNC_DRIVER)"

definition DATABASE_SYNC_URL :: "'u url_lib \<Rightarrow> postgres_settings \<Rightarrow> string + string" where
  "DATABASE_SYNC_URL lib c = map_sum id (ul_render lib) (resolve_postgres_url lib c POSTGRES_SYNC_DRIVER)"

definition POSTGRES_URL :: "'u url_lib \<Rightarrow> postgres_settings \<Rightarrow> string + string" where
  "POSTGRES_URL lib c = DATABASE_URL lib c"

definition removeprefix :: "string \<Rightarrow> string \<Rightarrow> string" where
  "removeprefix p s = (if starts_with p s then drop (length p) s else s)"

definition POSTGRES_URI :: "'u url_lib \<Rightarrow> postgres_settings \<Rightarrow> string + string" where
  "POSTGRES_URI lib c = map_sum id (removeprefix (POSTGRES_SYNC_PREFIX c)) (DATABASE_SYNC_URL lib c)"

record first_user_settings =
  ADMIN_NAME :: string
  ADMIN_EMAIL :: string
  ADMIN_USERNAME :: string
  ADMIN_PASSWORD :: string

definition first_user_defaults :: first_user_settings where
  "first_user_defaults = \<lparr> ADMIN_NAME = ''admin'', ADMIN_EMAIL = ''admin@admin.com'', ADMIN_USERNAME = ''admin'',
     ADMIN_PASSWORD = ''!Ch4ng3Th1sP4ssW0rd!'' \<rparr>"

definition crypt_defaults :: crypt_settings where
  "crypt_defaults = \<lparr> SECRET_KEY = ''secret-key'', ALGORITHM = ''HS256'', ACCESS_TOKEN_EXPIRE_MINUTES = 30,
     REFRESH_TOKEN_EXPIRE_DAYS = 7, PASSWORD_HASH_SCHEME_is_bcrypt = True, PASSWORD_HASH_SCHEME_text = ''bcrypt'',
     PASSWORD_BCRYPT_ROUNDS = 12, PASSWORD_HASH_REHASH_ON_LOGIN = True, JWT_ISSUER = None, JWT_AUDIENCE = None,
     JWT_ACTIVE_KEY_ID = ''primary'', JWT_VERIFICATION_KEYS = [] \<rparr>"

definition machine_auth_defaults :: machine_auth_settings where
  "machine_auth_defaults = \<lparr> API_KEY_ENABLED = False, API_KEY_HEADER_NAME = ''X-API-Key'', API_KEY_PRINCIPALS = [] \<rparr>"

section \<open>Redis\<close>

record redis_cache_settings =
  REDIS_CACHE_HOST :: string
  REDIS_CACHE_PORT :: int
  REDIS_CACHE_DB :: int
  REDIS_CACHE_USERNAME :: "string option"
  REDIS_CACHE_PASSWORD :: "string option"
  REDIS_CACHE_CONNECT_TIMEOUT :: rat
  REDIS_CACHE_SOCKET_TIMEOUT :: rat
  REDIS_CACHE_RETRY_ATTEMPTS :: int
  REDIS_CACHE_RETRY_BASE_DELAY :: rat
  REDIS_CACHE_RETRY_MAX_DELAY :: rat
  REDIS_CACHE_RETRY_ON_TIMEOUT :: bool
  REDIS_CACHE_MAX_CONNECTIONS :: "int option"
  REDIS_CACHE_SSL :: bool
  REDIS_CACHE_SSL_CHECK_HOSTNAME :: bool
  REDIS_CACHE_SSL_CERT_REQS :: redis_cert_requirements
  REDIS_CACHE_SSL_CA_CERTS :: "string option"
  REDIS_CACHE_SSL_CERTFILE :: "string option"
  REDIS_CACHE_SSL_KEYFILE :: "string option"

definition redis_cache_defaults :: redis_cache_settings where
  "redis_cache_defaults = \<lparr>
     REDIS_CACHE_HOST = ''localhost'', REDIS_CACHE_PORT = 6379, REDIS_CACHE_DB = 0,
     REDIS_CACHE_USERNAME = None, REDIS_CACHE_PASSWORD = None, REDIS_CACHE_CONNECT_TIMEOUT = 5,
     REDIS_CACHE_SOCKET_TIMEOUT = 5, REDIS_CACHE_RETRY_ATTEMPTS = 3, REDIS_CACHE_RETRY_BASE_DELAY = 1 / 10,
     REDIS_CACHE_RETRY_MAX_DELAY = 1, REDIS_CACHE_RETRY_ON_TIMEOUT = True, REDIS_CACHE_MAX_CONNECTIONS = None,
     REDIS_CACHE_SSL = False, REDIS_CACHE_SSL_CHECK_HOSTNAME = False, REDIS_CACHE_SSL_CERT_REQS = CERT_REQUIRED,
     REDIS_CACHE_SSL_CA_CERTS = None, REDIS_CACHE_SSL_CERTFILE = None, REDIS_CACHE_SSL_KEYFILE = None \<rparr>"

definition redis_cache_fields_ok :: "redis_cache_settings \<Rightarrow> bool" where
  "redis_cache_fields_ok c \<longleftrightarrow>
     0 \<le> REDIS_CACHE_DB c \<and> 0 < REDIS_CACHE_CONNECT_TIMEOUT c \<and> 0 < REDIS_CACHE_SOCKET_TIMEOUT c \<and> 0 \<le> REDIS_CACHE_RETRY_ATTEMPTS c
     \<and> 0 < REDIS_CACHE_RETRY_BASE_DELAY c \<and> 0 < REDIS_CACHE_RETRY_MAX_DELAY c \<and> opt_ge 1 (REDIS_CACHE_MAX_CONNECTIONS c)"

definition validate_redis_cache_settings :: "redis_cache_settings \<Rightarrow> string + redis_cache_settings" where
  "validate_redis_cache_settings c =
     bind_sum (validate_redis_tls_settings ''REDIS_CACHE'' (REDIS_CACHE_SSL c) (REDIS_CACHE_SSL_CHECK_HOSTNAME c)
       (REDIS_CACHE_SSL_CA_CERTS c) (REDIS_CACHE_SSL_CERTFILE c) (REDIS_CACHE_SSL_KEYFILE c)) (\<lambda>_.
     bind_sum (validate_redis_retry_settings ''REDIS_CACHE'' (REDIS_CACHE_RETRY_ATTEMPTS c) (REDIS_CACHE_RETRY_BASE_DELAY c)
       (REDIS_CACHE_RETRY_MAX_DELAY c)) (\<lambda>_. Inr c))"

definition REDIS_CACHE_URL :: "redis_cache_settings \<Rightarrow> string" where
  "REDIS_CACHE_URL c = build_redis_url (REDIS_CACHE_HOST c) (REDIS_CACHE_PORT c) (REDIS_CACHE_DB c) (REDIS_CACHE_USERNAME c) (REDIS_CACHE_PASSWORD c)
     (REDIS_CACHE_SSL c)"

record redis_queue_settings =
  REDIS_QUEUE_HOST :: string
  REDIS_QUEUE_PORT :: int
  REDIS_QUEUE_DB :: int
  REDIS_QUEUE_USERNAME :: "string option"
  REDIS_QUEUE_PASSWORD :: "string option"
  REDIS_QUEUE_CONNECT_TIMEOUT :: int
  REDIS_QUEUE_CONNECT_RETRIES :: int
  REDIS_QUEUE_RETRY_DELAY :: int
  REDIS_QUEUE_RETRY_ON_TIMEOUT :: bool
  REDIS_QUEUE_MAX_CONNECTIONS :: "int option"
  REDIS_QUEUE_SSL :: bool
  REDIS_QUEUE_SSL_CHECK_HOSTNAME :: bool
  REDIS_QUEUE_SSL_CERT_REQS :: redis_cert_requirements
  REDIS_QUEUE_SSL_CA_CERTS :: "string option"
  REDIS_QUEUE_SSL_CERTFILE :: "string option"
  REDIS_QUEUE_SSL_KEYFILE :: "string option"

definition redis_queue_defaults :: redis_queue_settings where
  "redis_queue_defaults = \<lparr>
     REDIS_QUEUE_HOST = ''localhost'', REDIS_QUEUE_PORT = 6379, REDIS_QUEUE_DB = 0,
     REDIS_QUEUE_USERNAME = None, REDIS_QUEUE_PASSWORD = None, REDIS_QUEUE_CONNECT_TIMEOUT = 5,
     REDIS_QUEUE_CONNECT_RETRIES = 5, REDIS_QUEUE_RETRY_DELAY = 1, REDIS_QUEUE_RETRY_ON_TIMEOUT = True,
     REDIS_QUEUE_MAX_CONNECTIONS = None, REDIS_QUEUE_SSL = False, REDIS_QUEUE_SSL_CHECK_HOSTNAME = False,
     REDIS_QUEUE_SSL_CERT_REQS = CERT_REQUIRED, REDIS_QUEUE_SSL_CA_CERTS = None, REDIS_QUEUE_SSL_CERTFILE = None,
     REDIS_QUEUE_SSL_KEYFILE = None \<rparr>"

definition redis_queue_fields_ok :: "redis_queue_settings \<Rightarrow> bool" where
  "redis_queue_fields_ok c \<longleftrightarrow>
     0 \<le> REDIS_QUEUE_DB c \<and> 1 \<le> REDIS_QUEUE_CONNECT_TIMEOUT c \<and> 0 \<le> REDIS_QUEUE_CONNECT_RETRIES c \<and> 0 \<le> REDIS_QUEUE_RETRY_DELAY c
     \<and> opt_ge 1 (REDIS_QUEUE_MAX_CONNECTIONS c)"

definition validate_redis_queue_settings :: "redis_queue_settings \<Rightarrow> string + redis_queue_settings" where
  "validate_redis_queue_settings c =
     bind_sum (validate_redis_tls_settings ''REDIS_QUEUE'' (REDIS_QUEUE_SSL c) (REDIS_QUEUE_SSL_CHECK_HOSTNAME c)
       (REDIS_QUEUE_SSL_CA_CERTS c) (REDIS_QUEUE_SSL_CERTFILE c) (REDIS_QUEUE_SSL_KEYFILE c)) (\<lambda>_.
       Inr c)"

definition REDIS_QUEUE_URL :: "redis_queue_settings \<Rightarrow> string" where
  "REDIS_QUEUE_URL c = build_redis_url (REDIS_QUEUE_HOST c) (REDIS_QUEUE_PORT c) (REDIS_QUEUE_DB c) (REDIS_QUEUE_USERNAME c) (REDIS_QUEUE_PASSWORD c)
     (REDIS_QUEUE_SSL c)"

record redis_rate_limit_settings =
  REDIS_RATE_LIMIT_HOST :: string
  REDIS_RATE_LIMIT_PORT :: int
  REDIS_RATE_LIMIT_DB :: int
  REDIS_RATE_LIMIT_USERNAME :: "string option"
  REDIS_RATE_LIMIT_PASSWORD :: "string option"
  REDIS_RATE_LIMIT_CONNECT_TIMEOUT :: rat
  REDIS_RATE_LIMIT_SOCKET_TIMEOUT :: rat
  REDIS_RATE_LIMIT_RETRY_ATTEMPTS :: int
  REDIS_RATE_LIMIT_RETRY_BASE_DELAY :: rat
  REDIS_RATE_LIMIT_RETRY_MAX_DELAY :: rat
  REDIS_RATE_LIMIT_RETRY_ON_TIMEOUT :: bool
  REDIS_RATE_LIMIT_MAX_CONNECTIONS :: "int option"
  REDIS_RATE_LIMIT_SSL :: bool
  REDIS_RATE_LIMIT_SSL_CHECK_HOSTNAME :: bool
  REDIS_RATE_LIMIT_SSL_CERT_REQS :: redis_cert_requirements
  REDIS_RATE_LIMIT_SSL_CA_CERTS :: "string option"
  REDIS_RATE_LIMIT_SSL_CERTFILE :: "string option"
  REDIS_RATE_LIMIT_SSL_KEYFILE :: "string option"

definition redis_rate_limit_defaults :: redis_rate_limit_settings where
  "redis_rate_limit_defaults = \<lparr>
     REDIS_RATE_LIMIT_HOST = ''localhost'', REDIS_RATE_LIMIT_PORT = 6379, REDIS_RATE_LIMIT_DB = 0,
     REDIS_RATE_LIMIT_USERNAME = None, REDIS_RATE_LIMIT_PASSWORD = None, REDIS_RATE_LIMIT_CONNECT_TIMEOUT = 5,
     REDIS_RATE_LIMIT_SOCKET_TIMEOUT = 5, REDIS_RATE_LIMIT_RETRY_ATTEMPTS = 3, REDIS_RATE_LIMIT_RETRY_BASE_DELAY = 1 / 10,
     REDIS_RATE_LIMIT_RETRY_MAX_DELAY = 1, REDIS_RATE_LIMIT_RETRY_ON_TIMEOUT = True, REDIS_RATE_LIMIT_MAX_CONNECTIONS = None,
     REDIS_RATE_LIMIT_SSL = False, REDIS_RATE_LIMIT_SSL_CHECK_HOSTNAME = False, REDIS_RATE_LIMIT_SSL_CERT_REQS = CERT_REQUIRED,
     REDIS_RATE_LIMIT_SSL_CA_CERTS = None, REDIS_RATE_LIMIT_SSL_CERTFILE = None, REDIS_RATE_LIMIT_SSL_KEYFILE = None \<rparr>"

definition redis_rate_limit_fields_ok :: "redis_rate_limit_settings \<Rightarrow> bool" where
  "redis_rate_limit_fields_ok c \<longleftrightarrow>
     0 \<le> REDIS_RATE_LIMIT_DB c \<and> 0 < REDIS_RATE_LIMIT_CONNECT_TIMEOUT c \<and> 0 < REDIS_RATE_LIMIT_SOCKET_TIMEOUT c \<and> 0 \<le> REDIS_RATE_LIMIT_RETRY_ATTEMPTS c
     \<and> 0 < REDIS_RATE_LIMIT_RETRY_BASE_DELAY c \<and> 0 < REDIS_RATE_LIMIT_RETRY_MAX_DELAY c \<and> opt_ge 1 (REDIS_RATE_LIMIT_MAX_CONNECTIONS c)"

definition validate_redis_rate_limit_settings :: "redis_rate_limit_settings \<Rightarrow> string + redis_rate_limit_settings" where
  "validate_redis_rate_limit_settings c =
     bind_sum (validate_redis_tls_settings ''REDIS_RATE_LIMIT'' (REDIS_RATE_LIMIT_SSL c) (REDIS_RATE_LIMIT_SSL_CHECK_HOSTNAME c)
       (REDIS_RATE_LIMIT_SSL_CA_CERTS c) (REDIS_RATE_LIMIT_SSL_CERTFILE c) (REDIS_RATE_LIMIT_SSL_KEYFILE c)) (\<lambda>_.
     bind_sum (validate_redis_retry_settings ''REDIS_RATE_LIMIT'' (REDIS_RATE_LIMIT_RETRY_ATTEMPTS c) (REDIS_RATE_LIMIT_RETRY_BASE_DELAY c)
       (REDIS_RATE_LIMIT_RETRY_MAX_DELAY c)) (\<lambda>_. Inr c))"

definition REDIS_RATE_LIMIT_URL :: "redis_rate_limit_settings \<Rightarrow> string" where
  "REDIS_RATE_LIMIT_URL c = build_redis_url (REDIS_RATE_LIMIT_HOST c) (REDIS_RATE_LIMIT_PORT c) (REDIS_RATE_LIMIT_DB c) (REDIS_RATE_LIMIT_USERNAME c) (REDIS_RATE_LIMIT_PASSWORD c)
     (REDIS_RATE_LIMIT_SSL c)"

section \<open>Workers, clients and webhooks\<close>

record client_cache_settings =
  CLIENT_CACHE_MAX_AGE :: int

definition client_cache_defaults :: client_cache_settings where
  "client_cache_defaults = \<lparr> CLIENT_CACHE_MAX_AGE = 60 \<rparr>"

record feature_flags =
  FEATURE_ADMIN_ENABLED :: bool
  FEATURE_CLIENT_CACHE_ENABLED :: bool
  FEATURE_API_AUTH_ROUTES_ENABLED :: bool
  FEATURE_API_USERS_ENABLED :: bool
  FEATURE_API_POSTS_ENABLED :: bool
  FEATURE_API_TIERS_ENABLED :: bool
  FEATURE_API_RATE_LIMITS_ENABLED :: bool

definition feature_flags_defaults :: feature_flags where
  "feature_flags_defaults = \<lparr> FEATURE_ADMIN_ENABLED = True, FEATURE_CLIENT_CACHE_ENABLED = True,
     FEATURE_API_AUTH_ROUTES_ENABLED = True, FEATURE_API_USERS_ENABLED = True, FEATURE_API_POSTS_ENABLED = True,
     FEATURE_API_TIERS_ENABLED = True, FEATURE_API_RATE_LIMITS_ENABLED = True \<rparr>"

record worker_runtime_settings = worker_settings +
  WORKER_QUEUE_NAME :: string
  WORKER_MAX_JOBS :: int
  WORKER_JOB_EXPIRES_EXTRA_MS :: int

definition worker_runtime_defaults :: worker_runtime_settings where
  "worker_runtime_defaults = \<lparr> WORKER_JOB_MAX_TRIES = 3, WORKER_JOB_RETRY_DELAY_SECONDS = 5, WORKER_KEEP_RESULT_SECONDS = 3600,
     WORKER_KEEP_RESULT_FOREVER = False, WORKER_QUEUE_NAME = ''arq:queue'', WORKER_MAX_JOBS = 10,
     WORKER_JOB_EXPIRES_EXTRA_MS = 86400000 \<rparr>"

definition worker_runtime_fields_ok :: "worker_runtime_settings \<Rightarrow> bool" where
  "worker_runtime_fields_ok c \<longleftrightarrow>
     1 \<le> WORKER_MAX_JOBS c \<and> 1 \<le> WORKER_JOB_MAX_TRIES c \<and> 0 \<le> WORKER_JOB_RETRY_DELAY_SECONDS c
     \<and> 0 \<le> WORKER_KEEP_RESULT_SECONDS c \<and> 0 \<le> WORKER_JOB_EXPIRES_EXTRA_MS c"

definition validate_worker_runtime_settings :: "worker_runtime_settings \<Rightarrow> string + worker_runtime_settings" where
  "validate_worker_runtime_settings c =
     (if py_strip (WORKER_QUEUE_NAME c) = [] then Inl ''WORKER_QUEUE_NAME must not be empty'' else Inr c)"

record scheduler_runtime_settings =
  SCHEDULER_ENABLED :: bool
  SCHEDULER_LOCK_TTL_SECONDS :: rat
  SCHEDULER_CLOCK_DRIFT_TOLERANCE_SECONDS :: rat

definition scheduler_runtime_defaults :: scheduler_runtime_settings where
  "scheduler_runtime_defaults = \<lparr> SCHEDULER_ENABLED = False, SCHEDULER_LOCK_TTL_SECONDS = 300,
     SCHEDULER_CLOCK_DRIFT_TOLERANCE_SECONDS = 10 \<rparr>"

definition scheduler_runtime_fields_ok :: "scheduler_runtime_settings \<Rightarrow> bool" where
  "scheduler_runtime_fields_ok c \<longleftrightarrow> 0 \<le> SCHEDULER_LOCK_TTL_SECONDS c \<and> 0 \<le> SCHEDULER_CLOCK_DRIFT_TOLERANCE_SECONDS c"

record http_client_runtime_settings =
  hc_TIMEOUT_SECONDS :: rat
  hc_CONNECT_TIMEOUT_SECONDS :: rat
  hc_READ_TIMEOUT_SECONDS :: rat
  hc_WRITE_TIMEOUT_SECONDS :: rat
  hc_POOL_MAX_CONNECTIONS :: int
  hc_POOL_MAX_KEEPALIVE :: int
  hc_RETRY_ENABLED :: bool
  hc_RETRY_MAX_ATTEMPTS :: int
  hc_RETRY_BACKOFF_BASE_SECONDS :: rat
  hc_RETRY_BACKOFF_MAX_SECONDS :: rat
  hc_RETRY_BACKOFF_MULTIPLIER :: rat
  hc_RETRY_BACKOFF_JITTER :: bool
  hc_CIRCUIT_BREAKER_ENABLED :: bool
  hc_CIRCUIT_BREAKER_FAILURE_THRESHOLD :: int
  hc_CIRCUIT_BREAKER_RECOVERY_TIMEOUT_SECONDS :: rat
  hc_LOG_REQUEST_BODY :: bool
  hc_LOG_RESPONSE_BODY :: bool

definition http_client_defaults :: http_client_runtime_settings where
  "http_client_defaults = \<lparr> hc_TIMEOUT_SECONDS = 30, hc_CONNECT_TIMEOUT_SECONDS = 10, hc_READ_TIMEOUT_SECONDS = 30,
     hc_WRITE_TIMEOUT_SECONDS = 30, hc_POOL_MAX_CONNECTIONS = 100, hc_POOL_MAX_KEEPALIVE = 20, hc_RETRY_ENABLED = True,
     hc_RETRY_MAX_ATTEMPTS = 3, hc_RETRY_BACKOFF_BASE_SECONDS = 1, hc_RETRY_BACKOFF_MAX_SECONDS = 30,
     hc_RETRY_BACKOFF_MULTIPLIER = 2, hc_RETRY_BACKOFF_JITTER = True, hc_CIRCUIT_BREAKER_ENABLED = False,
     hc_CIRCUIT_BREAKER_FAILURE_THRESHOLD = 5, hc_CIRCUIT_BREAKER_RECOVERY_TIMEOUT_SECONDS = 30,
     hc_LOG_REQUEST_BODY = False, hc_LOG_RESPONSE_BODY = False \<rparr>"

definition http_client_fields_ok :: "http_client_runtime_settings \<Rightarrow> bool" where
  "http_client_fields_ok c \<longleftrightarrow>
     1 / 10 \<le> hc_TIMEOUT_SECONDS c \<and> 1 / 10 \<le> hc_CONNECT_TIMEOUT_SECONDS c \<and> 1 / 10 \<le> hc_READ_TIMEOUT_SECONDS c
     \<and> 1 / 10 \<le> hc_WRITE_TIMEOUT_SECONDS c \<and> 1 \<le> hc_POOL_MAX_CONNECTIONS c \<and> 0 \<le> hc_POOL_MAX_KEEPALIVE c
     \<and> 0 \<le> hc_RETRY_MAX_ATTEMPTS c \<and> 0 \<le> hc_RETRY_BACKOFF_BASE_SECONDS c \<and> 0 \<le> hc_RETRY_BACKOFF_MAX_SECONDS c
     \<and> 0 < hc_RETRY_BACKOFF_MULTIPLIER c \<and> 1 \<le> hc_CIRCUIT_BREAKER_FAILURE_THRESHOLD c
     \<and> 1 \<le> hc_CIRCUIT_BREAKER_RECOVERY_TIMEOUT_SECONDS c"

definition validate_http_client_settings :: "http_client_runtime_settings \<Rightarrow> string + http_client_runtime_settings" where
  "validate_http_client_settings c =
     (if hc_RETRY_BACKOFF_MAX_SECONDS c < hc_RETRY_BACKOFF_BASE_SECONDS c
      then Inl ''HTTP_CLIENT_RETRY_BACKOFF_MAX_SECONDS must be >= HTTP_CLIENT_RETRY_BACKOFF_BASE_SECONDS''
      else if hc_TIMEOUT_SECONDS c < hc_CONNECT_TIMEOUT_SECONDS c
      then Inl ''HTTP_CLIENT_CONNECT_TIMEOUT_SECONDS must be <= HTTP_CLIENT_TIMEOUT_SECONDS''
      else Inr c)"

record webhook_runtime_settings = webhook_settings +
  WEBHOOK_PAYLOAD_RETENTION_DAYS :: int

definition webhook_runtime_defaults :: webhook_runtime_settings where
  "webhook_runtime_defaults = \<lparr> WEBHOOK_SIGNATURE_VERIFICATION_ENABLED = True, WEBHOOK_SIGNATURE_MAX_AGE_SECONDS = 300,
     WEBHOOK_REPLAY_PROTECTION_ENABLED = True, WEBHOOK_REPLAY_WINDOW_SECONDS = 300, WEBHOOK_STORE_RAW_PAYLOADS = True,
     WEBHOOK_PAYLOAD_RETENTION_DAYS = 7 \<rparr>"

definition webhook_runtime_fields_ok :: "webhook_runtime_settings \<Rightarrow> bool" where
  "webhook_runtime_fields_ok c \<longleftrightarrow>
     1 \<le> WEBHOOK_SIGNATURE_MAX_AGE_SECONDS c \<and> 1 \<le> WEBHOOK_REPLAY_WINDOW_SECONDS c \<and> 0 \<le> WEBHOOK_PAYLOAD_RETENTION_DAYS c"

definition validate_webhook_runtime_settings :: "webhook_runtime_settings \<Rightarrow> string + webhook_runtime_settings" where
  "validate_webhook_runtime_settings c =
     (if WEBHOOK_SIGNATURE_VERIFICATION_ENABLED c \<and> WEBHOOK_REPLAY_PROTECTION_ENABLED c
         \<and> WEBHOOK_REPLAY_WINDOW_SECONDS c < WEBHOOK_SIGNATURE_MAX_AGE_SECONDS c
      then Inl (''WEBHOOK_REPLAY_WINDOW_SECONDS must be greater than or equal to '' @
                ''WEBHOOK_SIGNATURE_MAX_AGE_SECONDS when verification and replay protection are enabled'')
      else if WEBHOOK_STORE_RAW_PAYLOADS c \<and> WEBHOOK_PAYLOAD_RETENTION_DAYS c < 1
      then Inl ''WEBHOOK_PAYLOAD_RETENTION_DAYS must be at least 1 when WEBHOOK_STORE_RAW_PAYLOADS is enabled''
      else Inr c)"

definition rate_limit_defaults :: rate_limit_settings where
  "rate_limit_defaults = \<lparr> API_RATE_LIMIT_ENABLED = True, DEFAULT_RATE_LIMIT_LIMIT = 10, DEFAULT_RATE_LIMIT_PERIOD = 3600,
     AUTH_RATE_LIMIT_ENABLED = True, AUTH_RATE_LIMIT_LOGIN_LIMIT = 5, AUTH_RATE_LIMIT_LOGIN_PERIOD = 300,
     AUTH_RATE_LIMIT_REFRESH_LIMIT = 30, AUTH_RATE_LIMIT_REFRESH_PERIOD = 300, AUTH_RATE_LIMIT_LOGOUT_LIMIT = 30,
     AUTH_RATE_LIMIT_LOGOUT_PERIOD = 300, WEBHOOK_RATE_LIMIT_ENABLED = True, WEBHOOK_RATE_LIMIT_LIMIT = 120,
     WEBHOOK_RATE_LIMIT_PERIOD = 60 \<rparr>"

text \<open>The default limit and period carry no bound.\<close>

definition rate_limit_fields_ok :: "rate_limit_settings \<Rightarrow> bool" where
  "rate_limit_fields_ok c \<longleftrightarrow>
     1 \<le> AUTH_RATE_LIMIT_LOGIN_LIMIT c \<and> 1 \<le> AUTH_RATE_LIMIT_LOGIN_PERIOD c \<and> 1 \<le> AUTH_RATE_LIMIT_REFRESH_LIMIT c
     \<and> 1 \<le> AUTH_RATE_LIMIT_REFRESH_PERIOD c \<and> 1 \<le> AUTH_RATE_LIMIT_LOGOUT_LIMIT c \<and> 1 \<le> AUTH_RATE_LIMIT_LOGOUT_PERIOD c
     \<and> 1 \<le> WEBHOOK_RATE_LIMIT_LIMIT c \<and> 1 \<le> WEBHOOK_RATE_LIMIT_PERIOD c"

record crud_admin_settings =
  CRUD_ADMIN_ENABLED :: bool
  CRUD_ADMIN_MOUNT_PATH :: string
  CRUD_ADMIN_ALLOWED_IPS_LIST :: "string list option"
  CRUD_ADMIN_ALLOWED_NETWORKS_LIST :: "string list option"
  CRUD_ADMIN_MAX_SESSIONS :: int
  CRUD_ADMIN_SESSION_TIMEOUT :: int
  SESSION_SECURE_COOKIES :: bool
  CRUD_ADMIN_TRACK_EVENTS :: bool
  CRUD_ADMIN_TRACK_SESSIONS :: bool
  CRUD_ADMIN_REDIS_ENABLED :: bool
  CRUD_ADMIN_REDIS_HOST :: string
  CRUD_ADMIN_REDIS_PORT :: int
  CRUD_ADMIN_REDIS_DB :: int
  CRUD_ADMIN_REDIS_PASSWORD :: "string option"
  CRUD_ADMIN_REDIS_SSL :: bool

definition crud_admin_defaults :: crud_admin_settings where
  "crud_admin_defaults = \<lparr> CRUD_ADMIN_ENABLED = False, CRUD_ADMIN_MOUNT_PATH = ''/admin'', CRUD_ADMIN_ALLOWED_IPS_LIST = None,
     CRUD_ADMIN_ALLOWED_NETWORKS_LIST = None, CRUD_ADMIN_MAX_SESSIONS = 10, CRUD_ADMIN_SESSION_TIMEOUT = 1440,
     SESSION_SECURE_COOKIES = True, CRUD_ADMIN_TRACK_EVENTS = True, CRUD_ADMIN_TRACK_SESSIONS = True,
     CRUD_ADMIN_REDIS_ENABLED = False, CRUD_ADMIN_REDIS_HOST = ''localhost'', CRUD_ADMIN_REDIS_PORT = 6379,
     CRUD_ADMIN_REDIS_DB = 0, CRUD_ADMIN_REDIS_PASSWORD = Some ''None'', CRUD_ADMIN_REDIS_SSL = False \<rparr>"

section \<open>Observability\<close>

record metrics_settings =
  METRICS_ENABLED :: bool
  METRICS_PATH :: string
  METRICS_NAMESPACE :: string
  METRICS_INCLUDE_REQUEST_PATH_LABELS :: bool

definition metrics_defaults :: metrics_settings where
  "metrics_defaults = \<lparr> METRICS_ENABLED = False, METRICS_PATH = ''/metrics'', METRICS_NAMESPACE = ''fastapi_template'',
     METRICS_INCLUDE_REQUEST_PATH_LABELS = False \<rparr>"

definition validate_metrics_settings :: "metrics_settings \<Rightarrow> string + metrics_settings" where
  "validate_metrics_settings c =
     (if py_strip (METRICS_PATH c) = [] then Inl ''METRICS_PATH must not be empty''
      else if \<not> starts_with ''/'' (METRICS_PATH c) then Inl (''METRICS_PATH must start with '' @ py_quote ''/'')
      else if py_strip (METRICS_NAMESPACE c) = [] then Inl ''METRICS_NAMESPACE must not be empty''
      else Inr c)"

datatype tracing_exporter = EXPORT_OTLP | EXPORT_CONSOLE

record tracing_settings =
  TRACING_ENABLED :: bool
  TRACING_EXPORTER :: tracing_exporter
  TRACING_SAMPLE_RATE :: rat
  TRACING_SERVICE_NAME :: "string option"
  TRACING_PROPAGATE_CORRELATION_IDS :: bool

definition tracing_defaults :: tracing_settings where
  "tracing_defaults = \<lparr> TRACING_ENABLED = False, TRACING_EXPORTER = EXPORT_OTLP, TRACING_SAMPLE_RATE = 1,
     TRACING_SERVICE_NAME = None, TRACING_PROPAGATE_CORRELATION_IDS = True \<rparr>"

definition is_rate :: "rat \<Rightarrow> bool" where
  "is_rate r \<longleftrightarrow> 0 \<le> r \<and> r \<le> 1"

definition validate_tracing_settings :: "tracing_settings \<Rightarrow> string + tracing_settings" where
  "validate_tracing_settings c = (case TRACING_SERVICE_NAME c of
       Some n \<Rightarrow> if py_strip n = [] then Inl ''TRACING_SERVICE_NAME must not be empty when provided'' else Inr c
     | None \<Rightarrow> Inr c)"

record sentry_settings =
  SENTRY_ENABLE :: bool
  SENTRY_DSN :: "string option"
  SENTRY_ENVIRONMENT :: string
  SENTRY_RELEASE :: "string option"
  SENTRY_DEBUG :: bool
  SENTRY_ATTACH_STACKTRACE :: bool
  SENTRY_SEND_DEFAULT_PII :: bool
  SENTRY_MAX_BREADCRUMBS :: int
  SENTRY_TRACES_SAMPLE_RATE :: rat
  SENTRY_PROFILES_SAMPLE_RATE :: rat
  SENTRY_FLUSH_TIMEOUT_SECONDS :: int
  SENTRY_RELEASE_PREFIX :: string
  SENTRY_SERVER_NAME :: "string option"
  SENTRY_ERROR_SAMPLE_RATE :: rat
  SENTRY_IGNORED_EXCEPTIONS :: "string list"
  SENTRY_IGNORED_LOGGERS :: "string list"
  SENTRY_SCRUB_FIELDS :: "string list"
  SENTRY_SCRUB_REPLACEMENT :: string
  SENTRY_HEALTH_ENDPOINT_SAMPLE_RATE :: rat
  SENTRY_WEBHOOK_SAMPLE_RATE :: "rat option"
  SENTRY_WORKER_SAMPLE_RATE :: "rat option"

definition sentry_defaults :: sentry_settings where
  "sentry_defaults = \<lparr> SENTRY_ENABLE = False, SENTRY_DSN = None, SENTRY_ENVIRONMENT = ''local'', SENTRY_RELEASE = None,
     SENTRY_DEBUG = False, SENTRY_ATTACH_STACKTRACE = True, SENTRY_SEND_DEFAULT_PII = False, SENTRY_MAX_BREADCRUMBS = 100,
     SENTRY_TRACES_SAMPLE_RATE = 1, SENTRY_PROFILES_SAMPLE_RATE = 1, SENTRY_FLUSH_TIMEOUT_SECONDS = 2,
     SENTRY_RELEASE_PREFIX = [], SENTRY_SERVER_NAME = None, SENTRY_ERROR_SAMPLE_RATE = 1, SENTRY_IGNORED_EXCEPTIONS = [],
     SENTRY_IGNORED_LOGGERS = [],
     SENTRY_SCRUB_FIELDS = [''password'', ''secret'', ''token'', ''authorization'', ''cookie'', ''session'', ''api_key'', ''dsn'',
       ''private_key'', ''credit_card'', ''ssn''],
     SENTRY_SCRUB_REPLACEMENT = ''[Filtered]'', SENTRY_HEALTH_ENDPOINT_SAMPLE_RATE = 0, SENTRY_WEBHOOK_SAMPLE_RATE = None,
     SENTRY_WORKER_SAMPLE_RATE = None \<rparr>"

definition sentry_fields_ok :: "sentry_settings \<Rightarrow> bool" where
  "sentry_fields_ok c \<longleftrightarrow>
     0 \<le> SENTRY_MAX_BREADCRUMBS c \<and> is_rate (SENTRY_TRACES_SAMPLE_RATE c) \<and> is_rate (SENTRY_PROFILES_SAMPLE_RATE c)
     \<and> 0 \<le> SENTRY_FLUSH_TIMEOUT_SECONDS c \<and> is_rate (SENTRY_ERROR_SAMPLE_RATE c)
     \<and> is_rate (SENTRY_HEALTH_ENDPOINT_SAMPLE_RATE c)"

definition validate_sentry_settings :: "sentry_settings \<Rightarrow> string + sentry_settings" where
  "validate_sentry_settings c =
     (if SENTRY_ENABLE c \<and> SENTRY_DSN c = None then Inl ''SENTRY_DSN must be set when SENTRY_ENABLE is true'' else Inr c)"

section \<open>HTTP surface\<close>

record cors_settings =
  CORS_ORIGINS :: "string list"
  CORS_ALLOW_CREDENTIALS :: bool
  CORS_METHODS :: "string list"
  CORS_HEADERS :: "string list"
  CORS_EXPOSE_HEADERS :: "string list"
  CORS_MAX_AGE :: int

definition cors_defaults :: cors_settings where
  "cors_defaults = \<lparr> CORS_ORIGINS = [], CORS_ALLOW_CREDENTIALS = True,
     CORS_METHODS = [''GET'', ''POST'', ''PUT'', ''PATCH'', ''DELETE'', ''OPTIONS''],
     CORS_HEADERS = [''Accept'', ''Authorization'', ''Content-Type'', ''X-Requested-With'', ''X-Request-ID'', ''X-Correlation-ID''],
     CORS_EXPOSE_HEADERS = [''X-Request-ID'', ''X-Correlation-ID''], CORS_MAX_AGE = 600 \<rparr>"

definition no_wildcard :: "bool \<Rightarrow> string \<Rightarrow> string list \<Rightarrow> string + unit" where
  "no_wildcard credentials setting_name values =
     require (\<not> (credentials \<and> ''*'' \<in> set values))
       (setting_name @ '' cannot contain '' @ py_quote ''*'' @ '' when CORS_ALLOW_CREDENTIALS is true'')"

definition validate_cors_settings :: "cors_settings \<Rightarrow> string + cors_settings" where
  "validate_cors_settings c =
     bind_sum (normalize_string_list ''CORS_ORIGINS'' (CORS_ORIGINS c)) (\<lambda>origins.
     bind_sum (normalize_string_list ''CORS_METHODS'' (CORS_METHODS c)) (\<lambda>methods.
     bind_sum (normalize_string_list ''CORS_HEADERS'' (CORS_HEADERS c)) (\<lambda>headers.
     bind_sum (normalize_string_list ''CORS_EXPOSE_HEADERS'' (CORS_EXPOSE_HEADERS c)) (\<lambda>expose.
     bind_sum (no_wildcard (CORS_ALLOW_CREDENTIALS c) ''CORS_ORIGINS'' origins) (\<lambda>_.
     bind_sum (no_wildcard (CORS_ALLOW_CREDENTIALS c) ''CORS_METHODS'' methods) (\<lambda>_.
     bind_sum (no_wildcard (CORS_ALLOW_CREDENTIALS c) ''CORS_HEADERS'' headers) (\<lambda>_.
       Inr (c\<lparr> CORS_ORIGINS := origins, CORS_METHODS := methods, CORS_HEADERS := headers, CORS_EXPOSE_HEADERS := expose \<rparr>))))))))"

text \<open>The members of the header enumerations are their values; \<open>security_headers_fields_ok\<close> is
  the conversion of the texts.\<close>

definition FrameOptions :: "string list" where
  "FrameOptions = [''DENY'', ''SAMEORIGIN'']"

definition ReferrerPolicy :: "string list" where
  "ReferrerPolicy = [''no-referrer'', ''no-referrer-when-downgrade'', ''origin'', ''origin-when-cross-origin'', ''same-origin'',
     ''strict-origin'', ''strict-origin-when-cross-origin'', ''unsafe-url'']"

definition CrossOriginOpenerPolicy :: "string list" where
  "CrossOriginOpenerPolicy = [''unsafe-none'', ''same-origin'', ''same-origin-allow-popups'']"

definition CrossOriginResourcePolicy :: "string list" where
  "CrossOriginResourcePolicy = [''same-origin'', ''same-site'', ''cross-origin'']"

definition CookieSameSite :: "string list" where
  "CookieSameSite = [''lax'', ''strict'', ''none'']"

record security_headers_settings =
  SECURITY_HEADERS_ENABLED :: bool
  SECURITY_HEADERS_FRAME_OPTIONS :: "string option"
  SECURITY_HEADERS_CONTENT_TYPE_OPTIONS :: bool
  SECURITY_HEADERS_REFERRER_POLICY :: "string option"
  SECURITY_HEADERS_CONTENT_SECURITY_POLICY :: "string option"
  SECURITY_HEADERS_PERMISSIONS_POLICY :: "string option"
  SECURITY_HEADERS_CROSS_ORIGIN_OPENER_POLICY :: "string option"
  SECURITY_HEADERS_CROSS_ORIGIN_RESOURCE_POLICY :: "string option"
  SECURITY_HEADERS_HSTS_ENABLED :: bool
  SECURITY_HEADERS_HSTS_MAX_AGE_SECONDS :: int
  SECURITY_HEADERS_HSTS_INCLUDE_SUBDOMAINS :: bool
  SECURITY_HEADERS_HSTS_PRELOAD :: bool

definition security_headers_defaults :: security_headers_settings where
  "security_headers_defaults = \<lparr> SECURITY_HEADERS_ENABLED = True, SECURITY_HEADERS_FRAME_OPTIONS = Some ''DENY'',
     SECURITY_HEADERS_CONTENT_TYPE_OPTIONS = True, SECURITY_HEADERS_REFERRER_POLICY = Some ''strict-origin-when-cross-origin'',
     SECURITY_HEADERS_CONTENT_SECURITY_POLICY = None, SECURITY_HEADERS_PERMISSIONS_POLICY = None,
     SECURITY_HEADERS_CROSS_ORIGIN_OPENER_POLICY = Some ''same-origin'',
     SECURITY_HEADERS_CROSS_ORIGIN_RESOURCE_POLICY = Some ''same-origin'', SECURITY_HEADERS_HSTS_ENABLED = False,
     SECURITY_HEADERS_HSTS_MAX_AGE_SECONDS = 31536000, SECURITY_HEADERS_HSTS_INCLUDE_SUBDOMAINS = True,
     SECURITY_HEADERS_HSTS_PRELOAD = False \<rparr>"

definition opt_member :: "string list \<Rightarrow> string option \<Rightarrow> bool" where
  "opt_member members v = (case v of None \<Rightarrow> True | Some s \<Rightarrow> s \<in> set members)"

definition security_headers_fields_ok :: "security_headers_settings \<Rightarrow> bool" where
  "security_headers_fields_ok c \<longleftrightarrow>
     0 \<le> SECURITY_HEADERS_HSTS_MAX_AGE_SECONDS c
     \<and> opt_member FrameOptions (SECURITY_HEADERS_FRAME_OPTIONS c)
     \<and> opt_member ReferrerPolicy (SECURITY_HEADERS_REFERRER_POLICY c)
     \<and> opt_member CrossOriginOpenerPolicy (SECURITY_HEADERS_CROSS_ORIGIN_OPENER_POLICY c)
     \<and> opt_member CrossOriginResourcePolicy (SECURITY_HEADERS_CROSS_ORIGIN_RESOURCE_POLICY c)"

definition validate_security_headers_settings :: "security_headers_settings \<Rightarrow> string + security_headers_settings" where
  "validate_security_headers_settings c =
     bind_sum (opt_non_blank ''SECURITY_HEADERS_CONTENT_SECURITY_POLICY must not be empty when provided''
         (SECURITY_HEADERS_CONTENT_SECURITY_POLICY c)) (\<lambda>csp.
     bind_sum (opt_non_blank ''SECURITY_HEADERS_PERMISSIONS_POLICY must not be empty when provided''
         (SECURITY_HEADERS_PERMISSIONS_POLICY c)) (\<lambda>permissions.
     bind_sum (require (\<not> (SECURITY_HEADERS_HSTS_PRELOAD c \<and> \<not> SECURITY_HEADERS_HSTS_ENABLED c))
         ''SECURITY_HEADERS_HSTS_ENABLED must be true when SECURITY_HEADERS_HSTS_PRELOAD is enabled'') (\<lambda>_.
     bind_sum (require (\<not> (SECURITY_HEADERS_HSTS_PRELOAD c \<and> \<not> SECURITY_HEADERS_HSTS_INCLUDE_SUBDOMAINS c))
         ''SECURITY_HEADERS_HSTS_INCLUDE_SUBDOMAINS must be true when SECURITY_HEADERS_HSTS_PRELOAD is enabled'') (\<lambda>_.
       Inr (c\<lparr> SECURITY_HEADERS_CONTENT_SECURITY_POLICY := csp, SECURITY_HEADERS_PERMISSIONS_POLICY := permissions \<rparr>)))))"

definition cookie_defaults :: cookie_settings where
  "cookie_defaults = \<lparr> REFRESH_TOKEN_COOKIE_NAME = ''refresh_token'', REFRESH_TOKEN_COOKIE_PATH = ''/'',
     REFRESH_TOKEN_COOKIE_DOMAIN = None, REFRESH_TOKEN_COOKIE_SECURE = True, REFRESH_TOKEN_COOKIE_HTTPONLY = True,
     REFRESH_TOKEN_COOKIE_SAMESITE = ''lax'' \<rparr>"

definition validate_refresh_token_cookie_settings :: "cookie_settings \<Rightarrow> string + cookie_settings" where
  "validate_refresh_token_cookie_settings c =
     bind_sum (non_blank ''REFRESH_TOKEN_COOKIE_NAME must not be empty'' (REFRESH_TOKEN_COOKIE_NAME c)) (\<lambda>name.
     bind_sum (non_blank ''REFRESH_TOKEN_COOKIE_PATH must not be empty'' (REFRESH_TOKEN_COOKIE_PATH c)) (\<lambda>path.
     bind_sum (require (starts_with ''/'' path) (''REFRESH_TOKEN_COOKIE_PATH must start with '' @ py_quote ''/'')) (\<lambda>_.
     bind_sum (opt_non_blank ''REFRESH_TOKEN_COOKIE_DOMAIN must not be empty when provided'' (REFRESH_TOKEN_COOKIE_DOMAIN c)) (\<lambda>domain.
     bind_sum (require (\<not> (REFRESH_TOKEN_COOKIE_SAMESITE c = ''none'' \<and> \<not> REFRESH_TOKEN_COOKIE_SECURE c))
         (''REFRESH_TOKEN_COOKIE_SECURE must be true when REFRESH_TOKEN_COOKIE_SAMESITE is '' @ py_quote ''none'')) (\<lambda>_.
       Inr (c\<lparr> REFRESH_TOKEN_COOKIE_NAME := name, REFRESH_TOKEN_COOKIE_PATH := path, REFRESH_TOKEN_COOKIE_DOMAIN := domain \<rparr>))))))"

record trusted_host_settings =
  TRUSTED_HOSTS :: "string list"
  TRUSTED_HOSTS_WWW_REDIRECT :: bool

definition trusted_host_defaults :: trusted_host_settings where
  "trusted_host_defaults = \<lparr> TRUSTED_HOSTS = [], TRUSTED_HOSTS_WWW_REDIRECT = True \<rparr>"

definition validate_trusted_host_settings :: "trusted_host_settings \<Rightarrow> string + trusted_host_settings" where
  "validate_trusted_host_settings c =
     bind_sum (normalize_string_list ''TRUSTED_HOSTS'' (TRUSTED_HOSTS c)) (\<lambda>hosts.
     bind_sum (validate_allowed_host_patterns ''TRUSTED_HOSTS'' hosts) (\<lambda>_.
       Inr (c\<lparr> TRUSTED_HOSTS := hosts \<rparr>)))"

record proxy_headers_settings =
  PROXY_HEADERS_ENABLED :: bool
  PROXY_HEADERS_TRUSTED_PROXIES :: "string list"

definition proxy_headers_defaults :: proxy_headers_settings where
  "proxy_headers_defaults = \<lparr> PROXY_HEADERS_ENABLED = False, PROXY_HEADERS_TRUSTED_PROXIES = [] \<rparr>"

definition validate_proxy_headers_settings :: "proxy_headers_settings \<Rightarrow> string + proxy_headers_settings" where
  "validate_proxy_headers_settings c =
     bind_sum (normalize_string_list ''PROXY_HEADERS_TRUSTED_PROXIES'' (PROXY_HEADERS_TRUSTED_PROXIES c)) (\<lambda>proxies.
     bind_sum (require (\<not> (PROXY_HEADERS_ENABLED c \<and> proxies = []))
         ''PROXY_HEADERS_TRUSTED_PROXIES must not be empty when PROXY_HEADERS_ENABLED is true'') (\<lambda>_.
       Inr (c\<lparr> PROXY_HEADERS_TRUSTED_PROXIES := proxies \<rparr>)))"

record body_limit_settings =
  REQUEST_BODY_LIMIT_ENABLED :: bool
  REQUEST_BODY_MAX_BYTES :: int
  REQUEST_BODY_LIMIT_EXEMPT_PATH_PREFIXES :: "string list"

definition body_limit_defaults :: body_limit_settings where
  "body_limit_defaults = \<lparr> REQUEST_BODY_LIMIT_ENABLED = True, REQUEST_BODY_MAX_BYTES = 1048576,
     REQUEST_BODY_LIMIT_EXEMPT_PATH_PREFIXES = [] \<rparr>"

definition validate_request_body_limit_settings :: "body_limit_settings \<Rightarrow> string + body_limit_settings" where
  "validate_request_body_limit_settings c =
     bind_sum (normalize_string_list ''REQUEST_BODY_LIMIT_EXEMPT_PATH_PREFIXES'' (REQUEST_BODY_LIMIT_EXEMPT_PATH_PREFIXES c)) (\<lambda>prefixes.
     bind_sum (validate_path_prefixes ''REQUEST_BODY_LIMIT_EXEMPT_PATH_PREFIXES'' prefixes) (\<lambda>_.
       Inr (c\<lparr> REQUEST_BODY_LIMIT_EXEMPT_PATH_PREFIXES := prefixes \<rparr>)))"

record timeout_settings =
  REQUEST_TIMEOUT_ENABLED :: bool
  REQUEST_TIMEOUT_SECONDS :: rat
  REQUEST_TIMEOUT_EXEMPT_PATH_PREFIXES :: "string list"

definition timeout_defaults :: timeout_settings where
  "timeout_defaults = \<lparr> REQUEST_TIMEOUT_ENABLED = False, REQUEST_TIMEOUT_SECONDS = 30, REQUEST_TIMEOUT_EXEMPT_PATH_PREFIXES = [] \<rparr>"

definition validate_request_timeout_settings :: "timeout_settings \<Rightarrow> string + timeout_settings" where
  "validate_request_timeout_settings c =
     bind_sum (normalize_string_list ''REQUEST_TIMEOUT_EXEMPT_PATH_PREFIXES'' (REQUEST_TIMEOUT_EXEMPT_PATH_PREFIXES c)) (\<lambda>prefixes.
     bind_sum (validate_path_prefixes ''REQUEST_TIMEOUT_EXEMPT_PATH_PREFIXES'' prefixes) (\<lambda>_.
       Inr (c\<lparr> REQUEST_TIMEOUT_EXEMPT_PATH_PREFIXES := prefixes \<rparr>)))"

record log_redaction_settings =
  LOG_REDACTION_ENABLED :: bool
  LOG_REDACTION_EXACT_FIELDS :: "string list"
  LOG_REDACTION_SUBSTRING_FIELDS :: "string list"
  LOG_REDACTION_REPLACEMENT :: string

definition log_redaction_defaults :: log_redaction_settings where
  "log_redaction_defaults = \<lparr> LOG_REDACTION_ENABLED = True,
     LOG_REDACTION_EXACT_FIELDS = [''authorization'', ''cookie'', ''set-cookie'', ''x-api-key'', ''api_key'', ''apikey'', ''password'',
       ''refresh_token'', ''access_token'', ''client_secret'', ''email'', ''phone'', ''ssn''],
     LOG_REDACTION_SUBSTRING_FIELDS = [''token'', ''secret'', ''password'', ''passwd'', ''authorization'', ''cookie'', ''api_key'',
       ''apikey'', ''session'', ''email'', ''phone'', ''ssn''],
     LOG_REDACTION_REPLACEMENT = ''[REDACTED]'' \<rparr>"

definition validate_log_redaction_settings :: "log_redaction_settings \<Rightarrow> string + log_redaction_settings" where
  "validate_log_redaction_settings c =
     bind_sum (normalize_string_list ''LOG_REDACTION_EXACT_FIELDS'' (LOG_REDACTION_EXACT_FIELDS c)) (\<lambda>exact.
     bind_sum (normalize_string_list ''LOG_REDACTION_SUBSTRING_FIELDS'' (LOG_REDACTION_SUBSTRING_FIELDS c)) (\<lambda>substrings.
     bind_sum (non_blank ''LOG_REDACTION_REPLACEMENT must not be empty'' (LOG_REDACTION_REPLACEMENT c)) (\<lambda>replacement.
       Inr (c\<lparr> LOG_REDACTION_EXACT_FIELDS := map casefold exact, LOG_REDACTION_SUBSTRING_FIELDS := map casefold substrings,
               LOG_REDACTION_REPLACEMENT := replacement \<rparr>))))"

end
