(* ===== verification/Settings_Profiles.thy ===== *)
theory Settings_Profiles
  imports Settings_Sections
begin

text \<open>
  core/config.py, third part: \<open>Settings\<close>, its profiles and \<open>load_settings\<close>.

  The settings are a record of their sections.  Reading the environment, the env file and the
  overrides, and converting what they hold to the types of the fields, is pydantic's: \<open>source\<close>
  takes the defaults of a class and returns them with every field replaced that one of the
  sources defines.  Then the constraints of all fields are checked, then the validators of
  the sections in the reverse order of the bases, then the ones of \<open>Settings\<close> and of the profile.
\<close>

section \<open>All settings\<close>

datatype environment_option = ENV_LOCAL | ENV_STAGING | ENV_PRODUCTION

fun environment_value :: "environment_option \<Rightarrow> string" where
  "environment_value ENV_LOCAL = ''local''"
| "environment_value ENV_STAGING = ''staging''"
| "environment_value ENV_PRODUCTION = ''production''"

record settings =
  s_app :: app_settings
  s_sqlite :: sqlite_settings
  s_postgres :: postgres_settings
  s_crypt :: crypt_settings
  s_machine_auth :: machine_auth_settings
  s_first_user :: first_user_settings
  s_redis_cache :: redis_cache_settings
  s_client_cache :: client_cache_settings
  s_features :: feature_flags
  s_redis_queue :: redis_queue_settings
  s_worker :: worker_runtime_settings
  s_scheduler :: scheduler_runtime_settings
  s_http_client :: http_client_runtime_settings
  s_webhook :: webhook_runtime_settings
  s_redis_rate_limit :: redis_rate_limit_settings
  s_rate_limit :: rate_limit_settings
  s_crud_admin :: crud_admin_settings
  ENVIRONMENT :: environment_option
  s_metrics :: metrics_settings
  s_tracing :: tracing_settings
  s_sentry :: sentry_settings
  s_cors :: cors_settings
  s_security_headers :: security_headers_settings
  s_cookie :: cookie_settings
  s_trusted_host :: trusted_host_settings
  s_proxy_headers :: proxy_headers_settings
  s_body_limit :: body_limit_settings
  s_timeout :: timeout_settings
  s_log_redaction :: log_redaction_settings
  s_log_verbosity :: log_verbosity_settings
  s_file_logger :: file_logger_settings
  s_console_logger :: console_logger_settings

definition settings_defaults :: settings where
  "settings_defaults = \<lparr> s_app = app_defaults, s_sqlite = sqlite_defaults, s_postgres = postgres_defaults,
     s_crypt = crypt_defaults, s_machine_auth = machine_auth_defaults, s_first_user = first_user_defaults,
     s_redis_cache = redis_cache_defaults, s_client_cache = client_cache_defaults, s_features = feature_flags_defaults,
     s_redis_queue = redis_queue_defaults, s_worker = worker_runtime_defaults, s_scheduler = scheduler_runtime_defaults,
     s_http_client = http_client_defaults, s_webhook = webhook_runtime_defaults,
     s_redis_rate_limit = redis_rate_limit_defaults, s_rate_limit = rate_limit_defaults,
     s_crud_admin = crud_admin_defaults, ENVIRONMENT = ENV_LOCAL, s_metrics = metrics_defaults,
     s_tracing = tracing_defaults, s_sentry = sentry_defaults, s_cors = cors_defaults,
     s_security_headers = security_headers_defaults, s_cookie = cookie_defaults,
     s_trusted_host = trusted_host_defaults, s_proxy_headers = proxy_headers_defaults,
     s_body_limit = body_limit_defaults, s_timeout = timeout_defaults, s_log_redaction = log_redaction_defaults,
     s_log_verbosity = log_verbosity_defaults, s_file_logger = file_logger_defaults,
     s_console_logger = console_logger_defaults \<rparr>"

text \<open>The classes; each profile replaces defaults of its base.\<close>

datatype settings_class = Settings | LocalSettings | StagingSettings | ProductionSettings

fun class_name :: "settings_class \<Rightarrow> string" where
  "class_name Settings = ''Settings''"
| "class_name LocalSettings = ''LocalSettings''"
| "class_name StagingSettings = ''StagingSettings''"
| "class_name ProductionSettings = ''ProductionSettings''"

definition local_settings_defaults :: settings where
  "local_settings_defaults = settings_defaults\<lparr>
     ENVIRONMENT := ENV_LOCAL,
     s_sentry := sentry_defaults\<lparr> SENTRY_ENVIRONMENT := ''local'' \<rparr>,
     s_cors := cors_defaults\<lparr> CORS_ORIGINS := LOCAL_DEVELOPMENT_CORS_ORIGINS \<rparr>,
     s_cookie := cookie_defaults\<lparr> REFRESH_TOKEN_COOKIE_SECURE := False \<rparr>,
     s_crud_admin := crud_admin_defaults\<lparr> SESSION_SECURE_COOKIES := False \<rparr> \<rparr>"

definition staging_settings_defaults :: settings where
  "staging_settings_defaults = settings_defaults\<lparr>
     ENVIRONMENT := ENV_STAGING, s_sentry := sentry_defaults\<lparr> SENTRY_ENVIRONMENT := ''staging'' \<rparr> \<rparr>"

definition production_settings_defaults :: settings where
  "production_settings_defaults = settings_defaults\<lparr>
     ENVIRONMENT := ENV_PRODUCTION, s_sentry := sentry_defaults\<lparr> SENTRY_ENVIRONMENT := ''production'' \<rparr> \<rparr>"

fun class_defaults :: "settings_class \<Rightarrow> settings" where
  "class_defaults Settings = settings_defaults"
| "class_defaults LocalSettings = local_settings_defaults"
| "class_defaults StagingSettings = staging_settings_defaults"
| "class_defaults ProductionSettings = production_settings_defaults"

section \<open>Validation\<close>

definition fields_ok :: "settings \<Rightarrow> bool" where
  "fields_ok s \<longleftrightarrow>
     postgres_fields_ok (s_postgres s) \<and> crypt_fields_ok (s_crypt s) \<and> redis_cache_fields_ok (s_redis_cache s)
     \<and> redis_queue_fields_ok (s_redis_queue s) \<and> worker_runtime_fields_ok (s_worker s)
     \<and> scheduler_runtime_fields_ok (s_scheduler s) \<and> http_client_fields_ok (s_http_client s)
     \<and> webhook_runtime_fields_ok (s_webhook s) \<and> redis_rate_limit_fields_ok (s_redis_rate_limit s)
     \<and> rate_limit_fields_ok (s_rate_limit s) \<and> is_rate (TRACING_SAMPLE_RATE (s_tracing s))
     \<and> sentry_fields_ok (s_sentry s) \<and> 0 \<le> CORS_MAX_AGE (s_cors s)
     \<and> security_headers_fields_ok (s_security_headers s)
     \<and> REFRESH_TOKEN_COOKIE_SAMESITE (s_cookie s) \<in> set CookieSameSite
     \<and> 1 \<le> REQUEST_BODY_MAX_BYTES (s_body_limit s) \<and> 0 < REQUEST_TIMEOUT_SECONDS (s_timeout s)"

definition validate_fields :: "settings \<Rightarrow> string + settings" where
  "validate_fields s =
     (if \<not> fields_ok s then Inl ''field constraints''
      else map_sum id (\<lambda>m. s\<lparr> s_machine_auth := m \<rparr>) (validate_machine_auth_fields (s_machine_auth s)))"

definition validate_sections :: "'u url_lib \<Rightarrow> settings \<Rightarrow> string + settings" where
  "validate_sections lib s =
     bind_sum (validate_log_redaction_settings (s_log_redaction s)) (\<lambda>log_redaction.
     bind_sum (validate_request_timeout_settings (s_timeout s)) (\<lambda>timeout.
     bind_sum (validate_request_body_limit_settings (s_body_limit s)) (\<lambda>body_limit.
     bind_sum (validate_proxy_headers_settings (s_proxy_headers s)) (\<lambda>proxy_headers.
     bind_sum (validate_trusted_host_settings (s_trusted_host s)) (\<lambda>trusted_host.
     bind_sum (validate_refresh_token_cookie_settings (s_cookie s)) (\<lambda>cookie.
     bind_sum (validate_security_headers_settings (s_security_headers s)) (\<lambda>security_headers.
     bind_sum (validate_cors_settings (s_cors s)) (\<lambda>cors.
     bind_sum (validate_sentry_settings (s_sentry s)) (\<lambda>sentry.
     bind_sum (validate_tracing_settings (s_tracing s)) (\<lambda>tracing.
     bind_sum (validate_metrics_settings (s_metrics s)) (\<lambda>metrics.
     bind_sum (validate_redis_rate_limit_settings (s_redis_rate_limit s)) (\<lambda>redis_rate_limit.
     bind_sum (validate_webhook_runtime_settings (s_webhook s)) (\<lambda>webhook.
     bind_sum (validate_http_client_settings (s_http_client s)) (\<lambda>http_client.
     bind_sum (validate_worker_runtime_settings (s_worker s)) (\<lambda>worker.
     bind_sum (validate_redis_queue_settings (s_redis_queue s)) (\<lambda>redis_queue.
     bind_sum (validate_redis_cache_settings (s_redis_cache s)) (\<lambda>redis_cache.
     bind_sum (validate_machine_auth_settings (s_machine_auth s)) (\<lambda>machine_auth.
     bind_sum (validate_crypt_settings (s_crypt s)) (\<lambda>crypt.
     bind_sum (validate_postgres_runtime_settings lib (s_postgres s)) (\<lambda>postgres.
       Inr (s\<lparr> s_postgres := postgres, s_crypt := crypt, s_machine_auth := machine_auth, s_redis_cache := redis_cache,
               s_redis_queue := redis_queue, s_worker := worker, s_http_client := http_client, s_webhook := webhook,
               s_redis_rate_limit := redis_rate_limit, s_metrics := metrics, s_tracing := tracing, s_sentry := sentry,
               s_cors := cors, s_security_headers := security_headers, s_cookie := cookie,
               s_trusted_host := trusted_host, s_proxy_headers := proxy_headers, s_body_limit := body_limit,
               s_timeout := timeout, s_log_redaction := log_redaction \<rparr>)))))))))))))))))))))"

definition validate_expected_environment :: "settings_class \<Rightarrow> environment_option \<Rightarrow> settings \<Rightarrow> string + unit" where
  "validate_expected_environment cls expected s =
     require (ENVIRONMENT s = expected) (class_name cls @ '' requires ENVIRONMENT='' @ environment_value expected)"

definition has_star :: "string list \<Rightarrow> bool" where
  "has_star values \<longleftrightarrow> ''*'' \<in> set (map py_strip values)"

definition weak_secret :: "string \<Rightarrow> bool" where
  "weak_secret k \<longleftrightarrow> length k < 32 \<or> normalize_setting_value k \<in> set PRODUCTION_UNSAFE_SECRET_VALUES"

definition weak_password :: "string \<Rightarrow> bool" where
  "weak_password p \<longleftrightarrow> normalize_setting_value p \<in> set PRODUCTION_UNSAFE_PASSWORD_VALUES"

definition weak_database_password :: "string option \<Rightarrow> bool" where
  "weak_database_password p = (case p of None \<Rightarrow> True | Some q \<Rightarrow> q = [] \<or> weak_password q)"

text \<open>The errors that apply, in the order in which the code appends them.\<close>

definition collect_secure_environment_errors :: "'u url_lib \<Rightarrow> settings \<Rightarrow> string + string list" where
  "collect_secure_environment_errors lib s =
     bind_sum (database_password lib (s_postgres s)) (\<lambda>password. Inr (map snd (filter fst
       [(weak_secret (SECRET_KEY (s_crypt s)),
           ''SECRET_KEY must be replaced with a unique secret that is at least 32 characters long''),
        (weak_database_password password, ''Database password must be replaced with a non-placeholder password''),
        (CRUD_ADMIN_ENABLED (s_crud_admin s) \<and> weak_password (ADMIN_PASSWORD (s_first_user s)),
           ''ADMIN_PASSWORD must be replaced with a non-placeholder password''),
        (has_star (CORS_ORIGINS (s_cors s)), ''CORS_ORIGINS cannot contain '' @ py_quote ''*'' @ '' outside local development''),
        (\<not> REFRESH_TOKEN_COOKIE_SECURE (s_cookie s), ''REFRESH_TOKEN_COOKIE_SECURE must be true outside local development''),
        (CRUD_ADMIN_ENABLED (s_crud_admin s) \<and> \<not> SESSION_SECURE_COOKIES (s_crud_admin s),
           ''SESSION_SECURE_COOKIES must be true when CRUD admin is enabled outside local development''),
        (has_star (TRUSTED_HOSTS (s_trusted_host s)), ''TRUSTED_HOSTS cannot contain '' @ py_quote ''*'' @ '' outside local development''),
        (PROXY_HEADERS_ENABLED (s_proxy_headers s) \<and> has_star (PROXY_HEADERS_TRUSTED_PROXIES (s_proxy_headers s)),
           ''PROXY_HEADERS_TRUSTED_PROXIES cannot contain '' @ py_quote ''*'' @ '' outside local development'')])))"

fun join_errors :: "string list \<Rightarrow> string" where
  "join_errors [] = []"
| "join_errors [e] = e"
| "join_errors (e # es) = e @ ''; '' @ join_errors es"

definition validate_secure_environment :: "'u url_lib \<Rightarrow> string \<Rightarrow> settings \<Rightarrow> string + unit" where
  "validate_secure_environment lib profile_name s =
     bind_sum (collect_secure_environment_errors lib s) (\<lambda>errors.
       require (errors = []) (''Unsafe '' @ profile_name @ '' configuration: '' @ join_errors errors))"

definition validate_generic_environment_safety :: "'u url_lib \<Rightarrow> settings_class \<Rightarrow> settings \<Rightarrow> string + unit" where
  "validate_generic_environment_safety lib cls s =
     (if cls \<noteq> Settings then Inr ()
      else if ENVIRONMENT s = ENV_STAGING \<or> ENVIRONMENT s = ENV_PRODUCTION
      then validate_secure_environment lib (environment_value (ENVIRONMENT s)) s
      else Inr ())"

definition validate_local_profile :: "settings \<Rightarrow> string + unit" where
  "validate_local_profile s = validate_expected_environment LocalSettings ENV_LOCAL s"

definition validate_staging_profile :: "'u url_lib \<Rightarrow> settings \<Rightarrow> string + unit" where
  "validate_staging_profile lib s =
     bind_sum (validate_expected_environment StagingSettings ENV_STAGING s) (\<lambda>_.
       validate_secure_environment lib ''staging'' s)"

definition validate_production_profile :: "'u url_lib \<Rightarrow> settings \<Rightarrow> string + unit" where
  "validate_production_profile lib s =
     bind_sum (validate_expected_environment ProductionSettings ENV_PRODUCTION s) (\<lambda>_.
       validate_secure_environment lib ''production'' s)"

definition validate_profile :: "'u url_lib \<Rightarrow> settings_class \<Rightarrow> settings \<Rightarrow> string + unit" where
  "validate_profile lib cls s =
     bind_sum (validate_generic_environment_safety lib cls s) (\<lambda>_.
       case cls of Settings \<Rightarrow> Inr () | LocalSettings \<Rightarrow> validate_local_profile s
       | StagingSettings \<Rightarrow> validate_staging_profile lib s | ProductionSettings \<Rightarrow> validate_production_profile lib s)"

definition construct :: "'u url_lib \<Rightarrow> (settings \<Rightarrow> string + settings) \<Rightarrow> settings_class \<Rightarrow> string + settings" where
  "construct lib source cls =
     bind_sum (source (class_defaults cls)) (\<lambda>raw.
     bind_sum (validate_fields raw) (\<lambda>typed.
     bind_sum (validate_sections lib typed) (\<lambda>s.
     bind_sum (validate_profile lib cls s) (\<lambda>_. Inr s))))"

section \<open>Loading\<close>

definition environment_of_value :: "string \<Rightarrow> string + environment_option" where
  "environment_of_value v =
     (if v = ''local'' then Inr ENV_LOCAL else if v = ''staging'' then Inr ENV_STAGING
      else if v = ''production'' then Inr ENV_PRODUCTION
      else Inl (py_quote v @ '' is not a valid EnvironmentOption''))"

fun profile_of :: "environment_option \<Rightarrow> settings_class" where
  "profile_of ENV_LOCAL = LocalSettings"
| "profile_of ENV_STAGING = StagingSettings"
| "profile_of ENV_PRODUCTION = ProductionSettings"

definition get_settings_class :: "environment_option + string \<Rightarrow> string + settings_class" where
  "get_settings_class environment = (case environment of
       Inl e \<Rightarrow> Inr (profile_of e)
     | Inr v \<Rightarrow> map_sum id profile_of (environment_of_value v))"

definition load_settings :: "'u url_lib \<Rightarrow> (settings \<Rightarrow> string + settings) \<Rightarrow> string + settings_class \<times> settings" where
  "load_settings lib source =
     bind_sum (construct lib source Settings) (\<lambda>bootstrap.
     bind_sum (get_settings_class (Inl (ENVIRONMENT bootstrap))) (\<lambda>cls.
     bind_sum (construct lib source cls) (\<lambda>s. Inr (cls, s))))"

end
