(* ===== verification/Settings_Theorems.thy ===== *)
theory Settings_Theorems
  imports Settings_Profiles Token_Theorems Authorization_Theorems
begin

text \<open>
  Properties of the settings: validated settings are a fixed point of validation, the
  settings that a process runs with outside local development are not placeholders, an API
  key identifies one principal, and the secrets that the checks do not look at.
\<close>

section \<open>Normal forms\<close>

lemma casefold_append: "casefold (a @ b) = casefold a @ casefold b"
  by (simp add: casefold_def)

lemma casefold_single_not_nil: "casefold [c] \<noteq> []"
  by (simp add: casefold_def)

lemma casefold_eq_Nil [simp]: "casefold s = [] \<longleftrightarrow> s = []"
  by (cases s) (auto simp: casefold_def)

lemma casefold_space: "\<forall>x \<in> set (casefold [c]). is_py_space x = is_py_space c"
proof (cases "(of_char c :: nat) = 223")
  case True
  then show ?thesis by (simp add: casefold_def is_py_space_def)
next
  case False
  then show ?thesis by (simp add: casefold_def)
qed

lemma strip_fixed_iff: "py_strip s = s \<longleftrightarrow> s = [] \<or> \<not> is_py_space (hd s) \<and> \<not> is_py_space (last s)"
proof
  assume "py_strip s = s" then show "s = [] \<or> \<not> is_py_space (hd s) \<and> \<not> is_py_space (last s)"
    using py_strip_ends[of s] by auto
next
  assume a: "s = [] \<or> \<not> is_py_space (hd s) \<and> \<not> is_py_space (last s)"
  show "py_strip s = s"
  proof (cases "s = []")
    case False
    then have "dropWhile is_py_space s = s" using a by (cases s) auto
    moreover have "dropWhile is_py_space (rev s) = rev s"
      using a False by (cases s rule: rev_cases) auto
    ultimately show ?thesis by (simp add: py_strip_def)
  qed (simp add: py_strip_def)
qed

lemma hd_casefold: "s \<noteq> [] \<Longrightarrow> is_py_space (hd (casefold s)) = is_py_space (hd s)"
proof -
  assume "s \<noteq> []"
  then obtain c t where s: "s = c # t" by (cases s) auto
  have "hd (casefold [c]) \<in> set (casefold [c])" using casefold_single_not_nil by (rule hd_in_set)
  then show ?thesis
    using casefold_space[of c] casefold_append[of "[c]" t] casefold_single_not_nil[of c] by (simp add: s)
qed

lemma last_casefold: "s \<noteq> [] \<Longrightarrow> is_py_space (last (casefold s)) = is_py_space (last s)"
proof -
  assume "s \<noteq> []"
  then obtain t c where s: "s = t @ [c]" by (cases s rule: rev_cases) auto
  have "last (casefold [c]) \<in> set (casefold [c])" using casefold_single_not_nil by (rule last_in_set)
  then show ?thesis
    using casefold_space[of c] casefold_append[of t "[c]"] casefold_single_not_nil[of c] by (simp add: s)
qed

lemma strip_casefold: "py_strip s = s \<Longrightarrow> py_strip (casefold s) = casefold s"
  by (cases "s = []") (simp_all add: strip_fixed_iff hd_casefold last_casefold)

lemma casefold_letter: "casefold (casefold [c]) = casefold [c]"
proof (cases "(of_char c :: nat) = 223")
  case True
  then show ?thesis by (simp add: casefold_def) (code_simp)
next
  case False
  then have "(of_char (lower_letter c) :: nat) \<noteq> 223" by (auto simp: of_char_lower_letter Let_def)
  then show ?thesis using False by (simp add: casefold_def)
qed

lemma casefold_idem [simp]: "casefold (casefold s) = casefold s"
proof (induction s)
  case (Cons c s)
  then show ?case using casefold_letter[of c] casefold_append[of "[c]" s] by (simp add: casefold_append)
qed (simp add: casefold_def)


section \<open>Every validator returns a fixed point\<close>

lemma normalize_string_list_fixed: "normalize_string_list n vs = Inr ws \<Longrightarrow>
    normalize_string_list m ws = Inr ws \<and> (\<forall>w \<in> set ws. w \<noteq> [] \<and> py_strip w = w)"
  by (induction vs arbitrary: ws) (auto simp: bind_sum_Inr_iff split: if_splits)

lemma normalize_string_list_id: "(\<forall>w \<in> set ws. w \<noteq> [] \<and> py_strip w = w) \<Longrightarrow> normalize_string_list m ws = Inr ws"
  by (induction ws) auto

lemma non_blank_fixed: "non_blank msg v = Inr w \<Longrightarrow> non_blank msg' w = Inr w \<and> w \<noteq> [] \<and> py_strip w = w"
  by (auto simp: non_blank_def split: if_splits)

lemma opt_non_blank_fixed: "opt_non_blank msg v = Inr w \<Longrightarrow> opt_non_blank msg' w = Inr w"
  by (auto simp: opt_non_blank_def non_blank_def split: option.splits if_splits)

lemma require_Inr [simp]: "require b msg = Inr u \<longleftrightarrow> b"
  by (simp add: require_def)

lemma require_True [simp]: "b \<Longrightarrow> require b msg = Inr ()"
  by (simp add: require_def)

lemma cors_fixed: "validate_cors_settings c = Inr d \<Longrightarrow> validate_cors_settings d = Inr d"
  unfolding validate_cors_settings_def bind_sum_Inr_iff no_wildcard_def
  by (auto simp: normalize_string_list_fixed)

lemma security_headers_fixed: "validate_security_headers_settings c = Inr d \<Longrightarrow> validate_security_headers_settings d = Inr d"
  unfolding validate_security_headers_settings_def bind_sum_Inr_iff
  by (auto simp: opt_non_blank_fixed)

lemma cookie_fixed: "validate_refresh_token_cookie_settings c = Inr d \<Longrightarrow> validate_refresh_token_cookie_settings d = Inr d"
  unfolding validate_refresh_token_cookie_settings_def bind_sum_Inr_iff
  by (auto simp: opt_non_blank_fixed non_blank_fixed)

lemma trusted_host_fixed: "validate_trusted_host_settings c = Inr d \<Longrightarrow> validate_trusted_host_settings d = Inr d"
  unfolding validate_trusted_host_settings_def bind_sum_Inr_iff
  by (auto simp: normalize_string_list_fixed)

lemma proxy_headers_fixed: "validate_proxy_headers_settings c = Inr d \<Longrightarrow> validate_proxy_headers_settings d = Inr d"
  unfolding validate_proxy_headers_settings_def bind_sum_Inr_iff
  by (auto simp: normalize_string_list_fixed)

lemma body_limit_fixed: "validate_request_body_limit_settings c = Inr d \<Longrightarrow> validate_request_body_limit_settings d = Inr d"
  unfolding validate_request_body_limit_settings_def bind_sum_Inr_iff
  by (auto simp: normalize_string_list_fixed)

lemma timeout_fixed: "validate_request_timeout_settings c = Inr d \<Longrightarrow> validate_request_timeout_settings d = Inr d"
  unfolding validate_request_timeout_settings_def bind_sum_Inr_iff
  by (auto simp: normalize_string_list_fixed)

lemma casefold_list_fixed:
  assumes "normalize_string_list n vs = Inr ws"
  shows "normalize_string_list m (map casefold ws) = Inr (map casefold ws)"
  using normalize_string_list_fixed[OF assms, of m]
  by (intro normalize_string_list_id) (auto simp: strip_casefold)

lemma log_redaction_fixed: "validate_log_redaction_settings c = Inr d \<Longrightarrow> validate_log_redaction_settings d = Inr d"
  unfolding validate_log_redaction_settings_def bind_sum_Inr_iff
  by (auto simp: casefold_list_fixed non_blank_fixed comp_def)

lemma sentry_fixed: "validate_sentry_settings c = Inr d \<Longrightarrow> validate_sentry_settings d = Inr d"
  by (auto simp: validate_sentry_settings_def split: if_splits)

lemma tracing_fixed: "validate_tracing_settings c = Inr d \<Longrightarrow> validate_tracing_settings d = Inr d"
  by (auto simp: validate_tracing_settings_def split: if_splits option.splits)

lemma metrics_fixed: "validate_metrics_settings c = Inr d \<Longrightarrow> validate_metrics_settings d = Inr d"
  by (auto simp: validate_metrics_settings_def split: if_splits)

lemma webhook_fixed: "validate_webhook_runtime_settings c = Inr d \<Longrightarrow> validate_webhook_runtime_settings d = Inr d"
  by (auto simp: validate_webhook_runtime_settings_def split: if_splits)

lemma http_client_fixed: "validate_http_client_settings c = Inr d \<Longrightarrow> validate_http_client_settings d = Inr d"
  by (auto simp: validate_http_client_settings_def split: if_splits)

lemma worker_fixed: "validate_worker_runtime_settings c = Inr d \<Longrightarrow> validate_worker_runtime_settings d = Inr d"
  by (auto simp: validate_worker_runtime_settings_def split: if_splits)

lemma redis_fixed:
  "validate_redis_cache_settings c = Inr d \<Longrightarrow> validate_redis_cache_settings d = Inr d"
  "validate_redis_queue_settings q = Inr q' \<Longrightarrow> validate_redis_queue_settings q' = Inr q'"
  "validate_redis_rate_limit_settings r = Inr r' \<Longrightarrow> validate_redis_rate_limit_settings r' = Inr r'"
  by (auto simp: validate_redis_cache_settings_def validate_redis_queue_settings_def
      validate_redis_rate_limit_settings_def bind_sum_Inr_iff)

lemma postgres_fixed: "validate_postgres_runtime_settings lib c = Inr d \<Longrightarrow> validate_postgres_runtime_settings lib d = Inr d"
  unfolding validate_postgres_runtime_settings_def bind_sum_Inr_iff by (auto split: if_splits)


section \<open>Keys and principals\<close>

lemma update_fresh: "k \<notin> fst ` set al \<Longrightarrow> AList.update k v al = al @ [(k, v)]"
  by (induction al) auto

definition good_keys :: "string \<Rightarrow> (string \<times> string) list \<Rightarrow> bool" where
  "good_keys active ks \<longleftrightarrow> distinct (map fst ks) \<and>
     (\<forall>(k, v) \<in> set ks. k \<noteq> [] \<and> py_strip k = k \<and> k \<noteq> active \<and> v \<noteq> [] \<and> py_strip v = v)"

lemma update_set_subset: "set (AList.update k v al) \<subseteq> insert (k, v) (set al)"
  by (induction al) auto

lemma verification_keys_good: "normalize_verification_keys active raw acc = Inr ks \<Longrightarrow> good_keys active acc \<Longrightarrow> good_keys active ks"
proof (induction active raw acc rule: normalize_verification_keys.induct)
  case (2 active key_id secret rest acc)
  have "good_keys active (AList.update (py_strip key_id) (py_strip secret) acc)"
    if "py_strip key_id \<noteq> []" "py_strip key_id \<noteq> active" "py_strip secret \<noteq> []"
    using that 2(3) update_set_subset[of "py_strip key_id" "py_strip secret" acc]
    by (auto simp: good_keys_def distinct_update)
  then show ?case using 2(1,2) by (auto simp: Let_def split: if_splits)
qed simp

lemma good_keys_fixed: "good_keys active (acc @ ks) \<Longrightarrow> normalize_verification_keys active ks acc = Inr (acc @ ks)"
proof (induction ks arbitrary: acc)
  case (Cons kv ks)
  obtain k v where kv: "kv = (k, v)" by (cases kv)
  have k: "k \<noteq> []" "py_strip k = k" "k \<noteq> active" "v \<noteq> []" "py_strip v = v" "k \<notin> fst ` set acc"
    using Cons.prems by (auto simp: good_keys_def kv)
  have "good_keys active ((acc @ [(k, v)]) @ ks)" using Cons.prems by (simp add: kv)
  from Cons.IH[OF this] k show ?case by (simp add: kv Let_def update_fresh)
qed simp

lemma crypt_fixed:
  assumes "validate_crypt_settings c = Inr d"
  shows "validate_crypt_settings d = Inr d" "good_keys (JWT_ACTIVE_KEY_ID d) (JWT_VERIFICATION_KEYS d)"
proof -
  from assms show "good_keys (JWT_ACTIVE_KEY_ID d) (JWT_VERIFICATION_KEYS d)"
    unfolding validate_crypt_settings_def bind_sum_Inr_iff
    by (auto simp: good_keys_def[of _ "[]"] dest!: verification_keys_good)
  then have "normalize_verification_keys (JWT_ACTIVE_KEY_ID d) (JWT_VERIFICATION_KEYS d) [] = Inr (JWT_VERIFICATION_KEYS d)"
    using good_keys_fixed[of _ "[]"] by simp
  then show "validate_crypt_settings d = Inr d"
    using assms unfolding validate_crypt_settings_def bind_sum_Inr_iff
    by (auto simp: non_blank_fixed opt_non_blank_fixed)
qed

lemma crypt_other_keys:
  assumes "validate_crypt_settings c = Inr d" "good_keys (JWT_ACTIVE_KEY_ID d) keys"
  shows "validate_crypt_settings (d\<lparr> JWT_VERIFICATION_KEYS := keys \<rparr>) = Inr (d\<lparr> JWT_VERIFICATION_KEYS := keys \<rparr>)"
proof -
  have "normalize_verification_keys (JWT_ACTIVE_KEY_ID d) keys [] = Inr keys"
    using good_keys_fixed[of _ "[]" keys] assms(2) by simp
  then show ?thesis
    using assms(1) unfolding validate_crypt_settings_def bind_sum_Inr_iff
    by (auto simp: non_blank_fixed opt_non_blank_fixed)
qed

abbreviation principal_keys :: "(string \<times> api_key_principal_settings) list \<Rightarrow> string list" where
  "principal_keys ps \<equiv> map (ak_key \<circ> snd) ps"

definition good_principals :: "(string \<times> api_key_principal_settings) list \<Rightarrow> bool" where
  "good_principals ps \<longleftrightarrow> distinct (map fst ps) \<and> distinct (principal_keys ps) \<and> (\<forall>n \<in> set (map fst ps). n \<noteq> [] \<and> py_strip n = n)"

lemma distinct_keys_update:
  "distinct (principal_keys ps) \<Longrightarrow> ak_key p \<notin> set (principal_keys ps) \<Longrightarrow> distinct (principal_keys (AList.update n p ps))"
proof (induction ps)
  case (Cons q ps)
  have "set (principal_keys (AList.update n p ps)) \<subseteq> insert (ak_key p) (set (principal_keys ps))"
    using update_set_subset[of n p ps] by auto
  then show ?case using Cons by (cases q) auto
qed simp

lemma principals_good:
  assumes "normalize_principals raw seen acc = Inr ps" "good_principals acc" "set (principal_keys acc) \<subseteq> set seen"
  shows "good_principals ps \<and> snd ` set ps \<subseteq> snd ` set raw \<union> snd ` set acc"
  using assms
proof (induction raw seen acc rule: normalize_principals.induct)
  case (2 name p rest seen acc)
  let ?acc = "AList.update (py_strip name) p acc"
  have ok: "py_strip name \<noteq> []" "ak_key p \<notin> set seen" and run: "normalize_principals rest (ak_key p # seen) ?acc = Inr ps"
    using 2(2) by (auto split: if_splits)
  have sub: "set ?acc \<subseteq> insert (py_strip name, p) (set acc)" by (rule update_set_subset)
  have "good_principals ?acc"
    using 2(3,4) ok sub distinct_keys_update[of acc p "py_strip name"] by (auto simp: good_principals_def distinct_update)
  moreover have "set (principal_keys ?acc) \<subseteq> set (ak_key p # seen)"
    using image_mono[OF sub, of "ak_key \<circ> snd"] 2(4) by auto
  ultimately have "good_principals ps \<and> snd ` set ps \<subseteq> snd ` set rest \<union> snd ` set ?acc" using 2(1) ok run by blast
  moreover have "snd ` set ?acc \<subseteq> insert p (snd ` set acc)" using image_mono[OF sub, of snd] by simp
  ultimately show ?case by (simp add: subset_iff) blast
qed simp

lemma good_principals_fixed: "good_principals (acc @ ps) \<Longrightarrow> set seen = set (principal_keys acc) \<Longrightarrow>
    normalize_principals ps seen acc = Inr (acc @ ps)"
proof (induction ps arbitrary: acc seen)
  case (Cons q ps)
  obtain n p where q: "q = (n, p)" by (cases q)
  have n: "n \<noteq> []" "py_strip n = n" "n \<notin> fst ` set acc" "ak_key p \<notin> set seen"
    using Cons.prems by (auto simp: good_principals_def q)
  have "good_principals ((acc @ [(n, p)]) @ ps)" "set (ak_key p # seen) = set (principal_keys (acc @ [(n, p)]))"
    using Cons.prems by (auto simp: q)
  from Cons.IH[OF this] n show ?case by (simp add: q update_fresh)
qed simp

lemma principal_fixed: "validate_api_key_principal_settings p = Inr q \<Longrightarrow> validate_api_key_principal_settings q = Inr q"
  unfolding validate_api_key_principal_settings_def bind_sum_Inr_iff
  by (auto simp: normalize_string_list_fixed opt_non_blank_fixed non_blank_fixed)

lemma principals_fixed: "validate_principals ps = Inr qs \<Longrightarrow> \<forall>q \<in> snd ` set qs. validate_api_key_principal_settings q = Inr q"
proof (induction ps arbitrary: qs rule: validate_principals.induct)
  case (2 name p rest)
  then obtain p' ps where "qs = (name, p') # ps" "validate_api_key_principal_settings p = Inr p'" "validate_principals rest = Inr ps"
    by (auto simp: bind_sum_Inr_iff)
  with 2 principal_fixed show ?case by simp
qed simp

lemma principals_id: "\<forall>q \<in> snd ` set qs. validate_api_key_principal_settings q = Inr q \<Longrightarrow> validate_principals qs = Inr qs"
  by (induction qs) auto

lemma machine_auth_good: "validate_machine_auth_settings m = Inr d \<Longrightarrow> good_principals (API_KEY_PRINCIPALS d)"
  unfolding validate_machine_auth_settings_def bind_sum_Inr_iff
  by (auto simp: good_principals_def[of "[]"] dest!: principals_good)

lemma machine_auth_fixed:
  assumes "validate_machine_auth_fields m0 = Inr m1" "validate_machine_auth_settings m1 = Inr m"
  shows "validate_machine_auth_fields m = Inr m" "validate_machine_auth_settings m = Inr m"
proof -
  obtain header ps where m: "m = m1\<lparr> API_KEY_HEADER_NAME := header, API_KEY_PRINCIPALS := ps \<rparr>"
      "non_blank ''API_KEY_HEADER_NAME must not be empty'' (API_KEY_HEADER_NAME m1) = Inr header"
      "normalize_principals (API_KEY_PRINCIPALS m1) [] [] = Inr ps" "\<not> (API_KEY_ENABLED m1 \<and> ps = [])"
    using assms(2) unfolding validate_machine_auth_settings_def bind_sum_Inr_iff by auto
  have g: "good_principals ps \<and> snd ` set ps \<subseteq> snd ` set (API_KEY_PRINCIPALS m1)"
    using principals_good[OF m(3)] by (simp add: good_principals_def)
  obtain qs where q: "validate_principals (API_KEY_PRINCIPALS m0) = Inr qs" "API_KEY_PRINCIPALS m1 = qs"
    using assms(1) by (auto simp: validate_machine_auth_fields_def map_sum_def split: sum.splits)
  have "\<forall>q \<in> snd ` set (API_KEY_PRINCIPALS m1). validate_api_key_principal_settings q = Inr q"
    using principals_fixed[OF q(1)] q(2) by simp
  then have "\<forall>q \<in> snd ` set ps. validate_api_key_principal_settings q = Inr q"
    using conjunct2 [OF g] by (simp only: subset_iff Ball_def) blast
  then have "validate_principals ps = Inr ps" by (rule principals_id)
  then show "validate_machine_auth_fields m = Inr m" by (simp add: validate_machine_auth_fields_def m(1))
  show "validate_machine_auth_settings m = Inr m"
    using m(2,4) g good_principals_fixed[of "[]" ps "[]"]
    by (simp add: validate_machine_auth_settings_def m(1) non_blank_fixed)
qed


section \<open>All sections\<close>

text \<open>A validator keeps what the constraints of its fields speak of.\<close>

lemma constraints_kept:
  "validate_cors_settings c1 = Inr d1 \<Longrightarrow> CORS_MAX_AGE d1 = CORS_MAX_AGE c1"
  "validate_security_headers_settings c2 = Inr d2 \<Longrightarrow> security_headers_fields_ok d2 = security_headers_fields_ok c2"
  "validate_refresh_token_cookie_settings c3 = Inr d3 \<Longrightarrow> REFRESH_TOKEN_COOKIE_SAMESITE d3 = REFRESH_TOKEN_COOKIE_SAMESITE c3"
  "validate_request_body_limit_settings c4 = Inr d4 \<Longrightarrow> REQUEST_BODY_MAX_BYTES d4 = REQUEST_BODY_MAX_BYTES c4"
  "validate_request_timeout_settings c5 = Inr d5 \<Longrightarrow> REQUEST_TIMEOUT_SECONDS d5 = REQUEST_TIMEOUT_SECONDS c5"
  "validate_crypt_settings c6 = Inr d6 \<Longrightarrow> crypt_fields_ok d6 = crypt_fields_ok c6"
  by (auto simp: validate_cors_settings_def validate_security_headers_settings_def security_headers_fields_ok_def
      validate_refresh_token_cookie_settings_def validate_request_body_limit_settings_def
      validate_request_timeout_settings_def validate_crypt_settings_def crypt_fields_ok_def bind_sum_Inr_iff)

lemma unchanged_sections:
  "validate_sentry_settings e = Inr e' \<Longrightarrow> e' = e"
  "validate_tracing_settings t = Inr t' \<Longrightarrow> t' = t"
  "validate_webhook_runtime_settings w = Inr w' \<Longrightarrow> w' = w"
  "validate_http_client_settings h = Inr h' \<Longrightarrow> h' = h"
  "validate_worker_runtime_settings k = Inr k' \<Longrightarrow> k' = k"
  "validate_redis_cache_settings rc = Inr rc' \<Longrightarrow> rc' = rc"
  "validate_redis_queue_settings rq = Inr rq' \<Longrightarrow> rq' = rq"
  "validate_redis_rate_limit_settings rr = Inr rr' \<Longrightarrow> rr' = rr"
  "validate_postgres_runtime_settings lib p = Inr p' \<Longrightarrow> p' = p"
  by (auto simp: validate_sentry_settings_def validate_tracing_settings_def validate_webhook_runtime_settings_def
      validate_http_client_settings_def validate_worker_runtime_settings_def validate_redis_cache_settings_def
      validate_redis_queue_settings_def validate_redis_rate_limit_settings_def validate_postgres_runtime_settings_def
      bind_sum_Inr_iff split: if_splits option.splits)

lemma sections_fixed:
  assumes "validate_fields raw = Inr typed" "validate_sections lib typed = Inr s"
  shows "validate_fields s = Inr s \<and> validate_sections lib s = Inr s"
proof -
  obtain m1 where m1: "validate_machine_auth_fields (s_machine_auth raw) = Inr m1" "typed = raw\<lparr> s_machine_auth := m1 \<rparr>"
    and ok: "fields_ok raw"
    using assms(1) by (auto simp: validate_fields_def map_sum_def split: if_splits sum.splits)
  note steps = assms(2)[unfolded validate_sections_def bind_sum_Inr_iff]
  have m: "validate_machine_auth_settings m1 = Inr (s_machine_auth s)"
    using steps by (auto simp: m1(2))
  note auth = machine_auth_fixed[OF m1(1) m]
  have sections: "validate_sections lib s = Inr s"
    using steps auth(2) unfolding validate_sections_def
    by (auto simp: log_redaction_fixed timeout_fixed body_limit_fixed proxy_headers_fixed trusted_host_fixed cookie_fixed
        security_headers_fixed cors_fixed sentry_fixed tracing_fixed metrics_fixed webhook_fixed http_client_fixed
        worker_fixed redis_fixed crypt_fixed(1) postgres_fixed)
  have "fields_ok s"
    using steps ok unfolding fields_ok_def
    by (auto simp: m1(2) constraints_kept dest!: unchanged_sections)
  then show ?thesis using sections auth(1) by (simp add: validate_fields_def)
qed


lemma sections_valid:
  assumes "validate_sections lib r = Inr s"
  shows "validate_proxy_headers_settings (s_proxy_headers s) = Inr (s_proxy_headers s)"
    and "validate_crypt_settings (s_crypt s) = Inr (s_crypt s)"
    and "good_keys (JWT_ACTIVE_KEY_ID (s_crypt s)) (JWT_VERIFICATION_KEYS (s_crypt s))"
    and "good_principals (API_KEY_PRINCIPALS (s_machine_auth s))"
    and "validate_cors_settings (s_cors s) = Inr (s_cors s)"
  using assms unfolding validate_sections_def bind_sum_Inr_iff
  by (auto simp: proxy_headers_fixed crypt_fixed machine_auth_good cors_fixed)

section \<open>Loading\<close>

lemma validate_profile_simps [simp]:
  "validate_profile lib Settings s =
     (if ENVIRONMENT s = ENV_STAGING \<or> ENVIRONMENT s = ENV_PRODUCTION
      then validate_secure_environment lib (environment_value (ENVIRONMENT s)) s else Inr ())"
  "validate_profile lib LocalSettings s = validate_local_profile s"
  "validate_profile lib StagingSettings s = validate_staging_profile lib s"
  "validate_profile lib ProductionSettings s = validate_production_profile lib s"
  by (auto simp: validate_profile_def validate_generic_environment_safety_def bind_sum_def split: sum.split)

lemmas profile_defs = validate_local_profile_def validate_staging_profile_def validate_production_profile_def
  validate_expected_environment_def

lemma construct_Inr: "construct lib source cls = Inr s \<Longrightarrow>
    validate_fields s = Inr s \<and> validate_sections lib s = Inr s \<and> validate_profile lib cls s = Inr ()"
  unfolding construct_def bind_sum_Inr_iff
  by (elim exE conjE) (simp, drule (1) sections_fixed, simp)

lemma load_settings_Inr:
  assumes "load_settings lib source = Inr (cls, s)"
  shows "validate_fields s = Inr s" "validate_sections lib s = Inr s" "validate_profile lib cls s = Inr ()"
    and "cls = profile_of (ENVIRONMENT s)"
proof -
  obtain b where "construct lib source Settings = Inr b"
    and b: "get_settings_class (Inl (ENVIRONMENT b)) = Inr cls" and c2: "construct lib source cls = Inr s"
    using assms by (auto simp: load_settings_def bind_sum_Inr_iff)
  have c: "cls = profile_of (ENVIRONMENT b)" using b by (simp add: get_settings_class_def)
  from construct_Inr[OF c2] show "validate_fields s = Inr s" "validate_sections lib s = Inr s"
    and p: "validate_profile lib cls s = Inr ()" by simp_all
  show "cls = profile_of (ENVIRONMENT s)"
    using p by (cases "ENVIRONMENT b") (auto simp: c profile_defs bind_sum_Inr_iff)
qed

lemma load_settingsI:
  assumes "validate_fields s = Inr s" "validate_sections lib s = Inr s"
    and "validate_profile lib (profile_of (ENVIRONMENT s)) s = Inr ()"
  shows "load_settings lib (\<lambda>_. Inr s) = Inr (profile_of (ENVIRONMENT s), s)"
proof -
  have "validate_profile lib Settings s = Inr ()"
    using assms(3) by (cases "ENVIRONMENT s") (auto simp: bind_sum_Inr_iff validate_secure_environment_def profile_defs)
  then show ?thesis
    using assms by (simp add: load_settings_def construct_def get_settings_class_def)
qed

definition demo_url_lib :: "string url_lib" where
  "demo_url_lib = \<lparr> ul_parse = Inr, ul_backend = (\<lambda>_. ''postgresql''), ul_password = Some, ul_set_driver = (\<lambda>_ u. u),
     ul_create = (\<lambda>driver user password host port db. password), ul_render = (\<lambda>u. u) \<rparr>"

definition demo_production :: "settings \<Rightarrow> string + settings" where
  "demo_production d = Inr (d\<lparr> ENVIRONMENT := ENV_PRODUCTION,
     s_crypt := crypt_defaults\<lparr> SECRET_KEY := ''0123456789abcdef0123456789abcdef'', JWT_ACTIVE_KEY_ID := '' k2 '' \<rparr>,
     s_postgres := postgres_defaults\<lparr> POSTGRES_PASSWORD := ''correct horse'' \<rparr>,
     s_cors := cors_defaults\<lparr> CORS_ORIGINS := ['' https://app.example ''] \<rparr>,
     s_log_redaction := log_redaction_defaults\<lparr> LOG_REDACTION_EXACT_FIELDS := ['' Email ''], LOG_REDACTION_SUBSTRING_FIELDS := [] \<rparr> \<rparr>)"

definition demo_settings :: settings where
  "demo_settings = settings_defaults\<lparr> ENVIRONMENT := ENV_PRODUCTION,
     s_sentry := sentry_defaults\<lparr> SENTRY_ENVIRONMENT := ''production'' \<rparr>,
     s_crypt := crypt_defaults\<lparr> SECRET_KEY := ''0123456789abcdef0123456789abcdef'', JWT_ACTIVE_KEY_ID := ''k2'' \<rparr>,
     s_postgres := postgres_defaults\<lparr> POSTGRES_PASSWORD := ''correct horse'' \<rparr>,
     s_cors := cors_defaults\<lparr> CORS_ORIGINS := [''https://app.example''] \<rparr>,
     s_log_redaction := log_redaction_defaults\<lparr> LOG_REDACTION_EXACT_FIELDS := [''email''], LOG_REDACTION_SUBSTRING_FIELDS := [] \<rparr> \<rparr>"

lemma demo_loaded: "load_settings demo_url_lib demo_production = Inr (ProductionSettings, demo_settings)"
  by code_simp

text \<open>Loading is idempotent: the settings that a process runs with, written to a source
  that defines every field, load to the same profile and the same settings.\<close>

theorem loaded_settings_are_a_fixed_point:
  assumes "load_settings lib source = Inr (cls, s)"
  shows "load_settings lib (\<lambda>_. Inr s) = Inr (cls, s)"
  using load_settingsI[of s lib] load_settings_Inr[OF assms] by simp

lemma loaded_settings_are_a_fixed_point_witness:
  "load_settings demo_url_lib (\<lambda>_. Inr demo_settings) = Inr (ProductionSettings, demo_settings)"
  by (rule loaded_settings_are_a_fixed_point[OF demo_loaded])


text \<open>What an operator may rely on outside local development: the active secret is long enough
  and no placeholder, and so is the database password; if the CRUD admin is enabled, its password
  is no placeholder and its session cookies are secure; no wildcard among the CORS origins, the
  trusted hosts and, if proxy headers are honoured, the proxies (of which there is one); no
  wildcard among the CORS methods and headers if credentials are allowed; the refresh cookie is
  marked secure.  The verification keys other than the active secret, the password of a disabled
  admin, and the methods and headers of a CORS policy without credentials are not looked at.\<close>

definition secure_settings :: "'u url_lib \<Rightarrow> settings \<Rightarrow> bool" where
  "secure_settings lib s \<longleftrightarrow>
     32 \<le> length (SECRET_KEY (s_crypt s)) \<and>
     normalize_setting_value (SECRET_KEY (s_crypt s)) \<notin> set PRODUCTION_UNSAFE_SECRET_VALUES \<and>
     (\<exists>p. database_password lib (s_postgres s) = Inr (Some p) \<and> p \<noteq> [] \<and>
        normalize_setting_value p \<notin> set PRODUCTION_UNSAFE_PASSWORD_VALUES) \<and>
     (CRUD_ADMIN_ENABLED (s_crud_admin s) \<longrightarrow> SESSION_SECURE_COOKIES (s_crud_admin s) \<and>
        normalize_setting_value (ADMIN_PASSWORD (s_first_user s)) \<notin> set PRODUCTION_UNSAFE_PASSWORD_VALUES) \<and>
     ''*'' \<notin> set (CORS_ORIGINS (s_cors s)) \<and> ''*'' \<notin> set (TRUSTED_HOSTS (s_trusted_host s)) \<and>
     (CORS_ALLOW_CREDENTIALS (s_cors s) \<longrightarrow> ''*'' \<notin> set (CORS_METHODS (s_cors s)) \<and> ''*'' \<notin> set (CORS_HEADERS (s_cors s))) \<and>
     (PROXY_HEADERS_ENABLED (s_proxy_headers s) \<longrightarrow>
        PROXY_HEADERS_TRUSTED_PROXIES (s_proxy_headers s) \<noteq> [] \<and> ''*'' \<notin> set (PROXY_HEADERS_TRUSTED_PROXIES (s_proxy_headers s))) \<and>
     (\<forall>token age. dict_get (build_refresh_token_cookie_kwargs token age (s_cookie s)) ''secure'' JNull = JBool True)"

lemma has_star_in: "''*'' \<in> set vs \<Longrightarrow> has_star vs"
proof -
  assume v: "''*'' \<in> set vs"
  have "py_strip ''*'' = ''*''" by code_simp
  then show ?thesis using imageI[OF v, of py_strip] by (simp add: has_star_def)
qed

lemma cors_credentials:
  assumes "validate_cors_settings c = Inr c" "CORS_ALLOW_CREDENTIALS c"
  shows "''*'' \<notin> set (CORS_METHODS c) \<and> ''*'' \<notin> set (CORS_HEADERS c)"
proof -
  obtain os ms hs es u1 u2 where v: "no_wildcard (CORS_ALLOW_CREDENTIALS c) ''CORS_METHODS'' ms = Inr u1"
      "no_wildcard (CORS_ALLOW_CREDENTIALS c) ''CORS_HEADERS'' hs = Inr u2"
    and e: "c\<lparr> CORS_ORIGINS := os, CORS_METHODS := ms, CORS_HEADERS := hs, CORS_EXPOSE_HEADERS := es \<rparr> = c"
    using assms(1) unfolding validate_cors_settings_def bind_sum_Inr_iff sum.inject
    by (elim exE conjE) (rule that, assumption+)
  from arg_cong[OF e, of CORS_METHODS] arg_cong[OF e, of CORS_HEADERS] have "ms = CORS_METHODS c" "hs = CORS_HEADERS c"
    by simp_all
  with v assms(2) show ?thesis by (simp add: no_wildcard_def require_def split: if_splits)
qed

lemma secure_environment_secure:
  assumes v: "validate_secure_environment lib name s = Inr ()"
    and p: "validate_proxy_headers_settings (s_proxy_headers s) = Inr (s_proxy_headers s)"
    and c: "validate_cors_settings (s_cors s) = Inr (s_cors s)"
  shows "secure_settings lib s"
proof -
  note cors = cors_credentials[OF c]
  obtain pw where pw: "database_password lib (s_postgres s) = Inr pw"
    and e: "collect_secure_environment_errors lib s = Inr []"
    using v by (auto simp: validate_secure_environment_def collect_secure_environment_errors_def bind_sum_Inr_iff)
  have "\<not> weak_database_password pw" using e by (simp add: collect_secure_environment_errors_def pw split: if_splits)
  then obtain q where "pw = Some q" "q \<noteq> []" "normalize_setting_value q \<notin> set PRODUCTION_UNSAFE_PASSWORD_VALUES"
    by (auto simp: weak_database_password_def weak_password_def split: option.splits)
  moreover have "PROXY_HEADERS_ENABLED (s_proxy_headers s) \<Longrightarrow> PROXY_HEADERS_TRUSTED_PROXIES (s_proxy_headers s) \<noteq> []"
    using p by (auto simp: validate_proxy_headers_settings_def bind_sum_Inr_iff)
  ultimately show ?thesis
    using e pw has_star_in cors unfolding secure_settings_def
    by (auto simp: collect_secure_environment_errors_def weak_secret_def weak_password_def
        build_refresh_token_cookie_kwargs_def dict_get_def split: if_splits)
qed

text \<open>C28: The settings that loading accepts belong to the profile of their environment and,
  outside local development, are secure in the sense of \<open>secure_settings\<close>: the active secret and
  the database password are no placeholders, the password of the admin is none if the CRUD admin
  is enabled, no wildcard stands for the CORS origins, the hosts, the honoured proxies or, with
  credentials, the CORS methods and headers, and every refresh cookie is marked secure.\<close>

theorem loaded_settings_are_safe:
  assumes "load_settings lib source = Inr (cls, s)"
  shows "cls = profile_of (ENVIRONMENT s) \<and> (ENVIRONMENT s = ENV_LOCAL \<or> secure_settings lib s)"
proof (cases "ENVIRONMENT s = ENV_LOCAL")
  case False
  note l = load_settings_Inr[OF assms]
  obtain name where "validate_secure_environment lib name s = Inr ()"
    using l(3) False unfolding l(4) by (cases "ENVIRONMENT s") (auto simp: bind_sum_Inr_iff profile_defs)
  then show ?thesis using secure_environment_secure sections_valid(1,5)[OF l(2)] l(4) by blast
qed (use load_settings_Inr[OF assms] in simp)

lemma loaded_settings_are_safe_witness:
  "ProductionSettings = profile_of (ENVIRONMENT demo_settings) \<and> secure_settings demo_url_lib demo_settings"
  using loaded_settings_are_safe[OF demo_loaded] by (simp add: demo_settings_def)

lemma match_api_key_Some: "match_api_key key ps = Inr (Some payload) \<Longrightarrow>
    \<exists>n p. (n, p) \<in> set ps \<and> ak_key p = key \<and> payload = build_api_key_principal_payload n p"
proof (induction key ps rule: match_api_key.induct)
  case (2 api_key name ps rest)
  then show ?case using 2(1)[of False] by (cases "ak_key ps = api_key") (auto simp: compare_digest_def split: if_splits)
qed simp

lemma match_api_key_None: "match_api_key key ps = Inr None \<Longrightarrow> (n, p) \<in> set ps \<Longrightarrow> ak_key p \<noteq> key"
  by (induction key ps rule: match_api_key.induct)
    (auto simp: compare_digest_def split: option.splits bool.splits if_splits)

lemma key_owner_unique: "good_principals ps \<Longrightarrow> (n, p) \<in> set ps \<Longrightarrow> (m, q) \<in> set ps \<Longrightarrow> ak_key p = ak_key q \<Longrightarrow> n = m \<and> p = q"
  using inj_onD[of "ak_key \<circ> snd" "set ps" "(n, p)" "(m, q)"] by (simp add: good_principals_def distinct_map)

text \<open>An API key identifies one principal: a key that matches a principal of loaded
  settings matches no other, in whatever order the principals are compared.\<close>

theorem api_key_identifies_one_principal:
  assumes "load_settings lib source = Inr (cls, s)" and "set ps = set (API_KEY_PRINCIPALS (s_machine_auth s))"
    and "match_api_key key (API_KEY_PRINCIPALS (s_machine_auth s)) = Inr (Some payload)"
    and "match_api_key key ps = Inr r"
  shows "r = Some payload"
proof -
  have good: "good_principals (API_KEY_PRINCIPALS (s_machine_auth s))"
    using sections_valid(4)[OF load_settings_Inr(2)[OF assms(1)]] .
  obtain n p where p: "(n, p) \<in> set ps" "ak_key p = key" "payload = build_api_key_principal_payload n p"
    using match_api_key_Some[OF assms(3)] assms(2) by auto
  then obtain payload' where r: "r = Some payload'" using match_api_key_None[of key ps] assms(4) by (cases r) auto
  then show ?thesis using match_api_key_Some[of key ps payload'] assms(4) p key_owner_unique[OF good] assms(2) by auto
qed

section \<open>What the checks do not look at\<close>

text \<open>The length of the secret is taken before it is stripped.\<close>

lemma blank_secret_is_not_weak: "\<not> weak_secret (replicate 32 (CHR '' ''))"
  by code_simp

lemma update_keys_safe: "secure_settings lib (s\<lparr> s_crypt := (s_crypt s)\<lparr> JWT_VERIFICATION_KEYS := keys \<rparr> \<rparr>) = secure_settings lib s"
  by (simp add: secure_settings_def)

lemma profile_ignores_keys:
  "validate_profile lib cls (s\<lparr> s_crypt := (s_crypt s)\<lparr> JWT_VERIFICATION_KEYS := keys \<rparr> \<rparr>) = validate_profile lib cls s"
  by (cases cls) (simp_all add: validate_secure_environment_def collect_secure_environment_errors_def profile_defs)

lemma sections_fixed_iff: "validate_sections lib s = Inr s \<longleftrightarrow>
     validate_log_redaction_settings (s_log_redaction s) = Inr (s_log_redaction s) \<and>
     validate_request_timeout_settings (s_timeout s) = Inr (s_timeout s) \<and>
     validate_request_body_limit_settings (s_body_limit s) = Inr (s_body_limit s) \<and>
     validate_proxy_headers_settings (s_proxy_headers s) = Inr (s_proxy_headers s) \<and>
     validate_trusted_host_settings (s_trusted_host s) = Inr (s_trusted_host s) \<and>
     validate_refresh_token_cookie_settings (s_cookie s) = Inr (s_cookie s) \<and>
     validate_security_headers_settings (s_security_headers s) = Inr (s_security_headers s) \<and>
     validate_cors_settings (s_cors s) = Inr (s_cors s) \<and>
     validate_sentry_settings (s_sentry s) = Inr (s_sentry s) \<and>
     validate_tracing_settings (s_tracing s) = Inr (s_tracing s) \<and>
     validate_metrics_settings (s_metrics s) = Inr (s_metrics s) \<and>
     validate_redis_rate_limit_settings (s_redis_rate_limit s) = Inr (s_redis_rate_limit s) \<and>
     validate_webhook_runtime_settings (s_webhook s) = Inr (s_webhook s) \<and>
     validate_http_client_settings (s_http_client s) = Inr (s_http_client s) \<and>
     validate_worker_runtime_settings (s_worker s) = Inr (s_worker s) \<and>
     validate_redis_queue_settings (s_redis_queue s) = Inr (s_redis_queue s) \<and>
     validate_redis_cache_settings (s_redis_cache s) = Inr (s_redis_cache s) \<and>
     validate_machine_auth_settings (s_machine_auth s) = Inr (s_machine_auth s) \<and>
     validate_crypt_settings (s_crypt s) = Inr (s_crypt s) \<and>
     validate_postgres_runtime_settings lib (s_postgres s) = Inr (s_postgres s)"
  unfolding validate_sections_def bind_sum_Inr_iff by (cases s) auto

lemma sections_ignore_keys:
  assumes "validate_sections lib s = Inr s" "good_keys (JWT_ACTIVE_KEY_ID (s_crypt s)) keys"
    and "t = s\<lparr> s_crypt := (s_crypt s)\<lparr> JWT_VERIFICATION_KEYS := keys \<rparr> \<rparr>"
  shows "validate_sections lib t = Inr t"
proof -
  have "validate_crypt_settings (s_crypt t) = Inr (s_crypt t)"
    using crypt_other_keys[OF sections_valid(2)[OF assms(1)] assms(2)] by (simp add: assms(3))
  then show ?thesis using assms(1) unfolding sections_fixed_iff by (simp add: assms(3))
qed

text \<open>C29: The secret that a deployment has rotated away from is not checked.  Production settings
  whose key ring still holds the shipped placeholder secret load, and an access token that
  anyone signs with the shipped defaults is accepted there for the subject it names.\<close>

theorem placeholder_key_forges_production_tokens:
  assumes "load_settings lib source = Inr (ProductionSettings, s)" and "JWT_VERIFICATION_KEYS (s_crypt s) = []"
    and "JWT_ACTIVE_KEY_ID (s_crypt s) \<noteq> ''primary''" and "ALGORITHM (s_crypt s) = ''HS256''"
    and "JWT_ISSUER (s_crypt s) = None" and "JWT_AUDIENCE (s_crypt s) = None"
    and "s' = s\<lparr> s_crypt := (s_crypt s)\<lparr> JWT_VERIFICATION_KEYS := [(''primary'', ''secret-key'')] \<rparr> \<rparr>"
    and "0 < lifetime" and "jwt_roundtrip jwt (access_claims subject (issued + lifetime) crypt_defaults)"
    and "token = create_access_token jwt [(''sub'', JStr subject)] (Some lifetime) crypt_defaults issued"
    and "now div 1000000 \<le> (issued + lifetime) div 1000000" and "\<not> blacklist_exists t token"
  shows "load_settings lib (\<lambda>_. Inr s') = Inr (ProductionSettings, s') \<and>
    verify_token jwt (s_crypt s') now token ACCESS t = Inr (Some subject)"
proof
  note l = load_settings_Inr[OF assms(1)]
  have "py_strip ''primary'' = ''primary''" "py_strip ''secret-key'' = ''secret-key''" by code_simp+
  then have "good_keys (JWT_ACTIVE_KEY_ID (s_crypt s)) [(''primary'', ''secret-key'')]"
    using assms(3) by (simp add: good_keys_def)
  then have "validate_sections lib s' = Inr s'" using sections_ignore_keys[OF l(2)] assms(7) by blast
  moreover have "validate_fields s' = Inr s'"
    using l(1) unfolding assms(7)
    by (cases s) (auto simp: validate_fields_def fields_ok_def crypt_fields_ok_def map_sum_def split: if_splits sum.splits)
  moreover have "profile_of (ENVIRONMENT s') = ProductionSettings" using l(4) by (simp add: assms(7))
  moreover have "validate_profile lib ProductionSettings s' = Inr ()" using l(3) profile_ignores_keys assms(7) by metis
  ultimately show "load_settings lib (\<lambda>_. Inr s') = Inr (ProductionSettings, s')" using load_settingsI[of s' lib] by simp
  have "rotated_from crypt_defaults (s_crypt s')"
    using assms(4-6) by (simp add: rotated_from_def crypt_defaults_def assms(7))
  from token_still_verifies[OF this assms(8-12)]
  show "verify_token jwt (s_crypt s') now token ACCESS t = Inr (Some subject)" by blast
qed

lemma placeholder_key_forges_production_tokens_witness:
  "\<exists>s'. load_settings demo_url_lib (\<lambda>_. Inr s') = Inr (ProductionSettings, s') \<and>
     verify_token (demo_jwt [(''sub'', JStr ''root''), (''exp'', JInt 60), (''token_type'', JStr ''access'')] 60)
       (s_crypt s') 59000000 ''primary'' ACCESS \<lparr> tb_next = 1, tb_rows = [] \<rparr> = Inr (Some ''root'')"
proof -
  let ?lib = "demo_jwt [(''sub'', JStr ''root''), (''exp'', JInt 60), (''token_type'', JStr ''access'')] 60"
  have "jwt_roundtrip ?lib (access_claims ''root'' (0 + 60000000) crypt_defaults)"
    by (auto simp: jwt_roundtrip_def demo_jwt_def dict_get_def claims_valid_def build_token_claims_def crypt_defaults_def)
  moreover have "''primary'' = create_access_token ?lib [(''sub'', JStr ''root'')] (Some 60000000) crypt_defaults 0"
    by (simp add: create_access_token_def demo_jwt_def crypt_defaults_def)
  moreover have c: "s_crypt demo_settings = crypt_defaults\<lparr> SECRET_KEY := ''0123456789abcdef0123456789abcdef'', JWT_ACTIVE_KEY_ID := ''k2'' \<rparr>"
    by (simp add: demo_settings_def)
  have "JWT_VERIFICATION_KEYS (s_crypt demo_settings) = []" "JWT_ACTIVE_KEY_ID (s_crypt demo_settings) \<noteq> ''primary''"
      "ALGORITHM (s_crypt demo_settings) = ''HS256''" "JWT_ISSUER (s_crypt demo_settings) = None"
      "JWT_AUDIENCE (s_crypt demo_settings) = None"
    unfolding c by (simp_all add: crypt_defaults_def)
  note p = placeholder_key_forges_production_tokens[OF demo_loaded this refl, where lifetime = 60000000 and issued = 0 and jwt = ?lib
      and subject = "''root''" and token = "''primary''" and now = 59000000 and t = "\<lparr> tb_next = 1, tb_rows = [] \<rparr>"]
  show ?thesis by (rule exI, rule p) (use calculation in \<open>simp_all add: blacklist_exists_def find_row_def\<close>)
qed

end
