(* ===== verification/Integration_Clients.thy ===== *)
theory Integration_Clients
  imports Http_Client Integration_Errors Authorization
begin

text \<open>
  integrations/contracts: the settings of an integration with their registry and factory
  (settings.py), dry-run support (sandbox.py), the base client (client.py) and the health of
  credentials (secrets.py).

  The process environment is a map from names to texts.  The defaults of the factory are a
  record of optional values.  The HTTP client that a base client is given is an operation on
  the world; \<open>send_request\<close> is one.
\<close>

section \<open>Settings\<close>

datatype integration_mode = SANDBOX | PRODUCTION | DRY_RUN

fun mode_value :: "integration_mode \<Rightarrow> string" where
  "mode_value SANDBOX = ''sandbox''"
| "mode_value PRODUCTION = ''production''"
| "mode_value DRY_RUN = ''dry_run''"

definition ALL_MODES :: "integration_mode list" where
  "ALL_MODES = [SANDBOX, PRODUCTION, DRY_RUN]"

definition mode_of_value :: "string \<Rightarrow> integration_mode option" where
  "mode_of_value v = find (\<lambda>m. mode_value m = v) ALL_MODES"

record integration_settings =
  is_provider_name :: string
  is_enabled :: bool
  is_mode :: integration_mode
  is_base_url :: string
  is_sandbox_base_url :: "string option"
  is_timeout_seconds :: rat
  is_max_retries :: int
  is_api_key :: "string option"
  is_api_secret :: "string option"
  is_webhook_secret :: "string option"

text \<open>What the operations raise: an integration error, or pydantic's for a constraint.\<close>

datatype settings_error = Integration_Failure integration_error | Field_Constraint

definition integration_failure :: "integration_error_class \<Rightarrow> string \<Rightarrow> string \<Rightarrow> integration_error" where
  "integration_failure c message provider_name = \<lparr> ie_class = c, ie_message = message, ie_provider_name = provider_name,
     ie_operation = ''unknown'', ie_detail = None, ie_cause = No_Cause, ie_retry_after_seconds = None \<rparr>"

text \<open>The validator of the class accepts every combination.\<close>

definition make_integration_settings :: "integration_settings \<Rightarrow> settings_error + integration_settings" where
  "make_integration_settings s =
     (if is_timeout_seconds s < 1 / 10 \<or> is_max_retries s < 0 then Inl Field_Constraint else Inr s)"

definition effective_base_url :: "integration_settings \<Rightarrow> integration_error + string" where
  "effective_base_url s =
     (if is_base_url s = []
      then Inl (integration_failure IntegrationConfigError (''base_url is required for '' @ is_provider_name s) (is_provider_name s))
      else if is_mode s = SANDBOX \<and> truthy_list (is_sandbox_base_url s) then Inr (the (is_sandbox_base_url s))
      else Inr (is_base_url s))"

fun contains_text :: "string \<Rightarrow> string \<Rightarrow> bool" where
  "contains_text sub [] \<longleftrightarrow> sub = []"
| "contains_text sub (c # cs) \<longleftrightarrow> take (length sub) (c # cs) = sub \<or> contains_text sub cs"

definition validate_for_production :: "integration_settings \<Rightarrow> integration_error + unit" where
  "validate_for_production s =
     (let failure = (\<lambda>m. Inl (integration_failure IntegrationProductionValidationError (is_provider_name s @ m) (is_provider_name s)))
      in if is_mode s \<noteq> PRODUCTION then failure '' is not in PRODUCTION mode''
         else if \<not> truthy_list (is_api_key s) then failure '' requires api_key for production mode''
         else if is_base_url s = [] \<or> contains_text ''sandbox'' (py_lower (is_base_url s))
         then failure '' is configured with a sandbox base_url in production mode''
         else Inr ())"

definition to_http_client_config :: "integration_settings \<Rightarrow> dict" where
  "to_http_client_config s =
     [(''HTTP_CLIENT_TIMEOUT_SECONDS'', JFloat (is_timeout_seconds s)), (''HTTP_CLIENT_RETRY_MAX_ATTEMPTS'', JInt (is_max_retries s))]"

section \<open>Registry\<close>

type_synonym settings_registry = "(string \<times> integration_settings) list"

definition register_settings :: "settings_registry \<Rightarrow> integration_settings \<Rightarrow> integration_error + settings_registry" where
  "register_settings reg s =
     (if is_provider_name s = []
      then Inl (integration_failure IntegrationConfigError ''provider_name cannot be empty'' (is_provider_name s))
      else Inr (AList.update (is_provider_name s) s reg))"

definition get_settings :: "settings_registry \<Rightarrow> string \<Rightarrow> integration_settings option" where
  "get_settings reg provider_name = map_of reg provider_name"

definition get_enabled :: "settings_registry \<Rightarrow> integration_settings list" where
  "get_enabled reg = filter is_enabled (map snd reg)"

fun validate_all :: "settings_registry \<Rightarrow> (string \<times> integration_error) list" where
  "validate_all [] = []"
| "validate_all ((name, s) # rest) =
     (if is_mode s = PRODUCTION
      then (case validate_for_production s of Inl e \<Rightarrow> (name, e) # validate_all rest | Inr _ \<Rightarrow> validate_all rest)
      else validate_all rest)"

definition registered_count :: "settings_registry \<Rightarrow> nat" where
  "registered_count reg = length reg"

definition is_registered :: "settings_registry \<Rightarrow> string \<Rightarrow> bool" where
  "is_registered reg provider_name \<longleftrightarrow> provider_name \<in> set (map fst reg)"

section \<open>Settings from the environment\<close>

record integration_defaults =
  df_mode :: "string option"
  df_enabled :: "bool option"
  df_timeout_seconds :: "rat option"
  df_max_retries :: "int option"
  df_base_url :: "string option"
  df_sandbox_base_url :: "string option"
  df_api_key :: "string option"
  df_api_secret :: "string option"
  df_webhook_secret :: "string option"

type_synonym environment = "string \<Rightarrow> string option"

definition getenv :: "environment \<Rightarrow> string \<Rightarrow> string option \<Rightarrow> string option" where
  "getenv env name dflt = (case env name of Some v \<Rightarrow> Some v | None \<Rightarrow> dflt)"

definition parse_mode :: "environment \<Rightarrow> string \<Rightarrow> string \<Rightarrow> string option \<Rightarrow> settings_error + integration_mode" where
  "parse_mode env p provider_name dflt =
     (let mode_str = py_lower (the (getenv env (p @ ''MODE'') (Some (or_default dflt ''sandbox''))))
      in case mode_of_value mode_str of
           Some m \<Rightarrow> Inr m
         | None \<Rightarrow> Inl (Integration_Failure (integration_failure IntegrationConfigError
             (''Invalid mode '' @ [CHR 0x27] @ mode_str @ [CHR 0x27] @ '' for '' @ provider_name @ ''. Must be one of: '' @
              comma_join (map mode_value ALL_MODES)) provider_name)))"

definition parse_enabled :: "environment \<Rightarrow> string \<Rightarrow> bool option \<Rightarrow> bool" where
  "parse_enabled env p dflt =
     (let enabled_str = py_lower (the (getenv env (p @ ''ENABLED'') (Some [])))
      in if enabled_str \<in> {''false'', ''0'', ''no''} then False else or_default dflt True)"

text \<open>A text that does not parse falls back to the default.\<close>

definition parse_timeout_seconds :: "environment \<Rightarrow> string \<Rightarrow> rat option \<Rightarrow> rat" where
  "parse_timeout_seconds env p dflt = (case env (p @ ''TIMEOUT_SECONDS'') of
       None \<Rightarrow> or_default dflt 30
     | Some v \<Rightarrow> or_default (py_float v) (or_default dflt 30))"

definition parse_max_retries :: "environment \<Rightarrow> string \<Rightarrow> int option \<Rightarrow> int" where
  "parse_max_retries env p dflt = (case env (p @ ''MAX_RETRIES'') of
       None \<Rightarrow> or_default dflt 3
     | Some v \<Rightarrow> or_default (py_int v) (or_default dflt 3))"

definition build_integration_settings ::
  "environment \<Rightarrow> string \<Rightarrow> string \<Rightarrow> integration_defaults \<Rightarrow> settings_error + integration_settings" where
  "build_integration_settings env provider_name env_prefix d =
     (let p = env_prefix @ ''_'' in
      bind_sum (parse_mode env p provider_name (df_mode d)) (\<lambda>mode.
        let base_url = getenv env (p @ ''BASE_URL'') (df_base_url d) in
        if \<not> truthy_list base_url
        then Inl (Integration_Failure (integration_failure IntegrationConfigError
               (''base_url is required for '' @ provider_name @ ''; set '' @ p @ ''BASE_URL or pass base_url to build_integration_settings()'')
               provider_name))
        else make_integration_settings \<lparr> is_provider_name = provider_name, is_enabled = parse_enabled env p (df_enabled d),
               is_mode = mode, is_base_url = the base_url,
               is_sandbox_base_url = getenv env (p @ ''SANDBOX_BASE_URL'') (df_sandbox_base_url d),
               is_timeout_seconds = parse_timeout_seconds env p (df_timeout_seconds d),
               is_max_retries = parse_max_retries env p (df_max_retries d),
               is_api_key = getenv env (p @ ''API_KEY'') (df_api_key d),
               is_api_secret = getenv env (p @ ''API_SECRET'') (df_api_secret d),
               is_webhook_secret = getenv env (p @ ''WEBHOOK_SECRET'') (df_webhook_secret d) \<rparr>))"

section \<open>Dry run\<close>

text \<open>The protocol of providers with sandbox responses; operations take keyword arguments.\<close>

record 'r sandbox_behavior =
  sb_is_sandbox :: bool
  sb_sandbox_response :: "string \<Rightarrow> dict \<Rightarrow> 'r"

definition should_execute :: "integration_settings \<Rightarrow> bool" where
  "should_execute s \<longleftrightarrow> is_mode s \<noteq> DRY_RUN"

text \<open>\<open>rep\<close> is \<open>repr\<close> of a value; the log is the list of its messages.\<close>

definition dry_run_log :: "(json \<Rightarrow> string) \<Rightarrow> integration_settings \<Rightarrow> string \<Rightarrow> dict \<Rightarrow> string list \<Rightarrow> string list" where
  "dry_run_log rep s op kwargs logged =
     (if is_mode s = DRY_RUN
      then logged @ [''['' @ is_provider_name s @ ''] Would execute '' @ op @ '': '' @
                  comma_join (map (\<lambda>(k, v). k @ ''='' @ rep v) kwargs)]
      else logged)"

section \<open>Base client\<close>

record integration_health =
  ih_healthy :: bool
  ih_provider :: string
  ih_latency_ms :: "rat option"
  ih_detail :: "string option"
  ih_checked_at :: instant

definition make_integration_health :: "bool \<Rightarrow> string \<Rightarrow> rat option \<Rightarrow> string option \<Rightarrow> instant option \<Rightarrow> instant \<Rightarrow> integration_health" where
  "make_integration_health healthy provider latency_ms detail checked_at utcnow =
     \<lparr> ih_healthy = healthy, ih_provider = provider, ih_latency_ms = latency_ms, ih_detail = detail,
       ih_checked_at = (case checked_at of None \<Rightarrow> utcnow | Some t \<Rightarrow> t) \<rparr>"

text \<open>The protocol of integration clients.\<close>

record 'w integration_client =
  ic_provider_name :: string
  ic_health_check :: "'w \<Rightarrow> integration_health \<times> 'w"
  ic_close :: "'w \<Rightarrow> 'w"

type_synonym 'w http_send = "bool \<Rightarrow> http_request \<Rightarrow> 'w \<Rightarrow> (request_failure + http_response) \<times> 'w"

record 'w base_client =
  bc_send :: "'w http_send"
  bc_close_http :: "'w \<Rightarrow> 'w"
  bc_provider_name :: string
  bc_mode :: integration_mode
  bc_health_check_url :: string

definition plain_request :: "string \<Rightarrow> string \<Rightarrow> http_request" where
  "plain_request meth url = \<lparr> rq_method = meth, rq_url = url, rq_headers = [], rq_params = [], rq_json = None,
     rq_content = None, rq_data = [] \<rparr>"

definition base_request :: "'w base_client \<Rightarrow> bool \<Rightarrow> http_request \<Rightarrow> 'w \<Rightarrow> (request_failure + http_response) \<times> 'w" where
  "base_request c raise_codes rq w = bc_send c raise_codes rq w"

definition is_success :: "http_response \<Rightarrow> bool" where
  "is_success r \<longleftrightarrow> 200 \<le> hr_status_code r \<and> hr_status_code r \<le> 299"

fun failure_text :: "request_failure \<Rightarrow> string" where
  "failure_text (Http_Failure e) = he_message e"
| "failure_text (Foreign_Failure e) = exn_message e"

text \<open>Milliseconds between two readings of the monotonic clock.\<close>

definition duration_ms :: "instant \<Rightarrow> instant \<Rightarrow> rat" where
  "duration_ms start stop = of_int (stop - start) / 1000"

definition health_check :: "'w base_client \<Rightarrow> clock \<Rightarrow> instant \<Rightarrow> 'w \<Rightarrow> integration_health \<times> 'w" where
  "health_check c monotonic utcnow w =
     (if bc_health_check_url c = []
      then (make_integration_health True (bc_provider_name c) None (Some ''No health check configured'') None utcnow, w)
      else (case base_request c False (plain_request ''GET'' (bc_health_check_url c)) w of
              (Inr response, w') \<Rightarrow>
                (make_integration_health (is_success response) (bc_provider_name c) (Some (duration_ms (monotonic 0) (monotonic 1)))
                   (if is_success response then None else Some (''HTTP '' @ show_int (hr_status_code response))) None utcnow, w')
            | (Inl failure, w') \<Rightarrow>
                (make_integration_health False (bc_provider_name c) (Some (duration_ms (monotonic 0) (monotonic 1)))
                   (Some (failure_text failure)) None utcnow, w')))"

definition close_client :: "'w base_client \<Rightarrow> 'w \<Rightarrow> 'w" where
  "close_client c w = bc_close_http c w"

text \<open>The base client as an integration client.\<close>

definition as_integration_client :: "'w base_client \<Rightarrow> clock \<Rightarrow> instant \<Rightarrow> 'w integration_client" where
  "as_integration_client c monotonic utcnow = \<lparr> ic_provider_name = bc_provider_name c,
     ic_health_check = health_check c monotonic utcnow, ic_close = close_client c \<rparr>"

section \<open>Secrets\<close>

record ('e, 'w) secret_provider =
  sp_get_secret :: "string \<Rightarrow> 'w \<Rightarrow> string option"
  sp_rotate_secret :: "string \<Rightarrow> string \<Rightarrow> 'w \<Rightarrow> 'e + 'w"

definition environment_get_secret :: "string \<Rightarrow> environment \<Rightarrow> string option" where
  "environment_get_secret key env = env key"

definition environment_rotate_secret :: "string \<Rightarrow> string \<Rightarrow> environment \<Rightarrow> string + environment" where
  "environment_rotate_secret key new_value env =
     Inl (''EnvironmentSecretProvider does not support rotation. To rotate '' @ [CHR 0x27] @ key @ [CHR 0x27] @
          '', implement a custom SecretProvider backed by AWS Secrets Manager, GCP Secret Manager, HashiCorp Vault, or similar. '' @
          ''See module docstring for examples.'')"

definition EnvironmentSecretProvider :: "(string, environment) secret_provider" where
  "EnvironmentSecretProvider = \<lparr> sp_get_secret = environment_get_secret, sp_rotate_secret = environment_rotate_secret \<rparr>"

record rotation_policy =
  rp_rotation_interval_days :: int
  rp_warn_before_expiry_days :: int
  rp_require_rotation :: bool

definition default_rotation_policy :: rotation_policy where
  "default_rotation_policy = \<lparr> rp_rotation_interval_days = 90, rp_warn_before_expiry_days = 14, rp_require_rotation = False \<rparr>"

record credential_status =
  cr_provider_name :: string
  cr_credential_key :: string
  cr_is_valid :: bool
  cr_expires_at :: "instant option"
  cr_days_until_expiry :: "int option"
  cr_needs_rotation :: bool
  cr_last_rotated_at :: "instant option"

text \<open>The whole days of a time span, as the attribute \<open>days\<close> of \<open>timedelta\<close>: rounded down.\<close>

definition delta_days :: "int \<Rightarrow> int" where
  "delta_days d = d div seconds 86400"

definition check_credential_health :: "instant \<Rightarrow> credential_status \<Rightarrow> rotation_policy \<Rightarrow> bool \<times> string" where
  "check_credential_health now c p =
     (if \<not> cr_is_valid c then (False, ''Credential is not valid'')
      else case cr_expires_at c of
        Some e \<Rightarrow>
          if e < now then (False, ''Credential expired '' @ show_int (delta_days (now - e)) @ '' days ago'')
          else (case cr_days_until_expiry c of
            Some days \<Rightarrow>
              if days < rp_warn_before_expiry_days p
              then (False, ''Credential expiring in '' @ show_int days @ '' days (threshold: '' @ show_int (rp_warn_before_expiry_days p) @ '')'')
              else if rp_require_rotation p \<and> cr_needs_rotation c then (False, ''Credential rotation required by policy'')
              else (True, [])
          | None \<Rightarrow> if rp_require_rotation p \<and> cr_needs_rotation c then (False, ''Credential rotation required by policy'')
                    else (True, []))
      | None \<Rightarrow> if rp_require_rotation p \<and> cr_needs_rotation c then (False, ''Credential rotation required by policy'')
                else (True, []))"

section \<open>Properties\<close>

lemma find_mode: "mode_of_value v = Some m \<longleftrightarrow> v = mode_value m"
  by (cases m) (auto simp: mode_of_value_def ALL_MODES_def)

lemma getenv_cases: "getenv env n d = Some v \<longleftrightarrow> env n = Some v \<or> env n = None \<and> d = Some v"
  by (auto simp: getenv_def split: option.split)

text \<open>What the factory returns: the constraints hold, the base URL resolves, and the environment
  can disable an integration, but it cannot enable one whose default is disabled.\<close>

lemma built_settings:
  assumes "build_integration_settings env name pre d = Inr s"
  shows "1 / 10 \<le> is_timeout_seconds s \<and> 0 \<le> is_max_retries s" "is_base_url s \<noteq> []"
    and "effective_base_url s =
      Inr (if is_mode s = SANDBOX \<and> truthy_list (is_sandbox_base_url s) then the (is_sandbox_base_url s) else is_base_url s)"
    and "is_enabled s \<Longrightarrow> df_enabled d \<noteq> Some False"
  using assms
  by (auto simp: build_integration_settings_def make_integration_settings_def bind_sum_Inr_iff effective_base_url_def
      Let_def truthy_list_iff parse_enabled_def or_default_def split: if_splits option.splits)

lemma environment_cannot_enable:
  "build_integration_settings (\<lambda>n. if n = ''STRIPE_ENABLED'' then Some ''true'' else None) ''stripe'' ''STRIPE''
     \<lparr> df_mode = None, df_enabled = Some False, df_timeout_seconds = None, df_max_retries = None,
       df_base_url = Some ''https://api.stripe.com'', df_sandbox_base_url = None, df_api_key = None, df_api_secret = None,
       df_webhook_secret = None \<rparr> = Inr s \<Longrightarrow> \<not> is_enabled s"
  using built_settings(4) by fastforce

text \<open>Production validation accepts a base URL that is the configured sandbox URL.\<close>

lemma sandbox_url_in_production:
  "validate_for_production \<lparr> is_provider_name = ''stripe'', is_enabled = True, is_mode = PRODUCTION,
     is_base_url = ''https://api.stripe.com/test'', is_sandbox_base_url = Some ''https://api.stripe.com/test'',
     is_timeout_seconds = 30, is_max_retries = 3, is_api_key = Some ''k'', is_api_secret = None, is_webhook_secret = None \<rparr> = Inr ()"
  by code_simp

text \<open>A registry after a sequence of registrations: the last one of each name counts.\<close>

fun register_all :: "settings_registry \<Rightarrow> integration_settings list \<Rightarrow> integration_error + settings_registry" where
  "register_all reg [] = Inr reg"
| "register_all reg (s # ss) = bind_sum (register_settings reg s) (\<lambda>reg'. register_all reg' ss)"

definition production_ready :: "integration_settings \<Rightarrow> bool" where
  "production_ready s \<longleftrightarrow> truthy_list (is_api_key s) \<and> is_base_url s \<noteq> [] \<and> \<not> contains_text ''sandbox'' (py_lower (is_base_url s))"

lemma validate_for_production_iff: "validate_for_production s = Inr () \<longleftrightarrow> is_mode s = PRODUCTION \<and> production_ready s"
  by (auto simp: validate_for_production_def production_ready_def Let_def)

lemma validate_all_names: "fst ` set (validate_all reg) =
    {n. \<exists>s. (n, s) \<in> set reg \<and> is_mode s = PRODUCTION \<and> \<not> production_ready s}"
proof (induction reg)
  case (Cons e reg)
  then show ?case
    using validate_for_production_iff[of "snd e"]
    by (cases e) (auto split: sum.splits)
qed simp

lemma register_all_lookup: "register_all reg ss = Inr reg' \<Longrightarrow> distinct (map fst reg) \<Longrightarrow>
    distinct (map fst reg') \<and> (\<forall>n. get_settings reg' n =
      (case find (\<lambda>s. is_provider_name s = n) (rev ss) of Some s \<Rightarrow> Some s | None \<Rightarrow> get_settings reg n))"
proof (induction reg ss rule: register_all.induct)
  case (2 reg s ss)
  let ?reg = "AList.update (is_provider_name s) s reg"
  have r: "register_settings reg s = Inr ?reg" "register_all ?reg ss = Inr reg'"
    using 2(2) by (auto simp: bind_sum_Inr_iff register_settings_def split: if_splits)
  have d: "distinct (map fst ?reg)" using 2(3) by (simp add: distinct_update)
  have find_snoc: "find P (xs @ [y]) = (case find P xs of Some x \<Rightarrow> Some x | None \<Rightarrow> if P y then Some y else None)"
    for P and xs :: "integration_settings list" and y by (induction xs) auto
  show ?case
    using 2(1)[OF r(2) d] by (auto simp: find_snoc get_settings_def update_conv split: option.split)
qed simp

text \<open>The registry of integrations.  After any sequence of registrations, a look-up returns
  the last settings registered under the name, and the batch validation reports exactly the
  names whose settings are in production mode without a key, or with an empty or sandbox
  base URL.\<close>

theorem registry_validation_is_exact:
  assumes "register_all [] ss = Inr reg"
  shows "(\<forall>n. get_settings reg n = find (\<lambda>s. is_provider_name s = n) (rev ss)) \<and>
    fst ` set (validate_all reg) =
      {n. \<exists>s. find (\<lambda>s. is_provider_name s = n) (rev ss) = Some s \<and> is_mode s = PRODUCTION \<and> \<not> production_ready s}"
proof -
  have d: "distinct (map fst reg)" and l: "\<And>n. get_settings reg n = find (\<lambda>s. is_provider_name s = n) (rev ss)"
    using register_all_lookup[OF assms] by (auto simp: get_settings_def split: option.splits)
  have "(n, s) \<in> set reg \<longleftrightarrow> get_settings reg n = Some s" for n s
    using d by (simp add: get_settings_def)
  then show ?thesis using l validate_all_names[of reg] by simp
qed

definition demo_integration :: "string \<Rightarrow> integration_mode \<Rightarrow> string option \<Rightarrow> integration_settings" where
  "demo_integration name mode key = \<lparr> is_provider_name = name, is_enabled = True, is_mode = mode,
     is_base_url = ''https://api.example'', is_sandbox_base_url = None, is_timeout_seconds = 30, is_max_retries = 3,
     is_api_key = key, is_api_secret = None, is_webhook_secret = None \<rparr>"

lemma registry_validation_is_exact_witness:
  "\<exists>reg. register_all [] [demo_integration ''a'' PRODUCTION (Some ''k''), demo_integration ''b'' SANDBOX None,
       demo_integration ''a'' PRODUCTION None] = Inr reg \<and> fst ` set (validate_all reg) = {''a''}"
proof -
  let ?ss = "[demo_integration ''a'' PRODUCTION (Some ''k''), demo_integration ''b'' SANDBOX None, demo_integration ''a'' PRODUCTION None]"
  let ?reg = "[(''a'', demo_integration ''a'' PRODUCTION None), (''b'', demo_integration ''b'' SANDBOX None)]"
  have r: "register_all [] ?ss = Inr ?reg" by (simp add: register_settings_def demo_integration_def)
  have "fst ` set (validate_all ?reg) = {''a''}"
    using registry_validation_is_exact[OF r]
    by (auto simp: demo_integration_def production_ready_def)
  then show ?thesis using r by blast
qed

text \<open>The health check of a client never raises and asks the provider, whatever the mode of
  the client: over the HTTP client it runs the request hooks and sends exactly one GET also
  in dry-run mode, and it reports healthy exactly when a 2xx response came back.\<close>

theorem health_check_sends_in_every_mode:
  assumes "bc_send c = (\<lambda>raise_codes rq w. send_request cfg req_hooks resp_hooks transport ctxvars raise_codes rq w)"
    and "bc_health_check_url c = url" "url \<noteq> []"
    and "run_request_hooks req_hooks ''GET'' url None (merge_request_headers cfg ctxvars []) w = (Inr headers, w1)"
    and "transport ((plain_request ''GET'' url)\<lparr> rq_headers := headers \<rparr>) w1 = (outcome, w2)"
  shows "\<exists>call. health_check (c\<lparr> bc_mode := mode \<rparr>) clk now w =
      (fst (health_check c clk now w), run_response_hooks resp_hooks call w2) \<and>
    (ih_healthy (fst (health_check c clk now w)) \<longleftrightarrow> (\<exists>r. outcome = Inr r \<and> is_success r))"
proof -
  obtain result response err where t: "try_request False outcome = (result, response, err)"
    by (cases "try_request False outcome")
  obtain call where s1: "send_request cfg req_hooks resp_hooks transport ctxvars False (plain_request ''GET'' url) w =
      (result, run_response_hooks resp_hooks call w2)"
    using assms(4,5) t by (simp add: send_request_def plain_request_def Let_def)
  note s = s1 arg_cong[OF t, of fst, simplified, symmetric]
  have m: "health_check (c\<lparr> bc_mode := mode \<rparr>) clk now w = health_check c clk now w"
    by (simp add: health_check_def base_request_def split: sum.split prod.split)
  have "(\<exists>r. result = Inr r \<and> is_success r) \<longleftrightarrow> (\<exists>r. outcome = Inr r \<and> is_success r)"
    unfolding s(2) by (cases outcome) (auto simp: try_request_def Let_def split: httpx_exn.splits)
  moreover have "ih_healthy (fst (health_check c clk now w)) \<longleftrightarrow> (\<exists>r. result = Inr r \<and> is_success r)"
    "snd (health_check c clk now w) = run_response_hooks resp_hooks call w2"
    using assms(3) s(1) by (auto simp: health_check_def base_request_def assms(1,2) make_integration_health_def split: sum.split)
  ultimately show ?thesis unfolding m by (metis prod.collapse)
qed

definition demo_http_config :: http_client_config where
  "demo_http_config = \<lparr> hc_base_url = [], hc_timeout_seconds = 30, hc_connect_timeout_seconds = 10, hc_read_timeout_seconds = 30,
     hc_write_timeout_seconds = 30, hc_pool_max_connections = 100, hc_pool_max_keepalive = 20, hc_default_headers = [],
     hc_propagate_correlation = False, hc_follow_redirects = True, hc_retry_enabled = False, hc_retry_max_attempts = 3,
     hc_retry_backoff_base_seconds = 1, hc_retry_backoff_max_seconds = 30, hc_retry_backoff_multiplier = 2,
     hc_retry_backoff_jitter = True, hc_circuit_breaker_enabled = False, hc_circuit_breaker_failure_threshold = 5,
     hc_circuit_breaker_recovery_timeout_seconds = 30, hc_log_request_body = False, hc_log_response_body = False \<rparr>"

definition demo_answer :: http_response where
  "demo_answer = \<lparr> hr_status_code = 503, hr_headers = [], hr_reason_phrase = [], hr_url = ''/health'', hr_method = ''GET'',
     hr_content = [] \<rparr>"

definition demo_client :: "nat base_client" where
  "demo_client = \<lparr> bc_send = (\<lambda>raise_codes rq w. send_request demo_http_config [] [] (\<lambda>rq n. (Inr demo_answer, n + 1)) [] raise_codes rq w),
     bc_close_http = id, bc_provider_name = ''stripe'', bc_mode = SANDBOX, bc_health_check_url = ''/health'' \<rparr>"

lemma health_check_sends_in_every_mode_witness:
  "snd (health_check (demo_client\<lparr> bc_mode := DRY_RUN \<rparr>) (\<lambda>_. 0) 0 0) = 1 \<and> \<not> ih_healthy (fst (health_check demo_client (\<lambda>_. 0) 0 0))"
  using health_check_sends_in_every_mode[of demo_client demo_http_config "[]" "[]" "\<lambda>rq n. (Inr demo_answer, n + 1)" "[]" "''/health''" 0
      "[]" 0 "Inr demo_answer" 1 DRY_RUN "\<lambda>_. 0" 0]
  by (auto simp: demo_client_def merge_request_headers_def demo_http_config_def is_success_def demo_answer_def)

text \<open>When a credential is healthy; the interval of the policy is not looked at.\<close>

lemma credential_healthy_iff: "fst (check_credential_health now c p) \<longleftrightarrow>
    cr_is_valid c \<and> (\<forall>e. cr_expires_at c = Some e \<longrightarrow> now \<le> e) \<and>
    (\<forall>e d. cr_expires_at c = Some e \<and> cr_days_until_expiry c = Some d \<longrightarrow> rp_warn_before_expiry_days p \<le> d) \<and>
    \<not> (rp_require_rotation p \<and> cr_needs_rotation c)"
  by (auto simp: check_credential_health_def split: option.split)

lemma rotation_interval_is_ignored:
  "check_credential_health now c (p\<lparr> rp_rotation_interval_days := n \<rparr>) = check_credential_health now c p"
  by (auto simp: check_credential_health_def split: option.split)

end
