(* ===== verification/Metrics.thy ===== *)
theory Metrics
  imports Settings_Sections
begin

text \<open>
  core/metrics.py: the collectors of the template, the module-level instance with its start
  and stop, and the collector of outbound requests.

  \<open>prometheus_client\<close> is a third-party package: its registry is a state \<open>'reg\<close>, and
  \<open>register\<close> (the constructor of a collector) and \<open>record\<close> (a labelled update of a collector)
  are arguments that may fail.  A collector is its name, and a labelled update its name, label
  values and amount.
\<close>

section \<open>Collectors\<close>

datatype collector_kind = Counter | Gauge | Histogram

record collector =
  cl_kind :: collector_kind
  cl_name :: string
  cl_help :: string
  cl_labels :: "string list"

definition collector_specs :: "(collector_kind \<times> string \<times> string \<times> string list) list" where
  "collector_specs =
     [(Counter, ''http_requests_total'', ''Total HTTP requests'', [''method'', ''path_template'', ''status_code'']),
      (Histogram, ''http_request_duration_seconds'', ''HTTP request latency in seconds'', [''method'', ''path_template'']),
      (Gauge, ''http_requests_in_progress'', ''HTTP requests currently being processed'', [''method'']),
      (Counter, ''job_executions_total'', ''Total job executions'', [''job_name'', ''status'']),
      (Histogram, ''job_duration_seconds'', ''Job execution duration in seconds'', [''job_name'']),
      (Gauge, ''jobs_in_progress'', ''Jobs currently being executed'', [''job_name'']),
      (Gauge, ''job_queue_size'', ''Number of jobs waiting in the queue'', []),
      (Counter, ''webhook_events_received_total'', ''Total webhook events received'', [''provider'', ''event_type'', ''status'']),
      (Histogram, ''webhook_processing_duration_seconds'', ''Webhook processing latency in seconds'', [''provider'']),
      (Counter, ''webhook_signature_failures_total'', ''Total webhook signature verification failures'', [''provider'']),
      (Counter, ''outbound_requests_total'', ''Total outbound HTTP requests'', [''provider'', ''method'', ''status_code'']),
      (Histogram, ''outbound_request_duration_seconds'', ''Outbound HTTP request latency in seconds'', [''provider'', ''method'']),
      (Gauge, ''outbound_circuit_breaker_state'', ''Circuit breaker state (0=closed, 1=open, 2=half-open)'', [''provider'']),
      (Counter, ''retries_total'', ''Total retry attempts'', [''component'', ''reason'']),
      (Counter, ''dead_letter_events_total'', ''Total events moved to dead letter queue'', [''component'']),
      (Counter, ''error_rate'', ''Error occurrence count'', [''component'', ''error_type''])]"

definition metric_name :: "string \<Rightarrow> string \<Rightarrow> string" where
  "metric_name ns suffix = ns @ ''_'' @ suffix"

definition metrics_collectors :: "string \<Rightarrow> collector list" where
  "metrics_collectors ns =
     map (\<lambda>(kind, suffix, help, labels).
       \<lparr> cl_kind = kind, cl_name = metric_name ns suffix, cl_help = help, cl_labels = labels \<rparr>) collector_specs"

text \<open>The container keeps the collectors under the names of its fields, the suffixes.\<close>

record template_metrics =
  tm_namespace :: string
  tm_enabled :: bool
  tm_collectors :: "(string \<times> collector) list"

text \<open>The collectors are constructed one after the other; those before a failure stay in the
  registry.\<close>

fun register_collectors :: "('reg \<Rightarrow> collector \<Rightarrow> string + 'reg) \<Rightarrow> collector list \<Rightarrow> 'reg \<Rightarrow> (string + unit) \<times> 'reg" where
  "register_collectors register [] reg = (Inr (), reg)"
| "register_collectors register (c # cs) reg =
     (case register reg c of Inl e \<Rightarrow> (Inl e, reg) | Inr reg' \<Rightarrow> register_collectors register cs reg')"

definition build_metrics ::
  "('reg \<Rightarrow> collector \<Rightarrow> string + 'reg) \<Rightarrow> metrics_settings \<Rightarrow> 'reg \<Rightarrow> (string + template_metrics) \<times> 'reg" where
  "build_metrics register settings reg =
     (let cs = metrics_collectors (METRICS_NAMESPACE settings) in
      case register_collectors register cs reg of
        (Inl e, reg') \<Rightarrow> (Inl e, reg')
      | (Inr (), reg') \<Rightarrow>
          (Inr \<lparr> tm_namespace = METRICS_NAMESPACE settings, tm_enabled = True,
                 tm_collectors = zip (map (\<lambda>(kind, suffix, help, labels). suffix) collector_specs) cs \<rparr>, reg'))"

section \<open>The module state\<close>

record 'reg metrics_module =
  mm_available :: "bool option"
  mm_instance :: "template_metrics option"
  mm_registry :: 'reg

definition check_prometheus_availability :: "bool \<Rightarrow> 'reg metrics_module \<Rightarrow> bool \<times> 'reg metrics_module" where
  "check_prometheus_availability importable st =
     (case mm_available st of
        Some a \<Rightarrow> (a, st)
      | None \<Rightarrow> (importable, st\<lparr> mm_available := Some importable \<rparr>))"

definition init_metrics ::
  "bool \<Rightarrow> ('reg \<Rightarrow> collector \<Rightarrow> string + 'reg) \<Rightarrow> metrics_settings \<Rightarrow> 'reg metrics_module
   \<Rightarrow> (string + template_metrics option) \<times> 'reg metrics_module" where
  "init_metrics importable register settings st =
     (if \<not> METRICS_ENABLED settings then (Inr None, st)
      else case check_prometheus_availability importable st of
        (False, st') \<Rightarrow>
          (Inl ''Metrics are enabled but prometheus_client is not installed. Install: pip install prometheus-client'', st')
      | (True, st') \<Rightarrow>
          (case build_metrics register settings (mm_registry st') of
             (Inl e, reg) \<Rightarrow> (Inl e, st'\<lparr> mm_registry := reg \<rparr>)
           | (Inr tm, reg) \<Rightarrow> (Inr (Some tm), st'\<lparr> mm_instance := Some tm, mm_registry := reg \<rparr>)))"

definition get_metrics :: "'reg metrics_module \<Rightarrow> template_metrics option" where
  "get_metrics st = mm_instance st"

definition shutdown_metrics :: "'reg metrics_module \<Rightarrow> 'reg metrics_module" where
  "shutdown_metrics st = (case mm_instance st of None \<Rightarrow> st | Some _ \<Rightarrow> st\<lparr> mm_instance := None \<rparr>)"

definition build_metrics_endpoint_response ::
  "bool \<Rightarrow> ('reg \<Rightarrow> string) \<Rightarrow> 'reg metrics_module \<Rightarrow> string \<times> 'reg metrics_module" where
  "build_metrics_endpoint_response importable generate_latest st =
     (case check_prometheus_availability importable st of
        (False, st') \<Rightarrow> ([], st')
      | (True, st') \<Rightarrow> (generate_latest (mm_registry st'), st'))"

definition get_path_template_label :: "string \<Rightarrow> bool \<Rightarrow> string" where
  "get_path_template_label path include_path_labels = (if include_path_labels then path else ''aggregated'')"

section \<open>Outbound requests\<close>

datatype metric_op =
    Inc string "string list"
  | Dec string "string list"
  | Observe string "string list" rat

fun apply_ops :: "('reg \<Rightarrow> metric_op \<Rightarrow> string + 'reg) \<Rightarrow> metric_op list \<Rightarrow> 'reg \<Rightarrow> 'reg" where
  "apply_ops record_op [] reg = reg"
| "apply_ops record_op (m # ms) reg = (case record_op reg m of Inl e \<Rightarrow> reg | Inr reg' \<Rightarrow> apply_ops record_op ms reg')"

text \<open>\<open>urlparse(url).netloc\<close>: what stands between \<open>//\<close> after the scheme and the next slash,
  question mark or hash.\<close>

definition is_scheme_char :: "char \<Rightarrow> bool" where
  "is_scheme_char c \<longleftrightarrow> (let n = of_char c :: nat in
     (48 \<le> n \<and> n \<le> 57) \<or> (65 \<le> n \<and> n \<le> 90) \<or> (97 \<le> n \<and> n \<le> 122) \<or> c \<in> {CHR ''+'', CHR ''-'', CHR ''.''})"

definition drop_scheme :: "string \<Rightarrow> string" where
  "drop_scheme url = (let scheme = takeWhile is_scheme_char url; rest = drop (length scheme) url in
     if scheme \<noteq> [] \<and> is_scheme_char (hd scheme) \<and> \<not> (let n = of_char (hd scheme) :: nat in n < 65)
        \<and> rest \<noteq> [] \<and> hd rest = CHR '':'' then tl rest else url)"

definition url_netloc :: "string \<Rightarrow> string" where
  "url_netloc url = (let rest = drop_scheme url in
     if starts_with ''//'' rest then takeWhile (\<lambda>c. c \<notin> {CHR ''/'', CHR ''?'', CHR ''#''}) (drop 2 rest) else [])"

definition outbound_ops :: "string \<Rightarrow> string \<Rightarrow> int \<Rightarrow> rat \<Rightarrow> string option \<Rightarrow> bool \<Rightarrow> metric_op list" where
  "outbound_ops meth url status_code duration_seconds error is_retry =
     (let provider = (if url_netloc url \<noteq> [] then url_netloc url else ''unknown'') in
      [Inc ''outbound_requests_total'' [provider, meth, show_int status_code],
       Observe ''outbound_request_duration_seconds'' [provider, meth] duration_seconds] @
      (if is_retry then [Inc ''retries_total'' [''http_client'', ''http_request_retry'']] else []) @
      (if truthy_list error then [Inc ''error_rate'' [''http_client'', ''http_client_error'']] else []))"

definition record_request ::
  "('reg \<Rightarrow> metric_op \<Rightarrow> string + 'reg) \<Rightarrow> template_metrics option \<Rightarrow> string \<Rightarrow> string \<Rightarrow> int \<Rightarrow> rat
   \<Rightarrow> string option \<Rightarrow> bool \<Rightarrow> 'reg \<Rightarrow> 'reg" where
  "record_request record_op metrics meth url status_code duration_seconds error is_retry reg =
     (case metrics of
        None \<Rightarrow> reg
      | Some tm \<Rightarrow>
          if \<not> tm_enabled tm then reg
          else apply_ops record_op (outbound_ops meth url status_code duration_seconds error is_retry) reg)"

section \<open>Properties\<close>

lemma collector_names_distinct: "distinct (map cl_name (metrics_collectors ns))"
  by (simp add: metrics_collectors_def collector_specs_def metric_name_def)

text \<open>A registry that refuses a name that it holds, as \<open>prometheus_client\<close> documents of its own.\<close>

definition refuses_duplicates :: "('reg \<Rightarrow> collector \<Rightarrow> string + 'reg) \<Rightarrow> ('reg \<Rightarrow> string set) \<Rightarrow> bool" where
  "refuses_duplicates register names \<longleftrightarrow>
     (\<forall>reg c. cl_name c \<in> names reg \<longrightarrow> (\<exists>e. register reg c = Inl e)) \<and>
     (\<forall>reg c reg'. register reg c = Inr reg' \<longrightarrow> names reg' = insert (cl_name c) (names reg))"

lemma refusesD:
  assumes "refuses_duplicates register names"
  shows "cl_name c \<in> names reg \<Longrightarrow> \<exists>e. register reg c = Inl e"
    and "register reg c = Inr reg' \<Longrightarrow> names reg' = insert (cl_name c) (names reg)"
  using assms unfolding refuses_duplicates_def by blast+

lemma register_all_names:
  assumes "refuses_duplicates register names" "register_collectors register cs reg = (Inr (), reg')"
  shows "names reg' = cl_name ` set cs \<union> names reg"
  using assms(2) by (induction cs arbitrary: reg) (auto split: sum.splits dest: refusesD(2) [OF assms(1)])

lemma init_registers:
  assumes "refuses_duplicates register names" "METRICS_ENABLED settings"
    and "init_metrics importable register settings st = (Inr r, st')"
  shows "cl_name ` set (metrics_collectors (METRICS_NAMESPACE settings)) \<subseteq> names (mm_registry st')"
    and "\<exists>tm. mm_instance st' = Some tm" and "mm_available st' = Some True"
  using assms(2,3)
  by (auto simp: init_metrics_def check_prometheus_availability_def build_metrics_def Let_def
      dest: register_all_names [OF assms(1)] split: prod.splits sum.splits bool.splits option.splits if_splits unit.splits)

text \<open>Shutting the metrics down does not take the collectors out of the registry, so a second
  start with the same namespace fails.\<close>

lemma metrics_cannot_restart:
  assumes "refuses_duplicates register names" "METRICS_ENABLED settings"
    and "init_metrics importable register settings st = (Inr r, st1)"
  shows "\<exists>e. fst (init_metrics importable register settings (shutdown_metrics st1)) = Inl e"
proof -
  define c where "c = hd (metrics_collectors (METRICS_NAMESPACE settings))"
  obtain cs where cs: "metrics_collectors (METRICS_NAMESPACE settings) = c # cs"
    unfolding c_def by (simp add: metrics_collectors_def collector_specs_def)
  have "cl_name c \<in> names (mm_registry st1)" using init_registers(1) [OF assms] cs by auto
  then obtain e where e: "register (mm_registry st1) c = Inl e" using refusesD(1) [OF assms(1)] by blast
  have av: "mm_available st1 = Some True" using init_registers(3) [OF assms] .
  show ?thesis using e av assms(2)
    by (auto simp: shutdown_metrics_def init_metrics_def check_prometheus_availability_def build_metrics_def cs
        split: option.split)
qed

text \<open>Recording never fails, and a disabled collector records nothing.\<close>

lemma disabled_collector_records_nothing:
  "metrics = None \<or> (\<exists>tm. metrics = Some tm \<and> \<not> tm_enabled tm) \<Longrightarrow>
   record_request record_op metrics meth url code d err retry reg = reg"
  by (auto simp: record_request_def)

text \<open>The provider label is the whole authority of the URL, its credentials included.\<close>

lemma credentials_reach_the_label:
  "hd (outbound_ops ''GET'' ''https://user:pw@host/x'' 200 d None False) =
   Inc ''outbound_requests_total'' [''user:pw@host'', ''GET'', ''200'']"
  by code_simp

end
