(* ===== verification/Api_Errors.thy ===== *)
theory Api_Errors
  imports Authorization
begin

text \<open>
  api/errors.py and the error envelope of api/contracts.py: how an exception becomes the
  payload of a response, and which handler is registered for which class.

  An exception is its class, as the list of class names of its method resolution order, with
  the attributes that the handlers read; \<open>ax_exception_in_ctx\<close> tells whether an item of
  \<open>errors()\<close> carries an exception object in its \<open>ctx\<close>, as pydantic puts there for a \<open>ValueError\<close>
  of a validator.  A response is its status, JSON content and headers; None is the
  \<open>TypeError\<close> of a content that JSON does not have.
\<close>

definition STATUS_CODE_ERROR_CODES :: "(int \<times> string) list" where
  "STATUS_CODE_ERROR_CODES =
     [(400, ''bad_request''), (401, ''unauthorized''), (403, ''forbidden''), (404, ''not_found''), (409, ''conflict''),
      (413, ''payload_too_large''), (422, ''validation_error''), (429, ''rate_limited''), (408, ''request_timeout''),
      (504, ''request_timeout''), (500, ''internal_server_error'')]"

definition is_ascii_upper :: "char \<Rightarrow> bool" where
  "is_ascii_upper c \<longleftrightarrow> (let n = of_char c :: nat in 65 \<le> n \<and> n \<le> 90)"

text \<open>The substitution puts an underscore before every capital but a leading one.\<close>

definition split_camel :: "string \<Rightarrow> string" where
  "split_camel s = (case s of [] \<Rightarrow> []
     | c # cs \<Rightarrow> c # concat (map (\<lambda>d. if is_ascii_upper d then [CHR ''_'', d] else [d]) cs))"

definition removesuffix :: "string \<Rightarrow> string \<Rightarrow> string" where
  "removesuffix suffix s =
     (if suffix \<noteq> [] \<and> drop (length s - length suffix) s = suffix then take (length s - length suffix) s else s)"

definition camel_to_snake :: "string \<Rightarrow> string" where
  "camel_to_snake s = removesuffix ''_exception'' (py_lower (split_camel s))"

definition extract_error_message :: "json \<Rightarrow> string \<Rightarrow> string" where
  "extract_error_message detail dflt = (case detail of JStr s \<Rightarrow> if py_strip s \<noteq> [] then s else dflt | _ \<Rightarrow> dflt)"

record api_exception =
  ax_mro :: "string list"
  ax_status_code :: int
  ax_detail :: json
  ax_headers :: "(string \<times> string) list"
  ax_errors :: "dict list"
  ax_exception_in_ctx :: bool

definition is_a :: "api_exception \<Rightarrow> string \<Rightarrow> bool" where
  "is_a exc c \<longleftrightarrow> c \<in> set (ax_mro exc)"

definition resolve_error_code :: "api_exception \<Rightarrow> int \<Rightarrow> string" where
  "resolve_error_code exc status_code =
     (if is_a exc ''RequestValidationError'' then the (map_of STATUS_CODE_ERROR_CODES 422)
      else if is_a exc ''fastapi.HTTPException''
      then (let code = camel_to_snake (hd (ax_mro exc)) in
            if hd (ax_mro exc) \<noteq> ''fastapi.HTTPException'' \<and> code \<noteq> [] then code
            else case map_of STATUS_CODE_ERROR_CODES status_code of Some c \<Rightarrow> c | None \<Rightarrow> ''http_error'')
      else the (map_of STATUS_CODE_ERROR_CODES 500))"

record api_response =
  ap_status_code :: int
  ap_content :: json
  ap_headers :: "(string \<times> string) list"

text \<open>The envelope; a missing \<open>details\<close> is left out.\<close>

definition api_error_detail :: "string \<Rightarrow> string \<Rightarrow> dict list option \<Rightarrow> dict" where
  "api_error_detail code message details =
     [(''code'', JStr code), (''message'', JStr message)] @
     (case details of None \<Rightarrow> [] | Some ds \<Rightarrow> [(''details'', JList (map JDict ds))])"

definition build_api_error_response ::
  "int \<Rightarrow> string \<Rightarrow> string \<Rightarrow> dict list option \<Rightarrow> (string \<times> string) list \<Rightarrow> api_response" where
  "build_api_error_response status_code code message details headers =
     \<lparr> ap_status_code = status_code, ap_content = JDict [(''error'', JDict (api_error_detail code message details))],
       ap_headers = headers \<rparr>"

definition custom_exception_handler :: "api_exception \<Rightarrow> api_response option" where
  "custom_exception_handler exc =
     Some (build_api_error_response (ax_status_code exc) (resolve_error_code exc (ax_status_code exc))
       (extract_error_message (ax_detail exc) ''Request failed.'') None [])"

definition http_exception_handler :: "api_exception \<Rightarrow> api_response option" where
  "http_exception_handler exc =
     Some (build_api_error_response (ax_status_code exc) (resolve_error_code exc (ax_status_code exc))
       (extract_error_message (ax_detail exc) ''Request failed.'') None [])"

definition request_validation_exception_handler :: "api_exception \<Rightarrow> api_response option" where
  "request_validation_exception_handler exc =
     (if ax_exception_in_ctx exc then None
      else Some (build_api_error_response 422 (resolve_error_code exc 422) ''Request validation failed.'' (Some (ax_errors exc)) []))"

definition unhandled_exception_handler :: "api_exception \<Rightarrow> api_response option" where
  "unhandled_exception_handler exc =
     Some (build_api_error_response 500 (resolve_error_code exc 500) ''Internal server error.'' None [])"

text \<open>The registered handlers; the framework asks them for the classes of an exception in
  their order.\<close>

definition API_EXCEPTION_HANDLERS :: "(string \<times> (api_exception \<Rightarrow> api_response option)) list" where
  "API_EXCEPTION_HANDLERS =
     [(''CustomException'', custom_exception_handler), (''fastapi.HTTPException'', http_exception_handler),
      (''RequestValidationError'', request_validation_exception_handler), (''Exception'', unhandled_exception_handler)]"

fun lookup_handler :: "(string \<times> 'h) list \<Rightarrow> string list \<Rightarrow> 'h option" where
  "lookup_handler handlers [] = None"
| "lookup_handler handlers (c # cs) = (case map_of handlers c of Some h \<Rightarrow> Some h | None \<Rightarrow> lookup_handler handlers cs)"

definition handle_api_exception :: "api_exception \<Rightarrow> api_response option" where
  "handle_api_exception exc = Option.bind (lookup_handler API_EXCEPTION_HANDLERS (ax_mro exc)) (\<lambda>h. h exc)"

section \<open>Properties\<close>

text \<open>The class names that the repository and the framework raise.\<close>

definition http_mro :: "string list \<Rightarrow> string list" where
  "http_mro cs = cs @ [''fastapi.HTTPException'', ''starlette.HTTPException'', ''Exception'']"

lemma lookup_handler_Exception: "''Exception'' \<in> set cs \<Longrightarrow> \<exists>h. lookup_handler API_EXCEPTION_HANDLERS cs = Some h"
  by (induction cs) (auto simp: API_EXCEPTION_HANDLERS_def split: option.split)

lemma lookup_handler_cases: "lookup_handler API_EXCEPTION_HANDLERS cs = Some h \<Longrightarrow>
    h \<in> {custom_exception_handler, http_exception_handler, request_validation_exception_handler, unhandled_exception_handler}"
  by (induction cs) (auto simp: API_EXCEPTION_HANDLERS_def split: option.splits if_splits)

lemma handler_response: "h \<in> {custom_exception_handler, http_exception_handler, request_validation_exception_handler,
      unhandled_exception_handler} \<Longrightarrow>
    (h exc = None \<and> h = request_validation_exception_handler \<and> ax_exception_in_ctx exc) \<or>
    (\<exists>status code message details. h exc = Some (build_api_error_response status code message details []))"
  by (elim insertE emptyE; simp only: custom_exception_handler_def http_exception_handler_def unhandled_exception_handler_def
      request_validation_exception_handler_def split: if_split) blast+

lemma every_exception_is_answered:
  assumes "is_a exc ''Exception''" "\<not> ax_exception_in_ctx exc"
  shows "\<exists>status code message details. handle_api_exception exc = Some (build_api_error_response status code message details [])"
proof -
  obtain h where h: "lookup_handler API_EXCEPTION_HANDLERS (ax_mro exc) = Some h"
    using lookup_handler_Exception assms(1) unfolding is_a_def by blast
  show ?thesis using handler_response [OF lookup_handler_cases [OF h], of exc] h assms(2)
    by (auto simp: handle_api_exception_def)
qed

text \<open>The headers of an HTTP exception, such as \<open>WWW-Authenticate\<close>, are dropped.\<close>

lemma handlers_drop_headers:
  assumes "handle_api_exception exc = Some r"
  shows "ap_headers r = []"
proof -
  obtain h where h: "lookup_handler API_EXCEPTION_HANDLERS (ax_mro exc) = Some h" "h exc = Some r"
    using assms by (auto simp: handle_api_exception_def bind_eq_Some_conv)
  show ?thesis using handler_response [OF lookup_handler_cases [OF h(1)], of exc] h(2)
    by (auto simp: build_api_error_response_def)
qed

text \<open>A body that a validator refuses with a \<open>ValueError\<close> is not answered with 422: the handler
  itself fails.\<close>

lemma refused_value_breaks_the_handler: "hd (ax_mro exc) = ''RequestValidationError'' \<Longrightarrow> ax_mro exc \<noteq> [] \<Longrightarrow>
    ax_exception_in_ctx exc \<Longrightarrow> handle_api_exception exc = None"
  by (cases "ax_mro exc") (simp_all add: handle_api_exception_def API_EXCEPTION_HANDLERS_def request_validation_exception_handler_def)

text \<open>The router's own 404 and 405 are Starlette's class, for which only the handler of every
  exception is registered.\<close>

lemma router_errors_have_no_handler_of_their_own:
  "lookup_handler (filter (\<lambda>(c, h). c \<noteq> ''Exception'') API_EXCEPTION_HANDLERS) [''starlette.HTTPException'', ''Exception''] = None"
  by (simp add: API_EXCEPTION_HANDLERS_def)

end
