(* ===== verification/Asgi.thy ===== *)
theory Asgi
  imports Metrics Api_Errors Http_Errors Request_Context
begin

text \<open>
  The ASGI middlewares of middleware/: applications as interaction trees, and each middleware
  as a function from an application to an application.

  An application is what it does next: it returns, raises, awaits a message of the client,
  sends a message, awaits something else, or has an effect on the log context or on a
  collector.  Each await returns what the server answers, or raises.  The tree is finite on
  every branch, as a request is that ends.  Bytes are strings of their latin-1 characters;
  the headers that the response class computes itself (\<open>content-length\<close>, \<open>content-type\<close>)
  are left out.
\<close>

section \<open>Messages, applications\<close>

datatype asgi_exn = Payload_Too_Large | Timeout_Error | Cancelled | App_Error string

type_synonym raw_headers = "(string \<times> string) list"

datatype asgi_message =
    Request_Body "string option" bool
  | Disconnect
  | Response_Start int "raw_headers option"
  | Response_Body json bool
  | Other_Message string

datatype side_effect = Clear_Context | Bind_Context dict | Metric metric_op

datatype asgi =
    Return
  | Raise asgi_exn
  | Receive "asgi_exn + asgi_message \<Rightarrow> asgi"
  | Send asgi_message "asgi_exn option \<Rightarrow> asgi"
  | Await "asgi_exn option \<Rightarrow> asgi"
  | Note side_effect asgi

fun is_start :: "asgi_message \<Rightarrow> bool" where
  "is_start (Response_Start _ _) = True"
| "is_start _ = False"

fun body_size :: "asgi_exn + asgi_message \<Rightarrow> int" where
  "body_size (Inr (Request_Body b _)) = (case b of None \<Rightarrow> 0 | Some bytes \<Rightarrow> int (length bytes))"
| "body_size _ = 0"

record scope =
  sc_type :: string
  sc_path :: "string option"
  sc_method :: "string option"
  sc_headers :: raw_headers
  sc_client_host :: "string option"
  sc_state :: request_state

type_synonym app = "scope \<Rightarrow> asgi"

text \<open>\<open>Headers\<close> and \<open>MutableHeaders\<close> over raw headers, whose names are in lower case: the first
  match is read, and a write replaces the first match, drops the others, or appends.\<close>

definition header_get :: "raw_headers \<Rightarrow> string \<Rightarrow> string option" where
  "header_get raw name = map_of raw (py_lower name)"

fun header_set :: "raw_headers \<Rightarrow> string \<Rightarrow> string \<Rightarrow> raw_headers" where
  "header_set [] name v = [(py_lower name, v)]"
| "header_set ((n, w) # raw) name v =
     (if n = py_lower name then (n, v) # filter (\<lambda>(m, _). m \<noteq> py_lower name) raw else (n, w) # header_set raw name v)"

section \<open>Answers of a middleware\<close>

text \<open>A response object awaited as an application: its start, then its body.\<close>

definition respond :: "api_response \<Rightarrow> asgi" where
  "respond r =
     Send (Response_Start (ap_status_code r) (Some (map (\<lambda>(n, v). (py_lower n, v)) (ap_headers r))))
       (\<lambda>e. case e of Some x \<Rightarrow> Raise x
            | None \<Rightarrow> Send (Response_Body (ap_content r) False) (\<lambda>e. case e of Some x \<Rightarrow> Raise x | None \<Rightarrow> Return))"

definition is_exempt :: "string list \<Rightarrow> scope \<Rightarrow> bool" where
  "is_exempt exempt_path_prefixes scope =
     list_ex (\<lambda>p. starts_with p (case sc_path scope of None \<Rightarrow> [] | Some path \<Rightarrow> path)) exempt_path_prefixes"

section \<open>Request bodies\<close>

fun read_content_length :: "raw_headers \<Rightarrow> int" where
  "read_content_length [] = 0"
| "read_content_length ((name, v) # rest) =
     (if py_lower name \<noteq> ''content-length'' then read_content_length rest
      else case py_int v of None \<Rightarrow> 0 | Some n \<Rightarrow> max n 0)"

definition payload_too_large_response :: "int \<Rightarrow> api_response" where
  "payload_too_large_response max_bytes =
     build_api_error_response 413 ''payload_too_large''
       (''Request body exceeds the configured limit of '' @ show_int max_bytes @ '' bytes.'') None [(''Connection'', ''close'')]"

text \<open>What \<open>limited_receive\<close> gives the application for a received message, after
  \<open>bytes_received\<close> bytes.\<close>

definition admit :: "int \<Rightarrow> int \<Rightarrow> asgi_exn + asgi_message \<Rightarrow> asgi_exn + asgi_message" where
  "admit max_bytes bytes_received r =
     (case r of Inr (Request_Body b _) \<Rightarrow>
        if bytes_received + body_size r > max_bytes then Inl Payload_Too_Large else r
      | _ \<Rightarrow> r)"

primrec limit_body :: "asgi \<Rightarrow> int \<Rightarrow> int \<Rightarrow> bool \<Rightarrow> asgi" where
  "limit_body Return max_bytes bytes_received response_started = Return"
| "limit_body (Raise e) max_bytes bytes_received response_started =
     (if e = Payload_Too_Large \<and> \<not> response_started then respond (payload_too_large_response max_bytes) else Raise e)"
| "limit_body (Receive k) max_bytes bytes_received response_started =
     Receive (\<lambda>r. limit_body (k (admit max_bytes bytes_received r)) max_bytes (bytes_received + body_size r) response_started)"
| "limit_body (Send m k) max_bytes bytes_received response_started =
     Send m (\<lambda>r. limit_body (k r) max_bytes bytes_received (response_started \<or> is_start m))"
| "limit_body (Await k) max_bytes bytes_received response_started =
     Await (\<lambda>r. limit_body (k r) max_bytes bytes_received response_started)"
| "limit_body (Note n t) max_bytes bytes_received response_started =
     Note n (limit_body t max_bytes bytes_received response_started)"

definition request_body_limit :: "int \<Rightarrow> string list \<Rightarrow> app \<Rightarrow> app" where
  "request_body_limit max_bytes exempt_path_prefixes app scope =
     (if sc_type scope \<noteq> ''http'' \<or> is_exempt exempt_path_prefixes scope then app scope
      else if read_content_length (sc_headers scope) > max_bytes then respond (payload_too_large_response max_bytes)
      else limit_body (app scope) max_bytes 0 False)"

section \<open>Timeouts\<close>

text \<open>When the deadline of \<open>asyncio.timeout\<close> passes is the choice of the clock: \<open>Some (n, d)\<close> is a
  deadline that interrupts the await after the next \<open>n\<close>, and \<open>d\<close> tells whether the
  interrupted call had its effect.  \<open>expired\<close> records that it has interrupted, which turns
  a \<open>CancelledError\<close> that leaves the block into \<open>TimeoutError\<close>.\<close>

definition gateway_timeout_response :: api_response where
  "gateway_timeout_response =
     build_api_error_response 504 ''request_timeout'' ''Request processing exceeded the configured timeout.'' None
       [(''Connection'', ''close'')]"

type_synonym deadline = "(nat \<times> bool) option"

primrec limit_time :: "asgi \<Rightarrow> deadline \<Rightarrow> bool \<Rightarrow> bool \<Rightarrow> asgi" where
  "limit_time Return dl response_started expired = Return"
| "limit_time (Raise e) dl response_started expired =
     (if e = Timeout_Error \<or> e = Cancelled \<and> expired
      then (if response_started then Raise Timeout_Error else respond gateway_timeout_response)
      else Raise e)"
| "limit_time (Receive k) dl response_started expired =
     (case dl of
        None \<Rightarrow> Receive (\<lambda>r. limit_time (k r) None response_started expired)
      | Some (Suc n, d) \<Rightarrow> Receive (\<lambda>r. limit_time (k r) (Some (n, d)) response_started expired)
      | Some (0, d) \<Rightarrow>
          if d then Receive (\<lambda>r. limit_time (k (Inl Cancelled)) None response_started True)
          else limit_time (k (Inl Cancelled)) None response_started True)"
| "limit_time (Send m k) dl response_started expired =
     (case dl of
        None \<Rightarrow> Send m (\<lambda>r. limit_time (k r) None (response_started \<or> is_start m) expired)
      | Some (Suc n, d) \<Rightarrow> Send m (\<lambda>r. limit_time (k r) (Some (n, d)) (response_started \<or> is_start m) expired)
      | Some (0, d) \<Rightarrow>
          if d then Send m (\<lambda>r. limit_time (k (Some Cancelled)) None (response_started \<or> is_start m) True)
          else limit_time (k (Some Cancelled)) None (response_started \<or> is_start m) True)"
| "limit_time (Await k) dl response_started expired =
     (case dl of
        None \<Rightarrow> Await (\<lambda>r. limit_time (k r) None response_started expired)
      | Some (Suc n, d) \<Rightarrow> Await (\<lambda>r. limit_time (k r) (Some (n, d)) response_started expired)
      | Some (0, d) \<Rightarrow>
          if d then Await (\<lambda>r. limit_time (k (Some Cancelled)) None response_started True)
          else limit_time (k (Some Cancelled)) None response_started True)"
| "limit_time (Note n t) dl response_started expired = Note n (limit_time t dl response_started expired)"

definition request_timeout :: "deadline \<Rightarrow> string list \<Rightarrow> app \<Rightarrow> app" where
  "request_timeout dl exempt_path_prefixes app scope =
     (if sc_type scope \<noteq> ''http'' \<or> is_exempt exempt_path_prefixes scope then app scope
      else limit_time (app scope) dl False False)"

section \<open>Request context\<close>

definition apply_response_headers :: "raw_headers \<Rightarrow> request_context \<Rightarrow> raw_headers" where
  "apply_response_headers headers ctx = fold (\<lambda>(name, v) raw. header_set raw name v) (response_headers ctx) headers"

text \<open>\<open>finally\<close> clears the context variables, whichever way the application ends.\<close>

primrec with_request_context :: "asgi \<Rightarrow> request_context \<Rightarrow> asgi" where
  "with_request_context Return ctx = Note Clear_Context Return"
| "with_request_context (Raise e) ctx = Note Clear_Context (Raise e)"
| "with_request_context (Receive k) ctx = Receive (\<lambda>r. with_request_context (k r) ctx)"
| "with_request_context (Send m k) ctx =
     (case m of
        Response_Start status raw_headers \<Rightarrow>
          Note (Bind_Context [(''status_code'', JInt status)])
            (Send (Response_Start status (Some (apply_response_headers (case raw_headers of None \<Rightarrow> [] | Some hs \<Rightarrow> hs) ctx)))
              (\<lambda>r. with_request_context (k r) ctx))
      | _ \<Rightarrow> Send m (\<lambda>r. with_request_context (k r) ctx))"
| "with_request_context (Await k) ctx = Await (\<lambda>r. with_request_context (k r) ctx)"
| "with_request_context (Note n t) ctx = Note n (with_request_context t ctx)"

text \<open>\<open>Headers(scope)\<close> reads names without regard to case; \<open>build_request_context\<close> asks for two.\<close>

definition scope_context_headers :: "scope \<Rightarrow> (string \<times> string) list" where
  "scope_context_headers scope =
     [(h, v). h \<leftarrow> [REQUEST_ID_HEADER, CORRELATION_ID_HEADER], Some v \<leftarrow> [header_get (sc_headers scope) h]]"

definition json_or_null :: "string option \<Rightarrow> json" where
  "json_or_null x = (case x of None \<Rightarrow> JNull | Some s \<Rightarrow> JStr s)"

definition request_context_middleware :: "string \<Rightarrow> app \<Rightarrow> app" where
  "request_context_middleware uuid app scope =
     (if sc_type scope \<noteq> ''http'' then app scope
      else let ctx = build_request_context uuid (scope_context_headers scope);
               scope' = scope\<lparr> sc_state := attach_request_context_to_scope (sc_state scope) ctx \<rparr>
           in Note Clear_Context (Note (Bind_Context
                [(''request_id'', JStr (rc_request_id ctx)), (''correlation_id'', JStr (rc_correlation_id ctx)),
                 (''client_host'', json_or_null (sc_client_host scope')), (''status_code'', JNull),
                 (''path'', json_or_null (sc_path scope')), (''method'', json_or_null (sc_method scope'))])
                (with_request_context (app scope') ctx)))"

section \<open>Request metrics\<close>

definition finish_metrics :: "string \<Rightarrow> string \<Rightarrow> rat \<Rightarrow> int \<Rightarrow> asgi \<Rightarrow> asgi" where
  "finish_metrics meth path_label duration status_code t =
     Note (Metric (Dec ''http_requests_in_progress'' [meth]))
      (Note (Metric (Inc ''http_requests_total'' [meth, path_label, show_int status_code]))
        (Note (Metric (Observe ''http_request_duration_seconds'' [meth, path_label] duration)) t))"

primrec with_metrics :: "asgi \<Rightarrow> string \<Rightarrow> string \<Rightarrow> rat \<Rightarrow> int \<Rightarrow> asgi" where
  "with_metrics Return meth path_label duration status_code = finish_metrics meth path_label duration status_code Return"
| "with_metrics (Raise e) meth path_label duration status_code = finish_metrics meth path_label duration status_code (Raise e)"
| "with_metrics (Receive k) meth path_label duration status_code =
     Receive (\<lambda>r. with_metrics (k r) meth path_label duration status_code)"
| "with_metrics (Send m k) meth path_label duration status_code =
     Send m (\<lambda>r. with_metrics (k r) meth path_label duration (case m of Response_Start s _ \<Rightarrow> s | _ \<Rightarrow> status_code))"
| "with_metrics (Await k) meth path_label duration status_code =
     Await (\<lambda>r. with_metrics (k r) meth path_label duration status_code)"
| "with_metrics (Note n t) meth path_label duration status_code =
     Note n (with_metrics t meth path_label duration status_code)"

definition metrics_middleware :: "rat \<Rightarrow> bool \<Rightarrow> app \<Rightarrow> app" where
  "metrics_middleware duration include_path_labels app scope =
     (if sc_type scope \<noteq> ''http'' then app scope
      else let meth = (case sc_method scope of None \<Rightarrow> ''UNKNOWN'' | Some m \<Rightarrow> m);
               path = (case sc_path scope of None \<Rightarrow> ''/'' | Some p \<Rightarrow> p);
               path_label = get_path_template_label path include_path_labels
           in Note (Metric (Inc ''http_requests_in_progress'' [meth]))
                (with_metrics (app scope) meth path_label duration 500))"

section \<open>Middlewares over a response\<close>

text \<open>\<open>dispatch\<close> of the two middlewares that rewrite a response; \<open>call_next\<close> is the rest of the
  stack, which the base class of the framework runs.\<close>

record plain_response =
  pr_status :: int
  pr_headers :: raw_headers

definition client_cache_dispatch :: "int \<Rightarrow> ('req \<Rightarrow> asgi_exn + plain_response) \<Rightarrow> 'req \<Rightarrow> asgi_exn + plain_response" where
  "client_cache_dispatch max_age call_next request =
     bind_sum (call_next request) (\<lambda>response.
       Inr (response\<lparr> pr_headers := header_set (pr_headers response) ''Cache-Control'' (''public, max-age='' @ show_int max_age) \<rparr>))"

definition build_security_headers :: "security_headers_settings \<Rightarrow> (string \<times> string) list" where
  "build_security_headers c =
     (if \<not> SECURITY_HEADERS_ENABLED c then []
      else
        (case SECURITY_HEADERS_FRAME_OPTIONS c of None \<Rightarrow> [] | Some v \<Rightarrow> [(''X-Frame-Options'', v)]) @
        (if SECURITY_HEADERS_CONTENT_TYPE_OPTIONS c then [(''X-Content-Type-Options'', ''nosniff'')] else []) @
        (case SECURITY_HEADERS_REFERRER_POLICY c of None \<Rightarrow> [] | Some v \<Rightarrow> [(''Referrer-Policy'', v)]) @
        (case SECURITY_HEADERS_CONTENT_SECURITY_POLICY c of None \<Rightarrow> [] | Some v \<Rightarrow> [(''Content-Security-Policy'', v)]) @
        (case SECURITY_HEADERS_PERMISSIONS_POLICY c of None \<Rightarrow> [] | Some v \<Rightarrow> [(''Permissions-Policy'', v)]) @
        (case SECURITY_HEADERS_CROSS_ORIGIN_OPENER_POLICY c of None \<Rightarrow> [] | Some v \<Rightarrow> [(''Cross-Origin-Opener-Policy'', v)]) @
        (case SECURITY_HEADERS_CROSS_ORIGIN_RESOURCE_POLICY c of None \<Rightarrow> [] | Some v \<Rightarrow> [(''Cross-Origin-Resource-Policy'', v)]) @
        (if \<not> SECURITY_HEADERS_HSTS_ENABLED c then []
         else [(''Strict-Transport-Security'',
                ''max-age='' @ show_int (SECURITY_HEADERS_HSTS_MAX_AGE_SECONDS c) @
                (if SECURITY_HEADERS_HSTS_INCLUDE_SUBDOMAINS c then ''; includeSubDomains'' else []) @
                (if SECURITY_HEADERS_HSTS_PRELOAD c then ''; preload'' else []))]))"

definition add_missing_headers :: "(string \<times> string) list \<Rightarrow> raw_headers \<Rightarrow> raw_headers" where
  "add_missing_headers headers raw =
     fold (\<lambda>(name, v) raw. if header_get raw name = None then header_set raw name v else raw) headers raw"

definition security_headers_dispatch ::
  "(string \<times> string) list \<Rightarrow> ('req \<Rightarrow> asgi_exn + plain_response) \<Rightarrow> 'req \<Rightarrow> asgi_exn + plain_response" where
  "security_headers_dispatch headers call_next request =
     bind_sum (call_next request) (\<lambda>response. Inr (response\<lparr> pr_headers := add_missing_headers headers (pr_headers response) \<rparr>))"

end
