(* ===== verification/Application.thy ===== *)
theory Application
  imports Asgi Settings_Profiles
begin

text \<open>
  \<open>create_application\<close> of core/setup.py: the arguments of the application, the middlewares in
  the order of their \<open>add_middleware\<close> calls, the routes that it adds, and the stack that they
  build.

  A middleware added later is outside of those added before, so the stack is a fold over the
  list.  The middlewares of the framework (CORS, trusted hosts, proxy headers), and the base
  class that runs the \<open>dispatch\<close> methods of the client cache, the security headers and the
  graceful shutdown, are not under src/: \<open>en_library\<close> is what they do.  The clock's choices and
  the fresh identifier are arguments too.
\<close>

datatype middleware =
    Client_Cache int
  | Graceful_Shutdown
  | Request_Metrics template_metrics bool
  | Cors cors_settings
  | Security_Headers "(string \<times> string) list"
  | Trusted_Host "string list" bool
  | Body_Limit int "string list"
  | Request_Timeout rat "string list"
  | Context_Middleware
  | Proxy_Headers "string list"

definition added_middleware :: "template_metrics option \<Rightarrow> settings \<Rightarrow> middleware list" where
  "added_middleware metrics s =
     (if FEATURE_CLIENT_CACHE_ENABLED (s_features s) then [Client_Cache (CLIENT_CACHE_MAX_AGE (s_client_cache s))] else []) @
     [Graceful_Shutdown] @
     (if METRICS_ENABLED (s_metrics s)
      then (case metrics of None \<Rightarrow> [] | Some tm \<Rightarrow> [Request_Metrics tm (METRICS_INCLUDE_REQUEST_PATH_LABELS (s_metrics s))])
      else []) @
     (if CORS_ORIGINS (s_cors s) \<noteq> [] then [Cors (s_cors s)] else []) @
     (let headers = build_security_headers (s_security_headers s) in if headers \<noteq> [] then [Security_Headers headers] else []) @
     (if TRUSTED_HOSTS (s_trusted_host s) \<noteq> []
      then [Trusted_Host (TRUSTED_HOSTS (s_trusted_host s)) (TRUSTED_HOSTS_WWW_REDIRECT (s_trusted_host s))] else []) @
     (if REQUEST_BODY_LIMIT_ENABLED (s_body_limit s)
      then [Body_Limit (REQUEST_BODY_MAX_BYTES (s_body_limit s)) (REQUEST_BODY_LIMIT_EXEMPT_PATH_PREFIXES (s_body_limit s))]
      else []) @
     (if REQUEST_TIMEOUT_ENABLED (s_timeout s)
      then [Request_Timeout (REQUEST_TIMEOUT_SECONDS (s_timeout s)) (REQUEST_TIMEOUT_EXEMPT_PATH_PREFIXES (s_timeout s))]
      else []) @
     [Context_Middleware] @
     (if PROXY_HEADERS_ENABLED (s_proxy_headers s)
      then [Proxy_Headers (PROXY_HEADERS_TRUSTED_PROXIES (s_proxy_headers s))] else [])"

record stack_env =
  en_library :: "middleware \<Rightarrow> app \<Rightarrow> app"
  en_uuid :: string
  en_deadline :: deadline
  en_duration :: rat

fun run_middleware :: "stack_env \<Rightarrow> middleware \<Rightarrow> app \<Rightarrow> app" where
  "run_middleware env (Request_Metrics tm labels) app = metrics_middleware (en_duration env) labels app"
| "run_middleware env (Body_Limit n prefixes) app = request_body_limit n prefixes app"
| "run_middleware env (Request_Timeout _ prefixes) app = request_timeout (en_deadline env) prefixes app"
| "run_middleware env Context_Middleware app = request_context_middleware (en_uuid env) app"
| "run_middleware env m app = en_library env m app"

definition build_stack :: "stack_env \<Rightarrow> middleware list \<Rightarrow> app \<Rightarrow> app" where
  "build_stack env added endpoint = fold (run_middleware env) added endpoint"

text \<open>The routes that are added after the router: their path, and whether \<open>require_admin_access\<close>
  guards them.\<close>

definition documentation_routes :: "settings \<Rightarrow> (string \<times> bool) list" where
  "documentation_routes s =
     (if ENVIRONMENT s = ENV_PRODUCTION then []
      else map (\<lambda>p. (p, ENVIRONMENT s \<noteq> ENV_LOCAL)) [''/docs'', ''/redoc'', ''/openapi.json''])"

definition metrics_routes :: "settings \<Rightarrow> (string \<times> bool) list" where
  "metrics_routes s = (if METRICS_ENABLED (s_metrics s) then [(METRICS_PATH (s_metrics s), False)] else [])"

record application =
  an_title :: string
  an_description :: "string option"
  an_license :: "string option"
  an_contact :: "string option \<times> string option"
  an_builtin_docs :: bool
  an_routes :: "(string \<times> bool) list"
  an_middleware :: "middleware list"

definition create_application :: "(string \<times> bool) list \<Rightarrow> template_metrics option \<Rightarrow> settings \<Rightarrow> application" where
  "create_application router metrics s =
     \<lparr> an_title = APP_NAME (s_app s), an_description = APP_DESCRIPTION (s_app s), an_license = LICENSE_NAME (s_app s),
       an_contact = (CONTACT_NAME (s_app s), CONTACT_EMAIL (s_app s)),
       an_builtin_docs = False,
       an_routes = router @ documentation_routes s @ metrics_routes s,
       an_middleware = added_middleware metrics s \<rparr>"

end
