(* ===== verification/Asgi_Theorems.thy ===== *)
theory Asgi_Theorems
  imports Application
begin

text \<open>
  What the middlewares guarantee, over the runs of an application: the events of one way
  through its tree, and its end, \<open>None\<close> for a return.
\<close>

section \<open>Runs\<close>

datatype event = Got "asgi_exn + asgi_message" | Sent asgi_message "asgi_exn option" | Waited "asgi_exn option" | Noted side_effect

inductive run :: "asgi \<Rightarrow> event list \<Rightarrow> asgi_exn option \<Rightarrow> bool" where
  run_return: "run Return [] None"
| run_raise: "run (Raise e) [] (Some e)"
| run_receive: "run (k r) tr out \<Longrightarrow> run (Receive k) (Got r # tr) out"
| run_send: "run (k r) tr out \<Longrightarrow> run (Send m k) (Sent m r # tr) out"
| run_await: "run (k r) tr out \<Longrightarrow> run (Await k) (Waited r # tr) out"
| run_note: "run t tr out \<Longrightarrow> run (Note n t) (Noted n # tr) out"

inductive_simps run_simps [simp]:
  "run Return tr out" "run (Raise e) tr out" "run (Receive k) tr out" "run (Send m k) tr out" "run (Await k) tr out" "run (Note n t) tr out"

fun event_starts :: "event \<Rightarrow> nat" where
  "event_starts (Sent m _) = (if is_start m then 1 else 0)"
| "event_starts _ = 0"

definition starts :: "event list \<Rightarrow> nat" where
  "starts tr = sum_list (map event_starts tr)"

fun event_received :: "event \<Rightarrow> int" where
  "event_received (Got r) = body_size r"
| "event_received _ = 0"

definition received :: "event list \<Rightarrow> int" where
  "received tr = sum_list (map event_received tr)"

lemma starts_simps [simp]: "starts [] = 0" "starts (e # tr) = event_starts e + starts tr"
  by (simp_all add: starts_def)

lemma received_simps [simp]: "received [] = 0" "received (e # tr) = event_received e + received tr"
  by (simp_all add: received_def)

lemma body_size_nonneg [simp]: "0 \<le> body_size r"
proof (cases r)
  case (Inr m)
  then show ?thesis by (cases m) (simp_all split: option.split)
qed simp

lemma received_nonneg: "0 \<le> received tr"
proof (induction tr)
  case (Cons e tr)
  then show ?case by (cases e) simp_all
qed simp

lemma run_end: "run (case r of Some x \<Rightarrow> Raise x | None \<Rightarrow> t) tr out \<longleftrightarrow>
    (case r of Some x \<Rightarrow> tr = [] \<and> out = Some x | None \<Rightarrow> run t tr out)"
  by (cases r) simp_all

lemma respond_run: "run (respond r) tr out \<longleftrightarrow>
    (\<exists>e es. tr = Sent (Response_Start (ap_status_code r) (Some (map (\<lambda>(n, v). (py_lower n, v)) (ap_headers r)))) e # es
      \<and> (case e of Some x \<Rightarrow> es = [] \<and> out = Some x
         | None \<Rightarrow> \<exists>e'. es = [Sent (Response_Body (ap_content r) False) e'] \<and> out = e'))"
proof -
  have body: "run (case r of Some x \<Rightarrow> Raise x | None \<Rightarrow> Return) tr out \<longleftrightarrow> tr = [] \<and> out = r" for r tr out
    by (cases r) auto
  show ?thesis unfolding respond_def run_simps run_end body by (auto split: option.splits)
qed

lemma respond_events: "run (respond r) tr out \<Longrightarrow> starts tr \<le> 1 \<and> received tr = 0"
  unfolding respond_run by (elim exE conjE) (auto split: option.splits)

section \<open>Request bodies\<close>

lemma admit_size: "body_size (admit mx n r) + max 0 (mx - (n + body_size r)) \<le> max 0 (mx - n)"
proof (cases r)
  case (Inr m)
  then show ?thesis by (cases m) (simp_all add: admit_def)
qed (simp add: admit_def)

lemma admit_small: "n + body_size r \<le> mx \<Longrightarrow> admit mx n r = r"
  by (simp add: admit_def split: sum.split asgi_message.split)

text \<open>What the application sees of a run: no more than the rest of the budget arrives, and but
  for a refusal it is the run.\<close>

definition sees :: "int \<Rightarrow> int \<Rightarrow> bool \<Rightarrow> event list \<Rightarrow> asgi_exn option \<Rightarrow> event list \<Rightarrow> asgi_exn option \<Rightarrow> bool" where
  "sees mx n st tr out seen out' \<longleftrightarrow>
     received seen \<le> max 0 (mx - n)
     \<and> (starts tr = starts seen \<or> \<not> st \<and> starts seen = 0 \<and> starts tr \<le> 1)
     \<and> (n + received tr \<le> mx \<and> out' \<noteq> Some Payload_Too_Large \<longrightarrow> seen = tr \<and> out' = out)"

lemma sees_receive:
  assumes "sees mx (n + body_size r) st tr out seen out'"
  shows "sees mx n st (Got r # tr) out (Got (admit mx n r) # seen) out'"
  using assms admit_size [of mx n r] admit_small [of n r mx] received_nonneg [of tr] unfolding sees_def by auto

lemma sees_send:
  assumes "sees mx n (st \<or> is_start m) tr out seen out'"
  shows "sees mx n st (Sent m r # tr) out (Sent m r # seen) out'"
  using assms unfolding sees_def by (cases "is_start m") auto

lemma sees_other:
  assumes "sees mx n st tr out seen out'" "event_received e = 0" "event_starts e = 0"
  shows "sees mx n st (e # tr) out (e # seen) out'"
  using assms unfolding sees_def by auto

lemma limit_body_run:
  "run (limit_body t mx n st) tr out \<Longrightarrow> \<exists>seen out'. run t seen out' \<and> sees mx n st tr out seen out'"
proof (induction t arbitrary: n st tr)
  case Return
  then show ?case by (auto simp: sees_def)
next
  case (Raise e)
  then show ?case by (auto simp: sees_def dest!: respond_events split: if_splits)
next
  case (Receive k)
  then obtain r tr' where tr: "tr = Got r # tr'"
    "run (limit_body (k (admit mx n r)) mx (n + body_size r) st) tr' out" by auto
  from Receive.IH [OF rangeI tr(2)] show ?case
    unfolding tr(1) run_simps by (blast intro: sees_receive)
next
  case (Send m k)
  then obtain r tr' where tr: "tr = Sent m r # tr'" "run (limit_body (k r) mx n (st \<or> is_start m)) tr' out" by auto
  from Send.IH [OF rangeI tr(2)] show ?case
    unfolding tr(1) run_simps by (blast intro: sees_send)
next
  case (Await k)
  then obtain r tr' where tr: "tr = Waited r # tr'" "run (limit_body (k r) mx n st) tr' out" by auto
  from Await.IH [OF rangeI tr(2)] obtain seen out' where "run (k r) seen out'" "sees mx n st tr' out seen out'" by blast
  then show ?case unfolding tr(1) run_simps using sees_other [of mx n st tr' out seen out' "Waited r"] by auto
next
  case (Note nt t)
  then obtain tr' where tr: "tr = Noted nt # tr'" "run (limit_body t mx n st) tr' out" by auto
  from Note.IH [OF tr(2)] obtain seen out' where "run t seen out'" "sees mx n st tr' out seen out'" by blast
  then show ?case unfolding tr(1) run_simps using sees_other [of mx n st tr' out seen out' "Noted nt"] by auto
qed

text \<open>A run that stays within the budget is a run of the limited application.\<close>

lemma limit_body_transparent:
  "run t tr out \<Longrightarrow> n + received tr \<le> mx \<Longrightarrow> out \<noteq> Some Payload_Too_Large \<Longrightarrow> run (limit_body t mx n st) tr out"
proof (induction arbitrary: n st rule: run.induct)
  case (run_receive k r tr out)
  then have "n + body_size r \<le> mx" using received_nonneg [of tr] by simp
  with run_receive show ?case by (simp add: admit_small)
qed auto

text \<open>The refusal: the events of a 413 answer with its connection header, sent until a send
  raises.\<close>

definition refused :: "int \<Rightarrow> event list \<Rightarrow> asgi_exn option \<Rightarrow> bool" where
  "refused mx tr out \<longleftrightarrow>
     (\<exists>e es. tr = Sent (Response_Start 413 (Some [(''connection'', ''close'')])) e # es
       \<and> (case e of Some x \<Rightarrow> es = [] \<and> out = Some x
          | None \<Rightarrow> \<exists>e'. es = [Sent (Response_Body (ap_content (payload_too_large_response mx)) False) e'] \<and> out = e'))"

lemma refusal_run: "run (respond (payload_too_large_response mx)) tr out \<longleftrightarrow> refused mx tr out"
proof -
  have "py_lower ''Connection'' = ''connection''" by code_simp
  then have "ap_status_code (payload_too_large_response mx) = 413"
      "map (\<lambda>(n, v). (py_lower n, v)) (ap_headers (payload_too_large_response mx)) = [(''connection'', ''close'')]"
    by (simp_all add: payload_too_large_response_def build_api_error_response_def)
  then show ?thesis unfolding respond_run refused_def by simp
qed

text \<open>The run that the application sees when these are the events: a message that takes the body
  over the budget arrives as an exception.\<close>

fun throttled :: "int \<Rightarrow> int \<Rightarrow> event list \<Rightarrow> event list" where
  "throttled mx n [] = []"
| "throttled mx n (Got r # tr) = Got (admit mx n r) # throttled mx (n + body_size r) tr"
| "throttled mx n (e # tr) = e # throttled mx n tr"

lemma throttled_starts [simp]: "starts (throttled mx n tr) = starts tr"
  by (induction mx n tr rule: throttled.induct) simp_all

lemma throttled_inversions:
  "throttled mx n tr = [] \<longleftrightarrow> tr = []"
  "throttled mx n tr = Got q # seen \<longleftrightarrow> (\<exists>r tr'. tr = Got r # tr' \<and> q = admit mx n r \<and> seen = throttled mx (n + body_size r) tr')"
  "throttled mx n tr = Sent m e # seen \<longleftrightarrow> (\<exists>tr'. tr = Sent m e # tr' \<and> seen = throttled mx n tr')"
  "throttled mx n tr = Waited e # seen \<longleftrightarrow> (\<exists>tr'. tr = Waited e # tr' \<and> seen = throttled mx n tr')"
  "throttled mx n tr = Noted a # seen \<longleftrightarrow> (\<exists>tr'. tr = Noted a # tr' \<and> seen = throttled mx n tr')"
  by (cases "(mx, n, tr)" rule: throttled.cases; auto)+

text \<open>How a run ends: the refusal follows when the application ends with the exception of the limit
  and no response has started, and nothing does otherwise.\<close>

definition limited_end :: "int \<Rightarrow> bool \<Rightarrow> event list \<Rightarrow> asgi_exn option \<Rightarrow> event list \<Rightarrow> asgi_exn option \<Rightarrow> bool" where
  "limited_end mx started before out' tr out \<longleftrightarrow>
     (if out' = Some Payload_Too_Large \<and> \<not> started then \<exists>answer. tr = before @ answer \<and> refused mx answer out
      else tr = before \<and> out = out')"

lemma limited_end_Cons: "limited_end mx b (e # before) out' tr out \<longleftrightarrow> (\<exists>tr'. tr = e # tr' \<and> limited_end mx b before out' tr' out)"
  by (auto simp: limited_end_def)

lemma throttled_runs:
  "(\<exists>before out'. run (Receive k) (throttled mx n before) out' \<and> L before out') \<longleftrightarrow>
     (\<exists>r before out'. run (k (admit mx n r)) (throttled mx (n + body_size r) before) out' \<and> L (Got r # before) out')"
  "(\<exists>before out'. run (Send m g) (throttled mx n before) out' \<and> L before out') \<longleftrightarrow>
     (\<exists>e before out'. run (g e) (throttled mx n before) out' \<and> L (Sent m e # before) out')"
  "(\<exists>before out'. run (Await g) (throttled mx n before) out' \<and> L before out') \<longleftrightarrow>
     (\<exists>e before out'. run (g e) (throttled mx n before) out' \<and> L (Waited e # before) out')"
  "(\<exists>before out'. run (Note a t) (throttled mx n before) out' \<and> L before out') \<longleftrightarrow>
     (\<exists>before out'. run t (throttled mx n before) out' \<and> L (Noted a # before) out')"
  unfolding run_simps throttled_inversions by blast+

lemma limit_body_iff: "run (limit_body t mx n st) tr out \<longleftrightarrow>
    (\<exists>before out'. run t (throttled mx n before) out' \<and> limited_end mx (st \<or> 0 < starts before) before out' tr out)"
proof (induction t arbitrary: n st tr)
  case Return
  show ?case by (auto simp: throttled_inversions limited_end_def)
next
  case (Raise e)
  show ?case by (auto simp: throttled_inversions limited_end_def refusal_run)
next
  case (Receive k)
  have "run (limit_body (Receive k) mx n st) tr out \<longleftrightarrow> (\<exists>r tr'. tr = Got r # tr' \<and> (\<exists>before out'.
      run (k (admit mx n r)) (throttled mx (n + body_size r) before) out' \<and>
      limited_end mx (st \<or> 0 < starts before) before out' tr' out))"
    unfolding limit_body.simps run_simps Receive.IH[OF rangeI] ..
  also have "\<dots> \<longleftrightarrow> (\<exists>r before out'. run (k (admit mx n r)) (throttled mx (n + body_size r) before) out' \<and>
      limited_end mx (st \<or> 0 < starts (Got r # before)) (Got r # before) out' tr out)"
    unfolding limited_end_Cons starts_simps event_starts.simps add_0 by blast
  finally show ?case unfolding throttled_runs .
next
  case (Send m k)
  have "run (limit_body (Send m k) mx n st) tr out \<longleftrightarrow> (\<exists>r tr'. tr = Sent m r # tr' \<and> (\<exists>before out'.
      run (k r) (throttled mx n before) out' \<and> limited_end mx ((st \<or> is_start m) \<or> 0 < starts before) before out' tr' out))"
    unfolding limit_body.simps run_simps Send.IH[OF rangeI] ..
  also have "\<dots> \<longleftrightarrow> (\<exists>r before out'. run (k r) (throttled mx n before) out' \<and>
      limited_end mx (st \<or> 0 < starts (Sent m r # before)) (Sent m r # before) out' tr out)"
  proof -
    have "(st \<or> 0 < starts (Sent m r # before)) = ((st \<or> is_start m) \<or> 0 < starts before)" for r before by auto
    then show ?thesis unfolding limited_end_Cons by (simp del: starts_simps) blast
  qed
  finally show ?case unfolding throttled_runs .
next
  case (Await k)
  have "run (limit_body (Await k) mx n st) tr out \<longleftrightarrow> (\<exists>r tr'. tr = Waited r # tr' \<and> (\<exists>before out'.
      run (k r) (throttled mx n before) out' \<and> limited_end mx (st \<or> 0 < starts before) before out' tr' out))"
    unfolding limit_body.simps run_simps Await.IH[OF rangeI] ..
  also have "\<dots> \<longleftrightarrow> (\<exists>r before out'. run (k r) (throttled mx n before) out' \<and>
      limited_end mx (st \<or> 0 < starts (Waited r # before)) (Waited r # before) out' tr out)"
    unfolding limited_end_Cons starts_simps event_starts.simps add_0 by blast
  finally show ?case unfolding throttled_runs .
next
  case (Note nt t)
  have "run (limit_body (Note nt t) mx n st) tr out \<longleftrightarrow> (\<exists>tr'. tr = Noted nt # tr' \<and> (\<exists>before out'.
      run t (throttled mx n before) out' \<and> limited_end mx (st \<or> 0 < starts before) before out' tr' out))"
    unfolding limit_body.simps run_simps Note.IH ..
  also have "\<dots> \<longleftrightarrow> (\<exists>before out'. run t (throttled mx n before) out' \<and>
      limited_end mx (st \<or> 0 < starts (Noted nt # before)) (Noted nt # before) out' tr out)"
    unfolding limited_end_Cons starts_simps event_starts.simps add_0 by blast
  finally show ?case unfolding throttled_runs .
qed

text \<open>C30: The body limit is exact, and an oversized request is answered with 413.  When a request
  announces more than the budget, the application is not called and the runs of the middleware
  are those of the 413 answer.  Otherwise they are the runs of the application, each message that
  takes the body over the budget replaced by an exception for it, and followed by the 413 answer
  if the application lets that exception out before its response has started.  So the application
  never sees more body bytes than the budget; it sees the run itself unless the bytes that arrive
  exceed the budget; and every run of the application in which they do not is one of the
  middleware.\<close>

theorem body_limit_is_exact:
  assumes "sc_type scope = ''http''" "\<not> is_exempt prefixes scope"
  shows "if max_bytes < read_content_length (sc_headers scope)
    then run (request_body_limit max_bytes prefixes app scope) tr out \<longleftrightarrow> refused max_bytes tr out
    else (run (request_body_limit max_bytes prefixes app scope) tr out \<longleftrightarrow>
        (\<exists>before out'. run (app scope) (throttled max_bytes 0 before) out' \<and>
          (if out' = Some Payload_Too_Large \<and> starts before = 0
           then \<exists>answer. tr = before @ answer \<and> refused max_bytes answer out
           else tr = before \<and> out = out')))
    \<and> (run (request_body_limit max_bytes prefixes app scope) tr out \<longrightarrow>
        (\<exists>seen out'. run (app scope) seen out' \<and> received seen \<le> max_bytes
          \<and> (received tr \<le> max_bytes \<and> out' \<noteq> Some Payload_Too_Large \<longrightarrow> seen = tr \<and> out' = out)))
    \<and> (run (app scope) tr out \<and> received tr \<le> max_bytes \<and> out \<noteq> Some Payload_Too_Large \<longrightarrow>
        run (request_body_limit max_bytes prefixes app scope) tr out)"
proof (cases "max_bytes < read_content_length (sc_headers scope)")
  case True
  then show ?thesis using assms by (simp add: request_body_limit_def refusal_run)
next
  case False
  have eq: "request_body_limit max_bytes prefixes app scope = limit_body (app scope) max_bytes 0 False"
    using assms False by (simp add: request_body_limit_def)
  have "0 \<le> read_content_length hs" for hs by (induction hs rule: read_content_length.induct) (auto split: option.split)
  then have nonneg: "0 \<le> max_bytes" using False order_trans by (metis not_le)
  have iff: "run (limit_body (app scope) max_bytes 0 False) tr out \<longleftrightarrow>
      (\<exists>before out'. run (app scope) (throttled max_bytes 0 before) out' \<and>
          (if out' = Some Payload_Too_Large \<and> starts before = 0
           then \<exists>answer. tr = before @ answer \<and> refused max_bytes answer out
           else tr = before \<and> out = out'))"
    unfolding limit_body_iff limited_end_def by simp
  have seen: "run (limit_body (app scope) max_bytes 0 False) tr out \<longrightarrow>
        (\<exists>seen out'. run (app scope) seen out' \<and> received seen \<le> max_bytes
          \<and> (received tr \<le> max_bytes \<and> out' \<noteq> Some Payload_Too_Large \<longrightarrow> seen = tr \<and> out' = out))"
    using limit_body_run [of "app scope" max_bytes 0 False tr out] nonneg by (auto simp: sees_def)
  have same: "run (app scope) tr out \<and> received tr \<le> max_bytes \<and> out \<noteq> Some Payload_Too_Large \<longrightarrow>
        run (limit_body (app scope) max_bytes 0 False) tr out"
    using limit_body_transparent [of "app scope" tr out 0 max_bytes False] by simp
  show ?thesis unfolding eq if_not_P[OF False] by (intro conjI iff seen same)
qed

text \<open>An application that reads two parts of a body and answers; three bytes are admitted.\<close>

definition reading_app :: app where
  "reading_app scope = Receive (\<lambda>r. case r of Inl e \<Rightarrow> Raise e | Inr m \<Rightarrow>
     Receive (\<lambda>r. case r of Inl e \<Rightarrow> Raise e | Inr m \<Rightarrow> respond (build_api_error_response 200 ''ok'' ''read'' None [])))"

definition demo_scope :: "raw_headers \<Rightarrow> scope" where
  "demo_scope headers =
     \<lparr> sc_type = ''http'', sc_path = Some ''/api/v1/posts'', sc_method = Some ''POST'', sc_headers = headers, sc_client_host = None,
       sc_state = \<lparr> rs_request_context = None, rs_request_id = None, rs_correlation_id = None \<rparr> \<rparr>"

lemma demo_scope_simps [simp]:
  "sc_type (demo_scope hs) = ''http''" "sc_headers (demo_scope hs) = hs" "\<not> is_exempt [] (demo_scope hs)"
  by (simp_all add: demo_scope_def is_exempt_def)

lemma demo_content_length [simp]: "read_content_length [(''content-length'', ''2'')] = 2"
  by code_simp

text \<open>The second part of the body takes it to four bytes: the application gets the exception, lets
  it out, and the client gets the 413.\<close>

lemma body_limit_is_exact_witness:
  "run (request_body_limit 3 [] reading_app (demo_scope [(''content-length'', ''2'')]))
     [Got (Inr (Request_Body (Some ''ab'') True)), Got (Inr (Request_Body (Some ''cd'') False)),
      Sent (Response_Start 413 (Some [(''connection'', ''close'')])) (Some Cancelled)] (Some Cancelled)"
proof -
  let ?scope = "demo_scope [(''content-length'', ''2'')]"
  let ?before = "[Got (Inr (Request_Body (Some ''ab'') True)), Got (Inr (Request_Body (Some ''cd'') False))]"
  let ?answer = "[Sent (Response_Start 413 (Some [(''connection'', ''close'')])) (Some Cancelled)]"
  have run: "run (reading_app ?scope) (throttled 3 0 ?before) (Some Payload_Too_Large)"
    by (simp add: reading_app_def admit_def)
  have "refused 3 ?answer (Some Cancelled)" by (simp add: refused_def)
  with run have "\<exists>before out'. run (reading_app ?scope) (throttled 3 0 before) out' \<and>
      (if out' = Some Payload_Too_Large \<and> starts before = 0
       then \<exists>answer. ?before @ ?answer = before @ answer \<and> refused 3 answer (Some Cancelled)
       else ?before @ ?answer = before \<and> Some Cancelled = out')"
    by (intro exI[of _ ?before] exI[of _ "Some Payload_Too_Large"]) simp
  moreover have "\<not> 3 < read_content_length (sc_headers ?scope)" by (simp del: read_content_length.simps)
  ultimately show ?thesis
    using body_limit_is_exact [of ?scope "[]" 3 reading_app "?before @ ?answer" "Some Cancelled"]
    by (simp only: demo_scope_simps if_False append.simps not_False_eq_True simp_thms)
qed

section \<open>One response\<close>

definition one_response :: "app \<Rightarrow> bool" where
  "one_response app \<longleftrightarrow> (\<forall>scope tr out. run (app scope) tr out \<longrightarrow> starts tr \<le> 1)"

text \<open>The response that a timeout adds takes the place of one that had not started.\<close>

definition sends :: "bool \<Rightarrow> event list \<Rightarrow> event list \<Rightarrow> bool" where
  "sends st tr seen \<longleftrightarrow> starts tr \<le> starts seen \<or> \<not> st \<and> starts seen = 0 \<and> starts tr \<le> 1"

lemma sends_silent: "event_starts e = 0 \<Longrightarrow> sends st tr seen \<Longrightarrow>
    sends st tr (e # seen) \<and> (event_starts e' = 0 \<longrightarrow> sends st (e' # tr) (e # seen))"
  by (auto simp: sends_def)

lemma sends_sent: "sends (st \<or> is_start m) tr seen \<Longrightarrow> sends st tr (Sent m r # seen) \<and> sends st (Sent m q # tr) (Sent m r # seen)"
  by (cases "is_start m") (auto simp: sends_def)

lemma deadline_cases:
  obtains "dl = None" | n d where "dl = Some (Suc n, d)" | d where "dl = Some (0, d)"
  by (metis not0_implies_Suc option.exhaust surj_pair)

lemma limit_time_run: "run (limit_time t dl st expired) tr out \<Longrightarrow> \<exists>seen out'. run t seen out' \<and> sends st tr seen"
proof (induction t arbitrary: dl st expired tr)
  case Return
  then show ?case by (auto simp: sends_def)
next
  case (Raise e)
  then show ?case by (auto simp: sends_def dest!: respond_events split: if_splits)
next
  case (Receive k)
  obtain r tr' dl' ex where step: "run (limit_time (k r) dl' st ex) tr' out" "tr = tr' \<or> (\<exists>q. tr = Got q # tr')"
    using Receive.prems by (cases dl rule: deadline_cases) (auto split: if_splits)
  from Receive.IH [OF rangeI step(1)] obtain seen out' where s: "run (k r) seen out'" "sends st tr' seen" by blast
  have "sends st tr (Got r # seen)"
    using step(2) sends_silent [OF _ s(2), of "Got r"] by auto
  then show ?case using s(1) by auto
next
  case (Send m k)
  obtain r tr' dl' ex where step: "run (limit_time (k r) dl' (st \<or> is_start m) ex) tr' out" "tr = tr' \<or> (\<exists>q. tr = Sent m q # tr')"
    using Send.prems by (cases dl rule: deadline_cases) (auto split: if_splits)
  from Send.IH [OF rangeI step(1)] obtain seen out' where s: "run (k r) seen out'" "sends (st \<or> is_start m) tr' seen" by blast
  have "sends st tr (Sent m r # seen)"
    using step(2) sends_sent [OF s(2)] by blast
  then show ?case using s(1) by auto
next
  case (Await k)
  obtain r tr' dl' ex where step: "run (limit_time (k r) dl' st ex) tr' out" "tr = tr' \<or> (\<exists>q. tr = Waited q # tr')"
    using Await.prems by (cases dl rule: deadline_cases) (auto split: if_splits)
  from Await.IH [OF rangeI step(1)] obtain seen out' where s: "run (k r) seen out'" "sends st tr' seen" by blast
  have "sends st tr (Waited r # seen)"
    using step(2) sends_silent [OF _ s(2), of "Waited r"] by auto
  then show ?case using s(1) by auto
next
  case (Note nt t)
  then obtain tr' where tr: "tr = Noted nt # tr'" "run (limit_time t dl st expired) tr' out" by auto
  from Note.IH [OF tr(2)] obtain seen out' where s: "run t seen out'" "sends st tr' seen" by blast
  then show ?case unfolding tr(1) run_simps using sends_silent [OF _ s(2), of "Noted nt"]
    by (intro exI [of _ "Noted nt # seen"] exI [of _ out']) auto
qed

lemma with_request_context_run: "run (with_request_context t ctx) tr out \<Longrightarrow> \<exists>seen out'. run t seen out' \<and> starts tr = starts seen"
proof (induction t arbitrary: tr)
  case (Send m k)
  then obtain r tr' where step: "run (with_request_context (k r) ctx) tr' out" "starts tr = starts (Sent m r # tr')"
    by (cases m) auto
  from Send.IH [OF rangeI step(1)] show ?case using step(2) by fastforce
next
  case (Receive k)
  then show ?case by fastforce
next
  case (Await k)
  then show ?case by fastforce
next
  case (Note n t)
  then show ?case by fastforce
qed auto

lemma finish_metrics_run: "run (finish_metrics meth l d s t) tr out \<Longrightarrow> \<exists>tr'. run t tr' out \<and> starts tr = starts tr'"
  unfolding finish_metrics_def by fastforce

lemma with_metrics_run: "run (with_metrics t meth l d s) tr out \<Longrightarrow> \<exists>seen out'. run t seen out' \<and> starts tr = starts seen"
proof (induction t arbitrary: tr s)
  case (Send m k)
  then show ?case by fastforce
next
  case (Receive k)
  then show ?case by fastforce
next
  case (Await k)
  then show ?case by fastforce
next
  case (Note n t)
  then show ?case by fastforce
qed (auto dest!: finish_metrics_run)

lemma one_response_le:
  assumes "one_response app" "run (app scope) seen out" "starts tr \<le> starts seen \<or> starts tr \<le> 1"
  shows "starts tr \<le> 1"
  using assms unfolding one_response_def by (meson order_trans)

lemma one_responseD: "one_response app \<Longrightarrow> run (app scope) tr out \<Longrightarrow> starts tr \<le> Suc 0"
  unfolding one_response_def One_nat_def by blast

lemma one_response_sees: "one_response app \<Longrightarrow> run (app scope) seen out' \<Longrightarrow> sees mx n st tr out seen out' \<Longrightarrow> starts tr \<le> 1"
  by (rule one_response_le) (auto simp: sees_def)

lemma one_response_body_limit: "one_response app \<Longrightarrow> one_response (request_body_limit mx prefixes app)"
  unfolding one_response_def [of "request_body_limit mx prefixes app"] request_body_limit_def
  by (auto split: if_splits dest!: limit_body_run dest: respond_events one_responseD one_response_sees)

lemma one_response_around:
  assumes "one_response app"
    and "\<And>scope tr out. run (around scope) tr out \<Longrightarrow>
      \<exists>scope' seen out'. run (app scope') seen out' \<and> (starts tr \<le> starts seen \<or> starts tr \<le> 1)"
  shows "one_response around"
  unfolding one_response_def
proof (intro allI impI)
  fix scope tr out assume "run (around scope) tr out"
  then obtain scope' seen out' where "run (app scope') seen out'" "starts tr \<le> starts seen \<or> starts tr \<le> 1"
    using assms(2) by blast
  then show "starts tr \<le> 1" by (rule one_response_le [OF assms(1)])
qed

lemma one_response_timeout: "one_response app \<Longrightarrow> one_response (request_timeout dl prefixes app)"
proof (erule one_response_around)
  fix scope tr out assume r: "run (request_timeout dl prefixes app scope) tr out"
  show "\<exists>scope' seen out'. run (app scope') seen out' \<and> (starts tr \<le> starts seen \<or> starts tr \<le> 1)"
  proof (cases "sc_type scope \<noteq> ''http'' \<or> is_exempt prefixes scope")
    case True
    then have "run (app scope) tr out" using r unfolding request_timeout_def by (simp only: if_True)
    then show ?thesis by blast
  next
    case False
    then have "run (limit_time (app scope) dl False False) tr out" using r unfolding request_timeout_def by (simp only: if_False)
    from limit_time_run [OF this] show ?thesis unfolding sends_def by blast
  qed
qed

lemma one_response_context: "one_response app \<Longrightarrow> one_response (request_context_middleware uuid app)"
proof (erule one_response_around)
  fix scope tr out assume r: "run (request_context_middleware uuid app scope) tr out"
  show "\<exists>scope' seen out'. run (app scope') seen out' \<and> (starts tr \<le> starts seen \<or> starts tr \<le> 1)"
  proof (cases "sc_type scope = ''http''")
    case True
    then obtain scope' ctx tr' where "run (with_request_context (app scope') ctx) tr' out" "starts tr = starts tr'"
      using r by (auto simp: request_context_middleware_def Let_def)
    then show ?thesis using with_request_context_run by (metis order_refl)
  next
    case False
    then have "run (app scope) tr out" using r by (simp add: request_context_middleware_def)
    then show ?thesis by blast
  qed
qed

lemma one_response_metrics: "one_response app \<Longrightarrow> one_response (metrics_middleware d labels app)"
proof (erule one_response_around)
  fix scope tr out assume r: "run (metrics_middleware d labels app scope) tr out"
  show "\<exists>scope' seen out'. run (app scope') seen out' \<and> (starts tr \<le> starts seen \<or> starts tr \<le> 1)"
  proof (cases "sc_type scope = ''http''")
    case True
    then obtain meth l tr' where "run (with_metrics (app scope) meth l d 500) tr' out" "starts tr = starts tr'"
      using r by (auto simp: metrics_middleware_def Let_def)
    then show ?thesis using with_metrics_run by (metis order_refl)
  next
    case False
    then have "run (app scope) tr out" using r by (simp add: metrics_middleware_def)
    then show ?thesis by blast
  qed
qed

lemma one_response_middleware:
  assumes "\<And>m a. one_response a \<Longrightarrow> one_response (en_library env m a)" "one_response app"
  shows "one_response (run_middleware env m app)"
  using assms by (cases m) (simp_all add: one_response_body_limit one_response_timeout one_response_context one_response_metrics)

text \<open>No request gets two responses.  When the endpoint starts at most one response on every
  run, and the middlewares of the framework keep that, then so does the whole stack that
  \<open>create_application\<close> builds, whatever the settings, the body, the deadline and the failures of
  the server are.\<close>

theorem stack_starts_one_response:
  assumes "one_response endpoint" "\<And>m a. one_response a \<Longrightarrow> one_response (en_library env m a)"
  shows "one_response (build_stack env (an_middleware (create_application router metrics s)) endpoint)"
proof -
  have "one_response app \<Longrightarrow> one_response (build_stack env added app)" for added app
    by (induction added arbitrary: app) (simp_all add: build_stack_def one_response_middleware [OF assms(2)])
  then show ?thesis using assms(1) by blast
qed

definition demo_env :: stack_env where
  "demo_env = \<lparr> en_library = (\<lambda>_ app. app), en_uuid = ''u-1'', en_deadline = None, en_duration = 0 \<rparr>"

lemma stack_starts_one_response_witness:
  "one_response (build_stack demo_env (an_middleware (create_application [] None settings_defaults))
     (\<lambda>_. respond (payload_too_large_response 3)))"
  by (rule stack_starts_one_response) (auto simp: demo_env_def one_response_def dest: respond_events)

section \<open>Refused requests\<close>

lemma limit_time_respond: "limit_time (respond r) None False False = respond r"
proof -
  have "limit_time (case e of Some x \<Rightarrow> Raise x | None \<Rightarrow> Return) None True False = (case e of Some x \<Rightarrow> Raise x | None \<Rightarrow> Return)" for e
    by (cases e) auto
  then show ?thesis by (auto simp: respond_def intro!: ext split: option.split)
qed

text \<open>The middlewares outside of the body limit, when the deadline does not interrupt.\<close>

lemma oversized_stack:
  assumes "sc_type scope = ''http''" "REQUEST_BODY_LIMIT_ENABLED (s_body_limit s)" "\<not> PROXY_HEADERS_ENABLED (s_proxy_headers s)"
    and "\<not> is_exempt (REQUEST_BODY_LIMIT_EXEMPT_PATH_PREFIXES (s_body_limit s)) scope"
    and "REQUEST_BODY_MAX_BYTES (s_body_limit s) < read_content_length (sc_headers scope)" "en_deadline env = None"
  shows "build_stack env (added_middleware metrics s) endpoint scope =
    request_context_middleware (en_uuid env) (\<lambda>_. respond (payload_too_large_response (REQUEST_BODY_MAX_BYTES (s_body_limit s)))) scope"
proof -
  have "is_exempt ps (scope\<lparr> sc_state := x \<rparr>) = is_exempt ps scope" for ps x
    by (simp add: is_exempt_def)
  then show ?thesis using assms
    by (simp add: build_stack_def added_middleware_def request_context_middleware_def request_timeout_def
        request_body_limit_def limit_time_respond Let_def)
qed

lemma refused_run:
  assumes "run (with_request_context (respond r) ctx) tr out" "Sent (Response_Start status headers) e \<in> set tr"
  shows "status = ap_status_code r
    \<and> headers = Some (apply_response_headers (map (\<lambda>(n, v). (py_lower n, v)) (ap_headers r)) ctx)"
proof -
  let ?body = "\<lambda>x. case x of Some x \<Rightarrow> Raise x | None \<Rightarrow> Send (Response_Body (ap_content r) False) (\<lambda>e. case e of Some x \<Rightarrow> Raise x | None \<Rightarrow> Return)"
  have last: "run (with_request_context (case x of Some x \<Rightarrow> Raise x | None \<Rightarrow> Return) ctx) tr out \<Longrightarrow> tr = [Noted Clear_Context]" for x tr
    by (cases x) auto
  have body: "run (with_request_context (?body x) ctx) tr out \<Longrightarrow> Sent (Response_Start status headers) e \<notin> set tr" for x tr
    by (cases x) (auto dest!: last)
  show ?thesis using assms unfolding respond_def
    by (simp only: with_request_context.simps asgi_message.case run_simps option.case) (auto dest: body)
qed

text \<open>A request that announces a body over the limit is refused with 413 before any other
  middleware sees it, so its response carries the connection header and the two identifiers
  and nothing else: none of the configured security headers and no CORS header.\<close>

theorem oversized_request_is_answered_bare:
  assumes "sc_type scope = ''http''" "REQUEST_BODY_LIMIT_ENABLED (s_body_limit s)" "\<not> PROXY_HEADERS_ENABLED (s_proxy_headers s)"
    and "\<not> is_exempt (REQUEST_BODY_LIMIT_EXEMPT_PATH_PREFIXES (s_body_limit s)) scope"
    and "REQUEST_BODY_MAX_BYTES (s_body_limit s) < read_content_length (sc_headers scope)" "en_deadline env = None"
    and "run (build_stack env (an_middleware (create_application router metrics s)) endpoint scope) tr out"
    and "Sent (Response_Start status headers) e \<in> set tr"
  shows "status = 413 \<and> (\<exists>hs. headers = Some hs \<and>
    map fst hs = [''connection'', ''x-request-id'', ''x-correlation-id''])"
proof -
  let ?r = "payload_too_large_response (REQUEST_BODY_MAX_BYTES (s_body_limit s))"
  have "run (request_context_middleware (en_uuid env) (\<lambda>_. respond ?r) scope) tr out"
    using assms(7) oversized_stack [OF assms(1-6)] by (simp add: create_application_def)
  then obtain tr' ctx where tr: "run (with_request_context (respond ?r) ctx) tr' out" "Sent (Response_Start status headers) e \<in> set tr'"
    using assms(1,8) by (auto simp: request_context_middleware_def Let_def)
  have "py_lower ''Connection'' = ''connection'' \<and> py_lower ''X-Request-ID'' = ''x-request-id''
    \<and> py_lower ''X-Correlation-ID'' = ''x-correlation-id''" by code_simp
  note names = this
  have "headers = Some (apply_response_headers [(''connection'', ''close'')] ctx) \<and> status = 413"
    using refused_run [OF tr] by (simp add: payload_too_large_response_def build_api_error_response_def names)
  then show ?thesis
    by (auto simp: apply_response_headers_def response_headers_def REQUEST_ID_HEADER_def CORRELATION_ID_HEADER_def names)
qed

lemma respond_in_context:
  assumes "sc_type scope = ''http''"
  shows "\<exists>tr hs. run (request_context_middleware uuid (\<lambda>_. respond r) scope) tr None \<and>
    Sent (Response_Start (ap_status_code r) (Some hs)) None \<in> set tr"
proof -
  let ?hs = "\<lambda>ctx. apply_response_headers (map (\<lambda>(n, v). (py_lower n, v)) (ap_headers r)) ctx"
  have inner: "run (with_request_context (respond r) ctx)
    [Noted (Bind_Context [(''status_code'', JInt (ap_status_code r))]), Sent (Response_Start (ap_status_code r) (Some (?hs ctx))) None,
     Sent (Response_Body (ap_content r) False) None, Noted Clear_Context] None" for ctx
    by (simp add: respond_def)
  obtain t ctx n1 n2 where "request_context_middleware uuid (\<lambda>_. respond r) scope = Note n1 (Note n2 t)" "t = with_request_context (respond r) ctx"
    using assms by (simp add: request_context_middleware_def Let_def)
  then have "run (request_context_middleware uuid (\<lambda>_. respond r) scope)
    (Noted n1 # Noted n2 # [Noted (Bind_Context [(''status_code'', JInt (ap_status_code r))]),
      Sent (Response_Start (ap_status_code r) (Some (?hs ctx))) None, Sent (Response_Body (ap_content r) False) None,
      Noted Clear_Context]) None" (is "run _ ?tr None")
    using inner [of ctx] by simp
  then show ?thesis by (intro exI [of _ ?tr] exI [of _ "?hs ctx"] conjI) simp_all
qed

lemma oversized_request_is_answered_bare_witness:
  "\<exists>tr. run (build_stack demo_env (an_middleware (create_application [] None settings_defaults)) reading_app
       (demo_scope [(''content-length'', ''2000000'')])) tr None \<and>
     (\<exists>hs e. Sent (Response_Start 413 (Some hs)) e \<in> set tr \<and>
        map fst hs = [''connection'', ''x-request-id'', ''x-correlation-id''])"
proof -
  let ?scope = "demo_scope [(''content-length'', ''2000000'')]"
  have length: "read_content_length [(''content-length'', ''2000000'')] = 2000000" by code_simp
  have hyps: "sc_type ?scope = ''http''" "REQUEST_BODY_LIMIT_ENABLED (s_body_limit settings_defaults)"
    "\<not> PROXY_HEADERS_ENABLED (s_proxy_headers settings_defaults)"
    "\<not> is_exempt (REQUEST_BODY_LIMIT_EXEMPT_PATH_PREFIXES (s_body_limit settings_defaults)) ?scope"
    "REQUEST_BODY_MAX_BYTES (s_body_limit settings_defaults) < read_content_length (sc_headers ?scope)"
    "en_deadline demo_env = None"
    by (simp_all add: settings_defaults_def body_limit_defaults_def proxy_headers_defaults_def demo_env_def length
        del: read_content_length.simps)
  obtain tr status hs where tr: "run (build_stack demo_env (an_middleware (create_application [] None settings_defaults)) reading_app ?scope) tr None"
    "Sent (Response_Start status (Some hs)) None \<in> set tr"
    using respond_in_context [OF hyps(1)] by (metis create_application_def application.select_convs(7) oversized_stack [OF hyps])
  from oversized_request_is_answered_bare [OF hyps tr]
  have "status = 413" "map fst hs = [''connection'', ''x-request-id'', ''x-correlation-id'']" by auto
  with tr show ?thesis by metis
qed

section \<open>Request metrics\<close>

text \<open>What a run does to the gauge of requests in progress.\<close>

fun event_progress :: "event \<Rightarrow> int" where
  "event_progress (Noted (Metric (Inc name _))) = (if name = ''http_requests_in_progress'' then 1 else 0)"
| "event_progress (Noted (Metric (Dec name _))) = (if name = ''http_requests_in_progress'' then -1 else 0)"
| "event_progress _ = 0"

definition progress :: "event list \<Rightarrow> int" where
  "progress tr = sum_list (map event_progress tr)"

lemma progress_simps [simp]: "progress [] = 0" "progress (e # tr) = event_progress e + progress tr"
  by (simp_all add: progress_def)

lemma with_metrics_progress:
  "run (with_metrics t meth l d s) tr out \<Longrightarrow> \<exists>seen. run t seen out \<and> progress tr = progress seen - 1"
proof (induction t arbitrary: tr s)
  case (Send m k)
  then show ?case by fastforce
next
  case (Receive k)
  then show ?case by fastforce
next
  case (Await k)
  then show ?case by fastforce
next
  case (Note n t)
  then show ?case by fastforce
qed (auto simp: finish_metrics_def)

text \<open>Whichever way a request ends, the gauge of the requests in progress is put back.\<close>

lemma metrics_are_balanced:
  assumes "run (metrics_middleware d labels app scope) tr out" "sc_type scope = ''http''"
  shows "\<exists>seen scope'. run (app scope') seen out \<and> progress tr = progress seen"
  using assms by (auto simp: metrics_middleware_def Let_def dest!: with_metrics_progress)

text \<open>\<open>create_application\<close> asks for the metrics when the module is loaded, which is before the
  lifespan creates them.\<close>

lemma no_metrics_middleware: "Request_Metrics tm labels \<notin> set (added_middleware None s)"
proof -
  have one: "x \<in> set (if c then [y] else []) \<longleftrightarrow> c \<and> x = y" for x y :: middleware and c by (cases c) simp_all
  show ?thesis
    by (simp only: added_middleware_def option.case if_cancel Let_def set_append Un_iff one append_Nil list.set insert_iff empty_iff) simp
qed

lemma no_metrics_before_the_lifespan:
  assumes "mm_instance st = None"
  shows "Request_Metrics tm labels \<notin> set (an_middleware (create_application router (get_metrics st) s))"
  using no_metrics_middleware by (simp add: create_application_def get_metrics_def assms)

section \<open>Response headers\<close>

lemma header_set_get: "header_get (header_set raw name v) name = Some v"
  by (induction raw) (auto simp: header_get_def)

text \<open>The client cache replaces the header of a response that forbade caching.\<close>

lemma client_cache_overrides: "client_cache_dispatch n (\<lambda>_. Inr \<lparr> pr_status = 200, pr_headers = [(''cache-control'', ''no-store'')] \<rparr>) rq =
    Inr \<lparr> pr_status = 200, pr_headers = [(''cache-control'', ''public, max-age='' @ show_int n)] \<rparr>"
proof -
  have "py_lower ''Cache-Control'' = ''cache-control''" by code_simp
  then show ?thesis by (simp add: client_cache_dispatch_def)
qed

end
