(* ===== verification/Log_Redaction.thy ===== *)
theory Log_Redaction
  imports Settings_Sections
begin

text \<open>
  core/log_redaction.py and the processors of core/logger.py: which fields of a log entry are
  replaced, which context keys a handler leaves out.

  A logged value is a mapping, a tuple, a list, a set or anything else, \<open>'a\<close>; a key stands
  for its \<open>str\<close>.
\<close>

section \<open>Fields\<close>

definition normalize_redaction_field_name :: "string \<Rightarrow> string" where
  "normalize_redaction_field_name v = filter is_alnum (casefold v)"

text \<open>\<open>fragment in name\<close>.\<close>

fun has_substring :: "string \<Rightarrow> string \<Rightarrow> bool" where
  "has_substring fragment [] = (fragment = [])"
| "has_substring fragment (c # cs) = (starts_with fragment (c # cs) \<or> has_substring fragment cs)"

definition should_redact_field :: "string list \<Rightarrow> string list \<Rightarrow> string \<Rightarrow> bool" where
  "should_redact_field exact_fields substring_fields field_name =
     (let name = normalize_redaction_field_name field_name in
      name \<in> set exact_fields \<or> list_ex (\<lambda>fragment. has_substring fragment name) substring_fields)"

section \<open>Values\<close>

datatype 'a log_value =
    Log_Mapping "(string \<times> 'a log_value) list"
  | Log_Tuple "'a log_value list"
  | Log_List "'a log_value list"
  | Log_Set "'a log_value list"
  | Log_Leaf 'a

fun redact_log_data :: "string list \<Rightarrow> string list \<Rightarrow> 'a \<Rightarrow> string option \<Rightarrow> 'a log_value \<Rightarrow> 'a log_value" where
  "redact_log_data exact subs replacement field_name v =
     (if (case field_name of None \<Rightarrow> False | Some f \<Rightarrow> should_redact_field exact subs f) then Log_Leaf replacement
      else (case v of
          Log_Mapping d \<Rightarrow> Log_Mapping (map (\<lambda>(key, nested). (key, redact_log_data exact subs replacement (Some key) nested)) d)
        | Log_Tuple items \<Rightarrow> Log_Tuple (map (redact_log_data exact subs replacement None) items)
        | Log_List items \<Rightarrow> Log_List (map (redact_log_data exact subs replacement None) items)
        | Log_Set items \<Rightarrow> Log_Set (map (redact_log_data exact subs replacement None) items)
        | Log_Leaf x \<Rightarrow> Log_Leaf x))"

declare redact_log_data.simps [simp del]

definition redact_log_event_dict ::
  "string list \<Rightarrow> string list \<Rightarrow> 'a \<Rightarrow> (string \<times> 'a log_value) list \<Rightarrow> (string \<times> 'a log_value) list" where
  "redact_log_event_dict exact subs replacement event_dict =
     map (\<lambda>(key, v). (key, redact_log_data exact subs replacement (Some key) v)) event_dict"

section \<open>Processors\<close>

definition drop_color_message_key :: "(string \<times> 'v) list \<Rightarrow> (string \<times> 'v) list" where
  "drop_color_message_key event_dict = AList.delete ''color_message'' event_dict"

record include_flags =
  if_request_id :: bool
  if_correlation_id :: bool
  if_path :: bool
  if_method :: bool
  if_client_host :: bool
  if_status_code :: bool

definition include_map :: "include_flags \<Rightarrow> (string \<times> bool) list" where
  "include_map f =
     [(''request_id'', if_request_id f), (''correlation_id'', if_correlation_id f), (''path'', if_path f),
      (''method'', if_method f), (''client_host'', if_client_host f), (''status_code'', if_status_code f)]"

definition build_handler_filter :: "include_flags \<Rightarrow> (string \<times> 'v) list \<Rightarrow> (string \<times> 'v) list" where
  "build_handler_filter f event_dict =
     fold (\<lambda>(key, included) d. if included then d else AList.delete key d) (include_map f) event_dict"

definition redact_sensitive_log_fields ::
  "(string \<Rightarrow> 'a) \<Rightarrow> log_redaction_settings \<Rightarrow> (string \<times> 'a log_value) list \<Rightarrow> (string \<times> 'a log_value) list" where
  "redact_sensitive_log_fields of_str s event_dict =
     (if \<not> LOG_REDACTION_ENABLED s then event_dict
      else redact_log_event_dict (map normalize_redaction_field_name (LOG_REDACTION_EXACT_FIELDS s))
             (map normalize_redaction_field_name (LOG_REDACTION_SUBSTRING_FIELDS s))
             (of_str (LOG_REDACTION_REPLACEMENT s)) event_dict)"

section \<open>Properties\<close>

text \<open>The fields of a value, at every depth.\<close>

inductive field_of :: "'a log_value \<Rightarrow> string \<Rightarrow> 'a log_value \<Rightarrow> bool" where
  field_here: "(k, v) \<in> set d \<Longrightarrow> field_of (Log_Mapping d) k v"
| field_mapping: "(k', u) \<in> set d \<Longrightarrow> field_of u k v \<Longrightarrow> field_of (Log_Mapping d) k v"
| field_tuple: "u \<in> set us \<Longrightarrow> field_of u k v \<Longrightarrow> field_of (Log_Tuple us) k v"
| field_list: "u \<in> set us \<Longrightarrow> field_of u k v \<Longrightarrow> field_of (Log_List us) k v"
| field_set: "u \<in> set us \<Longrightarrow> field_of u k v \<Longrightarrow> field_of (Log_Set us) k v"

inductive_cases field_leafE [elim!]: "field_of (Log_Leaf x) k v"
inductive_cases field_mappingE [elim!]: "field_of (Log_Mapping d) k v"
inductive_cases field_tupleE [elim!]: "field_of (Log_Tuple us) k v"
inductive_cases field_listE [elim!]: "field_of (Log_List us) k v"
inductive_cases field_setE [elim!]: "field_of (Log_Set us) k v"

lemma redacted_value: "should_redact_field exact subs f \<Longrightarrow> redact_log_data exact subs rep (Some f) v = Log_Leaf rep"
  by (simp add: redact_log_data.simps)

lemma redacted_fields:
  "field_of (redact_log_data exact subs rep f v) k w \<Longrightarrow> should_redact_field exact subs k \<Longrightarrow> w = Log_Leaf rep"
proof (induction exact subs rep f v arbitrary: k w rule: redact_log_data.induct)
  case (1 exact subs rep f v)
  show ?case
  proof (cases "case f of None \<Rightarrow> False | Some f \<Rightarrow> should_redact_field exact subs f")
    case True
    then show ?thesis using "1.prems"(1) by (subst (asm) redact_log_data.simps) auto
  next
    case False
    show ?thesis
    proof (cases v)
      case (Log_Mapping d)
      then show ?thesis using "1.prems" False "1.IH"(1) [OF False Log_Mapping]
        by (subst (asm) redact_log_data.simps) (auto simp: redacted_value)
    next
      case (Log_Tuple us)
      then show ?thesis using "1.prems" False "1.IH"(2) [OF False Log_Tuple]
        by (subst (asm) redact_log_data.simps) auto
    next
      case (Log_List us)
      then show ?thesis using "1.prems" False "1.IH"(3) [OF False Log_List]
        by (subst (asm) redact_log_data.simps) auto
    next
      case (Log_Set us)
      then show ?thesis using "1.prems" False "1.IH"(4) [OF False Log_Set]
        by (subst (asm) redact_log_data.simps) auto
    next
      case (Log_Leaf x)
      then show ?thesis using "1.prems" False by (subst (asm) redact_log_data.simps) auto
    qed
  qed
qed

lemma unredacted_value:
  "(\<And>k w. field_of v k w \<Longrightarrow> \<not> should_redact_field exact subs k) \<Longrightarrow>
   \<not> (case f of None \<Rightarrow> False | Some f \<Rightarrow> should_redact_field exact subs f) \<Longrightarrow> redact_log_data exact subs rep f v = v"
proof (induction exact subs rep f v rule: redact_log_data.induct)
  case (1 exact subs rep f v)
  show ?case
  proof (cases v)
    case (Log_Mapping d)
    have "redact_log_data exact subs rep (Some k) u = u" if "(k, u) \<in> set d" for k u
      using "1.IH"(1) [OF "1.prems"(2) Log_Mapping that] "1.prems"(1) that unfolding Log_Mapping
      by (auto intro: field_of.intros)
    then have "map (\<lambda>(key, nested). (key, redact_log_data exact subs rep (Some key) nested)) d = d"
      by (intro map_idI) auto
    then show ?thesis using "1.prems"(2) Log_Mapping by (subst redact_log_data.simps) simp
  next
    case (Log_Tuple us)
    have "map (redact_log_data exact subs rep None) us = us"
      by (intro map_idI "1.IH"(2) [OF "1.prems"(2) Log_Tuple]) (use "1.prems"(1) in \<open>auto simp: Log_Tuple intro: field_of.intros\<close>)
    then show ?thesis using "1.prems"(2) Log_Tuple by (subst redact_log_data.simps) simp
  next
    case (Log_List us)
    have "map (redact_log_data exact subs rep None) us = us"
      by (intro map_idI "1.IH"(3) [OF "1.prems"(2) Log_List]) (use "1.prems"(1) in \<open>auto simp: Log_List intro: field_of.intros\<close>)
    then show ?thesis using "1.prems"(2) Log_List by (subst redact_log_data.simps) simp
  next
    case (Log_Set us)
    have "map (redact_log_data exact subs rep None) us = us"
      by (intro map_idI "1.IH"(4) [OF "1.prems"(2) Log_Set]) (use "1.prems"(1) in \<open>auto simp: Log_Set intro: field_of.intros\<close>)
    then show ?thesis using "1.prems"(2) Log_Set by (subst redact_log_data.simps) simp
  next
    case (Log_Leaf x)
    then show ?thesis using "1.prems"(2) by (subst redact_log_data.simps) simp
  qed
qed

text \<open>The node at a position, with the keys on the way to it.\<close>

fun node_at :: "nat list \<Rightarrow> 'a log_value \<Rightarrow> (string list \<times> 'a log_value) option" where
  "node_at [] v = Some ([], v)"
| "node_at (i # p) (Log_Mapping d) =
     (if i < length d then map_option (apfst ((#) (fst (d ! i)))) (node_at p (snd (d ! i))) else None)"
| "node_at (i # p) (Log_Tuple us) = (if i < length us then node_at p (us ! i) else None)"
| "node_at (i # p) (Log_List us) = (if i < length us then node_at p (us ! i) else None)"
| "node_at (i # p) (Log_Set us) = (if i < length us then node_at p (us ! i) else None)"
| "node_at (i # p) (Log_Leaf x) = None"

text \<open>A node without what is below it: its kind, its keys or its number of items, its leaf.\<close>

fun outline :: "'a log_value \<Rightarrow> string log_value \<times> 'a option" where
  "outline (Log_Mapping d) = (Log_Mapping (map (\<lambda>(k, _). (k, Log_Leaf [])) d), None)"
| "outline (Log_Tuple us) = (Log_Tuple (map (\<lambda>_. Log_Leaf []) us), None)"
| "outline (Log_List us) = (Log_List (map (\<lambda>_. Log_Leaf []) us), None)"
| "outline (Log_Set us) = (Log_Set (map (\<lambda>_. Log_Leaf []) us), None)"
| "outline (Log_Leaf x) = (Log_Leaf [], Some x)"

lemma redact_nodes:
  "redact_log_data exact subs rep None (Log_Mapping d) =
     Log_Mapping (map (\<lambda>(key, nested). (key, redact_log_data exact subs rep (Some key) nested)) d)"
  "redact_log_data exact subs rep None (Log_Tuple us) = Log_Tuple (map (redact_log_data exact subs rep None) us)"
  "redact_log_data exact subs rep None (Log_List us) = Log_List (map (redact_log_data exact subs rep None) us)"
  "redact_log_data exact subs rep None (Log_Set us) = Log_Set (map (redact_log_data exact subs rep None) us)"
  "redact_log_data exact subs rep None (Log_Leaf x) = Log_Leaf x"
  "\<not> should_redact_field exact subs k \<Longrightarrow> redact_log_data exact subs rep (Some k) v = redact_log_data exact subs rep None v"
  by (subst redact_log_data.simps; simp add: redact_log_data.simps)+

lemma outline_redacted: "outline (redact_log_data exact subs rep None v) = outline v"
  by (cases v) (auto simp: redact_nodes)

lemma redacted_node:
  "node_at p v = Some (ks, u) \<Longrightarrow> \<forall>k \<in> set ks. \<not> should_redact_field exact subs k \<Longrightarrow>
   node_at p (redact_log_data exact subs rep None v) = Some (ks, redact_log_data exact subs rep None u)"
proof (induction p v arbitrary: ks rule: node_at.induct)
  case (2 i p d)
  obtain k x where kx: "d ! i = (k, x)" by (cases "d ! i")
  with "2.prems" obtain ks' where "i < length d" "node_at p x = Some (ks', u)" "ks = k # ks'"
    by (auto split: if_splits)
  with 2 kx show ?case by (simp add: redact_nodes)
qed (auto simp: redact_nodes split: if_splits)

lemma node_at_snoc: "node_at p v = Some (ks, u) \<Longrightarrow> node_at (p @ [i]) v = map_option (apfst ((@) ks)) (node_at [i] u)"
  by (induction p v arbitrary: ks rule: node_at.induct; cases "node_at [i] u") (auto split: if_splits)

text \<open>C31: Redaction is exact.  Follow any path through the mappings, tuples, lists and sets of a
  log entry.  As long as no key on it is sensitive, the redacted entry has the same node at the
  same position: the same kind, the same keys in the same order, the same number of items, the
  same leaf.  Where the path comes to a sensitive key, the redacted entry has that key at the same
  place, with the replacement as its value, whatever was below it.  So every sensitive field at
  every depth holds the replacement, and an entry without one is logged as it is.\<close>

theorem redaction_is_exact:
  "(node_at p (Log_Mapping event_dict) = Some (ks, v) \<and> (\<forall>k \<in> set ks. \<not> should_redact_field exact subs k) \<longrightarrow>
      (\<exists>v'. node_at p (Log_Mapping (redact_log_event_dict exact subs rep event_dict)) = Some (ks, v') \<and> outline v' = outline v) \<and>
      (\<forall>d i. v = Log_Mapping d \<and> i < length d \<and> should_redact_field exact subs (fst (d ! i)) \<longrightarrow>
         node_at (p @ [i]) (Log_Mapping (redact_log_event_dict exact subs rep event_dict)) = Some (ks @ [fst (d ! i)], Log_Leaf rep)))
   \<and> (field_of (Log_Mapping (redact_log_event_dict exact subs rep event_dict)) k w \<and> should_redact_field exact subs k
      \<longrightarrow> w = Log_Leaf rep)
   \<and> ((\<forall>k w. field_of (Log_Mapping event_dict) k w \<longrightarrow> \<not> should_redact_field exact subs k)
      \<longrightarrow> redact_log_event_dict exact subs rep event_dict = event_dict)"
proof -
  have eq: "redact_log_data exact subs rep None (Log_Mapping d) = Log_Mapping (redact_log_event_dict exact subs rep d)" for d
    by (simp add: redact_nodes redact_log_event_dict_def)
  have nodes: "(\<exists>v'. node_at p (Log_Mapping (redact_log_event_dict exact subs rep event_dict)) = Some (ks, v') \<and> outline v' = outline v) \<and>
      (\<forall>d i. v = Log_Mapping d \<and> i < length d \<and> should_redact_field exact subs (fst (d ! i)) \<longrightarrow>
         node_at (p @ [i]) (Log_Mapping (redact_log_event_dict exact subs rep event_dict)) = Some (ks @ [fst (d ! i)], Log_Leaf rep))"
    if "node_at p (Log_Mapping event_dict) = Some (ks, v)" "\<forall>k \<in> set ks. \<not> should_redact_field exact subs k"
    using redacted_node [OF that, of rep] node_at_snoc [OF redacted_node [OF that, of rep]] outline_redacted [of exact subs rep v]
    unfolding eq by (auto simp: redact_nodes redacted_value split_beta)
  have same: "redact_log_event_dict exact subs rep event_dict = event_dict"
    if "\<forall>k w. field_of (Log_Mapping event_dict) k w \<longrightarrow> \<not> should_redact_field exact subs k"
    using unredacted_value [of "Log_Mapping event_dict" exact subs None rep] that unfolding eq by simp
  have "w = Log_Leaf rep"
    if "field_of (Log_Mapping (redact_log_event_dict exact subs rep event_dict)) k w" "should_redact_field exact subs k"
    using redacted_fields [of exact subs rep None "Log_Mapping event_dict" k w] that unfolding eq by simp
  with same nodes show ?thesis by simp
qed

definition demo_entry :: "(string \<times> json log_value) list" where
  "demo_entry = [(''event'', Log_Leaf (JStr ''sent'')),
     (''headers'', Log_List [Log_Mapping [(''X-Auth-Token'', Log_Leaf (JStr ''t-1''))]])]"

lemma redaction_is_exact_witness:
  "node_at [1, 0, 0] (Log_Mapping (redact_log_event_dict [''authorization''] [''token''] (JStr ''***'') demo_entry)) =
     Some ([''headers'', ''X-Auth-Token''], Log_Leaf (JStr ''***''))
   \<and> (\<exists>v. node_at [0] (Log_Mapping (redact_log_event_dict [''authorization''] [''token''] (JStr ''***'') demo_entry)) =
     Some ([''event''], v) \<and> outline v = (Log_Leaf [], Some (JStr ''sent'')))
   \<and> redact_log_event_dict [''authorization''] [] (JStr ''***'') demo_entry = demo_entry"
proof -
  let ?d = "[(''X-Auth-Token'', Log_Leaf (JStr ''t-1''))]"
  have at: "node_at [1, 0] (Log_Mapping demo_entry) = Some ([''headers''], Log_Mapping ?d)"
      "node_at [0] (Log_Mapping demo_entry) = Some ([''event''], Log_Leaf (JStr ''sent''))"
    by (simp_all add: demo_entry_def)
  have plain: "\<not> should_redact_field [''authorization''] [''token''] ''headers''"
      "\<not> should_redact_field [''authorization''] [''token''] ''event''" by (code_simp, code_simp)
  have sensitive: "should_redact_field [''authorization''] [''token''] (fst (?d ! 0))" by code_simp
  have names: "k \<in> {''event'', ''headers'', ''X-Auth-Token''}" if "field_of (Log_Mapping demo_entry) k w" for k w
    using that unfolding demo_entry_def by auto
  have "\<not> should_redact_field [''authorization''] [] ''event''" "\<not> should_redact_field [''authorization''] [] ''headers''"
    "\<not> should_redact_field [''authorization''] [] ''X-Auth-Token''" by (code_simp, code_simp, code_simp)
  with names have "\<forall>k w. field_of (Log_Mapping demo_entry) k w \<longrightarrow> \<not> should_redact_field [''authorization''] [] k"
    by (metis empty_iff insert_iff)
  then have same: "redact_log_event_dict [''authorization''] [] (JStr ''***'') demo_entry = demo_entry"
    by (rule redaction_is_exact [THEN conjunct2, THEN conjunct2, THEN mp])
  note nodes = redaction_is_exact [THEN conjunct1, rule_format, OF conjI]
  have deep: "node_at ([1, 0] @ [0]) (Log_Mapping (redact_log_event_dict [''authorization''] [''token''] (JStr ''***'') demo_entry)) =
     Some ([''headers''] @ [fst (?d ! 0)], Log_Leaf (JStr ''***''))"
    using nodes [OF at(1), of "[''authorization'']" "[''token'']"] plain(1) sensitive by auto
  moreover have "\<exists>v. node_at [0] (Log_Mapping (redact_log_event_dict [''authorization''] [''token''] (JStr ''***'') demo_entry)) =
     Some ([''event''], v) \<and> outline v = outline (Log_Leaf (JStr ''sent''))"
    using nodes [OF at(2), of "[''authorization'']" "[''token'']"] plain(2) by auto
  ultimately show ?thesis using same by simp
qed

text \<open>A configured field that has no letter or digit is in every name.\<close>

lemma empty_fragment_redacts_everything:
  "\<not> list_ex is_alnum (casefold f) \<Longrightarrow> f' = normalize_redaction_field_name f \<Longrightarrow> should_redact_field exact [f'] name"
proof -
  assume "\<not> list_ex is_alnum (casefold f)" "f' = normalize_redaction_field_name f"
  then have "f' = []" by (auto simp: normalize_redaction_field_name_def filter_empty_conv list_ex_iff)
  moreover have "has_substring [] s" for s by (cases s) (simp_all add: starts_with_def)
  ultimately show ?thesis by (simp add: should_redact_field_def)
qed

text \<open>The filters of the handlers leave the other keys alone, and take out those that are
  switched off.\<close>

lemma handler_filter_lookup:
  "map_of (build_handler_filter f d) k = (if (k, False) \<in> set (include_map f) then None else map_of d k)"
proof -
  have "map_of (fold (\<lambda>(key, included) d. if included then d else AList.delete key d) flags d) k
      = (if (k, False) \<in> set flags then None else map_of d k)" for flags
    by (induction flags arbitrary: d) (auto simp: AList.delete_conv' split: if_splits)
  then show ?thesis by (simp only: build_handler_filter_def)
qed

end
