(* ===== verification/Http_Hooks.thy ===== *)
theory Http_Hooks
  imports Http_Client Log_Redaction Metrics
begin

text \<open>
  The hooks of integrations/http_client: authentication (auth.py), logging (logging.py) and
  instrumentation (instrumentation.py), as request and response hooks of \<open>Http_Client\<close>.

  A hook acts on a state \<open>'w\<close>: the log is a function that appends an entry to it, and a token
  provider, a tracer or a metrics collector of the adopter are functions on it that may fail.
  The base-64 encoder of the standard library is \<open>b64encode\<close>; a client refuses to be built with
  the exception message on the left.
\<close>

section \<open>Authentication\<close>

definition set_header :: "string \<Rightarrow> string \<Rightarrow> 'w request_hook" where
  "set_header name v = (\<lambda>meth url headers content w. (Inr (AList.update name v headers), w))"

type_synonym 'w token_provider = "'w \<Rightarrow> (exn + string) \<times> 'w"

definition bearer_token_auth :: "string option \<Rightarrow> 'w token_provider option \<Rightarrow> string + 'w request_hook" where
  "bearer_token_auth token token_provider =
     (if token = None \<and> token_provider = None then Inl ''Either token or token_provider must be provided''
      else Inr (\<lambda>meth url headers content w.
        case token_provider of
          Some get_token \<Rightarrow>
            (case get_token w of
               (Inl e, w') \<Rightarrow> (Inl e, w')
             | (Inr t, w') \<Rightarrow> (Inr (AList.update ''Authorization'' (''Bearer '' @ t) headers), w'))
        | None \<Rightarrow> (Inr (AList.update ''Authorization'' (''Bearer '' @ or_list token []) headers), w)))"

definition api_key_auth :: "string \<Rightarrow> string \<Rightarrow> 'w request_hook" where
  "api_key_auth key header_name = set_header header_name key"

definition basic_auth :: "(string \<Rightarrow> string) \<Rightarrow> string \<Rightarrow> string \<Rightarrow> 'w request_hook" where
  "basic_auth b64encode username password =
     set_header ''Authorization'' (''Basic '' @ b64encode (username @ '':'' @ password))"

definition custom_auth :: "'w request_hook \<Rightarrow> 'w request_hook" where
  "custom_auth handler = handler"

section \<open>Logging\<close>

definition HEADER_REDACT_EXACT :: "string list" where
  "HEADER_REDACT_EXACT =
     [''authorization'', ''cookie'', ''setcookie'', ''xapikey'', ''apikey'', ''xcsrftoken'', ''xsecret'']"

definition HEADER_REDACT_SUBSTRING :: "string list" where
  "HEADER_REDACT_SUBSTRING = [''token'', ''secret'', ''password'', ''credential'', ''auth'']"

definition redact_headers :: "(string \<times> string) list \<Rightarrow> json log_value" where
  "redact_headers headers =
     redact_log_data HEADER_REDACT_EXACT HEADER_REDACT_SUBSTRING (JStr ''[REDACTED]'') None
       (Log_Mapping (map (\<lambda>(k, v). (k, Log_Leaf (JStr v))) headers))"

record log_entry =
  le_level :: string
  le_event :: string
  le_data :: "(string \<times> json log_value) list"

definition body_size_field :: "bool \<Rightarrow> string option \<Rightarrow> (string \<times> json log_value) list" where
  "body_size_field log_body content =
     (case content of Some bytes \<Rightarrow> if log_body then [(''body_size'', Log_Leaf (JInt (int (length bytes))))] else []
      | None \<Rightarrow> [])"

definition logging_request_hook :: "(log_entry \<Rightarrow> 'w \<Rightarrow> 'w) \<Rightarrow> bool \<Rightarrow> 'w request_hook" where
  "logging_request_hook log_write log_body = (\<lambda>meth url headers content w.
     (Inr headers,
      log_write \<lparr> le_level = ''info'', le_event = ''http_client_request'',
        le_data = [(''method'', Log_Leaf (JStr meth)), (''url'', Log_Leaf (JStr url)), (''headers'', redact_headers headers)]
          @ body_size_field log_body content \<rparr> w))"

text \<open>\<open>round(x, 4)\<close>, half to even on the decimal.\<close>

definition round4 :: "rat \<Rightarrow> rat" where
  "round4 x = of_int (round_half_even (x * 10000)) / 10000"

definition logging_response_hook :: "(log_entry \<Rightarrow> 'w \<Rightarrow> 'w) \<Rightarrow> bool \<Rightarrow> rat \<Rightarrow> 'w response_hook" where
  "logging_response_hook log_write log_body duration_seconds = (\<lambda>c w.
     let log_data = [(''method'', Log_Leaf (JStr (ar_method c))), (''url'', Log_Leaf (JStr (ar_url c))),
           (''status_code'', Log_Leaf (JInt (ar_status_code c))), (''duration_seconds'', Log_Leaf (JFloat (round4 duration_seconds)))]
           @ body_size_field log_body (ar_content c)
     in (None,
         case ar_error c of
           Some err \<Rightarrow>
             log_write \<lparr> le_level = ''warning'', le_event = ''http_client_response_error'',
               le_data = log_data @ [(''error'', Log_Leaf (JStr (he_message err))),
                 (''error_retryable'', Log_Leaf (JBool (he_is_retryable err)))] \<rparr> w
         | None \<Rightarrow> log_write \<lparr> le_level = ''info'', le_event = ''http_client_response'', le_data = log_data \<rparr> w))"

section \<open>Instrumentation\<close>

record 'w tracing_hook =
  th_inject :: "string \<Rightarrow> string \<Rightarrow> (string \<times> string) list \<Rightarrow> 'w \<Rightarrow> (exn + (string \<times> string) list) \<times> 'w"
  th_record :: "string \<Rightarrow> string \<Rightarrow> int \<Rightarrow> rat \<Rightarrow> string option \<Rightarrow> 'w \<Rightarrow> exn option \<times> 'w"

type_synonym 'w metrics_collector = "string \<Rightarrow> string \<Rightarrow> int \<Rightarrow> rat \<Rightarrow> string option \<Rightarrow> bool \<Rightarrow> 'w \<Rightarrow> exn option \<times> 'w"

definition instrumentation_request_hook :: "'w tracing_hook option \<Rightarrow> 'w request_hook" where
  "instrumentation_request_hook tracing = (\<lambda>meth url headers content w.
     case tracing of Some hook \<Rightarrow> th_inject hook meth url headers w | None \<Rightarrow> (Inr headers, w))"

text \<open>A failure of the collector or of the tracer is logged and goes no further.\<close>

definition logged :: "(log_entry \<Rightarrow> 'w \<Rightarrow> 'w) \<Rightarrow> string \<Rightarrow> exn option \<times> 'w \<Rightarrow> 'w" where
  "logged log_write event r = (case r of (None, w) \<Rightarrow> w
     | (Some _, w) \<Rightarrow> log_write \<lparr> le_level = ''warning'', le_event = event, le_data = [] \<rparr> w)"

definition instrumentation_response_hook ::
  "(log_entry \<Rightarrow> 'w \<Rightarrow> 'w) \<Rightarrow> 'w metrics_collector option \<Rightarrow> 'w tracing_hook option \<Rightarrow> rat \<Rightarrow> 'w response_hook" where
  "instrumentation_response_hook log_write metrics tracing duration_seconds = (\<lambda>c w.
     let error_str = map_option he_message (ar_error c);
         w1 = (case metrics of None \<Rightarrow> w
           | Some rec_request \<Rightarrow> logged log_write ''metrics_collector_error''
               (rec_request (ar_method c) (ar_url c) (ar_status_code c) duration_seconds error_str False w));
         w2 = (case tracing of None \<Rightarrow> w1
           | Some hook \<Rightarrow> logged log_write ''tracing_hook_error''
               (th_record hook (ar_method c) (ar_url c) (ar_status_code c) duration_seconds error_str w1))
     in (None, w2))"

section \<open>Properties\<close>

text \<open>Every hook of the package returns the headers with at most one of them set, whatever the
  other hooks do; a chain of them therefore keeps the headers that none of them names.\<close>

lemma static_auth_never_fails:
  "fst (api_key_auth key name meth url headers content w) = Inr (AList.update name key headers)"
  "fst (basic_auth b64 user pw meth url headers content w) =
     Inr (AList.update ''Authorization'' (''Basic '' @ b64 (user @ '':'' @ pw)) headers)"
  by (simp_all add: api_key_auth_def basic_auth_def set_header_def)

lemma bearer_needs_a_token: "(\<exists>e. bearer_token_auth token provider = Inl e) \<longleftrightarrow> token = None \<and> provider = None"
  by (simp add: bearer_token_auth_def)

lemma bearer_header:
  assumes "bearer_token_auth token provider = Inr hook" "hook meth url headers content w = (Inr headers', w')"
  shows "\<exists>t. headers' = AList.update ''Authorization'' (''Bearer '' @ t) headers"
  using assms by (auto simp: bearer_token_auth_def split: if_splits option.splits prod.splits sum.splits)

text \<open>The two logging hooks and the instrumentation change neither the request nor its outcome.\<close>

lemma logging_keeps_headers: "fst (logging_request_hook log_write b meth url headers content w) = Inr headers"
  by (simp add: logging_request_hook_def)

lemma response_hooks_never_fail:
  "fst (logging_response_hook log_write b d c w) = None"
  "fst (instrumentation_response_hook log_write m t d c w) = None"
  by (simp_all add: logging_response_hook_def instrumentation_response_hook_def Let_def split: option.split)

text \<open>A logged header whose name is sensitive shows the replacement only.\<close>

lemma logged_headers_are_redacted:
  assumes "field_of (redact_headers headers) name v" "should_redact_field HEADER_REDACT_EXACT HEADER_REDACT_SUBSTRING name"
  shows "v = Log_Leaf (JStr ''[REDACTED]'')"
  using assms unfolding redact_headers_def by (rule redacted_fields)

lemma credential_headers_are_redacted:
  "name \<in> {''Authorization'', ''X-Api-Key'', ''Cookie'', ''Set-Cookie'', ''X-CSRF-Token''} \<Longrightarrow>
   should_redact_field HEADER_REDACT_EXACT HEADER_REDACT_SUBSTRING name"
  by (elim insertE emptyE; hypsubst; code_simp)

text \<open>An API key under a header of another name is written to the log.\<close>

lemma other_key_header_is_logged:
  "redact_headers [(''X-Acme-Key'', ''k-1'')] = Log_Mapping [(''X-Acme-Key'', Log_Leaf (JStr ''k-1''))]"
  by code_simp

text \<open>The collector is always told that a request is not a retry, so its retry counter never
  moves.\<close>

lemma retries_are_not_counted:
  "Inc ''retries_total'' labels \<notin> set (outbound_ops meth url status d error False)"
  by (simp add: outbound_ops_def Let_def)

end
