(* ===== verification/Engine.thy ===== *)
theory Engine
  imports Db_Sessions Settings_Sections
begin

text \<open>
  core/db/database.py and core/redis.py: the arguments with which the database engine and the
  Redis pools are built, and the start of the engine with its retries.

  An SSL context is what the code sets of it: the file of certificate authorities it is created
  with, its two flags and its certificate chain.  Connecting to the engine is an operation on a
  state, as in \<open>Db_Sessions\<close>.
\<close>

section \<open>Database\<close>

record ssl_context =
  ssl_cafile :: "string option"
  ssl_check_hostname :: bool
  ssl_verify :: bool
  ssl_cert_chain :: "(string \<times> string) option"

definition build_database_ssl_context :: "postgres_settings \<Rightarrow> ssl_context option" where
  "build_database_ssl_context s =
     (if DATABASE_SSL_MODE s = SSL_DISABLE then None
      else let base =
             (if DATABASE_SSL_MODE s = SSL_REQUIRE
              then \<lparr> ssl_cafile = None, ssl_check_hostname = False, ssl_verify = False, ssl_cert_chain = None \<rparr>
              else \<lparr> ssl_cafile = DATABASE_SSL_CA_FILE s, ssl_check_hostname = (DATABASE_SSL_MODE s = SSL_VERIFY_FULL),
                     ssl_verify = True, ssl_cert_chain = None \<rparr>)
           in Some (case (DATABASE_SSL_CERT_FILE s, DATABASE_SSL_KEY_FILE s) of
                (Some cert, Some key) \<Rightarrow> base\<lparr> ssl_cert_chain := Some (cert, key) \<rparr>
              | _ \<Rightarrow> base))"

definition setting_if :: "string \<Rightarrow> int option \<Rightarrow> (string \<times> string) list" where
  "setting_if name v = (case v of None \<Rightarrow> [] | Some n \<Rightarrow> [(name, show_int n)])"

definition build_database_server_settings :: "postgres_settings \<Rightarrow> (string \<times> string) list" where
  "build_database_server_settings s =
     setting_if ''statement_timeout'' (DATABASE_STATEMENT_TIMEOUT_MS s)
     @ setting_if ''idle_in_transaction_session_timeout'' (DATABASE_IDLE_IN_TRANSACTION_SESSION_TIMEOUT_MS s)"

record connect_args =
  ca_timeout :: rat
  ca_command_timeout :: rat
  ca_ssl :: "ssl_context option"
  ca_server_settings :: "(string \<times> string) list option"

definition build_database_connect_args :: "postgres_settings \<Rightarrow> connect_args" where
  "build_database_connect_args s =
     \<lparr> ca_timeout = DATABASE_CONNECT_TIMEOUT s, ca_command_timeout = DATABASE_COMMAND_TIMEOUT s,
       ca_ssl = build_database_ssl_context s,
       ca_server_settings = (let server_settings = build_database_server_settings s in
         if server_settings \<noteq> [] then Some server_settings else None) \<rparr>"

record engine_kwargs =
  ek_pool_size :: int
  ek_max_overflow :: int
  ek_pool_pre_ping :: bool
  ek_pool_use_lifo :: bool
  ek_pool_recycle :: int
  ek_pool_timeout :: int
  ek_pool_reset_on_return :: string
  ek_connect_args :: connect_args

definition build_database_engine_kwargs :: "postgres_settings \<Rightarrow> engine_kwargs" where
  "build_database_engine_kwargs s =
     \<lparr> ek_pool_size = DATABASE_POOL_SIZE s, ek_max_overflow = DATABASE_MAX_OVERFLOW s,
       ek_pool_pre_ping = DATABASE_POOL_PRE_PING s, ek_pool_use_lifo = DATABASE_POOL_USE_LIFO s,
       ek_pool_recycle = DATABASE_POOL_RECYCLE s, ek_pool_timeout = DATABASE_POOL_TIMEOUT s,
       ek_pool_reset_on_return = ''rollback'', ek_connect_args = build_database_connect_args s \<rparr>"

section \<open>The start of the engine\<close>

fun startup_delays :: "nat \<Rightarrow> rat \<Rightarrow> rat \<Rightarrow> rat list" where
  "startup_delays 0 current_delay max_delay = []"
| "startup_delays (Suc n) current_delay max_delay = current_delay # startup_delays n (min (current_delay * 2) max_delay) max_delay"

definition build_database_startup_retry_delays :: "int \<Rightarrow> rat \<Rightarrow> rat \<Rightarrow> rat list" where
  "build_database_startup_retry_delays attempts base_delay max_delay = startup_delays (nat attempts) base_delay max_delay"

text \<open>One turn of the loop per delay: the first connects at once, the others after sleeping; the
  last failure is raised.  The result comes with the delays that were slept.\<close>

fun connect_attempts :: "('s \<Rightarrow> (exn + unit) \<times> 's) \<Rightarrow> rat list \<Rightarrow> 's \<Rightarrow> (exn + unit) \<times> rat list \<times> 's" where
  "connect_attempts connect [] s = (case connect s of (r, s') \<Rightarrow> (r, [], s'))"
| "connect_attempts connect (delay # delays) s =
     (case connect s of
        (Inr u, s') \<Rightarrow> (Inr u, [], s')
      | (Inl e, s') \<Rightarrow> (case connect_attempts connect delays s' of (r, slept, s'') \<Rightarrow> (r, delay # slept, s'')))"

definition initialize_database_engine ::
  "('s \<Rightarrow> (exn + unit) \<times> 's) \<Rightarrow> postgres_settings \<Rightarrow> 's \<Rightarrow> (exn + unit) \<times> rat list \<times> 's" where
  "initialize_database_engine connect s st =
     connect_attempts connect
       (build_database_startup_retry_delays (DATABASE_STARTUP_RETRY_ATTEMPTS s) (DATABASE_STARTUP_RETRY_BASE_DELAY s)
          (DATABASE_STARTUP_RETRY_MAX_DELAY s)) st"

text \<open>The sessions of the three scopes.\<close>

definition async_get_db :: session_scope where "async_get_db = API_REQUEST"
definition async_get_job_db :: session_scope where "async_get_job_db = BACKGROUND_JOB"
definition async_get_script_db :: session_scope where "async_get_script_db = SCRIPT"

section \<open>Redis\<close>

record redis_retry =
  rr_base :: rat
  rr_cap :: rat
  rr_retries :: int

definition build_redis_retry :: "int \<Rightarrow> rat \<Rightarrow> rat \<Rightarrow> redis_retry option" where
  "build_redis_retry attempts base_delay max_delay =
     (if attempts = 0 then None else Some \<lparr> rr_base = base_delay, rr_cap = max_delay, rr_retries = attempts \<rparr>)"

datatype pool_arg = Arg_Rat rat | Arg_Bool bool | Arg_Int int | Arg_Text "string option" | Arg_Retry redis_retry

definition build_redis_pool_kwargs ::
  "rat \<Rightarrow> rat \<Rightarrow> int \<Rightarrow> rat \<Rightarrow> rat \<Rightarrow> bool \<Rightarrow> int option \<Rightarrow> bool \<Rightarrow> bool \<Rightarrow> string \<Rightarrow> string option \<Rightarrow> string option \<Rightarrow> string option
   \<Rightarrow> (string \<times> pool_arg) list" where
  "build_redis_pool_kwargs connect_timeout socket_timeout attempts retry_base_delay retry_max_delay retry_on_timeout
      max_connections ssl_enabled check_hostname cert_reqs ca_certs certfile keyfile =
     [(''socket_connect_timeout'', Arg_Rat connect_timeout), (''socket_timeout'', Arg_Rat socket_timeout),
      (''retry_on_timeout'', Arg_Bool retry_on_timeout)] @
     (case build_redis_retry attempts retry_base_delay retry_max_delay of None \<Rightarrow> [] | Some r \<Rightarrow> [(''retry'', Arg_Retry r)]) @
     (case max_connections of None \<Rightarrow> [] | Some n \<Rightarrow> [(''max_connections'', Arg_Int n)]) @
     (if ssl_enabled
      then [(''ssl_check_hostname'', Arg_Bool check_hostname), (''ssl_cert_reqs'', Arg_Text (Some cert_reqs)),
            (''ssl_ca_certs'', Arg_Text ca_certs), (''ssl_certfile'', Arg_Text certfile), (''ssl_keyfile'', Arg_Text keyfile)]
      else [])"

record arq_redis_settings =
  ar_host :: string
  ar_port :: int
  ar_database :: int
  ar_username :: "string option"
  ar_password :: "string option"
  ar_ssl :: bool
  ar_ssl_keyfile :: "string option"
  ar_ssl_certfile :: "string option"
  ar_ssl_cert_reqs :: string
  ar_ssl_ca_certs :: "string option"
  ar_ssl_check_hostname :: bool
  ar_conn_timeout :: int
  ar_conn_retries :: int
  ar_conn_retry_delay :: int
  ar_max_connections :: "int option"
  ar_retry_on_timeout :: bool

definition cert_reqs_value :: "redis_cert_requirements \<Rightarrow> string" where
  "cert_reqs_value r = (case r of CERT_NONE \<Rightarrow> ''none'' | CERT_OPTIONAL \<Rightarrow> ''optional'' | CERT_REQUIRED \<Rightarrow> ''required'')"

text \<open>The settings of the queue as both the API and the worker pass them.\<close>

definition build_arq_redis_settings :: "redis_queue_settings \<Rightarrow> arq_redis_settings" where
  "build_arq_redis_settings s =
     \<lparr> ar_host = REDIS_QUEUE_HOST s, ar_port = REDIS_QUEUE_PORT s, ar_database = REDIS_QUEUE_DB s,
       ar_username = REDIS_QUEUE_USERNAME s, ar_password = REDIS_QUEUE_PASSWORD s, ar_ssl = REDIS_QUEUE_SSL s,
       ar_ssl_keyfile = REDIS_QUEUE_SSL_KEYFILE s, ar_ssl_certfile = REDIS_QUEUE_SSL_CERTFILE s,
       ar_ssl_cert_reqs = cert_reqs_value (REDIS_QUEUE_SSL_CERT_REQS s), ar_ssl_ca_certs = REDIS_QUEUE_SSL_CA_CERTS s,
       ar_ssl_check_hostname = REDIS_QUEUE_SSL_CHECK_HOSTNAME s, ar_conn_timeout = REDIS_QUEUE_CONNECT_TIMEOUT s,
       ar_conn_retries = REDIS_QUEUE_CONNECT_RETRIES s, ar_conn_retry_delay = REDIS_QUEUE_RETRY_DELAY s,
       ar_max_connections = REDIS_QUEUE_MAX_CONNECTIONS s, ar_retry_on_timeout = REDIS_QUEUE_RETRY_ON_TIMEOUT s \<rparr>"

definition cache_pool_kwargs :: "redis_cache_settings \<Rightarrow> (string \<times> pool_arg) list" where
  "cache_pool_kwargs s =
     build_redis_pool_kwargs (REDIS_CACHE_CONNECT_TIMEOUT s) (REDIS_CACHE_SOCKET_TIMEOUT s) (REDIS_CACHE_RETRY_ATTEMPTS s)
       (REDIS_CACHE_RETRY_BASE_DELAY s) (REDIS_CACHE_RETRY_MAX_DELAY s) (REDIS_CACHE_RETRY_ON_TIMEOUT s)
       (REDIS_CACHE_MAX_CONNECTIONS s) (REDIS_CACHE_SSL s) (REDIS_CACHE_SSL_CHECK_HOSTNAME s)
       (cert_reqs_value (REDIS_CACHE_SSL_CERT_REQS s)) (REDIS_CACHE_SSL_CA_CERTS s) (REDIS_CACHE_SSL_CERTFILE s)
       (REDIS_CACHE_SSL_KEYFILE s)"

definition rate_limit_pool_kwargs :: "redis_rate_limit_settings \<Rightarrow> (string \<times> pool_arg) list" where
  "rate_limit_pool_kwargs s =
     build_redis_pool_kwargs (REDIS_RATE_LIMIT_CONNECT_TIMEOUT s) (REDIS_RATE_LIMIT_SOCKET_TIMEOUT s)
       (REDIS_RATE_LIMIT_RETRY_ATTEMPTS s) (REDIS_RATE_LIMIT_RETRY_BASE_DELAY s) (REDIS_RATE_LIMIT_RETRY_MAX_DELAY s)
       (REDIS_RATE_LIMIT_RETRY_ON_TIMEOUT s) (REDIS_RATE_LIMIT_MAX_CONNECTIONS s) (REDIS_RATE_LIMIT_SSL s)
       (REDIS_RATE_LIMIT_SSL_CHECK_HOSTNAME s) (cert_reqs_value (REDIS_RATE_LIMIT_SSL_CERT_REQS s))
       (REDIS_RATE_LIMIT_SSL_CA_CERTS s) (REDIS_RATE_LIMIT_SSL_CERTFILE s) (REDIS_RATE_LIMIT_SSL_KEYFILE s)"

section \<open>Properties\<close>

text \<open>The delays of the start are the delays of the retried operations.\<close>

lemma startup_delays_curve: "startup_delays n (retry_delay p k) (rt_max p) = map (\<lambda>i. retry_delay p (k + i)) [0..<n]"
proof (induction n arbitrary: k)
  case (Suc n)
  show ?case using Suc.IH [of "Suc k"] by (simp add: upt_conv_Cons map_Suc_upt [symmetric] del: upt_Suc)
qed simp

lemma startup_delays_closed:
  assumes "0 \<le> base" "base \<le> maximum"
  shows "build_database_startup_retry_delays attempts base maximum = map (\<lambda>i. min (base * 2 ^ i) maximum) [0..<nat attempts]"
proof -
  let ?p = "\<lparr> rt_initial = base, rt_max = maximum \<rparr>"
  have "retry_delay ?p i = min (base * 2 ^ i) maximum" for i
    using database_retry.delay_closed [of ?p i] assms by (simp add: retry_valid_def)
  then show ?thesis using startup_delays_curve [of "nat attempts" ?p 0] by (simp add: build_database_startup_retry_delays_def)
qed

text \<open>A start connects until it succeeds, at most once more than there are retries, sleeps before
  each attempt but the first, and ends with the outcome of its last attempt.\<close>

fun after :: "('s \<Rightarrow> 'r \<times> 's) \<Rightarrow> nat \<Rightarrow> 's \<Rightarrow> 's" where
  "after connect 0 s = s"
| "after connect (Suc n) s = after connect n (snd (connect s))"

lemma engine_start_attempts:
  assumes "connect_attempts connect delays s = (r, slept, s')"
  shows "\<exists>n \<le> length delays. slept = take n delays \<and> connect (after connect n s) = (r, s')
    \<and> (\<forall>i < n. \<not> is_ok (fst (connect (after connect i s)))) \<and> (is_ok r \<or> n = length delays)"
  using assms
proof (induction delays arbitrary: s slept)
  case Nil
  then show ?case by (auto split: prod.splits)
next
  case (Cons d ds)
  obtain x s1 where x: "connect s = (x, s1)" by (cases "connect s")
  show ?case
  proof (cases x)
    case (Inr u)
    then show ?thesis using Cons.prems x by (intro exI [of _ 0]) auto
  next
    case (Inl e)
    then obtain slept1 where rec: "connect_attempts connect ds s1 = (r, slept1, s')" "slept = d # slept1"
      using Cons.prems x by (auto split: prod.splits)
    from Cons.IH [OF rec(1)] obtain n where n: "n \<le> length ds" "slept1 = take n ds"
      "connect (after connect n s1) = (r, s')" "\<forall>i < n. \<not> is_ok (fst (connect (after connect i s1)))"
      "is_ok r \<or> n = length ds" by blast
    have shift: "after connect (Suc i) s = after connect i s1" for i
      using x by simp
    have "\<not> is_ok (fst (connect (after connect i s)))" if "i < Suc n" for i
      using that n(4) x Inl shift [of "i - 1"] by (cases i) auto
    then show ?thesis using n rec(2) shift [of n] by (intro exI [of _ "Suc n"]) auto
  qed
qed

text \<open>Verification of the server is off with \<open>require\<close>, and a configured authority is not used.\<close>

lemma required_ssl_does_not_verify:
  "DATABASE_SSL_MODE s = SSL_REQUIRE \<Longrightarrow> \<exists>c. build_database_ssl_context s = Some c \<and> \<not> ssl_verify c \<and> ssl_cafile c = None"
  by (auto simp: build_database_ssl_context_def Let_def split: option.split)

lemma verified_ssl:
  assumes "DATABASE_SSL_MODE s \<in> {SSL_VERIFY_CA, SSL_VERIFY_FULL}"
  shows "\<exists>c. build_database_ssl_context s = Some c \<and> ssl_verify c \<and> ssl_cafile c = DATABASE_SSL_CA_FILE s
    \<and> (ssl_check_hostname c \<longleftrightarrow> DATABASE_SSL_MODE s = SSL_VERIFY_FULL)"
  using assms by (auto simp: build_database_ssl_context_def Let_def split: option.split)

end
