(* ===== verification/Sentry.thy ===== *)
theory Sentry
  imports Log_Redaction Request_Context
begin

text \<open>
  core/sentry.py: the configuration of the SDK, the filter and the scrubbing of events, the
  sampler, and the helpers that tag the scope.

  The SDK is a third-party package: the model is the list of the calls that the code makes to
  it, and whether it is installed and active is an argument.  An event is a dict of logged
  values (\<open>Log_Redaction\<close>) whose other values are JSON scalars.
\<close>

section \<open>Configuration\<close>

definition DEFAULT_SENTRY_SCRUB_FIELDS :: "string list" where
  "DEFAULT_SENTRY_SCRUB_FIELDS =
     [''password'', ''secret'', ''token'', ''authorization'', ''cookie'', ''session'', ''api_key'', ''apikey'', ''dsn'', ''private_key'',
      ''privatekey'', ''credit_card'', ''creditcard'', ''ssn'', ''access_token'', ''refresh_token'', ''bearer'', ''x-api-key'', ''api-key'',
      ''auth'', ''passwd'']"

definition DEFAULT_SENTRY_SCRUB_SUBSTRINGS :: "string list" where
  "DEFAULT_SENTRY_SCRUB_SUBSTRINGS =
     [''password'', ''secret'', ''token'', ''authorization'', ''credential'', ''cookie'', ''bearer'', ''private'']"

definition resolve_sentry_release :: "sentry_settings \<Rightarrow> string option" where
  "resolve_sentry_release s =
     (case SENTRY_RELEASE s of
        None \<Rightarrow> None
      | Some r \<Rightarrow> Some (if SENTRY_RELEASE_PREFIX s = [] then r else SENTRY_RELEASE_PREFIX s @ ''@'' @ r))"

record sentry_config =
  sn_enabled :: bool
  sn_dsn :: "string option"
  sn_environment :: string
  sn_release :: "string option"
  sn_debug :: bool
  sn_attach_stacktrace :: bool
  sn_send_default_pii :: bool
  sn_max_breadcrumbs :: int
  sn_traces_sample_rate :: rat
  sn_profiles_sample_rate :: rat
  sn_flush_timeout_seconds :: int
  sn_server_name :: "string option"
  sn_error_sample_rate :: rat
  sn_health_endpoint_sample_rate :: rat
  sn_webhook_sample_rate :: "rat option"
  sn_worker_sample_rate :: "rat option"
  sn_ignored_exceptions :: "string list"
  sn_ignored_loggers :: "string list"
  sn_scrub_fields :: "string list"
  sn_scrub_replacement :: string

definition from_settings :: "sentry_settings \<Rightarrow> sentry_config" where
  "from_settings s =
     \<lparr> sn_enabled = SENTRY_ENABLE s, sn_dsn = (if truthy_list (SENTRY_DSN s) then SENTRY_DSN s else None),
       sn_environment = SENTRY_ENVIRONMENT s, sn_release = resolve_sentry_release s, sn_debug = SENTRY_DEBUG s,
       sn_attach_stacktrace = SENTRY_ATTACH_STACKTRACE s, sn_send_default_pii = SENTRY_SEND_DEFAULT_PII s,
       sn_max_breadcrumbs = SENTRY_MAX_BREADCRUMBS s, sn_traces_sample_rate = SENTRY_TRACES_SAMPLE_RATE s,
       sn_profiles_sample_rate = SENTRY_PROFILES_SAMPLE_RATE s, sn_flush_timeout_seconds = SENTRY_FLUSH_TIMEOUT_SECONDS s,
       sn_server_name = SENTRY_SERVER_NAME s, sn_error_sample_rate = SENTRY_ERROR_SAMPLE_RATE s,
       sn_health_endpoint_sample_rate = SENTRY_HEALTH_ENDPOINT_SAMPLE_RATE s,
       sn_webhook_sample_rate = SENTRY_WEBHOOK_SAMPLE_RATE s, sn_worker_sample_rate = SENTRY_WORKER_SAMPLE_RATE s,
       sn_ignored_exceptions = SENTRY_IGNORED_EXCEPTIONS s, sn_ignored_loggers = SENTRY_IGNORED_LOGGERS s,
       sn_scrub_fields = SENTRY_SCRUB_FIELDS s, sn_scrub_replacement = SENTRY_SCRUB_REPLACEMENT s \<rparr>"

section \<open>Events\<close>

type_synonym sentry_event = "(string \<times> json log_value) list"

definition build_scrub_field_sets :: "string list \<Rightarrow> string list \<times> string list" where
  "build_scrub_field_sets scrub_fields = (map normalize_redaction_field_name scrub_fields, DEFAULT_SENTRY_SCRUB_SUBSTRINGS)"

fun scrub_event_data :: "string list \<Rightarrow> string list \<Rightarrow> json \<Rightarrow> string option \<Rightarrow> json log_value \<Rightarrow> json log_value" where
  "scrub_event_data exact subs replacement field_name v =
     (if (case field_name of None \<Rightarrow> False | Some f \<Rightarrow> should_redact_field exact subs f) then Log_Leaf replacement
      else (case v of
          Log_Mapping d \<Rightarrow> Log_Mapping (map (\<lambda>(key, nested). (key, scrub_event_data exact subs replacement (Some key) nested)) d)
        | Log_List items \<Rightarrow> Log_List (map (scrub_event_data exact subs replacement None) items)
        | Log_Tuple items \<Rightarrow> Log_Tuple (map (scrub_event_data exact subs replacement None) items)
        | _ \<Rightarrow> v))"

declare scrub_event_data.simps [simp del]

definition scrub_event :: "sentry_config \<Rightarrow> sentry_event \<Rightarrow> sentry_event" where
  "scrub_event config event =
     (case build_scrub_field_sets (sn_scrub_fields config) of (exact, subs) \<Rightarrow>
        map (\<lambda>(key, v). (key, scrub_event_data exact subs (JStr (sn_scrub_replacement config)) (Some key) v)) event)"

text \<open>\<open>dict(event.get("tags") or {})\<close>: None is the exception for a value that is neither a mapping
  nor a list of pairs.\<close>

fun tag_pair :: "json log_value \<Rightarrow> (string \<times> json log_value) option" where
  "tag_pair (Log_List [Log_Leaf (JStr k), v]) = Some (k, v)"
| "tag_pair (Log_Tuple [Log_Leaf (JStr k), v]) = Some (k, v)"
| "tag_pair _ = None"

fun all_pairs :: "json log_value list \<Rightarrow> (string \<times> json log_value) list option" where
  "all_pairs [] = Some []"
| "all_pairs (v # vs) = Option.bind (tag_pair v) (\<lambda>p. map_option ((#) p) (all_pairs vs))"

fun tags_dict :: "json log_value option \<Rightarrow> (string \<times> json log_value) list option" where
  "tags_dict None = Some []"
| "tags_dict (Some (Log_Mapping d)) = Some d"
| "tags_dict (Some (Log_List vs)) = all_pairs vs"
| "tags_dict (Some (Log_Tuple vs)) = all_pairs vs"
| "tags_dict (Some (Log_Set vs)) = all_pairs vs"
| "tags_dict (Some (Log_Leaf x)) = (if json_truthy x then None else Some [])"

definition set_tag :: "string \<Rightarrow> string option \<Rightarrow> (string \<times> json log_value) list \<Rightarrow> (string \<times> json log_value) list" where
  "set_tag name v tags = (case v of None \<Rightarrow> tags | Some s \<Rightarrow> AList.update name (Log_Leaf (JStr s)) tags)"

definition inject_context_tags :: "dict \<Rightarrow> sentry_event \<Rightarrow> sentry_event option" where
  "inject_context_tags ctxvars event =
     (let request_id = get_current_request_id ctxvars; correlation_id = get_current_correlation_id ctxvars
      in if request_id = None \<and> correlation_id = None then Some event
         else map_option (\<lambda>tags. AList.update ''tags'' (Log_Mapping (set_tag ''correlation_id'' correlation_id (set_tag ''request_id'' request_id tags))) event)
                (tags_dict (map_of event ''tags'')))"

text \<open>The callbacks: \<open>Inr None\<close> drops the event, \<open>Inl ()\<close> is an exception.  The class name of the
  hinted exception is an argument.\<close>

definition before_send_transaction :: "sentry_config \<Rightarrow> dict \<Rightarrow> sentry_event \<Rightarrow> unit + sentry_event option" where
  "before_send_transaction config ctxvars event =
     (case inject_context_tags ctxvars (scrub_event config event) of None \<Rightarrow> Inl () | Some e \<Rightarrow> Inr (Some e))"

definition before_send :: "sentry_config \<Rightarrow> dict \<Rightarrow> string option \<Rightarrow> sentry_event \<Rightarrow> unit + sentry_event option" where
  "before_send config ctxvars exc_type_name event =
     (if (case exc_type_name of None \<Rightarrow> False | Some n \<Rightarrow> n \<in> set (sn_ignored_exceptions config)) then Inr None
      else if (case map_of event ''logger'' of Some (Log_Leaf (JStr l)) \<Rightarrow> l \<in> set (sn_ignored_loggers config) | _ \<Rightarrow> False) then Inr None
      else before_send_transaction config ctxvars event)"

section \<open>Sampling\<close>

definition HEALTH_FRAGMENTS :: "string list" where
  "HEALTH_FRAGMENTS = [''/health'', ''/ready'', ''/readiness'', ''/liveness'', ''/status'']"

text \<open>A transaction that has no name has the empty one.\<close>

definition traces_sampler :: "sentry_config \<Rightarrow> string option \<Rightarrow> rat" where
  "traces_sampler config transaction_name =
     (let name = or_list transaction_name [] in
      if list_ex (\<lambda>fragment. has_substring fragment name) HEALTH_FRAGMENTS then sn_health_endpoint_sample_rate config
      else (case sn_webhook_sample_rate config of
              Some r \<Rightarrow> if has_substring ''/webhook'' name then r else sn_traces_sample_rate config
            | None \<Rightarrow> sn_traces_sample_rate config))"

section \<open>The SDK\<close>

datatype sampling = By_Sampler | At_Rate rat

record sentry_options =
  so_dsn :: "string option"
  so_environment :: string
  so_release :: "string option"
  so_debug :: bool
  so_attach_stacktrace :: bool
  so_send_default_pii :: bool
  so_max_breadcrumbs :: int
  so_sample_rate :: rat
  so_traces :: sampling
  so_profiles_sample_rate :: rat
  so_server_name :: "string option"
  so_integrations :: "string list"

datatype sdk_call =
    Sdk_Init sentry_options
  | Sdk_Set_Tag string string
  | Sdk_Set_User "(string \<times> string) list"
  | Sdk_Set_Context string dict
  | Sdk_Flush int
  | Sdk_Capture_Exception string
  | Sdk_Capture_Message string string

definition sentry_init_options :: "sentry_config \<Rightarrow> sampling \<Rightarrow> string list \<Rightarrow> sentry_options" where
  "sentry_init_options config traces integrations =
     \<lparr> so_dsn = sn_dsn config, so_environment = sn_environment config, so_release = sn_release config,
       so_debug = sn_debug config, so_attach_stacktrace = sn_attach_stacktrace config,
       so_send_default_pii = sn_send_default_pii config, so_max_breadcrumbs = sn_max_breadcrumbs config,
       so_sample_rate = sn_error_sample_rate config, so_traces = traces,
       so_profiles_sample_rate = sn_profiles_sample_rate config, so_server_name = sn_server_name config,
       so_integrations = integrations \<rparr>"

definition init_sentry :: "bool \<Rightarrow> bool \<Rightarrow> sentry_settings \<Rightarrow> sdk_call list" where
  "init_sentry installed arq_installed s =
     (if \<not> SENTRY_ENABLE s \<or> \<not> installed then []
      else [Sdk_Init (sentry_init_options (from_settings s) By_Sampler
              ([''fastapi'', ''logging''] @ (if arq_installed then [''arq''] else []))),
            Sdk_Set_Tag ''process_type'' ''api''])"

definition init_sentry_for_worker :: "bool \<Rightarrow> sentry_settings \<Rightarrow> sdk_call list" where
  "init_sentry_for_worker installed s =
     (if \<not> SENTRY_ENABLE s \<or> \<not> installed then []
      else let config = from_settings s;
               rate = (case sn_worker_sample_rate config of Some r \<Rightarrow> r | None \<Rightarrow> sn_traces_sample_rate config)
           in [Sdk_Init (sentry_init_options config (At_Rate rate) [''arq'', ''logging'']), Sdk_Set_Tag ''process_type'' ''worker''])"

definition shutdown_sentry :: "bool \<Rightarrow> sentry_settings \<Rightarrow> sdk_call list" where
  "shutdown_sentry installed s = (if \<not> SENTRY_ENABLE s \<or> \<not> installed then [] else [Sdk_Flush (SENTRY_FLUSH_TIMEOUT_SECONDS s)])"

section \<open>Scope helpers\<close>

definition tag_if :: "string \<Rightarrow> string option \<Rightarrow> sdk_call list" where
  "tag_if name v = (if truthy_list v then [Sdk_Set_Tag name (the v)] else [])"

definition field_if :: "string \<Rightarrow> string option \<Rightarrow> (string \<times> string) list" where
  "field_if name v = (if truthy_list v then [(name, the v)] else [])"

definition set_sentry_tags :: "bool \<Rightarrow> (string \<times> string) list \<Rightarrow> sdk_call list" where
  "set_sentry_tags enabled tags = (if enabled then map (\<lambda>(k, v). Sdk_Set_Tag k v) tags else [])"

definition set_sentry_user ::
  "bool \<Rightarrow> string \<Rightarrow> string option \<Rightarrow> string option \<Rightarrow> string option \<Rightarrow> string option \<Rightarrow> sdk_call list" where
  "set_sentry_user enabled user_id username email tenant_id org_id =
     (if \<not> enabled then []
      else Sdk_Set_User ([(''id'', user_id)] @ field_if ''username'' username @ field_if ''email'' email)
           # tag_if ''tenant_id'' tenant_id @ tag_if ''org_id'' org_id)"

definition set_sentry_request_context :: "bool \<Rightarrow> string option \<Rightarrow> string option \<Rightarrow> sdk_call list" where
  "set_sentry_request_context enabled request_id correlation_id =
     (if enabled then tag_if ''request_id'' request_id @ tag_if ''correlation_id'' correlation_id else [])"

definition set_sentry_job_context ::
  "bool \<Rightarrow> string \<Rightarrow> string option \<Rightarrow> string option \<Rightarrow> string option \<Rightarrow> int option \<Rightarrow> sdk_call list" where
  "set_sentry_job_context enabled job_id job_name queue_name correlation_id retry_count =
     (if \<not> enabled then []
      else Sdk_Set_Context ''job''
             ([(''id'', JStr job_id)] @ map (\<lambda>(k, v). (k, JStr v)) (field_if ''name'' job_name @ field_if ''queue'' queue_name)
              @ (case retry_count of None \<Rightarrow> [] | Some n \<Rightarrow> [(''retry_count'', JInt n)]))
           # tag_if ''correlation_id'' correlation_id)"

definition extra_context_call :: "dict option \<Rightarrow> sdk_call list" where
  "extra_context_call extra = (if truthy_list extra then [Sdk_Set_Context ''extra'' (the extra)] else [])"

definition capture_sentry_exception :: "bool \<Rightarrow> string \<Rightarrow> dict option \<Rightarrow> sdk_call list" where
  "capture_sentry_exception enabled error extra_context =
     (if enabled then extra_context_call extra_context @ [Sdk_Capture_Exception error] else [])"

definition capture_sentry_message :: "bool \<Rightarrow> string \<Rightarrow> string \<Rightarrow> dict option \<Rightarrow> sdk_call list" where
  "capture_sentry_message enabled message level extra =
     (if enabled then extra_context_call extra @ [Sdk_Capture_Message message level] else [])"

section \<open>Properties\<close>

text \<open>On values without sets, whose items hold no fields, scrubbing is the redaction of the logs.\<close>

inductive set_free :: "'a log_value \<Rightarrow> bool" where
  "(\<And>k v. (k, v) \<in> set d \<Longrightarrow> set_free v) \<Longrightarrow> set_free (Log_Mapping d)"
| "(\<And>v. v \<in> set vs \<Longrightarrow> set_free v) \<Longrightarrow> set_free (Log_Tuple vs)"
| "(\<And>v. v \<in> set vs \<Longrightarrow> set_free v) \<Longrightarrow> set_free (Log_List vs)"
| "set_free (Log_Leaf x)"

lemma scrub_is_redaction: "set_free v \<Longrightarrow> scrub_event_data exact subs rep f v = redact_log_data exact subs rep f v"
proof (induction v arbitrary: f rule: set_free.induct)
  case (1 d)
  have "map (\<lambda>(key, nested). (key, scrub_event_data exact subs rep (Some key) nested)) d
      = map (\<lambda>(key, nested). (key, redact_log_data exact subs rep (Some key) nested)) d"
    by (rule map_cong) (auto simp: 1)
  then show ?case by (simp add: scrub_event_data.simps redact_log_data.simps)
next
  case (2 vs)
  then have "map (scrub_event_data exact subs rep None) vs = map (redact_log_data exact subs rep None) vs" by simp
  then show ?case by (simp add: scrub_event_data.simps redact_log_data.simps)
next
  case (3 vs)
  then have "map (scrub_event_data exact subs rep None) vs = map (redact_log_data exact subs rep None) vs" by simp
  then show ?case by (simp add: scrub_event_data.simps redact_log_data.simps)
next
  case (4 x)
  show ?case by (simp add: scrub_event_data.simps redact_log_data.simps)
qed

lemma scrub_event_is_redaction:
  assumes "\<And>k v. (k, v) \<in> set event \<Longrightarrow> set_free v" "build_scrub_field_sets (sn_scrub_fields config) = (exact, subs)"
  shows "scrub_event config event = redact_log_event_dict exact subs (JStr (sn_scrub_replacement config)) event"
  unfolding scrub_event_def redact_log_event_dict_def assms(2) prod.case
  by (rule map_cong) (auto simp: scrub_is_redaction assms(1))

text \<open>What is sent of an event: an ignored one is dropped, of the others no sensitive field keeps
  its value, but for the identifiers that are added to the tags.\<close>

lemma sent_event:
  assumes "before_send config ctxvars exc event = Inr (Some sent)"
  shows "\<exists>tags. sent = AList.update ''tags'' (Log_Mapping tags) (scrub_event config event) \<or> sent = scrub_event config event"
  using assms by (auto simp: before_send_def before_send_transaction_def inject_context_tags_def Let_def split: option.splits if_splits)

lemma ignored_exception_is_dropped:
  "n \<in> set (sn_ignored_exceptions config) \<Longrightarrow> before_send config ctxvars (Some n) event = Inr None"
  by (simp add: before_send_def)

text \<open>A scrubbed \<open>tags\<close> is a string, on which adding the identifiers fails: with such a field
  configured, no event of a request is sent.\<close>

lemma scrubbed_tags_break_the_filter:
  assumes "build_scrub_field_sets (sn_scrub_fields config) = (exact, subs)" "should_redact_field exact subs ''tags''"
    and "map_of event ''tags'' \<noteq> None" "sn_scrub_replacement config \<noteq> []" "get_current_request_id ctxvars \<noteq> None"
  shows "before_send_transaction config ctxvars event = Inl ()"
proof -
  have "map_of (scrub_event config event) k = map_option (\<lambda>v. scrub_event_data exact subs (JStr (sn_scrub_replacement config)) (Some k) v) (map_of event k)" for k
    unfolding scrub_event_def assms(1) prod.case by (induction event) auto
  then show ?thesis using assms(2-)
    by (auto simp: before_send_transaction_def inject_context_tags_def Let_def scrub_event_data.simps)
qed

text \<open>The sampler: a health path has the health rate, whatever else its name contains.\<close>

lemma health_is_sampled_at_its_rate:
  "f \<in> set HEALTH_FRAGMENTS \<Longrightarrow> has_substring f name \<Longrightarrow> traces_sampler config (Some name) = sn_health_endpoint_sample_rate config"
  by (cases "name = []") (auto simp: traces_sampler_def Let_def list_ex_iff)

lemma disabled_sentry_calls_nothing:
  "\<not> SENTRY_ENABLE s \<Longrightarrow> init_sentry i a s = [] \<and> init_sentry_for_worker i s = [] \<and> shutdown_sentry i s = []"
  by (simp add: init_sentry_def init_sentry_for_worker_def shutdown_sentry_def)

lemma inactive_helpers_call_nothing:
  "set_sentry_tags False tags = []" "set_sentry_user False u n e t g = []" "set_sentry_request_context False r c = []"
  "set_sentry_job_context False j n q c k = []" "capture_sentry_exception False err x = []" "capture_sentry_message False m l x = []"
  by (simp_all add: set_sentry_tags_def set_sentry_user_def set_sentry_request_context_def set_sentry_job_context_def
      capture_sentry_exception_def capture_sentry_message_def)

end
