(* ===== verification/Tracing.thy ===== *)
theory Tracing
  imports Http_Hooks Request_Context
begin

text \<open>
  core/tracing.py: the module state, its start and stop, the propagation of the trace context,
  the span helpers and the tracing hook of the HTTP client.

  OpenTelemetry is a third-party package: the model is the list of the calls that the code makes
  to it, with what can be imported and whether a call fails as arguments.  \<open>inject\<close> is what the
  W3C propagator adds to the headers.
\<close>

section \<open>Module state\<close>

text \<open>A provider stands for the service name of its resource, and a tracer for its provider.\<close>

record tracing_module =
  tg_available :: "bool option"
  tg_provider :: "string option"
  tg_tracer :: "string option"

definition fresh_tracing :: tracing_module where
  "fresh_tracing = \<lparr> tg_available = None, tg_provider = None, tg_tracer = None \<rparr>"

definition check_otel_availability :: "bool \<Rightarrow> tracing_module \<Rightarrow> bool \<times> tracing_module" where
  "check_otel_availability importable st =
     (case tg_available st of
        Some a \<Rightarrow> (a, st)
      | None \<Rightarrow> (importable, st\<lparr> tg_available := Some importable \<rparr>))"

definition is_tracing_enabled :: "tracing_module \<Rightarrow> bool" where
  "is_tracing_enabled st \<longleftrightarrow> tg_tracer st \<noteq> None"

definition get_tracer :: "tracing_module \<Rightarrow> string option" where
  "get_tracer st = tg_tracer st"

datatype otel_call =
    Create_Provider string
  | Add_Batch_Otlp nat
  | Add_Simple_Console
  | Add_Simple_Memory
  | Warn string
  | Set_Global_Provider
  | Force_Flush nat
  | Provider_Shutdown

record otel_imports =
  oi_sdk :: bool
  oi_resources :: "string option"
  oi_otlp :: bool
  oi_simple_processor :: bool
  oi_console_exporter :: bool

text \<open>The exporters: \<open>Inl\<close> is their \<open>ImportError\<close>.\<close>

definition init_otlp_exporter :: "otel_imports \<Rightarrow> string + otel_call list" where
  "init_otlp_exporter lib =
     (if oi_otlp lib then Inr [Add_Batch_Otlp 5000] else Inl ''OTLP exporter requires: opentelemetry-exporter-otlp-proto-grpc'')"

definition init_console_exporter :: "otel_imports \<Rightarrow> string + otel_call list" where
  "init_console_exporter lib =
     (if \<not> oi_simple_processor lib then Inl ''Failed to import SimpleSpanProcessor''
      else Inr [if oi_console_exporter lib then Add_Simple_Console else Add_Simple_Memory])"

definition configure_exporter :: "otel_imports \<Rightarrow> tracing_exporter \<Rightarrow> otel_call list" where
  "configure_exporter lib exporter =
     (case (if exporter = EXPORT_OTLP then init_otlp_exporter lib else init_console_exporter lib) of
        Inr calls \<Rightarrow> calls
      | Inl e \<Rightarrow> [Warn (''Failed to configure exporter: '' @ e)])"

text \<open>\<open>init_tracing\<close>: a \<open>RuntimeError\<close>, or whether a holder is returned, with the calls.\<close>

definition init_tracing ::
  "otel_imports \<Rightarrow> tracing_settings \<Rightarrow> tracing_module \<Rightarrow> (string + bool) \<times> otel_call list \<times> tracing_module" where
  "init_tracing lib s st =
     (if \<not> TRACING_ENABLED s then (Inr False, [], st)
      else case check_otel_availability (oi_sdk lib) st of
        (False, st') \<Rightarrow>
          (Inl (''Tracing is enabled but OpenTelemetry packages are not installed. ''
             @ ''Install: opentelemetry-api, opentelemetry-sdk, opentelemetry-exporter-otlp-proto-grpc''), [], st')
      | (True, st') \<Rightarrow>
          (case oi_resources lib of
             Some e \<Rightarrow> (Inl (''Failed to import OpenTelemetry SDK: '' @ e), [], st')
           | None \<Rightarrow>
               let service_name = or_list (TRACING_SERVICE_NAME s) ''fastapi-template'' in
               (Inr True, Create_Provider service_name # configure_exporter lib (TRACING_EXPORTER s) @ [Set_Global_Provider],
                st'\<lparr> tg_provider := Some service_name, tg_tracer := Some service_name \<rparr>)))"

text \<open>Flushing and shutting down may raise; both failures are logged.\<close>

definition shutdown_tracing ::
  "string option \<Rightarrow> string option \<Rightarrow> tracing_settings \<Rightarrow> tracing_module \<Rightarrow> otel_call list \<times> tracing_module" where
  "shutdown_tracing flush_error shutdown_error s st =
     (if \<not> TRACING_ENABLED s \<or> tg_provider st = None then ([], st)
      else ([Force_Flush 5000] @ (case flush_error of None \<Rightarrow> [] | Some e \<Rightarrow> [Warn (''Error flushing tracer provider: '' @ e)])
            @ [Provider_Shutdown] @ (case shutdown_error of None \<Rightarrow> [] | Some e \<Rightarrow> [Warn (''Error shutting down tracer provider: '' @ e)]),
            st\<lparr> tg_provider := None, tg_tracer := None \<rparr>))"

section \<open>Propagation\<close>

definition set_default :: "string \<Rightarrow> string option \<Rightarrow> (string \<times> string) list \<Rightarrow> (string \<times> string) list" where
  "set_default name v headers =
     (case v of None \<Rightarrow> headers | Some s \<Rightarrow> if map_of headers name = None then AList.update name s headers else headers)"

definition inject_trace_context ::
  "bool \<Rightarrow> ((string \<times> string) list \<Rightarrow> (string \<times> string) list) \<Rightarrow> bool \<Rightarrow> dict \<Rightarrow> tracing_module
   \<Rightarrow> (string \<times> string) list \<Rightarrow> (string \<times> string) list" where
  "inject_trace_context propagator_importable inject propagate_correlation_ids ctxvars st headers =
     (if \<not> is_tracing_enabled st \<or> \<not> propagator_importable then headers
      else let injected = inject headers in
        if propagate_correlation_ids
        then set_default ''X-Correlation-ID'' (get_current_correlation_id ctxvars)
               (set_default ''X-Request-ID'' (get_current_request_id ctxvars) injected)
        else injected)"

text \<open>\<open>extract_trace_context\<close> reads the context out of the headers and does nothing with it: the
  current context stays as it was.\<close>

definition extract_trace_context :: "bool \<Rightarrow> ((string \<times> string) list \<Rightarrow> 'ctx) \<Rightarrow> tracing_module \<Rightarrow> (string \<times> string) list \<Rightarrow> 'ctx \<Rightarrow> 'ctx" where
  "extract_trace_context propagator_importable extract st headers current =
     (if \<not> is_tracing_enabled st \<or> \<not> propagator_importable then current
      else let extracted = extract headers in current)"

section \<open>Spans\<close>

text \<open>A span is its name, the attributes that were set and the exceptions that were recorded.\<close>

record span =
  sp_name :: string
  sp_attributes :: dict
  sp_exceptions :: "string list"

definition start_span :: "string \<Rightarrow> dict \<Rightarrow> tracing_module \<Rightarrow> span option" where
  "start_span name attributes st =
     (case get_tracer st of None \<Rightarrow> None | Some _ \<Rightarrow> Some \<lparr> sp_name = name, sp_attributes = attributes, sp_exceptions = [] \<rparr>)"

definition attribute_if :: "string \<Rightarrow> string option \<Rightarrow> dict" where
  "attribute_if name v = (if truthy_list v then [(name, JStr (the v))] else [])"

definition start_request_span :: "dict \<Rightarrow> string \<Rightarrow> string \<Rightarrow> tracing_module \<Rightarrow> span option" where
  "start_request_span ctxvars meth path st =
     start_span (meth @ '' '' @ path)
       ([(''http.method'', JStr meth), (''http.target'', JStr path)]
        @ attribute_if ''http.request_id'' (get_current_request_id ctxvars)
        @ attribute_if ''trace.correlation_id'' (get_current_correlation_id ctxvars)) st"

definition start_job_span :: "string \<Rightarrow> string \<Rightarrow> string option \<Rightarrow> tracing_module \<Rightarrow> span option" where
  "start_job_span job_name job_id correlation_id st =
     start_span (''job/'' @ job_name)
       ([(''job.name'', JStr job_name), (''job.id'', JStr job_id)] @ attribute_if ''trace.correlation_id'' correlation_id) st"

definition start_webhook_span :: "string \<Rightarrow> string \<Rightarrow> string \<Rightarrow> tracing_module \<Rightarrow> span option" where
  "start_webhook_span provider event_type delivery_id st =
     start_span (''webhook/'' @ provider @ ''/'' @ event_type)
       [(''webhook.provider'', JStr provider), (''webhook.event_type'', JStr event_type), (''webhook.delivery_id'', JStr delivery_id)] st"

definition start_outbound_span :: "string \<Rightarrow> string \<Rightarrow> tracing_module \<Rightarrow> span option" where
  "start_outbound_span meth url st =
     start_span (meth @ '' '' @ url) [(''http.method'', JStr meth), (''http.url'', JStr url)] st"

text \<open>\<open>trace_span\<close> runs its body with the span, which it ends however the body ends; the body may
  record exceptions.\<close>

definition trace_span :: "string \<Rightarrow> dict \<Rightarrow> (span option \<Rightarrow> span option) \<Rightarrow> tracing_module \<Rightarrow> span option" where
  "trace_span name attributes body st =
     (case start_span name [] st of
        None \<Rightarrow> body None
      | Some sp \<Rightarrow> body (Some (sp\<lparr> sp_attributes := fold (\<lambda>(k, v) d. AList.update k v d) attributes [] \<rparr>)))"

definition record_span :: "string \<Rightarrow> string \<Rightarrow> int \<Rightarrow> rat \<Rightarrow> string option \<Rightarrow> tracing_module \<Rightarrow> span option" where
  "record_span meth url status_code duration_seconds error st =
     trace_span (meth @ '' '' @ url)
       ([(''http.method'', JStr meth), (''http.url'', JStr url), (''http.status_code'', JInt status_code),
         (''http.duration_seconds'', JFloat duration_seconds)] @ attribute_if ''http.error'' error)
       (map_option (\<lambda>sp. if truthy_list error then sp\<lparr> sp_exceptions := sp_exceptions sp @ [the error] \<rparr> else sp)) st"

text \<open>The hook of the HTTP client: its state is the module and the finished spans.\<close>

definition opentelemetry_tracing_hook ::
  "bool \<Rightarrow> ((string \<times> string) list \<Rightarrow> (string \<times> string) list) \<Rightarrow> bool \<Rightarrow> dict \<Rightarrow> (tracing_module \<times> span list) tracing_hook" where
  "opentelemetry_tracing_hook importable inject propagate ctxvars =
     \<lparr> th_inject = (\<lambda>meth url headers (st, spans). (Inr (inject_trace_context importable inject propagate ctxvars st headers), (st, spans))),
       th_record = (\<lambda>meth url status_code duration_seconds error (st, spans).
         (None, (st, case record_span meth url status_code duration_seconds error st of None \<Rightarrow> spans | Some sp \<Rightarrow> spans @ [sp]))) \<rparr>"

section \<open>Properties\<close>

lemma disabled_tracing_does_nothing:
  assumes "tg_tracer st = None"
  shows "inject_trace_context i inject p ctxvars st headers = headers"
    and "start_request_span ctxvars m path st = None" and "start_job_span n j c st = None"
    and "start_webhook_span a b dl st = None" and "start_outbound_span m url st = None" and "record_span m url s d e st = None"
  using assms by (simp_all add: inject_trace_context_def is_tracing_enabled_def start_request_span_def start_job_span_def
      start_webhook_span_def start_outbound_span_def start_span_def get_tracer_def record_span_def trace_span_def)

text \<open>After a start tracing is enabled, after a stop it is not, and it can be started again.\<close>

lemma tracing_starts_and_stops:
  assumes "init_tracing lib s st = (Inr True, calls, st1)"
  shows "is_tracing_enabled st1" and "\<not> is_tracing_enabled (snd (shutdown_tracing fe se s st1))"
    and "fst (init_tracing lib s (snd (shutdown_tracing fe se s st1))) = Inr True"
  using assms
  by (auto simp: init_tracing_def check_otel_availability_def is_tracing_enabled_def shutdown_tracing_def Let_def
      split: if_splits option.splits bool.splits prod.splits)

text \<open>A header that the caller has set is kept, and identifiers are added where they are missing.\<close>

lemma injected_headers_keep:
  assumes "map_of (inject headers) k = Some v" "map_of headers k = Some v"
  shows "map_of (inject_trace_context i inject p ctxvars st headers) k = Some v"
  using assms by (auto simp: inject_trace_context_def set_default_def Let_def split: option.splits)

text \<open>The sample rate has no effect.\<close>

lemma sample_rate_is_unused: "init_tracing lib (s\<lparr> TRACING_SAMPLE_RATE := r \<rparr>) st = init_tracing lib s st"
proof -
  have same: "TRACING_ENABLED (s\<lparr> TRACING_SAMPLE_RATE := r \<rparr>) = TRACING_ENABLED s"
    "TRACING_SERVICE_NAME (s\<lparr> TRACING_SAMPLE_RATE := r \<rparr>) = TRACING_SERVICE_NAME s"
    "TRACING_EXPORTER (s\<lparr> TRACING_SAMPLE_RATE := r \<rparr>) = TRACING_EXPORTER s" by simp_all
  show ?thesis unfolding init_tracing_def same ..
qed

lemma extracted_context_is_dropped: "extract_trace_context i extract st headers current = current"
  by (simp add: extract_trace_context_def Let_def)

text \<open>A span is recorded with the error of its request, and carries it as an exception.\<close>

lemma failed_request_span:
  assumes "is_tracing_enabled st" "e \<noteq> []"
  shows "\<exists>sp. record_span m url s d (Some e) st = Some sp \<and> sp_exceptions sp = [e] \<and> map_of (sp_attributes sp) ''http.error'' = Some (JStr e)"
  using assms by (auto simp: record_span_def trace_span_def start_span_def get_tracer_def is_tracing_enabled_def attribute_if_def)

end
