(* ===== verification/Lifecycle.thy ===== *)
theory Lifecycle
  imports Engine Application Sentry Tracing
begin

text \<open>
  The life of the two processes: core/setup.py (pools, the state of the API, the lifespan, the
  graceful shutdown), core/worker/functions.py and core/worker/settings.py (start and stop of a
  worker, its settings), admin/initialize.py and main.py.

  What a library call does is an argument: which resource fails to open and to close, whether
  the drain ends in time.  A process is the list of the events of its run.
\<close>

section \<open>Pools\<close>

record shared_pools =
  pl_cache :: "(string \<times> (string \<times> pool_arg) list) option"
  pl_queue :: "arq_redis_settings option"
  pl_rate_limiter :: "(string \<times> (string \<times> pool_arg) list) option"

text \<open>\<open>ping\<close> is the failure of the first ping, if any.  A pool that fails is released and not kept.\<close>

definition create_redis_cache_pool :: "exn option \<Rightarrow> redis_cache_settings \<Rightarrow> shared_pools \<Rightarrow> (exn + unit) \<times> shared_pools" where
  "create_redis_cache_pool ping s st =
     (case ping of
        Some e \<Rightarrow> (Inl e, st)
      | None \<Rightarrow> (Inr (), st\<lparr> pl_cache := Some (REDIS_CACHE_URL s, cache_pool_kwargs s) \<rparr>))"

definition close_redis_cache_pool :: "shared_pools \<Rightarrow> shared_pools" where
  "close_redis_cache_pool st = st\<lparr> pl_cache := None \<rparr>"

text \<open>\<open>create_pool\<close> connects, which may fail too.\<close>

definition create_redis_queue_pool ::
  "exn option \<Rightarrow> exn option \<Rightarrow> redis_queue_settings \<Rightarrow> shared_pools \<Rightarrow> (exn + unit) \<times> shared_pools" where
  "create_redis_queue_pool connect ping s st =
     (case connect of
        Some e \<Rightarrow> (Inl e, st)
      | None \<Rightarrow> (case ping of Some e \<Rightarrow> (Inl e, st) | None \<Rightarrow> (Inr (), st\<lparr> pl_queue := Some (build_arq_redis_settings s) \<rparr>)))"

definition close_redis_queue_pool :: "shared_pools \<Rightarrow> shared_pools" where
  "close_redis_queue_pool st = st\<lparr> pl_queue := None \<rparr>"

text \<open>The rate limiter is a singleton: a second \<open>initialize\<close> keeps the first pool.\<close>

definition initialize_rate_limiter :: "string \<Rightarrow> (string \<times> pool_arg) list \<Rightarrow> shared_pools \<Rightarrow> shared_pools" where
  "initialize_rate_limiter url kwargs st =
     (case pl_rate_limiter st of None \<Rightarrow> st\<lparr> pl_rate_limiter := Some (url, kwargs) \<rparr> | Some _ \<Rightarrow> st)"

definition shutdown_rate_limiter :: "shared_pools \<Rightarrow> shared_pools" where
  "shutdown_rate_limiter st = st\<lparr> pl_rate_limiter := None \<rparr>"

definition create_redis_rate_limit_pool ::
  "exn option \<Rightarrow> redis_rate_limit_settings \<Rightarrow> shared_pools \<Rightarrow> (exn + unit) \<times> shared_pools" where
  "create_redis_rate_limit_pool ping s st =
     (let st1 = initialize_rate_limiter (REDIS_RATE_LIMIT_URL s) (rate_limit_pool_kwargs s) st in
      case ping of Some e \<Rightarrow> (Inl e, shutdown_rate_limiter st1) | None \<Rightarrow> (Inr (), st1))"

definition close_redis_rate_limit_pool :: "shared_pools \<Rightarrow> shared_pools" where
  "close_redis_rate_limit_pool st = shutdown_rate_limiter st"

section \<open>The state of the API\<close>

record api_lifecycle =
  al_initialization_complete :: bool
  al_shutdown_in_progress :: bool
  al_active_request_count :: int
  al_active_requests_drained :: bool

definition initialize_api_lifecycle_state :: api_lifecycle where
  "initialize_api_lifecycle_state =
     \<lparr> al_initialization_complete = False, al_shutdown_in_progress = False, al_active_request_count = 0,
       al_active_requests_drained = True \<rparr>"

text \<open>An application whose lifespan has not run has no state, None.\<close>

definition begin_api_request :: "api_lifecycle option \<Rightarrow> api_lifecycle option" where
  "begin_api_request st = map_option (\<lambda>s. s\<lparr> al_active_request_count := al_active_request_count s + 1,
     al_active_requests_drained := False \<rparr>) st"

definition end_api_request :: "api_lifecycle option \<Rightarrow> api_lifecycle option" where
  "end_api_request st = map_option (\<lambda>s.
     let n = al_active_request_count s - 1 in
     if n \<le> 0 then s\<lparr> al_active_request_count := 0, al_active_requests_drained := True \<rparr>
     else s\<lparr> al_active_request_count := n \<rparr>) st"

definition mark_api_shutdown_in_progress :: "api_lifecycle option \<Rightarrow> api_lifecycle option" where
  "mark_api_shutdown_in_progress st = map_option (\<lambda>s. s\<lparr> al_shutdown_in_progress := True \<rparr>) st"

text \<open>Whether the shutdown waits, and whether it logs that it gave up waiting.\<close>

definition wait_for_api_requests_to_drain :: "bool \<Rightarrow> api_lifecycle option \<Rightarrow> bool \<times> bool" where
  "wait_for_api_requests_to_drain drained_in_time st =
     (case st of
        None \<Rightarrow> (False, False)
      | Some s \<Rightarrow>
          if \<not> al_shutdown_in_progress s \<or> al_active_requests_drained s then (False, False)
          else (True, \<not> drained_in_time))"

definition API_SHUTDOWN_DETAIL :: string where
  "API_SHUTDOWN_DETAIL = ''The application is shutting down.''"

text \<open>\<open>dispatch\<close> up to its \<open>call_next\<close>: the answer of a refused request, or the state in which the
  rest of the stack runs.\<close>

definition dispatch_admission :: "api_lifecycle option \<Rightarrow> api_response + api_lifecycle option" where
  "dispatch_admission st =
     (if (case st of None \<Rightarrow> False | Some s \<Rightarrow> al_shutdown_in_progress s)
      then Inl \<lparr> ap_status_code = 503, ap_content = JDict [(''detail'', JStr API_SHUTDOWN_DETAIL)], ap_headers = [] \<rparr>
      else Inr (begin_api_request st))"

text \<open>The request ends whether the rest of the stack answers or raises.\<close>

definition graceful_shutdown_dispatch ::
  "(api_lifecycle option \<Rightarrow> (asgi_exn + api_response) \<times> api_lifecycle option) \<Rightarrow> api_lifecycle option
   \<Rightarrow> (asgi_exn + api_response) \<times> api_lifecycle option" where
  "graceful_shutdown_dispatch call_next st =
     (case dispatch_admission st of
        Inl refusal \<Rightarrow> (Inr refusal, st)
      | Inr admitted \<Rightarrow> (case call_next admitted of (r, st') \<Rightarrow> (r, end_api_request st')))"

section \<open>Resources\<close>

datatype resource = Database | Cache_Pool | Queue_Pool | Rate_Limiter | Sentry_Client | Metrics_Registry | Tracer | Queue_Handle

datatype process_event =
    Ev_Opened resource
  | Ev_Failed resource
  | Ev_Closed resource
  | Ev_Initialized
  | Ev_Served
  | Ev_Shutdown_Marked
  | Ev_Drain_Waited
  | Ev_Admin_Initialized

text \<open>Opening in order, each success pushed on the exit stack: the events, the stack with the last
  resource on top, and the failure.\<close>

fun acquire :: "(resource \<Rightarrow> exn option) \<Rightarrow> resource list \<Rightarrow> resource list \<Rightarrow> process_event list \<times> resource list \<times> exn option" where
  "acquire open_error [] stack = ([], stack, None)"
| "acquire open_error (r # rs) stack =
     (case open_error r of
        Some e \<Rightarrow> ([Ev_Failed r], stack, Some e)
      | None \<Rightarrow> (case acquire open_error rs (r # stack) of (ev, stack', x) \<Rightarrow> (Ev_Opened r # ev, stack', x)))"

text \<open>The exit stack calls every callback, and raises the last exception there was: \<open>Ev_Closed\<close> is
  the call of a resource's callback, whether that returns or raises.\<close>

fun unwind :: "(resource \<Rightarrow> exn option) \<Rightarrow> resource list \<Rightarrow> exn option \<Rightarrow> process_event list \<times> exn option" where
  "unwind close_error [] pending = ([], pending)"
| "unwind close_error (r # stack) pending =
     (case unwind close_error stack (case close_error r of None \<Rightarrow> pending | Some e \<Rightarrow> Some e) of
        (ev, x) \<Rightarrow> (Ev_Closed r # ev, x))"

section \<open>The lifespan of the API\<close>

definition lifespan_resources :: "settings \<Rightarrow> resource list" where
  "lifespan_resources s =
     [Database, Cache_Pool, Queue_Pool, Rate_Limiter, Sentry_Client] @
     (if METRICS_ENABLED (s_metrics s) then [Metrics_Registry] else []) @
     (if TRACING_ENABLED (s_tracing s) then [Tracer] else [])"

text \<open>\<open>body\<close> is what happens while the application serves: its events, and the exception that
  ends it, if any.\<close>

definition run_lifespan ::
  "(resource \<Rightarrow> exn option) \<Rightarrow> (resource \<Rightarrow> exn option) \<Rightarrow> process_event list \<times> exn option \<Rightarrow> settings
   \<Rightarrow> process_event list \<times> exn option" where
  "run_lifespan open_error close_error body s =
     (case acquire open_error (lifespan_resources s) [] of
        (started, stack, Some e) \<Rightarrow> (case unwind close_error stack (Some e) of (released, x) \<Rightarrow> (started @ released, x))
      | (started, stack, None) \<Rightarrow>
          (case body of (events, failure) \<Rightarrow>
             (case unwind close_error stack failure of
                (released, x) \<Rightarrow> (started @ [Ev_Initialized] @ events @ [Ev_Shutdown_Marked, Ev_Drain_Waited] @ released, x))))"

text \<open>main.py: the admin interface is initialized inside the default lifespan.\<close>

record admin_interface =
  ai_secret_key :: string
  ai_mount_path :: string
  ai_session_backend :: string
  ai_redis_config :: "(string \<times> int \<times> int \<times> string option) option"
  ai_allowed_ips :: "string list option"
  ai_allowed_networks :: "string list option"
  ai_max_sessions_per_user :: int
  ai_session_timeout_minutes :: int
  ai_secure_cookies :: bool
  ai_enforce_https :: bool
  ai_track_events :: bool
  ai_track_sessions_in_db :: bool
  ai_initial_admin :: "(string \<times> string) option"

definition non_empty :: "'a list option \<Rightarrow> 'a list option" where
  "non_empty xs = (if truthy_list xs then xs else None)"

definition create_admin_interface :: "settings \<Rightarrow> admin_interface option" where
  "create_admin_interface s =
     (let c = s_crud_admin s; u = s_first_user s in
      if \<not> FEATURE_ADMIN_ENABLED (s_features s) \<or> \<not> CRUD_ADMIN_ENABLED c then None
      else Some \<lparr> ai_secret_key = SECRET_KEY (s_crypt s), ai_mount_path = CRUD_ADMIN_MOUNT_PATH c,
        ai_session_backend = (if CRUD_ADMIN_REDIS_ENABLED c then ''redis'' else ''memory''),
        ai_redis_config = (if CRUD_ADMIN_REDIS_ENABLED c
           then Some (CRUD_ADMIN_REDIS_HOST c, CRUD_ADMIN_REDIS_PORT c, CRUD_ADMIN_REDIS_DB c,
                  if CRUD_ADMIN_REDIS_PASSWORD c = Some ''None'' then None else CRUD_ADMIN_REDIS_PASSWORD c)
           else None),
        ai_allowed_ips = non_empty (CRUD_ADMIN_ALLOWED_IPS_LIST c),
        ai_allowed_networks = non_empty (CRUD_ADMIN_ALLOWED_NETWORKS_LIST c),
        ai_max_sessions_per_user = CRUD_ADMIN_MAX_SESSIONS c, ai_session_timeout_minutes = CRUD_ADMIN_SESSION_TIMEOUT c,
        ai_secure_cookies = SESSION_SECURE_COOKIES c, ai_enforce_https = (ENVIRONMENT s = ENV_PRODUCTION),
        ai_track_events = CRUD_ADMIN_TRACK_EVENTS c, ai_track_sessions_in_db = CRUD_ADMIN_TRACK_SESSIONS c,
        ai_initial_admin = (if ADMIN_USERNAME u \<noteq> [] \<and> ADMIN_PASSWORD u \<noteq> [] then Some (ADMIN_USERNAME u, ADMIN_PASSWORD u)
           else None) \<rparr>)"

definition lifespan_with_admin ::
  "(resource \<Rightarrow> exn option) \<Rightarrow> (resource \<Rightarrow> exn option) \<Rightarrow> exn option \<Rightarrow> exn option \<Rightarrow> settings \<Rightarrow> process_event list \<times> exn option" where
  "lifespan_with_admin open_error close_error admin_error serving_error s =
     run_lifespan open_error close_error
       (case create_admin_interface s of
          None \<Rightarrow> ([Ev_Served], serving_error)
        | Some _ \<Rightarrow> (case admin_error of Some e \<Rightarrow> ([], Some e) | None \<Rightarrow> ([Ev_Admin_Initialized, Ev_Served], serving_error))) s"

section \<open>The worker\<close>

record worker_process =
  wp_settings :: "settings option"
  wp_redis :: bool
  wp_stack :: "resource list option"

definition worker_resources :: "worker_process \<Rightarrow> resource list" where
  "worker_resources ctx =
     (if wp_redis ctx then [Queue_Handle] else []) @
     (case wp_settings ctx of
        None \<Rightarrow> []
      | Some s \<Rightarrow> [Database, Cache_Pool, Rate_Limiter] @ (if SENTRY_ENABLE (s_sentry s) then [Sentry_Client] else []))"

text \<open>A failed start unwinds what it started and raises; the exception of the unwinding, if there is
  one, takes the place of the failure.\<close>

definition startup ::
  "(resource \<Rightarrow> exn option) \<Rightarrow> (resource \<Rightarrow> exn option) \<Rightarrow> worker_process \<Rightarrow> process_event list \<times> exn option \<times> worker_process" where
  "startup open_error close_error ctx =
     (case acquire open_error (worker_resources ctx) [] of
        (started, stack, Some e) \<Rightarrow>
          (case unwind close_error stack None of
             (released, x) \<Rightarrow> (started @ released, Some (case x of None \<Rightarrow> e | Some e' \<Rightarrow> e'), ctx\<lparr> wp_stack := None \<rparr>))
      | (started, stack, None) \<Rightarrow> (started, None, ctx\<lparr> wp_stack := Some stack \<rparr>))"

definition shutdown :: "(resource \<Rightarrow> exn option) \<Rightarrow> worker_process \<Rightarrow> process_event list \<times> exn option \<times> worker_process" where
  "shutdown close_error ctx =
     (case wp_stack ctx of
        None \<Rightarrow> ([], None, ctx)
      | Some stack \<Rightarrow> (case unwind close_error stack None of (released, x) \<Rightarrow> (released, x, ctx\<lparr> wp_stack := None \<rparr>)))"

section \<open>The settings of the worker\<close>

record 'c worker_class =
  wk_functions :: "string list"
  wk_cron_jobs :: "'c list option"
  wk_queue_name :: string
  wk_max_jobs :: int
  wk_max_tries :: int
  wk_keep_result :: rat
  wk_keep_result_forever :: bool
  wk_expires_extra_ms :: int
  wk_settings :: settings
  wk_redis_settings :: arq_redis_settings
  wk_handle_signals :: bool
  wk_job_completion_wait :: int

definition worker_functions :: "string list" where
  "worker_functions = [''platform.jobs.worker_probe'']"

definition build_worker_settings :: "'c list \<Rightarrow> settings \<Rightarrow> 'c worker_class" where
  "build_worker_settings build_cron_jobs s =
     (let cron_jobs = (if SCHEDULER_ENABLED (s_scheduler s) then build_cron_jobs else []) in
      \<lparr> wk_functions = worker_functions, wk_cron_jobs = (if cron_jobs \<noteq> [] then Some cron_jobs else None),
        wk_queue_name = WORKER_QUEUE_NAME (s_worker s), wk_max_jobs = WORKER_MAX_JOBS (s_worker s),
        wk_max_tries = WORKER_JOB_MAX_TRIES (s_worker s), wk_keep_result = WORKER_KEEP_RESULT_SECONDS (s_worker s),
        wk_keep_result_forever = WORKER_KEEP_RESULT_FOREVER (s_worker s),
        wk_expires_extra_ms = WORKER_JOB_EXPIRES_EXTRA_MS (s_worker s), wk_settings = s,
        wk_redis_settings = build_arq_redis_settings (s_redis_queue s), wk_handle_signals = True, wk_job_completion_wait = 30 \<rparr>)"

datatype service_start = Check_Health | Watch_Reload string | Run_Worker "int option"

definition start_arq_service :: "bool \<Rightarrow> int option \<Rightarrow> string option \<Rightarrow> service_start" where
  "start_arq_service check_only burst watch =
     (if check_only then Check_Health else if truthy_list watch then Watch_Reload (the watch) else Run_Worker burst)"

end
