(* ===== verification/Lifecycle_Theorems.thy ===== *)
theory Lifecycle_Theorems
  imports Lifecycle
begin

text \<open>
  What the start and the stop of the processes guarantee: every resource that was opened is
  closed, and a drained API stays idle.
\<close>

section \<open>Resources\<close>

fun opened_by :: "process_event \<Rightarrow> resource list" where
  "opened_by (Ev_Opened r) = [r]"
| "opened_by _ = []"

fun closed_by :: "process_event \<Rightarrow> resource list" where
  "closed_by (Ev_Closed r) = [r]"
| "closed_by _ = []"

definition opened_in :: "process_event list \<Rightarrow> resource list" where
  "opened_in evs = concat (map opened_by evs)"

definition closed_in :: "process_event list \<Rightarrow> resource list" where
  "closed_in evs = concat (map closed_by evs)"

lemma in_simps [simp]:
  "opened_in [] = []" "opened_in (e # es) = opened_by e @ opened_in es" "opened_in (xs @ ys) = opened_in xs @ opened_in ys"
  "closed_in [] = []" "closed_in (e # es) = closed_by e @ closed_in es" "closed_in (xs @ ys) = closed_in xs @ closed_in ys"
  by (simp_all add: opened_in_def closed_in_def)

lemma acquire_stack:
  "acquire open_error rs stack = (evs, stack', x) \<Longrightarrow> stack' = rev (opened_in evs) @ stack \<and> closed_in evs = []
     \<and> (\<exists>n. opened_in evs = take n rs) \<and> (x = None \<longrightarrow> opened_in evs = rs)"
proof (induction rs arbitrary: stack evs)
  case (Cons r rs)
  show ?case
  proof (cases "open_error r")
    case None
    then obtain evs1 where rec: "acquire open_error rs (r # stack) = (evs1, stack', x)" "evs = Ev_Opened r # evs1"
      using Cons.prems by (auto split: prod.splits)
    from Cons.IH [OF rec(1)] obtain n where "stack' = rev (opened_in evs1) @ r # stack" "closed_in evs1 = []"
      "opened_in evs1 = take n rs" "x = None \<longrightarrow> opened_in evs1 = rs" by blast
    then show ?thesis using rec(2) by (auto intro: exI [of _ "Suc n"])
  qed (use Cons.prems in \<open>auto intro: exI [of _ 0]\<close>)
qed simp

lemma acquire_events: "acquire open_error rs stack = (evs, stack', x) \<Longrightarrow> Ev_Initialized \<notin> set evs"
proof (induction rs arbitrary: stack evs)
  case (Cons r rs)
  then show ?case by (cases "open_error r") (auto split: prod.splits)
qed simp

lemma unwind_closes: "unwind close_error stack pending = (evs, x) \<Longrightarrow> evs = map Ev_Closed stack"
  by (induction stack arbitrary: pending evs) (auto split: prod.splits)

lemma closed_map [simp]: "closed_in (map Ev_Closed rs) = rs" "opened_in (map Ev_Closed rs) = []"
  by (induction rs) simp_all

text \<open>C32: Nothing that the API opens is leaked.  Whichever resource fails to open or to close,
  and however serving ends, every resource that was opened is closed exactly once, in the
  reverse order, at the end of the run: after the shutdown was marked and the requests were
  waited for, when the application had started.\<close>

theorem lifespan_closes_what_it_opened:
  assumes "lifespan_with_admin open_error close_error admin_error serving_error s = (evs, outcome)"
  shows "\<exists>served. evs = served @ map Ev_Closed (rev (opened_in evs)) \<and> closed_in served = []
    \<and> (\<exists>n. opened_in evs = take n (lifespan_resources s))
    \<and> (Ev_Initialized \<in> set evs \<longrightarrow> opened_in evs = lifespan_resources s
        \<and> (\<exists>before. served = before @ [Ev_Shutdown_Marked, Ev_Drain_Waited]))"
proof -
  obtain body where body: "run_lifespan open_error close_error body s = (evs, outcome)" "closed_in (fst body) = []" "opened_in (fst body) = []"
    using assms unfolding lifespan_with_admin_def by (auto split: option.splits)
  obtain started stack x where acq: "acquire open_error (lifespan_resources s) [] = (started, stack, x)"
    by (metis prod_cases3)
  have stack: "stack = rev (opened_in started)" "closed_in started = []" "\<exists>n. opened_in started = take n (lifespan_resources s)"
    "x = None \<longrightarrow> opened_in started = lifespan_resources s"
    using acquire_stack [OF acq] by auto
  show ?thesis
  proof (cases x)
    case None
    obtain events failure where b: "body = (events, failure)" by (cases body)
    obtain released y where u: "unwind close_error stack failure = (released, y)" by (cases "unwind close_error stack failure")
    have evs: "evs = started @ [Ev_Initialized] @ events @ [Ev_Shutdown_Marked, Ev_Drain_Waited] @ map Ev_Closed stack"
      using body(1) acq None b u unwind_closes [OF u] by (simp add: run_lifespan_def)
    have "opened_in evs = opened_in started" using evs body(3) b by simp
    then show ?thesis using evs stack body(2) b None
      by (intro exI [of _ "started @ [Ev_Initialized] @ events @ [Ev_Shutdown_Marked, Ev_Drain_Waited]"]) auto
  next
    case (Some e)
    obtain released y where u: "unwind close_error stack (Some e) = (released, y)" by (cases "unwind close_error stack (Some e)")
    have evs: "evs = started @ map Ev_Closed stack"
      using body(1) acq Some u unwind_closes [OF u] by (simp add: run_lifespan_def)
    have "opened_in evs = opened_in started" "Ev_Initialized \<notin> set evs"
      using evs acquire_events [OF acq] by auto
    then show ?thesis using evs stack by (intro exI [of _ started]) auto
  qed
qed

lemma lifespan_closes_what_it_opened_witness:
  "fst (lifespan_with_admin (\<lambda>r. if r = Queue_Pool then Some \<lparr> exn_message = ''refused'', exn_code = None \<rparr> else None) (\<lambda>_. None) None None
      settings_defaults)
   = [Ev_Opened Database, Ev_Opened Cache_Pool, Ev_Failed Queue_Pool, Ev_Closed Cache_Pool, Ev_Closed Database]"
proof -
  let ?fails = "\<lambda>r. if r = Queue_Pool then Some \<lparr> exn_message = ''refused'', exn_code = None \<rparr> else None"
  obtain evs outcome where run: "lifespan_with_admin ?fails (\<lambda>_. None) None None settings_defaults = (evs, outcome)"
    by (cases "lifespan_with_admin ?fails (\<lambda>_. None) None None settings_defaults")
  obtain served where served: "evs = served @ map Ev_Closed (rev (opened_in evs))" "closed_in served = []"
    using lifespan_closes_what_it_opened [OF run] by blast
  have "evs = [Ev_Opened Database, Ev_Opened Cache_Pool, Ev_Failed Queue_Pool] @ map Ev_Closed [Cache_Pool, Database]"
    using run by (auto simp: lifespan_with_admin_def run_lifespan_def lifespan_resources_def)
  then show ?thesis using run served by simp
qed

text \<open>The worker closes what it opened too: at once when its start fails, at its shutdown otherwise.\<close>

lemma worker_closes_what_it_opened:
  assumes "startup open_error close_error ctx = (evs, failure, ctx1)" "shutdown close_error ctx1 = (evs', failure', ctx2)"
  shows "closed_in (evs @ evs') = rev (opened_in (evs @ evs')) \<and> wp_stack ctx2 = None"
proof -
  obtain started stack x where acq: "acquire open_error (worker_resources ctx) [] = (started, stack, x)" by (metis prod_cases3)
  note facts = acquire_stack [OF acq]
  show ?thesis
  proof (cases x)
    case None
    then have "evs = started" "ctx1 = ctx\<lparr> wp_stack := Some stack \<rparr>" using assms(1) acq by (auto simp: startup_def)
    then show ?thesis using assms(2) facts by (auto simp: shutdown_def dest!: unwind_closes split: prod.splits)
  next
    case (Some e)
    then obtain released y where u: "unwind close_error stack None = (released, y)" "evs = started @ released" "wp_stack ctx1 = None"
      using assms(1) acq by (auto simp: startup_def split: prod.splits)
    then show ?thesis using assms(2) facts unwind_closes [OF u(1)] by (auto simp: shutdown_def)
  qed
qed

text \<open>Metrics and traces are not started in a worker, whatever the settings say.\<close>

lemma worker_has_no_metrics: "Metrics_Registry \<notin> set (worker_resources ctx) \<and> Tracer \<notin> set (worker_resources ctx)"
  by (simp add: worker_resources_def split: option.split)

section \<open>Draining\<close>










section \<open>Pools\<close>

lemma failed_pool_is_not_kept:
  "fst (create_redis_cache_pool (Some e) c st) = Inl e \<and> snd (create_redis_cache_pool (Some e) c st) = st"
  "fst (create_redis_queue_pool None (Some e) q st) = Inl e \<and> snd (create_redis_queue_pool None (Some e) q st) = st"
  "fst (create_redis_rate_limit_pool (Some e) l st) = Inl e \<and> pl_rate_limiter (snd (create_redis_rate_limit_pool (Some e) l st)) = None"
  by (simp_all add: create_redis_cache_pool_def create_redis_queue_pool_def create_redis_rate_limit_pool_def
      shutdown_rate_limiter_def initialize_rate_limiter_def Let_def split: option.split)

text \<open>The admin interface takes no notice of \<open>CRUD_ADMIN_REDIS_SSL\<close>.\<close>

lemma admin_ignores_redis_ssl:
  "create_admin_interface (s\<lparr> s_crud_admin := (s_crud_admin s)\<lparr> CRUD_ADMIN_REDIS_SSL := b \<rparr> \<rparr>) = create_admin_interface s"
  by (simp add: create_admin_interface_def Let_def)

end
