(* ===== verification/Providers.thy ===== *)
theory Providers
  imports Webhook_Operations Webhook_Ingestion Webhook_Validation Webhook_Guards
begin

text \<open>
  The assembly of a webhook provider (webhooks/providers), the calls of the verifier, validator,
  enqueuer and normalizer that an adopter passes as objects or as functions, the reading of the
  body, and the records that the other parts of webhooks/ render as metadata.

  The hash functions of the standard library are an argument: the HMAC of an algorithm that
  \<open>hashlib\<close> has, and the two renderings of its digest.
\<close>

section \<open>Objects or functions\<close>

text \<open>The code accepts an object with the method of the protocol, or a function; either may be a
  coroutine, whose result is awaited.\<close>

datatype ('a, 'r) object_or_callable = Protocol_Object "'a \<Rightarrow> 'r" | Plain_Callable "'a \<Rightarrow> 'r"

fun call_either :: "('a, 'r) object_or_callable \<Rightarrow> 'a \<Rightarrow> 'r" where
  "call_either (Protocol_Object m) x = m x"
| "call_either (Plain_Callable f) x = f x"

definition call_webhook_signature_verifier :: "(signature_context, 'r) object_or_callable \<Rightarrow> signature_context \<Rightarrow> 'r" where
  "call_webhook_signature_verifier verifier context = call_either verifier context"

definition verify_webhook_signature ::
  "(signature_context, 'r) object_or_callable \<Rightarrow> instant \<Rightarrow> ingestion_request \<Rightarrow> string \<Rightarrow> string \<Rightarrow> int option \<Rightarrow> 'r" where
  "verify_webhook_signature verifier now request provider endpoint_key signature_max_age_seconds =
     call_webhook_signature_verifier verifier
       \<lparr> sc_provider = provider, sc_endpoint_key = endpoint_key, sc_request = request,
         sc_signature_max_age_seconds = signature_max_age_seconds, sc_received_at = now \<rparr>"

definition call_webhook_event_validator ::
  "(ingestion_request \<times> signature_result option, 'r) object_or_callable \<Rightarrow> ingestion_request \<Rightarrow> signature_result option \<Rightarrow> 'r" where
  "call_webhook_event_validator validator webhook_request verification = call_either validator (webhook_request, verification)"

definition call_webhook_event_enqueuer :: "(enqueue_request, 'r) object_or_callable \<Rightarrow> enqueue_request \<Rightarrow> 'r" where
  "call_webhook_event_enqueuer enqueuer request = call_either enqueuer request"

definition normalize_webhook_event ::
  "(ingestion_request \<times> dict, 'r) object_or_callable \<Rightarrow> ingestion_request \<Rightarrow> dict \<Rightarrow> 'r" where
  "normalize_webhook_event normalizer request parsed_payload = call_either normalizer (request, parsed_payload)"

section \<open>The body\<close>

text \<open>The state of a request caches the body under its key; \<open>body\<close> is what the framework reads.\<close>

record body_request =
  br_cached :: "bytes option"
  br_body :: bytes
  br_headers :: "string \<Rightarrow> string option"
  br_state :: request_state

definition read_raw_request_body :: "body_request \<Rightarrow> bytes \<times> body_request" where
  "read_raw_request_body request =
     (case br_cached request of
        Some cached_body \<Rightarrow> (cached_body, request)
      | None \<Rightarrow> (br_body request, request\<lparr> br_cached := Some (br_body request) \<rparr>))"

definition build_webhook_ingestion_request :: "body_request \<Rightarrow> ingestion_request \<times> body_request" where
  "build_webhook_ingestion_request request =
     (case read_raw_request_body request of (raw_body, request') \<Rightarrow>
        (\<lparr> iq_headers = br_headers request', iq_state = br_state request', iq_raw_body = raw_body,
           iq_content_type = br_headers request' ''content-type'' \<rparr>, request'))"

section \<open>Signatures\<close>

record hash_lib =
  hl_hmac :: "string \<Rightarrow> string \<Rightarrow> bytes \<Rightarrow> bytes option"
  hl_hex :: "bytes \<Rightarrow> string"
  hl_base64 :: "bytes \<Rightarrow> string"

definition build_signing_input :: "signature_context \<Rightarrow> bytes" where
  "build_signing_input ctx = iq_raw_body (sc_request ctx)"

text \<open>None is the \<open>AttributeError\<close> of an algorithm that the library does not have; an encoding
  other than base 64 is hexadecimal.\<close>

definition compute_signature :: "hash_lib \<Rightarrow> provider_config \<Rightarrow> bytes \<Rightarrow> string option" where
  "compute_signature lib c signing_input =
     map_option (\<lambda>digest. if pc_signature_encoding c = ''base64'' then hl_base64 lib digest else hl_hex lib digest)
       (hl_hmac lib (pc_signature_algorithm c) (the (pc_signing_secret c)) signing_input)"

section \<open>Dispatch maps\<close>

fun register_many :: "'h dispatch_map \<Rightarrow> (string \<times> 'h) list \<Rightarrow> 'h dispatch_map" where
  "register_many d [] = d"
| "register_many d ((event_type, handler) # rest) =
     register_many (dispatch_register d \<lparr> hg_event_type = event_type, hg_handler = handler, hg_description = [], hg_enabled = True \<rparr>) rest"

definition registered_types :: "'h dispatch_map \<Rightarrow> string list" where
  "registered_types d = map fst (dm_handlers d)"

definition dispatch_enabled_types :: "'h dispatch_map \<Rightarrow> string list" where
  "dispatch_enabled_types d = map fst (filter (\<lambda>(_, r). hg_enabled r) (dm_handlers d))"

text \<open>The registry takes a mapping of event types to descriptions, or a set of types.\<close>

definition registry_register_many :: "event_type_registry \<Rightarrow> (string \<times> string) list + string list \<Rightarrow> event_type_registry" where
  "registry_register_many reg event_types =
     (case event_types of
        Inl descriptions \<Rightarrow> fold (\<lambda>(ty, d) r. registry_register r (example_registration ty d)) descriptions reg
      | Inr types \<Rightarrow> fold (\<lambda>ty r. registry_register r (example_registration ty [])) types reg)"

section \<open>Adapters\<close>

record ('n, 'h) provider_adapter =
  pa_config :: provider_config
  pa_verifier :: "provider_config option"
  pa_normalizer :: "'n option"
  pa_dispatch :: "'h dispatch_map option"
  pa_event_registry :: "event_type_registry option"
  pa_created_at :: instant

definition adapter_source :: "('n, 'h) provider_adapter \<Rightarrow> string" where
  "adapter_source a = pc_source (pa_config a)"

definition adapter_endpoint_key :: "('n, 'h) provider_adapter \<Rightarrow> string" where
  "adapter_endpoint_key a = pc_endpoint_key (pa_config a)"

definition adapter_enabled :: "('n, 'h) provider_adapter \<Rightarrow> bool" where
  "adapter_enabled a = pc_enabled (pa_config a)"

section \<open>The example provider\<close>

datatype example_handler = Order_Created | Order_Updated | Order_Cancelled | Customer_Created | Customer_Updated

definition example_handler_registration :: "string \<Rightarrow> example_handler \<Rightarrow> string \<Rightarrow> example_handler handler_registration" where
  "example_handler_registration ty h description =
     \<lparr> hg_event_type = ty, hg_handler = h, hg_description = description, hg_enabled = True \<rparr>"

definition build_example_dispatch_map :: "example_handler dispatch_map" where
  "build_example_dispatch_map = handlers.put_all \<lparr> dm_source = EXAMPLE_PROVIDER_SOURCE, dm_handlers = [] \<rparr>
     [example_handler_registration ''order.created'' Order_Created ''Process new orders.'',
      example_handler_registration ''order.updated'' Order_Updated ''Process order changes.'',
      example_handler_registration ''order.cancelled'' Order_Cancelled ''Process order cancellations.'',
      example_handler_registration ''customer.created'' Customer_Created ''Process new customer accounts.'',
      example_handler_registration ''customer.updated'' Customer_Updated ''Process customer profile changes.'']"

definition build_example_provider_adapter ::
  "stdlib \<Rightarrow> instant \<Rightarrow> string \<Rightarrow> string \<Rightarrow> bool
   \<Rightarrow> signature_error + (dict \<Rightarrow> exn + validated_event, example_handler) provider_adapter" where
  "build_example_provider_adapter lib now signing_secret endpoint_key enabled =
     (let config = build_example_provider_config signing_secret endpoint_key enabled in
      bind_sum (hmac_verifier_init config) (\<lambda>verifier.
        Inr \<lparr> pa_config = config, pa_verifier = Some verifier, pa_normalizer = Some (normalize_example_event lib),
              pa_dispatch = Some build_example_dispatch_map, pa_event_registry = Some build_example_event_registry,
              pa_created_at = now \<rparr>))"

section \<open>Records rendered as metadata\<close>

definition idempotency_metadata :: "idempotency_result \<Rightarrow> dict" where
  "idempotency_metadata r =
     [(''idempotency'', JDict
        ([(''checked_at'', JStr (isoformat (ir_checked_at r))), (''scope'', JStr (ir_scope r)), (''key'', JStr (ir_key r)),
          (''request_fingerprint'', JStr (ir_fingerprint r)), (''window_seconds'', JInt (ir_window_seconds r))]
         @ opt_field ''event_id'' (map_option JStr (ir_event_id r)) @ opt_field ''delivery_id'' (map_option JStr (ir_delivery_id r))))]"

definition retention_summary :: "retention_result \<Rightarrow> dict" where
  "retention_summary r =
     [(''payloads_scrubbed'', JInt (int (rs_payloads_scrubbed r))), (''events_purged'', JInt (int (rs_events_purged r))),
      (''started_at'', JStr (isoformat (rs_started_at r))),
      (''completed_at'', case rs_completed_at r of None \<Rightarrow> JNull | Some t \<Rightarrow> JStr (isoformat t))]"

text \<open>The key of the trigger is none of those that the runner keeps in the context, so it is among
  the shared ones.\<close>

definition apply_correlation_to_workflow_execution :: "execution \<Rightarrow> workflow_correlation \<Rightarrow> execution" where
  "apply_correlation_to_workflow_execution x c =
     (let existing_context = (case we_execution_context x of None \<Rightarrow> empty_context | Some ctx \<Rightarrow> ctx) in
      x\<lparr> we_execution_context := Some (existing_context\<lparr> ec_shared :=
           dict_update (ec_shared existing_context) (as_workflow_execution_context c) \<rparr>),
         we_context_assigned := True \<rparr>)"

record poison_detection_request =
  pq_source :: string
  pq_endpoint_key :: string
  pq_event_type :: string
  pq_payload_sha256 :: string
  pq_max_failures :: int
  pq_checked_at :: instant
  pq_event_id :: "string option"
  pq_delivery_id :: "string option"

record poison_detection_result =
  pz_is_poison :: bool
  pz_failure_count :: int
  pz_max_failures :: int
  pz_source :: string
  pz_endpoint_key :: string
  pz_event_type :: string
  pz_payload_sha256 :: string
  pz_checked_at :: instant

definition poison_detection_metadata :: "poison_detection_result \<Rightarrow> dict" where
  "poison_detection_metadata r =
     [(''poison_detection'', JDict
        [(''is_poison'', JBool (pz_is_poison r)), (''failure_count'', JInt (pz_failure_count r)),
         (''max_failures'', JInt (pz_max_failures r)), (''checked_at'', JStr (isoformat (pz_checked_at r)))])]"

record duplicate_event_error =
  du_source :: string
  du_endpoint_key :: string
  du_event_id :: "string option"
  du_delivery_id :: "string option"
  du_existing_event_id :: "int option"
  du_existing_status :: "string option"

text \<open>The text of the exception shows missing values as \<open>None\<close>.\<close>

definition duplicate_event_message :: "duplicate_event_error \<Rightarrow> string" where
  "duplicate_event_message e =
     (let identifier = or_list (du_event_id e) (or_list (du_delivery_id e) ''unknown'') in
      ''Duplicate webhook event for '' @ du_source e @ ''/'' @ du_endpoint_key e @ '': '' @ identifier
      @ '' (existing record '' @ (case du_existing_event_id e of None \<Rightarrow> ''None'' | Some n \<Rightarrow> show_int n)
      @ '', status='' @ (case du_existing_status e of None \<Rightarrow> ''None'' | Some s \<Rightarrow> s) @ '')'')"

definition duplicate_event_metadata :: "duplicate_event_error \<Rightarrow> dict" where
  "duplicate_event_metadata e =
     [(''duplicate_detection'', JDict
        ([(''source'', JStr (du_source e)), (''endpoint_key'', JStr (du_endpoint_key e))]
         @ opt_field ''event_id'' (map_option JStr (du_event_id e)) @ opt_field ''delivery_id'' (map_option JStr (du_delivery_id e))
         @ opt_field ''existing_event_id'' (map_option JInt (du_existing_event_id e))
         @ opt_field ''existing_status'' (map_option JStr (du_existing_status e))))]"

section \<open>Properties\<close>

text \<open>The body is read once: a second reading returns the same bytes.\<close>

lemma raw_body_is_stable:
  assumes "read_raw_request_body request = (bytes1, request1)"
  shows "read_raw_request_body (request1\<lparr> br_body := anything \<rparr>) = (bytes1, request1\<lparr> br_body := anything \<rparr>)"
  using assms by (auto simp: read_raw_request_body_def split: option.splits)

text \<open>The verification of \<open>Webhook_Guards\<close> is over the signature that the library computes.\<close>

lemma compute_signature_mac:
  assumes "hl_hmac lib (pc_signature_algorithm c) (the (pc_signing_secret c)) input = Some digest"
  shows "compute_signature lib c input = Some (if pc_signature_encoding c = ''base64'' then hl_base64 lib digest else hl_hex lib digest)"
  using assms by (simp add: compute_signature_def)

lemma unknown_encoding_is_hex:
  "pc_signature_encoding c \<noteq> ''base64'' \<Longrightarrow> compute_signature lib c input = compute_signature lib (c\<lparr> pc_signature_encoding := ''hex'' \<rparr>) input"
  by (simp add: compute_signature_def)

lemma register_many_put_all:
  "register_many d hs = handlers.put_all d (map (\<lambda>(ty, h). \<lparr> hg_event_type = ty, hg_handler = h, hg_description = [], hg_enabled = True \<rparr>) hs)"
  by (induction d hs rule: register_many.induct) simp_all

text \<open>The registry and the dispatch map of the example provider agree: an event type that intake
  accepts has a handler, and the adapter can always be built.\<close>

lemma example_registry_types: "is_known build_example_event_registry k \<longleftrightarrow>
    k \<in> {''order.created'', ''order.updated'', ''order.cancelled'', ''customer.created'', ''customer.updated''}"
proof -
  have "\<not> is_known \<lparr> eg_source = EXAMPLE_PROVIDER_SOURCE, eg_strict = True, eg_registrations = [] \<rparr> k"
    by (simp add: is_known_def registry_get_def)
  then show ?thesis unfolding build_example_event_registry_def is_known_put_all by (simp add: example_registration_def)
qed

lemma example_types_have_handlers:
  "ty \<in> {''order.created'', ''order.updated'', ''order.cancelled'', ''customer.created'', ''customer.updated''} \<Longrightarrow>
   \<exists>h. get_handler build_example_dispatch_map ty = Some h"
  by (elim insertE emptyE; hypsubst; simp add: build_example_dispatch_map_def dispatch_register_def get_handler_def
      get_registration_def example_handler_registration_def)

lemma accepted_example_event_is_dispatched:
  assumes "registry_validate build_example_event_registry event_type endpoint_key = Inr ty"
  shows "\<exists>h. get_handler build_example_dispatch_map ty = Some h"
proof -
  have "eg_strict build_example_event_registry"
    unfolding build_example_event_registry_def registry_strict by simp
  then have "is_known build_example_event_registry ty"
    using assms by (auto simp: registry_validate_def Let_def split: if_splits)
  then show ?thesis using example_types_have_handlers unfolding example_registry_types by blast
qed

lemma example_adapter_is_built: "\<exists>a. build_example_provider_adapter lib now secret key enabled = Inr a \<and>
    adapter_source a = EXAMPLE_PROVIDER_SOURCE \<and> adapter_enabled a = enabled \<and> adapter_endpoint_key a = key"
  by (simp add: build_example_provider_adapter_def hmac_verifier_init_def build_example_provider_config_def Let_def
      adapter_source_def adapter_enabled_def adapter_endpoint_key_def)

end
