(* ===== verification/Health.thy ===== *)
theory Health
  imports Lifecycle
begin

text \<open>
  core/health.py, the records of core/schemas.py that it fills, and the endpoints of
  api/v1/health.py and api/v1/internal_health.py.

  A probe acts on a world \<open>'w\<close> and may fail: the query and the pings, and the look-up of the
  worker's heartbeat.  The suffix of the heartbeat key is a constant of the queue library, an
  argument.  Time is the text of the timestamp.
\<close>

section \<open>Results\<close>

definition STATUS_HEALTHY :: string where "STATUS_HEALTHY = ''healthy''"
definition STATUS_UNHEALTHY :: string where "STATUS_UNHEALTHY = ''unhealthy''"

record dependency_health =
  dh_status :: string
  dh_summary :: string

definition healthy_result :: "string \<Rightarrow> dependency_health" where
  "healthy_result summary = \<lparr> dh_status = STATUS_HEALTHY, dh_summary = summary \<rparr>"

definition unhealthy_result :: "string \<Rightarrow> dependency_health" where
  "unhealthy_result summary = \<lparr> dh_status = STATUS_UNHEALTHY, dh_summary = summary \<rparr>"

record worker_health =
  wh_status :: string
  wh_summary :: string
  wh_queue_name :: string

record readiness_snapshot =
  rd_status :: string
  rd_statuses :: "(string \<times> string) list"
  rd_details :: "(string \<times> dependency_health) list"

section \<open>The contract\<close>

type_synonym 'w probe = "'w \<Rightarrow> (exn + unit) \<times> 'w"
type_synonym 'w readiness_check = "'w \<Rightarrow> (exn + dependency_health) \<times> 'w"

text \<open>The checks of the contract, a dict, run in its order; one that raises ends the snapshot.\<close>

fun run_checks :: "(string \<times> 'w readiness_check) list \<Rightarrow> 'w \<Rightarrow> (exn + (string \<times> dependency_health) list) \<times> 'w" where
  "run_checks [] w = (Inr [], w)"
| "run_checks ((name, checker) # cs) w =
     (case checker w of
        (Inl e, w') \<Rightarrow> (Inl e, w')
      | (Inr result, w') \<Rightarrow>
          (case run_checks cs w' of (Inl e, w'') \<Rightarrow> (Inl e, w'') | (Inr rs, w'') \<Rightarrow> (Inr ((name, result) # rs), w'')))"

definition overall_status :: "string list \<Rightarrow> string" where
  "overall_status statuses = (if list_all (\<lambda>s. s = STATUS_HEALTHY) statuses then STATUS_HEALTHY else STATUS_UNHEALTHY)"

definition snapshot :: "(string \<times> 'w readiness_check) list \<Rightarrow> 'w \<Rightarrow> (exn + readiness_snapshot) \<times> 'w" where
  "snapshot dependencies w =
     (case run_checks dependencies w of
        (Inl e, w') \<Rightarrow> (Inl e, w')
      | (Inr results, w') \<Rightarrow>
          (let statuses = map (\<lambda>(name, r). (name, dh_status r)) results in
           (Inr \<lparr> rd_status = overall_status (map snd statuses), rd_statuses = statuses, rd_details = results \<rparr>, w')))"

record ready_check =
  rc_status :: string
  rc_environment :: string
  rc_version :: string
  rc_app :: string
  rc_dependencies :: "(string \<times> string) list"
  rc_timestamp :: string

record internal_check = ready_check +
  ic_details :: "(string \<times> dependency_health) list"
  ic_worker :: worker_health

definition evaluate :: "(string \<times> 'w readiness_check) list \<Rightarrow> string \<Rightarrow> string \<Rightarrow> string \<Rightarrow> 'w \<Rightarrow> (exn + ready_check) \<times> 'w" where
  "evaluate dependencies environment version now w =
     (case snapshot dependencies w of
        (Inl e, w') \<Rightarrow> (Inl e, w')
      | (Inr s, w') \<Rightarrow>
          (Inr \<lparr> rc_status = rd_status s, rc_environment = environment, rc_version = version, rc_app = STATUS_HEALTHY,
             rc_dependencies = rd_statuses s, rc_timestamp = now \<rparr>, w'))"

definition evaluate_internal ::
  "(string \<times> 'w readiness_check) list \<Rightarrow> string \<Rightarrow> string \<Rightarrow> worker_health \<Rightarrow> string \<Rightarrow> 'w \<Rightarrow> (exn + internal_check) \<times> 'w" where
  "evaluate_internal dependencies environment version worker now w =
     (case snapshot dependencies w of
        (Inl e, w') \<Rightarrow> (Inl e, w')
      | (Inr s, w') \<Rightarrow>
          (Inr \<lparr> rc_status = overall_status (map snd (rd_statuses s) @ [wh_status worker]), rc_environment = environment,
             rc_version = version, rc_app = STATUS_HEALTHY, rc_dependencies = rd_statuses s, rc_timestamp = now,
             ic_details = rd_details s, ic_worker = worker \<rparr>, w'))"

section \<open>The checks\<close>

text \<open>What the four checks share: a probe that fails is caught and reported.\<close>

definition probe_check :: "'w probe \<Rightarrow> string \<Rightarrow> string \<Rightarrow> 'w readiness_check" where
  "probe_check probe succeeded failed w =
     (case probe w of (Inr u, w') \<Rightarrow> (Inr (healthy_result succeeded), w') | (Inl e, w') \<Rightarrow> (Inr (unhealthy_result failed), w'))"

definition check_database_health :: "'w probe \<Rightarrow> 'w readiness_check" where
  "check_database_health select_1 = probe_check select_1 ''Database probe succeeded.'' ''Database probe failed.''"

definition check_redis_health :: "'w probe \<Rightarrow> 'w readiness_check" where
  "check_redis_health ping = probe_check ping ''Cache Redis ping succeeded.'' ''Cache Redis ping failed.''"

definition check_queue_health :: "'w probe option \<Rightarrow> 'w readiness_check" where
  "check_queue_health queue_pool w =
     (case queue_pool of
        None \<Rightarrow> (Inr (unhealthy_result ''Shared queue pool is not initialized.''), w)
      | Some ping \<Rightarrow> probe_check ping ''Queue Redis ping succeeded.'' ''Queue Redis ping failed.'' w)"

definition check_rate_limiter_health :: "'w probe option \<Rightarrow> 'w readiness_check" where
  "check_rate_limiter_health redis w =
     (case redis of
        None \<Rightarrow> (Inr (unhealthy_result ''Rate limiter Redis client is not initialized.''), w)
      | Some ping \<Rightarrow> probe_check ping ''Rate limiter Redis ping succeeded.'' ''Rate limiter Redis ping failed.'' w)"

definition build_readiness_contract ::
  "'w probe \<Rightarrow> 'w probe \<Rightarrow> 'w probe option \<Rightarrow> 'w probe option \<Rightarrow> (string \<times> 'w readiness_check) list" where
  "build_readiness_contract database redis queue_pool rate_limiter_client =
     [(''database'', check_database_health database), (''redis'', check_redis_health redis),
      (''queue'', check_queue_health queue_pool), (''rate_limiter'', check_rate_limiter_health rate_limiter_client)]"

text \<open>The heartbeat is looked up under the given key, or the key of the queue when it is missing or
  empty.\<close>

definition check_worker_health ::
  "string \<Rightarrow> (string \<Rightarrow> 'w \<Rightarrow> (exn + string option) \<times> 'w) option \<Rightarrow> string \<Rightarrow> string option \<Rightarrow> 'w \<Rightarrow> worker_health \<times> 'w" where
  "check_worker_health key_suffix queue_pool queue_name health_check_key w =
     (case queue_pool of
        None \<Rightarrow> (\<lparr> wh_status = STATUS_UNHEALTHY,
                 wh_summary = ''Queue pool is not initialized; worker heartbeat cannot be checked.'',
                 wh_queue_name = queue_name \<rparr>, w)
      | Some get \<Rightarrow>
          (case get (or_list health_check_key (queue_name @ key_suffix)) w of
             (Inl e, w') \<Rightarrow> (\<lparr> wh_status = STATUS_UNHEALTHY, wh_summary = ''Worker heartbeat lookup failed.'',
                             wh_queue_name = queue_name \<rparr>, w')
           | (Inr heartbeat, w') \<Rightarrow>
               if \<not> truthy_list heartbeat
               then (\<lparr> wh_status = STATUS_UNHEALTHY,
                       wh_summary = ''No recent worker heartbeat was observed on the configured queue.'',
                       wh_queue_name = queue_name \<rparr>, w')
               else (\<lparr> wh_status = STATUS_HEALTHY, wh_summary = ''Recent worker heartbeat observed on the configured queue.'',
                       wh_queue_name = queue_name \<rparr>, w')))"

section \<open>The endpoints\<close>

definition DEFAULT_APP_VERSION :: string where "DEFAULT_APP_VERSION = ''0.1.0''"

definition get_app_version :: "settings \<Rightarrow> string" where
  "get_app_version s = or_list (APP_VERSION (s_app s)) DEFAULT_APP_VERSION"

text \<open>The clients of the shared pools: what a ping and a look-up do with them.\<close>

record 'w health_env =
  he_select_1 :: "'w probe"
  he_cache_ping :: "'w probe"
  he_queue_ping :: "arq_redis_settings \<Rightarrow> 'w probe"
  he_limiter_ping :: "string \<times> (string \<times> pool_arg) list \<Rightarrow> 'w probe"
  he_queue_get :: "arq_redis_settings \<Rightarrow> string \<Rightarrow> 'w \<Rightarrow> (exn + string option) \<times> 'w"
  he_key_suffix :: string

text \<open>The client of the rate limiter exists once its pool does; that it is missing is caught.\<close>

definition resolve_rate_limiter_client :: "shared_pools \<Rightarrow> (string \<times> (string \<times> pool_arg) list) option" where
  "resolve_rate_limiter_client st = pl_rate_limiter st"

definition build_runtime_readiness_contract :: "'w health_env \<Rightarrow> shared_pools \<Rightarrow> (string \<times> 'w readiness_check) list" where
  "build_runtime_readiness_contract env st =
     build_readiness_contract (he_select_1 env) (he_cache_ping env) (map_option (he_queue_ping env) (pl_queue st))
       (map_option (he_limiter_ping env) (resolve_rate_limiter_client st))"

definition json_response :: "int \<Rightarrow> dict \<Rightarrow> api_response" where
  "json_response status content = \<lparr> ap_status_code = status, ap_content = JDict content, ap_headers = [] \<rparr>"

definition health :: "settings \<Rightarrow> string \<Rightarrow> api_response" where
  "health s now =
     json_response 200 [(''status'', JStr STATUS_HEALTHY), (''environment'', JStr (environment_value (ENVIRONMENT s))),
       (''version'', JStr (get_app_version s)), (''timestamp'', JStr now)]"

definition status_code_of :: "string \<Rightarrow> int" where
  "status_code_of status = (if status = STATUS_HEALTHY then 200 else 503)"

definition status_dict :: "(string \<times> string) list \<Rightarrow> json" where
  "status_dict statuses = JDict (map (\<lambda>(name, v). (name, JStr v)) statuses)"

definition dump_ready :: "('a) ready_check_scheme \<Rightarrow> dict" where
  "dump_ready r =
     [(''status'', JStr (rc_status r)), (''environment'', JStr (rc_environment r)), (''version'', JStr (rc_version r)),
      (''app'', JStr (rc_app r)), (''dependencies'', status_dict (rc_dependencies r))]"

definition ready :: "'w health_env \<Rightarrow> shared_pools \<Rightarrow> settings \<Rightarrow> string \<Rightarrow> 'w \<Rightarrow> (exn + api_response) \<times> 'w" where
  "ready env st s now w =
     (case evaluate (build_runtime_readiness_contract env st) (environment_value (ENVIRONMENT s)) (get_app_version s) now w of
        (Inl e, w') \<Rightarrow> (Inl e, w')
      | (Inr r, w') \<Rightarrow>
          (Inr (json_response (status_code_of (rc_status r)) (dump_ready r @ [(''timestamp'', JStr (rc_timestamp r))])), w'))"

definition internal_health :: "'w health_env \<Rightarrow> shared_pools \<Rightarrow> settings \<Rightarrow> string \<Rightarrow> 'w \<Rightarrow> (exn + api_response) \<times> 'w" where
  "internal_health env st s now w =
     (case check_worker_health (he_key_suffix env) (map_option (he_queue_get env) (pl_queue st)) (WORKER_QUEUE_NAME (s_worker s)) None w of
        (worker, w1) \<Rightarrow>
          (case evaluate_internal (build_runtime_readiness_contract env st) (environment_value (ENVIRONMENT s))
                  (get_app_version s) worker now w1 of
             (Inl e, w2) \<Rightarrow> (Inl e, w2)
           | (Inr r, w2) \<Rightarrow>
               (Inr (json_response (status_code_of (rc_status r))
                  (dump_ready r @
                   [(''dependency_details'', JDict (map (\<lambda>(name, d). (name,
                       JDict [(''status'', JStr (dh_status d)), (''summary'', JStr (dh_summary d))])) (ic_details r))),
                    (''worker'', JDict [(''status'', JStr (wh_status (ic_worker r))), (''summary'', JStr (wh_summary (ic_worker r))),
                       (''queue_name'', JStr (wh_queue_name (ic_worker r)))]),
                    (''timestamp'', JStr (rc_timestamp r))])), w2)))"

section \<open>Properties\<close>

text \<open>What the endpoints ask, in their order: the two probes that always run, and the two of the
  pools, which count as failed when the pool is missing.\<close>

definition pool_probe :: "('p \<Rightarrow> 'w probe) \<Rightarrow> 'p option \<Rightarrow> 'w \<Rightarrow> bool \<times> 'w" where
  "pool_probe ping pool w = (case pool of None \<Rightarrow> (False, w) | Some p \<Rightarrow> map_prod is_ok id (ping p w))"

definition probe_outcomes :: "'w health_env \<Rightarrow> shared_pools \<Rightarrow> 'w \<Rightarrow> bool list \<times> 'w" where
  "probe_outcomes env st w =
     (let (d, w1) = map_prod is_ok id (he_select_1 env w); (c, w2) = map_prod is_ok id (he_cache_ping env w1);
          (q, w3) = pool_probe (he_queue_ping env) (pl_queue st) w2;
          (l, w4) = pool_probe (he_limiter_ping env) (pl_rate_limiter st) w3
      in ([d, c, q, l], w4))"

lemma probe_check_result:
  "probe_check probe succeeded failed w =
    (Inr (if is_ok (fst (probe w)) then healthy_result succeeded else unhealthy_result failed), snd (probe w))"
  by (cases "probe w") (auto simp: probe_check_def split: sum.split)

lemma pool_check_result:
  "check_queue_health (map_option (he_queue_ping env) pool) w =
    (Inr (if fst (pool_probe (he_queue_ping env) pool w) then healthy_result ''Queue Redis ping succeeded.''
       else unhealthy_result (if pool = None then ''Shared queue pool is not initialized.'' else ''Queue Redis ping failed.'')),
     snd (pool_probe (he_queue_ping env) pool w))"
  "check_rate_limiter_health (map_option (he_limiter_ping env) client) w =
    (Inr (if fst (pool_probe (he_limiter_ping env) client w) then healthy_result ''Rate limiter Redis ping succeeded.''
       else unhealthy_result (if client = None then ''Rate limiter Redis client is not initialized.''
         else ''Rate limiter Redis ping failed.'')),
     snd (pool_probe (he_limiter_ping env) client w))"
  by (cases pool; simp add: check_queue_health_def pool_probe_def probe_check_result)
    (cases client; simp add: check_rate_limiter_health_def pool_probe_def probe_check_result)

lemma status_of_result:
  "dh_status (if b then healthy_result x else unhealthy_result y) = STATUS_HEALTHY \<longleftrightarrow> b"
  "STATUS_UNHEALTHY \<noteq> STATUS_HEALTHY"
  by (simp_all add: healthy_result_def unhealthy_result_def STATUS_HEALTHY_def STATUS_UNHEALTHY_def)

lemma runtime_snapshot:
  "\<exists>s. snapshot (build_runtime_readiness_contract env st) w = (Inr s, snd (probe_outcomes env st w))
    \<and> rd_status s = overall_status (map snd (rd_statuses s))
    \<and> map (\<lambda>v. v = STATUS_HEALTHY) (map snd (rd_statuses s)) = fst (probe_outcomes env st w)"
  by (simp add: snapshot_def build_runtime_readiness_contract_def build_readiness_contract_def resolve_rate_limiter_client_def
      check_database_health_def check_redis_health_def probe_check_result pool_check_result status_of_result
      probe_outcomes_def Let_def case_prod_unfold)

lemma overall_status_iff: "overall_status vs = STATUS_HEALTHY \<longleftrightarrow> list_all id (map (\<lambda>v. v = STATUS_HEALTHY) vs)"
  by (simp add: overall_status_def status_of_result list_all_iff)

text \<open>Readiness is exact: the endpoint always answers, with 200 when every probe succeeds and with
  503 otherwise.\<close>

lemma readiness_is_exact:
  "\<exists>r. ready env st s now w = (Inr r, snd (probe_outcomes env st w))
    \<and> ap_status_code r = (if list_all id (fst (probe_outcomes env st w)) then 200 else 503)"
proof -
  obtain sn where "snapshot (build_runtime_readiness_contract env st) w = (Inr sn, snd (probe_outcomes env st w))"
    "rd_status sn = overall_status (map snd (rd_statuses sn))"
    "map (\<lambda>v. v = STATUS_HEALTHY) (map snd (rd_statuses sn)) = fst (probe_outcomes env st w)"
    using runtime_snapshot [of env st w] by blast
  then show ?thesis
    by (simp add: ready_def evaluate_def json_response_def status_code_of_def overall_status_iff)
qed

text \<open>The internal endpoint asks for the heartbeat first and is never healthier than readiness.\<close>

lemma internal_health_is_exact:
  assumes "check_worker_health (he_key_suffix env) (map_option (he_queue_get env) (pl_queue st)) (WORKER_QUEUE_NAME (s_worker s)) None w
    = (worker, w1)"
  shows "\<exists>r. internal_health env st s now w = (Inr r, snd (probe_outcomes env st w1))
    \<and> ap_status_code r = (if list_all id (fst (probe_outcomes env st w1)) \<and> wh_status worker = STATUS_HEALTHY then 200 else 503)"
proof -
  obtain sn where "snapshot (build_runtime_readiness_contract env st) w1 = (Inr sn, snd (probe_outcomes env st w1))"
    "map (\<lambda>v. v = STATUS_HEALTHY) (map snd (rd_statuses sn)) = fst (probe_outcomes env st w1)"
    using runtime_snapshot [of env st w1] by blast
  then show ?thesis using assms
    by (simp add: internal_health_def evaluate_internal_def json_response_def status_code_of_def overall_status_iff)
qed

text \<open>Until the queue pool is created, and when the limiter has none, the API is not ready, whatever
  the probes say.\<close>

lemma missing_pool_is_not_ready:
  assumes "pl_queue st = None \<or> pl_rate_limiter st = None" "ready env st s now w = (Inr r, w')"
  shows "ap_status_code r = 503"
proof -
  have "\<not> list_all id (fst (probe_outcomes env st w))"
    using assms(1) by (auto simp: probe_outcomes_def pool_probe_def Let_def case_prod_unfold)
  with readiness_is_exact [of env st s now w] assms(2) show ?thesis by auto
qed

text \<open>The liveness endpoint asks nothing.\<close>

lemma health_is_unconditional: "ap_status_code (health s now) = 200"
  by (simp add: health_def json_response_def)

end
