(* ===== verification/Api_Routes.thy ===== *)
theory Api_Routes
  imports Domain_Services Settings_Sections
begin

text \<open>
  The routes of the API: api/routing.py, api/__init__.py, api/v1/__init__.py and the routers of
  api/v1 with their endpoints.

  A router of the framework is a value of any type \<open>'r\<close> with three operations, which
  \<open>router_ops\<close> collects: a new router with a prefix and dependencies, a router with one more
  route, and the inclusion of a router in another one.  The locale \<open>router_library\<close> states what
  the framework documents of them.  Of the dependencies of a route the model keeps those that
  decide whether its endpoint runs; sessions, clients and query parameters are arguments of the
  endpoints.
\<close>

section \<open>Route groups and routers\<close>

datatype api_version = V1

definition api_version_value :: "api_version \<Rightarrow> string" where
  "api_version_value v = (case v of V1 \<Rightarrow> ''v1'')"

definition SUPPORTED_API_VERSIONS :: "api_version list" where "SUPPORTED_API_VERSIONS = [V1]"

datatype api_route_group = PUBLIC | OPS | ADMIN | INTERNAL | WEBHOOKS

definition ROUTE_GROUP_DEFINITIONS :: "api_route_group \<Rightarrow> string" where
  "ROUTE_GROUP_DEFINITIONS g =
     (case g of PUBLIC \<Rightarrow> [] | OPS \<Rightarrow> [] | ADMIN \<Rightarrow> ''/admin'' | INTERNAL \<Rightarrow> ''/internal'' | WEBHOOKS \<Rightarrow> ''/webhooks'')"

datatype http_method = GET | POST | PATCH | DELETE

datatype dependency =
    Rate_Limiter
  | Login_Rate_Limiter
  | Refresh_Rate_Limiter
  | Logout_Rate_Limiter
  | Webhook_Rate_Limiter
  | Current_User
  | Bearer_Token
  | Require_Permissions "string list"

record route =
  rt_method :: http_method
  rt_path :: string
  rt_status :: int
  rt_dependencies :: "dependency list"
  rt_endpoint :: string

record 'r router_ops =
  op_router :: "string \<Rightarrow> dependency list \<Rightarrow> 'r"
  op_route :: "'r \<Rightarrow> route \<Rightarrow> 'r"
  op_include :: "'r \<Rightarrow> dependency list \<Rightarrow> 'r \<Rightarrow> 'r"

definition build_api_root_router :: "'r router_ops \<Rightarrow> 'r" where
  "build_api_root_router lib = op_router lib ''/api'' []"

definition build_version_prefix_router :: "'r router_ops \<Rightarrow> api_version \<Rightarrow> 'r" where
  "build_version_prefix_router lib version = op_router lib (''/'' @ api_version_value version) []"

definition build_route_group_router :: "'r router_ops \<Rightarrow> api_route_group \<Rightarrow> dependency list option \<Rightarrow> 'r" where
  "build_route_group_router lib g dependencies = op_router lib (ROUTE_GROUP_DEFINITIONS g) (or_list dependencies [])"

definition router_of :: "'r router_ops \<Rightarrow> route list \<Rightarrow> 'r" where
  "router_of lib routes = fold (\<lambda>x r. op_route lib r x) routes (op_router lib [] [])"

definition endpoint :: "http_method \<Rightarrow> string \<Rightarrow> dependency list \<Rightarrow> string \<Rightarrow> route" where
  "endpoint meth path deps name =
     \<lparr> rt_method = meth, rt_path = path, rt_status = 200, rt_dependencies = deps, rt_endpoint = name \<rparr>"

definition created_route :: "route \<Rightarrow> route" where
  "created_route r = r\<lparr> rt_status := 201 \<rparr>"

section \<open>The routers of version 1\<close>

definition MANAGE_POSTS :: string where "MANAGE_POSTS = ''platform:posts:manage''"
definition MANAGE_RATE_LIMITS :: string where "MANAGE_RATE_LIMITS = ''platform:rate-limits:manage''"
definition MANAGE_TIERS :: string where "MANAGE_TIERS = ''platform:tiers:manage''"
definition MANAGE_USERS :: string where "MANAGE_USERS = ''platform:users:manage''"

definition health_routes :: "route list" where
  "health_routes = [endpoint GET ''/health'' [] ''health'', endpoint GET ''/ready'' [] ''ready'']"

definition internal_health_routes :: "route list" where
  "internal_health_routes = [endpoint GET ''/health'' [] ''internal_health'']"

definition login_routes :: "route list" where
  "login_routes =
     [endpoint POST ''/login'' [Login_Rate_Limiter] ''login_for_access_token'',
      endpoint POST ''/refresh'' [Refresh_Rate_Limiter] ''refresh_access_token'']"

definition logout_routes :: "route list" where
  "logout_routes = [endpoint POST ''/logout'' [Logout_Rate_Limiter, Bearer_Token] ''logout'']"

definition users_routes :: "route list" where
  "users_routes =
     [created_route (endpoint POST ''/user'' [] ''write_user''),
      endpoint GET ''/users'' [] ''read_users'',
      endpoint GET ''/user/me/'' [Current_User] ''read_users_me'',
      endpoint GET ''/user/{username}'' [] ''read_user'',
      endpoint PATCH ''/user/{username}'' [Current_User] ''patch_user'',
      endpoint DELETE ''/user/{username}'' [Current_User, Bearer_Token] ''erase_user'',
      endpoint DELETE ''/db_user/{username}'' [Require_Permissions [MANAGE_USERS], Bearer_Token] ''erase_db_user'',
      endpoint GET ''/user/{username}/rate_limits'' [Require_Permissions [MANAGE_RATE_LIMITS]] ''read_user_rate_limits'',
      endpoint GET ''/user/{username}/tier'' [] ''read_user_tier'',
      endpoint PATCH ''/user/{username}/tier'' [Require_Permissions [MANAGE_USERS, MANAGE_TIERS]] ''patch_user_tier'']"

definition posts_routes :: "route list" where
  "posts_routes =
     [created_route (endpoint POST ''/{username}/post'' [Current_User] ''write_post''),
      endpoint GET ''/{username}/posts'' [] ''read_posts'',
      endpoint GET ''/{username}/post/{id}'' [] ''read_post'',
      endpoint PATCH ''/{username}/post/{id}'' [Current_User] ''patch_post'',
      endpoint DELETE ''/{username}/post/{id}'' [Current_User] ''erase_post'',
      endpoint DELETE ''/{username}/db_post/{id}'' [Require_Permissions [MANAGE_POSTS]] ''erase_db_post'']"

definition tiers_routes :: "route list" where
  "tiers_routes =
     [created_route (endpoint POST ''/tier'' [Require_Permissions [MANAGE_TIERS]] ''write_tier''),
      endpoint GET ''/tiers'' [] ''read_tiers'',
      endpoint GET ''/tier/{name}'' [] ''read_tier'',
      endpoint PATCH ''/tier/{name}'' [Require_Permissions [MANAGE_TIERS]] ''patch_tier'',
      endpoint DELETE ''/tier/{name}'' [Require_Permissions [MANAGE_TIERS]] ''erase_tier'']"

definition rate_limits_routes :: "route list" where
  "rate_limits_routes =
     [created_route (endpoint POST ''/tier/{tier_name}/rate_limit'' [Require_Permissions [MANAGE_RATE_LIMITS]] ''write_rate_limit''),
      endpoint GET ''/tier/{tier_name}/rate_limits'' [] ''read_rate_limits'',
      endpoint GET ''/tier/{tier_name}/rate_limit/{id}'' [] ''read_rate_limit'',
      endpoint PATCH ''/tier/{tier_name}/rate_limit/{id}'' [Require_Permissions [MANAGE_RATE_LIMITS]] ''patch_rate_limit'',
      endpoint DELETE ''/tier/{tier_name}/rate_limit/{id}'' [Require_Permissions [MANAGE_RATE_LIMITS]] ''erase_rate_limit'']"

text \<open>What is included under a feature flag.\<close>

definition include_if :: "'r router_ops \<Rightarrow> bool \<Rightarrow> dependency list \<Rightarrow> route list \<Rightarrow> 'r \<Rightarrow> 'r" where
  "include_if lib enabled deps routes r = (if enabled then op_include lib r deps (router_of lib routes) else r)"

definition build_v1_public_router :: "'r router_ops \<Rightarrow> feature_flags \<Rightarrow> 'r" where
  "build_v1_public_router lib s =
     (let r0 = build_route_group_router lib PUBLIC None;
          r1 = include_if lib (FEATURE_API_AUTH_ROUTES_ENABLED s) [] logout_routes
                 (include_if lib (FEATURE_API_AUTH_ROUTES_ENABLED s) [] login_routes r0);
          r2 = include_if lib (FEATURE_API_USERS_ENABLED s) [Rate_Limiter] users_routes r1;
          r3 = include_if lib (FEATURE_API_POSTS_ENABLED s) [Rate_Limiter] posts_routes r2;
          r4 = include_if lib (FEATURE_API_TIERS_ENABLED s) [Rate_Limiter] tiers_routes r3
      in include_if lib (FEATURE_API_RATE_LIMITS_ENABLED s) [Rate_Limiter] rate_limits_routes r4)"

definition build_v1_ops_router :: "'r router_ops \<Rightarrow> 'r" where
  "build_v1_ops_router lib = op_include lib (build_route_group_router lib OPS None) [] (router_of lib health_routes)"

definition build_v1_admin_router :: "'r router_ops \<Rightarrow> 'r" where
  "build_v1_admin_router lib = build_route_group_router lib ADMIN (Some [Require_Permissions [''platform:admin:access'']])"

definition build_v1_internal_router :: "'r router_ops \<Rightarrow> 'r" where
  "build_v1_internal_router lib =
     op_include lib (build_route_group_router lib INTERNAL (Some [Require_Permissions [''platform:internal:access'']])) []
       (router_of lib internal_health_routes)"

definition build_v1_webhooks_router :: "'r router_ops \<Rightarrow> 'r" where
  "build_v1_webhooks_router lib = build_route_group_router lib WEBHOOKS (Some [Webhook_Rate_Limiter])"

definition build_v1_router :: "'r router_ops \<Rightarrow> feature_flags \<Rightarrow> 'r" where
  "build_v1_router lib s =
     fold (\<lambda>c r. op_include lib r [] c)
       [build_v1_ops_router lib, build_v1_public_router lib s, build_v1_admin_router lib, build_v1_internal_router lib,
        build_v1_webhooks_router lib]
       (build_version_prefix_router lib V1)"

text \<open>Every version of the enumeration has its builder, so the refusal of an unsupported one is not
  reachable.  Missing and empty versions stand for the supported ones.\<close>

definition build_version_router :: "'r router_ops \<Rightarrow> api_version \<Rightarrow> feature_flags \<Rightarrow> 'r" where
  "build_version_router lib version s = (case version of V1 \<Rightarrow> build_v1_router lib s)"

definition build_api_router :: "'r router_ops \<Rightarrow> feature_flags \<Rightarrow> api_version list option \<Rightarrow> 'r" where
  "build_api_router lib s versions =
     fold (\<lambda>version r. op_include lib r [] (build_version_router lib version s)) (or_list versions SUPPORTED_API_VERSIONS)
       (build_api_root_router lib)"

end
