(* ===== verification/Api_Endpoints.thy ===== *)
theory Api_Endpoints
  imports Api_Routes
begin

text \<open>
  The bodies of the endpoints of api/v1: what each passes to its service.  The post endpoints
  that are cached are in \<open>Domain_Services\<close>; here are their bodies, the handlers of the cache.
  \<open>compute_offset\<close> and \<open>paginated_response\<close> are FastCRUD's.
\<close>

record page_lib =
  pl_compute_offset :: "int \<Rightarrow> int \<Rightarrow> int"
  pl_paginated_response :: "dict \<Rightarrow> int \<Rightarrow> int \<Rightarrow> dict"

definition pagination_offset :: "page_lib \<Rightarrow> pagination_params \<Rightarrow> int" where
  "pagination_offset lib p = pl_compute_offset lib (pg_page p) (pg_items_per_page p)"

definition pagination_limit :: "pagination_params \<Rightarrow> int" where
  "pagination_limit p = pg_items_per_page p"

definition build_paginated_api_response :: "page_lib \<Rightarrow> dict \<Rightarrow> pagination_params \<Rightarrow> dict" where
  "build_paginated_api_response lib crud_data p =
     pl_paginated_response lib (with_total_count crud_data) (pg_page p) (pg_items_per_page p)"

definition user_sort_fields :: "string list" where
  "user_sort_fields = [''created_at'', ''email'', ''name'', ''tier_id'', ''updated_at'', ''username'']"

definition post_sort_fields :: "string list" where
  "post_sort_fields = [''created_at'', ''title'', ''updated_at'']"

definition tier_sort_fields :: "string list" where
  "tier_sort_fields = [''created_at'', ''name'', ''updated_at'']"

definition rate_limit_sort_fields :: "string list" where
  "rate_limit_sort_fields = [''created_at'', ''limit'', ''name'', ''path'', ''period'', ''updated_at'']"

text \<open>What the four listings share: the sort parameters are checked before the service is called.\<close>

definition list_endpoint ::
  "page_lib \<Rightarrow> string list \<Rightarrow> (string option \<Rightarrow> string option \<Rightarrow> service_error + dict) \<Rightarrow> pagination_params \<Rightarrow> sort_params
   \<Rightarrow> service_error + dict" where
  "list_endpoint lib allowed_fields listing pagination sort_by =
     bind_sum (sort_to_repository_kwargs allowed_fields sort_by) (\<lambda>kwargs.
     bind_sum (listing (map_option fst kwargs) (map_option snd kwargs)) (\<lambda>data.
       Inr (build_paginated_api_response lib data pagination)))"

section \<open>Users\<close>

definition write_user ::
  "'db services_env \<Rightarrow> bcrypt_lib \<Rightarrow> crypt_settings \<Rightarrow> user_create \<Rightarrow> 'db \<Rightarrow> service_error + dict \<times> 'db" where
  "write_user env bc cs user db = create_user env bc cs user db"

definition read_users ::
  "page_lib \<Rightarrow> 'db services_env \<Rightarrow> pagination_params \<Rightarrow> user_list_filters \<Rightarrow> sort_params \<Rightarrow> 'db \<Rightarrow> service_error + dict" where
  "read_users lib env pagination filters sort_by db =
     list_endpoint lib user_sort_fields
       (\<lambda>c d. Inr (list_users env (pagination_offset lib pagination) (pagination_limit pagination) (user_filters filters) c d db))
       pagination sort_by"

definition read_users_me :: "dict \<Rightarrow> dict" where
  "read_users_me current_user = current_user"

definition read_user :: "'db services_env \<Rightarrow> string \<Rightarrow> 'db \<Rightarrow> service_error + dict" where
  "read_user env username db = active_user env username db"

definition patch_user :: "'db services_env \<Rightarrow> user_update \<Rightarrow> string \<Rightarrow> dict \<Rightarrow> 'db \<Rightarrow> service_error + dict \<times> 'db" where
  "patch_user env values username current_user db = update_user env username values current_user db"

definition erase_user ::
  "'db services_env \<Rightarrow> token_env \<Rightarrow> instant \<Rightarrow> string \<Rightarrow> dict \<Rightarrow> string \<Rightarrow> 'db user_state \<Rightarrow>
     (service_error + dict) \<times> 'db user_state" where
  "erase_user env te now username current_user token st = delete_user env te now username current_user token st"

definition erase_db_user ::
  "'db services_env \<Rightarrow> token_env \<Rightarrow> instant \<Rightarrow> string \<Rightarrow> string \<Rightarrow> 'db user_state \<Rightarrow> (service_error + dict) \<times> 'db user_state" where
  "erase_db_user env te now username token st = delete_db_user env te now username token st"

definition read_user_rate_limits :: "'db services_env \<Rightarrow> string \<Rightarrow> 'db \<Rightarrow> service_error + dict" where
  "read_user_rate_limits env username db = get_user_rate_limits env username db"

definition read_user_tier :: "'db services_env \<Rightarrow> string \<Rightarrow> 'db \<Rightarrow> service_error + dict option" where
  "read_user_tier env username db = get_user_tier env username db"

definition patch_user_tier :: "'db services_env \<Rightarrow> string \<Rightarrow> int \<Rightarrow> 'db \<Rightarrow> service_error + dict \<times> 'db" where
  "patch_user_tier env username tier_id db = update_user_tier env username tier_id db"

section \<open>Posts\<close>

definition write_post :: "'db services_env \<Rightarrow> string \<Rightarrow> dict \<Rightarrow> dict \<Rightarrow> 'db \<Rightarrow> service_error + dict \<times> 'db" where
  "write_post env username post current_user db = create_post env username post current_user db"

definition read_posts_body ::
  "page_lib \<Rightarrow> 'db services_env \<Rightarrow> string \<Rightarrow> pagination_params \<Rightarrow> string option \<Rightarrow> sort_params \<Rightarrow> 'db \<Rightarrow> service_error + dict" where
  "read_posts_body lib env username pagination title sort_by db =
     list_endpoint lib post_sort_fields
       (\<lambda>c d. list_posts env username (pagination_offset lib pagination) (pagination_limit pagination) (post_filters title) c d db)
       pagination sort_by"

section \<open>Tiers and rate limits\<close>

definition write_tier :: "'db services_env \<Rightarrow> string \<Rightarrow> 'db \<Rightarrow> service_error + dict \<times> 'db" where
  "write_tier env name db = create_tier env name db"

definition read_tiers ::
  "page_lib \<Rightarrow> 'db services_env \<Rightarrow> pagination_params \<Rightarrow> string option \<Rightarrow> sort_params \<Rightarrow> 'db \<Rightarrow> service_error + dict" where
  "read_tiers lib env pagination name sort_by db =
     list_endpoint lib tier_sort_fields
       (\<lambda>c d. Inr (list_tiers env (pagination_offset lib pagination) (pagination_limit pagination) (tier_filters name) c d db))
       pagination sort_by"

definition read_tier :: "'db services_env \<Rightarrow> string \<Rightarrow> 'db \<Rightarrow> service_error + dict" where
  "read_tier env name db = get_tier env name db"

definition patch_tier :: "'db services_env \<Rightarrow> string \<Rightarrow> dict \<Rightarrow> 'db \<Rightarrow> service_error + dict \<times> 'db" where
  "patch_tier env name values db = update_tier env name values db"

definition erase_tier :: "'db services_env \<Rightarrow> string \<Rightarrow> 'db \<Rightarrow> service_error + dict \<times> 'db" where
  "erase_tier env name db = delete_tier env name db"

definition write_rate_limit :: "'db services_env \<Rightarrow> string \<Rightarrow> rate_limit_create \<Rightarrow> 'db \<Rightarrow> service_error + dict \<times> 'db" where
  "write_rate_limit env tier_name rate_limit db = create_rate_limit env tier_name rate_limit db"

definition read_rate_limits ::
  "page_lib \<Rightarrow> 'db services_env \<Rightarrow> string \<Rightarrow> pagination_params \<Rightarrow> string option \<Rightarrow> string option \<Rightarrow> sort_params \<Rightarrow> 'db
   \<Rightarrow> service_error + dict" where
  "read_rate_limits lib env tier_name pagination name path sort_by db =
     list_endpoint lib rate_limit_sort_fields
       (\<lambda>c d. list_rate_limits env tier_name (pagination_offset lib pagination) (pagination_limit pagination)
                (rate_limit_filters name path) c d db)
       pagination sort_by"

definition read_rate_limit :: "'db services_env \<Rightarrow> string \<Rightarrow> int \<Rightarrow> 'db \<Rightarrow> service_error + dict" where
  "read_rate_limit env tier_name i db = get_rate_limit env tier_name i db"

definition patch_rate_limit :: "'db services_env \<Rightarrow> string \<Rightarrow> int \<Rightarrow> dict \<Rightarrow> 'db \<Rightarrow> service_error + dict \<times> 'db" where
  "patch_rate_limit env tier_name i values db = update_rate_limit env tier_name i values db"

definition erase_rate_limit :: "'db services_env \<Rightarrow> string \<Rightarrow> int \<Rightarrow> 'db \<Rightarrow> service_error + dict \<times> 'db" where
  "erase_rate_limit env tier_name i db = delete_rate_limit env tier_name i db"

section \<open>Log-in\<close>

text \<open>The refresh token is read from the cookie of the configured name.\<close>

definition login_for_access_token ::
  "'u auth_env \<Rightarrow> instant \<Rightarrow> string \<Rightarrow> string \<Rightarrow> string \<Rightarrow> 'u auth_state \<Rightarrow> (token_error + dict) \<times> 'u auth_state" where
  "login_for_access_token env now uuid username password st = login env now uuid username password st"

definition refresh_cookie :: "'u auth_env \<Rightarrow> (string \<times> string) list \<Rightarrow> string option" where
  "refresh_cookie env cookies = map_of cookies (REFRESH_TOKEN_COOKIE_NAME (ae_cookies env))"

definition refresh_endpoint ::
  "'u auth_env \<Rightarrow> instant \<Rightarrow> string \<Rightarrow> (string \<times> string) list \<Rightarrow> 'u auth_state \<Rightarrow> (token_error + dict) \<times> 'u auth_state" where
  "refresh_endpoint env now uuid cookies st = Auth_Service.refresh_access_token env now uuid (refresh_cookie env cookies) st"

definition logout_endpoint ::
  "'u auth_env \<Rightarrow> instant \<Rightarrow> (string \<times> string) list \<Rightarrow> string \<Rightarrow> 'u auth_state \<Rightarrow> (token_error + dict) \<times> 'u auth_state" where
  "logout_endpoint env now cookies access_token st = Auth_Service.logout env now (refresh_cookie env cookies) access_token st"

end
