(* ===== verification/Api_Route_Theorems.thy ===== *)
theory Api_Route_Theorems
  imports Api_Endpoints
begin

text \<open>
  The table of the API's routes, and who reaches which of them.  The locale \<open>router_library\<close>
  states what the framework documents of its routers; it is interpreted on routers that are
  lists of routes.
\<close>

section \<open>Routers\<close>

definition mounted :: "string \<Rightarrow> dependency list \<Rightarrow> route \<Rightarrow> route" where
  "mounted path deps x = x\<lparr> rt_path := path @ rt_path x, rt_dependencies := deps @ rt_dependencies x \<rparr>"

lemma mounted_empty [simp]: "mounted [] [] = id"
  by (simp add: mounted_def fun_eq_iff)

lemma mounted_mounted [simp]: "mounted p d (mounted q e x) = mounted (p @ q) (d @ e) x"
  by (simp add: mounted_def)

lemma mounted_endpoint [simp]:
  "mounted p d (endpoint m q e n) = endpoint m (p @ q) (d @ e) n"
  "mounted p d (created_route x) = created_route (mounted p d x)"
  by (simp_all add: mounted_def endpoint_def created_route_def)

locale router_library =
  fixes lib :: "'r router_ops"
    and prefix_of :: "'r \<Rightarrow> string" and guards_of :: "'r \<Rightarrow> dependency list" and table_of :: "'r \<Rightarrow> route list"
  assumes new_router: "prefix_of (op_router lib p d) = p" "guards_of (op_router lib p d) = d" "table_of (op_router lib p d) = []"
    and routed: "prefix_of (op_route lib r x) = prefix_of r" "guards_of (op_route lib r x) = guards_of r"
      "table_of (op_route lib r x) = table_of r @ [mounted (prefix_of r) (guards_of r) x]"
    and included: "prefix_of (op_include lib r d c) = prefix_of r" "guards_of (op_include lib r d c) = guards_of r"
      "table_of (op_include lib r d c) = table_of r @ map (mounted (prefix_of r) (guards_of r @ d)) (table_of c)"
begin

lemma fold_route:
  "prefix_of (fold (\<lambda>x r. op_route lib r x) xs r) = prefix_of r"
  "guards_of (fold (\<lambda>x r. op_route lib r x) xs r) = guards_of r"
  "table_of (fold (\<lambda>x r. op_route lib r x) xs r) = table_of r @ map (mounted (prefix_of r) (guards_of r)) xs"
  by (induction xs arbitrary: r) (simp_all add: routed)

lemma router_of_table: "table_of (router_of lib xs) = xs"
  by (simp add: router_of_def fold_route new_router)

lemma include_if_table:
  "prefix_of (include_if lib b d xs r) = prefix_of r" "guards_of (include_if lib b d xs r) = guards_of r"
  "table_of (include_if lib b d xs r) = table_of r @ (if b then map (mounted (prefix_of r) (guards_of r @ d)) xs else [])"
  by (simp_all add: include_if_def included router_of_table)

lemma api_table:
  "table_of (build_api_router lib s None) =
    map (mounted ''/api/v1'' [])
     (health_routes @
      (if FEATURE_API_AUTH_ROUTES_ENABLED s then login_routes @ logout_routes else []) @
      (if FEATURE_API_USERS_ENABLED s then map (mounted [] [Rate_Limiter]) users_routes else []) @
      (if FEATURE_API_POSTS_ENABLED s then map (mounted [] [Rate_Limiter]) posts_routes else []) @
      (if FEATURE_API_TIERS_ENABLED s then map (mounted [] [Rate_Limiter]) tiers_routes else []) @
      (if FEATURE_API_RATE_LIMITS_ENABLED s then map (mounted [] [Rate_Limiter]) rate_limits_routes else []) @
      map (mounted ''/internal'' [Require_Permissions [''platform:internal:access'']]) internal_health_routes)"
  by (simp add: build_api_router_def SUPPORTED_API_VERSIONS_def build_version_router_def build_v1_router_def
      build_api_root_router_def build_version_prefix_router_def api_version_value_def build_v1_ops_router_def
      build_v1_public_router_def build_v1_admin_router_def build_v1_internal_router_def build_v1_webhooks_router_def
      build_route_group_router_def ROUTE_GROUP_DEFINITIONS_def include_if_table new_router included router_of_table
      Let_def comp_def)

end

text \<open>Routers as lists.\<close>

definition list_routers :: "(string \<times> dependency list \<times> route list) router_ops" where
  "list_routers =
     \<lparr> op_router = (\<lambda>p d. (p, d, [])), op_route = (\<lambda>(p, d, xs) x. (p, d, xs @ [mounted p d x])),
       op_include = (\<lambda>(p, d, xs) e (q, f, ys). (p, d, xs @ map (mounted p (d @ e)) ys)) \<rparr>"

interpretation routers: router_library list_routers fst "\<lambda>r. fst (snd r)" "\<lambda>r. snd (snd r)"
  by unfold_locales (auto simp: list_routers_def)

section \<open>Guards\<close>

text \<open>What the dependencies that identify a caller found, and what a rate limiter answers.  The
  dependencies run in order, the first refusal is the answer, and the endpoint runs after all.\<close>

record guard_env =
  ge_rep :: "json \<Rightarrow> string"
  ge_policy :: permission_policy
  ge_user :: "token_error + dict"
  ge_bearer :: "token_error + string"
  ge_principal :: "token_error + dict"
  ge_limit :: "dependency \<Rightarrow> rl_error + unit"

datatype refusal = Refused_Caller dependency_error | Refused_Rate rl_error

fun guard :: "guard_env \<Rightarrow> dependency \<Rightarrow> refusal + unit" where
  "guard env Current_User = map_sum (\<lambda>e. Refused_Caller (Auth_Token e)) (\<lambda>_. ()) (ge_user env)"
| "guard env Bearer_Token = map_sum (\<lambda>e. Refused_Caller (Auth_Token e)) (\<lambda>_. ()) (ge_bearer env)"
| "guard env (Require_Permissions ps) =
     map_sum Refused_Caller (\<lambda>_. ()) (require_permissions (ge_rep env) ps True (ge_policy env) (ge_principal env))"
| "guard env d = map_sum Refused_Rate id (ge_limit env d)"

fun run_guards :: "guard_env \<Rightarrow> dependency list \<Rightarrow> refusal + unit" where
  "run_guards env [] = Inr ()"
| "run_guards env (d # ds) = bind_sum (guard env d) (\<lambda>_. run_guards env ds)"

lemma is_ok_bind: "is_ok (bind_sum r (\<lambda>_. q)) \<longleftrightarrow> is_ok r \<and> is_ok q"
  by (cases r) (simp_all add: is_ok_def)

lemma is_ok_Inr: "is_ok (Inr x)" "\<not> is_ok (Inl e)"
  by (simp_all add: is_ok_def)

lemma is_ok_bind_Inr: "is_ok (bind_sum r Inr) \<longleftrightarrow> is_ok r"
  by (cases r) (simp_all add: is_ok_def)

lemma run_guards_ok: "is_ok (run_guards env ds) \<longleftrightarrow> list_all (\<lambda>d. is_ok (guard env d)) ds"
  by (induction ds) (simp_all add: is_ok_bind is_ok_Inr)

lemma is_ok_map_sum: "is_ok (map_sum f g r) \<longleftrightarrow> is_ok r"
  by (cases r) (simp_all add: is_ok_def)

fun asks_caller :: "dependency \<Rightarrow> bool" where
  "asks_caller Current_User = True"
| "asks_caller Bearer_Token = True"
| "asks_caller (Require_Permissions _) = True"
| "asks_caller _ = False"

definition anonymous :: "guard_env \<Rightarrow> bool" where
  "anonymous env \<longleftrightarrow> \<not> is_ok (ge_user env) \<and> \<not> is_ok (ge_bearer env) \<and> \<not> is_ok (ge_principal env)"

definition within_limits :: "guard_env \<Rightarrow> bool" where
  "within_limits env \<longleftrightarrow> (\<forall>d. is_ok (ge_limit env d))"

lemma anonymous_guard:
  assumes "anonymous env" "within_limits env"
  shows "is_ok (guard env d) \<longleftrightarrow> \<not> asks_caller d"
proof (cases d)
  case (Require_Permissions ps)
  have "require_permissions (ge_rep env) ps True (ge_policy env) (ge_principal env) = Inl (Auth_Token (projl (ge_principal env)))"
    using assms by (cases "ge_principal env") (auto simp: anonymous_def is_ok_def require_permissions_def)
  then show ?thesis using Require_Permissions by (simp add: is_ok_def)
qed (use assms in \<open>auto simp: anonymous_def within_limits_def is_ok_map_sum\<close>)

section \<open>Anonymous callers\<close>

definition open_routes :: "feature_flags \<Rightarrow> (http_method \<times> string) list" where
  "open_routes s =
     [(GET, ''/api/v1/health''), (GET, ''/api/v1/ready'')] @
     (if FEATURE_API_AUTH_ROUTES_ENABLED s then [(POST, ''/api/v1/login''), (POST, ''/api/v1/refresh'')] else []) @
     (if FEATURE_API_USERS_ENABLED s
      then [(POST, ''/api/v1/user''), (GET, ''/api/v1/users''), (GET, ''/api/v1/user/{username}''),
            (GET, ''/api/v1/user/{username}/tier'')] else []) @
     (if FEATURE_API_POSTS_ENABLED s then [(GET, ''/api/v1/{username}/posts''), (GET, ''/api/v1/{username}/post/{id}'')] else []) @
     (if FEATURE_API_TIERS_ENABLED s then [(GET, ''/api/v1/tiers''), (GET, ''/api/v1/tier/{name}'')] else []) @
     (if FEATURE_API_RATE_LIMITS_ENABLED s
      then [(GET, ''/api/v1/tier/{tier_name}/rate_limits''), (GET, ''/api/v1/tier/{tier_name}/rate_limit/{id}'')] else [])"

definition route_key :: "route \<Rightarrow> http_method \<times> string" where
  "route_key x = (rt_method x, rt_path x)"

definition unguarded :: "route list \<Rightarrow> (http_method \<times> string) list" where
  "unguarded xs = map route_key (filter (\<lambda>x. list_all (\<lambda>d. \<not> asks_caller d) (rt_dependencies x)) xs)"

lemma unguarded_simps [simp]:
  "unguarded [] = []" "unguarded (xs @ ys) = unguarded xs @ unguarded ys"
  "unguarded (if b then xs else []) = (if b then unguarded xs else [])"
  "unguarded (endpoint m p d n # xs) = (if list_all (\<lambda>d. \<not> asks_caller d) d then (m, p) # unguarded xs else unguarded xs)"
  "unguarded (created_route x # xs) = unguarded (x # xs)"
  by (simp_all add: unguarded_def route_key_def endpoint_def created_route_def)

lemmas route_tables =
  health_routes_def internal_health_routes_def login_routes_def logout_routes_def users_routes_def posts_routes_def
  tiers_routes_def rate_limits_routes_def

lemma unguarded_mounted:
  "unguarded (map (mounted p d) xs) =
    (if list_all (\<lambda>d. \<not> asks_caller d) d then map (\<lambda>(m, q). (m, p @ q)) (unguarded xs) else [])"
  by (induction xs) (auto simp: unguarded_def route_key_def mounted_def)

lemma unguarded_tables:
  "unguarded health_routes = [(GET, ''/health''), (GET, ''/ready'')]"
  "unguarded login_routes = [(POST, ''/login''), (POST, ''/refresh'')]"
  "unguarded logout_routes = []"
  "unguarded users_routes = [(POST, ''/user''), (GET, ''/users''), (GET, ''/user/{username}''), (GET, ''/user/{username}/tier'')]"
  "unguarded posts_routes = [(GET, ''/{username}/posts''), (GET, ''/{username}/post/{id}'')]"
  "unguarded tiers_routes = [(GET, ''/tiers''), (GET, ''/tier/{name}'')]"
  "unguarded rate_limits_routes = [(GET, ''/tier/{tier_name}/rate_limits''), (GET, ''/tier/{tier_name}/rate_limit/{id}'')]"
  by (simp_all add: route_tables)

lemma map_when: "map f (if b then xs else []) = (if b then map f xs else [])"
  by simp

context router_library
begin

lemma unguarded_api: "unguarded (table_of (build_api_router lib s None)) = open_routes s"
  by (simp add: api_table open_routes_def unguarded_mounted unguarded_tables map_when del: map_map split del: if_split cong: if_cong)

end

lemma unguarded_iff:
  "(m, p) \<in> set (unguarded xs) \<longleftrightarrow>
    (\<exists>x \<in> set xs. rt_method x = m \<and> rt_path x = p \<and> list_all (\<lambda>d. \<not> asks_caller d) (rt_dependencies x))"
  by (auto simp: unguarded_def route_key_def)

text \<open>C35: The routes that are open to everyone are exactly the listed ones.  A caller whom no
  dependency identifies, and who is within the rate limits, is served by a route of the API
  if and only if the route is on the list; so the only changes without an identity are to log
  in, to refresh a token and to register.\<close>

theorem anonymous_callers_reach_open_routes:
  assumes "router_library lib prefix_of guards_of table_of" "anonymous env" "within_limits env"
  shows "((\<exists>x \<in> set (table_of (build_api_router lib s None)). rt_method x = m \<and> rt_path x = p
            \<and> is_ok (run_guards env (rt_dependencies x)))
          \<longleftrightarrow> (m, p) \<in> set (open_routes s))
         \<and> ((m, p) \<in> set (open_routes s) \<longrightarrow>
             m = GET \<or> (m, p) \<in> {(POST, ''/api/v1/login''), (POST, ''/api/v1/refresh''), (POST, ''/api/v1/user'')})"
proof
  show "(\<exists>x \<in> set (table_of (build_api_router lib s None)). rt_method x = m \<and> rt_path x = p
            \<and> is_ok (run_guards env (rt_dependencies x)))
         \<longleftrightarrow> (m, p) \<in> set (open_routes s)"
    unfolding router_library.unguarded_api [OF assms(1), symmetric] unguarded_iff run_guards_ok
      anonymous_guard [OF assms(2,3)] ..
  show "(m, p) \<in> set (open_routes s) \<longrightarrow>
      m = GET \<or> (m, p) \<in> {(POST, ''/api/v1/login''), (POST, ''/api/v1/refresh''), (POST, ''/api/v1/user'')}"
    by (auto simp: open_routes_def split: if_splits)
qed

definition stranger :: guard_env where
  "stranger =
     \<lparr> ge_rep = (\<lambda>_. []), ge_policy = DEFAULT_PERMISSION_POLICY, ge_user = Inl (Unauthorized ''Not authenticated''),
       ge_bearer = Inl (Unauthorized ''Not authenticated''), ge_principal = Inl (Unauthorized ''Not authenticated''),
       ge_limit = (\<lambda>_. Inr ()) \<rparr>"

lemma stranger_anonymous: "anonymous stranger" "within_limits stranger"
  by (simp_all add: anonymous_def within_limits_def stranger_def is_ok_def)

lemma anonymous_callers_reach_open_routes_witness:
  "\<not> (\<exists>x \<in> set (snd (snd (build_api_router list_routers feature_flags_defaults None))).
      rt_method x = DELETE \<and> rt_path x = ''/api/v1/user/{username}'' \<and> is_ok (run_guards stranger (rt_dependencies x)))"
  using anonymous_callers_reach_open_routes
      [OF routers.router_library_axioms stranger_anonymous, of feature_flags_defaults DELETE "''/api/v1/user/{username}''"]
  by (simp add: open_routes_def feature_flags_defaults_def)

section \<open>The order of the routes\<close>

text \<open>The framework serves a request with the first route, in the order of the table, whose method
  is the request's and whose path matches; a parameter in braces takes one segment that is not
  empty.\<close>

fun path_matches :: "string list \<Rightarrow> string list \<Rightarrow> bool" where
  "path_matches [] [] = True"
| "path_matches (p # ps) (x # xs) =
     ((if p \<noteq> [] \<and> hd p = CHR ''{'' then x \<noteq> [] else p = x) \<and> path_matches ps xs)"
| "path_matches _ _ = False"

fun path_segments :: "string \<Rightarrow> string \<Rightarrow> string list" where
  "path_segments [] acc = [rev acc]"
| "path_segments (c # cs) acc = (if c = CHR ''/'' then rev acc # path_segments cs [] else path_segments cs (c # acc))"

definition selected :: "route list \<Rightarrow> http_method \<Rightarrow> string \<Rightarrow> string option" where
  "selected xs m path =
     map_option rt_endpoint
       (find (\<lambda>x. rt_method x = m \<and> path_matches (path_segments (rt_path x) []) (path_segments path [])) xs)"

lemma selected_simps:
  "selected [] m path = None"
  "selected (endpoint n p d e # xs) m path =
     (if n = m \<and> path_matches (path_segments p []) (path_segments path []) then Some e else selected xs m path)"
  "selected (created_route x # xs) m path = selected (x # xs) m path"
  by (simp_all add: selected_def endpoint_def created_route_def)

text \<open>User names that are also path segments hide resources: the posts of a user named \<open>user\<close>, the
  tier named \<open>posts\<close>; and without its final slash \<open>user/me\<close> is the user named \<open>me\<close>.\<close>

lemma hidden_by_order:
  assumes "router_library lib prefix_of guards_of table_of"
  shows "selected (table_of (build_api_router lib feature_flags_defaults None)) GET ''/api/v1/user/posts'' = Some ''read_user''"
    and "selected (table_of (build_api_router lib feature_flags_defaults None)) GET ''/api/v1/tier/posts'' = Some ''read_posts''"
    and "selected (table_of (build_api_router lib feature_flags_defaults None)) GET ''/api/v1/user/me'' = Some ''read_user''"
    and "selected (table_of (build_api_router lib feature_flags_defaults None)) GET ''/api/v1/user/me/'' = Some ''read_users_me''"
  by (simp_all add: router_library.api_table [OF assms] feature_flags_defaults_def route_tables selected_simps)

text \<open>The internal endpoint is reached by a principal with the permission for it only.\<close>

lemma internal_route_is_guarded:
  assumes "router_library lib prefix_of guards_of table_of" "x \<in> set (table_of (build_api_router lib s None))"
    and "rt_path x = ''/api/v1/internal/health''" "is_ok (run_guards env (rt_dependencies x))"
  shows "\<exists>who. ge_principal env = Inr who \<and>
    is_ok (require_internal_access (ge_rep env) (ge_policy env) (Inr who))"
proof -
  have "list_all (\<lambda>x. rt_path x = ''/api/v1/internal/health'' \<longrightarrow>
      rt_dependencies x = [Require_Permissions [''platform:internal:access'']]) (table_of (build_api_router lib s None))"
    by (simp add: router_library.api_table [OF assms(1)] route_tables endpoint_def created_route_def mounted_def)
  then have "is_ok (guard env (Require_Permissions [''platform:internal:access'']))"
    using assms(2-4) by (auto simp: list_all_iff is_ok_bind_Inr)
  then show ?thesis
    by (cases "ge_principal env") (auto simp: is_ok_map_sum require_internal_access_def require_permissions_def is_ok_Inr)
qed

end
