(* ===== verification/Schema.thy ===== *)
theory Schema
  imports Prelude
begin

text \<open>
  Database schemas: the operations of a migration, the state that they act on, and the table that
  an ORM model declares.

  \<open>apply_op\<close> is what the database documents of the four statements: a table must be new and may
  refer to existing tables only, an index must be new and be over columns of an existing table,
  what is dropped must exist, a table to which another one refers is not dropped, and a dropped
  table takes its indexes along.  \<open>model_table\<close> and \<open>model_indexes\<close> are the documented defaults of
  the ORM: the type of a column without one comes from its annotation, as does whether it may be
  null; \<open>index\<close> names an index after the table and the column, \<open>unique\<close> makes it unique, and without
  \<open>index\<close> is a constraint.
\<close>

section \<open>Schemas\<close>

datatype column_type =
    Integer_Column | String_Column "nat option" | Text_Column | Json_Column | Boolean_Column | Uuid_Column
  | DateTime_Column bool

record column =
  cn_name :: string
  cn_type :: column_type
  cn_nullable :: bool
  cn_autoincrement :: bool

definition column :: "string \<Rightarrow> column_type \<Rightarrow> bool \<Rightarrow> bool \<Rightarrow> column" where
  "column name ty nullable autoincrement =
     \<lparr> cn_name = name, cn_type = ty, cn_nullable = nullable, cn_autoincrement = autoincrement \<rparr>"

datatype table_constraint = Primary_Key "string list" | Unique "string option" "string list" | Foreign_Key string string string

record table_index =
  ix_name :: string
  ix_table :: string
  ix_columns :: "string list"
  ix_unique :: bool

definition index :: "string \<Rightarrow> string \<Rightarrow> string list \<Rightarrow> bool \<Rightarrow> table_index" where
  "index name tab cols uniq = \<lparr> ix_name = name, ix_table = tab, ix_columns = cols, ix_unique = uniq \<rparr>"

datatype schema_op =
    Create_Table string "column list" "table_constraint list"
  | Create_Index table_index
  | Drop_Index string string
  | Drop_Table string

type_synonym table_def = "string \<times> column list \<times> table_constraint list"

record schema =
  db_tables :: "table_def list"
  db_indexes :: "table_index list"

definition empty_schema :: schema where
  "empty_schema = \<lparr> db_tables = [], db_indexes = [] \<rparr>"

definition table_names :: "schema \<Rightarrow> string list" where
  "table_names s = map fst (db_tables s)"

fun refers_to :: "table_constraint \<Rightarrow> string option" where
  "refers_to (Foreign_Key _ t _) = Some t"
| "refers_to _ = None"

definition targets :: "table_constraint list \<Rightarrow> string list" where
  "targets cons = List.map_filter refers_to cons"

fun apply_op :: "schema_op \<Rightarrow> schema \<Rightarrow> schema option" where
  "apply_op (Create_Table t cols cons) s =
     (if t \<in> set (table_names s) \<or> \<not> set (targets cons) \<subseteq> set (table_names s) then None
      else Some (s\<lparr> db_tables := db_tables s @ [(t, cols, cons)] \<rparr>))"
| "apply_op (Create_Index i) s =
     (if ix_name i \<in> ix_name ` set (db_indexes s) then None
      else case map_of (db_tables s) (ix_table i) of
             None \<Rightarrow> None
           | Some (cols, cons) \<Rightarrow>
               if set (ix_columns i) \<subseteq> cn_name ` set cols then Some (s\<lparr> db_indexes := db_indexes s @ [i] \<rparr>) else None)"
| "apply_op (Drop_Index name t) s =
     (if name \<in> ix_name ` set (db_indexes s) then Some (s\<lparr> db_indexes := filter (\<lambda>i. ix_name i \<noteq> name) (db_indexes s) \<rparr>)
      else None)"
| "apply_op (Drop_Table t) s =
     (if t \<notin> set (table_names s) \<or> list_ex (\<lambda>(u, cols, cons). u \<noteq> t \<and> t \<in> set (targets cons)) (db_tables s) then None
      else Some (s\<lparr> db_tables := filter (\<lambda>d. fst d \<noteq> t) (db_tables s),
                    db_indexes := filter (\<lambda>i. ix_table i \<noteq> t) (db_indexes s) \<rparr>))"

fun apply_ops :: "schema_op list \<Rightarrow> schema \<Rightarrow> schema option" where
  "apply_ops [] s = Some s"
| "apply_ops (x # xs) s = Option.bind (apply_op x s) (apply_ops xs)"

record revision =
  rv_id :: string
  rv_down :: "string option"
  rv_upgrade :: "schema_op list"
  rv_downgrade :: "schema_op list"

section \<open>Models\<close>

datatype py_type = Py_Int | Py_Str | Py_Bool | Py_Datetime | Py_Uuid | Py_Dict

record mapped_column =
  mp_name :: string
  mp_annotation :: py_type
  mp_optional :: bool
  mp_type :: "column_type option"
  mp_primary_key :: bool
  mp_autoincrement :: bool
  mp_unique :: bool
  mp_index :: bool
  mp_references :: "(string \<times> string) option"

definition mapped :: "string \<Rightarrow> py_type \<Rightarrow> bool \<Rightarrow> column_type option \<Rightarrow> mapped_column" where
  "mapped name annotation optional ty =
     \<lparr> mp_name = name, mp_annotation = annotation, mp_optional = optional, mp_type = ty, mp_primary_key = False,
       mp_autoincrement = False, mp_unique = False, mp_index = False, mp_references = None \<rparr>"

record orm_model =
  md_table :: string
  md_uniques :: "(string \<times> string list) list"
  md_indexes :: "(string \<times> string list) list"
  md_columns :: "mapped_column list"

text \<open>A dict has no column type of its own; every such column gives one.\<close>

fun annotated_type :: "py_type \<Rightarrow> column_type" where
  "annotated_type Py_Int = Integer_Column"
| "annotated_type Py_Str = String_Column None"
| "annotated_type Py_Bool = Boolean_Column"
| "annotated_type Py_Datetime = DateTime_Column False"
| "annotated_type Py_Uuid = Uuid_Column"
| "annotated_type Py_Dict = Json_Column"

definition model_column :: "mapped_column \<Rightarrow> column" where
  "model_column m =
     column (mp_name m) (case mp_type m of Some t \<Rightarrow> t | None \<Rightarrow> annotated_type (mp_annotation m)) (mp_optional m)
       (mp_autoincrement m)"

definition model_table :: "orm_model \<Rightarrow> table_def" where
  "model_table d =
     (md_table d, map model_column (md_columns d),
      List.map_filter (\<lambda>m. map_option (\<lambda>(t, c). Foreign_Key (mp_name m) t c) (mp_references m)) (md_columns d) @
      [Primary_Key (map mp_name (filter mp_primary_key (md_columns d)))] @
      map (\<lambda>(name, cols). Unique (Some name) cols) (md_uniques d) @
      map (\<lambda>m. Unique None [mp_name m]) (filter (\<lambda>m. mp_unique m \<and> \<not> mp_index m) (md_columns d)))"

definition model_indexes :: "orm_model \<Rightarrow> table_index list" where
  "model_indexes d =
     map (\<lambda>m. index (''ix_'' @ md_table d @ ''_'' @ mp_name m) (md_table d) [mp_name m] (mp_unique m))
       (filter mp_index (md_columns d)) @
     map (\<lambda>(name, cols). index name (md_table d) cols False) (md_indexes d)"

end
