(* ===== verification/Migrations.thy ===== *)
theory Migrations
  imports Schema
begin

text \<open>
  The revisions of migrations/versions: the operations of each \<open>upgrade\<close> and \<open>downgrade\<close>, in their
  order.  \<open>op.f\<close> marks a name as final and is left out.
\<close>

definition upgrade_core_tables :: "schema_op list" where
  "upgrade_core_tables =
     [Create_Table ''tier''
         [column ''id'' (Integer_Column) False True,
          column ''name'' (String_Column None) False False,
          column ''created_at'' (DateTime_Column True) False False,
          column ''updated_at'' (DateTime_Column True) True False]
         [Primary_Key [''id''], Unique None [''name'']],
      Create_Table ''token_blacklist''
         [column ''id'' (Integer_Column) False True,
          column ''token'' (String_Column None) False False,
          column ''expires_at'' (DateTime_Column False) False False]
         [Primary_Key [''id'']],
      Create_Index (index ''ix_token_blacklist_token'' ''token_blacklist'' [''token''] True),
      Create_Table ''rate_limit''
         [column ''id'' (Integer_Column) False True,
          column ''tier_id'' (Integer_Column) False False,
          column ''name'' (String_Column None) False False,
          column ''path'' (String_Column None) False False,
          column ''limit'' (Integer_Column) False False,
          column ''period'' (Integer_Column) False False,
          column ''created_at'' (DateTime_Column True) False False,
          column ''updated_at'' (DateTime_Column True) True False]
         [Foreign_Key ''tier_id'' ''tier'' ''id'', Primary_Key [''id''], Unique None [''name'']],
      Create_Index (index ''ix_rate_limit_tier_id'' ''rate_limit'' [''tier_id''] False),
      Create_Table ''user''
         [column ''id'' (Integer_Column) False True,
          column ''name'' (String_Column (Some 30)) False False,
          column ''username'' (String_Column (Some 20)) False False,
          column ''email'' (String_Column (Some 50)) False False,
          column ''hashed_password'' (String_Column None) False False,
          column ''profile_image_url'' (String_Column None) False False,
          column ''uuid'' (Uuid_Column) False False,
          column ''created_at'' (DateTime_Column True) False False,
          column ''updated_at'' (DateTime_Column True) True False,
          column ''deleted_at'' (DateTime_Column True) True False,
          column ''is_deleted'' (Boolean_Column) False False,
          column ''is_superuser'' (Boolean_Column) False False,
          column ''tier_id'' (Integer_Column) True False]
         [Foreign_Key ''tier_id'' ''tier'' ''id'', Primary_Key [''id''], Unique None [''uuid'']],
      Create_Index (index ''ix_user_email'' ''user'' [''email''] True),
      Create_Index (index ''ix_user_is_deleted'' ''user'' [''is_deleted''] False),
      Create_Index (index ''ix_user_tier_id'' ''user'' [''tier_id''] False),
      Create_Index (index ''ix_user_username'' ''user'' [''username''] True),
      Create_Table ''post''
         [column ''id'' (Integer_Column) False True,
          column ''created_by_user_id'' (Integer_Column) False False,
          column ''title'' (String_Column (Some 30)) False False,
          column ''text'' (String_Column (Some 63206)) False False,
          column ''uuid'' (Uuid_Column) False False,
          column ''media_url'' (String_Column None) True False,
          column ''created_at'' (DateTime_Column True) False False,
          column ''updated_at'' (DateTime_Column True) True False,
          column ''deleted_at'' (DateTime_Column True) True False,
          column ''is_deleted'' (Boolean_Column) False False]
         [Foreign_Key ''created_by_user_id'' ''user'' ''id'', Primary_Key [''id''], Unique None [''uuid'']],
      Create_Index (index ''ix_post_created_by_user_id'' ''post'' [''created_by_user_id''] False),
      Create_Index (index ''ix_post_is_deleted'' ''post'' [''is_deleted''] False)]"

definition downgrade_core_tables :: "schema_op list" where
  "downgrade_core_tables =
     [Drop_Index ''ix_post_is_deleted'' ''post'',
      Drop_Index ''ix_post_created_by_user_id'' ''post'',
      Drop_Table ''post'',
      Drop_Index ''ix_user_username'' ''user'',
      Drop_Index ''ix_user_tier_id'' ''user'',
      Drop_Index ''ix_user_is_deleted'' ''user'',
      Drop_Index ''ix_user_email'' ''user'',
      Drop_Table ''user'',
      Drop_Index ''ix_rate_limit_tier_id'' ''rate_limit'',
      Drop_Table ''rate_limit'',
      Drop_Index ''ix_token_blacklist_token'' ''token_blacklist'',
      Drop_Table ''token_blacklist'',
      Drop_Table ''tier'']"

definition revision_core_tables :: revision where
  "revision_core_tables =
     \<lparr> rv_id = ''d3c5b39ad89f'', rv_down = None, rv_upgrade = upgrade_core_tables, rv_downgrade = downgrade_core_tables \<rparr>"

definition upgrade_webhook_event_table :: "schema_op list" where
  "upgrade_webhook_event_table =
     [Create_Table ''webhook_event''
         [column ''id'' (Integer_Column) False True,
          column ''source'' (String_Column (Some 100)) False False,
          column ''endpoint_key'' (String_Column (Some 100)) False False,
          column ''event_type'' (String_Column (Some 255)) False False,
          column ''status'' (String_Column (Some 32)) False False,
          column ''delivery_id'' (String_Column (Some 255)) True False,
          column ''event_id'' (String_Column (Some 255)) True False,
          column ''signature_verified'' (Boolean_Column) True False,
          column ''payload_content_type'' (String_Column (Some 255)) True False,
          column ''payload_sha256'' (String_Column (Some 64)) True False,
          column ''payload_size_bytes'' (Integer_Column) True False,
          column ''received_at'' (DateTime_Column True) False False,
          column ''acknowledged_at'' (DateTime_Column True) True False,
          column ''processed_at'' (DateTime_Column True) True False,
          column ''raw_payload'' (Text_Column) True False,
          column ''normalized_payload'' (Json_Column) True False,
          column ''processing_metadata'' (Json_Column) True False,
          column ''processing_error'' (Text_Column) True False]
         [Primary_Key [''id'']],
      Create_Index (index ''ix_webhook_event_endpoint_key'' ''webhook_event'' [''endpoint_key''] False),
      Create_Index (index ''ix_webhook_event_event_type'' ''webhook_event'' [''event_type''] False),
      Create_Index (index ''ix_webhook_event_payload_sha256'' ''webhook_event'' [''payload_sha256''] False),
      Create_Index (index ''ix_webhook_event_source'' ''webhook_event'' [''source''] False),
      Create_Index (index ''ix_webhook_event_source_delivery_id'' ''webhook_event'' [''source'', ''delivery_id''] False),
      Create_Index (index ''ix_webhook_event_source_event_id'' ''webhook_event'' [''source'', ''event_id''] False),
      Create_Index (index ''ix_webhook_event_status'' ''webhook_event'' [''status''] False),
      Create_Index (index ''ix_webhook_event_status_received_at'' ''webhook_event'' [''status'', ''received_at''] False)]"

definition downgrade_webhook_event_table :: "schema_op list" where
  "downgrade_webhook_event_table =
     [Drop_Index ''ix_webhook_event_status_received_at'' ''webhook_event'',
      Drop_Index ''ix_webhook_event_status'' ''webhook_event'',
      Drop_Index ''ix_webhook_event_source_event_id'' ''webhook_event'',
      Drop_Index ''ix_webhook_event_source_delivery_id'' ''webhook_event'',
      Drop_Index ''ix_webhook_event_source'' ''webhook_event'',
      Drop_Index ''ix_webhook_event_payload_sha256'' ''webhook_event'',
      Drop_Index ''ix_webhook_event_event_type'' ''webhook_event'',
      Drop_Index ''ix_webhook_event_endpoint_key'' ''webhook_event'',
      Drop_Table ''webhook_event'']"

definition revision_webhook_event_table :: revision where
  "revision_webhook_event_table =
     \<lparr> rv_id = ''f6edf4a3a0b1'', rv_down = Some ''d3c5b39ad89f'', rv_upgrade = upgrade_webhook_event_table, rv_downgrade = downgrade_webhook_event_table \<rparr>"

definition upgrade_idempotency_key_table :: "schema_op list" where
  "upgrade_idempotency_key_table =
     [Create_Table ''idempotency_key''
         [column ''id'' (Integer_Column) False True,
          column ''scope'' (String_Column (Some 100)) False False,
          column ''key'' (String_Column (Some 255)) False False,
          column ''status'' (String_Column (Some 32)) False False,
          column ''request_fingerprint'' (String_Column (Some 64)) True False,
          column ''recovery_point'' (String_Column (Some 100)) True False,
          column ''locked_until'' (DateTime_Column True) True False,
          column ''expires_at'' (DateTime_Column True) True False,
          column ''first_seen_at'' (DateTime_Column True) False False,
          column ''last_seen_at'' (DateTime_Column True) False False,
          column ''hit_count'' (Integer_Column) False False,
          column ''completed_at'' (DateTime_Column True) True False,
          column ''processing_metadata'' (Json_Column) True False,
          column ''error_code'' (String_Column (Some 100)) True False,
          column ''error_detail'' (Text_Column) True False]
         [Primary_Key [''id''], Unique (Some ''uq_idempotency_key_scope_key'') [''scope'', ''key'']],
      Create_Index (index ''ix_idempotency_key_expires_at'' ''idempotency_key'' [''expires_at''] False),
      Create_Index (index ''ix_idempotency_key_scope'' ''idempotency_key'' [''scope''] False),
      Create_Index (index ''ix_idempotency_key_scope_request_fingerprint'' ''idempotency_key'' [''scope'', ''request_fingerprint''] False),
      Create_Index (index ''ix_idempotency_key_status'' ''idempotency_key'' [''status''] False),
      Create_Index (index ''ix_idempotency_key_status_locked_until'' ''idempotency_key'' [''status'', ''locked_until''] False)]"

definition downgrade_idempotency_key_table :: "schema_op list" where
  "downgrade_idempotency_key_table =
     [Drop_Index ''ix_idempotency_key_status_locked_until'' ''idempotency_key'',
      Drop_Index ''ix_idempotency_key_status'' ''idempotency_key'',
      Drop_Index ''ix_idempotency_key_scope_request_fingerprint'' ''idempotency_key'',
      Drop_Index ''ix_idempotency_key_scope'' ''idempotency_key'',
      Drop_Index ''ix_idempotency_key_expires_at'' ''idempotency_key'',
      Drop_Table ''idempotency_key'']"

definition revision_idempotency_key_table :: revision where
  "revision_idempotency_key_table =
     \<lparr> rv_id = ''6c15e4b5d0d2'', rv_down = Some ''f6edf4a3a0b1'', rv_upgrade = upgrade_idempotency_key_table, rv_downgrade = downgrade_idempotency_key_table \<rparr>"

definition upgrade_workflow_execution_table :: "schema_op list" where
  "upgrade_workflow_execution_table =
     [Create_Table ''workflow_execution''
         [column ''id'' (Integer_Column) False True,
          column ''workflow_name'' (String_Column (Some 150)) False False,
          column ''trigger_source'' (String_Column (Some 100)) False False,
          column ''workflow_version'' (String_Column (Some 50)) True False,
          column ''status'' (String_Column (Some 32)) False False,
          column ''trigger_reference'' (String_Column (Some 255)) True False,
          column ''run_key'' (String_Column (Some 255)) True False,
          column ''correlation_id'' (String_Column (Some 255)) True False,
          column ''current_step'' (String_Column (Some 150)) True False,
          column ''attempt_count'' (Integer_Column) False False,
          column ''max_attempts'' (Integer_Column) True False,
          column ''scheduled_at'' (DateTime_Column True) False False,
          column ''started_at'' (DateTime_Column True) True False,
          column ''completed_at'' (DateTime_Column True) True False,
          column ''last_transition_at'' (DateTime_Column True) False False,
          column ''input_payload'' (Json_Column) True False,
          column ''execution_context'' (Json_Column) True False,
          column ''output_payload'' (Json_Column) True False,
          column ''status_metadata'' (Json_Column) True False,
          column ''error_code'' (String_Column (Some 100)) True False,
          column ''error_detail'' (Text_Column) True False]
         [Primary_Key [''id'']],
      Create_Index (index ''ix_workflow_execution_correlation_id'' ''workflow_execution'' [''correlation_id''] False),
      Create_Index (index ''ix_workflow_execution_status'' ''workflow_execution'' [''status''] False),
      Create_Index (index ''ix_workflow_execution_status_last_transition_at'' ''workflow_execution'' [''status'', ''last_transition_at''] False),
      Create_Index (index ''ix_workflow_execution_status_scheduled_at'' ''workflow_execution'' [''status'', ''scheduled_at''] False),
      Create_Index (index ''ix_workflow_execution_trigger_source'' ''workflow_execution'' [''trigger_source''] False),
      Create_Index (index ''ix_workflow_execution_trigger_source_reference'' ''workflow_execution'' [''trigger_source'', ''trigger_reference''] False),
      Create_Index (index ''ix_workflow_execution_workflow_name'' ''workflow_execution'' [''workflow_name''] False),
      Create_Index (index ''ix_workflow_execution_workflow_name_run_key'' ''workflow_execution'' [''workflow_name'', ''run_key''] False)]"

definition downgrade_workflow_execution_table :: "schema_op list" where
  "downgrade_workflow_execution_table =
     [Drop_Index ''ix_workflow_execution_workflow_name_run_key'' ''workflow_execution'',
      Drop_Index ''ix_workflow_execution_workflow_name'' ''workflow_execution'',
      Drop_Index ''ix_workflow_execution_trigger_source_reference'' ''workflow_execution'',
      Drop_Index ''ix_workflow_execution_trigger_source'' ''workflow_execution'',
      Drop_Index ''ix_workflow_execution_status_scheduled_at'' ''workflow_execution'',
      Drop_Index ''ix_workflow_execution_status_last_transition_at'' ''workflow_execution'',
      Drop_Index ''ix_workflow_execution_status'' ''workflow_execution'',
      Drop_Index ''ix_workflow_execution_correlation_id'' ''workflow_execution'',
      Drop_Table ''workflow_execution'']"

definition revision_workflow_execution_table :: revision where
  "revision_workflow_execution_table =
     \<lparr> rv_id = ''44aeb0b1ef43'', rv_down = Some ''6c15e4b5d0d2'', rv_upgrade = upgrade_workflow_execution_table, rv_downgrade = downgrade_workflow_execution_table \<rparr>"

definition upgrade_job_state_history_table :: "schema_op list" where
  "upgrade_job_state_history_table =
     [Create_Table ''job_state_history''
         [column ''id'' (Integer_Column) False True,
          column ''job_name'' (String_Column (Some 150)) False False,
          column ''queue_name'' (String_Column (Some 100)) False False,
          column ''job_version'' (String_Column (Some 50)) True False,
          column ''queue_backend'' (String_Column (Some 50)) True False,
          column ''queue_job_id'' (String_Column (Some 255)) True False,
          column ''worker_name'' (String_Column (Some 150)) True False,
          column ''worker_version'' (String_Column (Some 50)) True False,
          column ''trigger_source'' (String_Column (Some 100)) True False,
          column ''trigger_reference'' (String_Column (Some 255)) True False,
          column ''run_key'' (String_Column (Some 255)) True False,
          column ''correlation_id'' (String_Column (Some 255)) True False,
          column ''status'' (String_Column (Some 32)) False False,
          column ''current_step'' (String_Column (Some 150)) True False,
          column ''attempt_count'' (Integer_Column) False False,
          column ''max_attempts'' (Integer_Column) True False,
          column ''scheduled_at'' (DateTime_Column True) False False,
          column ''queued_at'' (DateTime_Column True) True False,
          column ''started_at'' (DateTime_Column True) True False,
          column ''completed_at'' (DateTime_Column True) True False,
          column ''last_transition_at'' (DateTime_Column True) False False,
          column ''input_payload'' (Json_Column) True False,
          column ''execution_context'' (Json_Column) True False,
          column ''output_payload'' (Json_Column) True False,
          column ''status_metadata'' (Json_Column) True False,
          column ''error_code'' (String_Column (Some 100)) True False,
          column ''error_detail'' (Text_Column) True False]
         [Primary_Key [''id'']],
      Create_Index (index ''ix_job_state_history_correlation_id'' ''job_state_history'' [''correlation_id''] False),
      Create_Index (index ''ix_job_state_history_job_name'' ''job_state_history'' [''job_name''] False),
      Create_Index (index ''ix_job_state_history_job_name_run_key'' ''job_state_history'' [''job_name'', ''run_key''] False),
      Create_Index (index ''ix_job_state_history_last_transition_at'' ''job_state_history'' [''last_transition_at''] False),
      Create_Index (index ''ix_job_state_history_queue_name'' ''job_state_history'' [''queue_name''] False),
      Create_Index (index ''ix_job_state_history_queue_name_queue_job_id'' ''job_state_history'' [''queue_name'', ''queue_job_id''] False),
      Create_Index (index ''ix_job_state_history_status_last_transition_at'' ''job_state_history'' [''status'', ''last_transition_at''] False),
      Create_Index (index ''ix_job_state_history_status_scheduled_at'' ''job_state_history'' [''status'', ''scheduled_at''] False),
      Create_Index (index ''ix_job_state_history_status'' ''job_state_history'' [''status''] False),
      Create_Index (index ''ix_job_state_history_trigger_source'' ''job_state_history'' [''trigger_source''] False),
      Create_Index (index ''ix_job_state_history_trigger_source_reference'' ''job_state_history'' [''trigger_source'', ''trigger_reference''] False)]"

definition downgrade_job_state_history_table :: "schema_op list" where
  "downgrade_job_state_history_table =
     [Drop_Index ''ix_job_state_history_trigger_source_reference'' ''job_state_history'',
      Drop_Index ''ix_job_state_history_trigger_source'' ''job_state_history'',
      Drop_Index ''ix_job_state_history_status'' ''job_state_history'',
      Drop_Index ''ix_job_state_history_status_scheduled_at'' ''job_state_history'',
      Drop_Index ''ix_job_state_history_status_last_transition_at'' ''job_state_history'',
      Drop_Index ''ix_job_state_history_queue_name_queue_job_id'' ''job_state_history'',
      Drop_Index ''ix_job_state_history_queue_name'' ''job_state_history'',
      Drop_Index ''ix_job_state_history_last_transition_at'' ''job_state_history'',
      Drop_Index ''ix_job_state_history_job_name_run_key'' ''job_state_history'',
      Drop_Index ''ix_job_state_history_job_name'' ''job_state_history'',
      Drop_Index ''ix_job_state_history_correlation_id'' ''job_state_history'',
      Drop_Table ''job_state_history'']"

definition revision_job_state_history_table :: revision where
  "revision_job_state_history_table =
     \<lparr> rv_id = ''2208c3f7c9d8'', rv_down = Some ''44aeb0b1ef43'', rv_upgrade = upgrade_job_state_history_table, rv_downgrade = downgrade_job_state_history_table \<rparr>"

definition upgrade_sync_checkpoint_table :: "schema_op list" where
  "upgrade_sync_checkpoint_table =
     [Create_Table ''integration_sync_checkpoint''
         [column ''id'' (Integer_Column) False True,
          column ''integration_name'' (String_Column (Some 100)) False False,
          column ''sync_scope'' (String_Column (Some 150)) False False,
          column ''checkpoint_key'' (String_Column (Some 255)) False False,
          column ''status'' (String_Column (Some 32)) False False,
          column ''cursor_state'' (Json_Column) True False,
          column ''checkpoint_metadata'' (Json_Column) True False,
          column ''lease_owner'' (String_Column (Some 255)) True False,
          column ''lease_expires_at'' (DateTime_Column True) True False,
          column ''next_sync_after'' (DateTime_Column True) True False,
          column ''last_synced_at'' (DateTime_Column True) True False,
          column ''cursor_updated_at'' (DateTime_Column True) True False,
          column ''last_transition_at'' (DateTime_Column True) False False,
          column ''failure_count'' (Integer_Column) False False,
          column ''error_code'' (String_Column (Some 100)) True False,
          column ''error_detail'' (Text_Column) True False]
         [Primary_Key [''id''], Unique (Some ''uq_integration_sync_checkpoint_scope_key'') [''integration_name'', ''sync_scope'', ''checkpoint_key'']],
      Create_Index (index ''ix_integration_sync_checkpoint_integration_name'' ''integration_sync_checkpoint'' [''integration_name''] False),
      Create_Index (index ''ix_integration_sync_checkpoint_integration_name_sync_scope'' ''integration_sync_checkpoint'' [''integration_name'', ''sync_scope''] False),
      Create_Index (index ''ix_integration_sync_checkpoint_lease_expires_at'' ''integration_sync_checkpoint'' [''lease_expires_at''] False),
      Create_Index (index ''ix_integration_sync_checkpoint_status'' ''integration_sync_checkpoint'' [''status''] False),
      Create_Index (index ''ix_integration_sync_checkpoint_status_last_transition_at'' ''integration_sync_checkpoint'' [''status'', ''last_transition_at''] False),
      Create_Index (index ''ix_integration_sync_checkpoint_status_next_sync_after'' ''integration_sync_checkpoint'' [''status'', ''next_sync_after''] False),
      Create_Index (index ''ix_integration_sync_checkpoint_sync_scope'' ''integration_sync_checkpoint'' [''sync_scope''] False),
      Create_Index (index ''ix_integration_sync_checkpoint_sync_scope_last_synced_at'' ''integration_sync_checkpoint'' [''sync_scope'', ''last_synced_at''] False)]"

definition downgrade_sync_checkpoint_table :: "schema_op list" where
  "downgrade_sync_checkpoint_table =
     [Drop_Index ''ix_integration_sync_checkpoint_sync_scope_last_synced_at'' ''integration_sync_checkpoint'',
      Drop_Index ''ix_integration_sync_checkpoint_sync_scope'' ''integration_sync_checkpoint'',
      Drop_Index ''ix_integration_sync_checkpoint_status_last_transition_at'' ''integration_sync_checkpoint'',
      Drop_Index ''ix_integration_sync_checkpoint_status_next_sync_after'' ''integration_sync_checkpoint'',
      Drop_Index ''ix_integration_sync_checkpoint_status'' ''integration_sync_checkpoint'',
      Drop_Index ''ix_integration_sync_checkpoint_lease_expires_at'' ''integration_sync_checkpoint'',
      Drop_Index ''ix_integration_sync_checkpoint_integration_name_sync_scope'' ''integration_sync_checkpoint'',
      Drop_Index ''ix_integration_sync_checkpoint_integration_name'' ''integration_sync_checkpoint'',
      Drop_Table ''integration_sync_checkpoint'']"

definition revision_sync_checkpoint_table :: revision where
  "revision_sync_checkpoint_table =
     \<lparr> rv_id = ''2f6e0a91b8c4'', rv_down = Some ''2208c3f7c9d8'', rv_upgrade = upgrade_sync_checkpoint_table, rv_downgrade = downgrade_sync_checkpoint_table \<rparr>"

definition upgrade_audit_log_event_table :: "schema_op list" where
  "upgrade_audit_log_event_table =
     [Create_Table ''audit_log_event''
         [column ''id'' (Integer_Column) False True,
          column ''event_source'' (String_Column (Some 100)) False False,
          column ''event_type'' (String_Column (Some 150)) False False,
          column ''severity'' (String_Column (Some 16)) False False,
          column ''category'' (String_Column (Some 100)) True False,
          column ''status'' (String_Column (Some 32)) False False,
          column ''actor_type'' (String_Column (Some 100)) True False,
          column ''actor_reference'' (String_Column (Some 255)) True False,
          column ''subject_type'' (String_Column (Some 100)) True False,
          column ''subject_reference'' (String_Column (Some 255)) True False,
          column ''correlation_id'' (String_Column (Some 255)) True False,
          column ''request_id'' (String_Column (Some 255)) True False,
          column ''occurred_at'' (DateTime_Column True) False False,
          column ''recorded_at'' (DateTime_Column True) False False,
          column ''processed_at'' (DateTime_Column True) True False,
          column ''retention_expires_at'' (DateTime_Column True) True False,
          column ''event_payload'' (Json_Column) True False,
          column ''event_context'' (Json_Column) True False,
          column ''summary'' (Text_Column) True False,
          column ''outcome_code'' (String_Column (Some 100)) True False,
          column ''error_detail'' (Text_Column) True False]
         [Primary_Key [''id'']],
      Create_Index (index ''ix_audit_log_event_actor_type'' ''audit_log_event'' [''actor_type''] False),
      Create_Index (index ''ix_audit_log_event_actor_type_actor_reference'' ''audit_log_event'' [''actor_type'', ''actor_reference''] False),
      Create_Index (index ''ix_audit_log_event_category_occurred_at'' ''audit_log_event'' [''category'', ''occurred_at''] False),
      Create_Index (index ''ix_audit_log_event_category'' ''audit_log_event'' [''category''] False),
      Create_Index (index ''ix_audit_log_event_correlation_id'' ''audit_log_event'' [''correlation_id''] False),
      Create_Index (index ''ix_audit_log_event_event_source'' ''audit_log_event'' [''event_source''] False),
      Create_Index (index ''ix_audit_log_event_event_source_event_type'' ''audit_log_event'' [''event_source'', ''event_type''] False),
      Create_Index (index ''ix_audit_log_event_event_type'' ''audit_log_event'' [''event_type''] False),
      Create_Index (index ''ix_audit_log_event_retention_expires_at'' ''audit_log_event'' [''retention_expires_at''] False),
      Create_Index (index ''ix_audit_log_event_request_id'' ''audit_log_event'' [''request_id''] False),
      Create_Index (index ''ix_audit_log_event_severity'' ''audit_log_event'' [''severity''] False),
      Create_Index (index ''ix_audit_log_event_status_occurred_at'' ''audit_log_event'' [''status'', ''occurred_at''] False),
      Create_Index (index ''ix_audit_log_event_status'' ''audit_log_event'' [''status''] False),
      Create_Index (index ''ix_audit_log_event_subject_type'' ''audit_log_event'' [''subject_type''] False),
      Create_Index (index ''ix_audit_log_event_subject_type_subject_reference'' ''audit_log_event'' [''subject_type'', ''subject_reference''] False)]"

definition downgrade_audit_log_event_table :: "schema_op list" where
  "downgrade_audit_log_event_table =
     [Drop_Index ''ix_audit_log_event_subject_type_subject_reference'' ''audit_log_event'',
      Drop_Index ''ix_audit_log_event_subject_type'' ''audit_log_event'',
      Drop_Index ''ix_audit_log_event_status'' ''audit_log_event'',
      Drop_Index ''ix_audit_log_event_status_occurred_at'' ''audit_log_event'',
      Drop_Index ''ix_audit_log_event_severity'' ''audit_log_event'',
      Drop_Index ''ix_audit_log_event_request_id'' ''audit_log_event'',
      Drop_Index ''ix_audit_log_event_retention_expires_at'' ''audit_log_event'',
      Drop_Index ''ix_audit_log_event_event_type'' ''audit_log_event'',
      Drop_Index ''ix_audit_log_event_event_source_event_type'' ''audit_log_event'',
      Drop_Index ''ix_audit_log_event_event_source'' ''audit_log_event'',
      Drop_Index ''ix_audit_log_event_correlation_id'' ''audit_log_event'',
      Drop_Index ''ix_audit_log_event_category'' ''audit_log_event'',
      Drop_Index ''ix_audit_log_event_category_occurred_at'' ''audit_log_event'',
      Drop_Index ''ix_audit_log_event_actor_type_actor_reference'' ''audit_log_event'',
      Drop_Index ''ix_audit_log_event_actor_type'' ''audit_log_event'',
      Drop_Table ''audit_log_event'']"

definition revision_audit_log_event_table :: revision where
  "revision_audit_log_event_table =
     \<lparr> rv_id = ''9b4d52a6f1c3'', rv_down = Some ''2f6e0a91b8c4'', rv_upgrade = upgrade_audit_log_event_table, rv_downgrade = downgrade_audit_log_event_table \<rparr>"

definition upgrade_dead_letter_record_table :: "schema_op list" where
  "upgrade_dead_letter_record_table =
     [Create_Table ''dead_letter_record''
         [column ''id'' (Integer_Column) False True,
          column ''dead_letter_namespace'' (String_Column (Some 150)) False False,
          column ''dead_letter_key'' (String_Column (Some 255)) False False,
          column ''message_type'' (String_Column (Some 255)) False False,
          column ''status'' (String_Column (Some 32)) False False,
          column ''source_system'' (String_Column (Some 100)) True False,
          column ''source_reference'' (String_Column (Some 255)) True False,
          column ''correlation_id'' (String_Column (Some 255)) True False,
          column ''failure_category'' (String_Column (Some 100)) True False,
          column ''attempt_count'' (Integer_Column) False False,
          column ''first_seen_at'' (DateTime_Column True) False False,
          column ''last_seen_at'' (DateTime_Column True) False False,
          column ''dead_lettered_at'' (DateTime_Column True) True False,
          column ''next_retry_at'' (DateTime_Column True) True False,
          column ''resolved_at'' (DateTime_Column True) True False,
          column ''archived_at'' (DateTime_Column True) True False,
          column ''payload_snapshot'' (Json_Column) True False,
          column ''failure_context'' (Json_Column) True False,
          column ''error_code'' (String_Column (Some 100)) True False,
          column ''error_detail'' (Text_Column) True False]
         [Primary_Key [''id''], Unique (Some ''uq_dead_letter_record_namespace_key'') [''dead_letter_namespace'', ''dead_letter_key'']],
      Create_Index (index ''ix_dead_letter_record_correlation_id'' ''dead_letter_record'' [''correlation_id''] False),
      Create_Index (index ''ix_dead_letter_record_dead_letter_namespace'' ''dead_letter_record'' [''dead_letter_namespace''] False),
      Create_Index (index ''ix_dead_letter_record_dead_letter_namespace_message_type'' ''dead_letter_record'' [''dead_letter_namespace'', ''message_type''] False),
      Create_Index (index ''ix_dead_letter_record_message_type'' ''dead_letter_record'' [''message_type''] False),
      Create_Index (index ''ix_dead_letter_record_dead_lettered_at'' ''dead_letter_record'' [''dead_lettered_at''] False),
      Create_Index (index ''ix_dead_letter_record_failure_category_dead_lettered_at'' ''dead_letter_record'' [''failure_category'', ''dead_lettered_at''] False),
      Create_Index (index ''ix_dead_letter_record_source_system'' ''dead_letter_record'' [''source_system''] False),
      Create_Index (index ''ix_dead_letter_record_source_system_source_reference'' ''dead_letter_record'' [''source_system'', ''source_reference''] False),
      Create_Index (index ''ix_dead_letter_record_status_next_retry_at'' ''dead_letter_record'' [''status'', ''next_retry_at''] False),
      Create_Index (index ''ix_dead_letter_record_status'' ''dead_letter_record'' [''status''] False)]"

definition downgrade_dead_letter_record_table :: "schema_op list" where
  "downgrade_dead_letter_record_table =
     [Drop_Index ''ix_dead_letter_record_status'' ''dead_letter_record'',
      Drop_Index ''ix_dead_letter_record_status_next_retry_at'' ''dead_letter_record'',
      Drop_Index ''ix_dead_letter_record_source_system_source_reference'' ''dead_letter_record'',
      Drop_Index ''ix_dead_letter_record_source_system'' ''dead_letter_record'',
      Drop_Index ''ix_dead_letter_record_failure_category_dead_lettered_at'' ''dead_letter_record'',
      Drop_Index ''ix_dead_letter_record_dead_lettered_at'' ''dead_letter_record'',
      Drop_Index ''ix_dead_letter_record_message_type'' ''dead_letter_record'',
      Drop_Index ''ix_dead_letter_record_dead_letter_namespace_message_type'' ''dead_letter_record'',
      Drop_Index ''ix_dead_letter_record_dead_letter_namespace'' ''dead_letter_record'',
      Drop_Index ''ix_dead_letter_record_correlation_id'' ''dead_letter_record'',
      Drop_Table ''dead_letter_record'']"

definition revision_dead_letter_record_table :: revision where
  "revision_dead_letter_record_table =
     \<lparr> rv_id = ''87d2f4f1d4c7'', rv_down = Some ''9b4d52a6f1c3'', rv_upgrade = upgrade_dead_letter_record_table, rv_downgrade = downgrade_dead_letter_record_table \<rparr>"

text \<open>The directory, in the order of its file names.\<close>

definition revisions :: "revision list" where
  "revisions =
     [revision_job_state_history_table,
      revision_sync_checkpoint_table,
      revision_workflow_execution_table,
      revision_idempotency_key_table,
      revision_dead_letter_record_table,
      revision_audit_log_event_table,
      revision_core_tables,
      revision_webhook_event_table]"

end
