(* ===== verification/Orm_Models.thy ===== *)
theory Orm_Models
  imports Schema
begin

text \<open>
  The tables as the ORM models of models/ and core/db/ declare them: every mapped column with its
  annotation and its arguments, and the table arguments.  Defaults of the constructor are left
  out, as they are not part of the table.
\<close>

definition Tier_model :: orm_model where
  "Tier_model =
     \<lparr> md_table = ''tier'',
       md_uniques = [],
       md_indexes =
         [],
       md_columns =
         [(mapped ''id'' Py_Int False (None))\<lparr> mp_primary_key := True, mp_autoincrement := True \<rparr>,
          (mapped ''name'' Py_Str False (Some (String_Column None)))\<lparr> mp_unique := True \<rparr>,
          mapped ''created_at'' Py_Datetime False (Some (DateTime_Column True)),
          mapped ''updated_at'' Py_Datetime True (Some (DateTime_Column True))] \<rparr>"

definition TokenBlacklist_model :: orm_model where
  "TokenBlacklist_model =
     \<lparr> md_table = ''token_blacklist'',
       md_uniques = [],
       md_indexes =
         [],
       md_columns =
         [(mapped ''id'' Py_Int False (None))\<lparr> mp_primary_key := True, mp_autoincrement := True \<rparr>,
          (mapped ''token'' Py_Str False (Some (String_Column None)))\<lparr> mp_unique := True, mp_index := True \<rparr>,
          mapped ''expires_at'' Py_Datetime False (Some (DateTime_Column False))] \<rparr>"

definition RateLimit_model :: orm_model where
  "RateLimit_model =
     \<lparr> md_table = ''rate_limit'',
       md_uniques = [],
       md_indexes =
         [],
       md_columns =
         [(mapped ''id'' Py_Int False (None))\<lparr> mp_primary_key := True, mp_autoincrement := True \<rparr>,
          (mapped ''tier_id'' Py_Int False (None))\<lparr> mp_index := True, mp_references := Some (''tier'', ''id'') \<rparr>,
          (mapped ''name'' Py_Str False (Some (String_Column None)))\<lparr> mp_unique := True \<rparr>,
          mapped ''path'' Py_Str False (Some (String_Column None)),
          mapped ''limit'' Py_Int False (Some Integer_Column),
          mapped ''period'' Py_Int False (Some Integer_Column),
          mapped ''created_at'' Py_Datetime False (Some (DateTime_Column True)),
          mapped ''updated_at'' Py_Datetime True (Some (DateTime_Column True))] \<rparr>"

definition User_model :: orm_model where
  "User_model =
     \<lparr> md_table = ''user'',
       md_uniques = [],
       md_indexes =
         [],
       md_columns =
         [(mapped ''id'' Py_Int False (None))\<lparr> mp_primary_key := True, mp_autoincrement := True \<rparr>,
          mapped ''name'' Py_Str False (Some (String_Column (Some 30))),
          (mapped ''username'' Py_Str False (Some (String_Column (Some 20))))\<lparr> mp_unique := True, mp_index := True \<rparr>,
          (mapped ''email'' Py_Str False (Some (String_Column (Some 50))))\<lparr> mp_unique := True, mp_index := True \<rparr>,
          mapped ''hashed_password'' Py_Str False (Some (String_Column None)),
          mapped ''profile_image_url'' Py_Str False (Some (String_Column None)),
          (mapped ''uuid'' Py_Uuid False (Some Uuid_Column))\<lparr> mp_unique := True \<rparr>,
          mapped ''created_at'' Py_Datetime False (Some (DateTime_Column True)),
          mapped ''updated_at'' Py_Datetime True (Some (DateTime_Column True)),
          mapped ''deleted_at'' Py_Datetime True (Some (DateTime_Column True)),
          (mapped ''is_deleted'' Py_Bool False (None))\<lparr> mp_index := True \<rparr>,
          mapped ''is_superuser'' Py_Bool False (None),
          (mapped ''tier_id'' Py_Int True (None))\<lparr> mp_index := True, mp_references := Some (''tier'', ''id'') \<rparr>] \<rparr>"

definition Post_model :: orm_model where
  "Post_model =
     \<lparr> md_table = ''post'',
       md_uniques = [],
       md_indexes =
         [],
       md_columns =
         [(mapped ''id'' Py_Int False (None))\<lparr> mp_primary_key := True, mp_autoincrement := True \<rparr>,
          (mapped ''created_by_user_id'' Py_Int False (None))\<lparr> mp_index := True, mp_references := Some (''user'', ''id'') \<rparr>,
          mapped ''title'' Py_Str False (Some (String_Column (Some 30))),
          mapped ''text'' Py_Str False (Some (String_Column (Some 63206))),
          (mapped ''uuid'' Py_Uuid False (Some Uuid_Column))\<lparr> mp_unique := True \<rparr>,
          mapped ''media_url'' Py_Str True (Some (String_Column None)),
          mapped ''created_at'' Py_Datetime False (Some (DateTime_Column True)),
          mapped ''updated_at'' Py_Datetime True (Some (DateTime_Column True)),
          mapped ''deleted_at'' Py_Datetime True (Some (DateTime_Column True)),
          (mapped ''is_deleted'' Py_Bool False (None))\<lparr> mp_index := True \<rparr>] \<rparr>"

definition WebhookEvent_model :: orm_model where
  "WebhookEvent_model =
     \<lparr> md_table = ''webhook_event'',
       md_uniques = [],
       md_indexes =
         [(''ix_webhook_event_source_delivery_id'', [''source'', ''delivery_id'']),
          (''ix_webhook_event_source_event_id'', [''source'', ''event_id'']),
          (''ix_webhook_event_status_received_at'', [''status'', ''received_at''])],
       md_columns =
         [(mapped ''id'' Py_Int False (Some Integer_Column))\<lparr> mp_primary_key := True, mp_autoincrement := True \<rparr>,
          (mapped ''source'' Py_Str False (Some (String_Column (Some 100))))\<lparr> mp_index := True \<rparr>,
          (mapped ''endpoint_key'' Py_Str False (Some (String_Column (Some 100))))\<lparr> mp_index := True \<rparr>,
          (mapped ''event_type'' Py_Str False (Some (String_Column (Some 255))))\<lparr> mp_index := True \<rparr>,
          (mapped ''status'' Py_Str False (Some (String_Column (Some 32))))\<lparr> mp_index := True \<rparr>,
          mapped ''delivery_id'' Py_Str True (Some (String_Column (Some 255))),
          mapped ''event_id'' Py_Str True (Some (String_Column (Some 255))),
          mapped ''signature_verified'' Py_Bool True (Some Boolean_Column),
          mapped ''payload_content_type'' Py_Str True (Some (String_Column (Some 255))),
          (mapped ''payload_sha256'' Py_Str True (Some (String_Column (Some 64))))\<lparr> mp_index := True \<rparr>,
          mapped ''payload_size_bytes'' Py_Int True (Some Integer_Column),
          mapped ''received_at'' Py_Datetime False (Some (DateTime_Column True)),
          mapped ''acknowledged_at'' Py_Datetime True (Some (DateTime_Column True)),
          mapped ''processed_at'' Py_Datetime True (Some (DateTime_Column True)),
          mapped ''raw_payload'' Py_Str True (Some Text_Column),
          mapped ''normalized_payload'' Py_Dict True (Some Json_Column),
          mapped ''processing_metadata'' Py_Dict True (Some Json_Column),
          mapped ''processing_error'' Py_Str True (Some Text_Column)] \<rparr>"

definition IdempotencyKey_model :: orm_model where
  "IdempotencyKey_model =
     \<lparr> md_table = ''idempotency_key'',
       md_uniques = [(''uq_idempotency_key_scope_key'', [''scope'', ''key''])],
       md_indexes =
         [(''ix_idempotency_key_scope_request_fingerprint'', [''scope'', ''request_fingerprint'']),
          (''ix_idempotency_key_status_locked_until'', [''status'', ''locked_until''])],
       md_columns =
         [(mapped ''id'' Py_Int False (Some Integer_Column))\<lparr> mp_primary_key := True, mp_autoincrement := True \<rparr>,
          (mapped ''scope'' Py_Str False (Some (String_Column (Some 100))))\<lparr> mp_index := True \<rparr>,
          mapped ''key'' Py_Str False (Some (String_Column (Some 255))),
          (mapped ''status'' Py_Str False (Some (String_Column (Some 32))))\<lparr> mp_index := True \<rparr>,
          mapped ''request_fingerprint'' Py_Str True (Some (String_Column (Some 64))),
          mapped ''recovery_point'' Py_Str True (Some (String_Column (Some 100))),
          mapped ''locked_until'' Py_Datetime True (Some (DateTime_Column True)),
          (mapped ''expires_at'' Py_Datetime True (Some (DateTime_Column True)))\<lparr> mp_index := True \<rparr>,
          mapped ''first_seen_at'' Py_Datetime False (Some (DateTime_Column True)),
          mapped ''last_seen_at'' Py_Datetime False (Some (DateTime_Column True)),
          mapped ''hit_count'' Py_Int False (Some Integer_Column),
          mapped ''completed_at'' Py_Datetime True (Some (DateTime_Column True)),
          mapped ''processing_metadata'' Py_Dict True (Some Json_Column),
          mapped ''error_code'' Py_Str True (Some (String_Column (Some 100))),
          mapped ''error_detail'' Py_Str True (Some Text_Column)] \<rparr>"

definition WorkflowExecution_model :: orm_model where
  "WorkflowExecution_model =
     \<lparr> md_table = ''workflow_execution'',
       md_uniques = [],
       md_indexes =
         [(''ix_workflow_execution_status_last_transition_at'', [''status'', ''last_transition_at'']),
          (''ix_workflow_execution_status_scheduled_at'', [''status'', ''scheduled_at'']),
          (''ix_workflow_execution_trigger_source_reference'', [''trigger_source'', ''trigger_reference'']),
          (''ix_workflow_execution_workflow_name_run_key'', [''workflow_name'', ''run_key''])],
       md_columns =
         [(mapped ''id'' Py_Int False (Some Integer_Column))\<lparr> mp_primary_key := True, mp_autoincrement := True \<rparr>,
          (mapped ''workflow_name'' Py_Str False (Some (String_Column (Some 150))))\<lparr> mp_index := True \<rparr>,
          (mapped ''trigger_source'' Py_Str False (Some (String_Column (Some 100))))\<lparr> mp_index := True \<rparr>,
          mapped ''workflow_version'' Py_Str True (Some (String_Column (Some 50))),
          (mapped ''status'' Py_Str False (Some (String_Column (Some 32))))\<lparr> mp_index := True \<rparr>,
          mapped ''trigger_reference'' Py_Str True (Some (String_Column (Some 255))),
          mapped ''run_key'' Py_Str True (Some (String_Column (Some 255))),
          (mapped ''correlation_id'' Py_Str True (Some (String_Column (Some 255))))\<lparr> mp_index := True \<rparr>,
          mapped ''current_step'' Py_Str True (Some (String_Column (Some 150))),
          mapped ''attempt_count'' Py_Int False (Some Integer_Column),
          mapped ''max_attempts'' Py_Int True (Some Integer_Column),
          mapped ''scheduled_at'' Py_Datetime False (Some (DateTime_Column True)),
          mapped ''started_at'' Py_Datetime True (Some (DateTime_Column True)),
          mapped ''completed_at'' Py_Datetime True (Some (DateTime_Column True)),
          mapped ''last_transition_at'' Py_Datetime False (Some (DateTime_Column True)),
          mapped ''input_payload'' Py_Dict True (Some Json_Column),
          mapped ''execution_context'' Py_Dict True (Some Json_Column),
          mapped ''output_payload'' Py_Dict True (Some Json_Column),
          mapped ''status_metadata'' Py_Dict True (Some Json_Column),
          mapped ''error_code'' Py_Str True (Some (String_Column (Some 100))),
          mapped ''error_detail'' Py_Str True (Some Text_Column)] \<rparr>"

definition JobStateHistory_model :: orm_model where
  "JobStateHistory_model =
     \<lparr> md_table = ''job_state_history'',
       md_uniques = [],
       md_indexes =
         [(''ix_job_state_history_correlation_id'', [''correlation_id'']),
          (''ix_job_state_history_job_name'', [''job_name'']),
          (''ix_job_state_history_job_name_run_key'', [''job_name'', ''run_key'']),
          (''ix_job_state_history_last_transition_at'', [''last_transition_at'']),
          (''ix_job_state_history_queue_name'', [''queue_name'']),
          (''ix_job_state_history_queue_name_queue_job_id'', [''queue_name'', ''queue_job_id'']),
          (''ix_job_state_history_status_last_transition_at'', [''status'', ''last_transition_at'']),
          (''ix_job_state_history_status_scheduled_at'', [''status'', ''scheduled_at'']),
          (''ix_job_state_history_trigger_source'', [''trigger_source'']),
          (''ix_job_state_history_trigger_source_reference'', [''trigger_source'', ''trigger_reference''])],
       md_columns =
         [(mapped ''id'' Py_Int False (Some Integer_Column))\<lparr> mp_primary_key := True, mp_autoincrement := True \<rparr>,
          mapped ''job_name'' Py_Str False (Some (String_Column (Some 150))),
          mapped ''queue_name'' Py_Str False (Some (String_Column (Some 100))),
          mapped ''job_version'' Py_Str True (Some (String_Column (Some 50))),
          mapped ''queue_backend'' Py_Str True (Some (String_Column (Some 50))),
          mapped ''queue_job_id'' Py_Str True (Some (String_Column (Some 255))),
          mapped ''worker_name'' Py_Str True (Some (String_Column (Some 150))),
          mapped ''worker_version'' Py_Str True (Some (String_Column (Some 50))),
          mapped ''trigger_source'' Py_Str True (Some (String_Column (Some 100))),
          mapped ''trigger_reference'' Py_Str True (Some (String_Column (Some 255))),
          mapped ''run_key'' Py_Str True (Some (String_Column (Some 255))),
          mapped ''correlation_id'' Py_Str True (Some (String_Column (Some 255))),
          (mapped ''status'' Py_Str False (Some (String_Column (Some 32))))\<lparr> mp_index := True \<rparr>,
          mapped ''current_step'' Py_Str True (Some (String_Column (Some 150))),
          mapped ''attempt_count'' Py_Int False (Some Integer_Column),
          mapped ''max_attempts'' Py_Int True (Some Integer_Column),
          mapped ''scheduled_at'' Py_Datetime False (Some (DateTime_Column True)),
          mapped ''queued_at'' Py_Datetime True (Some (DateTime_Column True)),
          mapped ''started_at'' Py_Datetime True (Some (DateTime_Column True)),
          mapped ''completed_at'' Py_Datetime True (Some (DateTime_Column True)),
          mapped ''last_transition_at'' Py_Datetime False (Some (DateTime_Column True)),
          mapped ''input_payload'' Py_Dict True (Some Json_Column),
          mapped ''execution_context'' Py_Dict True (Some Json_Column),
          mapped ''output_payload'' Py_Dict True (Some Json_Column),
          mapped ''status_metadata'' Py_Dict True (Some Json_Column),
          mapped ''error_code'' Py_Str True (Some (String_Column (Some 100))),
          mapped ''error_detail'' Py_Str True (Some Text_Column)] \<rparr>"

definition IntegrationSyncCheckpoint_model :: orm_model where
  "IntegrationSyncCheckpoint_model =
     \<lparr> md_table = ''integration_sync_checkpoint'',
       md_uniques = [(''uq_integration_sync_checkpoint_scope_key'', [''integration_name'', ''sync_scope'', ''checkpoint_key''])],
       md_indexes =
         [(''ix_integration_sync_checkpoint_integration_name_sync_scope'', [''integration_name'', ''sync_scope'']),
          (''ix_integration_sync_checkpoint_status_next_sync_after'', [''status'', ''next_sync_after'']),
          (''ix_integration_sync_checkpoint_status_last_transition_at'', [''status'', ''last_transition_at'']),
          (''ix_integration_sync_checkpoint_sync_scope_last_synced_at'', [''sync_scope'', ''last_synced_at'']),
          (''ix_integration_sync_checkpoint_lease_expires_at'', [''lease_expires_at''])],
       md_columns =
         [(mapped ''id'' Py_Int False (Some Integer_Column))\<lparr> mp_primary_key := True, mp_autoincrement := True \<rparr>,
          (mapped ''integration_name'' Py_Str False (Some (String_Column (Some 100))))\<lparr> mp_index := True \<rparr>,
          (mapped ''sync_scope'' Py_Str False (Some (String_Column (Some 150))))\<lparr> mp_index := True \<rparr>,
          mapped ''checkpoint_key'' Py_Str False (Some (String_Column (Some 255))),
          (mapped ''status'' Py_Str False (Some (String_Column (Some 32))))\<lparr> mp_index := True \<rparr>,
          mapped ''cursor_state'' Py_Dict True (Some Json_Column),
          mapped ''checkpoint_metadata'' Py_Dict True (Some Json_Column),
          mapped ''lease_owner'' Py_Str True (Some (String_Column (Some 255))),
          mapped ''lease_expires_at'' Py_Datetime True (Some (DateTime_Column True)),
          mapped ''next_sync_after'' Py_Datetime True (Some (DateTime_Column True)),
          mapped ''last_synced_at'' Py_Datetime True (Some (DateTime_Column True)),
          mapped ''cursor_updated_at'' Py_Datetime True (Some (DateTime_Column True)),
          mapped ''last_transition_at'' Py_Datetime False (Some (DateTime_Column True)),
          mapped ''failure_count'' Py_Int False (Some Integer_Column),
          mapped ''error_code'' Py_Str True (Some (String_Column (Some 100))),
          mapped ''error_detail'' Py_Str True (Some Text_Column)] \<rparr>"

definition AuditLogEvent_model :: orm_model where
  "AuditLogEvent_model =
     \<lparr> md_table = ''audit_log_event'',
       md_uniques = [],
       md_indexes =
         [(''ix_audit_log_event_actor_type_actor_reference'', [''actor_type'', ''actor_reference'']),
          (''ix_audit_log_event_category_occurred_at'', [''category'', ''occurred_at'']),
          (''ix_audit_log_event_correlation_id'', [''correlation_id'']),
          (''ix_audit_log_event_event_source_event_type'', [''event_source'', ''event_type'']),
          (''ix_audit_log_event_retention_expires_at'', [''retention_expires_at'']),
          (''ix_audit_log_event_status_occurred_at'', [''status'', ''occurred_at'']),
          (''ix_audit_log_event_subject_type_subject_reference'', [''subject_type'', ''subject_reference''])],
       md_columns =
         [(mapped ''id'' Py_Int False (Some Integer_Column))\<lparr> mp_primary_key := True, mp_autoincrement := True \<rparr>,
          (mapped ''event_source'' Py_Str False (Some (String_Column (Some 100))))\<lparr> mp_index := True \<rparr>,
          (mapped ''event_type'' Py_Str False (Some (String_Column (Some 150))))\<lparr> mp_index := True \<rparr>,
          (mapped ''severity'' Py_Str False (Some (String_Column (Some 16))))\<lparr> mp_index := True \<rparr>,
          (mapped ''category'' Py_Str True (Some (String_Column (Some 100))))\<lparr> mp_index := True \<rparr>,
          (mapped ''status'' Py_Str False (Some (String_Column (Some 32))))\<lparr> mp_index := True \<rparr>,
          (mapped ''actor_type'' Py_Str True (Some (String_Column (Some 100))))\<lparr> mp_index := True \<rparr>,
          mapped ''actor_reference'' Py_Str True (Some (String_Column (Some 255))),
          (mapped ''subject_type'' Py_Str True (Some (String_Column (Some 100))))\<lparr> mp_index := True \<rparr>,
          mapped ''subject_reference'' Py_Str True (Some (String_Column (Some 255))),
          (mapped ''correlation_id'' Py_Str True (Some (String_Column (Some 255))))\<lparr> mp_index := True \<rparr>,
          (mapped ''request_id'' Py_Str True (Some (String_Column (Some 255))))\<lparr> mp_index := True \<rparr>,
          mapped ''occurred_at'' Py_Datetime False (Some (DateTime_Column True)),
          mapped ''recorded_at'' Py_Datetime False (Some (DateTime_Column True)),
          mapped ''processed_at'' Py_Datetime True (Some (DateTime_Column True)),
          mapped ''retention_expires_at'' Py_Datetime True (Some (DateTime_Column True)),
          mapped ''event_payload'' Py_Dict True (Some Json_Column),
          mapped ''event_context'' Py_Dict True (Some Json_Column),
          mapped ''summary'' Py_Str True (Some Text_Column),
          mapped ''outcome_code'' Py_Str True (Some (String_Column (Some 100))),
          mapped ''error_detail'' Py_Str True (Some Text_Column)] \<rparr>"

definition DeadLetterRecord_model :: orm_model where
  "DeadLetterRecord_model =
     \<lparr> md_table = ''dead_letter_record'',
       md_uniques = [(''uq_dead_letter_record_namespace_key'', [''dead_letter_namespace'', ''dead_letter_key''])],
       md_indexes =
         [(''ix_dead_letter_record_correlation_id'', [''correlation_id'']),
          (''ix_dead_letter_record_dead_letter_namespace'', [''dead_letter_namespace'']),
          (''ix_dead_letter_record_dead_letter_namespace_message_type'', [''dead_letter_namespace'', ''message_type'']),
          (''ix_dead_letter_record_dead_lettered_at'', [''dead_lettered_at'']),
          (''ix_dead_letter_record_failure_category_dead_lettered_at'', [''failure_category'', ''dead_lettered_at'']),
          (''ix_dead_letter_record_source_system_source_reference'', [''source_system'', ''source_reference'']),
          (''ix_dead_letter_record_status_next_retry_at'', [''status'', ''next_retry_at'']),
          (''ix_dead_letter_record_status'', [''status''])],
       md_columns =
         [(mapped ''id'' Py_Int False (Some Integer_Column))\<lparr> mp_primary_key := True, mp_autoincrement := True \<rparr>,
          (mapped ''dead_letter_namespace'' Py_Str False (Some (String_Column (Some 150))))\<lparr> mp_index := True \<rparr>,
          mapped ''dead_letter_key'' Py_Str False (Some (String_Column (Some 255))),
          (mapped ''message_type'' Py_Str False (Some (String_Column (Some 255))))\<lparr> mp_index := True \<rparr>,
          (mapped ''status'' Py_Str False (Some (String_Column (Some 32))))\<lparr> mp_index := True \<rparr>,
          (mapped ''source_system'' Py_Str True (Some (String_Column (Some 100))))\<lparr> mp_index := True \<rparr>,
          mapped ''source_reference'' Py_Str True (Some (String_Column (Some 255))),
          mapped ''correlation_id'' Py_Str True (Some (String_Column (Some 255))),
          mapped ''failure_category'' Py_Str True (Some (String_Column (Some 100))),
          mapped ''attempt_count'' Py_Int False (Some Integer_Column),
          mapped ''first_seen_at'' Py_Datetime False (Some (DateTime_Column True)),
          mapped ''last_seen_at'' Py_Datetime False (Some (DateTime_Column True)),
          mapped ''dead_lettered_at'' Py_Datetime True (Some (DateTime_Column True)),
          mapped ''next_retry_at'' Py_Datetime True (Some (DateTime_Column True)),
          mapped ''resolved_at'' Py_Datetime True (Some (DateTime_Column True)),
          mapped ''archived_at'' Py_Datetime True (Some (DateTime_Column True)),
          mapped ''payload_snapshot'' Py_Dict True (Some Json_Column),
          mapped ''failure_context'' Py_Dict True (Some Json_Column),
          mapped ''error_code'' Py_Str True (Some (String_Column (Some 100))),
          mapped ''error_detail'' Py_Str True (Some Text_Column)] \<rparr>"

definition orm_models :: "orm_model list" where
  "orm_models =
     [Tier_model,
      TokenBlacklist_model,
      RateLimit_model,
      User_model,
      Post_model,
      WebhookEvent_model,
      IdempotencyKey_model,
      WorkflowExecution_model,
      JobStateHistory_model,
      IntegrationSyncCheckpoint_model,
      AuditLogEvent_model,
      DeadLetterRecord_model]"

end
