(* ===== verification/Schema_Theorems.thy ===== *)
theory Schema_Theorems
  imports Migrations Orm_Models "HOL-Library.Sublist"
begin

text \<open>
  The schema that the migrations build: it is the one that the models declare, and every downgrade
  undoes its upgrade.
\<close>

section \<open>Well-formed schemas\<close>

definition wf_schema :: "schema \<Rightarrow> bool" where
  "wf_schema s \<longleftrightarrow>
     distinct (table_names s) \<and> distinct (map ix_name (db_indexes s)) \<and>
     (\<forall>i \<in> set (db_indexes s). ix_table i \<in> set (table_names s)) \<and>
     (\<forall>(t, cols, cons) \<in> set (db_tables s). set (targets cons) \<subseteq> set (table_names s))"

lemma wf_empty: "wf_schema empty_schema"
  by (simp add: wf_schema_def empty_schema_def table_names_def)

lemma wf_apply_op:
  assumes wf: "wf_schema s" and op: "apply_op x s = Some s'"
  shows "wf_schema s'"
proof (cases x)
  case (Create_Index i)
  have "s' = s\<lparr> db_indexes := db_indexes s @ [i] \<rparr>" "ix_name i \<notin> ix_name ` set (db_indexes s)"
    and "map_of (db_tables s) (ix_table i) \<noteq> None"
    using op Create_Index by (auto split: if_splits option.splits prod.splits)
  then show ?thesis using wf by (auto simp: wf_schema_def table_names_def map_of_eq_None_iff)
next
  case (Drop_Table t)
  have s': "s' = s\<lparr> db_tables := filter (\<lambda>d. fst d \<noteq> t) (db_tables s), db_indexes := filter (\<lambda>i. ix_table i \<noteq> t) (db_indexes s) \<rparr>"
    and free: "\<And>u cols cons. (u, cols, cons) \<in> set (db_tables s) \<Longrightarrow> u \<noteq> t \<Longrightarrow> t \<notin> set (targets cons)"
    using op Drop_Table by (auto simp: list_ex_iff split: if_splits)
  have "fst ` {d \<in> set (db_tables s). fst d \<noteq> t} = set (table_names s) - {t}" by (auto simp: table_names_def)
  then show ?thesis using wf free by (fastforce simp: s' wf_schema_def table_names_def distinct_map_filter)
next
  case (Create_Table t cols cons)
  have "s' = s\<lparr> db_tables := db_tables s @ [(t, cols, cons)] \<rparr>" "t \<notin> set (table_names s)"
    and "set (targets cons) \<subseteq> set (table_names s)"
    using op Create_Table by (auto split: if_splits)
  then show ?thesis using wf by (auto simp: wf_schema_def table_names_def intro: subset_trans)
next
  case (Drop_Index n t)
  have "s' = s\<lparr> db_indexes := filter (\<lambda>i. ix_name i \<noteq> n) (db_indexes s) \<rparr>"
    using op Drop_Index by (auto split: if_splits)
  then show ?thesis using wf by (simp add: wf_schema_def table_names_def distinct_map_filter)
qed

lemma wf_apply_ops: "wf_schema s \<Longrightarrow> apply_ops xs s = Some s' \<Longrightarrow> wf_schema s'"
  by (induction xs arbitrary: s) (auto simp: Option.bind_eq_Some_conv dest: wf_apply_op)

lemma apply_ops_append: "apply_ops (xs @ ys) s = Option.bind (apply_ops xs s) (apply_ops ys)"
  by (induction xs arbitrary: s) (auto split: Option.bind_split)

section \<open>One table with its indexes\<close>

definition creates :: "string \<Rightarrow> column list \<Rightarrow> table_constraint list \<Rightarrow> table_index list \<Rightarrow> schema_op list" where
  "creates t cols cons ixs = Create_Table t cols cons # map Create_Index ixs"

definition drops :: "string \<Rightarrow> string list \<Rightarrow> schema_op list" where
  "drops t names = map (\<lambda>n. Drop_Index n t) names @ [Drop_Table t]"

lemma create_indexes:
  "apply_ops (map Create_Index ixs) s = Some s' \<Longrightarrow>
    s' = s\<lparr> db_indexes := db_indexes s @ ixs \<rparr> \<and> distinct (map ix_name ixs)
    \<and> ix_name ` set ixs \<inter> ix_name ` set (db_indexes s) = {}"
  by (induction ixs arbitrary: s) (fastforce simp: Option.bind_eq_Some_conv split: if_splits option.splits prod.splits)+

lemma drop_indexes:
  "distinct names \<Longrightarrow> set names \<subseteq> ix_name ` set (db_indexes s) \<Longrightarrow>
    apply_ops (map (\<lambda>n. Drop_Index n t) names) s = Some (s\<lparr> db_indexes := filter (\<lambda>i. ix_name i \<notin> set names) (db_indexes s) \<rparr>)"
proof (induction names arbitrary: s)
  case (Cons n names)
  let ?s = "s\<lparr> db_indexes := filter (\<lambda>i. ix_name i \<noteq> n) (db_indexes s) \<rparr>"
  have "set names \<subseteq> ix_name ` set (db_indexes ?s)"
  proof
    fix x assume "x \<in> set names"
    moreover have "x \<noteq> n" using \<open>x \<in> set names\<close> Cons.prems(1) by auto
    ultimately obtain i where "i \<in> set (db_indexes s)" "x = ix_name i" "x \<noteq> n" using Cons.prems(2) by fastforce
    then show "x \<in> ix_name ` set (db_indexes ?s)" by auto
  qed
  then have "apply_ops (map (\<lambda>n. Drop_Index n t) names) ?s =
      Some (?s\<lparr> db_indexes := filter (\<lambda>i. ix_name i \<notin> set names) (db_indexes ?s) \<rparr>)"
    using Cons by simp
  then show ?case using Cons.prems by (simp add: conj_commute)
qed simp

definition reversible :: "schema_op list \<Rightarrow> schema_op list \<Rightarrow> bool" where
  "reversible ups downs \<longleftrightarrow>
     (\<forall>s s'. wf_schema s \<longrightarrow> apply_ops ups s = Some s' \<longrightarrow> apply_ops downs s' = Some s)"

lemma reversible_append:
  assumes "reversible u d" "reversible v e"
  shows "reversible (u @ v) (e @ d)"
  unfolding reversible_def
proof (intro allI impI)
  fix s s'' assume wf: "wf_schema s" and "apply_ops (u @ v) s = Some s''"
  then obtain s' where u: "apply_ops u s = Some s'" and v: "apply_ops v s' = Some s''"
    by (auto simp: apply_ops_append Option.bind_eq_Some_conv)
  have "apply_ops e s'' = Some s'" using assms(2) v wf_apply_ops [OF wf u] by (simp add: reversible_def)
  moreover have "apply_ops d s' = Some s" using assms(1) wf u by (simp add: reversible_def)
  ultimately show "apply_ops (e @ d) s'' = Some s" by (simp add: apply_ops_append)
qed

lemma reversible_empty: "reversible [] []"
  by (simp add: reversible_def)

lemma reversible_table:
  assumes "list_all (\<lambda>i. ix_table i = t) ixs" "set names = ix_name ` set ixs" "distinct names"
  shows "reversible (creates t cols cons ixs) (drops t names)"
  unfolding reversible_def
proof (intro allI impI)
  fix s s' assume wf: "wf_schema s" and up: "apply_ops (creates t cols cons ixs) s = Some s'"
  let ?s1 = "s\<lparr> db_tables := db_tables s @ [(t, cols, cons)] \<rparr>"
  have new: "t \<notin> set (table_names s)" "set (targets cons) \<subseteq> set (table_names s)"
    and ixs: "apply_ops (map Create_Index ixs) ?s1 = Some s'"
    using up by (auto simp: creates_def split: if_splits)
  have s': "s' = ?s1\<lparr> db_indexes := db_indexes s @ ixs \<rparr>" "ix_name ` set ixs \<inter> ix_name ` set (db_indexes s) = {}"
    using create_indexes [OF ixs] by auto
  have kept: "filter (\<lambda>i. ix_name i \<notin> set names) (db_indexes s @ ixs) = db_indexes s"
    using s'(2) assms(2) by (auto simp: filter_id_conv filter_empty_conv)
  have "set names \<subseteq> ix_name ` set (db_indexes s')" using assms(2) by (auto simp: s'(1))
  from drop_indexes [OF assms(3) this, of t] have "apply_ops (map (\<lambda>n. Drop_Index n t) names) s' = Some ?s1"
    using kept by (simp add: s'(1))
  moreover have "apply_op (Drop_Table t) ?s1 = Some s"
  proof -
    have "\<not> list_ex (\<lambda>(u, cols, cons). u \<noteq> t \<and> t \<in> set (targets cons)) (db_tables ?s1)"
      using wf new(1) by (fastforce simp: wf_schema_def list_ex_iff)
    moreover have "filter (\<lambda>d. fst d \<noteq> t) (db_tables s) = db_tables s" "filter (\<lambda>i. ix_table i \<noteq> t) (db_indexes s) = db_indexes s"
      using wf new(1) by (auto simp: filter_id_conv wf_schema_def table_names_def)
    ultimately show ?thesis by (simp add: table_names_def)
  qed
  ultimately show "apply_ops (drops t names) s' = Some s"
    by (simp add: drops_def apply_ops_append)
qed

lemma creates_simps:
  "Create_Table t cols cons # map Create_Index ixs = creates t cols cons ixs"
  by (simp add: creates_def)

section \<open>The revisions\<close>

definition history :: "revision list" where
  "history =
     [revision_core_tables, revision_webhook_event_table, revision_idempotency_key_table, revision_workflow_execution_table,
      revision_job_state_history_table, revision_sync_checkpoint_table, revision_audit_log_event_table,
      revision_dead_letter_record_table]"

fun follows :: "string option \<Rightarrow> revision list \<Rightarrow> bool" where
  "follows down [] = True"
| "follows down (r # rs) = (rv_down r = down \<and> follows (Some (rv_id r)) rs)"

lemmas revision_defs =
  revision_core_tables_def revision_webhook_event_table_def revision_idempotency_key_table_def
  revision_workflow_execution_table_def revision_job_state_history_table_def revision_sync_checkpoint_table_def
  revision_audit_log_event_table_def revision_dead_letter_record_table_def

text \<open>The revisions of the directory are one chain, without a second head.\<close>

lemma history_is_a_chain: "set history = set revisions" "follows None history" "distinct (map rv_id history)"
  by (auto simp: history_def revisions_def) (simp_all add: revision_defs)

section \<open>Downgrades\<close>

text \<open>A check that a list of operations creates one table with its indexes, and another one drops
  them, in any order of the indexes.\<close>

definition created_indexes :: "schema_op list \<Rightarrow> table_index list" where
  "created_indexes xs = List.map_filter (\<lambda>x. case x of Create_Index i \<Rightarrow> Some i | _ \<Rightarrow> None) xs"

definition dropped_indexes :: "schema_op list \<Rightarrow> string list" where
  "dropped_indexes xs = List.map_filter (\<lambda>x. case x of Drop_Index n t \<Rightarrow> Some n | _ \<Rightarrow> None) xs"

definition single_table :: "schema_op list \<Rightarrow> schema_op list \<Rightarrow> bool" where
  "single_table ups downs \<longleftrightarrow>
     (case ups of
        Create_Table t cols cons # xs \<Rightarrow>
          xs = map Create_Index (created_indexes xs) \<and> list_all (\<lambda>i. ix_table i = t) (created_indexes xs) \<and>
          downs = map (\<lambda>n. Drop_Index n t) (dropped_indexes downs) @ [Drop_Table t] \<and>
          distinct (dropped_indexes downs) \<and>
          list_all (\<lambda>n. n \<in> set (map ix_name (created_indexes xs))) (dropped_indexes downs) \<and>
          list_all (\<lambda>n. n \<in> set (dropped_indexes downs)) (map ix_name (created_indexes xs))
      | _ \<Rightarrow> False)"

lemma single_table_reversible: "single_table ups downs \<Longrightarrow> reversible ups downs"
proof -
  assume st: "single_table ups downs"
  then obtain t cols cons xs where ups: "ups = Create_Table t cols cons # xs"
    by (auto simp: single_table_def split: list.splits schema_op.splits)
  have "ups = creates t cols cons (created_indexes xs)" "downs = drops t (dropped_indexes downs)"
    using st by (auto simp: ups single_table_def creates_def drops_def)
  moreover have "reversible (creates t cols cons (created_indexes xs)) (drops t (dropped_indexes downs))"
    by (rule reversible_table) (use st in \<open>auto simp: ups single_table_def list_all_iff\<close>)
  ultimately show ?thesis by simp
qed

lemma reversible_concat: "list_all2 reversible us ds \<Longrightarrow> reversible (concat us) (concat (rev ds))"
  by (induction rule: list_all2_induct) (auto simp: reversible_empty intro: reversible_append)

lemmas single_table_simps =
  single_table_def created_indexes_def dropped_indexes_def List.map_filter_simps index_def

lemma reversible_core_tables: "reversible upgrade_core_tables downgrade_core_tables"
proof -
  let ?u = upgrade_core_tables and ?d = downgrade_core_tables
  let ?us = "[take 1 ?u, take 2 (drop 1 ?u), take 2 (drop 3 ?u), take 5 (drop 5 ?u), drop 10 ?u]"
  let ?ds = "[drop 12 ?d, take 2 (drop 10 ?d), take 2 (drop 8 ?d), take 5 (drop 3 ?d), take 3 ?d]"
  have "list_all2 single_table ?us ?ds"
    by (simp add: upgrade_core_tables_def downgrade_core_tables_def single_table_simps)
  then have "list_all2 reversible ?us ?ds" by (rule list_all2_mono) (rule single_table_reversible)
  moreover have "?u = concat ?us" "?d = concat (rev ?ds)"
    by (simp_all add: upgrade_core_tables_def downgrade_core_tables_def)
  ultimately show ?thesis using reversible_concat by metis
qed

lemma reversible_webhook_event: "reversible upgrade_webhook_event_table downgrade_webhook_event_table"
  by (rule single_table_reversible) code_simp

lemma reversible_idempotency_key: "reversible upgrade_idempotency_key_table downgrade_idempotency_key_table"
  by (rule single_table_reversible) code_simp

lemma reversible_workflow_execution: "reversible upgrade_workflow_execution_table downgrade_workflow_execution_table"
  by (rule single_table_reversible) code_simp

lemma reversible_job_state_history: "reversible upgrade_job_state_history_table downgrade_job_state_history_table"
  by (rule single_table_reversible) code_simp

lemma reversible_sync_checkpoint: "reversible upgrade_sync_checkpoint_table downgrade_sync_checkpoint_table"
  by (rule single_table_reversible) code_simp

lemma reversible_audit_log_event: "reversible upgrade_audit_log_event_table downgrade_audit_log_event_table"
  by (rule single_table_reversible) code_simp

lemma reversible_dead_letter_record: "reversible upgrade_dead_letter_record_table downgrade_dead_letter_record_table"
  by (rule single_table_reversible) code_simp

lemmas reversible_revisions =
  reversible_core_tables reversible_webhook_event reversible_idempotency_key reversible_workflow_execution reversible_job_state_history reversible_sync_checkpoint reversible_audit_log_event reversible_dead_letter_record

text \<open>C37: Every downgrade undoes its upgrade.  Whatever the well-formed schema is on which the upgrade
  of a revision succeeds, its downgrade succeeds on the result and restores it; and so all the
  downgrades in reverse order undo all the upgrades.\<close>

theorem downgrades_undo_upgrades:
  assumes "wf_schema s"
  shows "(r \<in> set revisions \<longrightarrow> apply_ops (rv_upgrade r) s = Some s' \<longrightarrow> apply_ops (rv_downgrade r) s' = Some s)
    \<and> (apply_ops (concat (map rv_upgrade history)) s = Some s' \<longrightarrow>
       apply_ops (concat (map rv_downgrade (rev history))) s' = Some s)"
proof -
  have each: "list_all2 reversible (map rv_upgrade history) (map rv_downgrade history)"
    by (simp add: history_def revision_defs reversible_revisions)
  have "reversible (rv_upgrade r) (rv_downgrade r)" if "r \<in> set revisions"
    using that each unfolding history_is_a_chain(1) [symmetric]
    by (auto simp: list_all2_map1 list_all2_map2 list_all2_same)
  moreover have "reversible (concat (map rv_upgrade history)) (concat (map rv_downgrade (rev history)))"
    using reversible_concat [OF each] by (simp add: rev_map)
  ultimately show ?thesis using assms by (simp add: reversible_def)
qed

theorem downgrades_undo_upgrades_witness:
  "wf_schema empty_schema \<and> revision_idempotency_key_table \<in> set revisions
    \<and> (\<exists>s. apply_ops (rv_upgrade revision_idempotency_key_table) empty_schema = Some s
        \<and> apply_ops (rv_downgrade revision_idempotency_key_table) s = Some empty_schema)"
proof -
  have "apply_ops (rv_upgrade revision_idempotency_key_table) empty_schema \<noteq> None" by code_simp
  then obtain s where up: "apply_ops (rv_upgrade revision_idempotency_key_table) empty_schema = Some s" by blast
  have r: "revision_idempotency_key_table \<in> set revisions" by (simp add: revisions_def)
  have "apply_ops (rv_downgrade revision_idempotency_key_table) s = Some empty_schema"
    using downgrades_undo_upgrades [OF wf_empty, of revision_idempotency_key_table s] r up by blast
  then show ?thesis using r up wf_empty by blast
qed

section \<open>Migrations and models\<close>

type_synonym block = "string \<times> column list \<times> table_constraint list \<times> table_index list"

definition block_ops :: "block \<Rightarrow> schema_op list" where
  "block_ops b = (case b of (t, cols, cons, ixs) \<Rightarrow> creates t cols cons ixs)"

fun blocks :: "schema_op list \<Rightarrow> table_index list \<times> block list" where
  "blocks [] = ([], [])"
| "blocks (Create_Index i # xs) = (case blocks xs of (ixs, bs) \<Rightarrow> (i # ixs, bs))"
| "blocks (Create_Table t cols cons # xs) = (case blocks xs of (ixs, bs) \<Rightarrow> ([], (t, cols, cons, ixs) # bs))"
| "blocks (_ # xs) = blocks xs"

fun only_creates :: "schema_op list \<Rightarrow> bool" where
  "only_creates [] = True"
| "only_creates (Create_Index i # xs) = only_creates xs"
| "only_creates (Create_Table t cols cons # xs) = only_creates xs"
| "only_creates (_ # xs) = False"

lemma blocks_ops: "only_creates xs \<Longrightarrow> xs = map Create_Index (fst (blocks xs)) @ concat (map block_ops (snd (blocks xs)))"
  by (induction xs rule: blocks.induct) (auto simp: block_ops_def creates_def split: prod.splits)

lemma blocks_append: "fst (blocks ys) = [] \<Longrightarrow> blocks (xs @ ys) = (fst (blocks xs), snd (blocks xs) @ snd (blocks ys))"
  by (induction xs rule: blocks.induct) (auto split: prod.splits simp: prod_eq_iff)

text \<open>When a list of tables can be built on what there is: the tables are new and refer to earlier
  ones, the indexes are new and over columns of their table.\<close>

fun buildable :: "string list \<Rightarrow> string list \<Rightarrow> block list \<Rightarrow> bool" where
  "buildable tabs names [] = True"
| "buildable tabs names ((t, cols, cons, ixs) # bs) =
     (t \<notin> set tabs \<and> list_all (\<lambda>u. u \<in> set tabs) (targets cons) \<and> distinct (map ix_name ixs) \<and>
      list_all (\<lambda>i. ix_table i = t \<and> ix_name i \<notin> set names \<and> list_all (\<lambda>c. c \<in> set (map cn_name cols)) (ix_columns i)) ixs \<and>
      buildable (tabs @ [t]) (names @ map ix_name ixs) bs)"

lemma run_indexes:
  assumes "map_of (db_tables s) t = Some (cols, cons)" "distinct (map ix_name ixs)"
    and "list_all (\<lambda>i. ix_table i = t \<and> ix_name i \<notin> ix_name ` set (db_indexes s) \<and> set (ix_columns i) \<subseteq> cn_name ` set cols) ixs"
  shows "apply_ops (map Create_Index ixs) s = Some (s\<lparr> db_indexes := db_indexes s @ ixs \<rparr>)"
  using assms
proof (induction ixs arbitrary: s)
  case (Cons i ixs)
  let ?s = "s\<lparr> db_indexes := db_indexes s @ [i] \<rparr>"
  have "list_all (\<lambda>j. ix_table j = t \<and> ix_name j \<notin> ix_name ` set (db_indexes ?s) \<and> set (ix_columns j) \<subseteq> cn_name ` set cols) ixs"
    using Cons.prems(2,3) by (auto simp: list_all_iff) (metis image_eqI)
  from Cons.IH [OF _ _ this] Cons.prems show ?case by simp
qed simp

lemma run_blocks:
  "buildable (table_names s) (map ix_name (db_indexes s)) bs \<Longrightarrow>
    apply_ops (concat (map block_ops bs)) s =
      Some \<lparr> db_tables = db_tables s @ map (\<lambda>(t, cols, cons, ixs). (t, cols, cons)) bs,
             db_indexes = db_indexes s @ concat (map (\<lambda>(t, cols, cons, ixs). ixs) bs) \<rparr>"
proof (induction bs arbitrary: s)
  case (Cons b bs)
  obtain t cols cons ixs where b: "b = (t, cols, cons, ixs)" by (cases b)
  let ?s1 = "s\<lparr> db_tables := db_tables s @ [(t, cols, cons)] \<rparr>"
  let ?s2 = "?s1\<lparr> db_indexes := db_indexes s @ ixs \<rparr>"
  have "map_of (db_tables ?s1) t = Some (cols, cons)"
    using Cons.prems by (auto simp: b table_names_def map_add_Some_iff map_of_eq_None_iff)
  then have "apply_ops (map Create_Index ixs) ?s1 = Some ?s2"
    using run_indexes [of ?s1 t cols cons ixs] Cons.prems by (simp add: b list_all_iff subset_eq)
  moreover have "apply_op (Create_Table t cols cons) s = Some ?s1"
    using Cons.prems by (auto simp: b list_all_iff)
  ultimately have "apply_ops (block_ops b) s = Some ?s2" by (simp add: b block_ops_def creates_def)
  moreover have "buildable (table_names ?s2) (map ix_name (db_indexes ?s2)) bs"
    using Cons.prems by (simp add: b table_names_def)
  ultimately show ?case using Cons.IH [of ?s2] by (simp add: apply_ops_append b)
qed simp

text \<open>A table that a migration creates is the one that a model declares, up to the order of its
  indexes.\<close>

definition declared_by :: "block \<Rightarrow> orm_model \<Rightarrow> bool" where
  "declared_by b d \<longleftrightarrow>
     (case b of (t, cols, cons, ixs) \<Rightarrow>
        (t, cols, cons) = model_table d \<and> list_all (\<lambda>i. i \<in> set (model_indexes d)) ixs \<and>
        list_all (\<lambda>i. i \<in> set ixs) (model_indexes d))"

lemma index_eq_iff: "index n t c u = index m v d w \<longleftrightarrow> n = m \<and> t = v \<and> c = d \<and> u = w"
  by (simp add: index_def)

lemmas declared_simps =
  declared_by_def model_table_def model_indexes_def model_column_def mapped_def List.map_filter_simps index_eq_iff

lemma declared_core_tables:
  "only_creates upgrade_core_tables" "fst (blocks upgrade_core_tables) = []"
  "list_all2 declared_by (snd (blocks upgrade_core_tables)) [Tier_model, TokenBlacklist_model, RateLimit_model, User_model, Post_model]"
  by (simp_all add: upgrade_core_tables_def Tier_model_def TokenBlacklist_model_def RateLimit_model_def User_model_def
      Post_model_def declared_simps)

lemma declared_webhook_event_table:
  "only_creates upgrade_webhook_event_table" "fst (blocks upgrade_webhook_event_table) = []"
  "list_all2 declared_by (snd (blocks upgrade_webhook_event_table)) [WebhookEvent_model]"
  by code_simp+

lemma declared_idempotency_key_table:
  "only_creates upgrade_idempotency_key_table" "fst (blocks upgrade_idempotency_key_table) = []"
  "list_all2 declared_by (snd (blocks upgrade_idempotency_key_table)) [IdempotencyKey_model]"
  by code_simp+

lemma declared_workflow_execution_table:
  "only_creates upgrade_workflow_execution_table" "fst (blocks upgrade_workflow_execution_table) = []"
  "list_all2 declared_by (snd (blocks upgrade_workflow_execution_table)) [WorkflowExecution_model]"
  by code_simp+

lemma declared_job_state_history_table:
  "only_creates upgrade_job_state_history_table" "fst (blocks upgrade_job_state_history_table) = []"
  "list_all2 declared_by (snd (blocks upgrade_job_state_history_table)) [JobStateHistory_model]"
  by code_simp+

lemma declared_sync_checkpoint_table:
  "only_creates upgrade_sync_checkpoint_table" "fst (blocks upgrade_sync_checkpoint_table) = []"
  "list_all2 declared_by (snd (blocks upgrade_sync_checkpoint_table)) [IntegrationSyncCheckpoint_model]"
  by code_simp+

lemma declared_audit_log_event_table:
  "only_creates upgrade_audit_log_event_table" "fst (blocks upgrade_audit_log_event_table) = []"
  "list_all2 declared_by (snd (blocks upgrade_audit_log_event_table)) [AuditLogEvent_model]"
  by code_simp+

lemma declared_dead_letter_record_table:
  "only_creates upgrade_dead_letter_record_table" "fst (blocks upgrade_dead_letter_record_table) = []"
  "list_all2 declared_by (snd (blocks upgrade_dead_letter_record_table)) [DeadLetterRecord_model]"
  by code_simp+

text \<open>The names of the indexes of a table start with its name, and no table's name starts with
  another one's: so the tables can be built one after the other.\<close>

fun apart :: "string list \<Rightarrow> block list \<Rightarrow> bool" where
  "apart tabs [] = True"
| "apart tabs ((t, cols, cons, ixs) # bs) =
     (list_all (\<lambda>u. \<not> prefix (u @ ''_'') (t @ ''_'') \<and> \<not> prefix (t @ ''_'') (u @ ''_'')) tabs \<and>
      list_all (\<lambda>u. u \<in> set tabs) (targets cons) \<and> distinct (map ix_name ixs) \<and>
      list_all (\<lambda>i. ix_table i = t \<and> prefix (''ix_'' @ t @ ''_'') (ix_name i) \<and>
                    list_all (\<lambda>c. c \<in> set (map cn_name cols)) (ix_columns i)) ixs \<and>
      apart (tabs @ [t]) bs)"

lemma apart_append: "apart tabs (xs @ ys) \<longleftrightarrow> apart tabs xs \<and> apart (tabs @ map fst xs) ys"
  by (induction xs arbitrary: tabs) auto

lemma apart_buildable:
  "apart tabs bs \<Longrightarrow> (\<And>n. n \<in> set names \<Longrightarrow> \<exists>u \<in> set tabs. prefix (''ix_'' @ u @ ''_'') n) \<Longrightarrow> buildable tabs names bs"
proof (induction bs arbitrary: tabs names)
  case (Cons b bs)
  obtain t cols cons ixs where b: "b = (t, cols, cons, ixs)" by (cases b)
  have new: "\<not> prefix (u @ ''_'') (t @ ''_'')" "\<not> prefix (t @ ''_'') (u @ ''_'')" if "u \<in> set tabs" for u
    using Cons.prems(1) that by (auto simp: b list_all_iff)
  have "ix_name i \<notin> set names" if "i \<in> set ixs" for i
  proof
    assume "ix_name i \<in> set names"
    then obtain u where u: "u \<in> set tabs" "prefix (''ix_'' @ u @ ''_'') (ix_name i)" using Cons.prems(2) by blast
    have "prefix (''ix_'' @ t @ ''_'') (ix_name i)" using Cons.prems(1) that by (auto simp: b list_all_iff)
    from prefix_same_cases [OF u(2) this] show False using new [OF u(1)] by simp
  qed
  moreover have "t \<notin> set tabs" using new(1) by blast
  moreover have "buildable (tabs @ [t]) (names @ map ix_name ixs) bs"
    by (rule Cons.IH) (use Cons.prems in \<open>auto simp: b list_all_iff\<close>)
  ultimately show ?case using Cons.prems(1) by (simp add: b list_all_iff)
qed simp

lemma only_creates_append: "only_creates (xs @ ys) \<longleftrightarrow> only_creates xs \<and> only_creates ys"
  by (induction xs rule: only_creates.induct) auto

lemma blocks_concat:
  "list_all (\<lambda>xs. fst (blocks xs) = []) xss \<Longrightarrow> blocks (concat xss) = ([], concat (map (\<lambda>xs. snd (blocks xs)) xss))"
  by (induction xss) (simp_all add: blocks_append prod_eq_iff)

lemma apart_core_tables:
  "map fst (snd (blocks upgrade_core_tables)) = [''tier'', ''token_blacklist'', ''rate_limit'', ''user'', ''post'']"
  "apart [] (snd (blocks upgrade_core_tables))"
  by (simp_all add: upgrade_core_tables_def targets_def List.map_filter_simps index_def column_def)

lemma apart_webhook_event_table:
  "map fst (snd (blocks upgrade_webhook_event_table)) = [''webhook_event'']"
  "apart [''tier'', ''token_blacklist'', ''rate_limit'', ''user'', ''post''] (snd (blocks upgrade_webhook_event_table))"
  by code_simp+

lemma apart_idempotency_key_table:
  "map fst (snd (blocks upgrade_idempotency_key_table)) = [''idempotency_key'']"
  "apart [''tier'', ''token_blacklist'', ''rate_limit'', ''user'', ''post'', ''webhook_event''] (snd (blocks upgrade_idempotency_key_table))"
  by code_simp+

lemma apart_workflow_execution_table:
  "map fst (snd (blocks upgrade_workflow_execution_table)) = [''workflow_execution'']"
  "apart [''tier'', ''token_blacklist'', ''rate_limit'', ''user'', ''post'', ''webhook_event'', ''idempotency_key''] (snd (blocks upgrade_workflow_execution_table))"
  by code_simp+

lemma apart_job_state_history_table:
  "map fst (snd (blocks upgrade_job_state_history_table)) = [''job_state_history'']"
  "apart [''tier'', ''token_blacklist'', ''rate_limit'', ''user'', ''post'', ''webhook_event'', ''idempotency_key'', ''workflow_execution''] (snd (blocks upgrade_job_state_history_table))"
  by code_simp+

lemma apart_sync_checkpoint_table:
  "map fst (snd (blocks upgrade_sync_checkpoint_table)) = [''integration_sync_checkpoint'']"
  "apart [''tier'', ''token_blacklist'', ''rate_limit'', ''user'', ''post'', ''webhook_event'', ''idempotency_key'', ''workflow_execution'', ''job_state_history''] (snd (blocks upgrade_sync_checkpoint_table))"
  by code_simp+

lemma apart_audit_log_event_table:
  "map fst (snd (blocks upgrade_audit_log_event_table)) = [''audit_log_event'']"
  "apart [''tier'', ''token_blacklist'', ''rate_limit'', ''user'', ''post'', ''webhook_event'', ''idempotency_key'', ''workflow_execution'', ''job_state_history'', ''integration_sync_checkpoint''] (snd (blocks upgrade_audit_log_event_table))"
  by code_simp+

lemma apart_dead_letter_record_table:
  "map fst (snd (blocks upgrade_dead_letter_record_table)) = [''dead_letter_record'']"
  "apart [''tier'', ''token_blacklist'', ''rate_limit'', ''user'', ''post'', ''webhook_event'', ''idempotency_key'', ''workflow_execution'', ''job_state_history'', ''integration_sync_checkpoint'', ''audit_log_event''] (snd (blocks upgrade_dead_letter_record_table))"
  by code_simp+

definition migrated :: "block list" where
  "migrated = snd (blocks (concat (map rv_upgrade history)))"

lemma migrated_blocks:
  "concat (map rv_upgrade history) = concat (map block_ops migrated)"
  "list_all2 declared_by migrated orm_models"
  "apart [] migrated"
proof -
  have all: "list_all (\<lambda>xs. fst (blocks xs) = []) (map rv_upgrade history)"
    by (simp add: history_def revision_defs declared_core_tables(2) declared_webhook_event_table(2) declared_idempotency_key_table(2) declared_workflow_execution_table(2) declared_job_state_history_table(2) declared_sync_checkpoint_table(2) declared_audit_log_event_table(2) declared_dead_letter_record_table(2))
  have "only_creates (concat (map rv_upgrade history))"
    by (simp add: history_def revision_defs only_creates_append declared_core_tables(1) declared_webhook_event_table(1) declared_idempotency_key_table(1) declared_workflow_execution_table(1) declared_job_state_history_table(1) declared_sync_checkpoint_table(1) declared_audit_log_event_table(1) declared_dead_letter_record_table(1))
  then have "concat (map rv_upgrade history) = map Create_Index (fst (blocks (concat (map rv_upgrade history))))
      @ concat (map block_ops migrated)"
    unfolding migrated_def by (rule blocks_ops)
  then show "concat (map rv_upgrade history) = concat (map block_ops migrated)"
    unfolding blocks_concat [OF all] fst_conv list.map append.simps .
  have m: "migrated = snd (blocks upgrade_core_tables) @ snd (blocks upgrade_webhook_event_table) @
      snd (blocks upgrade_idempotency_key_table) @ snd (blocks upgrade_workflow_execution_table) @
      snd (blocks upgrade_job_state_history_table) @ snd (blocks upgrade_sync_checkpoint_table) @
      snd (blocks upgrade_audit_log_event_table) @ snd (blocks upgrade_dead_letter_record_table)"
    unfolding migrated_def blocks_concat [OF all] by (simp add: history_def revision_defs)
  have models: "orm_models = [Tier_model, TokenBlacklist_model, RateLimit_model, User_model, Post_model] @ [WebhookEvent_model] @
      [IdempotencyKey_model] @ [WorkflowExecution_model] @ [JobStateHistory_model] @ [IntegrationSyncCheckpoint_model] @
      [AuditLogEvent_model] @ [DeadLetterRecord_model]"
    by (simp add: orm_models_def)
  show "list_all2 declared_by migrated orm_models" unfolding m models
    by (intro list_all2_appendI declared_core_tables(3) declared_webhook_event_table(3) declared_idempotency_key_table(3) declared_workflow_execution_table(3) declared_job_state_history_table(3) declared_sync_checkpoint_table(3) declared_audit_log_event_table(3) declared_dead_letter_record_table(3))
  show "apart [] migrated" unfolding m apart_append
    by (simp add: apart_core_tables apart_webhook_event_table apart_idempotency_key_table apart_workflow_execution_table apart_job_state_history_table apart_sync_checkpoint_table apart_audit_log_event_table apart_dead_letter_record_table)
qed

text \<open>C38: The migrations build what the models declare.  From an empty database all the upgrades, in
  the order of their chain, succeed, and the result has exactly the tables of the models, with
  their columns and constraints, and the same indexes.\<close>

theorem migrations_build_the_models:
  "\<exists>s. apply_ops (concat (map rv_upgrade history)) empty_schema = Some s
    \<and> db_tables s = map model_table orm_models
    \<and> set (db_indexes s) = set (concat (map model_indexes orm_models))"
proof -
  have "buildable (table_names empty_schema) (map ix_name (db_indexes empty_schema)) migrated"
    by (rule apart_buildable) (simp_all add: empty_schema_def table_names_def migrated_blocks(3))
  from run_blocks [OF this] have "apply_ops (concat (map rv_upgrade history)) empty_schema =
      Some \<lparr> db_tables = map (\<lambda>(t, cols, cons, ixs). (t, cols, cons)) migrated,
             db_indexes = concat (map (\<lambda>(t, cols, cons, ixs). ixs) migrated) \<rparr>"
    by (simp add: migrated_blocks(1) empty_schema_def)
  moreover have "list_all2 declared_by bs ds \<Longrightarrow>
      map (\<lambda>(t, cols, cons, ixs). (t, cols, cons)) bs = map model_table ds \<and>
      set (concat (map (\<lambda>(t, cols, cons, ixs). ixs) bs)) = set (concat (map model_indexes ds))" for bs ds
    by (induction rule: list_all2_induct) (auto simp: declared_by_def list_all_iff)
  ultimately show ?thesis using migrated_blocks(2) by simp
qed

section \<open>What the schema gives the other components\<close>

text \<open>Creating the tables from the metadata of the models fails: two of them declare an index twice
  under one name, as \<open>index\<close> of the column and among the table arguments.\<close>

definition create_all :: "orm_model list \<Rightarrow> schema_op list" where
  "create_all ds = concat (map (\<lambda>d. case model_table d of (t, cols, cons) \<Rightarrow> creates t cols cons (model_indexes d)) ds)"

lemma duplicate_index_fails: "\<not> distinct (map ix_name (model_indexes d)) \<Longrightarrow> d \<in> set ds \<Longrightarrow> apply_ops (create_all ds) s = None"
proof (induction ds arbitrary: s)
  case (Cons e ds)
  have here: "apply_ops (create_all [d]) u = None" for u
  proof (rule ccontr)
    assume "apply_ops (create_all [d]) u \<noteq> None"
    then obtain t v where "apply_ops (map Create_Index (model_indexes d)) t = Some v"
      by (auto simp: create_all_def creates_def Option.bind_eq_Some_conv split: prod.splits)
    from create_indexes [OF this] show False using Cons.prems(1) by blast
  qed
  have split: "create_all (e # ds) = create_all [e] @ create_all ds" by (simp add: create_all_def)
  show ?case
  proof (cases "e = d")
    case True
    then show ?thesis using here [of s] unfolding split apply_ops_append by simp
  next
    case False
    then show ?thesis using Cons by (auto simp: split apply_ops_append split: Option.bind_split)
  qed
qed simp

lemma create_all_fails: "apply_ops (create_all orm_models) s = None"
proof (rule duplicate_index_fails)
  show "\<not> distinct (map ix_name (model_indexes DeadLetterRecord_model))"
    by (simp add: model_indexes_def DeadLetterRecord_model_def mapped_def index_def)
qed (simp add: orm_models_def)

text \<open>The database backs the ledgers of the other theories with constraints: dead letters by
  namespace and key, idempotency keys by scope and key.\<close>

lemma ledgers_are_backed:
  "Unique (Some ''uq_dead_letter_record_namespace_key'') [''dead_letter_namespace'', ''dead_letter_key'']
     \<in> set (snd (snd (model_table DeadLetterRecord_model)))"
  "Unique (Some ''uq_idempotency_key_scope_key'') [''scope'', ''key''] \<in> set (snd (snd (model_table IdempotencyKey_model)))"
  by (simp_all add: model_table_def DeadLetterRecord_model_def IdempotencyKey_model_def)

end
