(* ===== verification/Payloads.thy ===== *)
theory Payloads
  imports Jobs
begin

text \<open>
  core/worker/serialization.py: the check that a job payload is safe to serialize as JSON.

  A value is a Python value as the JSON encoder of the standard library sees it: a float is finite
  or one of its three special values, a key of a dict is one of the kinds that the encoder accepts
  or another one, and everything without an encoding is \<open>P_Other\<close> with the name of its type.
  Values are finite trees: a cyclic one, which the encoder refuses, is not among them.
\<close>

section \<open>Values\<close>

datatype py_float = Finite rat | Not_A_Number | Infinite bool

datatype py_key = K_Str string | K_Int int | K_Float py_float | K_Bool bool | K_None | K_Other string

datatype py_value =
    P_None
  | P_Bool bool
  | P_Int int
  | P_Float py_float
  | P_Str string
  | P_List "py_value list"
  | P_Tuple "py_value list"
  | P_Dict "(py_key \<times> py_value) list"
  | P_Other string

fun type_name :: "py_value \<Rightarrow> string" where
  "type_name P_None = ''NoneType''"
| "type_name (P_Bool _) = ''bool''"
| "type_name (P_Int _) = ''int''"
| "type_name (P_Float _) = ''float''"
| "type_name (P_Str _) = ''str''"
| "type_name (P_List _) = ''list''"
| "type_name (P_Tuple _) = ''tuple''"
| "type_name (P_Dict _) = ''dict''"
| "type_name (P_Other n) = n"

section \<open>The check\<close>

text \<open>The error of \<open>json.dumps\<close>, if any: the first one in the order of the encoding.\<close>

fun first_error :: "string option list \<Rightarrow> string option" where
  "first_error [] = None"
| "first_error (x # xs) = (case x of Some e \<Rightarrow> Some e | None \<Rightarrow> first_error xs)"

fun key_error :: "py_key \<Rightarrow> string option" where
  "key_error (K_Other n) = Some (''keys must be str, int, float, bool or None, not '' @ n)"
| "key_error _ = None"

fun dumps_error :: "py_value \<Rightarrow> string option" where
  "dumps_error (P_List vs) = first_error (map dumps_error vs)"
| "dumps_error (P_Tuple vs) = first_error (map dumps_error vs)"
| "dumps_error (P_Dict kvs) = first_error (map (\<lambda>(k, v). case key_error k of Some e \<Rightarrow> Some e | None \<Rightarrow> dumps_error v) kvs)"
| "dumps_error (P_Other n) = Some (''Object of type '' @ n @ '' is not JSON serializable'')"
| "dumps_error _ = None"

definition validate_json_safe :: "py_value \<Rightarrow> string + unit" where
  "validate_json_safe v =
     (case dumps_error v of
        None \<Rightarrow> Inr ()
      | Some e \<Rightarrow> Inl (''Job payload is not JSON-serializable: '' @ e @
          ''. Convert non-primitive values (datetime, UUID, Decimal, bytes, '' @
          ''SQLAlchemy models) to their JSON-safe representations before '' @ ''enqueuing.''))"

fun is_dict :: "py_value \<Rightarrow> bool" where
  "is_dict (P_Dict _) = True"
| "is_dict _ = False"

definition safe_payload :: "py_value \<Rightarrow> string + py_value" where
  "safe_payload payload =
     (if \<not> is_dict payload then Inl (''Job payload must be a dict, got '' @ type_name payload)
      else bind_sum (validate_json_safe payload) (\<lambda>_. Inr payload))"

text \<open>A Pydantic model is known by what \<open>model_dump\<close> returns.\<close>

datatype envelope_source = Model py_value | Value_Of py_value

definition serialize_for_envelope :: "envelope_source \<Rightarrow> string + py_value" where
  "serialize_for_envelope source =
     (case source of
        Model dump \<Rightarrow> bind_sum (validate_json_safe dump) (\<lambda>_. Inr dump)
      | Value_Of v \<Rightarrow>
          if \<not> is_dict v then Inl (''Expected a Pydantic model or dict, got '' @ type_name v)
          else bind_sum (validate_json_safe v) (\<lambda>_. Inr v))"

section \<open>The contract\<close>

text \<open>The module promises that the check raises for a value that does not survive a round trip
  through \<open>json.dumps\<close> and \<open>json.loads\<close>.  That round trip is a yardstick and no step of the
  program: the check only encodes, and the queue pickles its arguments.

  What \<open>json.loads\<close> makes of the text of an accepted value: tuples come back as lists, keys as
  strings, and of keys with one text the last value wins at the place of the first.
  \<open>float_text\<close> is \<open>float.__repr__\<close>.\<close>

fun key_text :: "(py_float \<Rightarrow> string) \<Rightarrow> py_key \<Rightarrow> string" where
  "key_text float_text (K_Str s) = s"
| "key_text float_text (K_Int i) = show_int i"
| "key_text float_text (K_Float x) = float_text x"
| "key_text float_text (K_Bool b) = (if b then ''true'' else ''false'')"
| "key_text float_text K_None = ''null''"
| "key_text float_text (K_Other n) = []"

fun loads_dumps :: "(py_float \<Rightarrow> string) \<Rightarrow> py_value \<Rightarrow> py_value" where
  "loads_dumps ft (P_List vs) = P_List (map (loads_dumps ft) vs)"
| "loads_dumps ft (P_Tuple vs) = P_List (map (loads_dumps ft) vs)"
| "loads_dumps ft (P_Dict kvs) =
     P_Dict (fold (\<lambda>(k, v). AList.update k v) (map (\<lambda>(k, v). (K_Str (key_text ft k), loads_dumps ft v)) kvs) [])"
| "loads_dumps ft v = v"

text \<open>A dict has each key once.  Plain values have no tuple and no key that is not a string.\<close>

fun is_str_key :: "py_key \<Rightarrow> bool" where
  "is_str_key (K_Str _) = True"
| "is_str_key _ = False"

fun wf_value :: "py_value \<Rightarrow> bool" where
  "wf_value (P_List vs) = list_all wf_value vs"
| "wf_value (P_Tuple vs) = list_all wf_value vs"
| "wf_value (P_Dict kvs) = (distinct (map fst kvs) \<and> list_all (\<lambda>(k, v). wf_value v) kvs)"
| "wf_value _ = True"

fun plain_value :: "py_value \<Rightarrow> bool" where
  "plain_value (P_List vs) = list_all plain_value vs"
| "plain_value (P_Tuple vs) = False"
| "plain_value (P_Dict kvs) = list_all (\<lambda>(k, v). is_str_key k \<and> plain_value v) kvs"
| "plain_value (P_Other n) = False"
| "plain_value _ = True"

lemma first_error_None: "first_error xs = None \<longleftrightarrow> list_all (\<lambda>x. x = None) xs"
  by (induction xs) (auto split: option.split)

lemma update_new_key: "k \<notin> fst ` set d \<Longrightarrow> AList.update k v d = d @ [(k, v)]"
  by (induction d) auto

lemma fold_update_distinct:
  "distinct (map fst d @ map fst kvs) \<Longrightarrow> fold (\<lambda>(k, v). AList.update k v) kvs d = d @ kvs"
proof (induction kvs arbitrary: d)
  case (Cons kv kvs)
  obtain k v where kv: "kv = (k, v)" by (cases kv)
  have "AList.update k v d = d @ [(k, v)]" using Cons.prems by (auto simp: kv intro: update_new_key)
  then show ?case using Cons by (simp add: kv)
qed simp

lemma fold_update_keys:
  "fst ` set (fold (\<lambda>(k, v). AList.update k v) kvs d) = fst ` set d \<union> fst ` set kvs"
  by (induction kvs arbitrary: d) (simp_all add: dom_update case_prod_unfold Un_commute)

lemma key_text_inj: "list_all is_str_key ks \<Longrightarrow> map (\<lambda>k. K_Str (key_text ft k)) ks = ks"
  by (induction ks) (auto elim: is_str_key.elims)

lemma dict_round_trip:
  assumes "distinct (map fst kvs)" "list_all (\<lambda>(k, v). is_str_key k) kvs"
  shows "loads_dumps ft (P_Dict kvs) = P_Dict (map (\<lambda>(k, v). (k, loads_dumps ft v)) kvs)"
proof -
  have keys: "map (\<lambda>(k, v). (K_Str (key_text ft k), loads_dumps ft v)) kvs = map (\<lambda>(k, v). (k, loads_dumps ft v)) kvs"
    using assms(2) by (auto simp: list_all_iff elim!: is_str_key.elims)
  have m: "map fst (map (\<lambda>(k, v). (k, loads_dumps ft v)) kvs) = map fst kvs" by (induction kvs) auto
  have "distinct (map fst [] @ map fst (map (\<lambda>(k, v). (k, loads_dumps ft v)) kvs))"
    using assms(1) by (simp only: m list.map append.simps)
  from fold_update_distinct [OF this] show ?thesis by (simp add: keys)
qed

lemma map_fixpoint: "map f xs = xs \<longleftrightarrow> (\<forall>x \<in> set xs. f x = x)"
  by (induction xs) auto

lemma round_trip_plain: "wf_value v \<Longrightarrow> dumps_error v = None \<Longrightarrow> loads_dumps ft v = v \<longleftrightarrow> plain_value v"
proof (induction v)
  case (P_List vs)
  then show ?case by (auto simp: first_error_None list_all_iff map_fixpoint)
next
  case (P_Dict kvs)
  have IH: "loads_dumps ft v = v \<longleftrightarrow> plain_value v" if "(k, v) \<in> set kvs" for k v
    using P_Dict that by (fastforce simp: first_error_None list_all_iff split: option.splits)
  show ?case
  proof (cases "list_all (\<lambda>(k, v). is_str_key k) kvs")
    case True
    have "map (\<lambda>(k, v). (k, loads_dumps ft v)) kvs = kvs \<longleftrightarrow> list_all (\<lambda>(k, v). plain_value v) kvs"
      using IH by (induction kvs) auto
    moreover have "loads_dumps ft (P_Dict kvs) = P_Dict (map (\<lambda>(k, v). (k, loads_dumps ft v)) kvs)"
      using P_Dict.prems(1) by (intro dict_round_trip True) simp
    moreover have "plain_value (P_Dict kvs) \<longleftrightarrow> list_all (\<lambda>(k, v). plain_value v) kvs"
      using True by (auto simp: list_all_iff)
    ultimately show ?thesis by (simp only: py_value.inject)
  next
    case False
    then obtain k v where kv: "(k, v) \<in> set kvs" "\<not> is_str_key k" by (auto simp: list_all_iff)
    have "loads_dumps ft (P_Dict kvs) \<noteq> P_Dict kvs"
    proof
      assume "loads_dumps ft (P_Dict kvs) = P_Dict kvs"
      then have "k \<in> fst ` set (fold (\<lambda>(k, v). AList.update k v)
          (map (\<lambda>(k, v). (K_Str (key_text ft k), loads_dumps ft v)) kvs) [])" using kv(1) by (force simp: rev_image_eqI)
      then show False using kv(2) unfolding fold_update_keys by auto
    qed
    then show ?thesis using False by (auto simp: list_all_iff)
  qed
qed auto

text \<open>What the encoder knows: no value and no key of another type, at any depth.\<close>

fun encodable_key :: "py_key \<Rightarrow> bool" where
  "encodable_key (K_Other n) = False"
| "encodable_key _ = True"

fun encodable :: "py_value \<Rightarrow> bool" where
  "encodable (P_List vs) = list_all encodable vs"
| "encodable (P_Tuple vs) = list_all encodable vs"
| "encodable (P_Dict kvs) = list_all (\<lambda>(k, v). encodable_key k \<and> encodable v) kvs"
| "encodable (P_Other n) = False"
| "encodable _ = True"

lemma encodable_iff: "dumps_error v = None \<longleftrightarrow> encodable v"
proof (induction v)
  case (P_Dict kvs)
  have "(case key_error k of None \<Rightarrow> dumps_error v | Some e \<Rightarrow> Some e) = None \<longleftrightarrow> encodable_key k \<and> encodable v"
    if "(k, v) \<in> set kvs" for k v
    using P_Dict that by (cases k) fastforce+
  then show ?case by (fastforce simp: first_error_None list_all_iff)
qed (auto simp: first_error_None list_all_iff)

text \<open>C36: The check is weaker than its contract, and this is by how much.  It accepts a value
  exactly when all its parts have an encoding, and the guard of a job payload returns such a dict
  as it is and refuses everything else; of the values that it accepts, those that survive the JSON
  round trip of the documented contract are exactly those without tuples and with strings for
  keys, at every depth.  Every other accepted value breaks the contract without an error.\<close>

theorem check_is_weaker_than_its_contract:
  assumes "wf_value v"
  shows "(is_ok (validate_json_safe v) \<longleftrightarrow> encodable v) \<and>
    (case safe_payload v of Inr v' \<Rightarrow> v' = v \<and> is_dict v \<and> encodable v | Inl e \<Rightarrow> \<not> (is_dict v \<and> encodable v)) \<and>
    (is_ok (validate_json_safe v) \<longrightarrow> (loads_dumps ft v = v \<longleftrightarrow> plain_value v))"
proof -
  have ok: "is_ok (validate_json_safe v) \<longleftrightarrow> encodable v"
    by (simp add: validate_json_safe_def encodable_iff [symmetric] split: option.split)
  moreover have "case safe_payload v of Inr v' \<Rightarrow> v' = v \<and> is_dict v \<and> encodable v | Inl e \<Rightarrow> \<not> (is_dict v \<and> encodable v)"
    using encodable_iff [of v] by (auto simp: safe_payload_def validate_json_safe_def split: option.split)
  moreover have "loads_dumps ft v = v \<longleftrightarrow> plain_value v" if "encodable v"
    using round_trip_plain [OF assms, of ft] that by (simp add: encodable_iff)
  ultimately show ?thesis by blast
qed

lemma check_is_weaker_than_its_contract_witness:
  "is_ok (validate_json_safe (P_Dict [(K_Str ''ids'', P_Tuple [P_Int 1])])) \<and>
   loads_dumps (\<lambda>_. []) (P_Dict [(K_Str ''ids'', P_Tuple [P_Int 1])]) \<noteq> P_Dict [(K_Str ''ids'', P_Tuple [P_Int 1])]"
  using check_is_weaker_than_its_contract [of "P_Dict [(K_Str ''ids'', P_Tuple [P_Int 1])]" "\<lambda>_. []"] by simp

text \<open>An accepted payload that the round trip changes.\<close>

lemma accepted_payload_changes:
  "safe_payload (P_Dict [(K_Int 7, P_Tuple [P_Int 1])]) = Inr (P_Dict [(K_Int 7, P_Tuple [P_Int 1])])"
  "loads_dumps ft (P_Dict [(K_Int 7, P_Tuple [P_Int 1])]) = P_Dict [(K_Str (show_int 7), P_List [P_Int 1])]"
  by (simp_all add: safe_payload_def validate_json_safe_def)

text \<open>Two keys of a payload may have one text, and one of the values is lost.\<close>

lemma accepted_payload_loses_a_value:
  assumes "show_int 7 = ''7''"
  shows "is_ok (safe_payload (P_Dict [(K_Int 7, P_Int 1), (K_Str ''7'', P_Int 2)]))"
    and "loads_dumps ft (P_Dict [(K_Int 7, P_Int 1), (K_Str ''7'', P_Int 2)]) = P_Dict [(K_Str ''7'', P_Int 2)]"
  using assms by (simp_all add: safe_payload_def validate_json_safe_def is_ok_def)

text \<open>The two guards agree on dicts.\<close>

lemma envelope_of_dict: "is_dict v \<Longrightarrow> serialize_for_envelope (Value_Of v) = safe_payload v"
  by (simp add: serialize_for_envelope_def safe_payload_def)

end
