(* ===== verification/Http_Sessions.thy ===== *)
theory Http_Sessions
  imports Http_Client Settings_Sections
begin

text \<open>
  integrations/http_client/client.py: the configuration of a client, built from keywords or from the
  settings, and the client object with the \<open>httpx\<close> client it opens and closes.

  Configurations and \<open>httpx\<close> clients are shared objects: a heap holds them, and a client holds their
  positions.  The transport of \<open>httpx\<close> is an argument, applied to the \<open>httpx\<close> client it is called on.
\<close>

section \<open>Configuration\<close>

text \<open>\<open>HttpClientConfig()\<close>.\<close>

definition default_http_client_config :: http_client_config where
  "default_http_client_config =
     \<lparr> hc_base_url = [], hc_timeout_seconds = 30, hc_connect_timeout_seconds = 10,
       hc_read_timeout_seconds = 30, hc_write_timeout_seconds = 30, hc_pool_max_connections = 100,
       hc_pool_max_keepalive = 20, hc_default_headers = [], hc_propagate_correlation = True,
       hc_follow_redirects = True, hc_retry_enabled = True, hc_retry_max_attempts = 3,
       hc_retry_backoff_base_seconds = 1, hc_retry_backoff_max_seconds = 30, hc_retry_backoff_multiplier = 2,
       hc_retry_backoff_jitter = True, hc_circuit_breaker_enabled = False,
       hc_circuit_breaker_failure_threshold = 5, hc_circuit_breaker_recovery_timeout_seconds = 30,
       hc_log_request_body = False, hc_log_response_body = False \<rparr>"

text \<open>Settings are any object; an attribute may be missing.\<close>

record http_settings = http_retry_settings +
  HTTP_CLIENT_TIMEOUT_SECONDS :: "rat option"
  HTTP_CLIENT_CONNECT_TIMEOUT_SECONDS :: "rat option"
  HTTP_CLIENT_READ_TIMEOUT_SECONDS :: "rat option"
  HTTP_CLIENT_WRITE_TIMEOUT_SECONDS :: "rat option"
  HTTP_CLIENT_POOL_MAX_CONNECTIONS :: "int option"
  HTTP_CLIENT_POOL_MAX_KEEPALIVE :: "int option"
  HTTP_CLIENT_RETRY_ENABLED :: "bool option"
  HTTP_CLIENT_CIRCUIT_BREAKER_ENABLED :: "bool option"
  HTTP_CLIENT_CIRCUIT_BREAKER_FAILURE_THRESHOLD :: "int option"
  HTTP_CLIENT_CIRCUIT_BREAKER_RECOVERY_TIMEOUT_SECONDS :: "rat option"
  HTTP_CLIENT_LOG_REQUEST_BODY :: "bool option"
  HTTP_CLIENT_LOG_RESPONSE_BODY :: "bool option"

text \<open>A keyword of a call.  The \<open>TypeError\<close> of a name that is no field of the class is \<open>Inl\<close> of the name.\<close>

datatype config_keyword =
    Kw_base_url string
  | Kw_timeout_seconds rat
  | Kw_connect_timeout_seconds rat
  | Kw_read_timeout_seconds rat
  | Kw_write_timeout_seconds rat
  | Kw_pool_max_connections int
  | Kw_pool_max_keepalive int
  | Kw_default_headers "(string \<times> string) list"
  | Kw_propagate_correlation bool
  | Kw_follow_redirects bool
  | Kw_retry_enabled bool
  | Kw_retry_max_attempts int
  | Kw_retry_backoff_base_seconds rat
  | Kw_retry_backoff_max_seconds rat
  | Kw_retry_backoff_multiplier rat
  | Kw_retry_backoff_jitter bool
  | Kw_circuit_breaker_enabled bool
  | Kw_circuit_breaker_failure_threshold int
  | Kw_circuit_breaker_recovery_timeout_seconds rat
  | Kw_log_request_body bool
  | Kw_log_response_body bool
  | Kw_unknown string

fun override_config :: "http_client_config \<Rightarrow> config_keyword \<Rightarrow> string + http_client_config" where
  "override_config cfg (Kw_base_url x) = Inr (cfg\<lparr> hc_base_url := x \<rparr>)"
| "override_config cfg (Kw_timeout_seconds x) = Inr (cfg\<lparr> hc_timeout_seconds := x \<rparr>)"
| "override_config cfg (Kw_connect_timeout_seconds x) = Inr (cfg\<lparr> hc_connect_timeout_seconds := x \<rparr>)"
| "override_config cfg (Kw_read_timeout_seconds x) = Inr (cfg\<lparr> hc_read_timeout_seconds := x \<rparr>)"
| "override_config cfg (Kw_write_timeout_seconds x) = Inr (cfg\<lparr> hc_write_timeout_seconds := x \<rparr>)"
| "override_config cfg (Kw_pool_max_connections x) = Inr (cfg\<lparr> hc_pool_max_connections := x \<rparr>)"
| "override_config cfg (Kw_pool_max_keepalive x) = Inr (cfg\<lparr> hc_pool_max_keepalive := x \<rparr>)"
| "override_config cfg (Kw_default_headers x) = Inr (cfg\<lparr> hc_default_headers := x \<rparr>)"
| "override_config cfg (Kw_propagate_correlation x) = Inr (cfg\<lparr> hc_propagate_correlation := x \<rparr>)"
| "override_config cfg (Kw_follow_redirects x) = Inr (cfg\<lparr> hc_follow_redirects := x \<rparr>)"
| "override_config cfg (Kw_retry_enabled x) = Inr (cfg\<lparr> hc_retry_enabled := x \<rparr>)"
| "override_config cfg (Kw_retry_max_attempts x) = Inr (cfg\<lparr> hc_retry_max_attempts := x \<rparr>)"
| "override_config cfg (Kw_retry_backoff_base_seconds x) = Inr (cfg\<lparr> hc_retry_backoff_base_seconds := x \<rparr>)"
| "override_config cfg (Kw_retry_backoff_max_seconds x) = Inr (cfg\<lparr> hc_retry_backoff_max_seconds := x \<rparr>)"
| "override_config cfg (Kw_retry_backoff_multiplier x) = Inr (cfg\<lparr> hc_retry_backoff_multiplier := x \<rparr>)"
| "override_config cfg (Kw_retry_backoff_jitter x) = Inr (cfg\<lparr> hc_retry_backoff_jitter := x \<rparr>)"
| "override_config cfg (Kw_circuit_breaker_enabled x) = Inr (cfg\<lparr> hc_circuit_breaker_enabled := x \<rparr>)"
| "override_config cfg (Kw_circuit_breaker_failure_threshold x) = Inr (cfg\<lparr> hc_circuit_breaker_failure_threshold := x \<rparr>)"
| "override_config cfg (Kw_circuit_breaker_recovery_timeout_seconds x) = Inr (cfg\<lparr> hc_circuit_breaker_recovery_timeout_seconds := x \<rparr>)"
| "override_config cfg (Kw_log_request_body x) = Inr (cfg\<lparr> hc_log_request_body := x \<rparr>)"
| "override_config cfg (Kw_log_response_body x) = Inr (cfg\<lparr> hc_log_response_body := x \<rparr>)"
| "override_config cfg (Kw_unknown name) = Inl name"

fun override_all :: "http_client_config \<Rightarrow> config_keyword list \<Rightarrow> string + http_client_config" where
  "override_all cfg [] = Inr cfg"
| "override_all cfg (kw # kws) = bind_sum (override_config cfg kw) (\<lambda>cfg'. override_all cfg' kws)"

definition build_config_from_settings :: "http_settings \<Rightarrow> config_keyword list \<Rightarrow> string + http_client_config" where
  "build_config_from_settings s overrides = override_all (default_http_client_config
     \<lparr> hc_timeout_seconds := or_default (HTTP_CLIENT_TIMEOUT_SECONDS s) 30,
       hc_connect_timeout_seconds := or_default (HTTP_CLIENT_CONNECT_TIMEOUT_SECONDS s) 10,
       hc_read_timeout_seconds := or_default (HTTP_CLIENT_READ_TIMEOUT_SECONDS s) 30,
       hc_write_timeout_seconds := or_default (HTTP_CLIENT_WRITE_TIMEOUT_SECONDS s) 30,
       hc_pool_max_connections := or_default (HTTP_CLIENT_POOL_MAX_CONNECTIONS s) 100,
       hc_pool_max_keepalive := or_default (HTTP_CLIENT_POOL_MAX_KEEPALIVE s) 20,
       hc_retry_enabled := or_default (HTTP_CLIENT_RETRY_ENABLED s) True,
       hc_retry_max_attempts := or_default (HTTP_CLIENT_RETRY_MAX_ATTEMPTS s) 3,
       hc_retry_backoff_base_seconds := or_default (HTTP_CLIENT_RETRY_BACKOFF_BASE_SECONDS s) 1,
       hc_retry_backoff_max_seconds := or_default (HTTP_CLIENT_RETRY_BACKOFF_MAX_SECONDS s) 30,
       hc_retry_backoff_multiplier := or_default (HTTP_CLIENT_RETRY_BACKOFF_MULTIPLIER s) 2,
       hc_retry_backoff_jitter := or_default (HTTP_CLIENT_RETRY_BACKOFF_JITTER s) True,
       hc_circuit_breaker_enabled := or_default (HTTP_CLIENT_CIRCUIT_BREAKER_ENABLED s) False,
       hc_circuit_breaker_failure_threshold := or_default (HTTP_CLIENT_CIRCUIT_BREAKER_FAILURE_THRESHOLD s) 5,
       hc_circuit_breaker_recovery_timeout_seconds := or_default (HTTP_CLIENT_CIRCUIT_BREAKER_RECOVERY_TIMEOUT_SECONDS s) 30,
       hc_log_request_body := or_default (HTTP_CLIENT_LOG_REQUEST_BODY s) False,
       hc_log_response_body := or_default (HTTP_CLIENT_LOG_RESPONSE_BODY s) False \<rparr>) overrides"

section \<open>The client object\<close>

record httpx_client =
  hx_base_url :: string
  hx_timeouts :: "rat \<times> rat \<times> rat \<times> rat"
  hx_limits :: "int \<times> int"
  hx_follow_redirects :: bool
  hx_headers :: "(string \<times> string) list"
  hx_open :: bool

record http_heap =
  hh_configs :: "http_client_config list"
  hh_clients :: "httpx_client list"

record 'w template_http_client =
  th_config :: nat
  th_request_hooks :: "'w request_hook list"
  th_response_hooks :: "'w response_hook list"
  th_external_client :: "nat option"
  th_owned_client :: "nat option"

text \<open>The constructor writes \<open>base_url\<close> into a configuration it is given.\<close>

definition new_template_http_client ::
  "nat option \<Rightarrow> string \<Rightarrow> 'w request_hook list \<Rightarrow> 'w response_hook list \<Rightarrow> nat option \<Rightarrow> http_heap
   \<Rightarrow> 'w template_http_client \<times> http_heap" where
  "new_template_http_client config base_url request_hooks response_hooks httpx_client h =
     (let (a, h1) = (case config of
            Some a \<Rightarrow> (a, h)
          | None \<Rightarrow> (length (hh_configs h),
              h\<lparr> hh_configs := hh_configs h @ [default_http_client_config\<lparr> hc_base_url := base_url \<rparr>] \<rparr>));
          h2 = (if base_url \<noteq> [] \<and> config = None then h1
                else if base_url \<noteq> [] \<and> config \<noteq> None
                then h1\<lparr> hh_configs := (hh_configs h1)[a := (hh_configs h1 ! a)\<lparr> hc_base_url := base_url \<rparr>] \<rparr>
                else h1)
      in (\<lparr> th_config = a, th_request_hooks = request_hooks, th_response_hooks = response_hooks,
            th_external_client = httpx_client, th_owned_client = None \<rparr>, h2))"

definition template_client_from_settings ::
  "http_settings \<Rightarrow> string \<Rightarrow> 'w request_hook list \<Rightarrow> 'w response_hook list \<Rightarrow> config_keyword list \<Rightarrow> http_heap
   \<Rightarrow> string + 'w template_http_client \<times> http_heap" where
  "template_client_from_settings s base_url request_hooks response_hooks config_overrides h =
     bind_sum (build_config_from_settings s (Kw_base_url base_url # config_overrides)) (\<lambda>config.
       Inr (new_template_http_client (Some (length (hh_configs h))) [] request_hooks response_hooks None
              (h\<lparr> hh_configs := hh_configs h @ [config] \<rparr>)))"

definition build_httpx_client :: "http_client_config \<Rightarrow> httpx_client" where
  "build_httpx_client cfg =
     \<lparr> hx_base_url = hc_base_url cfg,
       hx_timeouts = (hc_timeout_seconds cfg, hc_connect_timeout_seconds cfg, hc_read_timeout_seconds cfg, hc_write_timeout_seconds cfg),
       hx_limits = (hc_pool_max_connections cfg, hc_pool_max_keepalive cfg),
       hx_follow_redirects = hc_follow_redirects cfg, hx_headers = hc_default_headers cfg, hx_open = True \<rparr>"

definition underlying_client :: "'w template_http_client \<Rightarrow> http_heap \<Rightarrow> nat \<times> 'w template_http_client \<times> http_heap" where
  "underlying_client c h =
     (case th_external_client c of
        Some x \<Rightarrow> (x, c, h)
      | None \<Rightarrow>
          (case th_owned_client c of
             Some x \<Rightarrow> (x, c, h)
           | None \<Rightarrow>
               (let x = length (hh_clients h)
                in (x, c\<lparr> th_owned_client := Some x \<rparr>,
                    h\<lparr> hh_clients := hh_clients h @ [build_httpx_client (hh_configs h ! th_config c)] \<rparr>))))"

text \<open>A failing \<open>aclose\<close>, which raises and leaves the owned client set, is not modelled.\<close>

definition close_http_client :: "'w template_http_client \<Rightarrow> http_heap \<Rightarrow> 'w template_http_client \<times> http_heap" where
  "close_http_client c h =
     (case th_owned_client c of
        Some x \<Rightarrow> (c\<lparr> th_owned_client := None \<rparr>,
                   h\<lparr> hh_clients := (hh_clients h)[x := (hh_clients h ! x)\<lparr> hx_open := False \<rparr>] \<rparr>)
      | None \<Rightarrow> (c, h))"

text \<open>A request of the object: the hooks see the world, the transport also opens the client.\<close>

type_synonym 'w http_session = "'w \<times> 'w template_http_client \<times> http_heap"

definition lift_request_hook :: "'w request_hook \<Rightarrow> ('w http_session) request_hook" where
  "lift_request_hook hook meth url headers content = (\<lambda>(w, s). case hook meth url headers content w of (r, w') \<Rightarrow> (r, w', s))"

definition lift_response_hook :: "'w response_hook \<Rightarrow> ('w http_session) response_hook" where
  "lift_response_hook hook call = (\<lambda>(w, s). case hook call w of (r, w') \<Rightarrow> (r, w', s))"

definition send_on_client ::
  "(httpx_client \<Rightarrow> http_request \<Rightarrow> 'w \<Rightarrow> (httpx_exn + http_response) \<times> 'w) \<Rightarrow> http_request \<Rightarrow> 'w http_session
   \<Rightarrow> (httpx_exn + http_response) \<times> 'w http_session" where
  "send_on_client transport rq = (\<lambda>(w, c, h).
     case underlying_client c h of (x, c', h') \<Rightarrow>
       (case transport (hh_clients h' ! x) rq w of (outcome, w') \<Rightarrow> (outcome, w', c', h')))"

definition client_request ::
  "(httpx_client \<Rightarrow> http_request \<Rightarrow> 'w \<Rightarrow> (httpx_exn + http_response) \<times> 'w) \<Rightarrow> dict \<Rightarrow> bool \<Rightarrow> http_request
   \<Rightarrow> 'w http_session \<Rightarrow> (request_failure + http_response) \<times> 'w http_session" where
  "client_request transport ctxvars raise_codes rq = (\<lambda>(w, c, h).
     send_request (hh_configs h ! th_config c) (map lift_request_hook (th_request_hooks c))
       (map lift_response_hook (th_response_hooks c)) (send_on_client transport) ctxvars raise_codes rq (w, c, h))"

definition client_get where
  "client_get transport ctxvars raise_codes rq = client_request transport ctxvars raise_codes (rq\<lparr> rq_method := ''GET'' \<rparr>)"

definition client_post where
  "client_post transport ctxvars raise_codes rq = client_request transport ctxvars raise_codes (rq\<lparr> rq_method := ''POST'' \<rparr>)"

definition client_put where
  "client_put transport ctxvars raise_codes rq = client_request transport ctxvars raise_codes (rq\<lparr> rq_method := ''PUT'' \<rparr>)"

definition client_patch where
  "client_patch transport ctxvars raise_codes rq = client_request transport ctxvars raise_codes (rq\<lparr> rq_method := ''PATCH'' \<rparr>)"

definition client_delete where
  "client_delete transport ctxvars raise_codes rq = client_request transport ctxvars raise_codes (rq\<lparr> rq_method := ''DELETE'' \<rparr>)"

end
