(* ===== verification/Http_Session_Theorems.thy ===== *)
theory Http_Session_Theorems
  imports Http_Sessions
begin

text \<open>
  The client object: what its configuration is, which \<open>httpx\<close> clients it opens, and what a shared
  configuration does.
\<close>

section \<open>Configuration\<close>

definition template_settings :: "http_client_runtime_settings \<Rightarrow> http_settings" where
  "template_settings c =
     \<lparr> HTTP_CLIENT_RETRY_MAX_ATTEMPTS = Some (hc_RETRY_MAX_ATTEMPTS c),
       HTTP_CLIENT_RETRY_BACKOFF_BASE_SECONDS = Some (hc_RETRY_BACKOFF_BASE_SECONDS c),
       HTTP_CLIENT_RETRY_BACKOFF_MAX_SECONDS = Some (hc_RETRY_BACKOFF_MAX_SECONDS c),
       HTTP_CLIENT_RETRY_BACKOFF_MULTIPLIER = Some (hc_RETRY_BACKOFF_MULTIPLIER c),
       HTTP_CLIENT_RETRY_BACKOFF_JITTER = Some (hc_RETRY_BACKOFF_JITTER c),
       HTTP_CLIENT_TIMEOUT_SECONDS = Some (hc_TIMEOUT_SECONDS c),
       HTTP_CLIENT_CONNECT_TIMEOUT_SECONDS = Some (hc_CONNECT_TIMEOUT_SECONDS c),
       HTTP_CLIENT_READ_TIMEOUT_SECONDS = Some (hc_READ_TIMEOUT_SECONDS c),
       HTTP_CLIENT_WRITE_TIMEOUT_SECONDS = Some (hc_WRITE_TIMEOUT_SECONDS c),
       HTTP_CLIENT_POOL_MAX_CONNECTIONS = Some (hc_POOL_MAX_CONNECTIONS c),
       HTTP_CLIENT_POOL_MAX_KEEPALIVE = Some (hc_POOL_MAX_KEEPALIVE c),
       HTTP_CLIENT_RETRY_ENABLED = Some (hc_RETRY_ENABLED c),
       HTTP_CLIENT_CIRCUIT_BREAKER_ENABLED = Some (hc_CIRCUIT_BREAKER_ENABLED c),
       HTTP_CLIENT_CIRCUIT_BREAKER_FAILURE_THRESHOLD = Some (hc_CIRCUIT_BREAKER_FAILURE_THRESHOLD c),
       HTTP_CLIENT_CIRCUIT_BREAKER_RECOVERY_TIMEOUT_SECONDS = Some (hc_CIRCUIT_BREAKER_RECOVERY_TIMEOUT_SECONDS c),
       HTTP_CLIENT_LOG_REQUEST_BODY = Some (hc_LOG_REQUEST_BODY c),
       HTTP_CLIENT_LOG_RESPONSE_BODY = Some (hc_LOG_RESPONSE_BODY c) \<rparr>"

text \<open>The defaults are written three times (class, settings, fall-back of a missing attribute) and
  agree.\<close>

lemma defaults_agree:
  "build_config_from_settings (template_settings http_client_defaults) [] = Inr default_http_client_config"
  by (simp add: build_config_from_settings_def template_settings_def http_client_defaults_def or_default_def
      default_http_client_config_def)

lemma validated_settings_are_sane:
  assumes "http_client_fields_ok c" "validate_http_client_settings c = Inr c'"
  shows "sane_http_policy (build_retry_policy_from_settings
    (http_retry_settings.truncate (template_settings c')))"
  using assms
  by (auto simp: validate_http_client_settings_def http_client_fields_ok_def sane_http_policy_def or_default_def
      build_retry_policy_from_settings_def default_http_retry_policy_def template_settings_def
      http_retry_settings.truncate_def split: if_splits)

section \<open>Opening and closing\<close>

lemma run_lifted_request_hooks:
  "run_request_hooks (map lift_request_hook hooks) meth url content headers (w, s) =
    (case run_request_hooks hooks meth url content headers w of (r, w') \<Rightarrow> (r, w', s))"
  by (induction hooks meth url content headers w rule: run_request_hooks.induct)
    (auto simp: lift_request_hook_def split: prod.splits sum.splits)

lemma run_lifted_response_hooks:
  "run_response_hooks (map lift_response_hook hooks) call (w, s) = (run_response_hooks hooks call w, s)"
  by (induction hooks call w rule: run_response_hooks.induct)
    (auto simp: lift_response_hook_def split: prod.splits option.splits)

lemma request_opens_at_most_the_client:
  assumes "client_request transport ctxvars raise_codes rq (w, c, h) = (r, w', c', h')"
  shows "(c', h') = (c, h) \<or> (c', h') = snd (underlying_client c h)"
  using assms
  by (auto simp: client_request_def send_request_def run_lifted_request_hooks run_lifted_response_hooks send_on_client_def
      Let_def split: prod.splits sum.splits option.splits)

datatype client_op = Request bool http_request | Close

fun client_run ::
  "(httpx_client \<Rightarrow> http_request \<Rightarrow> 'w \<Rightarrow> (httpx_exn + http_response) \<times> 'w) \<Rightarrow> dict \<Rightarrow> client_op list \<Rightarrow> 'w http_session
   \<Rightarrow> 'w http_session" where
  "client_run transport ctxvars [] s = s"
| "client_run transport ctxvars (Request raise_codes rq # xs) s =
     client_run transport ctxvars xs (snd (client_request transport ctxvars raise_codes rq s))"
| "client_run transport ctxvars (Close # xs) (w, c, h) =
     (case close_http_client c h of (c', h') \<Rightarrow> client_run transport ctxvars xs (w, c', h'))"

definition opened_since :: "http_heap \<Rightarrow> 'w template_http_client \<Rightarrow> http_heap \<Rightarrow> bool" where
  "opened_since h0 c h \<longleftrightarrow>
     hh_configs h = hh_configs h0
     \<and> (\<exists>xs. hh_clients h = hh_clients h0 @ xs
          \<and> (\<forall>i < length xs. (xs ! i)\<lparr> hx_open := True \<rparr> = build_httpx_client (hh_configs h0 ! th_config c)
               \<and> (hx_open (xs ! i) \<longleftrightarrow> th_owned_client c = Some (length (hh_clients h0) + i)))
          \<and> (\<forall>x. th_owned_client c = Some x \<longrightarrow> th_external_client c = None
               \<and> length (hh_clients h0) \<le> x \<and> x < length (hh_clients h0) + length xs))"

lemma build_is_open [simp]:
  "(build_httpx_client cfg)\<lparr> hx_open := True \<rparr> = build_httpx_client cfg" "hx_open (build_httpx_client cfg)"
  by (simp_all add: build_httpx_client_def)

lemma opening_keeps: "opened_since h0 c h \<Longrightarrow> underlying_client c h = (x, c', h') \<Longrightarrow>
    opened_since h0 c' h' \<and> th_external_client c' = th_external_client c \<and> th_config c' = th_config c"
  by (auto simp: opened_since_def underlying_client_def Let_def nth_append less_Suc_eq split: option.splits)

lemma closing_keeps:
  assumes "opened_since h0 c h" "close_http_client c h = (c', h')"
  shows "opened_since h0 c' h' \<and> th_external_client c' = th_external_client c \<and> th_config c' = th_config c
    \<and> th_owned_client c' = None"
proof (cases "th_owned_client c")
  case (Some x)
  then obtain xs where xs: "hh_clients h = hh_clients h0 @ xs" "hh_configs h = hh_configs h0"
    and each: "\<And>i. i < length xs \<Longrightarrow> (xs ! i)\<lparr> hx_open := True \<rparr> = build_httpx_client (hh_configs h0 ! th_config c)
      \<and> (hx_open (xs ! i) \<longleftrightarrow> x = length (hh_clients h0) + i)"
    and x: "length (hh_clients h0) \<le> x" "x < length (hh_clients h0) + length xs"
    using assms(1) by (auto simp: opened_since_def)
  then obtain k where k: "x = length (hh_clients h0) + k" "k < length xs" by (metis le_Suc_ex nat_add_left_cancel_less)
  let ?ys = "xs[k := (xs ! k)\<lparr> hx_open := False \<rparr>]"
  have h': "hh_clients h' = hh_clients h0 @ ?ys" "hh_configs h' = hh_configs h0"
    and c': "c' = c\<lparr> th_owned_client := None \<rparr>"
    using assms(2) Some by (auto simp: close_http_client_def xs k list_update_append)
  have "\<forall>i < length ?ys. (?ys ! i)\<lparr> hx_open := True \<rparr> = build_httpx_client (hh_configs h0 ! th_config c) \<and> \<not> hx_open (?ys ! i)"
    using each k by (auto simp: nth_list_update)
  then show ?thesis unfolding opened_since_def h' c' by auto
qed (use assms in \<open>auto simp: close_http_client_def\<close>)

lemma request_keeps:
  assumes "opened_since h0 c h" "client_request transport ctxvars raise_codes rq (w, c, h) = (r, v, d, g)"
  shows "opened_since h0 d g \<and> th_external_client d = th_external_client c \<and> th_config d = th_config c"
proof -
  obtain x c' h' where u: "underlying_client c h = (x, c', h')" by (cases "underlying_client c h") blast
  show ?thesis using request_opens_at_most_the_client [OF assms(2)]
  proof
    assume "(d, g) = (c, h)"
    then show ?thesis using assms(1) by simp
  next
    assume "(d, g) = snd (underlying_client c h)"
    then show ?thesis using opening_keeps [OF assms(1) u] by (simp add: u)
  qed
qed

lemma run_keeps:
  "opened_since h0 c h \<Longrightarrow> client_run transport ctxvars ops (w, c, h) = (w', c', h') \<Longrightarrow>
    opened_since h0 c' h' \<and> th_external_client c' = th_external_client c \<and> th_config c' = th_config c"
proof (induction ops arbitrary: w c h)
  case (Cons op ops)
  show ?case
  proof (cases op)
    case (Request raise_codes rq)
    obtain r v d g where s: "client_request transport ctxvars raise_codes rq (w, c, h) = (r, v, d, g)"
      by (cases "client_request transport ctxvars raise_codes rq (w, c, h)") blast
    have "opened_since h0 d g \<and> th_external_client d = th_external_client c \<and> th_config d = th_config c"
      by (rule request_keeps [OF Cons.prems(1) s])
    with Cons.IH [of d g v] show ?thesis using Cons.prems(2) by (simp add: Request s)
  next
    case Close
    obtain d g where s: "close_http_client c h = (d, g)" by fastforce
    from Cons.IH [of d g w] show ?thesis
      using Cons.prems closing_keeps [OF Cons.prems(1) s] by (simp add: Close s)
  qed
qed simp

text \<open>C34: A client closes what it opened, and nothing else.  Whatever requests and closes a client has
  served since it was made, the \<open>httpx\<close> clients of others, one given to it included, are as they
  were; at most one that it opened is open, none if it was given one; and after a close none is.\<close>

theorem http_client_closes_what_it_opened:
  assumes "new_template_http_client config base_url request_hooks response_hooks given h = (c, h0)"
    and "client_run transport ctxvars ops (w, c, h0) = (w', c', h')"
    and "close_http_client c' h' = (c'', h'')"
  shows "take (length (hh_clients h)) (hh_clients h'') = hh_clients h
    \<and> filter hx_open (drop (length (hh_clients h)) (hh_clients h'')) = []
    \<and> length (filter hx_open (drop (length (hh_clients h)) (hh_clients h'))) \<le> (if given = None then 1 else 0)"
proof -
  have h0: "hh_clients h0 = hh_clients h" "th_external_client c = given" "th_owned_client c = None"
    using assms(1) by (auto simp: new_template_http_client_def Let_def split: option.splits if_splits)
  then have inv: "opened_since h0 c h0" by (simp add: opened_since_def)
  note run = run_keeps [OF inv assms(2)]
  note shut = closing_keeps [OF conjunct1 [OF run] assms(3)]
  obtain ys where ys: "hh_clients h'' = hh_clients h @ ys" "\<forall>i < length ys. \<not> hx_open (ys ! i)"
    using shut by (auto simp: opened_since_def h0)
  obtain xs where xs: "hh_clients h' = hh_clients h @ xs"
    and owner: "\<And>i. i < length xs \<Longrightarrow> hx_open (xs ! i) \<longleftrightarrow> th_owned_client c' = Some (length (hh_clients h) + i)"
    and alone: "\<And>x. th_owned_client c' = Some x \<Longrightarrow> given = None"
    using run by (auto simp: opened_since_def h0)
  have "length (filter hx_open xs) \<le> (if given = None then 1 else 0)"
  proof (cases "th_owned_client c'")
    case None
    then have "filter hx_open xs = []" using owner by (auto simp: filter_empty_conv in_set_conv_nth)
    then show ?thesis by simp
  next
    case (Some x)
    then have "{i. i < length xs \<and> hx_open (xs ! i)} \<subseteq> {x - length (hh_clients h)}" using owner by auto
    from card_mono [OF _ this] show ?thesis using alone [OF Some] by (simp add: length_filter_conv_card)
  qed
  moreover have "filter hx_open ys = []" using ys(2) by (auto simp: filter_empty_conv in_set_conv_nth)
  ultimately show ?thesis by (simp add: xs ys(1))
qed

definition timeouts_only :: "httpx_client \<Rightarrow> http_request \<Rightarrow> unit \<Rightarrow> (httpx_exn + http_response) \<times> unit" where
  "timeouts_only x rq w = (Inl (Httpx_Timeout ''slow''), w)"

definition a_request :: http_request where
  "a_request = \<lparr> rq_method = ''GET'', rq_url = ''/users'', rq_headers = [], rq_params = [], rq_json = None,
     rq_content = None, rq_data = [] \<rparr>"

theorem http_client_closes_what_it_opened_witness:
  "case new_template_http_client None ''https://api.example.com'' [] [] None \<lparr> hh_configs = [], hh_clients = [] \<rparr> of (c, h0) \<Rightarrow>
    (case client_run timeouts_only [] [Request True a_request] ((), c, h0) of (w', c', h') \<Rightarrow>
      map hx_open (hh_clients h') = [True]
      \<and> (case close_http_client c' h' of (c'', h'') \<Rightarrow> filter hx_open (hh_clients h'') = []))"
proof -
  let ?empty = "\<lparr> hh_configs = [], hh_clients = [] \<rparr>"
  obtain c :: "unit template_http_client" and h0 where n: "new_template_http_client None ''https://api.example.com'' [] [] None ?empty = (c, h0)" by fastforce
  obtain w' c' h' where r: "client_run timeouts_only [] [Request True a_request] ((), c, h0) = (w', c', h')"
    by (cases "client_run timeouts_only [] [Request True a_request] ((), c, h0)") blast
  obtain c'' h'' where z: "close_http_client c' h' = (c'', h'')" by fastforce
  have "filter hx_open (hh_clients h'') = []"
    using http_client_closes_what_it_opened [OF n r z] by simp
  moreover have "map hx_open (hh_clients h') = [True]"
    using n r by (auto simp: new_template_http_client_def client_request_def send_request_def send_on_client_def
        timeouts_only_def underlying_client_def try_request_def Let_def)
  ultimately show ?thesis by (simp only: n r z prod.case simp_thms)
qed

section \<open>Shared configurations\<close>

text \<open>A configuration is called immutable; but a client that is made from one and a base URL
  writes the URL into it, for every client that holds it and has not opened its connection yet.\<close>

lemma shared_configuration_redirects:
  assumes "config < length (hh_configs h)" "base_url \<noteq> []" "th_config c = config" "th_external_client c = None"
    and "new_template_http_client (Some config) base_url request_hooks response_hooks given h = (d, h1)"
    and "underlying_client c h1 = (x, c', h2)"
  shows "hx_base_url (hh_clients h2 ! x) =
    (case th_owned_client c of None \<Rightarrow> base_url | Some y \<Rightarrow> hx_base_url (hh_clients h ! y))"
  using assms
  by (auto simp: new_template_http_client_def underlying_client_def build_httpx_client_def Let_def split: option.splits)

end
