(* ===== verification/Schemas.thy ===== *)
theory Schemas
  imports Orm_Models Domain_Services
begin

text \<open>
  schemas/*.py and the form of admin/views.py: what a request body must satisfy.

  A class is read as its declaration says: the fields that must be present, those that may be,
  whether other keys are refused, and for each field the values that it admits.  A text field admits
  JSON strings only, in the range of lengths and with the pattern of its declaration.  Which strings
  are addresses and which values are read as integers is the library's, an argument.  The lemmas
  say which passwords and names are admitted, and whether an accepted body fits its table.
\<close>

section \<open>Patterns\<close>

text \<open>The regular expressions that the schemas use.  A position in a text is the text before it,
  empty or not, and the rest; \<open>positions\<close> lists where a match that begins at a position can end.\<close>

datatype pattern =
    Begin
  | Finish
  | Many nat "char \<Rightarrow> bool"
  | Once "char \<Rightarrow> bool"
  | Literal string
  | Seq pattern pattern
  | Alt pattern pattern

type_synonym position = "bool \<times> string"

definition advance_by :: "position \<Rightarrow> nat \<Rightarrow> position" where
  "advance_by x n = (fst x \<and> n = 0, drop n (snd x))"

fun positions :: "pattern \<Rightarrow> position \<Rightarrow> position list" where
  "positions Begin x = (if fst x then [x] else [])"
| "positions Finish x = (if snd x = [] then [x] else [])"
| "positions (Many n p) x = map (advance_by x) (filter (\<lambda>k. n \<le> k) [0..<Suc (length (takeWhile p (snd x)))])"
| "positions (Once p) x = (case snd x of c # cs \<Rightarrow> if p c then [advance_by x 1] else [] | [] \<Rightarrow> [])"
| "positions (Literal s) x = (if take (length s) (snd x) = s then [advance_by x (length s)] else [])"
| "positions (Seq p q) x = concat (map (positions q) (positions p x))"
| "positions (Alt p q) x = positions p x @ positions q x"

definition is_match :: "pattern \<Rightarrow> string \<Rightarrow> bool" where
  "is_match p s = list_ex (\<lambda>k. positions p (advance_by (True, s) k) \<noteq> []) [0..<Suc (length s)]"

definition in_range :: "char \<Rightarrow> char \<Rightarrow> char \<Rightarrow> bool" where
  "in_range a b c \<longleftrightarrow> of_char a \<le> (of_char c :: nat) \<and> (of_char c :: nat) \<le> of_char b"

definition is_az :: "char \<Rightarrow> bool" where "is_az = in_range (CHR ''a'') (CHR ''z'')"
definition is_AZ :: "char \<Rightarrow> bool" where "is_AZ = in_range (CHR ''A'') (CHR ''Z'')"
definition is_09 :: "char \<Rightarrow> bool" where "is_09 = in_range (CHR ''0'') (CHR ''9'')"

text \<open>\<open>\s\<close> of the regular expressions.\<close>

definition is_white :: "char \<Rightarrow> bool" where
  "is_white c \<longleftrightarrow> (let n = of_char c :: nat in 9 \<le> n \<and> n \<le> 13 \<or> n = 32 \<or> n = 133 \<or> n = 160)"

definition username_pattern :: pattern where
  "username_pattern = Seq Begin (Seq (Many 1 (\<lambda>c. is_az c \<or> is_09 c)) Finish)"

definition password_pattern :: pattern where
  "password_pattern =
     Alt (Seq Begin (Many 8 (\<lambda>c. c \<noteq> CHR 0x0A)))
    (Alt (Many 1 is_09)
    (Alt (Many 1 is_AZ)
    (Alt (Many 1 is_az)
         (Seq (Many 1 (\<lambda>c. \<not> is_az c \<and> \<not> is_AZ c \<and> \<not> is_09 c)) Finish))))"

definition url_pattern :: pattern where
  "url_pattern =
     Seq Begin (Seq (Alt (Alt (Literal ''http'') (Literal ''https'')) (Literal ''ftp'')) (Seq (Literal ''://'')
       (Seq (Once (\<lambda>c. \<not> is_white c \<and> c \<notin> set ''/$.?#'')) (Seq (Once (\<lambda>c. c \<noteq> CHR 0x0A))
       (Seq (Many 0 (\<lambda>c. \<not> is_white c)) Finish)))))"

section \<open>Declarations\<close>

type_synonym field_check = "json \<Rightarrow> bool"

record body_schema =
  bs_required :: "(string \<times> field_check) list"
  bs_optional :: "(string \<times> field_check) list"
  bs_forbid_extra :: bool

record schema_lib =
  sl_email :: "string \<Rightarrow> bool"
  sl_int :: "json \<Rightarrow> bool"

definition accepts :: "body_schema \<Rightarrow> dict \<Rightarrow> bool" where
  "accepts sch body \<longleftrightarrow>
     list_all (\<lambda>(k, ok). case map_of body k of Some v \<Rightarrow> ok v | None \<Rightarrow> False) (bs_required sch) \<and>
     list_all (\<lambda>(k, ok). case map_of body k of Some v \<Rightarrow> ok v | None \<Rightarrow> True) (bs_optional sch) \<and>
     (bs_forbid_extra sch \<longrightarrow> list_all (\<lambda>(k, v). k \<in> set (map fst (bs_required sch @ bs_optional sch))) body)"

definition str_field :: "(string \<Rightarrow> bool) \<Rightarrow> field_check" where
  "str_field ok v = (case v of JStr s \<Rightarrow> ok s | _ \<Rightarrow> False)"

definition or_null :: "field_check \<Rightarrow> field_check" where
  "or_null ok v = (v = JNull \<or> ok v)"

definition sized :: "nat \<Rightarrow> nat \<Rightarrow> string \<Rightarrow> bool" where
  "sized a b s \<longleftrightarrow> a \<le> length s \<and> length s \<le> b"

definition name_field :: field_check where
  "name_field = str_field (sized 2 30)"

definition username_field :: field_check where
  "username_field = str_field (\<lambda>s. sized 2 20 s \<and> is_match username_pattern s)"

definition email_field :: "schema_lib \<Rightarrow> field_check" where
  "email_field lib = str_field (sl_email lib)"

definition url_field :: field_check where
  "url_field = str_field (is_match url_pattern)"

definition title_field :: field_check where
  "title_field = str_field (sized 2 30)"

definition text_field :: field_check where
  "text_field = str_field (sized 1 63206)"

definition any_text :: field_check where
  "any_text = str_field (\<lambda>s. True)"

definition UserBase_fields :: "schema_lib \<Rightarrow> (string \<times> field_check) list" where
  "UserBase_fields lib = [(''name'', name_field), (''username'', username_field), (''email'', email_field lib)]"

definition UserRead_schema :: "schema_lib \<Rightarrow> body_schema" where
  "UserRead_schema lib =
     \<lparr> bs_required = [(''id'', sl_int lib), (''name'', name_field), (''username'', username_field), (''email'', email_field lib),
         (''profile_image_url'', any_text), (''tier_id'', or_null (sl_int lib))],
       bs_optional = [], bs_forbid_extra = False \<rparr>"

definition UserCreate_schema :: "schema_lib \<Rightarrow> body_schema" where
  "UserCreate_schema lib =
     \<lparr> bs_required = UserBase_fields lib @ [(''password'', str_field (is_match password_pattern))],
       bs_optional = [], bs_forbid_extra = True \<rparr>"

definition UserCreateInternal_schema :: "schema_lib \<Rightarrow> body_schema" where
  "UserCreateInternal_schema lib =
     \<lparr> bs_required = UserBase_fields lib @ [(''hashed_password'', any_text)], bs_optional = [], bs_forbid_extra = False \<rparr>"

definition UserUpdate_schema :: "schema_lib \<Rightarrow> body_schema" where
  "UserUpdate_schema lib =
     \<lparr> bs_required = [],
       bs_optional = [(''name'', or_null name_field), (''username'', or_null username_field),
         (''email'', or_null (email_field lib)), (''profile_image_url'', or_null url_field)],
       bs_forbid_extra = True \<rparr>"

definition UserTierUpdate_schema :: "schema_lib \<Rightarrow> body_schema" where
  "UserTierUpdate_schema lib = \<lparr> bs_required = [(''tier_id'', sl_int lib)], bs_optional = [], bs_forbid_extra = False \<rparr>"

definition PostCreate_schema :: body_schema where
  "PostCreate_schema =
     \<lparr> bs_required = [(''title'', title_field), (''text'', text_field)],
       bs_optional = [(''media_url'', or_null url_field)], bs_forbid_extra = True \<rparr>"

definition PostUpdate_schema :: body_schema where
  "PostUpdate_schema =
     \<lparr> bs_required = [],
       bs_optional = [(''title'', or_null title_field), (''text'', or_null text_field), (''media_url'', or_null url_field)],
       bs_forbid_extra = True \<rparr>"

definition PostCreateAdmin_schema :: "schema_lib \<Rightarrow> body_schema" where
  "PostCreateAdmin_schema lib =
     \<lparr> bs_required = [(''title'', title_field), (''text'', text_field), (''created_by_user_id'', sl_int lib)],
       bs_optional = [(''media_url'', or_null url_field)], bs_forbid_extra = False \<rparr>"

definition TierCreate_schema :: body_schema where
  "TierCreate_schema = \<lparr> bs_required = [(''name'', any_text)], bs_optional = [], bs_forbid_extra = False \<rparr>"

definition TierUpdate_schema :: body_schema where
  "TierUpdate_schema = \<lparr> bs_required = [], bs_optional = [(''name'', or_null any_text)], bs_forbid_extra = False \<rparr>"

definition RateLimitCreate_schema :: "schema_lib \<Rightarrow> body_schema" where
  "RateLimitCreate_schema lib =
     \<lparr> bs_required = [(''path'', any_text), (''limit'', sl_int lib), (''period'', sl_int lib)],
       bs_optional = [(''name'', or_null any_text)], bs_forbid_extra = True \<rparr>"

definition RateLimitUpdate_schema :: "schema_lib \<Rightarrow> body_schema" where
  "RateLimitUpdate_schema lib =
     \<lparr> bs_required = [],
       bs_optional = [(''path'', or_null any_text), (''limit'', or_null (sl_int lib)), (''period'', or_null (sl_int lib)),
         (''name'', or_null any_text)],
       bs_forbid_extra = False \<rparr>"

section \<open>What the patterns admit\<close>

lemma is_match_iff: "is_match p s \<longleftrightarrow> (\<exists>k y. k \<le> length s \<and> y \<in> set (positions p (advance_by (True, s) k)))"
  unfolding is_match_def list_ex_iff by (metis atLeastLessThan_iff le0 less_Suc_eq_le list.set_intros(1) neq_Nil_conv empty_iff
      empty_set set_upt)

lemma set_positions_Many:
  "set (positions (Many n f) x) = {advance_by x j |j. n \<le> j \<and> j \<le> length (takeWhile f (snd x))}"
  by (auto simp: less_Suc_eq_le image_iff simp del: upt_Suc)

lemma set_positions_Seq [simp]: "set (positions (Seq p q) x) = (\<Union>y \<in> set (positions p x). set (positions q y))"
  by simp

lemma set_positions_Alt [simp]: "set (positions (Alt p q) x) = set (positions p x) \<union> set (positions q x)"
  by simp

lemma set_positions_Begin [simp]: "set (positions Begin x) = (if fst x then {x} else {})"
  by (cases "fst x") simp_all

lemma set_positions_Finish [simp]: "set (positions Finish x) = (if snd x = [] then {x} else {})"
  by (cases "snd x") simp_all

declare set_positions_Many [simp]

declare positions.simps(1-3,6,7) [simp del]

lemma advance_by_simps [simp]: "snd (advance_by x n) = drop n (snd x)" "fst (advance_by x n) = (fst x \<and> n = 0)"
  by (simp_all add: advance_by_def)

lemma is_match_Alt: "is_match (Alt p q) s \<longleftrightarrow> is_match p s \<or> is_match q s"
  by (auto simp: is_match_iff)

lemma is_match_class: "is_match (Many 1 p) s \<longleftrightarrow> (\<exists>c \<in> set s. p c)"
proof
  assume "is_match (Many 1 p) s"
  then obtain k j where "1 \<le> j" "j \<le> length (takeWhile p (drop k s))" by (auto simp: is_match_iff)
  then have "takeWhile p (drop k s) \<noteq> []" by auto
  then have "hd (takeWhile p (drop k s)) \<in> set (takeWhile p (drop k s))" by (rule hd_in_set)
  then show "\<exists>c \<in> set s. p c" by (meson in_set_dropD set_takeWhileD)
next
  assume "\<exists>c \<in> set s. p c"
  then obtain k where k: "k < length s" "p (s ! k)" by (auto simp: in_set_conv_nth)
  then have "1 \<le> length (takeWhile p (drop k s))" by (simp add: Cons_nth_drop_Suc [symmetric])
  with k show "is_match (Many 1 p) s" unfolding is_match_iff
    by (intro exI [of _ k] exI [of _ "advance_by (advance_by (True, s) k) 1"]) auto
qed

lemma is_match_last:
  assumes "s \<noteq> []" "p (last s)"
  shows "is_match (Seq (Many 1 p) Finish) s"
proof -
  let ?k = "length s - 1"
  have d: "drop ?k s = [last s]" using assms(1) by (cases s rule: rev_cases) auto
  then have "1 \<le> length (takeWhile p (drop ?k s))" using assms(2) by simp
  then show ?thesis using d assms(2) unfolding is_match_iff
    by (intro exI [of _ ?k] exI [of _ "advance_by (advance_by (True, s) ?k) 1"]) auto
qed

lemma is_match_whole: "is_match (Seq Begin (Seq (Many 1 p) Finish)) s \<longleftrightarrow> s \<noteq> [] \<and> (\<forall>c \<in> set s. p c)"
proof -
  have "is_match (Seq Begin (Seq (Many 1 p) Finish)) s \<longleftrightarrow> (\<exists>j. 1 \<le> j \<and> j \<le> length (takeWhile p s) \<and> length s \<le> j)"
    by (auto simp: is_match_iff advance_by_def split: if_splits)
  also have "\<dots> \<longleftrightarrow> s \<noteq> [] \<and> length (takeWhile p s) = length s"
    using length_takeWhile_le [of p s] by (cases s) auto
  also have "length (takeWhile p s) = length s \<longleftrightarrow> takeWhile p s = s"
    by (metis append_eq_conv_conj takeWhile_eq_take take_all_iff order_refl)
  finally show ?thesis by (simp add: takeWhile_eq_all_conv)
qed

text \<open>C39: Any password that is not empty is accepted.  The pattern of the password is meant to demand
  eight characters of several kinds; but its alternatives are joined by or, and a single digit,
  letter or other character satisfies one of them.\<close>

theorem any_password_is_accepted: "is_match password_pattern s \<longleftrightarrow> s \<noteq> []"
proof
  assume "is_match password_pattern s"
  then show "s \<noteq> []" by (auto simp: password_pattern_def is_match_iff)
next
  assume s: "s \<noteq> []"
  then have "last s \<in> set s" by simp
  then show "is_match password_pattern s"
    using is_match_last [OF s, of "\<lambda>c. \<not> is_az c \<and> \<not> is_AZ c \<and> \<not> is_09 c"]
    unfolding password_pattern_def is_match_Alt is_match_class by blast
qed

text \<open>A user name is made of lower-case letters and digits, so it is one segment of a path.\<close>

lemma username_field_iff: "username_field v \<longleftrightarrow>
    (\<exists>s. v = JStr s \<and> 2 \<le> length s \<and> length s \<le> 20 \<and> (\<forall>c \<in> set s. is_az c \<or> is_09 c))"
proof -
  have "is_match username_pattern s \<longleftrightarrow> s \<noteq> [] \<and> (\<forall>c \<in> set s. is_az c \<or> is_09 c)" for s
    unfolding username_pattern_def by (rule is_match_whole)
  then show ?thesis by (cases v) (auto simp: username_field_def str_field_def sized_def)
qed

section \<open>Bodies and columns\<close>

definition fits :: "orm_model \<Rightarrow> dict \<Rightarrow> bool" where
  "fits d body \<longleftrightarrow> list_all (\<lambda>m. case (mp_type m, map_of body (mp_name m)) of
     (Some (String_Column (Some n)), Some (JStr s)) \<Rightarrow> length s \<le> n | _ \<Rightarrow> True) (md_columns d)"

lemmas schema_defs =
  accepts_def fits_def UserBase_fields_def name_field_def email_field_def title_field_def text_field_def any_text_def
  str_field_def or_null_def sized_def UserCreate_schema_def UserUpdate_schema_def UserRead_schema_def PostCreate_schema_def
  PostUpdate_schema_def PostCreateAdmin_schema_def

lemma accepted_user_fits:
  assumes "accepts (UserCreate_schema lib) body" "map_of body ''email'' = Some (JStr e)"
  shows "fits User_model body \<longleftrightarrow> length e \<le> 50"
  using assms by (auto simp: schema_defs User_model_def mapped_def username_field_iff split: option.splits json.splits)

lemma accepted_post_fits:
  assumes "accepts PostCreate_schema body \<or> accepts PostUpdate_schema body \<or> accepts (PostCreateAdmin_schema lib) body"
  shows "fits Post_model body"
  using assms by (auto simp: schema_defs Post_model_def mapped_def split: option.splits json.splits)

text \<open>C40: Accepted bodies fit their tables, but for the email.  The texts of an accepted body of a post
  are no longer than the columns that store them.  So are those of an accepted new user exactly when
  the email has at most fifty characters, which the declaration does not ask for.\<close>

theorem accepted_bodies_fit_their_columns:
  "(accepts (UserCreate_schema lib) user \<longrightarrow> map_of user ''email'' = Some (JStr e) \<longrightarrow>
      (fits User_model user \<longleftrightarrow> length e \<le> 50))
    \<and> (accepts PostCreate_schema post \<or> accepts PostUpdate_schema post \<or> accepts (PostCreateAdmin_schema lib) post \<longrightarrow>
      fits Post_model post)"
  using accepted_user_fits accepted_post_fits by blast

definition demo_schema_lib :: schema_lib where
  "demo_schema_lib = \<lparr> sl_email = (\<lambda>s. CHR ''@'' \<in> set s), sl_int = (\<lambda>v. case v of JInt _ \<Rightarrow> True | _ \<Rightarrow> False) \<rparr>"

definition long_email :: string where
  "long_email = replicate 50 (CHR ''a'') @ ''@b.c''"

theorem accepted_bodies_fit_their_columns_witness:
  "accepts (UserCreate_schema demo_schema_lib)
     [(''name'', JStr ''Ann''), (''username'', JStr ''ann''), (''email'', JStr long_email), (''password'', JStr ''1'')]
    \<and> \<not> fits User_model
     [(''name'', JStr ''Ann''), (''username'', JStr ''ann''), (''email'', JStr long_email), (''password'', JStr ''1'')]
    \<and> fits Post_model [(''title'', JStr ''News'')]"
proof -
  let ?user = "[(''name'', JStr ''Ann''), (''username'', JStr ''ann''), (''email'', JStr long_email), (''password'', JStr ''1'')]"
  have "is_match password_pattern ''1''"
    unfolding password_pattern_def is_match_Alt is_match_class by (simp add: is_09_def in_range_def)
  moreover have "username_field (JStr ''ann'')" by (simp add: username_field_iff is_az_def in_range_def)
  ultimately have user: "accepts (UserCreate_schema demo_schema_lib) ?user"
    by (simp add: schema_defs demo_schema_lib_def long_email_def)
  have post: "accepts PostUpdate_schema [(''title'', JStr ''News'')]" by (simp add: schema_defs)
  have long: "length long_email = 54" by (simp add: long_email_def)
  have email: "map_of ?user ''email'' = Some (JStr long_email)" by simp
  note fit = accepted_bodies_fit_their_columns [of demo_schema_lib ?user long_email "[(''title'', JStr ''News'')]"]
  have "\<not> fits User_model ?user" using conjunct1 [OF fit] user email long by simp
  moreover have "fits Post_model [(''title'', JStr ''News'')]" using conjunct2 [OF fit] post by blast
  ultimately show ?thesis using user by blast
qed

text \<open>An update may carry an explicit null for a column that admits none.\<close>

lemma accepted_null_has_no_column:
  "accepts (UserUpdate_schema lib) [(''name'', JNull)] \<and> accepts PostUpdate_schema [(''title'', JNull)]"
  "list_all (\<lambda>m. mp_name m = ''name'' \<longrightarrow> \<not> mp_optional m) (md_columns User_model)"
  "list_all (\<lambda>m. mp_name m = ''title'' \<longrightarrow> \<not> mp_optional m) (md_columns Post_model)"
  by (simp_all add: schema_defs User_model_def Post_model_def mapped_def)

text \<open>A user who was accepted can be shown: the row satisfies the declaration of the response.\<close>

lemma created_user_is_readable:
  assumes "accepts (UserCreate_schema lib) body" "sl_int lib i" "list_all (\<lambda>k. map_of shown k = None) [''name'', ''username'', ''email'']"
    and "map_of shown ''id'' = Some i" "map_of shown ''profile_image_url'' = Some (JStr url)"
    and "map_of shown ''tier_id'' = Some JNull"
  shows "accepts (UserRead_schema lib) (shown @ body)"
  using assms by (auto simp: schema_defs split: option.splits)

end
