(* ===== verification/Scripts.thy ===== *)
theory Scripts
  imports Schemas Db_Sessions Settings_Sections
begin

text \<open>
  The command-line programs: setup.py of the repository, src/scripts (migrations, their
  verification, the first user, the first tier, the clean-up of the token blacklist), and
  admin/views.py.

  Files, the Alembic command line, the database session and the console are arguments: records or
  functions on a state of any type.  What is printed and logged is left out; how a program ends is
  not.  The lemmas say which files the set-up copies, what it answers, and what the first user is.
\<close>

section \<open>setup.py\<close>

record 'f file_system =
  fs_exists :: "string \<Rightarrow> 'f \<Rightarrow> bool"
  fs_copy :: "string \<Rightarrow> string \<Rightarrow> 'f \<Rightarrow> (exn + unit) \<times> 'f"

definition DEPLOYMENTS :: "(string \<times> string) list" where
  "DEPLOYMENTS =
     [(''local'', ''scripts/local_with_uvicorn''),
      (''staging'', ''scripts/gunicorn_managing_uvicorn_workers''),
      (''production'', ''scripts/production_with_nginx'')]"

definition files_to_copy :: "(string \<times> string) list" where
  "files_to_copy =
     [(''Dockerfile'', ''Dockerfile''), (''docker-compose.yml'', ''docker-compose.yml''), (''.env.example'', ''src/.env'')]"

fun copy_each :: "'f file_system \<Rightarrow> string \<Rightarrow> (string \<times> string) list \<Rightarrow> bool \<Rightarrow> 'f \<Rightarrow> bool \<times> 'f" where
  "copy_each fs source_path [] success f = (success, f)"
| "copy_each fs source_path ((source_file, dest) # rest) success f =
     (let source = source_path @ ''/'' @ source_file
      in if \<not> fs_exists fs source f then copy_each fs source_path rest success f
         else (case fs_copy fs source dest f of
                 (Inl e, f') \<Rightarrow> copy_each fs source_path rest False f'
               | (Inr _, f') \<Rightarrow> copy_each fs source_path rest success f'))"

definition copy_files :: "'f file_system \<Rightarrow> string \<Rightarrow> 'f \<Rightarrow> bool \<times> 'f" where
  "copy_files fs deployment_type f =
     (case map_of DEPLOYMENTS deployment_type of
        None \<Rightarrow> (False, f)
      | Some source_path \<Rightarrow>
          if \<not> fs_exists fs source_path f then (False, f) else copy_each fs source_path files_to_copy True f)"

text \<open>\<open>isdigit\<close> holds of the superscripts one, two and three too, which \<open>int\<close> refuses.\<close>

definition is_digit_char :: "char \<Rightarrow> bool" where
  "is_digit_char c \<longleftrightarrow> (let n = of_char c :: nat in 48 \<le> n \<and> n \<le> 57 \<or> n = 178 \<or> n = 179 \<or> n = 185)"

definition py_isdigit :: "string \<Rightarrow> bool" where
  "py_isdigit s \<longleftrightarrow> s \<noteq> [] \<and> list_all is_digit_char s"

datatype choice = Picked string | Ask_Again | Value_Error

definition choose_named :: "string \<Rightarrow> choice" where
  "choose_named choice =
     (if py_lower choice \<in> set (map fst DEPLOYMENTS) then Picked (py_lower choice) else Ask_Again)"

definition read_choice :: "string \<Rightarrow> choice" where
  "read_choice raw =
     (let choice = py_strip raw; options = map fst DEPLOYMENTS
      in if py_isdigit choice
         then (case py_int choice of
                 None \<Rightarrow> Value_Error
               | Some n \<Rightarrow> if 1 \<le> n \<and> n \<le> int (length options) then Picked (options ! nat (n - 1)) else choose_named choice)
         else choose_named choice)"

datatype console = Line string | Interrupt | End_Of_Input

datatype interaction = Chosen string | Cancelled | Crashed | Waiting

fun interactive_setup :: "console list \<Rightarrow> interaction" where
  "interactive_setup [] = Waiting"
| "interactive_setup (Line raw # rest) =
     (case read_choice raw of Picked key \<Rightarrow> Chosen key | Ask_Again \<Rightarrow> interactive_setup rest | Value_Error \<Rightarrow> Crashed)"
| "interactive_setup (Interrupt # rest) = Cancelled"
| "interactive_setup (End_Of_Input # rest) = Cancelled"

datatype program_end = Exit_Status nat | Uncaught | Not_Ended

definition run_copy :: "'f file_system \<Rightarrow> string \<Rightarrow> 'f \<Rightarrow> program_end \<times> 'f" where
  "run_copy fs deployment_type f =
     (case copy_files fs deployment_type f of (success, f') \<Rightarrow> (Exit_Status (if success then 0 else 1), f'))"

definition setup_main :: "'f file_system \<Rightarrow> string list \<Rightarrow> console list \<Rightarrow> 'f \<Rightarrow> program_end \<times> 'f" where
  "setup_main fs args input f =
     (if args \<noteq> [] \<and> hd args \<in> {''-h'', ''--help'', ''help''} then (Exit_Status 0, f)
      else case args of
        [a] \<Rightarrow> run_copy fs (py_lower a) f
      | [] \<Rightarrow> (case interactive_setup input of
                Chosen key \<Rightarrow> run_copy fs key f
              | Cancelled \<Rightarrow> (Exit_Status 0, f)
              | Crashed \<Rightarrow> (Uncaught, f)
              | Waiting \<Rightarrow> (Not_Ended, f))
      | _ \<Rightarrow> (Exit_Status 0, f))"

section \<open>Migrations\<close>

type_synonym 'w alembic = "string list \<Rightarrow> string \<Rightarrow> 'w \<Rightarrow> exn option \<times> 'w"

definition build_alembic_argv :: "string \<Rightarrow> string list \<Rightarrow> string list" where
  "build_alembic_argv config_path argv = ''-c'' # config_path # argv"

definition migrations_main :: "'w alembic \<Rightarrow> string \<Rightarrow> string list \<Rightarrow> 'w \<Rightarrow> exn option \<times> 'w" where
  "migrations_main alembic config_path argv w = alembic (build_alembic_argv config_path argv) ''db-migrate'' w"

definition build_verification_commands :: "string list list" where
  "build_verification_commands = [[''upgrade'', ''head''], [''check'']]"

definition run_verification_command :: "'w alembic \<Rightarrow> string \<Rightarrow> string list \<Rightarrow> 'w \<Rightarrow> exn option \<times> 'w" where
  "run_verification_command alembic config_path argv w = alembic (build_alembic_argv config_path argv) ''db-migrate-verify'' w"

fun run_verification_commands :: "'w alembic \<Rightarrow> string \<Rightarrow> string list list \<Rightarrow> 'w \<Rightarrow> exn option \<times> 'w" where
  "run_verification_commands alembic config_path [] w = (None, w)"
| "run_verification_commands alembic config_path (command # rest) w =
     (case run_verification_command alembic config_path command w of
        (Some e, w') \<Rightarrow> (Some e, w')
      | (None, w') \<Rightarrow> run_verification_commands alembic config_path rest w')"

definition verify_main :: "'w alembic \<Rightarrow> string \<Rightarrow> string list \<Rightarrow> 'w \<Rightarrow> exn option \<times> 'w" where
  "verify_main alembic config_path command_args w =
     (if command_args \<noteq> []
      then (Some \<lparr> exn_message = ''db-migrate-verify does not accept additional arguments.'', exn_code = None \<rparr>, w)
      else run_verification_commands alembic config_path build_verification_commands w)"

section \<open>First rows\<close>

text \<open>The session of a script: its transactions, a query by one column, an insertion.\<close>

record 's script_session =
  sn_session :: "('s, db_exn) db_session"
  sn_exists :: "dict \<Rightarrow> 's \<Rightarrow> (db_exn + bool) \<times> 's"
  sn_insert :: "dict \<Rightarrow> 's \<Rightarrow> (db_exn + unit) \<times> 's"

datatype first_row = Created | Already_There | Error_Logged

definition create_first_row :: "'s script_session \<Rightarrow> dict \<Rightarrow> dict \<Rightarrow> 's \<Rightarrow> first_row \<times> 's" where
  "create_first_row sn key row s =
     (case sn_exists sn key s of
        (Inl e, s1) \<Rightarrow> (Error_Logged, s1)
      | (Inr True, s1) \<Rightarrow> (Already_There, s1)
      | (Inr False, s1) \<Rightarrow>
          (case database_transaction (sn_session sn) (sn_insert sn row) s1 of
             (Inl e, s2) \<Rightarrow> (Error_Logged, s2)
           | (Inr _, s2) \<Rightarrow> (Created, s2)))"

definition create_first_user ::
  "'s script_session \<Rightarrow> first_user_settings \<Rightarrow> bcrypt_lib \<Rightarrow> crypt_settings \<Rightarrow> 's \<Rightarrow> first_row \<times> 's" where
  "create_first_user sn cfg bc cs s =
     (case get_password_hash bc (ADMIN_PASSWORD cfg) cs of
        Inl e \<Rightarrow> (Error_Logged, s)
      | Inr hashed_password \<Rightarrow>
          create_first_row sn [(''email'', JStr (ADMIN_EMAIL cfg))]
            [(''name'', JStr (ADMIN_NAME cfg)), (''email'', JStr (ADMIN_EMAIL cfg)), (''username'', JStr (ADMIN_USERNAME cfg)),
             (''hashed_password'', JStr hashed_password), (''is_superuser'', JBool True)] s)"

definition create_first_tier :: "'s script_session \<Rightarrow> string option \<Rightarrow> 's \<Rightarrow> first_row \<times> 's" where
  "create_first_tier sn tier_name s =
     (let row = [(''name'', JStr (case tier_name of Some n \<Rightarrow> n | None \<Rightarrow> ''free''))] in create_first_row sn row row s)"

text \<open>The clean-up runs in one transaction of a script's session; the blacklist is read from and
  written to the state of the session.\<close>

definition cleanup_async_main ::
  "('s, db_exn) db_session \<Rightarrow> ('s \<Rightarrow> blacklist) \<Rightarrow> (blacklist \<Rightarrow> 's \<Rightarrow> 's) \<Rightarrow> instant \<Rightarrow> 's \<Rightarrow> (db_exn + int) \<times> 's" where
  "cleanup_async_main session rows with_rows now s =
     database_transaction session
       (\<lambda>s. case cleanup_expired_token_blacklist_entries now None (rows s) of (n, t) \<Rightarrow> (Inr n, with_rows t s)) s"

section \<open>Administration\<close>

record admin_view =
  av_model :: orm_model
  av_create :: body_schema
  av_update :: body_schema
  av_actions :: "string list"

definition register_admin_views :: "schema_lib \<Rightarrow> admin_view list" where
  "register_admin_views lib =
     [\<lparr> av_model = User_model, av_create = UserCreate_schema lib, av_update = UserUpdate_schema lib,
        av_actions = [''view'', ''create'', ''update''] \<rparr>,
      \<lparr> av_model = Tier_model, av_create = TierCreate_schema, av_update = TierUpdate_schema,
        av_actions = [''view'', ''create'', ''update'', ''delete''] \<rparr>,
      \<lparr> av_model = Post_model, av_create = PostCreateAdmin_schema lib, av_update = PostUpdate_schema,
        av_actions = [''view'', ''create'', ''update'', ''delete''] \<rparr>]"

section \<open>What the set-up does\<close>

text \<open>A file system that never fails: paths with their content.\<close>

definition memory_files :: "(string \<Rightarrow> string option) file_system" where
  "memory_files = \<lparr> fs_exists = (\<lambda>p f. f p \<noteq> None), fs_copy = (\<lambda>s d f. (Inr (), f(d := f s))) \<rparr>"

lemma copy_each_memory:
  assumes "list_all (\<lambda>(a, d). \<forall>b. d \<noteq> src @ ''/'' @ b) files" "distinct (map snd files)"
  shows "copy_each memory_files src files ok f =
    (ok, \<lambda>p. case map_of (map (\<lambda>(a, d). (d, src @ ''/'' @ a)) files) p of
             Some source \<Rightarrow> if f source = None then f p else f source | None \<Rightarrow> f p)"
  using assms
proof (induction files arbitrary: f)
  case (Cons x files)
  obtain a d where x: "x = (a, d)" by fastforce
  have other: "map_of (map (\<lambda>(a, d). (d, src @ ''/'' @ a)) files) d = None"
    using Cons.prems(2) by (force simp: x map_of_eq_None_iff)
  show ?case
  proof (cases "f (src @ ''/'' @ a)")
    case None
    then show ?thesis using Cons other by (auto simp: x memory_files_def fun_eq_iff split: option.split)
  next
    case (Some c)
    have "(f(d := Some c)) (src @ ''/'' @ b) = f (src @ ''/'' @ b)" for b using Cons.prems(1) by (auto simp: x)
    moreover have "\<exists>b. s = src @ ''/'' @ b" if "map_of (map (\<lambda>(a, d). (d, src @ ''/'' @ a)) files) p = Some s" for p s
      using map_of_SomeD [OF that] by auto
    ultimately show ?thesis using Some Cons other
      by (fastforce simp: x memory_files_def fun_eq_iff split: option.split)
  qed
qed simp

text \<open>The set-up replaces each of the three files whose source exists, src/.env included, and changes
  nothing else; it succeeds even when no source exists.\<close>

lemma setup_copies_what_exists:
  assumes "map_of DEPLOYMENTS t = Some src" "f src \<noteq> None"
  shows "copy_files memory_files t f =
    (True, \<lambda>p. case map_of (map (\<lambda>(a, d). (d, src @ ''/'' @ a)) files_to_copy) p of
               Some source \<Rightarrow> if f source = None then f p else f source | None \<Rightarrow> f p)"
proof -
  have "take 8 src = ''scripts/''"
    using assms(1) by (auto simp: DEPLOYMENTS_def split: if_splits)
  then obtain rest where "src = ''scripts/'' @ rest" by (metis append_take_drop_id)
  then have "list_all (\<lambda>(a, d). \<forall>b. d \<noteq> src @ ''/'' @ b) files_to_copy"
    by (auto simp: files_to_copy_def)
  then have "copy_each memory_files src files_to_copy True f =
    (True, \<lambda>p. case map_of (map (\<lambda>(a, d). (d, src @ ''/'' @ a)) files_to_copy) p of
               Some source \<Rightarrow> if f source = None then f p else f source | None \<Rightarrow> f p)"
    by (rule copy_each_memory) (simp add: files_to_copy_def)
  then show ?thesis using assms by (simp add: copy_files_def memory_files_def)
qed

lemma unknown_deployment_fails:
  "py_lower a \<notin> set (map fst DEPLOYMENTS) \<Longrightarrow> a \<notin> {''-h'', ''--help'', ''help''} \<Longrightarrow>
    setup_main fs [a] input f = (Exit_Status 1, f)"
  by (simp add: setup_main_def run_copy_def copy_files_def flip: map_of_eq_None_iff)

lemma choice_is_known: "read_choice raw = Picked key \<Longrightarrow> key \<in> set (map fst DEPLOYMENTS)"
  by (auto simp: read_choice_def choose_named_def Let_def DEPLOYMENTS_def nth_Cons' split: if_splits option.splits)

text \<open>A superscript is a digit to the first test and no number to the second.\<close>

lemma superscript_crashes: "setup_main fs [] (Line [CHR 0xB2] # rest) f = (Uncaught, f)"
proof -
  have "read_choice [CHR 0xB2] = Value_Error" by code_simp
  then show ?thesis by (simp add: setup_main_def)
qed

section \<open>What the verification runs\<close>

text \<open>The drift check runs on the upgraded database, and only if the upgrade did not fail.\<close>

lemma verification_checks_the_upgraded_database:
  "verify_main alembic path [] w =
    (case run_verification_command alembic path [''upgrade'', ''head''] w of
       (Some e, w') \<Rightarrow> (Some e, w')
     | (None, w') \<Rightarrow> run_verification_command alembic path [''check''] w')"
  by (simp add: verify_main_def build_verification_commands_def split: prod.split option.split)

section \<open>The first user\<close>

text \<open>A session on a table of rows: what is committed and what the transaction sees.\<close>

definition clashes :: "dict \<Rightarrow> dict \<Rightarrow> bool" where
  "clashes row old \<longleftrightarrow> list_ex (\<lambda>k. map_of row k \<noteq> None \<and> map_of row k = map_of old k) [''username'', ''email'']"

definition integrity_error :: db_exn where
  "integrity_error = \<lparr> dx_class = Db_IntegrityError, dx_connection_invalidated = False, dx_message = ''unique'' \<rparr>"

definition table_session :: "(dict list \<times> dict list) script_session" where
  "table_session =
     \<lparr> sn_session = \<lparr> ds_commit = (\<lambda>(old, new). (Inr (), new, new)), ds_rollback = (\<lambda>(old, new). (Inr (), old, old)) \<rparr>,
       sn_exists = (\<lambda>key (old, new). (Inr (list_ex (\<lambda>r. list_all (\<lambda>(k, v). map_of r k = Some v) key) new), old, new)),
       sn_insert = (\<lambda>row (old, new). if list_ex (clashes row) new then (Inl integrity_error, old, new) else (Inr (), old, new @ [row])) \<rparr>"

lemma first_user_cases:
  "create_first_user table_session cfg bc cs (rows, rows) =
    (case get_password_hash bc (ADMIN_PASSWORD cfg) cs of
       Inl e \<Rightarrow> (Error_Logged, rows, rows)
     | Inr h \<Rightarrow>
         if list_ex (\<lambda>r. map_of r ''email'' = Some (JStr (ADMIN_EMAIL cfg))) rows then (Already_There, rows, rows)
         else if list_ex (\<lambda>r. map_of r ''username'' = Some (JStr (ADMIN_USERNAME cfg))) rows then (Error_Logged, rows, rows)
         else let new = rows @ [[(''name'', JStr (ADMIN_NAME cfg)), (''email'', JStr (ADMIN_EMAIL cfg)),
                (''username'', JStr (ADMIN_USERNAME cfg)), (''hashed_password'', JStr h), (''is_superuser'', JBool True)]]
              in (Created, new, new))"
  by (auto simp: create_first_user_def create_first_row_def table_session_def database_transaction_def clashes_def
      list_ex_iff Let_def split: sum.split)

text \<open>Running the script again changes nothing; and a user who registered the address of the
  administrator before keeps the script from making one, under a message that says the administrator
  exists.\<close>

lemma first_user_is_idempotent:
  assumes "create_first_user table_session cfg bc cs (rows, rows) = (r, s)"
  shows "snd (create_first_user table_session cfg bc cs s) = s"
  using assms by (auto simp: first_user_cases Let_def split: sum.splits if_splits)

lemma registered_address_blocks_the_administrator:
  assumes "get_password_hash bc (ADMIN_PASSWORD cfg) cs = Inr h" "r \<in> set rows"
    "map_of r ''email'' = Some (JStr (ADMIN_EMAIL cfg))" "\<forall>r \<in> set rows. map_of r ''is_superuser'' \<noteq> Some (JBool True)"
  shows "\<exists>s. create_first_user table_session cfg bc cs (rows, rows) = (Already_There, s)
    \<and> (\<forall>r \<in> set (fst s). map_of r ''is_superuser'' \<noteq> Some (JBool True))"
proof -
  have "list_ex (\<lambda>r. map_of r ''email'' = Some (JStr (ADMIN_EMAIL cfg))) rows"
    using assms(2,3) by (auto simp: list_ex_iff)
  then show ?thesis using assms(1,4) by (simp add: first_user_cases)
qed

text \<open>The script does not apply the declaration of a user: a name that the settings admit can make a
  user whom no response can show.\<close>

lemma administrator_may_be_unreadable: "\<not> username_field (JStr ''Admin_1'')"
  by (simp add: username_field_iff is_az_def is_09_def in_range_def)

section \<open>What is administered\<close>

lemma rate_limits_are_not_administered:
  "RateLimit_model \<in> set orm_models" "RateLimit_model \<notin> set (map av_model (register_admin_views lib))"
  by (simp_all add: orm_models_def register_admin_views_def RateLimit_model_def User_model_def Tier_model_def Post_model_def)

end
