(* ===== verification/Spec2Isabelle.thy ===== *)
theory Spec2Isabelle
  imports Http_Theorems Resilience_Theorems Workflow_Job Webhook_Later
    Authorization_Theorems Scheduler_Theorems Token_Theorems Cache_Theorems Rate_Limit_Theorems Service_Theorems
    Db_Sessions Queue_Names Sync Settings_Theorems Integration_Clients Asgi_Theorems Http_Hooks Lifecycle_Theorems Providers Health
    Api_Route_Theorems Schema_Theorems Payloads Http_Session_Theorems Scripts
begin

text \<open>
  A verification development for a FastAPI application template (src/src/app, its migrations
  and scripts): its workflow engine, background jobs and their scheduler, webhook intake,
  outbound integrations, authentication and authorization, caching and rate limiting, the
  domain services with their endpoints, the middleware stack and the life of the process, the
  settings, and the database schema.

  \<^bold>\<open>Parts of the program and their interaction.\<close>  A webhook delivery arrives at a route,
  which runs \<open>ingest_webhook_event\<close> (webhooks/ingestion.py): signature, payload and
  replay checks, a row in the inbox table, an acknowledgement, a hand-off to the job
  queue.  A worker runs job classes through \<open>WorkerJob.execute\<close> (core/worker/jobs.py),
  which decides between result, retry with back-off (core/worker/retry.py) and failure;
  failures that are given up go to the dead-letter table (core/worker/dead_letter.py,
  webhooks/dead_letter.py), from which an operator replays them.  A workflow execution
  (core/worker/workflow.py) is a database row that step jobs advance, with compensation
  when a step fails for good.  Calls to providers go through the HTTP client with its
  circuit breaker and rate-limit handling (integrations/http_client), whose errors are
  classified for the resilience helpers (integrations/contracts).  Cron jobs run under a
  lock and a drift guard in Redis (core/worker/scheduler.py).  A request of a user is
  authenticated by a token (core/security.py, domain/auth_service.py, api/dependencies.py),
  counted by the rate limiter (core/utils/rate_limit.py), authorized against a policy of
  roles and permissions (core/authorization.py), answered from the cache when it may be
  (core/utils/cache.py), and otherwise by a domain service (domain/) over its repositories.
  Around all of it stand the middleware stack that \<open>create_application\<close> builds, the lifespan that
  opens and closes pools, engine, metrics, tracing and error reporting (core/setup.py,
  core/worker/settings.py), the settings that all of them read (core/config.py), and the tables
  that the migrations create.

  \<^bold>\<open>Theories, in the order of their dependency.\<close>

  \<^item> \<open>Prelude\<close>: Python values (JSON, dicts as association lists in insertion order,
    truth values, text of numbers and dates), exceptions, clocks, results as sums, tables
    with a unique constraint, the locales \<open>unique_ledger\<close> and \<open>registry\<close>.
  \<^item> \<open>Retry\<close>: core/worker/retry.py; the locale \<open>backoff_curve\<close>, interpreted on the worker's
    and on the HTTP client's policy.
  \<^item> \<open>Workflow_Model\<close>, \<open>Workflow_Runner\<close>: the definitions, the row and every operation of
    \<open>WorkflowRunner\<close>.  \<open>Workflow_Props\<close>: what one operation does to the row.
    \<open>Workflow_Saga\<close>: the abstract saga machine, a pair of an outcome and a list of
    attempts, and the simulation.  \<open>Workflow_Runs\<close>: reachable rows as an inductive
    relation, fair driving of a workflow, termination.  \<open>Workflow_Theorems\<close>: properties.
  \<^item> \<open>Request_Context\<close>: core/request_context.py.  \<open>Jobs\<close>, \<open>Job_Theorems\<close>: core/worker/jobs.py
    and the job log context.  \<open>Workflow_Job\<close>: the job that advances a workflow, over a
    table of rows, with the mapper's change tracking as an argument.  Where the runner assigns
    the attribute that holds the context, and where it changes the dictionary in place, is part
    of the model of the runner.
  \<^item> \<open>Dead_Letters\<close>, \<open>Dead_Letter_Theorems\<close>: the dead-letter table, the job store, the
    replay tool.
  \<^item> \<open>Http_Errors\<close>, \<open>Circuit_Breaker\<close>, \<open>Http_Client\<close>, \<open>Http_Theorems\<close>: errors, rate-limit
    headers, breaker, retry decisions and the request path.  \<open>Integration_Errors\<close>,
    \<open>Resilience\<close>, \<open>Resilience_Theorems\<close>: classification, fallback, partial failure,
    compensation and deferred retries.
  \<^item> \<open>Webhook_Model\<close> (inbox table and its store), \<open>Webhook_Guards\<close> (replay protection,
    idempotency ledger, HMAC), \<open>Webhook_Ingestion\<close> (the flow), \<open>Webhook_Processing\<close> (job
    request, retry decision, dead letters), \<open>Webhook_Operations\<close> (retention, replay
    tooling, correlation), \<open>Webhook_Validation\<close> (checks, registry, dispatch map),
    \<open>Webhook_Lemmas\<close>, \<open>Webhook_Theorems\<close> and \<open>Webhook_Later\<close> (properties; the first also has
    \<open>receive_webhook\<close>, an ingestion inside the transaction of its route).
  \<^item> \<open>Authorization\<close>, \<open>Authorization_Theorems\<close>: core/authorization.py.  \<open>Tokens\<close>,
    \<open>Auth_Service\<close>, \<open>Token_Theorems\<close>: core/security.py, the token blacklist with its
    clean-up, domain/auth_service.py and the authentication dependencies.
  \<^item> \<open>Timestamps\<close> (numbers and instants as text, with the round trip) and \<open>Redis\<close> (a client as
    a record of commands, the documented behaviour of each as a contract, a store that keeps
    them).  \<open>Scheduler\<close>, \<open>Scheduler_Theorems\<close>: core/worker/scheduler.py.  \<open>Rate_Limit\<close>,
    \<open>Rate_Limit_Theorems\<close>: core/utils/rate_limit.py and the rate-limit dependencies.
    \<open>Cache\<close>, \<open>Cache_Theorems\<close>: core/utils/cache.py.
  \<^item> \<open>Domain_Services\<close>, \<open>Service_Theorems\<close>: the services of domain/, the query parameters, the
    cached post endpoints.  \<open>Db_Sessions\<close>: core/db/sessions.py.  \<open>Queue_Names\<close>: queue names and
    concurrency profiles of core/worker.  \<open>Payloads\<close>: core/worker/serialization.py.
  \<^item> \<open>Settings_Values\<close> (helpers), \<open>Settings_Sections\<close> (the sections with defaults, constraints
    and validators), \<open>Settings_Profiles\<close> (environment profiles and their safety checks),
    \<open>Settings_Theorems\<close>: core/config.py.
  \<^item> \<open>Sync\<close>, \<open>Integration_Clients\<close>: the remaining contracts of integrations/contracts.
    \<open>Http_Hooks\<close>: authentication, logging and instrumentation of outbound calls.
    \<open>Http_Sessions\<close>, \<open>Http_Session_Theorems\<close>: the configuration and the client object, on a heap
    of configurations and \<open>httpx\<close> clients.  \<open>Providers\<close>: the provider bases and the example provider
    of webhooks/.
  \<^item> \<open>Api_Errors\<close> (api/errors.py), \<open>Metrics\<close>, \<open>Asgi\<close> (middleware/), \<open>Application\<close> (the stack of
    \<open>create_application\<close>), \<open>Asgi_Theorems\<close>.  An ASGI application is a tree of the messages it
    receives and sends, and a middleware a function on such trees.  \<open>Log_Redaction\<close>, \<open>Sentry\<close>,
    \<open>Tracing\<close>: what is logged, reported and traced.
  \<^item> \<open>Engine\<close> (engine and pool set-up), \<open>Lifecycle\<close>, \<open>Lifecycle_Theorems\<close>: the lifespans of the API
    and the worker, graceful shutdown, the administration interface.  \<open>Health\<close>: core/health.py
    and the health endpoints.
  \<^item> \<open>Api_Routes\<close> (route tables and routers; the router of FastAPI is a record of operations),
    \<open>Api_Endpoints\<close> (every endpoint), \<open>Api_Route_Theorems\<close>: api/.
  \<^item> \<open>Schema\<close> (an abstract database schema), \<open>Migrations\<close> (every upgrade and downgrade),
    \<open>Orm_Models\<close> (every table as its class declares it), \<open>Schema_Theorems\<close>.  \<open>Schemas\<close>: the
    request bodies of schemas/, with the regular expressions they use.  \<open>Scripts\<close>: setup.py,
    src/scripts and admin/views.py.

  \<^bold>\<open>Correspondence.\<close>  A definition has the name of the Python function, method or class it
  translates, with a prefix or suffix where two modules share a name; record fields carry
  a two-letter prefix and the Python attribute name.  An object that the code mutates is a
  record returned updated; an operation that raises returns \<open>Inl\<close> of the error; handlers,
  hooks, verifiers and steps that the user of the template supplies are functions of their
  input and of a world of any type, so the properties hold for all of them.  What is not
  in the sources is an argument: the ORM's change tracking, the queue, httpx, the digest,
  MAC, decoder and JSON parser.  An instant is an integer number of microseconds, a float
  an exact rational, a string a list of characters of code point below 256.

  \<^bold>\<open>What the lemmas show.\<close>  The runner refines the abstract saga machine and its reachable
  rows are sound; a workflow without waits and branches finishes within the sum of its
  attempts; compensation really calls every compensating step up to the failed one, in
  reverse order and each in the world the one before it left, and logs what each did.  Delays of both back-off
  policies are bounded, monotone and saturate.  The breaker's decision is a function of
  its history.  An ingestion has one of three effects on the inbox, and over any sequence
  of deliveries replay protection accepts an event at most once per window; a delivery whose
  hand-off fails is rolled back with its row and can be delivered again.  Dead-letter
  records and idempotency keys obey one contract, \<open>unique_ledger\<close>, from which their
  uniqueness and collisions follow.  Expanding roles computes a closure, every subject is
  well formed, and a check is decided by an explicit set of grants.  A refresh token works
  once, whatever requests come in between.  Scheduled runs exclude each other while none
  outlives its lock, and once a time to live has passed the next begin runs unless the drift
  guard skips it.  A window of the rate limiter admits at most its limit, even when Redis fails; a
  cached read of a post answers with a post that the service has found since the last successful
  change through the same path, which is the current one unless another path changed it; accounts
  stay distinct over any sequence of requests.  Settings that load in a staging or production
  profile meet the listed conditions, which leave out the rotated verification keys and the
  password of a disabled administrator.  The runs of the body limit are those of the application
  with an exception for each message over the budget, and a 413 answer where that comes out;
  redaction replaces the sensitive fields and keeps the node at every other position; the lifespan
  closes what it opened and a drained process stays idle, answering 503; an HTTP client closes what it opened; a process is ready exactly
  when its dependencies are.  An anonymous caller gets through to the listed routes and no
  others.  The migrations build the tables that the models declare, and every downgrade undoes its
  upgrade; accepted bodies fit their columns, but for the email.  The payload check accepts what has
  a JSON encoding, which is more than its documented contract.  The properties of kind error record where the code departs from its
  documentation or its aim.

  \<^bold>\<open>Bounds.\<close>  No definition uses fuel: every loop of the modelled code is structural or has
  a measure.  Runs of workflows and jobs are driven by an explicit number of resumptions or
  by the list of deliveries, and termination is stated with the number that is enough.

  The loop that deletes cached keys by pattern follows the cursors of Redis and is a partial
  function; \<open>scan_loop_returns\<close> says when it returns.

  \<^bold>\<open>Not modelled.\<close>  Modules that only re-export names (the package files, platform/,
  core/webhooks.py), the entry point of Alembic (migrations/env.py), the assembly of loggers and
  handlers, the texts that programs print, and the worked examples in docstrings.  Libraries are
  arguments or documented contracts: FastAPI's routing, pydantic's reading of values, SQLAlchemy,
  Redis, arq, httpx, OpenTelemetry, Sentry, bcrypt and the JWT library.  Concurrency inside one
  operation (two workers on one row) is outside the model, and a phase of a scheduled run or of a
  cached request is atomic (but for \<open>overlapping_read_caches_stale_value\<close>): an operation runs on the table as its session sees it.  Rounding of
  floats, strings beyond Latin-1 and exceptions of the logger are outside it as well.
\<close>

end
